(* ===== verification/Prelude.thy ===== *)
theory Prelude
  imports Main "HOL-Library.Word" "HOL-Library.Multiset" "HOL-Library.Code_Target_Numeral"
begin

text \<open>
  Shared vocabulary of the development.

  Go's \<^verbatim>\<open>error\<close> interface is modelled by the datatype \<open>go_error\<close>: plain messages, errors
  that wrap another error (\<^verbatim>\<open>fmt.Errorf("...: %w", err)\<close>), package-level sentinels, kernel error
  numbers, gRPC status errors, the permanent-error wrapper of the back-off library and an
  aggregated multi-error. A function that returns \<^verbatim>\<open>error\<close> is modelled as returning
  \<open>go_error option\<close> (\<open>None\<close> is \<^verbatim>\<open>nil\<close>); one that returns \<^verbatim>\<open>(T, error)\<close> as returning
  \<open>'a result\<close>, \<open>Inl\<close> for the error. A run-time panic is a separate outcome where a component
  can reach one.

  The theory also collects the list, option and map lemmas the components share.
\<close>

section \<open>Errors\<close>

datatype errno = ESRCH | ENOENT | EEXIST | EINVAL | EAFNOSUPPORT | EOPNOTSUPP | ENOSYS | EOther nat

datatype grpc_code = OK | Canceled | Unknown | InvalidArgument | DeadlineExceeded | NotFound
  | AlreadyExists | PermissionDenied | ResourceExhausted | FailedPrecondition | Aborted
  | OutOfRange | Unimplemented | Internal | Unavailable | DataLoss | Unauthenticated

datatype go_error =
    ErrMsg string
  | ErrWrap string go_error
  | ErrSentinel string
  | ErrSys errno
  | ErrStatus grpc_code string
  | ErrPermanent go_error
  | ErrMulti "go_error list"

type_synonym 'a result = "go_error + 'a"

text \<open>\<^verbatim>\<open>errors.Is\<close>: the target occurs somewhere along the chain of wrapped errors.\<close>

fun errors_Is :: "go_error \<Rightarrow> go_error \<Rightarrow> bool" where
  "errors_Is (ErrWrap m e) t = (ErrWrap m e = t \<or> errors_Is e t)"
| "errors_Is (ErrPermanent e) t = (ErrPermanent e = t \<or> errors_Is e t)"
| "errors_Is (ErrMulti es) t = (ErrMulti es = t \<or> list_ex (\<lambda>e. errors_Is e t) es)"
| "errors_Is e t = (e = t)"

text \<open>
  An aggregated error (\<^verbatim>\<open>*multierror.Error\<close>) is the list of the errors appended to it. A function
  that ends in \<^verbatim>\<open>return nberrors.FormatErrorOrNil(merr)\<close> is modelled as returning that list:
  \<open>[]\<close> is \<^verbatim>\<open>nil\<close>, and a caller that wraps a non-nil one wraps \<open>ErrMulti\<close> of the list.
\<close>

lemma errors_Is_refl [simp]: "errors_Is e e"
  by (cases e) auto

section \<open>Results\<close>

definition bind_result :: "'a result \<Rightarrow> ('a \<Rightarrow> 'b result) \<Rightarrow> 'b result" where
  "bind_result r f = (case r of Inl e \<Rightarrow> Inl e | Inr x \<Rightarrow> f x)"

lemma bind_result_simps [simp]:
  "bind_result (Inl e) f = Inl e"
  "bind_result (Inr x) f = f x"
  by (simp_all add: bind_result_def)

lemma bind_result_Inr_iff:
  "bind_result r f = Inr y \<longleftrightarrow> (\<exists>x. r = Inr x \<and> f x = Inr y)"
  by (cases r) auto

definition wrap_result :: "string \<Rightarrow> 'a result \<Rightarrow> 'a result" where
  "wrap_result m r = (case r of Inl e \<Rightarrow> Inl (ErrWrap m e) | Inr x \<Rightarrow> Inr x)"

lemma wrap_result_simps [simp]:
  "wrap_result m (Inl e) = Inl (ErrWrap m e)"
  "wrap_result m (Inr x) = Inr x"
  by (simp_all add: wrap_result_def)

lemma wrap_result_Inr_iff [simp]: "wrap_result m r = Inr x \<longleftrightarrow> r = Inr x"
  by (cases r) auto

text \<open>
  A loop that parses each element and stops at the first failure, as
  \<^verbatim>\<open>for _, x := range xs { y, err := f(x); if err != nil { return err }; ys = append(ys, y) }\<close> does.
\<close>

fun map_result :: "('a \<Rightarrow> 'b result) \<Rightarrow> 'a list \<Rightarrow> 'b list result" where
  "map_result f [] = Inr []"
| "map_result f (x # xs) = bind_result (f x) (\<lambda>y. bind_result (map_result f xs) (\<lambda>ys. Inr (y # ys)))"

lemma map_result_Inr_iff:
  "map_result f xs = Inr ys \<longleftrightarrow> list_all2 (\<lambda>x y. f x = Inr y) xs ys"
proof (induction xs arbitrary: ys)
  case Nil
  then show ?case by auto
next
  case (Cons x xs)
  then show ?case
    by (auto simp: bind_result_Inr_iff list_all2_Cons1)
qed

lemma map_result_length: "map_result f xs = Inr ys \<Longrightarrow> length ys = length xs"
  by (metis map_result_Inr_iff list_all2_lengthD)

lemma map_result_map: "(\<And>x. x \<in> set xs \<Longrightarrow> f x = Inr (g x)) \<Longrightarrow> map_result f xs = Inr (map g xs)"
  by (induction xs) auto

lemma map_result_append:
  "map_result f (xs @ ys) =
     bind_result (map_result f xs) (\<lambda>a. bind_result (map_result f ys) (\<lambda>b. Inr (a @ b)))"
proof (induction xs)
  case Nil
  then show ?case by (cases "map_result f ys") auto
next
  case (Cons x xs)
  then show ?case by (cases "f x"; cases "map_result f xs"; cases "map_result f ys") auto
qed

section \<open>Lists\<close>

lemma takeWhile_dropWhile_notin:
  "c \<notin> set xs \<Longrightarrow> takeWhile (\<lambda>x. x \<noteq> c) (xs @ c # ys) = xs"
  "c \<notin> set xs \<Longrightarrow> dropWhile (\<lambda>x. x \<noteq> c) (xs @ c # ys) = c # ys"
  by (induction xs) auto

lemma list_all_mono: "list_all P xs \<Longrightarrow> (\<And>x. x \<in> set xs \<Longrightarrow> P x \<Longrightarrow> Q x) \<Longrightarrow> list_all Q xs"
  by (auto simp: list_all_iff)

lemma find_distinct_key:
  "distinct (map f xs) \<Longrightarrow> x \<in> set xs \<Longrightarrow> List.find (\<lambda>y. f y = f x) xs = Some x"
  by (induction xs) (auto simp: rev_image_eqI)

end
