(* ===== verification/Go_Strings.thy ===== *)
theory Go_Strings
  imports Prelude
begin

text \<open>
  The string functions of Go's standard library that the modelled code calls: \<^verbatim>\<open>strings.Split\<close>,
  \<^verbatim>\<open>SplitN\<close>, \<^verbatim>\<open>Join\<close>, \<^verbatim>\<open>TrimSpace\<close>, \<^verbatim>\<open>Trim\<close>, \<^verbatim>\<open>HasPrefix\<close>, \<^verbatim>\<open>TrimPrefix\<close>, \<^verbatim>\<open>TrimSuffix\<close>, \<^verbatim>\<open>ToLower\<close>,
  \<^verbatim>\<open>Fields\<close>, \<^verbatim>\<open>strconv.ParseInt\<close>, \<^verbatim>\<open>strconv.Atoi\<close> and the decimal output of \<^verbatim>\<open>%d\<close>. A Go string is a
  sequence of bytes and so is the type \<open>string\<close>; the white space and the case mapping are those of
  ASCII, the only characters the protocols of the program use.

  The lemmas are the round trips the components need: splitting a joined text, parsing a printed
  number, and what trimming leaves alone.
\<close>

section \<open>Splitting and joining\<close>

fun strings_Split :: "char \<Rightarrow> string \<Rightarrow> string list" where
  "strings_Split c [] = [[]]"
| "strings_Split c (x # xs) =
     (if x = c then [] # strings_Split c xs
      else (case strings_Split c xs of [] \<Rightarrow> [[x]] | y # ys \<Rightarrow> (x # y) # ys))"

definition strings_SplitN2 :: "char \<Rightarrow> string \<Rightarrow> string list" where
  "strings_SplitN2 c s =
     (if c \<in> set s then [takeWhile (\<lambda>x. x \<noteq> c) s, tl (dropWhile (\<lambda>x. x \<noteq> c) s)] else [s])"

fun strings_Join :: "string \<Rightarrow> string list \<Rightarrow> string" where
  "strings_Join sep [] = []"
| "strings_Join sep [x] = x"
| "strings_Join sep (x # y # ys) = x @ sep @ strings_Join sep (y # ys)"

lemma strings_Split_not_Nil [simp]: "strings_Split c s \<noteq> []"
  by (cases "(c, s)" rule: strings_Split.cases) (auto split: list.splits)

lemma strings_Split_no_sep: "c \<notin> set s \<Longrightarrow> strings_Split c s = [s]"
  by (induction s) auto

lemma strings_Split_append:
  "c \<notin> set x \<Longrightarrow> strings_Split c (x @ c # s) = x # strings_Split c s"
  by (induction x) auto

lemma strings_Split_sep_free: "x \<in> set (strings_Split c s) \<Longrightarrow> c \<notin> set x"
  by (induction s arbitrary: x) (auto split: list.splits if_splits)

lemma strings_Split_Join:
  assumes "xs \<noteq> []" and "\<And>x. x \<in> set xs \<Longrightarrow> c \<notin> set x"
  shows "strings_Split c (strings_Join [c] xs) = xs"
  using assms
proof (induction "[c]" xs rule: strings_Join.induct)
  case 1
  then show ?case by simp
next
  case (2 x)
  then show ?case by (simp add: strings_Split_no_sep)
next
  case (3 x y ys)
  then show ?case by (simp add: strings_Split_append)
qed

lemma strings_Join_Split: "strings_Join [c] (strings_Split c s) = s"
proof (induction s)
  case Nil
  then show ?case by simp
next
  case (Cons x s)
  obtain y ys where split: "strings_Split c s = y # ys"
    by (cases "strings_Split c s") auto
  have "strings_Join [c] ((x # y) # ys) = x # strings_Join [c] (y # ys)"
    by (cases ys) auto
  with Cons split show ?case by (cases ys) auto
qed

text \<open>Text made of terminated lines, as \<^verbatim>\<open>sb.WriteString(... + "\n")\<close> builds it.\<close>

definition text_lines :: "string list \<Rightarrow> string" where
  "text_lines ls = concat (map (\<lambda>l. l @ [CHR 0x0A]) ls)"

lemma text_lines_simps [simp]:
  "text_lines [] = []"
  "text_lines (l # ls) = l @ CHR 0x0A # text_lines ls"
  "text_lines (xs @ ys) = text_lines xs @ text_lines ys"
  by (simp_all add: text_lines_def)

lemma strings_Split_text_lines:
  assumes "\<And>l. l \<in> set ls \<Longrightarrow> CHR 0x0A \<notin> set l"
  shows "strings_Split (CHR 0x0A) (text_lines ls @ s) = ls @ strings_Split (CHR 0x0A) s"
  using assms by (induction ls) (auto simp: strings_Split_append)

lemma strings_SplitN2_eq [simp]:
  "c \<notin> set k \<Longrightarrow> strings_SplitN2 c (k @ c # v) = [k, v]"
  by (simp add: strings_SplitN2_def takeWhile_dropWhile_notin)

lemma strings_SplitN2_length: "length (strings_SplitN2 c s) = (if c \<in> set s then 2 else 1)"
  by (simp add: strings_SplitN2_def)

section \<open>Prefixes and trimming\<close>

definition strings_HasPrefix :: "string \<Rightarrow> string \<Rightarrow> bool" where
  "strings_HasPrefix s p = (take (length p) s = p)"

definition strings_TrimPrefix :: "string \<Rightarrow> string \<Rightarrow> string" where
  "strings_TrimPrefix s p = (if strings_HasPrefix s p then drop (length p) s else s)"

definition strings_HasSuffix :: "string \<Rightarrow> string \<Rightarrow> bool" where
  "strings_HasSuffix s p = (length p \<le> length s \<and> drop (length s - length p) s = p)"

definition strings_TrimSuffix :: "string \<Rightarrow> string \<Rightarrow> string" where
  "strings_TrimSuffix s p = (if strings_HasSuffix s p then take (length s - length p) s else s)"

definition is_space :: "char \<Rightarrow> bool" where
  "is_space c = (c \<in> {CHR 0x20, CHR 0x09, CHR 0x0A, CHR 0x0B, CHR 0x0C, CHR 0x0D})"

definition trim_by :: "(char \<Rightarrow> bool) \<Rightarrow> string \<Rightarrow> string" where
  "trim_by P s = rev (dropWhile P (rev (dropWhile P s)))"

definition strings_TrimSpace :: "string \<Rightarrow> string" where
  "strings_TrimSpace s = trim_by is_space s"

definition strings_Trim :: "string \<Rightarrow> string \<Rightarrow> string" where
  "strings_Trim s cutset = trim_by (\<lambda>c. c \<in> set cutset) s"

fun strings_Fields_aux :: "string \<Rightarrow> string \<Rightarrow> string list" where
  "strings_Fields_aux acc [] = (if acc = [] then [] else [rev acc])"
| "strings_Fields_aux acc (x # xs) =
     (if is_space x then (if acc = [] then strings_Fields_aux [] xs else rev acc # strings_Fields_aux [] xs)
      else strings_Fields_aux (x # acc) xs)"

definition strings_Fields :: "string \<Rightarrow> string list" where
  "strings_Fields s = strings_Fields_aux [] s"

definition ascii_lower :: "char \<Rightarrow> char" where
  "ascii_lower c = (if 65 \<le> (of_char c :: nat) \<and> (of_char c :: nat) \<le> 90 then char_of (of_char c + 32 :: nat) else c)"

definition strings_ToLower :: "string \<Rightarrow> string" where
  "strings_ToLower s = map ascii_lower s"

lemma strings_HasPrefix_append [simp]: "strings_HasPrefix (p @ s) p"
  by (simp add: strings_HasPrefix_def)

lemma strings_HasPrefix_iff: "strings_HasPrefix s p \<longleftrightarrow> (\<exists>t. s = p @ t)"
  unfolding strings_HasPrefix_def by (metis append_eq_conv_conj append_take_drop_id)

lemma strings_TrimPrefix_append [simp]: "strings_TrimPrefix (p @ s) p = s"
  by (simp add: strings_TrimPrefix_def)

lemma trim_by_id:
  assumes "s = [] \<or> (\<not> P (hd s) \<and> \<not> P (last s))"
  shows "trim_by P s = s"
proof (cases "s = []")
  case True
  then show ?thesis by (simp add: trim_by_def)
next
  case False
  then have "dropWhile P s = s" using assms by (cases s) auto
  moreover have "dropWhile P (rev s) = rev s"
    using False assms by (cases s rule: rev_cases) auto
  ultimately show ?thesis by (simp add: trim_by_def)
qed

lemma strings_TrimSpace_id:
  "(\<And>c. c \<in> set s \<Longrightarrow> \<not> is_space c) \<Longrightarrow> strings_TrimSpace s = s"
  by (cases "s = []") (auto simp: strings_TrimSpace_def intro!: trim_by_id)

lemma strings_Fields_aux_no_space:
  assumes "x \<in> set (strings_Fields_aux acc s)" and "\<forall>c \<in> set acc. \<not> is_space c"
  shows "x \<noteq> [] \<and> (\<forall>c \<in> set x. \<not> is_space c)"
  using assms
proof (induction s arbitrary: acc)
  case Nil
  then show ?case by (simp split: if_splits)
next
  case (Cons y s)
  show ?case
  proof (cases "is_space y \<and> x = rev acc \<and> acc \<noteq> []")
    case True
    with Cons.prems(2) show ?thesis by simp
  next
    case False
    then have "x \<in> set (strings_Fields_aux (if is_space y then [] else y # acc) s)"
      using Cons.prems(1) by (simp split: if_splits)
    then show ?thesis
      by (rule Cons.IH) (use Cons.prems(2) in simp)
  qed
qed

lemma strings_Fields_no_space:
  "x \<in> set (strings_Fields s) \<Longrightarrow> x \<noteq> [] \<and> (\<forall>c \<in> set x. \<not> is_space c)"
  unfolding strings_Fields_def by (rule strings_Fields_aux_no_space) auto

section \<open>Decimal numbers\<close>

definition digit_char :: "nat \<Rightarrow> char" where
  "digit_char d = char_of (48 + d)"

definition is_digit :: "char \<Rightarrow> bool" where
  "is_digit c = (48 \<le> (of_char c :: nat) \<and> (of_char c :: nat) \<le> 57)"

fun itoa :: "nat \<Rightarrow> string" where
  "itoa n = (if n < 10 then [digit_char n] else itoa (n div 10) @ [digit_char (n mod 10)])"

declare itoa.simps [simp del]

definition itoa_int :: "int \<Rightarrow> string" where
  "itoa_int i = (if i < 0 then CHR ''-'' # itoa (nat (- i)) else itoa (nat i))"

definition dec_val :: "string \<Rightarrow> nat" where
  "dec_val s = foldl (\<lambda>a c. 10 * a + (of_char c - 48)) 0 s"

lemma of_char_digit_char: "d < 10 \<Longrightarrow> (of_char (digit_char d) :: nat) = 48 + d"
  by (simp add: digit_char_def)

lemma is_digit_digit_char: "d < 10 \<Longrightarrow> is_digit (digit_char d)"
  by (simp add: is_digit_def of_char_digit_char)

lemma dec_val_snoc: "dec_val (s @ [c]) = 10 * dec_val s + (of_char c - 48)"
  by (simp add: dec_val_def)

lemma itoa_not_Nil [simp]: "itoa n \<noteq> []"
  by (subst itoa.simps) simp

lemma itoa_digits: "c \<in> set (itoa n) \<Longrightarrow> is_digit c"
proof (induction n rule: itoa.induct)
  case (1 n)
  then show ?case
    by (subst (asm) (2) itoa.simps) (auto simp: is_digit_digit_char split: if_splits)
qed

lemma dec_val_itoa [simp]: "dec_val (itoa n) = n"
proof (induction n rule: itoa.induct)
  case (1 n)
  show ?case
  proof (cases "n < 10")
    case True
    then show ?thesis by (subst itoa.simps) (simp add: dec_val_def of_char_digit_char)
  next
    case False
    then have "dec_val (itoa n) = 10 * dec_val (itoa (n div 10)) + n mod 10"
      by (subst itoa.simps) (simp add: dec_val_snoc of_char_digit_char)
    with "1"[OF False] show ?thesis by simp
  qed
qed

lemma itoa_inject [simp]: "itoa m = itoa n \<longleftrightarrow> m = n"
  using dec_val_itoa by metis

lemma itoa_no_leading_zero: "hd (itoa n) = CHR ''0'' \<Longrightarrow> n = 0"
proof (induction n rule: itoa.induct)
  case (1 n)
  show ?case
  proof (cases "n < 10")
    case True
    then have "of_char (digit_char n) = (of_char (CHR ''0'') :: nat)"
      using "1.prems" by (subst (asm) itoa.simps) simp
    with True show ?thesis by (simp add: of_char_digit_char)
  next
    case False
    then have "hd (itoa n) = hd (itoa (n div 10))"
      by (subst itoa.simps) simp
    with "1" False show ?thesis by simp
  qed
qed

section \<open>strconv\<close>

text \<open>
  \<^verbatim>\<open>strconv.ParseInt(s, 10, 64)\<close>: an optional sign, at least one digit, nothing else, and the value
  within the signed 64-bit range.
\<close>

definition ErrSyntax :: go_error where "ErrSyntax = ErrSentinel ''strconv.ErrSyntax''"
definition ErrRange :: go_error where "ErrRange = ErrSentinel ''strconv.ErrRange''"

definition ParseUDec :: "string \<Rightarrow> nat result" where
  "ParseUDec s = (if s = [] \<or> \<not> list_all is_digit s then Inl ErrSyntax else Inr (dec_val s))"

definition strconv_ParseInt64 :: "string \<Rightarrow> int result" where
  "strconv_ParseInt64 s =
     (let neg = (s \<noteq> [] \<and> hd s = CHR ''-'');
          body = (if s \<noteq> [] \<and> (hd s = CHR ''-'' \<or> hd s = CHR ''+'') then tl s else s)
      in bind_result (ParseUDec body) (\<lambda>un.
           if \<not> neg \<and> un \<ge> 2 ^ 63 then Inl ErrRange
           else if neg \<and> un > 2 ^ 63 then Inl ErrRange
           else Inr (if neg then - int un else int un)))"

definition strconv_Atoi :: "string \<Rightarrow> int result" where
  "strconv_Atoi s = strconv_ParseInt64 s"

lemma hd_itoa_not_sign: "hd (itoa n) \<noteq> CHR ''-'' \<and> hd (itoa n) \<noteq> CHR ''+''"
proof -
  have "is_digit (hd (itoa n))" by (rule itoa_digits [of _ n]) simp
  then show ?thesis by (auto simp: is_digit_def)
qed

lemma ParseUDec_itoa [simp]: "ParseUDec (itoa n) = Inr n"
  using itoa_digits by (auto simp: ParseUDec_def list_all_iff)

theorem strconv_ParseInt64_itoa_int:
  assumes "- (2 ^ 63) \<le> i" and "i < 2 ^ 63"
  shows "strconv_ParseInt64 (itoa_int i) = Inr i"
proof (cases "i < 0")
  case True
  then show ?thesis using assms by (simp add: strconv_ParseInt64_def itoa_int_def Let_def)
next
  case False
  then show ?thesis using assms hd_itoa_not_sign [of "nat i"]
    by (simp add: strconv_ParseInt64_def itoa_int_def Let_def)
qed

lemma strconv_ParseInt64_range:
  "strconv_ParseInt64 s = Inr i \<Longrightarrow> - (2 ^ 63) \<le> i \<and> i < 2 ^ 63"
  by (auto simp: strconv_ParseInt64_def Let_def bind_result_Inr_iff split: if_splits)

lemma itoa_int_chars: "c \<in> set (itoa_int i) \<Longrightarrow> is_digit c \<or> c = CHR ''-''"
  by (auto simp: itoa_int_def dest: itoa_digits split: if_splits)

lemma is_digit_not_space: "is_digit c \<Longrightarrow> \<not> is_space c"
  by (auto simp: is_digit_def is_space_def)

lemma newline_not_in_itoa [simp]: "CHR 0x0A \<notin> set (itoa n)" "CHR 0x0A \<notin> set (itoa_int i)"
  using itoa_digits [of "CHR 0x0A" n] itoa_int_chars [of "CHR 0x0A" i] by (auto simp: is_digit_def)

lemma equals_not_in_itoa [simp]: "CHR ''='' \<notin> set (itoa n)" "CHR ''='' \<notin> set (itoa_int i)"
  using itoa_digits [of "CHR ''=''" n] itoa_int_chars [of "CHR ''=''" i] by (auto simp: is_digit_def)

section \<open>Text without white space\<close>

lemma strings_HasPrefix_simps [simp]:
  "strings_HasPrefix s []"
  "strings_HasPrefix (x # xs) (y # ys) \<longleftrightarrow> x = y \<and> strings_HasPrefix xs ys"
  "\<not> strings_HasPrefix [] (y # ys)"
  by (simp_all add: strings_HasPrefix_def)

definition plain :: "string \<Rightarrow> bool" where
  "plain s = list_all (\<lambda>c. \<not> is_space c) s"

lemma plain_simps [simp]:
  "plain []" "plain (c # s) \<longleftrightarrow> \<not> is_space c \<and> plain s" "plain (s @ t) \<longleftrightarrow> plain s \<and> plain t"
  by (auto simp: plain_def)

lemma plain_no_newline: "plain s \<Longrightarrow> CHR 0x0A \<notin> set s"
  by (auto simp: plain_def list_all_iff is_space_def)

lemma plain_TrimSpace [simp]: "plain s \<Longrightarrow> strings_TrimSpace s = s"
  by (rule strings_TrimSpace_id) (auto simp: plain_def list_all_iff)

lemma text_lines_Join: "ls \<noteq> [] \<Longrightarrow> text_lines ls = strings_Join [CHR 0x0A] ls @ [CHR 0x0A]"
  by (induction "[CHR 0x0A]" ls rule: strings_Join.induct) auto

lemma strings_Join_not_Nil: "ls \<noteq> [] \<Longrightarrow> hd ls \<noteq> [] \<Longrightarrow> strings_Join sep ls \<noteq> []"
  by (induction sep ls rule: strings_Join.induct) auto

lemma hd_strings_Join: "ls \<noteq> [] \<Longrightarrow> hd ls \<noteq> [] \<Longrightarrow> hd (strings_Join sep ls) = hd (hd ls)"
  by (induction sep ls rule: strings_Join.induct) auto

lemma last_strings_Join: "ls \<noteq> [] \<Longrightarrow> last ls \<noteq> [] \<Longrightarrow> 
   strings_Join sep ls \<noteq> [] \<and> last (strings_Join sep ls) = last (last ls)"
  by (induction sep ls rule: strings_Join.induct) auto

lemma trim_by_snoc: "P c \<Longrightarrow> trim_by P (s @ [c]) = trim_by P s"
  by (cases "\<forall>x\<in>set s. P x")
    (auto simp: trim_by_def dropWhile_append dropWhile_eq_Nil_conv dest: set_dropWhileD)

lemma plain_last: "plain s \<Longrightarrow> s \<noteq> [] \<Longrightarrow> \<not> is_space (hd s) \<and> \<not> is_space (last s)"
  by (auto simp: plain_def list_all_iff)

lemma Split_TrimSpace_text_lines:
  assumes ne: "ls \<noteq> []" "hd ls \<noteq> []" "last ls \<noteq> []" and pl: "list_all plain ls"
  shows "strings_Split (CHR 0x0A) (strings_TrimSpace (text_lines ls)) = ls"
proof -
  let ?j = "strings_Join [CHR 0x0A] ls"
  have "plain (hd ls)" "plain (last ls)" using pl ne by (auto simp: list_all_iff)
  then have "\<not> is_space (hd ?j) \<and> \<not> is_space (last ?j)"
    using ne plain_last by (simp add: hd_strings_Join last_strings_Join)
  then have "trim_by is_space ?j = ?j" by (intro trim_by_id) simp
  moreover have "is_space (CHR 0x0A)" by (simp add: is_space_def)
  ultimately have "strings_TrimSpace (text_lines ls) = ?j"
    using ne by (simp add: strings_TrimSpace_def text_lines_Join trim_by_snoc)
  then show ?thesis
    using ne pl by (auto simp: list_all_iff plain_no_newline intro!: strings_Split_Join)
qed

lemma plain_itoa [simp]: "plain (itoa n)"
  using itoa_digits is_digit_not_space by (auto simp: plain_def list_all_iff)

end
