(* ===== verification/Go_Codec.thy ===== *)
theory Go_Codec
  imports Go_Strings
begin

text \<open>
  The two text encodings of keys the program uses, \<^verbatim>\<open>encoding/hex\<close> (WireGuard's configuration
  protocol) and \<^verbatim>\<open>encoding/base64\<close> (\<^verbatim>\<open>StdEncoding\<close>; everywhere else), as functions between
  \<open>byte list\<close> and \<open>string\<close>, with the theorems that decoding an encoding gives the bytes back.
\<close>

type_synonym byte = "8 word"

section \<open>Hexadecimal\<close>

definition hex_digit :: "nat \<Rightarrow> char" where
  "hex_digit n = (if n < 10 then char_of (48 + n) else char_of (87 + n))"

definition hex_val :: "char \<Rightarrow> nat option" where
  "hex_val c =
     (let n = of_char c in
      if 48 \<le> n \<and> n \<le> 57 then Some (n - 48)
      else if 97 \<le> n \<and> n \<le> 102 then Some (n - 87)
      else if 65 \<le> n \<and> n \<le> 70 then Some (n - 55)
      else None)"

definition hex_EncodeToString :: "byte list \<Rightarrow> string" where
  "hex_EncodeToString bs =
     concat (map (\<lambda>b. [hex_digit (unat b div 16), hex_digit (unat b mod 16)]) bs)"

definition hex_InvalidByte :: go_error where "hex_InvalidByte = ErrMsg ''encoding/hex: invalid byte''"
definition hex_ErrLength :: go_error where "hex_ErrLength = ErrSentinel ''hex.ErrLength''"

fun hex_DecodeString :: "string \<Rightarrow> byte list result" where
  "hex_DecodeString [] = Inr []"
| "hex_DecodeString [c] = (case hex_val c of None \<Rightarrow> Inl hex_InvalidByte | Some _ \<Rightarrow> Inl hex_ErrLength)"
| "hex_DecodeString (c # d # cs) =
     (case (hex_val c, hex_val d) of
        (Some h, Some l) \<Rightarrow>
          bind_result (hex_DecodeString cs) (\<lambda>bs. Inr (word_of_nat (16 * h + l) # bs))
      | _ \<Rightarrow> Inl hex_InvalidByte)"

lemma hex_val_hex_digit: "n < 16 \<Longrightarrow> hex_val (hex_digit n) = Some n"
  by (auto simp: hex_val_def hex_digit_def)

lemma byte_div16: "unat (b :: byte) div 16 < 16"
  using unsigned_less [of b, where 'a = nat] by simp

theorem hex_Decode_Encode [simp]: "hex_DecodeString (hex_EncodeToString bs) = Inr bs"
proof (induction bs)
  case Nil
  then show ?case by (simp add: hex_EncodeToString_def)
next
  case (Cons b bs)
  have "hex_EncodeToString (b # bs) =
      hex_digit (unat b div 16) # hex_digit (unat b mod 16) # hex_EncodeToString bs"
    by (simp add: hex_EncodeToString_def)
  with Cons show ?case
    by (simp add: hex_val_hex_digit byte_div16)
qed

lemma hex_EncodeToString_inject [simp]:
  "hex_EncodeToString a = hex_EncodeToString b \<longleftrightarrow> a = b"
  using hex_Decode_Encode by (metis sum.inject(2))

lemma length_hex_EncodeToString [simp]: "length (hex_EncodeToString bs) = 2 * length bs"
  by (induction bs) (auto simp: hex_EncodeToString_def)

definition is_hex_char :: "char \<Rightarrow> bool" where
  "is_hex_char c = (hex_val c \<noteq> None)"

lemma hex_EncodeToString_chars: "c \<in> set (hex_EncodeToString bs) \<Longrightarrow> is_hex_char c"
  by (auto simp: hex_EncodeToString_def is_hex_char_def hex_val_hex_digit byte_div16)

lemma is_hex_char_not_special:
  "is_hex_char c \<Longrightarrow> \<not> is_space c \<and> c \<noteq> CHR ''='' \<and> c \<noteq> CHR 0x0A"
  by (auto simp: is_hex_char_def is_space_def hex_val_def)

lemma hex_EncodeToString_no_special [simp]:
  "CHR 0x0A \<notin> set (hex_EncodeToString bs)" "CHR ''='' \<notin> set (hex_EncodeToString bs)"
  using hex_EncodeToString_chars is_hex_char_not_special by blast+

lemma hex_DecodeString_length: "hex_DecodeString s = Inr bs \<Longrightarrow> length s = 2 * length bs"
  by (induction s arbitrary: bs rule: hex_DecodeString.induct)
     (auto simp: bind_result_Inr_iff split: option.splits)

section \<open>Base 64\<close>

definition b64_char :: "nat \<Rightarrow> char" where
  "b64_char n =
     (if n < 26 then char_of (65 + n)
      else if n < 52 then char_of (71 + n)
      else if n < 62 then char_of (n - 4)
      else if n = 62 then CHR ''+'' else CHR ''/'')"

definition b64_val :: "char \<Rightarrow> nat option" where
  "b64_val c =
     (let n = of_char c in
      if 65 \<le> n \<and> n \<le> 90 then Some (n - 65)
      else if 97 \<le> n \<and> n \<le> 122 then Some (n - 71)
      else if 48 \<le> n \<and> n \<le> 57 then Some (n + 4)
      else if c = CHR ''+'' then Some 62
      else if c = CHR ''/'' then Some 63
      else None)"

fun base64_EncodeToString :: "byte list \<Rightarrow> string" where
  "base64_EncodeToString [] = []"
| "base64_EncodeToString [a] =
     [b64_char (unat a div 4), b64_char (16 * (unat a mod 4)), CHR ''='', CHR ''='']"
| "base64_EncodeToString [a, b] =
     [b64_char (unat a div 4), b64_char (16 * (unat a mod 4) + unat b div 16),
      b64_char (4 * (unat b mod 16)), CHR ''='']"
| "base64_EncodeToString (a # b # c # bs) =
     b64_char (unat a div 4) # b64_char (16 * (unat a mod 4) + unat b div 16)
     # b64_char (4 * (unat b mod 16) + unat c div 64) # b64_char (unat c mod 64)
     # base64_EncodeToString bs"

definition base64_CorruptInput :: go_error where
  "base64_CorruptInput = ErrMsg ''illegal base64 data''"

text \<open>
  The decoder's quanta: four characters of the alphabet, or a final quantum padded with one or two
  \<^verbatim>\<open>=\<close>. The low bits a padded quantum leaves over are not checked (\<^verbatim>\<open>StdEncoding\<close> is not strict).
\<close>

fun base64_quanta :: "string \<Rightarrow> byte list result" where
  "base64_quanta [] = Inr []"
| "base64_quanta (w # x # y # z # cs) =
     (case (b64_val w, b64_val x) of
        (Some p, Some q) \<Rightarrow>
          (if y = CHR ''='' then
             (if z = CHR ''='' \<and> cs = [] then Inr [word_of_nat (4 * p + q div 16)]
              else Inl base64_CorruptInput)
           else (case b64_val y of
             None \<Rightarrow> Inl base64_CorruptInput
           | Some r \<Rightarrow>
               (if z = CHR ''='' then
                  (if cs = [] then
                     Inr [word_of_nat (4 * p + q div 16), word_of_nat (16 * (q mod 16) + r div 4)]
                   else Inl base64_CorruptInput)
                else (case b64_val z of
                  None \<Rightarrow> Inl base64_CorruptInput
                | Some s \<Rightarrow> bind_result (base64_quanta cs) (\<lambda>bs.
                    Inr (word_of_nat (4 * p + q div 16) # word_of_nat (16 * (q mod 16) + r div 4)
                         # word_of_nat (64 * (r mod 4) + s) # bs))))))
      | _ \<Rightarrow> Inl base64_CorruptInput)"
| "base64_quanta cs = Inl base64_CorruptInput"

definition base64_DecodeString :: "string \<Rightarrow> byte list result" where
  "base64_DecodeString s = base64_quanta (filter (\<lambda>c. c \<noteq> CHR 0x0A \<and> c \<noteq> CHR 0x0D) s)"

lemma b64_val_b64_char: "n < 64 \<Longrightarrow> b64_val (b64_char n) = Some n"
  by (auto simp: b64_val_def b64_char_def Let_def)

lemma b64_char_not_special:
  assumes "n < 64"
  shows "b64_char n \<noteq> CHR ''=''" "b64_char n \<noteq> CHR 0x0A" "b64_char n \<noteq> CHR 0x0D"
  using b64_val_b64_char [OF assms] by (auto simp: b64_val_def)

lemma byte_lt [simp]: "unat (b :: byte) < 256"
  using unsigned_less [of b, where 'a = nat] by simp

lemma sextet_bounds:
  "unat (a :: byte) div 4 < 64" "16 * (unat (a :: byte) mod 4) + unat (b :: byte) div 16 < 64"
  "4 * (unat b mod 16) + unat (c :: byte) div 64 < 64" "unat c mod 64 < 64"
  "16 * (unat a mod 4) < 64" "4 * (unat b mod 16) < 64"
  using byte_lt [of a] byte_lt [of b] byte_lt [of c] by linarith+

lemma quantum_bytes:
  fixes a b c :: byte
  defines "q \<equiv> 16 * (unat a mod 4) + unat b div 16"
  defines "r \<equiv> 4 * (unat b mod 16) + unat c div 64"
  shows "4 * (unat a div 4) + q div 16 = unat a"
    and "16 * (q mod 16) + r div 4 = unat b"
    and "64 * (r mod 4) + unat c mod 64 = unat c"
proof -
  have "unat b div 16 < 16" "unat c div 64 < 4"
    using byte_lt [of b] byte_lt [of c] by linarith+
  then have "q div 16 = unat a mod 4" "q mod 16 = unat b div 16"
    "r div 4 = unat b mod 16" "r mod 4 = unat c div 64"
    unfolding q_def r_def by simp_all
  then show "4 * (unat a div 4) + q div 16 = unat a" "16 * (q mod 16) + r div 4 = unat b"
    "64 * (r mod 4) + unat c mod 64 = unat c"
    by simp_all
qed

lemma base64_Encode_clean:
  "filter (\<lambda>c. c \<noteq> CHR 0x0A \<and> c \<noteq> CHR 0x0D) (base64_EncodeToString bs) = base64_EncodeToString bs"
  by (induction bs rule: base64_EncodeToString.induct) (auto simp: b64_char_not_special sextet_bounds)

lemma base64_quanta_Encode: "base64_quanta (base64_EncodeToString bs) = Inr bs"
proof (induction bs rule: base64_EncodeToString.induct)
  case 1
  then show ?case by simp
next
  case (2 a)
  then show ?case
    using quantum_bytes(1) [where a = a and b = 0] by (simp add: b64_val_b64_char sextet_bounds)
next
  case (3 a b)
  then show ?case
    using quantum_bytes(1) [where a = a and b = b] quantum_bytes(2) [where a = a and b = b and c = 0]
    by (simp add: b64_val_b64_char b64_char_not_special sextet_bounds)
next
  case (4 a b c bs)
  then show ?case
    using quantum_bytes(1) [where a = a and b = b] quantum_bytes(2) [where a = a and b = b and c = c]
      quantum_bytes(3) [where b = b and c = c]
    by (simp add: b64_val_b64_char b64_char_not_special sextet_bounds)
qed

theorem base64_Decode_Encode [simp]: "base64_DecodeString (base64_EncodeToString bs) = Inr bs"
  by (simp add: base64_DecodeString_def base64_Encode_clean base64_quanta_Encode)

lemma base64_EncodeToString_inject [simp]:
  "base64_EncodeToString a = base64_EncodeToString b \<longleftrightarrow> a = b"
  using base64_Decode_Encode by (metis sum.inject(2))

lemma plain_hex [simp]: "plain (hex_EncodeToString bs)"
  using hex_EncodeToString_chars is_hex_char_not_special
  unfolding plain_def list_all_iff by blast

lemma hex_EncodeToString_Nil [simp]: "hex_EncodeToString bs = [] \<longleftrightarrow> bs = []"
  using length_hex_EncodeToString [of bs] by (metis length_0_conv mult_is_0 zero_neq_numeral)

end
