(* ===== verification/Go_Netip.thy ===== *)
theory Go_Netip
  imports Go_Codec
begin

unbundle bit_operations_syntax

text \<open>
  Go's \<^verbatim>\<open>net/netip\<close> and the part of \<^verbatim>\<open>net\<close> the program uses: addresses, prefixes, their parsers and
  printers, the classification predicates and prefix containment.

  An address is the zero value, an IPv4 address or an IPv6 address with its zone. A prefix keeps its
  address and its length; the length \<open>-1\<close> marks the invalid prefix, as \<^verbatim>\<open>Bits()\<close> reports it. A
  \<^verbatim>\<open>net.IP\<close> is its byte slice, and a \<^verbatim>\<open>net.IPNet\<close> its address bytes with what \<^verbatim>\<open>Mask.Size()\<close> reports of
  its mask (a mask that is no prefix mask has size 0 of 0).
\<close>

type_synonym u32 = "32 word"
type_synonym u128 = "128 word"
type_synonym goip = "byte list"

datatype addr = AddrZero | Addr4 u32 | Addr6 u128 string

datatype prefix = Prefix (pfx_Addr: addr) (pfx_Bits: int)

record ipnet =
  net_IP :: goip
  net_ones :: nat
  net_bits :: nat

section \<open>Numbers as big-endian bytes\<close>

fun nat_bytes :: "nat \<Rightarrow> nat \<Rightarrow> byte list" where
  "nat_bytes 0 n = []"
| "nat_bytes (Suc k) n = nat_bytes k (n div 256) @ [word_of_nat (n mod 256)]"

definition bytes_nat :: "byte list \<Rightarrow> nat" where
  "bytes_nat bs = foldl (\<lambda>a b. 256 * a + unat b) 0 bs"

lemma length_nat_bytes [simp]: "length (nat_bytes k n) = k"
  by (induction k arbitrary: n) auto

lemma bytes_nat_snoc [simp]: "bytes_nat (bs @ [b]) = 256 * bytes_nat bs + unat b"
  by (simp add: bytes_nat_def)

lemma bytes_nat_Nil [simp]: "bytes_nat [] = 0"
  by (simp add: bytes_nat_def)

lemma bytes_nat_nat_bytes: "bytes_nat (nat_bytes k n) = n mod 256 ^ k"
proof (induction k arbitrary: n)
  case 0
  then show ?case by simp
next
  case (Suc k)
  have "unat (word_of_nat (n mod 256) :: byte) = n mod 256"
    by (simp add: unat_of_nat)
  then have "bytes_nat (nat_bytes (Suc k) n) = 256 * ((n div 256) mod 256 ^ k) + n mod 256"
    by (simp add: Suc)
  then show ?case by (simp add: mod_mult2_eq [of n 256 "256 ^ k"])
qed

lemma nat_bytes_bytes_nat: "nat_bytes (length bs) (bytes_nat bs) = bs"
  by (induction bs rule: rev_induct) auto

lemma bytes_nat_less: "bytes_nat bs < 256 ^ length bs"
proof (induction bs rule: rev_induct)
  case Nil
  then show ?case by simp
next
  case (snoc b bs)
  have "bytes_nat (bs @ [b]) < 256 * (bytes_nat bs + 1)"
    using byte_lt [of b] by simp
  also have "\<dots> \<le> 256 * 256 ^ length bs" using snoc by simp
  finally show ?case by simp
qed

lemma u32_bytes_roundtrip: "word_of_nat (bytes_nat (nat_bytes 4 (unat w))) = (w :: u32)"
proof -
  have "unat w < 256 ^ 4" using unsigned_less [of w, where 'a = nat] by simp
  then show ?thesis by (simp add: bytes_nat_nat_bytes)
qed

lemma u128_bytes_roundtrip: "word_of_nat (bytes_nat (nat_bytes 16 (unat w))) = (w :: u128)"
proof -
  have "unat w < 256 ^ 16" using unsigned_less [of w, where 'a = nat] by simp
  then show ?thesis by (simp add: bytes_nat_nat_bytes)
qed

section \<open>Addresses\<close>

definition Addr_IsValid :: "addr \<Rightarrow> bool" where "Addr_IsValid a = (a \<noteq> AddrZero)"

fun Addr_Is4 :: "addr \<Rightarrow> bool" where
  "Addr_Is4 (Addr4 _) = True" | "Addr_Is4 _ = False"

fun Addr_Is6 :: "addr \<Rightarrow> bool" where
  "Addr_Is6 (Addr6 _ _) = True" | "Addr_Is6 _ = False"

fun Addr_BitLen :: "addr \<Rightarrow> nat" where
  "Addr_BitLen AddrZero = 0" | "Addr_BitLen (Addr4 _) = 32" | "Addr_BitLen (Addr6 _ _) = 128"

fun Addr_Zone :: "addr \<Rightarrow> string" where
  "Addr_Zone (Addr6 _ z) = z" | "Addr_Zone _ = []"

fun Addr_withoutZone :: "addr \<Rightarrow> addr" where
  "Addr_withoutZone (Addr6 w _) = Addr6 w []" | "Addr_withoutZone a = a"

definition v6_is4in6 :: "u128 \<Rightarrow> bool" where
  "v6_is4in6 w = (drop_bit 32 w = 0xffff)"

fun Addr_Unmap :: "addr \<Rightarrow> addr" where
  "Addr_Unmap (Addr6 w z) = (if v6_is4in6 w then Addr4 (ucast w) else Addr6 w z)"
| "Addr_Unmap a = a"

fun Addr_AsSlice :: "addr \<Rightarrow> goip" where
  "Addr_AsSlice AddrZero = []"
| "Addr_AsSlice (Addr4 w) = nat_bytes 4 (unat w)"
| "Addr_AsSlice (Addr6 w _) = nat_bytes 16 (unat w)"

definition v4in6_prefix :: goip where
  "v4in6_prefix = replicate 10 0 @ [0xff, 0xff]"

fun Addr_As16 :: "addr \<Rightarrow> goip" where
  "Addr_As16 (Addr4 w) = v4in6_prefix @ nat_bytes 4 (unat w)"
| "Addr_As16 (Addr6 w _) = nat_bytes 16 (unat w)"
| "Addr_As16 AddrZero = replicate 16 0"

definition AddrFromSlice :: "goip \<Rightarrow> addr option" where
  "AddrFromSlice bs =
     (if length bs = 4 then Some (Addr4 (word_of_nat (bytes_nat bs)))
      else if length bs = 16 then Some (Addr6 (word_of_nat (bytes_nat bs)) [])
      else None)"

lemma AddrFromSlice_AsSlice:
  "Addr_IsValid a \<Longrightarrow> Addr_Zone a = [] \<Longrightarrow> AddrFromSlice (Addr_AsSlice a) = Some a"
  by (cases a) (auto simp: AddrFromSlice_def Addr_IsValid_def u32_bytes_roundtrip u128_bytes_roundtrip)

text \<open>The classification predicates look through an IPv4-mapped IPv6 address.\<close>

definition Addr_IsLoopback :: "addr \<Rightarrow> bool" where
  "Addr_IsLoopback a = (case Addr_Unmap a of
     AddrZero \<Rightarrow> False | Addr4 w \<Rightarrow> drop_bit 24 w = 127 | Addr6 w _ \<Rightarrow> w = 1)"

definition Addr_IsMulticast :: "addr \<Rightarrow> bool" where
  "Addr_IsMulticast a = (case Addr_Unmap a of
     AddrZero \<Rightarrow> False | Addr4 w \<Rightarrow> drop_bit 28 w = 14 | Addr6 w _ \<Rightarrow> drop_bit 120 w = 0xff)"

definition Addr_IsLinkLocalUnicast :: "addr \<Rightarrow> bool" where
  "Addr_IsLinkLocalUnicast a = (case Addr_Unmap a of
     AddrZero \<Rightarrow> False | Addr4 w \<Rightarrow> drop_bit 16 w = 0xa9fe | Addr6 w _ \<Rightarrow> drop_bit 118 w = 0x3fa)"

definition Addr_IsLinkLocalMulticast :: "addr \<Rightarrow> bool" where
  "Addr_IsLinkLocalMulticast a = (case Addr_Unmap a of
     AddrZero \<Rightarrow> False | Addr4 w \<Rightarrow> drop_bit 8 w = 0xe00000
   | Addr6 w _ \<Rightarrow> (drop_bit 112 w) AND 0xff0f = 0xff02)"

definition Addr_IsInterfaceLocalMulticast :: "addr \<Rightarrow> bool" where
  "Addr_IsInterfaceLocalMulticast a = (case Addr_Unmap a of
     Addr6 w _ \<Rightarrow> (drop_bit 112 w) AND 0xff0f = 0xff01 | _ \<Rightarrow> False)"

definition Addr_IsUnspecified :: "addr \<Rightarrow> bool" where
  "Addr_IsUnspecified a = (a = Addr4 0 \<or> a = Addr6 0 [])"

section \<open>Printing\<close>

definition v4_String :: "u32 \<Rightarrow> string" where
  "v4_String w = strings_Join ''.'' (map (\<lambda>b. itoa (unat b)) (nat_bytes 4 (unat w)))"

fun hex_itoa :: "nat \<Rightarrow> string" where
  "hex_itoa n = (if n < 16 then [hex_digit n] else hex_itoa (n div 16) @ [hex_digit (n mod 16)])"

declare hex_itoa.simps [simp del]

fun v6_groups_of :: "nat \<Rightarrow> nat \<Rightarrow> nat list" where
  "v6_groups_of 0 n = []"
| "v6_groups_of (Suc k) n = v6_groups_of k (n div 65536) @ [n mod 65536]"

definition zero_run :: "nat list \<Rightarrow> nat \<Rightarrow> nat" where
  "zero_run gs i = length (takeWhile (\<lambda>g. g = 0) (drop i gs))"

text \<open>The first longest run of at least two zero groups: its start and its end.\<close>

definition best_zero_run :: "nat list \<Rightarrow> (nat \<times> nat) option" where
  "best_zero_run gs =
     fold (\<lambda>i best. let l = zero_run gs i in
             if l \<ge> 2 \<and> (case best of None \<Rightarrow> True | Some (s, e) \<Rightarrow> l > e - s) then Some (i, i + l) else best)
          [0..<length gs] None"

definition v6_groups_String :: "nat list \<Rightarrow> string" where
  "v6_groups_String gs =
     (case best_zero_run gs of
        None \<Rightarrow> strings_Join '':'' (map hex_itoa gs)
      | Some (s, e) \<Rightarrow> strings_Join '':'' (map hex_itoa (take s gs)) @ ''::''
                       @ strings_Join '':'' (map hex_itoa (drop e gs)))"

definition zone_suffix :: "string \<Rightarrow> string" where
  "zone_suffix z = (if z = [] then [] else CHR ''%'' # z)"

fun Addr_String :: "addr \<Rightarrow> string" where
  "Addr_String AddrZero = ''invalid IP''"
| "Addr_String (Addr4 w) = v4_String w"
| "Addr_String (Addr6 w z) =
     (if v6_is4in6 w then ''::ffff:'' @ v4_String (ucast w) @ zone_suffix z
      else v6_groups_String (v6_groups_of 8 (unat w)) @ zone_suffix z)"

section \<open>Parsing\<close>

definition errParseAddr :: go_error where "errParseAddr = ErrMsg ''ParseAddr''"
definition errParsePrefix :: go_error where "errParsePrefix = ErrMsg ''netip.ParsePrefix''"

text \<open>One field of a dotted quad: decimal, no leading zero, at most 255.\<close>

definition parse_octet :: "string \<Rightarrow> byte result" where
  "parse_octet f =
     (if f = [] \<or> \<not> list_all is_digit f \<or> (length f > 1 \<and> hd f = CHR ''0'') \<or> dec_val f > 255
      then Inl errParseAddr else Inr (word_of_nat (dec_val f)))"

definition parseIPv4Fields :: "string \<Rightarrow> byte list result" where
  "parseIPv4Fields s =
     (let fs = strings_Split (CHR ''.'') s in
      if length fs \<noteq> 4 then Inl errParseAddr else map_result parse_octet fs)"

definition parseIPv4 :: "string \<Rightarrow> addr result" where
  "parseIPv4 s = bind_result (parseIPv4Fields s) (\<lambda>bs. Inr (Addr4 (word_of_nat (bytes_nat bs))))"

definition hex_prefix :: "string \<Rightarrow> string" where
  "hex_prefix s = takeWhile is_hex_char s"

definition hex_str_val :: "string \<Rightarrow> nat" where
  "hex_str_val s = foldl (\<lambda>a c. 16 * a + the (hex_val c)) 0 s"

text \<open>
  The main loop of \<^verbatim>\<open>parseIPv6\<close>: the bytes read so far, the position of the ellipsis, the rest of the
  text. Each round reads a group of at most four hexadecimal digits, or a trailing dotted quad.
\<close>

function v6_loop :: "byte list \<Rightarrow> nat option \<Rightarrow> string \<Rightarrow> (byte list \<times> nat option \<times> string) result" where
  "v6_loop ip el s =
     (if length ip \<ge> 16 then Inr (ip, el, s)
      else let h = hex_prefix s; rest = drop (length h) s in
        if h = [] \<or> length h > 4 then Inl errParseAddr
        else if rest \<noteq> [] \<and> hd rest = CHR ''.'' then
          (if (el = None \<and> length ip \<noteq> 12) \<or> length ip + 4 > 16 then Inl errParseAddr
           else bind_result (parseIPv4Fields s) (\<lambda>q. Inr (ip @ q, el, [])))
        else let ip' = ip @ nat_bytes 2 (hex_str_val h) in
          if rest = [] then Inr (ip', el, [])
          else if hd rest \<noteq> CHR '':'' \<or> length rest = 1 then Inl errParseAddr
          else let s' = tl rest in
            if hd s' = CHR '':'' then
              (if el \<noteq> None then Inl errParseAddr
               else if tl s' = [] then Inr (ip', Some (length ip'), [])
               else v6_loop ip' (Some (length ip')) (tl s'))
            else v6_loop ip' el s')"
  by pat_completeness auto
termination
  by (relation "measure (\<lambda>(ip, el, s). length s)") (auto simp: hex_prefix_def)

declare v6_loop.simps [simp del]

definition parseIPv6 :: "string \<Rightarrow> addr result" where
  "parseIPv6 txt0 =
     (let s0 = takeWhile (\<lambda>c. c \<noteq> CHR ''%'') txt0;
          has_zone = (CHR ''%'' \<in> set txt0);
          zone = (if has_zone then tl (dropWhile (\<lambda>c. c \<noteq> CHR ''%'') txt0) else [])
      in if has_zone \<and> zone = [] then Inl errParseAddr
         else let lead = strings_HasPrefix s0 ''::''; s = (if lead then drop 2 s0 else s0)
         in if lead \<and> s = [] then Inr (Addr6 0 zone)
         else bind_result (v6_loop [] (if lead then Some 0 else None) s) (\<lambda>(ip, el, rest).
           if rest \<noteq> [] then Inl errParseAddr
           else if length ip < 16 then
             (case el of None \<Rightarrow> Inl errParseAddr
              | Some e \<Rightarrow> Inr (Addr6 (word_of_nat (bytes_nat
                            (take e ip @ replicate (16 - length ip) 0 @ drop e ip))) zone))
           else if el \<noteq> None then Inl errParseAddr
           else Inr (Addr6 (word_of_nat (bytes_nat ip)) zone)))"

definition ParseAddr :: "string \<Rightarrow> addr result" where
  "ParseAddr s =
     (case filter (\<lambda>c. c = CHR ''.'' \<or> c = CHR '':'' \<or> c = CHR ''%'') s of
        [] \<Rightarrow> Inl errParseAddr
      | c # _ \<Rightarrow> (if c = CHR ''.'' then parseIPv4 s
                  else if c = CHR '':'' then parseIPv6 s
                  else Inl errParseAddr))"

section \<open>Prefixes\<close>

definition PrefixFrom :: "addr \<Rightarrow> int \<Rightarrow> prefix" where
  "PrefixFrom ip bits =
     Prefix (Addr_withoutZone ip)
       (if ip \<noteq> AddrZero \<and> 0 \<le> bits \<and> bits \<le> int (Addr_BitLen ip) then bits else -1)"

definition PrefixZero :: prefix where "PrefixZero = Prefix AddrZero (-1)"

definition Prefix_IsValid :: "prefix \<Rightarrow> bool" where "Prefix_IsValid p = (pfx_Bits p \<ge> 0)"

definition mask_addr :: "addr \<Rightarrow> nat \<Rightarrow> addr" where
  "mask_addr a n = (case a of
     AddrZero \<Rightarrow> AddrZero
   | Addr4 w \<Rightarrow> Addr4 (w AND NOT (mask (32 - n)))
   | Addr6 w z \<Rightarrow> Addr6 (w AND NOT (mask (128 - n))) [])"

definition Prefix_Masked :: "prefix \<Rightarrow> prefix" where
  "Prefix_Masked p =
     (if pfx_Bits p < 0 \<or> pfx_Addr p = AddrZero then PrefixZero
      else PrefixFrom (mask_addr (pfx_Addr p) (nat (pfx_Bits p))) (pfx_Bits p))"

definition Prefix_Contains :: "prefix \<Rightarrow> addr \<Rightarrow> bool" where
  "Prefix_Contains p a =
     (Prefix_IsValid p \<and> Addr_Zone a = [] \<and>
      (case (pfx_Addr p, a) of
         (Addr4 x, Addr4 y) \<Rightarrow> drop_bit (32 - nat (pfx_Bits p)) (x XOR y) = 0
       | (Addr6 x _, Addr6 y _) \<Rightarrow> drop_bit (128 - nat (pfx_Bits p)) (x XOR y) = 0
       | _ \<Rightarrow> False))"

definition Prefix_String :: "prefix \<Rightarrow> string" where
  "Prefix_String p =
     (if Prefix_IsValid p then Addr_String (pfx_Addr p) @ ''/'' @ itoa (nat (pfx_Bits p))
      else ''invalid Prefix'')"

text \<open>\<^verbatim>\<open>strings.LastIndexByte\<close> as the split at the last occurrence of a character.\<close>

definition cut_last :: "char \<Rightarrow> string \<Rightarrow> (string \<times> string) option" where
  "cut_last c s =
     (if c \<in> set s
      then Some (rev (tl (dropWhile (\<lambda>x. x \<noteq> c) (rev s))), rev (takeWhile (\<lambda>x. x \<noteq> c) (rev s)))
      else None)"

definition ParsePrefix :: "string \<Rightarrow> prefix result" where
  "ParsePrefix s =
     (case cut_last (CHR ''/'') s of
        None \<Rightarrow> Inl errParsePrefix
      | Some (a, bitsStr) \<Rightarrow>
          (case ParseAddr a of
             Inl e \<Rightarrow> Inl errParsePrefix
           | Inr ip \<Rightarrow>
               if Addr_Is6 ip \<and> Addr_Zone ip \<noteq> [] then Inl errParsePrefix
               else if length bitsStr > 1 \<and> \<not> (is_digit (hd bitsStr) \<and> hd bitsStr \<noteq> CHR ''0'')
               then Inl errParsePrefix
               else (case strconv_Atoi bitsStr of
                  Inl e \<Rightarrow> Inl errParsePrefix
                | Inr bits \<Rightarrow>
                    if bits < 0 \<or> bits > int (Addr_BitLen ip) then Inl errParsePrefix
                    else Inr (PrefixFrom ip bits))))"

section \<open>The net package\<close>

definition IP_To4 :: "goip \<Rightarrow> goip option" where
  "IP_To4 ip =
     (if length ip = 4 then Some ip
      else if length ip = 16 \<and> take 12 ip = v4in6_prefix then Some (drop 12 ip)
      else None)"

definition net_ParseIP :: "string \<Rightarrow> goip option" where
  "net_ParseIP s = (case ParseAddr s of
     Inl _ \<Rightarrow> None | Inr a \<Rightarrow> (if Addr_Zone a \<noteq> [] then None else Some (Addr_As16 a)))"

text \<open>\<^verbatim>\<open>net.IP.String\<close>; a slice of another length prints as \<^verbatim>\<open>?\<close> and its hexadecimal digits, nil as \<^verbatim>\<open><nil>\<close>.\<close>

definition IP_String :: "goip \<Rightarrow> string" where
  "IP_String ip =
     (if ip = [] then ''<nil>''
      else case IP_To4 ip of
        Some q \<Rightarrow> Addr_String (Addr4 (word_of_nat (bytes_nat q)))
      | None \<Rightarrow> (if length ip = 16 then Addr_String (Addr6 (word_of_nat (bytes_nat ip)) [])
                 else CHR ''?'' # hex_EncodeToString ip))"

text \<open>
  \<^verbatim>\<open>net.IPNet.String\<close>, for a mask that is absent or a prefix mask (the only masks the program prints):
  an IPv4 address under a 16-byte mask is printed with the length of the mask's last four bytes.
\<close>

definition IPNet_String :: "ipnet \<Rightarrow> string" where
  "IPNet_String n =
     (case IP_To4 (net_IP n) of
        Some q \<Rightarrow> (if net_bits n = 32 then IP_String q @ ''/'' @ itoa (net_ones n)
                   else if net_bits n = 128 then IP_String q @ ''/'' @ itoa (net_ones n - 96)
                   else ''<nil>'')
      | None \<Rightarrow> (if length (net_IP n) = 16 \<and> net_bits n = 128
                 then IP_String (net_IP n) @ ''/'' @ itoa (net_ones n) else ''<nil>''))"

text \<open>\<^verbatim>\<open>net.ParseCIDR\<close>: the address as written and the network it names, masked.\<close>

definition net_ParseCIDR :: "string \<Rightarrow> (goip \<times> ipnet) result" where
  "net_ParseCIDR s =
     (if CHR ''/'' \<notin> set s then Inl (ErrMsg ''invalid CIDR address'')
      else let a = takeWhile (\<lambda>c. c \<noteq> CHR ''/'') s; m = tl (dropWhile (\<lambda>c. c \<noteq> CHR ''/'') s) in
        (case ParseAddr a of
           Inl e \<Rightarrow> Inl (ErrMsg ''invalid CIDR address'')
         | Inr ip \<Rightarrow>
             if Addr_Zone ip \<noteq> [] \<or> m = [] \<or> \<not> list_all is_digit m \<or> dec_val m > Addr_BitLen ip
             then Inl (ErrMsg ''invalid CIDR address'')
             else Inr (Addr_As16 ip,
                       \<lparr>net_IP = Addr_AsSlice (mask_addr ip (dec_val m)),
                        net_ones = dec_val m, net_bits = Addr_BitLen ip\<rparr>)))"

text \<open>\<^verbatim>\<open>net.SplitHostPort\<close> and \<^verbatim>\<open>net.JoinHostPort\<close>.\<close>

definition errHostPort :: "string \<Rightarrow> go_error" where "errHostPort m = ErrMsg m"

definition net_SplitHostPort :: "string \<Rightarrow> (string \<times> string) result" where
  "net_SplitHostPort hp =
     (case cut_last (CHR '':'') hp of
        None \<Rightarrow> Inl (errHostPort ''missing port in address'')
      | Some (before, port) \<Rightarrow>
          (if hd hp = CHR ''['' then
             (if CHR '']'' \<notin> set hp then Inl (errHostPort ''missing ] in address'')
              else let host = tl (takeWhile (\<lambda>c. c \<noteq> CHR '']'') hp); after = tl (dropWhile (\<lambda>c. c \<noteq> CHR '']'') hp) in
                if after = [] then Inl (errHostPort ''missing port in address'')
                else if after \<noteq> CHR '':'' # port then
                  Inl (errHostPort (if hd after = CHR '':'' then ''too many colons in address''
                                    else ''missing port in address''))
                else if CHR ''['' \<in> set (tl hp) then Inl (errHostPort ''unexpected [ in address'')
                else if CHR '']'' \<in> set after then Inl (errHostPort ''unexpected ] in address'')
                else Inr (host, port))
           else if CHR '':'' \<in> set before then Inl (errHostPort ''too many colons in address'')
           else if CHR ''['' \<in> set hp then Inl (errHostPort ''unexpected [ in address'')
           else if CHR '']'' \<in> set hp then Inl (errHostPort ''unexpected ] in address'')
           else Inr (before, port)))"

definition net_JoinHostPort :: "string \<Rightarrow> string \<Rightarrow> string" where
  "net_JoinHostPort host port =
     (if CHR '':'' \<in> set host then ''['' @ host @ '']:'' @ port else host @ '':'' @ port)"

section \<open>Round trips of IPv4\<close>

lemma itoa_0: "itoa 0 = ''0''"
  by code_simp

lemma parse_octet_itoa [simp]: "parse_octet (itoa (unat (b :: byte))) = Inr b"
proof -
  have "\<not> (length (itoa (unat b)) > 1 \<and> hd (itoa (unat b)) = CHR ''0'')"
    using itoa_no_leading_zero [of "unat b"] itoa_0 by auto
  moreover have "list_all is_digit (itoa (unat b))"
    using itoa_digits by (auto simp: list_all_iff)
  moreover have "unat b \<le> 255" using byte_lt [of b] by linarith
  ultimately show ?thesis by (simp add: parse_octet_def)
qed

definition v4_chars :: "char \<Rightarrow> bool" where
  "v4_chars c = (is_digit c \<or> c = CHR ''.'')"

lemma dot_notin_itoa [simp]: "CHR ''.'' \<notin> set (itoa n)" "CHR ''/'' \<notin> set (itoa n)"
  using itoa_digits [of "CHR ''.''" n] itoa_digits [of "CHR ''/''" n] by (auto simp: is_digit_def)

lemma parseIPv4Fields_Join:
  assumes "length bs = 4"
  shows "parseIPv4Fields (strings_Join ''.'' (map (\<lambda>b. itoa (unat b)) bs)) = Inr bs"
proof -
  let ?fs = "map (\<lambda>b. itoa (unat b)) bs"
  have "strings_Split (CHR ''.'') (strings_Join ''.'' ?fs) = ?fs"
    using assms by (intro strings_Split_Join) auto
  moreover have "map_result parse_octet ?fs = Inr bs"
    by (induction bs) auto
  ultimately show ?thesis using assms by (simp add: parseIPv4Fields_def)
qed

lemma parseIPv4_String [simp]: "parseIPv4 (v4_String w) = Inr (Addr4 w)"
  by (simp add: parseIPv4_def v4_String_def parseIPv4Fields_Join u32_bytes_roundtrip)

lemma strings_Join_set: "set (strings_Join sep xs) \<subseteq> set sep \<union> (\<Union>x \<in> set xs. set x)"
  by (induction sep xs rule: strings_Join.induct) auto

lemma v4_String_chars: "c \<in> set (v4_String w) \<Longrightarrow> v4_chars c"
  using strings_Join_set [of "''.''" "map (\<lambda>b. itoa (unat b)) (nat_bytes 4 (unat w))"]
  by (auto simp: v4_String_def v4_chars_def dest: itoa_digits)

lemma length_4_cases: "length xs = 4 \<Longrightarrow> \<exists>a b c d. xs = [a, b, c, d]"
  by (auto simp: numeral_eq_Suc length_Suc_conv)

lemma v4_String_dot: "CHR ''.'' \<in> set (v4_String w)"
proof -
  obtain a b c d where "nat_bytes 4 (unat w) = [a, b, c, d]"
    using length_4_cases [OF length_nat_bytes] by blast
  then show ?thesis by (simp add: v4_String_def)
qed

lemma v4_String_scan:
  "\<exists>cs. filter (\<lambda>c. c = CHR ''.'' \<or> c = CHR '':'' \<or> c = CHR ''%'') (v4_String w) = CHR ''.'' # cs"
proof -
  let ?f = "filter (\<lambda>c. c = CHR ''.'' \<or> c = CHR '':'' \<or> c = CHR ''%'') (v4_String w)"
  have "?f \<noteq> []" using v4_String_dot [of w] by (auto simp: filter_empty_conv)
  moreover have "c = CHR ''.''" if "c \<in> set ?f" for c
    using that v4_String_chars [of c w] by (auto simp: v4_chars_def is_digit_def)
  ultimately show ?thesis by (cases ?f) auto
qed

theorem ParseAddr_v4_String [simp]: "ParseAddr (v4_String w) = Inr (Addr4 w)"
  using v4_String_scan [of w] by (auto simp: ParseAddr_def)

lemma slash_notin_v4_String [simp]: "CHR ''/'' \<notin> set (v4_String w)"
  using v4_String_chars [of "CHR ''/''" w] by (auto simp: v4_chars_def is_digit_def)

lemma cut_last_append:
  assumes "c \<notin> set b"
  shows "cut_last c (a @ c # b) = Some (a, b)"
  using assms takeWhile_dropWhile_notin [of c "rev b" "rev a"]
  by (simp add: cut_last_def)

text \<open>The prefixes that \<^verbatim>\<open>netip.ParsePrefix\<close> can return for an IPv4 text.\<close>

definition valid_prefix4 :: "prefix \<Rightarrow> bool" where
  "valid_prefix4 p = (Addr_Is4 (pfx_Addr p) \<and> 0 \<le> pfx_Bits p \<and> pfx_Bits p \<le> 32)"

lemma Atoi_itoa_small: "n \<le> 128 \<Longrightarrow> strconv_Atoi (itoa n) = Inr (int n)"
  using strconv_ParseInt64_itoa_int [of "int n"] by (simp add: strconv_Atoi_def itoa_int_def)

lemma bits_text_ok: "\<not> (length (itoa n) > 1 \<and> \<not> (is_digit (hd (itoa n)) \<and> hd (itoa n) \<noteq> CHR ''0''))"
proof -
  have "is_digit (hd (itoa n))" by (rule itoa_digits [of _ n]) simp
  moreover have "hd (itoa n) = CHR ''0'' \<Longrightarrow> length (itoa n) = 1"
    using itoa_no_leading_zero [of n] by (auto simp: itoa_0)
  ultimately show ?thesis by auto
qed

theorem ParsePrefix_String:
  assumes "valid_prefix4 p"
  shows "ParsePrefix (Prefix_String p) = Inr p"
proof -
  from assms obtain w where a: "pfx_Addr p = Addr4 w"
    by (cases "pfx_Addr p") (auto simp: valid_prefix4_def)
  define n where "n = nat (pfx_Bits p)"
  from assms have n: "n \<le> 32" "pfx_Bits p = int n"
    by (auto simp: n_def valid_prefix4_def)
  from n have p: "p = Prefix (Addr4 w) (int n)"
    using a by (metis prefix.collapse)
  have "Prefix_String p = v4_String w @ CHR ''/'' # itoa n"
    using n by (simp add: p Prefix_String_def Prefix_IsValid_def)
  then have "cut_last (CHR ''/'') (Prefix_String p) = Some (v4_String w, itoa n)"
    by (simp add: cut_last_append)
  then show ?thesis
    using n bits_text_ok [of n] by (simp add: ParsePrefix_def Atoi_itoa_small PrefixFrom_def p)
qed

lemma Prefix_String_inject:
  "valid_prefix4 p \<Longrightarrow> valid_prefix4 q \<Longrightarrow> Prefix_String p = Prefix_String q \<longleftrightarrow> p = q"
  using ParsePrefix_String by (metis sum.inject(2))

lemma ParsePrefix_needs_slash: "ParsePrefix s = Inr p \<Longrightarrow> CHR ''/'' \<in> set s"
  by (auto simp: ParsePrefix_def cut_last_def split: if_splits)

section \<open>Masking and containment\<close>

lemma word_mask_idem: "(w AND NOT (mask n)) AND NOT (mask n) = (w AND NOT (mask n) :: 'a::len word)"
  by (simp add: and.assoc)

lemma drop_bit_mask: "drop_bit n (w AND NOT (mask n) :: 'a::len word) = drop_bit n w"
  by (rule bit_word_eqI) (auto simp: bit_simps dest: bit_imp_le_length)

lemma drop_bit_xor_mask:
  "drop_bit n ((w AND NOT (mask n)) XOR v :: 'a::len word) = drop_bit n (w XOR v)"
  by (rule bit_word_eqI) (auto simp: bit_simps dest: bit_imp_le_length)

lemma mask_addr_simps [simp]:
  "mask_addr AddrZero n = AddrZero"
  "mask_addr (Addr4 w) n = Addr4 (w AND NOT (mask (32 - n)))"
  "mask_addr (Addr6 v z) n = Addr6 (v AND NOT (mask (128 - n))) []"
  by (simp_all add: mask_addr_def)

lemma mask_addr_idem [simp]: "mask_addr (mask_addr a n) n = mask_addr a n"
  by (cases a) (auto simp: word_mask_idem)

lemma mask_addr_BitLen [simp]: "Addr_BitLen (mask_addr a n) = Addr_BitLen a"
  by (cases a) auto

text \<open>A prefix that Go can build: its length is \<open>-1\<close> or within the address's width.\<close>

definition wf_prefix :: "prefix \<Rightarrow> bool" where
  "wf_prefix p = (pfx_Bits p = -1 \<or> (0 \<le> pfx_Bits p \<and> pfx_Bits p \<le> int (Addr_BitLen (pfx_Addr p))
      \<and> pfx_Addr p \<noteq> AddrZero))"

lemma wf_prefix_PrefixFrom: "wf_prefix (PrefixFrom ip n)"
  by (cases ip) (auto simp: wf_prefix_def PrefixFrom_def)

lemma wf_prefix_Masked: "wf_prefix (Prefix_Masked p)"
  by (auto simp: Prefix_Masked_def wf_prefix_PrefixFrom) (simp_all add: wf_prefix_def PrefixZero_def)

theorem Prefix_Masked_idem:
  assumes "wf_prefix p"
  shows "Prefix_Masked (Prefix_Masked p) = Prefix_Masked p"
proof (cases p)
  case (Prefix ip n)
  with assms show ?thesis
    by (cases ip)
       (auto simp: wf_prefix_def Prefix_Masked_def PrefixFrom_def PrefixZero_def word_mask_idem)
qed

theorem Prefix_Contains_Masked:
  assumes "wf_prefix p"
  shows "Prefix_Contains (Prefix_Masked p) a = Prefix_Contains p a"
proof (cases p)
  case (Prefix ip n)
  with assms show ?thesis
    by (cases ip; cases a)
       (auto simp: wf_prefix_def Prefix_Masked_def PrefixFrom_def Prefix_Contains_def Prefix_IsValid_def
          PrefixZero_def drop_bit_xor_mask simp del: drop_bit_xor drop_bit_and)
qed

lemma Prefix_Contains_self:
  assumes "Prefix_IsValid p" and "pfx_Addr p \<noteq> AddrZero" and "Addr_Zone (pfx_Addr p) = []"
  shows "Prefix_Contains p (pfx_Addr p)"
  using assms by (cases "pfx_Addr p") (auto simp: Prefix_Contains_def)

lemma drop_bit_0_32 [simp]: "drop_bit 32 (w :: u32) = 0"
  by (rule bit_word_eqI) (auto simp: bit_simps)

lemma default_route_contains: "Prefix_Contains (Prefix (Addr4 0) 0) (Addr4 w)"
  by (simp add: Prefix_Contains_def Prefix_IsValid_def)

section \<open>CIDR texts and host:port texts\<close>

lemma v4_String_no [simp]:
  "CHR '':'' \<notin> set (v4_String w)" "CHR ''['' \<notin> set (v4_String w)" "CHR '']'' \<notin> set (v4_String w)"
  "CHR ''='' \<notin> set (v4_String w)" "CHR 0x0A \<notin> set (v4_String w)"
  using v4_String_chars [of "CHR '':''" w] v4_String_chars [of "CHR ''[''" w]
    v4_String_chars [of "CHR '']''" w] v4_String_chars [of "CHR ''=''" w] v4_String_chars [of "CHR 0x0A" w]
  by (auto simp: v4_chars_def is_digit_def)

lemma itoa_no [simp]:
  "CHR '':'' \<notin> set (itoa n)" "CHR ''['' \<notin> set (itoa n)" "CHR '']'' \<notin> set (itoa n)"
  using itoa_digits [of "CHR '':''" n] itoa_digits [of "CHR ''[''" n] itoa_digits [of "CHR '']''" n]
  by (auto simp: is_digit_def)

lemma v4_String_not_Nil [simp]: "v4_String w \<noteq> []"
  using v4_String_dot [of w] by auto

lemma net_SplitHostPort_v4:
  "net_SplitHostPort (v4_String w @ CHR '':'' # itoa n) = Inr (v4_String w, itoa n)"
proof -
  have "hd (v4_String w) \<in> set (v4_String w)" by simp
  then have "hd (v4_String w) \<noteq> CHR ''[''" by (metis v4_String_no(2))
  then show ?thesis
    by (simp add: net_SplitHostPort_def cut_last_append)
qed

definition ipnet_of_v4 :: "u32 \<Rightarrow> nat \<Rightarrow> ipnet" where
  "ipnet_of_v4 w n = \<lparr>net_IP = nat_bytes 4 (unat w), net_ones = n, net_bits = 32\<rparr>"

lemma net_ParseCIDR_v4:
  assumes "n \<le> 32"
  shows "net_ParseCIDR (v4_String w @ CHR ''/'' # itoa n) =
    Inr (Addr_As16 (Addr4 w), ipnet_of_v4 (w AND NOT (mask (32 - n))) n)"
proof -
  have "list_all is_digit (itoa n)" using itoa_digits by (auto simp: list_all_iff)
  then show ?thesis using assms
    by (simp add: net_ParseCIDR_def takeWhile_dropWhile_notin Let_def ipnet_of_v4_def)
qed

lemma IPNet_String_v4:
  "IPNet_String (ipnet_of_v4 w n) = v4_String w @ CHR ''/'' # itoa n"
proof -
  have "nat_bytes 4 (unat w) \<noteq> []" using length_nat_bytes [of 4 "unat w"] by force
  then show ?thesis
    by (simp add: IPNet_String_def ipnet_of_v4_def IP_To4_def IP_String_def u32_bytes_roundtrip)
qed

lemma net_ParseIP_v4: "net_ParseIP (v4_String w) = Some (Addr_As16 (Addr4 w))"
  by (simp add: net_ParseIP_def)

lemma plain_v4_String [simp]: "plain (v4_String w)"
  using v4_String_chars is_digit_not_space
  by (fastforce simp: plain_def list_all_iff v4_chars_def is_space_def)

end
