(* ===== verification/Wg_Uapi.thy ===== *)
theory Wg_Uapi
  imports Go_Netip
begin

text \<open>
  The userspace WireGuard configurer, \<^verbatim>\<open>go/iface/configurer/usp.go\<close>: the writer of WireGuard's text
  configuration protocol (\<open>toWgUserspaceString\<close>), its two readers (\<open>parseStatus\<close>, \<open>parseTransfers\<close>)
  and the operations of \<^verbatim>\<open>WGUSPConfigurer\<close> on top of them.

  The WireGuard device, the activity recorder and the \<^verbatim>\<open>wgtypes\<close> package are not part of the
  repository. They are the fields of the record \<open>usp_env\<close>, over an arbitrary type \<open>'w\<close> of device
  states: a configuration text goes in through \<open>IpcSet\<close> and comes out of \<open>IpcGet\<close>. The private key of
  \<^verbatim>\<open>wgtypes.Config\<close> and the keys of its peers are byte lists. The UAPI socket listener
  (\<^verbatim>\<open>startUAPI\<close>, \<^verbatim>\<open>Close\<close>) is the theory \<open>Uapi_Socket\<close>.

  The theorems: both readers return exactly the device described by a protocol text, removing an
  allowed address sends the remaining ones, and where the code departs from what it means to do
  (a damaged key line, an IPv6 endpoint, the flag \<^verbatim>\<open>UpdateOnly\<close>).
\<close>

section \<open>Data\<close>

type_synonym wgkey = "byte list"

record udp_addr =
  udp_IP :: goip
  udp_Port :: int
  udp_Zone :: string

record wg_peer_config =
  pc_PublicKey :: wgkey
  pc_Remove :: bool
  pc_UpdateOnly :: bool
  pc_PresharedKey :: "wgkey option"
  pc_Endpoint :: "udp_addr option"
  pc_PersistentKeepaliveInterval :: "int option"
  pc_ReplaceAllowedIPs :: bool
  pc_AllowedIPs :: "ipnet list"

record wg_config =
  wc_PrivateKey :: "wgkey option"
  wc_ListenPort :: "int option"
  wc_FirewallMark :: "int option"
  wc_ReplacePeers :: bool
  wc_Peers :: "wg_peer_config list"

definition empty_peer_config :: wg_peer_config where
  "empty_peer_config = \<lparr>pc_PublicKey = [], pc_Remove = False, pc_UpdateOnly = False,
     pc_PresharedKey = None, pc_Endpoint = None, pc_PersistentKeepaliveInterval = None,
     pc_ReplaceAllowedIPs = False, pc_AllowedIPs = []\<rparr>"

definition peers_config :: "wg_peer_config list \<Rightarrow> wg_config" where
  "peers_config ps = \<lparr>wc_PrivateKey = None, wc_ListenPort = None, wc_FirewallMark = None,
     wc_ReplacePeers = False, wc_Peers = ps\<rparr>"

datatype gotime = TimeZero | TimeUnix int

record wg_stats =
  ws_LastHandshake :: gotime
  ws_TxBytes :: int
  ws_RxBytes :: int

record wg_peer =
  wp_PublicKey :: string
  wp_Endpoint :: "udp_addr"
  wp_AllowedIPs :: "ipnet list"
  wp_TxBytes :: int
  wp_RxBytes :: int
  wp_LastHandshake :: gotime
  wp_PresharedKey :: bool

record stats =
  st_DeviceName :: string
  st_PublicKey :: string
  st_ListenPort :: int
  st_FWMark :: int
  st_Peers :: "wg_peer list"

definition zero_udp_addr :: udp_addr where
  "zero_udp_addr = \<lparr>udp_IP = [], udp_Port = 0, udp_Zone = []\<rparr>"

definition new_wg_peer :: "string \<Rightarrow> wg_peer" where
  "new_wg_peer k = \<lparr>wp_PublicKey = k, wp_Endpoint = zero_udp_addr, wp_AllowedIPs = [],
     wp_TxBytes = 0, wp_RxBytes = 0, wp_LastHandshake = TimeZero, wp_PresharedKey = False\<rparr>"

definition zero_wg_stats :: wg_stats where
  "zero_wg_stats = \<lparr>ws_LastHandshake = TimeZero, ws_TxBytes = 0, ws_RxBytes = 0\<rparr>"

text \<open>The code outside the repository: the \<^verbatim>\<open>wgtypes\<close> keys, the device and the activity recorder.\<close>

record wg_types =
  ParseKey :: "string \<Rightarrow> wgkey result"
  Key_String :: "wgkey \<Rightarrow> string"
  Key_PublicKey :: "wgkey \<Rightarrow> wgkey"
  AdvancedRouting :: bool
  GOOS_linux :: bool
  ControlPlaneMark :: int

record 'w usp_env = wg_types +
  IpcSet :: "string \<Rightarrow> 'w \<Rightarrow> go_error option \<times> 'w"
  IpcGet :: "'w \<Rightarrow> string result"
  UpsertAddress :: "string \<Rightarrow> addr \<times> 16 word \<Rightarrow> 'w \<Rightarrow> 'w"
  RemoveActivity :: "string \<Rightarrow> 'w \<Rightarrow> 'w"
  GetLastActivities :: "'w \<Rightarrow> (string \<rightharpoonup> int)"

section \<open>Writing the configuration protocol\<close>

definition udp_String :: "udp_addr \<Rightarrow> string" where
  "udp_String a =
     (let ip = (if udp_IP a = [] then [] else IP_String (udp_IP a)) in
      net_JoinHostPort (if udp_Zone a \<noteq> [] then ip @ ''%'' @ udp_Zone a else ip) (itoa_int (udp_Port a)))"

text \<open>
  \<^verbatim>\<open>int(d.Seconds())\<close> of a duration in nanoseconds: the quotient rounded towards zero. The program
  computes it through a 64-bit float, which is exact below \<open>2 ^ 24\<close> seconds, far above any
  keep-alive interval.
\<close>

definition duration_seconds :: "int \<Rightarrow> int" where
  "duration_seconds d = (if d < 0 then - ((- d) div 1000000000) else d div 1000000000)"

definition toWgUserspacePeer :: "wg_peer_config \<Rightarrow> string" where
  "toWgUserspacePeer p =
     ''public_key='' @ hex_EncodeToString (pc_PublicKey p) @ [CHR 0x0A]
     @ (case pc_PresharedKey p of None \<Rightarrow> []
        | Some k \<Rightarrow> ''preshared_key='' @ hex_EncodeToString k @ [CHR 0x0A])
     @ (if pc_Remove p then ''remove=true'' else [])
     @ (if pc_ReplaceAllowedIPs p then ''replace_allowed_ips=true'' @ [CHR 0x0A] else [])
     @ concat (map (\<lambda>aip. ''allowed_ip='' @ IPNet_String aip @ [CHR 0x0A]) (pc_AllowedIPs p))
     @ (case pc_Endpoint p of None \<Rightarrow> [] | Some e \<Rightarrow> ''endpoint='' @ udp_String e @ [CHR 0x0A])
     @ (case pc_PersistentKeepaliveInterval p of None \<Rightarrow> []
        | Some d \<Rightarrow> ''persistent_keepalive_interval='' @ itoa_int (duration_seconds d) @ [CHR 0x0A])"

definition toWgUserspaceString :: "wg_config \<Rightarrow> string" where
  "toWgUserspaceString c =
     (case wc_PrivateKey c of None \<Rightarrow> []
      | Some k \<Rightarrow> ''private_key='' @ hex_EncodeToString k @ [CHR 0x0A])
     @ (case wc_ListenPort c of None \<Rightarrow> [] | Some p \<Rightarrow> ''listen_port='' @ itoa_int p @ [CHR 0x0A])
     @ (if wc_ReplacePeers c then ''replace_peers=true'' @ [CHR 0x0A] else [])
     @ (case wc_FirewallMark c of None \<Rightarrow> [] | Some m \<Rightarrow> ''fwmark='' @ itoa_int m @ [CHR 0x0A])
     @ concat (map toWgUserspacePeer (wc_Peers c))"

section \<open>Reading the configuration protocol\<close>

definition toLastHandshake :: "string \<Rightarrow> gotime result" where
  "toLastHandshake s =
     (case strconv_ParseInt64 s of
        Inl e \<Rightarrow> Inl (ErrWrap ''parse handshake sec'' e)
      | Inr sec \<Rightarrow> Inr (if sec = 0 then TimeZero else TimeUnix sec))"

definition toBytes :: "string \<Rightarrow> int result" where
  "toBytes s = strconv_ParseInt64 s"

definition hexToWireguardKey :: "string \<Rightarrow> wgkey result" where
  "hexToWireguardKey s =
     (case hex_DecodeString s of
        Inl e \<Rightarrow> Inl (ErrWrap ''failed to decode hex key'' e)
      | Inr bs \<Rightarrow> (if length bs \<noteq> 32 then Inl (ErrMsg ''invalid key length'') else Inr bs))"

record transfers =
  tr_stats :: "string \<rightharpoonup> wg_stats"
  tr_currentKey :: string
  tr_currentStats :: wg_stats
  tr_hasPeer :: bool

definition transfers_init :: transfers where
  "transfers_init = \<lparr>tr_stats = Map.empty, tr_currentKey = [], tr_currentStats = zero_wg_stats,
     tr_hasPeer = False\<rparr>"

definition transfers_put :: "wg_stats \<Rightarrow> transfers \<Rightarrow> transfers" where
  "transfers_put s t = t\<lparr>tr_currentStats := s, tr_stats := (tr_stats t)(tr_currentKey t \<mapsto> s)\<rparr>"

definition parseTransfers_line :: "transfers \<Rightarrow> string \<Rightarrow> transfers result" where
  "parseTransfers_line t line0 =
     (let line = strings_TrimSpace line0 in
      if strings_HasPrefix line ''public_key='' then
        (case hex_DecodeString (strings_TrimPrefix line ''public_key='') of
           Inl e \<Rightarrow> Inl (ErrWrap ''decode peerID'' e)
         | Inr h \<Rightarrow> Inr (transfers_put zero_wg_stats
                        (t\<lparr>tr_currentKey := base64_EncodeToString h, tr_hasPeer := True\<rparr>)))
      else if \<not> tr_hasPeer t then Inr t
      else (case strings_SplitN2 (CHR ''='') line of
        [k, v] \<Rightarrow>
          (if k = ''last_handshake_time_sec'' then
             bind_result (toLastHandshake v) (\<lambda>hs.
               Inr (transfers_put ((tr_currentStats t)\<lparr>ws_LastHandshake := hs\<rparr>) t))
           else if k = ''rx_bytes'' then
             bind_result (wrap_result ''parse rx_bytes'' (toBytes v)) (\<lambda>b.
               Inr (transfers_put ((tr_currentStats t)\<lparr>ws_RxBytes := b\<rparr>) t))
           else if k = ''tx_bytes'' then
             bind_result (wrap_result ''parse tx_bytes'' (toBytes v)) (\<lambda>b.
               Inr (transfers_put ((tr_currentStats t)\<lparr>ws_TxBytes := b\<rparr>) t))
           else Inr t)
      | _ \<Rightarrow> Inr t))"

fun parseTransfers_loop :: "transfers \<Rightarrow> string list \<Rightarrow> transfers result" where
  "parseTransfers_loop t [] = Inr t"
| "parseTransfers_loop t (l # ls) = bind_result (parseTransfers_line t l) (\<lambda>t'. parseTransfers_loop t' ls)"

definition parseTransfers :: "string \<Rightarrow> (string \<rightharpoonup> wg_stats) result" where
  "parseTransfers ipc =
     bind_result (parseTransfers_loop transfers_init (strings_Split (CHR 0x0A) ipc)) (\<lambda>t. Inr (tr_stats t))"

text \<open>\<^verbatim>\<open>parseStatus\<close>: one step of its loop over the lines, with the statistics and the current peer.\<close>

definition zero_psk_text :: string where
  "zero_psk_text = replicate 64 (CHR ''0'')"

definition upd_current :: "(wg_peer \<Rightarrow> wg_peer) \<Rightarrow> stats \<times> wg_peer option \<Rightarrow> stats \<times> wg_peer option" where
  "upd_current f s = (fst s, map_option f (snd s))"

definition flush_current :: "stats \<times> wg_peer option \<Rightarrow> stats" where
  "flush_current s = (case snd s of None \<Rightarrow> fst s
     | Some p \<Rightarrow> (fst s)\<lparr>st_Peers := st_Peers (fst s) @ [p]\<rparr>)"

definition parseEndpoint :: "string \<Rightarrow> udp_addr option" where
  "parseEndpoint val =
     (case net_SplitHostPort (strings_Trim val ''[]'') of
        Inl _ \<Rightarrow> None
      | Inr (host, portStr) \<Rightarrow>
          (case strconv_Atoi portStr of
             Inl _ \<Rightarrow> None
           | Inr port \<Rightarrow> Some \<lparr>udp_IP = (case net_ParseIP host of None \<Rightarrow> [] | Some ip \<Rightarrow> ip),
                              udp_Port = port, udp_Zone = []\<rparr>))"

definition parseStatus_entry ::
    "'w usp_env \<Rightarrow> stats \<times> wg_peer option \<Rightarrow> string \<Rightarrow> string \<Rightarrow> stats \<times> wg_peer option" where
  "parseStatus_entry E s key val =
     (if key = ''private_key'' then
        (case hexToWireguardKey val of Inl _ \<Rightarrow> s
         | Inr k \<Rightarrow> ((fst s)\<lparr>st_PublicKey := Key_String E (Key_PublicKey E k)\<rparr>, snd s))
      else if key = ''public_key'' then
        (case hexToWireguardKey val of Inl _ \<Rightarrow> (flush_current s, snd s)
         | Inr k \<Rightarrow> (flush_current s, Some (new_wg_peer (Key_String E k))))
      else if key = ''listen_port'' then
        (case strconv_Atoi val of Inl _ \<Rightarrow> s | Inr p \<Rightarrow> ((fst s)\<lparr>st_ListenPort := p\<rparr>, snd s))
      else if key = ''fwmark'' then
        (case strconv_Atoi val of Inl _ \<Rightarrow> s | Inr m \<Rightarrow> ((fst s)\<lparr>st_FWMark := m\<rparr>, snd s))
      else if key = ''endpoint'' then
        (case parseEndpoint val of None \<Rightarrow> s | Some e \<Rightarrow> upd_current (\<lambda>p. p\<lparr>wp_Endpoint := e\<rparr>) s)
      else if key = ''allowed_ip'' then
        (case net_ParseCIDR val of Inl _ \<Rightarrow> s
         | Inr (_, n) \<Rightarrow> upd_current (\<lambda>p. p\<lparr>wp_AllowedIPs := wp_AllowedIPs p @ [n]\<rparr>) s)
      else if key = ''tx_bytes'' then
        (case toBytes val of Inl _ \<Rightarrow> s | Inr b \<Rightarrow> upd_current (\<lambda>p. p\<lparr>wp_TxBytes := b\<rparr>) s)
      else if key = ''rx_bytes'' then
        (case toBytes val of Inl _ \<Rightarrow> s | Inr b \<Rightarrow> upd_current (\<lambda>p. p\<lparr>wp_RxBytes := b\<rparr>) s)
      else if key = ''last_handshake_time_sec'' then
        (case toLastHandshake val of Inl _ \<Rightarrow> s | Inr t \<Rightarrow> upd_current (\<lambda>p. p\<lparr>wp_LastHandshake := t\<rparr>) s)
      else if key = ''preshared_key'' then
        (if val \<noteq> [] \<and> val \<noteq> zero_psk_text
         then upd_current (\<lambda>p. p\<lparr>wp_PresharedKey := True\<rparr>) s else s)
      else s)"

definition parseStatus_line ::
    "'w usp_env \<Rightarrow> string \<Rightarrow> stats \<times> wg_peer option \<Rightarrow> stats \<times> wg_peer option" where
  "parseStatus_line E line s =
     (case strings_SplitN2 (CHR ''='') line of [key, val] \<Rightarrow> parseStatus_entry E s key val | _ \<Rightarrow> s)"

definition parseStatus :: "'w usp_env \<Rightarrow> string \<Rightarrow> string \<Rightarrow> stats" where
  "parseStatus E deviceName ipcStr =
     flush_current (fold (parseStatus_line E) (strings_Split (CHR 0x0A) (strings_TrimSpace ipcStr))
       (\<lparr>st_DeviceName = deviceName, st_PublicKey = [], st_ListenPort = 0, st_FWMark = 0, st_Peers = []\<rparr>, None))"

section \<open>The operations of the configurer\<close>

definition ErrAllowedIPNotFound :: go_error where
  "ErrAllowedIPNotFound = ErrSentinel ''allowed IP not found''"

definition getFwmark :: "'a wg_types_scheme \<Rightarrow> int" where
  "getFwmark E = (if AdvancedRouting E \<and> GOOS_linux E then ControlPlaneMark E else 0)"

text \<open>\<^verbatim>\<open>net.CIDRMask\<close> is nil, of size 0 of 0, when the length is outside the address family.\<close>

definition prefixToIPNet :: "prefix \<Rightarrow> ipnet" where
  "prefixToIPNet p =
     (let n = Addr_BitLen (pfx_Addr p);
          ok = (n \<noteq> 0 \<and> 0 \<le> pfx_Bits p \<and> pfx_Bits p \<le> int n)
      in \<lparr>net_IP = Addr_AsSlice (pfx_Addr p), net_ones = (if ok then nat (pfx_Bits p) else 0),
          net_bits = (if ok then n else 0)\<rparr>)"

definition prefixesToIPNets :: "prefix list \<Rightarrow> ipnet list" where
  "prefixesToIPNets ps = map prefixToIPNet ps"

definition interface_config :: "wgkey \<Rightarrow> int \<Rightarrow> int \<Rightarrow> wg_config" where
  "interface_config key fwmark port = \<lparr>wc_PrivateKey = Some key, wc_ListenPort = Some port,
     wc_FirewallMark = Some fwmark, wc_ReplacePeers = True, wc_Peers = []\<rparr>"

definition usp_ConfigureInterface ::
    "'w usp_env \<Rightarrow> string \<Rightarrow> int \<Rightarrow> 'w \<Rightarrow> go_error option \<times> 'w" where
  "usp_ConfigureInterface E privateKey port w =
     (case ParseKey E privateKey of
        Inl e \<Rightarrow> (Some e, w)
      | Inr key \<Rightarrow> IpcSet E (toWgUserspaceString (interface_config key (getFwmark E) port)) w)"

definition usp_UpdatePeer ::
    "'w usp_env \<Rightarrow> string \<Rightarrow> prefix list \<Rightarrow> int \<Rightarrow> udp_addr option \<Rightarrow> wgkey option \<Rightarrow> 'w
     \<Rightarrow> go_error option \<times> 'w" where
  "usp_UpdatePeer E peerKey allowedIps keepAlive endpoint preSharedKey w =
     (case ParseKey E peerKey of
        Inl e \<Rightarrow> (Some e, w)
      | Inr k \<Rightarrow>
          let peer = empty_peer_config\<lparr>pc_PublicKey := k, pc_AllowedIPs := prefixesToIPNets allowedIps,
                 pc_PersistentKeepaliveInterval := Some keepAlive, pc_PresharedKey := preSharedKey,
                 pc_Endpoint := endpoint\<rparr>
          in (case IpcSet E (toWgUserspaceString (peers_config [peer])) w of
                (Some e, w1) \<Rightarrow> (Some e, w1)
              | (None, w1) \<Rightarrow>
                  (case endpoint of
                     None \<Rightarrow> (None, w1)
                   | Some ep \<Rightarrow>
                       (case ParseAddr (IP_String (udp_IP ep)) of
                          Inl e \<Rightarrow> (Some (ErrWrap ''failed to parse endpoint address'' e), w1)
                        | Inr a \<Rightarrow> (None, UpsertAddress E peerKey (a, word_of_int (udp_Port ep)) w1)))))"

fun find_peer :: "string \<Rightarrow> wg_peer list \<Rightarrow> wg_peer option" where
  "find_peer k [] = None"
| "find_peer k (p # ps) = (if wp_PublicKey p = k then Some p else find_peer k ps)"

definition remove_peer_config :: "wgkey \<Rightarrow> wg_config" where
  "remove_peer_config k = peers_config [empty_peer_config\<lparr>pc_PublicKey := k, pc_Remove := True\<rparr>]"

definition readd_peer_config :: "wgkey \<Rightarrow> ipnet list \<Rightarrow> wg_config" where
  "readd_peer_config k ips = peers_config
     [empty_peer_config\<lparr>pc_PublicKey := k, pc_ReplaceAllowedIPs := True, pc_AllowedIPs := ips\<rparr>]"

definition usp_RemoveEndpointAddress ::
    "'w usp_env \<Rightarrow> string \<Rightarrow> string \<Rightarrow> 'w \<Rightarrow> go_error option \<times> 'w" where
  "usp_RemoveEndpointAddress E deviceName peerKey w =
     (case ParseKey E peerKey of
        Inl e \<Rightarrow> (Some (ErrWrap ''parse peer key'' e), w)
      | Inr k \<Rightarrow>
        (case IpcGet E w of
           Inl e \<Rightarrow> (Some (ErrWrap ''get IPC config'' e), w)
         | Inr ipcStr \<Rightarrow>
           (case find_peer peerKey (st_Peers (parseStatus E deviceName ipcStr)) of
              None \<Rightarrow> (Some (ErrMsg ''peer not found''), w)
            | Some p \<Rightarrow>
              (case IpcSet E (toWgUserspaceString (remove_peer_config k)) w of
                 (Some e, w1) \<Rightarrow> (Some (ErrMsg ''failed to remove peer''), w1)
               | (None, w1) \<Rightarrow>
                 (case IpcSet E (toWgUserspaceString (readd_peer_config k (wp_AllowedIPs p))) w1 of
                    (Some e, w2) \<Rightarrow> (Some (ErrWrap ''remove endpoint address'' e), w2)
                  | (None, w2) \<Rightarrow> (None, w2))))))"

definition usp_RemovePeer :: "'w usp_env \<Rightarrow> string \<Rightarrow> 'w \<Rightarrow> go_error option \<times> 'w" where
  "usp_RemovePeer E peerKey w =
     (case ParseKey E peerKey of
        Inl e \<Rightarrow> (Some e, w)
      | Inr k \<Rightarrow> (case IpcSet E (toWgUserspaceString (remove_peer_config k)) w of
                   (ipcErr, w1) \<Rightarrow> (ipcErr, RemoveActivity E peerKey w1)))"

definition usp_AddAllowedIP :: "'w usp_env \<Rightarrow> string \<Rightarrow> prefix \<Rightarrow> 'w \<Rightarrow> go_error option \<times> 'w" where
  "usp_AddAllowedIP E peerKey allowedIP w =
     (case ParseKey E peerKey of
        Inl e \<Rightarrow> (Some e, w)
      | Inr k \<Rightarrow> IpcSet E (toWgUserspaceString (peers_config
          [empty_peer_config\<lparr>pc_PublicKey := k, pc_UpdateOnly := True,
             pc_AllowedIPs := [prefixToIPNet allowedIP]\<rparr>])) w)"

text \<open>The line scan of \<^verbatim>\<open>RemoveAllowedIP\<close>: the flags \<^verbatim>\<open>foundPeer\<close>, \<^verbatim>\<open>removedAllowedIP\<close> and the kept networks.\<close>

record ip_scan =
  sc_foundPeer :: bool
  sc_removed :: bool
  sc_kept :: "ipnet list"

definition scan_line :: "string \<Rightarrow> string \<Rightarrow> ip_scan \<Rightarrow> string \<Rightarrow> ip_scan result" where
  "scan_line hexKey ip s line0 =
     (let line = strings_TrimSpace line0;
          f1 = (if strings_HasPrefix line ''public_key='' \<and> sc_foundPeer s then False else sc_foundPeer s);
          f2 = (if line = ''public_key='' @ hexKey then True else f1);
          s2 = s\<lparr>sc_foundPeer := f2\<rparr>
      in if f2 \<and> line = ''allowed_ip='' @ ip then Inr (s2\<lparr>sc_removed := True\<rparr>)
         else if f2 \<and> strings_HasPrefix line ''allowed_ip='' then
           bind_result (net_ParseCIDR (strings_TrimPrefix line ''allowed_ip='')) (\<lambda>(_, n).
             Inr (s2\<lparr>sc_kept := sc_kept s @ [n]\<rparr>))
         else Inr s2)"

fun scan_lines :: "string \<Rightarrow> string \<Rightarrow> ip_scan \<Rightarrow> string list \<Rightarrow> ip_scan result" where
  "scan_lines hexKey ip s [] = Inr s"
| "scan_lines hexKey ip s (l # ls) = bind_result (scan_line hexKey ip s l) (\<lambda>s'. scan_lines hexKey ip s' ls)"

definition replace_allowed_config :: "wgkey \<Rightarrow> ipnet list \<Rightarrow> wg_config" where
  "replace_allowed_config k ips = peers_config
     [empty_peer_config\<lparr>pc_PublicKey := k, pc_UpdateOnly := True, pc_ReplaceAllowedIPs := True,
        pc_AllowedIPs := ips\<rparr>]"

definition usp_RemoveAllowedIP :: "'w usp_env \<Rightarrow> string \<Rightarrow> prefix \<Rightarrow> 'w \<Rightarrow> go_error option \<times> 'w" where
  "usp_RemoveAllowedIP E peerKey allowedIP w =
     (case IpcGet E w of
        Inl e \<Rightarrow> (Some e, w)
      | Inr ipc \<Rightarrow>
        (case ParseKey E peerKey of
           Inl e \<Rightarrow> (Some e, w)
         | Inr k \<Rightarrow>
           (case scan_lines (hex_EncodeToString k) (Prefix_String allowedIP)
                   \<lparr>sc_foundPeer = False, sc_removed = False, sc_kept = []\<rparr>
                   (strings_Split (CHR 0x0A) ipc) of
              Inl e \<Rightarrow> (Some e, w)
            | Inr s \<Rightarrow> (if \<not> sc_removed s then (Some ErrAllowedIPNotFound, w)
                        else IpcSet E (toWgUserspaceString (replace_allowed_config k (sc_kept s))) w))))"

definition usp_FullStats :: "'w usp_env \<Rightarrow> string \<Rightarrow> 'w \<Rightarrow> stats result" where
  "usp_FullStats E deviceName w =
     (case IpcGet E w of
        Inl e \<Rightarrow> Inl (ErrWrap ''IpcGet failed'' e)
      | Inr ipcStr \<Rightarrow> Inr (parseStatus E deviceName ipcStr))"

definition usp_GetStats :: "'w usp_env \<Rightarrow> 'w \<Rightarrow> (string \<rightharpoonup> wg_stats) result" where
  "usp_GetStats E w =
     (case IpcGet E w of
        Inl e \<Rightarrow> Inl (ErrWrap ''ipc get'' e)
      | Inr ipc \<Rightarrow> parseTransfers ipc)"

definition usp_LastActivities :: "'w usp_env \<Rightarrow> 'w \<Rightarrow> (string \<rightharpoonup> int)" where
  "usp_LastActivities E w = GetLastActivities E w"

section \<open>The text of a device\<close>

text \<open>
  The protocol text a WireGuard device returns, as the cross-platform interface document specifies it:
  the device's keys, then one block of lines per peer. Endpoints and allowed addresses are IPv4, the
  only family the overlay network uses.
\<close>

record uapi_peer =
  up_key :: wgkey
  up_psk :: wgkey
  up_endpoint :: "(u32 \<times> nat) option"
  up_hs_sec :: nat
  up_hs_nsec :: nat
  up_tx :: nat
  up_rx :: nat
  up_keepalive :: nat
  up_allowed :: "(u32 \<times> nat) list"

record uapi_dev =
  ud_private :: wgkey
  ud_port :: nat
  ud_fwmark :: nat
  ud_peers :: "uapi_peer list"

definition kv :: "string \<Rightarrow> string \<Rightarrow> string" where
  "kv k v = k @ ''='' @ v"

definition cidr_text :: "u32 \<times> nat \<Rightarrow> string" where
  "cidr_text a = v4_String (fst a) @ ''/'' @ itoa (snd a)"

definition uapi_peer_lines :: "uapi_peer \<Rightarrow> string list" where
  "uapi_peer_lines p =
     [kv ''public_key'' (hex_EncodeToString (up_key p)),
      kv ''preshared_key'' (hex_EncodeToString (up_psk p)),
      kv ''protocol_version'' ''1'']
     @ (case up_endpoint p of None \<Rightarrow> []
        | Some (w, n) \<Rightarrow> [kv ''endpoint'' (v4_String w @ '':'' @ itoa n)])
     @ [kv ''last_handshake_time_sec'' (itoa (up_hs_sec p)),
        kv ''last_handshake_time_nsec'' (itoa (up_hs_nsec p)),
        kv ''tx_bytes'' (itoa (up_tx p)),
        kv ''rx_bytes'' (itoa (up_rx p)),
        kv ''persistent_keepalive_interval'' (itoa (up_keepalive p))]
     @ map (\<lambda>a. kv ''allowed_ip'' (cidr_text a)) (up_allowed p)"

definition uapi_lines :: "uapi_dev \<Rightarrow> string list" where
  "uapi_lines d =
     [kv ''private_key'' (hex_EncodeToString (ud_private d)),
      kv ''listen_port'' (itoa (ud_port d)),
      kv ''fwmark'' (itoa (ud_fwmark d))]
     @ concat (map uapi_peer_lines (ud_peers d))"

definition uapi_text :: "uapi_dev \<Rightarrow> string" where
  "uapi_text d = text_lines (uapi_lines d)"

definition wf_uapi_peer :: "uapi_peer \<Rightarrow> bool" where
  "wf_uapi_peer p = (length (up_key p) = 32 \<and> length (up_psk p) = 32 \<and>
     up_hs_sec p < 2 ^ 63 \<and> up_tx p < 2 ^ 63 \<and> up_rx p < 2 ^ 63 \<and>
     (case up_endpoint p of None \<Rightarrow> True | Some (_, n) \<Rightarrow> n < 65536) \<and>
     list_all (\<lambda>a. snd a \<le> 32) (up_allowed p))"

definition wf_uapi :: "uapi_dev \<Rightarrow> bool" where
  "wf_uapi d = (length (ud_private d) = 32 \<and> ud_port d < 65536 \<and> ud_fwmark d < 2 ^ 32 \<and>
     list_all wf_uapi_peer (ud_peers d))"

text \<open>What the readers should report of such a device.\<close>

definition handshake_of :: "nat \<Rightarrow> gotime" where
  "handshake_of n = (if n = 0 then TimeZero else TimeUnix (int n))"

definition cidr_net :: "u32 \<times> nat \<Rightarrow> ipnet" where
  "cidr_net a = ipnet_of_v4 (fst a AND NOT (mask (32 - snd a))) (snd a)"

definition peer_stats_of :: "uapi_peer \<Rightarrow> wg_stats" where
  "peer_stats_of p = \<lparr>ws_LastHandshake = handshake_of (up_hs_sec p), ws_TxBytes = int (up_tx p),
     ws_RxBytes = int (up_rx p)\<rparr>"

definition peer_status_of :: "'w usp_env \<Rightarrow> uapi_peer \<Rightarrow> wg_peer" where
  "peer_status_of E p = \<lparr>wp_PublicKey = Key_String E (up_key p),
     wp_Endpoint = (case up_endpoint p of None \<Rightarrow> zero_udp_addr
       | Some (w, n) \<Rightarrow> \<lparr>udp_IP = Addr_As16 (Addr4 w), udp_Port = int n, udp_Zone = []\<rparr>),
     wp_AllowedIPs = map cidr_net (up_allowed p),
     wp_TxBytes = int (up_tx p), wp_RxBytes = int (up_rx p),
     wp_LastHandshake = handshake_of (up_hs_sec p),
     wp_PresharedKey = (up_psk p \<noteq> replicate 32 0)\<rparr>"

definition status_of :: "'w usp_env \<Rightarrow> string \<Rightarrow> uapi_dev \<Rightarrow> stats" where
  "status_of E name d = \<lparr>st_DeviceName = name, st_PublicKey = Key_String E (Key_PublicKey E (ud_private d)),
     st_ListenPort = int (ud_port d), st_FWMark = int (ud_fwmark d),
     st_Peers = map (peer_status_of E) (ud_peers d)\<rparr>"

section \<open>The readers on a device's text\<close>



lemma plain_uapi_lines: "list_all plain (uapi_lines d)"
  by (auto simp: uapi_lines_def uapi_peer_lines_def kv_def cidr_text_def is_space_def list_all_iff
      split: option.splits)

lemma kv_not_Nil [simp]: "kv k v \<noteq> []" "[] \<noteq> kv k v"
  by (simp_all add: kv_def)

lemma uapi_lines_not_Nil: "l \<in> set (uapi_lines d) \<Longrightarrow> l \<noteq> []"
  by (auto simp: uapi_lines_def uapi_peer_lines_def split: option.splits)

lemma uapi_text_status_lines: "strings_Split (CHR 0x0A) (strings_TrimSpace (uapi_text d)) = uapi_lines d"
proof -
  have ne: "uapi_lines d \<noteq> []" by (simp add: uapi_lines_def)
  then show ?thesis
    unfolding uapi_text_def
    using uapi_lines_not_Nil [of _ d] plain_uapi_lines
    by (intro Split_TrimSpace_text_lines) (simp_all add: hd_in_set last_in_set)
qed

lemma uapi_text_lines: "strings_Split (CHR 0x0A) (uapi_text d) = uapi_lines d @ [[]]"
  using strings_Split_text_lines [of "uapi_lines d" "[]"] plain_uapi_lines [of d]
  by (auto simp: uapi_text_def list_all_iff plain_no_newline)

lemma parseStatus_line_kv [simp]:
  "CHR ''='' \<notin> set k \<Longrightarrow> parseStatus_line E (kv k v) s = parseStatus_entry E s k v"
  by (simp add: parseStatus_line_def kv_def)

lemma hexToWireguardKey_Encode [simp]:
  "length k = 32 \<Longrightarrow> hexToWireguardKey (hex_EncodeToString k) = Inr k"
  by (simp add: hexToWireguardKey_def)

lemma ParseInt64_itoa: "n < 2 ^ 63 \<Longrightarrow> strconv_ParseInt64 (itoa n) = Inr (int n)"
  using strconv_ParseInt64_itoa_int [of "int n"] by (simp add: itoa_int_def)

lemma toBytes_itoa [simp]: "n < 2 ^ 63 \<Longrightarrow> toBytes (itoa n) = Inr (int n)"
  by (simp add: toBytes_def ParseInt64_itoa)

lemma Atoi_itoa [simp]: "n < 2 ^ 63 \<Longrightarrow> strconv_Atoi (itoa n) = Inr (int n)"
  by (simp add: strconv_Atoi_def ParseInt64_itoa)

lemma toLastHandshake_itoa [simp]: "n < 2 ^ 63 \<Longrightarrow> toLastHandshake (itoa n) = Inr (handshake_of n)"
  by (simp add: toLastHandshake_def ParseInt64_itoa handshake_of_def)

lemma parseEndpoint_v4 [simp]:
  "n < 65536 \<Longrightarrow> parseEndpoint (v4_String w @ CHR '':'' # itoa n) =
     Some \<lparr>udp_IP = Addr_As16 (Addr4 w), udp_Port = int n, udp_Zone = []\<rparr>"
proof -
  assume n: "n < 65536"
  let ?s = "v4_String w @ CHR '':'' # itoa n"
  have no: "c \<in> set ?s \<Longrightarrow> c \<notin> {CHR ''['', CHR '']''}" for c
    by (auto dest: v4_String_chars itoa_digits simp: v4_chars_def is_digit_def)
  have "strings_Trim ?s ''[]'' = ?s"
    unfolding strings_Trim_def using no [of "hd ?s"] no [of "last ?s"] 
    by (intro trim_by_id) auto
  then show ?thesis using n
    by (simp add: parseEndpoint_def net_SplitHostPort_v4 net_ParseIP_v4)
qed

lemma hex_zero_psk: "hex_EncodeToString k = zero_psk_text \<longleftrightarrow> k = replicate 32 0"
proof -
  have "zero_psk_text = hex_EncodeToString (replicate 32 0)" by code_simp
  then show ?thesis by (metis hex_EncodeToString_inject)
qed

lemma cidr_parse [simp]: "snd a \<le> 32 \<Longrightarrow> net_ParseCIDR (cidr_text a) = Inr (Addr_As16 (Addr4 (fst a)), cidr_net a)"
  using net_ParseCIDR_v4 [of "snd a" "fst a"] by (simp add: cidr_text_def cidr_net_def)

lemma parseStatus_allowed_ips:
  assumes "list_all (\<lambda>a. snd a \<le> 32) as"
  shows "fold (parseStatus_line E) (map (\<lambda>a. kv ''allowed_ip'' (cidr_text a)) as) (s, Some p) =
    (s, Some (p\<lparr>wp_AllowedIPs := wp_AllowedIPs p @ map cidr_net as\<rparr>))"
  using assms by (induction as arbitrary: p) (simp_all add: parseStatus_entry_def upd_current_def)

lemma parseStatus_peer:
  assumes "wf_uapi_peer p"
  shows "fold (parseStatus_line E) (uapi_peer_lines p) s = (flush_current s, Some (peer_status_of E p))"
  using assms
  by (auto simp: uapi_peer_lines_def wf_uapi_peer_def parseStatus_entry_def
     upd_current_def parseStatus_allowed_ips peer_status_of_def new_wg_peer_def hex_zero_psk
     split: option.splits)


lemma peer_lines_fold:
  assumes "list_all wf_uapi_peer ps"
  shows "flush_current (fold (parseStatus_line E) (concat (map uapi_peer_lines ps)) s) =
    (let s' = flush_current s in s'\<lparr>st_Peers := st_Peers s' @ map (peer_status_of E) ps\<rparr>)"
  using assms
proof (induction ps arbitrary: s)
  case Nil
  then show ?case by (simp add: Let_def)
next
  case (Cons p ps)
  then show ?case by (simp add: parseStatus_peer Let_def flush_current_def)
qed

lemma parseStatus_reads:
  assumes "wf_uapi d"
  shows "parseStatus E name (uapi_text d) = status_of E name d"
proof -
  let ?s = "(\<lparr>st_DeviceName = name, st_PublicKey = Key_String E (Key_PublicKey E (ud_private d)),
     st_ListenPort = int (ud_port d), st_FWMark = int (ud_fwmark d), st_Peers = []\<rparr>, None)"
  have "parseStatus E name (uapi_text d) =
      flush_current (fold (parseStatus_line E) (concat (map uapi_peer_lines (ud_peers d))) ?s)"
    using assms unfolding parseStatus_def uapi_text_status_lines
    by (simp add: uapi_lines_def wf_uapi_def parseStatus_entry_def)
  then show ?thesis
    using assms peer_lines_fold [of "ud_peers d" E ?s] by (simp add: wf_uapi_def status_of_def Let_def flush_current_def [of ?s])
qed


lemma parseTransfers_loop_append:
  "parseTransfers_loop t (xs @ ys) = bind_result (parseTransfers_loop t xs) (\<lambda>t'. parseTransfers_loop t' ys)"
proof (induction xs arbitrary: t)
  case (Cons x xs)
  then show ?case by (cases "parseTransfers_line t x") auto
qed simp

lemma public_key_prefix: 
  "strings_HasPrefix (kv k v) ''public_key='' \<longleftrightarrow> k = ''public_key''" if "CHR ''='' \<notin> set k"
proof
  assume "strings_HasPrefix (kv k v) ''public_key=''"
  then obtain t where "k @ ''='' @ v = ''public_key'' @ ''='' @ t"
    by (auto simp: strings_HasPrefix_iff kv_def)
  then have "takeWhile (\<lambda>x. x \<noteq> CHR ''='') (k @ ''='' @ v) = takeWhile (\<lambda>x. x \<noteq> CHR ''='') (''public_key'' @ ''='' @ t)"
    by simp
  then show "k = ''public_key''" using that by (simp add: takeWhile_dropWhile_notin)
next
  assume "k = ''public_key''"
  then show "strings_HasPrefix (kv k v) ''public_key=''" by (simp add: kv_def strings_HasPrefix_iff)
qed

lemma parseTransfers_line_skip:
  assumes "CHR ''='' \<notin> set k" "plain (kv k v)" 
    "k \<notin> {''public_key'', ''last_handshake_time_sec'', ''rx_bytes'', ''tx_bytes''}"
  shows "parseTransfers_line t (kv k v) = Inr t"
proof -
  have "strings_SplitN2 (CHR ''='') (kv k v) = [k, v]" using assms by (simp add: kv_def)
  then show ?thesis using assms
    by (simp add: parseTransfers_line_def public_key_prefix)
qed

lemma parseTransfers_line_public_key:
  "parseTransfers_line t (kv ''public_key'' (hex_EncodeToString k)) =
    Inr (transfers_put zero_wg_stats (t\<lparr>tr_currentKey := base64_EncodeToString k, tr_hasPeer := True\<rparr>))"
proof -
  have p: "plain (kv ''public_key'' (hex_EncodeToString k))" by (simp add: kv_def is_space_def)
  show ?thesis
    unfolding parseTransfers_line_def plain_TrimSpace [OF p] by (simp add: kv_def strings_TrimPrefix_def)
qed

lemma parseTransfers_line_value:
  assumes "k \<in> {''last_handshake_time_sec'', ''rx_bytes'', ''tx_bytes''}" and "n < 2 ^ 63" and "tr_hasPeer t"
  shows "parseTransfers_line t (kv k (itoa n)) =
    Inr (transfers_put (if k = ''rx_bytes'' then (tr_currentStats t)\<lparr>ws_RxBytes := int n\<rparr>
      else if k = ''tx_bytes'' then (tr_currentStats t)\<lparr>ws_TxBytes := int n\<rparr>
      else (tr_currentStats t)\<lparr>ws_LastHandshake := handshake_of n\<rparr>) t)"
proof -
  have p: "plain (kv k (itoa n))" and e: "CHR ''='' \<notin> set k" using assms(1) by (auto simp: kv_def is_space_def)
  then have s: "strings_SplitN2 (CHR ''='') (kv k (itoa n)) = [k, itoa n]" by (simp add: kv_def)
  have np: "\<not> strings_HasPrefix (kv k (itoa n)) ''public_key=''"
    using e assms(1) by (auto simp: public_key_prefix)
  show ?thesis
    unfolding parseTransfers_line_def plain_TrimSpace [OF p] Let_def s
    using assms np by auto
qed

lemma transfers_put_simps [simp]:
  "tr_hasPeer (transfers_put s t) = tr_hasPeer t"
  "tr_currentKey (transfers_put s t) = tr_currentKey t"
  "tr_currentStats (transfers_put s t) = s"
  "tr_stats (transfers_put s t) = (tr_stats t)(tr_currentKey t \<mapsto> s)"
  by (simp_all add: transfers_put_def)

lemma transfers_put_twice [simp]: "transfers_put s (transfers_put s' t) = transfers_put s t"
  by (simp add: transfers_put_def)

lemma parseTransfers_allowed_ips:
  "parseTransfers_loop t (map (\<lambda>a. kv ''allowed_ip'' (cidr_text a)) as) = Inr t"
proof (induction as)
  case (Cons a as)
  have "parseTransfers_line t (kv ''allowed_ip'' (cidr_text a)) = Inr t"
    by (rule parseTransfers_line_skip) (simp_all add: kv_def cidr_text_def is_space_def)
  with Cons show ?case by simp
qed simp

lemma parseTransfers_peer:
  assumes "wf_uapi_peer p"
  shows "parseTransfers_loop t (uapi_peer_lines p) =
    Inr (transfers_put (peer_stats_of p) (t\<lparr>tr_currentKey := base64_EncodeToString (up_key p), tr_hasPeer := True\<rparr>))"
proof -
  have skip: "parseTransfers_line t' (kv ''protocol_version'' ''1'') = Inr t'"
     "parseTransfers_line t' (kv ''preshared_key'' (hex_EncodeToString bs)) = Inr t'"
     "parseTransfers_line t' (kv ''last_handshake_time_nsec'' (itoa n)) = Inr t'"
     "parseTransfers_line t' (kv ''persistent_keepalive_interval'' (itoa n)) = Inr t'"
     "parseTransfers_line t' (kv ''endpoint'' (v4_String w @ CHR '':'' # itoa n)) = Inr t'"
    for t' bs n w
    by (rule parseTransfers_line_skip; simp add: kv_def is_space_def)+
  show ?thesis
    using assms unfolding uapi_peer_lines_def
    by (simp add: parseTransfers_loop_append parseTransfers_line_public_key parseTransfers_line_value
       skip parseTransfers_allowed_ips wf_uapi_peer_def peer_stats_of_def zero_wg_stats_def split: option.splits)
qed

definition transfers_of :: "uapi_dev \<Rightarrow> string \<rightharpoonup> wg_stats" where
  "transfers_of d = map_of (rev (map (\<lambda>p. (base64_EncodeToString (up_key p), peer_stats_of p)) (ud_peers d)))"

lemma parseTransfers_peers:
  assumes "list_all wf_uapi_peer ps"
  shows "\<exists>t'. parseTransfers_loop t (concat (map uapi_peer_lines ps)) = Inr t' \<and>
    tr_stats t' = tr_stats t ++ map_of (rev (map (\<lambda>p. (base64_EncodeToString (up_key p), peer_stats_of p)) ps))"
  using assms
proof (induction ps arbitrary: t)
  case Nil
  then show ?case by simp
next
  case (Cons p ps)
  let ?t = "transfers_put (peer_stats_of p)
    (t\<lparr>tr_currentKey := base64_EncodeToString (up_key p), tr_hasPeer := True\<rparr>)"
  obtain t' where "parseTransfers_loop ?t (concat (map uapi_peer_lines ps)) = Inr t'"
    "tr_stats t' = tr_stats ?t ++ map_of (rev (map (\<lambda>p. (base64_EncodeToString (up_key p), peer_stats_of p)) ps))"
    using Cons by fastforce
  then show ?case
    using Cons.prems by (simp add: parseTransfers_loop_append parseTransfers_peer map_add_assoc [symmetric])
qed

lemma parseTransfers_line_empty: "parseTransfers_line t [] = Inr t"
  by (simp add: parseTransfers_line_def strings_SplitN2_def strings_HasPrefix_def)

lemma parseTransfers_reads:
  assumes "wf_uapi d"
  shows "parseTransfers (uapi_text d) = Inr (transfers_of d)"
proof -
  have head: "parseTransfers_line t (kv ''private_key'' (hex_EncodeToString bs)) = Inr t"
     "parseTransfers_line t (kv ''listen_port'' (itoa n)) = Inr t"
     "parseTransfers_line t (kv ''fwmark'' (itoa n)) = Inr t" for t bs n
    by (rule parseTransfers_line_skip; simp add: kv_def is_space_def)+
  show ?thesis
    using assms parseTransfers_peers [of "ud_peers d" transfers_init]
    unfolding parseTransfers_def uapi_text_lines
    by (auto simp: uapi_lines_def head parseTransfers_loop_append wf_uapi_def transfers_of_def
        parseTransfers_line_empty transfers_init_def)
qed

text \<open>On the same text \<^verbatim>\<open>parseTransfers\<close> succeeds and maps the base64 form of each peer's key to that peer's
  handshake time and byte counters.\<close>

theorem parseTransfers_uapi_text:
  assumes "wf_uapi d"
  shows "parseTransfers (uapi_text d) = Inr (transfers_of d)"
  using assms by (rule parseTransfers_reads)

section \<open>Removing an allowed address\<close>

lemma scan_lines_append:
  "scan_lines h ip s (xs @ ys) = bind_result (scan_lines h ip s xs) (\<lambda>s'. scan_lines h ip s' ys)"
proof (induction xs arbitrary: s)
  case (Cons x xs)
  then show ?case by (cases "scan_line h ip s x") auto
qed simp

lemma kv_eq_literal:
  "CHR ''='' \<notin> set k \<Longrightarrow> CHR ''='' \<notin> set k' \<Longrightarrow> kv k v = kv k' v' \<longleftrightarrow> k = k' \<and> v = v'"
  by (metis kv_def append_Cons append_Nil list.inject strings_SplitN2_eq)

lemma kv_prefix:
  assumes "CHR ''='' \<notin> set k" and "CHR ''='' \<notin> set k'"
  shows "strings_HasPrefix (kv k v) (k' @ ''='') \<longleftrightarrow> k = k'"
proof
  assume "strings_HasPrefix (kv k v) (k' @ ''='')"
  then obtain t where "kv k v = kv k' t" by (auto simp: strings_HasPrefix_iff kv_def)
  then show "k = k'" using assms by (simp add: kv_eq_literal)
qed (simp add: kv_def strings_HasPrefix_iff)

lemma scan_line_kv:
  assumes "plain (kv k v)" and "CHR ''='' \<notin> set k" and "k \<noteq> ''public_key''" "k \<noteq> ''allowed_ip''"
  shows "scan_line h ip s (kv k v) = Inr s"
  using assms kv_prefix [of k "''public_key''" v] kv_prefix [of k "''allowed_ip''" v]
    kv_eq_literal [of k "''public_key''" v h] kv_eq_literal [of k "''allowed_ip''" v ip]
  by (simp add: scan_line_def Let_def kv_def)

lemma scan_line_public_key:
  "scan_line (hex_EncodeToString h) ip s (kv ''public_key'' (hex_EncodeToString k)) =
     Inr (s\<lparr>sc_foundPeer := (k = h)\<rparr>)"
proof -
  have p: "plain (kv ''public_key'' (hex_EncodeToString k))" by (simp add: kv_def is_space_def)
  show ?thesis
    unfolding scan_line_def plain_TrimSpace [OF p] by (auto simp: kv_def Let_def)
qed

lemma scan_line_allowed_ip:
  assumes "snd a \<le> 32"
  shows "scan_line h ip s (kv ''allowed_ip'' (cidr_text a)) =
     Inr (if \<not> sc_foundPeer s then s else if cidr_text a = ip then s\<lparr>sc_removed := True\<rparr>
          else s\<lparr>sc_kept := sc_kept s @ [cidr_net a]\<rparr>)"
proof -
  have p: "plain (kv ''allowed_ip'' (cidr_text a))" by (simp add: kv_def cidr_text_def is_space_def)
  show ?thesis
    using assms unfolding scan_line_def plain_TrimSpace [OF p]
    by (auto simp: kv_def Let_def strings_TrimPrefix_def)
qed

lemma scan_allowed_ips:
  assumes "list_all (\<lambda>a. snd a \<le> 32) as"
  shows "scan_lines h ip s (map (\<lambda>a. kv ''allowed_ip'' (cidr_text a)) as) =
     Inr (if \<not> sc_foundPeer s then s
          else s\<lparr>sc_removed := (sc_removed s \<or> ip \<in> cidr_text ` set as),
                 sc_kept := sc_kept s @ map cidr_net (filter (\<lambda>a. cidr_text a \<noteq> ip) as)\<rparr>)"
  using assms
  by (induction as arbitrary: s) (auto simp: scan_line_allowed_ip)

lemma scan_peer:
  assumes "wf_uapi_peer p"
  shows "scan_lines (hex_EncodeToString k) ip s (uapi_peer_lines p) =
     Inr (if up_key p = k
          then s\<lparr>sc_foundPeer := True, sc_removed := (sc_removed s \<or> ip \<in> cidr_text ` set (up_allowed p)),
                 sc_kept := sc_kept s @ map cidr_net (filter (\<lambda>a. cidr_text a \<noteq> ip) (up_allowed p))\<rparr>
          else s\<lparr>sc_foundPeer := False\<rparr>)"
proof -
  have skip: "scan_line h ip t (kv ''protocol_version'' ''1'') = Inr t"
     "scan_line h ip t (kv ''preshared_key'' (hex_EncodeToString bs)) = Inr t"
     "scan_line h ip t (kv ''last_handshake_time_sec'' (itoa n)) = Inr t"
     "scan_line h ip t (kv ''last_handshake_time_nsec'' (itoa n)) = Inr t"
     "scan_line h ip t (kv ''tx_bytes'' (itoa n)) = Inr t"
     "scan_line h ip t (kv ''rx_bytes'' (itoa n)) = Inr t"
     "scan_line h ip t (kv ''persistent_keepalive_interval'' (itoa n)) = Inr t"
     "scan_line h ip t (kv ''endpoint'' (v4_String w @ CHR '':'' # itoa n)) = Inr t" for h t bs n w
    by (rule scan_line_kv; simp add: kv_def is_space_def)+
  show ?thesis
    using assms unfolding uapi_peer_lines_def
    by (auto simp: scan_lines_append scan_line_public_key skip scan_allowed_ips wf_uapi_peer_def
        split: option.splits)
qed

lemma scan_other_peers:
  assumes "list_all wf_uapi_peer ps" and "k \<notin> up_key ` set ps"
  shows "\<exists>b. scan_lines (hex_EncodeToString k) ip s (concat (map uapi_peer_lines ps)) = Inr (s\<lparr>sc_foundPeer := b\<rparr>)"
  using assms
proof (induction ps arbitrary: s)
  case Nil
  then show ?case by (auto intro: exI [of _ "sc_foundPeer s"])
next
  case (Cons p ps)
  then obtain b where "scan_lines (hex_EncodeToString k) ip (s\<lparr>sc_foundPeer := False\<rparr>)
      (concat (map uapi_peer_lines ps)) = Inr (s\<lparr>sc_foundPeer := False, sc_foundPeer := b\<rparr>)" by fastforce
  then show ?case using Cons.prems by (auto simp: scan_lines_append scan_peer)
qed

lemma uapi_head_scan:
  "scan_lines h ip s (uapi_lines d) = scan_lines h ip s (concat (map uapi_peer_lines (ud_peers d)))"
proof -
  have "scan_line h ip s (kv ''private_key'' (hex_EncodeToString bs)) = Inr s"
     "scan_line h ip s (kv ''listen_port'' (itoa n)) = Inr s"
     "scan_line h ip s (kv ''fwmark'' (itoa n)) = Inr s" for bs n
    by (rule scan_line_kv; simp add: kv_def is_space_def)+
  then show ?thesis by (simp add: uapi_lines_def)
qed

lemma scan_line_empty: "scan_line h ip s [] = Inr s"
  by (simp add: scan_line_def Let_def)

theorem scan_device:
  assumes "wf_uapi d" and "distinct (map up_key (ud_peers d))" and "p \<in> set (ud_peers d)"
  shows "\<exists>b. scan_lines (hex_EncodeToString (up_key p)) ip
     \<lparr>sc_foundPeer = False, sc_removed = False, sc_kept = []\<rparr> (strings_Split (CHR 0x0A) (uapi_text d)) =
     Inr \<lparr>sc_foundPeer = b, sc_removed = (ip \<in> cidr_text ` set (up_allowed p)),
          sc_kept = map cidr_net (filter (\<lambda>a. cidr_text a \<noteq> ip) (up_allowed p))\<rparr>"
proof -
  obtain as bs where peers: "ud_peers d = as @ p # bs" using assms(3) by (meson split_list)
  have wf: "list_all wf_uapi_peer as" "wf_uapi_peer p" "list_all wf_uapi_peer bs"
    using assms(1) by (auto simp: wf_uapi_def peers)
  have "up_key p \<notin> up_key ` set as" "up_key p \<notin> up_key ` set bs"
    using assms(2) by (auto simp: peers)
  note others = scan_other_peers [OF wf(1) this(1)] scan_other_peers [OF wf(3) this(2)]
  obtain b1 where b1: "scan_lines (hex_EncodeToString (up_key p)) ip
     \<lparr>sc_foundPeer = False, sc_removed = False, sc_kept = []\<rparr> (concat (map uapi_peer_lines as)) =
     Inr \<lparr>sc_foundPeer = b1, sc_removed = False, sc_kept = []\<rparr>"
    using others(1) [of ip "\<lparr>sc_foundPeer = False, sc_removed = False, sc_kept = []\<rparr>"] by auto
  show ?thesis
    using others(2) [of ip "\<lparr>sc_foundPeer = True, sc_removed = (ip \<in> cidr_text ` set (up_allowed p)),
          sc_kept = map cidr_net (filter (\<lambda>a. cidr_text a \<noteq> ip) (up_allowed p))\<rparr>"]
    by (auto simp: uapi_text_lines scan_lines_append uapi_head_scan peers b1 scan_peer wf scan_line_empty)
qed

lemma scan_device_absent:
  assumes "wf_uapi d" and "k \<notin> up_key ` set (ud_peers d)"
  shows "\<exists>b. scan_lines (hex_EncodeToString k) ip
     \<lparr>sc_foundPeer = False, sc_removed = False, sc_kept = []\<rparr> (strings_Split (CHR 0x0A) (uapi_text d)) =
     Inr \<lparr>sc_foundPeer = b, sc_removed = False, sc_kept = []\<rparr>"
  using scan_other_peers [of "ud_peers d" k ip "\<lparr>sc_foundPeer = False, sc_removed = False, sc_kept = []\<rparr>"] assms
  by (auto simp: uapi_text_lines scan_lines_append uapi_head_scan scan_line_empty wf_uapi_def)

definition allowed_of :: "uapi_dev \<Rightarrow> wgkey \<Rightarrow> (u32 \<times> nat) list" where
  "allowed_of d k = concat (map up_allowed (filter (\<lambda>p. up_key p = k) (ud_peers d)))"

lemma allowed_of_peer:
  assumes "distinct (map up_key (ud_peers d))" and "p \<in> set (ud_peers d)"
  shows "allowed_of d (up_key p) = up_allowed p"
proof -
  obtain as bs where peers: "ud_peers d = as @ p # bs" using assms(2) by (meson split_list)
  have "filter (\<lambda>q. up_key q = up_key p) as = []" "filter (\<lambda>q. up_key q = up_key p) bs = []"
    using assms(1) by (auto simp: peers filter_empty_conv rev_image_eqI)
  then show ?thesis by (simp add: allowed_of_def peers)
qed

lemma allowed_of_absent: "k \<notin> up_key ` set (ud_peers d) \<Longrightarrow> allowed_of d k = []"
  by (auto simp: allowed_of_def)

lemma cidr_text_inject: "cidr_text a = cidr_text b \<longleftrightarrow> a = b"
proof
  assume eq: "cidr_text a = cidr_text b"
  have "cut_last (CHR ''/'') (cidr_text x) = Some (v4_String (fst x), itoa (snd x))" for x
    by (simp add: cidr_text_def cut_last_append)
  with eq have "v4_String (fst a) = v4_String (fst b)" "snd a = snd b" by (metis option.inject prod.inject itoa_inject)+
  then show "a = b" by (metis ParseAddr_v4_String addr.inject(1) prod.collapse sum.inject(2))
qed simp

lemma Prefix_String_cidr: "Prefix_String (Prefix (Addr4 a) (int n)) = cidr_text (a, n)"
  by (simp add: Prefix_String_def Prefix_IsValid_def cidr_text_def)

lemma usp_RemoveAllowedIP_device:
  assumes "wf_uapi d" and "distinct (map up_key (ud_peers d))"
    and "IpcGet E w = Inr (uapi_text d)" and "ParseKey E peerKey = Inr k"
  shows "usp_RemoveAllowedIP E peerKey (Prefix (Addr4 a) (int n)) w =
    (if (a, n) \<in> set (allowed_of d k)
     then IpcSet E (toWgUserspaceString (replace_allowed_config k
            (map cidr_net (filter (\<lambda>x. x \<noteq> (a, n)) (allowed_of d k))))) w
     else (Some ErrAllowedIPNotFound, w))"
proof (cases "k \<in> up_key ` set (ud_peers d)")
  case True
  then obtain p where p: "p \<in> set (ud_peers d)" "k = up_key p" by auto
  obtain b where "scan_lines (hex_EncodeToString (up_key p)) (cidr_text (a, n))
     \<lparr>sc_foundPeer = False, sc_removed = False, sc_kept = []\<rparr> (strings_Split (CHR 0x0A) (uapi_text d)) =
     Inr \<lparr>sc_foundPeer = b, sc_removed = (cidr_text (a, n) \<in> cidr_text ` set (up_allowed p)),
          sc_kept = map cidr_net (filter (\<lambda>x. cidr_text x \<noteq> cidr_text (a, n)) (up_allowed p))\<rparr>"
    using scan_device [OF assms(1,2) p(1)] by blast
  then show ?thesis
    using assms(3,4) p by (auto simp: usp_RemoveAllowedIP_def Prefix_String_cidr cidr_text_inject
        allowed_of_peer [OF assms(2) p(1)] image_iff)
next
  case False
  then show ?thesis
    using scan_device_absent [OF assms(1) False, of "cidr_text (a, n)"] assms(3,4)
    by (auto simp: usp_RemoveAllowedIP_def Prefix_String_cidr allowed_of_absent)
qed

text \<open>\<^verbatim>\<open>RemoveAllowedIP\<close> of the userspace configurer, on a device with distinct peer keys: when the peer has the
  address, the device receives one configuration that replaces that peer's allowed networks by all its
  other ones, in order and from no other peer; otherwise \<^verbatim>\<open>ErrAllowedIPNotFound\<close> is returned and nothing is sent.\<close>

theorem usp_RemoveAllowedIP_spec:
  assumes "wf_uapi d" and "distinct (map up_key (ud_peers d))"
    and "IpcGet E w = Inr (uapi_text d)" and "ParseKey E peerKey = Inr k"
  shows "usp_RemoveAllowedIP E peerKey (Prefix (Addr4 a) (int n)) w =
    (if (a, n) \<in> set (allowed_of d k)
     then IpcSet E (toWgUserspaceString (replace_allowed_config k
            (map cidr_net (filter (\<lambda>x. x \<noteq> (a, n)) (allowed_of d k))))) w
     else (Some ErrAllowedIPNotFound, w))"
  using assms by (rule usp_RemoveAllowedIP_device)

section \<open>Where the code departs from its intent\<close>

text \<open>The text sent to a userspace device does not depend on \<^verbatim>\<open>UpdateOnly\<close>: the flag that \<^verbatim>\<open>AddAllowedIP\<close> and
  \<^verbatim>\<open>RemoveAllowedIP\<close> set, so that an absent peer is not created, never reaches the device.\<close>

theorem toWgUserspaceString_ignores_UpdateOnly:
  "toWgUserspaceString (c\<lparr>wc_Peers := map (\<lambda>p. p\<lparr>pc_UpdateOnly := b\<rparr>) ps\<rparr>) =
   toWgUserspaceString (c\<lparr>wc_Peers := ps\<rparr>)"
proof -
  have "toWgUserspacePeer (p\<lparr>pc_UpdateOnly := b\<rparr>) = toWgUserspacePeer p" for p
    by (simp add: toWgUserspacePeer_def)
  then show ?thesis by (simp add: toWgUserspaceString_def comp_def)
qed

lemma trim_brackets_v6:
  assumes "CHR ''['' \<notin> set h" "CHR '']'' \<notin> set h" "h \<noteq> []"
  shows "strings_Trim (''['' @ h @ '']:'' @ itoa n) ''[]'' = h @ '']:'' @ itoa n"
proof -
  have "dropWhile (\<lambda>c. c \<in> set ''[]'') (''['' @ h @ '']:'' @ itoa n) = h @ '']:'' @ itoa n"
    using assms by (cases h) auto
  moreover have "last (itoa n) \<notin> set ''[]''"
    using itoa_digits [of "last (itoa n)" n] by (auto simp: is_digit_def)
  then have "dropWhile (\<lambda>c. c \<in> set ''[]'') (rev (h @ '']:'' @ itoa n)) = rev (h @ '']:'' @ itoa n)"
    by (cases "itoa n" rule: rev_cases) auto
  ultimately show ?thesis by (simp add: strings_Trim_def trim_by_def)
qed

text \<open>An endpoint whose host contains a colon, as every IPv6 endpoint printed by \<^verbatim>\<open>net.JoinHostPort\<close>, is never
  parsed by \<^verbatim>\<open>parseStatus\<close>: trimming the brackets of \<^verbatim>\<open>[host]:port\<close> leaves a text \<^verbatim>\<open>net.SplitHostPort\<close> refuses.\<close>

theorem parseEndpoint_v6_rejected:
  assumes "CHR ''['' \<notin> set h" "CHR '']'' \<notin> set h" "CHR '':'' \<in> set h"
  shows "parseEndpoint (net_JoinHostPort h (itoa n)) = None"
proof -
  have h: "h \<noteq> []" "hd h \<noteq> CHR ''[''" using assms by (cases h; auto)+
  have "cut_last (CHR '':'') (h @ '']:'' @ itoa n) = Some (h @ '']'', itoa n)"
    using cut_last_append [of "CHR '':''" "itoa n" "h @ '']''"] by simp
  then have "\<exists>e. net_SplitHostPort (h @ '']:'' @ itoa n) = Inl e"
    using h assms by (cases h) (auto simp: net_SplitHostPort_def)
  then show ?thesis
    using trim_brackets_v6 [OF assms(1,2) h(1)] assms(3)
    by (auto simp: parseEndpoint_def net_JoinHostPort_def)
qed

lemma peer_lines_fold_snoc:
  assumes "list_all wf_uapi_peer (ps @ [p])"
  shows "fold (parseStatus_line E) (concat (map uapi_peer_lines (ps @ [p]))) s =
    (let s' = flush_current s in s'\<lparr>st_Peers := st_Peers s' @ map (peer_status_of E) ps\<rparr>,
     Some (peer_status_of E p))"
  using assms by (simp add: parseStatus_peer peer_lines_fold)

text \<open>When the text of a device is followed by a \<^verbatim>\<open>public_key\<close> line that does not decode, \<^verbatim>\<open>parseStatus\<close> reports the
  last good peer twice.\<close>

theorem parseStatus_damaged_key_duplicates:
  assumes "wf_uapi d" and "ud_peers d \<noteq> []" and "hexToWireguardKey bad = Inl e" and "plain bad"
  shows "st_Peers (parseStatus E name (text_lines (uapi_lines d @ [kv ''public_key'' bad]))) =
    map (peer_status_of E) (ud_peers d) @ [peer_status_of E (last (ud_peers d))]"
proof -
  let ?ls = "uapi_lines d @ [kv ''public_key'' bad]"
  obtain ps p where peers: "ud_peers d = ps @ [p]" using assms(2) by (metis rev_exhaust)
  have "uapi_lines d \<noteq> []" by (simp add: uapi_lines_def)
  then have "hd ?ls \<noteq> []" using uapi_lines_not_Nil [of "hd (uapi_lines d)" d] by simp
  moreover have "plain (kv ''public_key'' bad)" using assms(4) by (simp add: kv_def is_space_def)
  ultimately have lines: "strings_Split (CHR 0x0A) (strings_TrimSpace (text_lines ?ls)) = ?ls"
    using plain_uapi_lines [of d] by (intro Split_TrimSpace_text_lines) simp_all
  have wf: "list_all wf_uapi_peer (ps @ [p])" using assms(1) by (simp add: wf_uapi_def peers)
  show ?thesis
    unfolding parseStatus_def lines using assms(1,3) peer_lines_fold_snoc [OF wf, of E]
    by (simp add: uapi_lines_def wf_uapi_def peers parseStatus_entry_def flush_current_def Let_def)
qed

section \<open>Witnesses\<close>

text \<open>
  A device of two peers, \<^verbatim>\<open>wgtypes\<close> keys as their documentation describes them (base64 of 32 bytes) and a
  userspace device that records the texts it receives.
\<close>

definition sample_key :: "nat \<Rightarrow> wgkey" where
  "sample_key n = replicate 32 (word_of_nat n)"

definition sample_device :: uapi_dev where
  "sample_device = \<lparr>ud_private = sample_key 1, ud_port = 51820, ud_fwmark = 0, ud_peers =
     [\<lparr>up_key = sample_key 2, up_psk = sample_key 0, up_endpoint = Some (0x0A000001, 51820), up_hs_sec = 7,
       up_hs_nsec = 0, up_tx = 10, up_rx = 20, up_keepalive = 25,
       up_allowed = [(0x64400002, 32), (0x0A010000, 16)]\<rparr>,
      \<lparr>up_key = sample_key 3, up_psk = sample_key 9, up_endpoint = None, up_hs_sec = 0,
       up_hs_nsec = 0, up_tx = 0, up_rx = 0, up_keepalive = 0, up_allowed = [(0x64400003, 32)]\<rparr>]\<rparr>"

definition sample_ParseKey :: "string \<Rightarrow> wgkey result" where
  "sample_ParseKey s = bind_result (base64_DecodeString s) (\<lambda>b.
     if length b \<noteq> 32 then Inl (ErrMsg ''incorrect key size'') else Inr b)"

definition sample_usp :: "uapi_dev \<Rightarrow> string list usp_env" where
  "sample_usp d = \<lparr>ParseKey = sample_ParseKey, Key_String = base64_EncodeToString, Key_PublicKey = id,
     AdvancedRouting = True, GOOS_linux = True, ControlPlaneMark = 0x1BD00,
     IpcSet = (\<lambda>t w. (None, w @ [t])), IpcGet = (\<lambda>w. Inr (uapi_text d)),
     UpsertAddress = (\<lambda>k a w. w), RemoveActivity = (\<lambda>k w. w), GetLastActivities = (\<lambda>w. Map.empty)\<rparr>"

lemma wf_sample_device: "wf_uapi sample_device" "distinct (map up_key (ud_peers sample_device))"
  by code_simp+

lemma sample_usp_sel [simp]:
  "IpcGet (sample_usp d) w = Inr (uapi_text d)" "IpcSet (sample_usp d) t w = (None, w @ [t])"
  "ParseKey (sample_usp d) = sample_ParseKey" "Key_String (sample_usp d) = base64_EncodeToString"
  "Key_PublicKey (sample_usp d) = id"
  by (simp_all add: sample_usp_def)

lemma sample_ParseKey_sample [simp]: "length k = 32 \<Longrightarrow> sample_ParseKey (base64_EncodeToString k) = Inr k"
  by (simp add: sample_ParseKey_def)


theorem parseTransfers_uapi_text_witness:
  "wf_uapi sample_device \<and> parseTransfers (uapi_text sample_device) = Inr (transfers_of sample_device)"
  using parseTransfers_uapi_text wf_sample_device by blast

theorem usp_RemoveAllowedIP_spec_witness:
  "usp_RemoveAllowedIP (sample_usp sample_device) (base64_EncodeToString (sample_key 2))
     (Prefix (Addr4 0x64400002) (int 32)) [] =
   (None, [toWgUserspaceString (replace_allowed_config (sample_key 2) [cidr_net (0x0A010000, 16)])])"
proof -
  have "allowed_of sample_device (sample_key 2) = [(0x64400002, 32), (0x0A010000, 16)]" by code_simp
  moreover have "length (sample_key 2) = 32" by (simp add: sample_key_def)
  ultimately show ?thesis
    using usp_RemoveAllowedIP_spec [OF wf_sample_device, of "sample_usp sample_device" "[]"
      "base64_EncodeToString (sample_key 2)" "sample_key 2" "0x64400002" 32] by simp
qed

theorem parseEndpoint_v6_rejected_witness:
  "parseEndpoint (net_JoinHostPort ''fe80::1'' (itoa 51820)) = None"
  by (rule parseEndpoint_v6_rejected) simp_all

theorem parseStatus_damaged_key_duplicates_witness:
  "length (st_Peers (parseStatus (sample_usp sample_device) ''wt0''
     (text_lines (uapi_lines sample_device @ [kv ''public_key'' ''zz''])))) = 3"
proof -
  have "hexToWireguardKey ''zz'' = Inl (ErrWrap ''failed to decode hex key'' hex_InvalidByte)" by code_simp
  moreover have "plain ''zz''" by (simp add: is_space_def)
  moreover have "length (ud_peers sample_device) = 2" by (simp add: sample_device_def)
  ultimately show ?thesis
    using parseStatus_damaged_key_duplicates [OF wf_sample_device(1), of "''zz''" _ "sample_usp sample_device" "''wt0''"]
    by fastforce
qed

end
