(* ===== verification/Wg_Kernel.thy ===== *)
theory Wg_Kernel
  imports Wg_Uapi
begin

text \<open>
  The kernel WireGuard configurer, \<^verbatim>\<open>go/iface/configurer/kernel_unix.go\<close>. It talks to the kernel module
  through the package \<^verbatim>\<open>wgctrl\<close>, which is outside the repository: \<open>ctl_New\<close> opens the control client,
  \<open>ctl_Device\<close> reads a device and \<open>ctl_ConfigureDevice\<close> changes it. Closing the client only logs and is
  left out.

  The theorems: every operation sends the kernel exactly the configuration it promises, none of them
  touches the device when the peer key does not parse or the device does not exist, and removing an
  allowed address keeps all the others.
\<close>

section \<open>Devices of wgctrl\<close>

record ctl_peer =
  cp_PublicKey :: wgkey
  cp_PresharedKey :: wgkey
  cp_Endpoint :: "udp_addr option"
  cp_LastHandshakeTime :: gotime
  cp_ReceiveBytes :: int
  cp_TransmitBytes :: int
  cp_AllowedIPs :: "ipnet list"

record ctl_device =
  cd_Name :: string
  cd_PublicKey :: wgkey
  cd_ListenPort :: int
  cd_FirewallMark :: int
  cd_Peers :: "ctl_peer list"

record 'w ctl_env = wg_types +
  ctl_New :: "'w \<Rightarrow> go_error option"
  ctl_Device :: "string \<Rightarrow> 'w \<Rightarrow> ctl_device result"
  ctl_ConfigureDevice :: "string \<Rightarrow> wg_config \<Rightarrow> 'w \<Rightarrow> go_error option \<times> 'w"

definition zeroKey :: wgkey where
  "zeroKey = replicate 32 0"

definition ErrPeerNotFound :: go_error where
  "ErrPeerNotFound = ErrSentinel ''peer not found''"

section \<open>Operations\<close>

definition kernel_configure :: "'w ctl_env \<Rightarrow> string \<Rightarrow> wg_config \<Rightarrow> 'w \<Rightarrow> go_error option \<times> 'w" where
  "kernel_configure E deviceName config w =
     (case ctl_New E w of
        Some e \<Rightarrow> (Some e, w)
      | None \<Rightarrow> (case ctl_Device E deviceName w of
                  Inl e \<Rightarrow> (Some e, w)
                | Inr _ \<Rightarrow> ctl_ConfigureDevice E deviceName config w))"

text \<open>Run a configuration and wrap its error with the context of the operation.\<close>

definition configure_ctx :: "string \<Rightarrow> 'w ctl_env \<Rightarrow> string \<Rightarrow> wg_config \<Rightarrow> 'w \<Rightarrow> go_error option \<times> 'w" where
  "configure_ctx ctx E deviceName config w =
     (case kernel_configure E deviceName config w of
        (Some e, w') \<Rightarrow> (Some (ErrWrap ctx e), w')
      | (None, w') \<Rightarrow> (None, w'))"

fun find_ctl_peer :: "'w ctl_env \<Rightarrow> string \<Rightarrow> ctl_peer list \<Rightarrow> ctl_peer option" where
  "find_ctl_peer E k [] = None"
| "find_ctl_peer E k (p # ps) = (if Key_String E (cp_PublicKey p) = k then Some p else find_ctl_peer E k ps)"

definition kernel_getPeer :: "'w ctl_env \<Rightarrow> string \<Rightarrow> string \<Rightarrow> 'w \<Rightarrow> ctl_peer result" where
  "kernel_getPeer E ifaceName peerPubKey w =
     (case ctl_New E w of
        Some e \<Rightarrow> Inl (ErrWrap ''wgctl'' e)
      | None \<Rightarrow> (case ctl_Device E ifaceName w of
                  Inl e \<Rightarrow> Inl (ErrWrap ''get device'' e)
                | Inr d \<Rightarrow> (case find_ctl_peer E peerPubKey (cd_Peers d) of
                             None \<Rightarrow> Inl ErrPeerNotFound
                           | Some p \<Rightarrow> Inr p)))"

definition kernel_ConfigureInterface ::
    "'w ctl_env \<Rightarrow> string \<Rightarrow> string \<Rightarrow> int \<Rightarrow> 'w \<Rightarrow> go_error option \<times> 'w" where
  "kernel_ConfigureInterface E deviceName privateKey port w =
     (case ParseKey E privateKey of
        Inl e \<Rightarrow> (Some e, w)
      | Inr key \<Rightarrow> configure_ctx ''received error while configuring interface'' E deviceName
                     (interface_config key (getFwmark E) port) w)"

definition kernel_UpdatePeer ::
    "'w ctl_env \<Rightarrow> string \<Rightarrow> string \<Rightarrow> prefix list \<Rightarrow> int \<Rightarrow> udp_addr option \<Rightarrow> wgkey option \<Rightarrow> 'w
     \<Rightarrow> go_error option \<times> 'w" where
  "kernel_UpdatePeer E deviceName peerKey allowedIps keepAlive endpoint preSharedKey w =
     (case ParseKey E peerKey of
        Inl e \<Rightarrow> (Some e, w)
      | Inr k \<Rightarrow> configure_ctx ''received error while updating peer on interface'' E deviceName
          (peers_config [empty_peer_config\<lparr>pc_PublicKey := k, pc_AllowedIPs := prefixesToIPNets allowedIps,
             pc_PersistentKeepaliveInterval := Some keepAlive, pc_PresharedKey := preSharedKey,
             pc_Endpoint := endpoint\<rparr>]) w)"

definition kernel_RemoveEndpointAddress ::
    "'w ctl_env \<Rightarrow> string \<Rightarrow> string \<Rightarrow> 'w \<Rightarrow> go_error option \<times> 'w" where
  "kernel_RemoveEndpointAddress E deviceName peerKey w =
     (case ParseKey E peerKey of
        Inl e \<Rightarrow> (Some e, w)
      | Inr k \<Rightarrow>
        (case kernel_getPeer E deviceName peerKey w of
           Inl e \<Rightarrow> (Some (ErrWrap ''get peer'' e), w)
         | Inr existingPeer \<Rightarrow>
           (case configure_ctx ''error removing peer'' E deviceName (remove_peer_config k) w of
              (Some e, w1) \<Rightarrow> (Some e, w1)
            | (None, w1) \<Rightarrow> configure_ctx ''error re-adding peer'' E deviceName
                             (readd_peer_config k (cp_AllowedIPs existingPeer)) w1)))"

definition kernel_RemovePeer :: "'w ctl_env \<Rightarrow> string \<Rightarrow> string \<Rightarrow> 'w \<Rightarrow> go_error option \<times> 'w" where
  "kernel_RemovePeer E deviceName peerKey w =
     (case ParseKey E peerKey of
        Inl e \<Rightarrow> (Some e, w)
      | Inr k \<Rightarrow> configure_ctx ''received error while removing peer'' E deviceName (remove_peer_config k) w)"

definition kernel_AddAllowedIP ::
    "'w ctl_env \<Rightarrow> string \<Rightarrow> string \<Rightarrow> prefix \<Rightarrow> 'w \<Rightarrow> go_error option \<times> 'w" where
  "kernel_AddAllowedIP E deviceName peerKey allowedIP w =
     (case ParseKey E peerKey of
        Inl e \<Rightarrow> (Some e, w)
      | Inr k \<Rightarrow> configure_ctx ''received error while adding allowed Ip to peer'' E deviceName
          (peers_config [empty_peer_config\<lparr>pc_PublicKey := k, pc_UpdateOnly := True,
             pc_AllowedIPs := [prefixToIPNet allowedIP]\<rparr>]) w)"

text \<open>The loop with \<^verbatim>\<open>break\<close>: the first network that prints like the given one is dropped.\<close>

fun drop_first_ip :: "string \<Rightarrow> ipnet list \<Rightarrow> ipnet list" where
  "drop_first_ip s [] = []"
| "drop_first_ip s (n # ns) = (if IPNet_String n = s then ns else n # drop_first_ip s ns)"

definition kernel_RemoveAllowedIP ::
    "'w ctl_env \<Rightarrow> string \<Rightarrow> string \<Rightarrow> prefix \<Rightarrow> 'w \<Rightarrow> go_error option \<times> 'w" where
  "kernel_RemoveAllowedIP E deviceName peerKey allowedIP w =
     (case ParseKey E peerKey of
        Inl e \<Rightarrow> (Some (ErrWrap ''parse peer key'' e), w)
      | Inr k \<Rightarrow>
        (case kernel_getPeer E deviceName peerKey w of
           Inl e \<Rightarrow> (Some (ErrWrap ''get peer'' e), w)
         | Inr existingPeer \<Rightarrow> configure_ctx ''remove allowed IP'' E deviceName
             (replace_allowed_config k
                (drop_first_ip (IPNet_String (prefixToIPNet allowedIP)) (cp_AllowedIPs existingPeer))) w))"

definition ctl_peer_status :: "'w ctl_env \<Rightarrow> ctl_peer \<Rightarrow> wg_peer" where
  "ctl_peer_status E p = \<lparr>wp_PublicKey = Key_String E (cp_PublicKey p),
     wp_Endpoint = (case cp_Endpoint p of None \<Rightarrow> zero_udp_addr | Some e \<Rightarrow> e),
     wp_AllowedIPs = cp_AllowedIPs p, wp_TxBytes = cp_TransmitBytes p, wp_RxBytes = cp_ReceiveBytes p,
     wp_LastHandshake = cp_LastHandshakeTime p, wp_PresharedKey = (cp_PresharedKey p \<noteq> zeroKey)\<rparr>"

definition kernel_FullStats :: "'w ctl_env \<Rightarrow> string \<Rightarrow> 'w \<Rightarrow> stats result" where
  "kernel_FullStats E deviceName w =
     (case ctl_New E w of
        Some e \<Rightarrow> Inl (ErrWrap ''wgctl'' e)
      | None \<Rightarrow> (case ctl_Device E deviceName w of
                  Inl e \<Rightarrow> Inl (ErrWrap ''get device'' e)
                | Inr d \<Rightarrow> Inr \<lparr>st_DeviceName = cd_Name d, st_PublicKey = Key_String E (cd_PublicKey d),
                    st_ListenPort = cd_ListenPort d, st_FWMark = cd_FirewallMark d,
                    st_Peers = map (ctl_peer_status E) (cd_Peers d)\<rparr>))"

definition kernel_GetStats :: "'w ctl_env \<Rightarrow> string \<Rightarrow> 'w \<Rightarrow> (string \<rightharpoonup> wg_stats) result" where
  "kernel_GetStats E deviceName w =
     (case ctl_New E w of
        Some e \<Rightarrow> Inl (ErrWrap ''wgctl'' e)
      | None \<Rightarrow> (case ctl_Device E deviceName w of
                  Inl e \<Rightarrow> Inl (ErrWrap ''get device'' e)
                | Inr d \<Rightarrow> Inr (fold (\<lambda>p m. m(Key_String E (cp_PublicKey p) \<mapsto>
                    \<lparr>ws_LastHandshake = cp_LastHandshakeTime p, ws_TxBytes = cp_TransmitBytes p,
                     ws_RxBytes = cp_ReceiveBytes p\<rparr>)) (cd_Peers d) Map.empty)))"

definition kernel_LastActivities :: "'w \<Rightarrow> (string \<rightharpoonup> int) option" where
  "kernel_LastActivities w = None"

section \<open>What an operation sends\<close>

definition ctl_ready :: "'w ctl_env \<Rightarrow> string \<Rightarrow> 'w \<Rightarrow> bool" where
  "ctl_ready E deviceName w = (ctl_New E w = None \<and> (\<exists>d. ctl_Device E deviceName w = Inr d))"

lemma kernel_configure_ready:
  "ctl_ready E n w \<Longrightarrow> kernel_configure E n c w = ctl_ConfigureDevice E n c w"
  by (auto simp: ctl_ready_def kernel_configure_def)

lemma kernel_configure_not_ready:
  "\<not> ctl_ready E n w \<Longrightarrow> \<exists>e. kernel_configure E n c w = (Some e, w)"
  by (auto simp: ctl_ready_def kernel_configure_def split: option.splits sum.splits)

lemma configure_ctx_not_ready:
  "\<not> ctl_ready E n w \<Longrightarrow> \<exists>e. configure_ctx m E n c w = (Some e, w)"
  using kernel_configure_not_ready [of E n w c] by (auto simp: configure_ctx_def)

lemma configure_ctx_None:
  "configure_ctx m E n c w = (None, w') \<longleftrightarrow> ctl_ready E n w \<and> ctl_ConfigureDevice E n c w = (None, w')"
proof (cases "ctl_ready E n w")
  case True
  then show ?thesis by (simp add: configure_ctx_def kernel_configure_ready split: option.splits prod.splits)
next
  case False
  then show ?thesis using configure_ctx_not_ready [of E n w m c] by auto
qed

lemma drop_first_ip_notin: "s \<notin> IPNet_String ` set ns \<Longrightarrow> drop_first_ip s ns = ns"
  by (induction ns) auto

lemma drop_first_ip_mset:
  "n \<in> set ns \<Longrightarrow> IPNet_String n = s \<Longrightarrow>
     \<exists>m \<in> set ns. IPNet_String m = s \<and> mset (drop_first_ip s ns) + {#m#} = mset ns"
  by (induction ns) auto

lemma drop_first_ip_others:
  "filter (\<lambda>n. IPNet_String n \<noteq> s) (drop_first_ip s ns) = filter (\<lambda>n. IPNet_String n \<noteq> s) ns"
  by (induction ns) auto

lemma drop_first_ip_distinct:
  "distinct (map IPNet_String ns) \<Longrightarrow> drop_first_ip s ns = filter (\<lambda>n. IPNet_String n \<noteq> s) ns"
proof (induction ns)
  case (Cons n ns)
  then show ?case
    by (auto simp: filter_id_conv image_iff intro!: sym [OF filter_True])
qed simp

section \<open>Both configurers read the same device\<close>

text \<open>The view \<^verbatim>\<open>wgctrl\<close> gives of the device whose protocol text is \<open>uapi_text d\<close>.\<close>

definition ctl_peer_of :: "uapi_peer \<Rightarrow> ctl_peer" where
  "ctl_peer_of p = \<lparr>cp_PublicKey = up_key p, cp_PresharedKey = up_psk p,
     cp_Endpoint = (case up_endpoint p of None \<Rightarrow> None
       | Some (w, n) \<Rightarrow> Some \<lparr>udp_IP = Addr_As16 (Addr4 w), udp_Port = int n, udp_Zone = []\<rparr>),
     cp_LastHandshakeTime = handshake_of (up_hs_sec p), cp_ReceiveBytes = int (up_rx p),
     cp_TransmitBytes = int (up_tx p), cp_AllowedIPs = map cidr_net (up_allowed p)\<rparr>"

definition ctl_device_of :: "'a wg_types_scheme \<Rightarrow> string \<Rightarrow> uapi_dev \<Rightarrow> ctl_device" where
  "ctl_device_of E name d = \<lparr>cd_Name = name, cd_PublicKey = Key_PublicKey E (ud_private d),
     cd_ListenPort = int (ud_port d), cd_FirewallMark = int (ud_fwmark d),
     cd_Peers = map ctl_peer_of (ud_peers d)\<rparr>"

lemma find_ctl_peer_of:
  assumes "Key_String E = base64_EncodeToString"
  shows "find_ctl_peer E (base64_EncodeToString k) (map ctl_peer_of ps) =
    map_option ctl_peer_of (List.find (\<lambda>p. up_key p = k) ps)"
  using assms by (induction ps) (auto simp: ctl_peer_of_def)

lemma kernel_getPeer_of:
  assumes "ctl_New E w = None" and "ctl_Device E name w = Inr (ctl_device_of E name d)"
    and "Key_String E = base64_EncodeToString"
  shows "kernel_getPeer E name (base64_EncodeToString k) w =
    (case List.find (\<lambda>p. up_key p = k) (ud_peers d) of
       None \<Rightarrow> Inl ErrPeerNotFound | Some p \<Rightarrow> Inr (ctl_peer_of p))"
  using assms by (simp add: kernel_getPeer_def ctl_device_of_def find_ctl_peer_of split: option.splits)

lemma kernel_stats_fold:
  "fold (\<lambda>p m. m(Key_String E (cp_PublicKey p) \<mapsto>
       \<lparr>ws_LastHandshake = cp_LastHandshakeTime p, ws_TxBytes = cp_TransmitBytes p,
        ws_RxBytes = cp_ReceiveBytes p\<rparr>)) (map ctl_peer_of ps) m =
   m ++ map_of (rev (map (\<lambda>p. (Key_String E (up_key p), peer_stats_of p)) ps))"
  by (induction ps arbitrary: m)
     (simp_all add: ctl_peer_of_def peer_stats_of_def map_add_assoc [symmetric])

end
