(* ===== verification/Wg_Iface.thy ===== *)
theory Wg_Iface
  imports Wg_Kernel
begin

text \<open>
  The WireGuard interface object, \<^verbatim>\<open>go/iface/iface.go\<close> with \<^verbatim>\<open>iface_create.go\<close>, \<^verbatim>\<open>iface_new_linux.go\<close>,
  \<^verbatim>\<open>iface_destroy_linux.go\<close> and \<^verbatim>\<open>wgaddr/address.go\<close>.

  The Go interface \<^verbatim>\<open>device.WGConfigurer\<close> is the record of functions \<open>configurer\<close> over the device state
  \<open>'w\<close>; \<open>usp_configurer\<close> and \<open>kernel_configurer\<close> are its two implementations in the repository. The tunnel
  device, the proxy factory, the packet filter and netlink are outside the repository and are the fields
  of \<open>tun_env\<close>. The mutex of \<^verbatim>\<open>WGIface\<close> makes every operation atomic, so an operation is one function from
  state to state.

  The locale \<open>wg_configurer\<close> is the contract the interface object relies on: an operation with a peer key
  that does not parse is refused and leaves the device alone. It is interpreted on both implementations.
\<close>

section \<open>Addresses\<close>

record wg_address =
  wa_IP :: addr
  wa_Network :: prefix

definition ParseWGAddress :: "string \<Rightarrow> wg_address result" where
  "ParseWGAddress address =
     bind_result (ParsePrefix address) (\<lambda>p.
       Inr \<lparr>wa_IP = Addr_Unmap (pfx_Addr p), wa_Network = Prefix_Masked p\<rparr>)"

definition wg_address_String :: "wg_address \<Rightarrow> string" where
  "wg_address_String a = Addr_String (wa_IP a) @ ''/'' @ itoa_int (pfx_Bits (wa_Network a))"

definition MinMTU :: nat where "MinMTU = 576"
definition MaxMTU :: nat where "MaxMTU = 8192"
definition DefaultMTU :: nat where "DefaultMTU = 1280"

definition ValidateMTU :: "16 word \<Rightarrow> go_error option" where
  "ValidateMTU mtu =
     (if unat mtu < MinMTU then Some (ErrMsg ''MTU below minimum'')
      else if unat mtu > MaxMTU then Some (ErrMsg ''MTU exceeds maximum supported size'')
      else None)"

section \<open>The configurer interface\<close>

record 'w configurer =
  cf_UpdatePeer :: "string \<Rightarrow> prefix list \<Rightarrow> int \<Rightarrow> udp_addr option \<Rightarrow> wgkey option \<Rightarrow> 'w \<Rightarrow> go_error option \<times> 'w"
  cf_RemoveEndpointAddress :: "string \<Rightarrow> 'w \<Rightarrow> go_error option \<times> 'w"
  cf_RemovePeer :: "string \<Rightarrow> 'w \<Rightarrow> go_error option \<times> 'w"
  cf_AddAllowedIP :: "string \<Rightarrow> prefix \<Rightarrow> 'w \<Rightarrow> go_error option \<times> 'w"
  cf_RemoveAllowedIP :: "string \<Rightarrow> prefix \<Rightarrow> 'w \<Rightarrow> go_error option \<times> 'w"
  cf_GetStats :: "'w \<Rightarrow> (string \<rightharpoonup> wg_stats) result"
  cf_FullStats :: "'w \<Rightarrow> stats result"
  cf_LastActivities :: "'w \<Rightarrow> (string \<rightharpoonup> int) option"

definition NewUSPConfigurer :: "'w usp_env \<Rightarrow> string \<Rightarrow> 'w configurer" where
  "NewUSPConfigurer E deviceName = \<lparr>cf_UpdatePeer = usp_UpdatePeer E,
     cf_RemoveEndpointAddress = usp_RemoveEndpointAddress E deviceName,
     cf_RemovePeer = usp_RemovePeer E, cf_AddAllowedIP = usp_AddAllowedIP E,
     cf_RemoveAllowedIP = usp_RemoveAllowedIP E, cf_GetStats = usp_GetStats E,
     cf_FullStats = usp_FullStats E deviceName,
     cf_LastActivities = (\<lambda>w. Some (usp_LastActivities E w))\<rparr>"

definition NewKernelConfigurer :: "'w ctl_env \<Rightarrow> string \<Rightarrow> 'w configurer" where
  "NewKernelConfigurer E deviceName = \<lparr>cf_UpdatePeer = kernel_UpdatePeer E deviceName,
     cf_RemoveEndpointAddress = kernel_RemoveEndpointAddress E deviceName,
     cf_RemovePeer = kernel_RemovePeer E deviceName, cf_AddAllowedIP = kernel_AddAllowedIP E deviceName,
     cf_RemoveAllowedIP = kernel_RemoveAllowedIP E deviceName, cf_GetStats = kernel_GetStats E deviceName,
     cf_FullStats = kernel_FullStats E deviceName,
     cf_LastActivities = kernel_LastActivities\<rparr>"

section \<open>The interface object\<close>

text \<open>
  The tunnel device and the services around it. \<open>InterfaceByName\<close> is the outcome of the \<open>i\<close>-th poll:
  the interface is there, it is gone (a \<^verbatim>\<open>net.OpError\<close> or a nil interface), or the poll failed otherwise.
\<close>

datatype poll = PollPresent | PollGone | PollFailed

record ('w, 'f) tun_env =
  tun_Create :: "'w \<Rightarrow> 'w configurer result \<times> 'w"
  tun_Up :: "'w \<Rightarrow> go_error option \<times> 'w"
  tun_UpdateAddr :: "wg_address \<Rightarrow> 'w \<Rightarrow> go_error option \<times> 'w"
  tun_Close :: "'w \<Rightarrow> go_error option \<times> 'w"
  tun_WgAddress :: "'w \<Rightarrow> wg_address"
  tun_MTU :: "'w \<Rightarrow> 16 word"
  tun_DeviceName :: string
  tun_FilteredDevice :: bool
  tun_SetFilter :: "'f \<Rightarrow> 'w \<Rightarrow> 'w"
  proxy_Free :: "'w \<Rightarrow> go_error option \<times> 'w"
  InterfaceByName :: "'w \<Rightarrow> nat \<Rightarrow> poll"
  poll_rounds :: nat
  LinkByName :: "string \<Rightarrow> 'w \<Rightarrow> go_error option"
  LinkDel :: "string \<Rightarrow> 'w \<Rightarrow> go_error option \<times> 'w"

record ('w, 'f) wgiface =
  if_configurer :: "'w configurer option"
  if_filter :: "'f option"
  if_userspaceBind :: bool

definition ErrIfaceNotFound :: go_error where
  "ErrIfaceNotFound = ErrSentinel ''wireguard interface not found''"

definition iface_Create :: "('w, 'f) tun_env \<Rightarrow> ('w, 'f) wgiface \<Rightarrow> 'w \<Rightarrow> go_error option \<times> ('w, 'f) wgiface \<times> 'w" where
  "iface_Create T i w =
     (case tun_Create T w of
        (Inl e, w') \<Rightarrow> (Some e, i, w')
      | (Inr cfgr, w') \<Rightarrow> (None, i\<lparr>if_configurer := Some cfgr\<rparr>, w'))"

definition iface_Up :: "('w, 'f) tun_env \<Rightarrow> 'w \<Rightarrow> go_error option \<times> 'w" where
  "iface_Up T w = tun_Up T w"

definition iface_UpdateAddr :: "('w, 'f) tun_env \<Rightarrow> string \<Rightarrow> 'w \<Rightarrow> go_error option \<times> 'w" where
  "iface_UpdateAddr T newAddr w =
     (case ParseWGAddress newAddr of Inl e \<Rightarrow> (Some e, w) | Inr a \<Rightarrow> tun_UpdateAddr T a w)"

definition iface_UpdatePeer ::
    "('w, 'f) wgiface \<Rightarrow> string \<Rightarrow> prefix list \<Rightarrow> int \<Rightarrow> udp_addr option \<Rightarrow> wgkey option \<Rightarrow> 'w
     \<Rightarrow> go_error option \<times> 'w" where
  "iface_UpdatePeer i peerKey allowedIps keepAlive endpoint preSharedKey w =
     (case if_configurer i of
        None \<Rightarrow> (Some ErrIfaceNotFound, w)
      | Some C \<Rightarrow> cf_UpdatePeer C peerKey allowedIps keepAlive endpoint preSharedKey w)"

definition iface_RemoveEndpointAddress :: "('w, 'f) wgiface \<Rightarrow> string \<Rightarrow> 'w \<Rightarrow> go_error option \<times> 'w" where
  "iface_RemoveEndpointAddress i peerKey w =
     (case if_configurer i of
        None \<Rightarrow> (Some ErrIfaceNotFound, w)
      | Some C \<Rightarrow> cf_RemoveEndpointAddress C peerKey w)"

definition iface_RemovePeer :: "('w, 'f) wgiface \<Rightarrow> string \<Rightarrow> 'w \<Rightarrow> go_error option \<times> 'w" where
  "iface_RemovePeer i peerKey w =
     (case if_configurer i of
        None \<Rightarrow> (Some ErrIfaceNotFound, w)
      | Some C \<Rightarrow> cf_RemovePeer C peerKey w)"

definition iface_AddAllowedIP :: "('w, 'f) wgiface \<Rightarrow> string \<Rightarrow> prefix \<Rightarrow> 'w \<Rightarrow> go_error option \<times> 'w" where
  "iface_AddAllowedIP i peerKey allowedIP w =
     (case if_configurer i of
        None \<Rightarrow> (Some ErrIfaceNotFound, w)
      | Some C \<Rightarrow> cf_AddAllowedIP C peerKey allowedIP w)"

definition iface_RemoveAllowedIP :: "('w, 'f) wgiface \<Rightarrow> string \<Rightarrow> prefix \<Rightarrow> 'w \<Rightarrow> go_error option \<times> 'w" where
  "iface_RemoveAllowedIP i peerKey allowedIP w =
     (case if_configurer i of
        None \<Rightarrow> (Some ErrIfaceNotFound, w)
      | Some C \<Rightarrow> cf_RemoveAllowedIP C peerKey allowedIP w)"

definition iface_GetStats :: "('w, 'f) wgiface \<Rightarrow> 'w \<Rightarrow> (string \<rightharpoonup> wg_stats) result" where
  "iface_GetStats i w = (case if_configurer i of None \<Rightarrow> Inl ErrIfaceNotFound | Some C \<Rightarrow> cf_GetStats C w)"

definition iface_FullStats :: "('w, 'f) wgiface \<Rightarrow> 'w \<Rightarrow> stats result" where
  "iface_FullStats i w = (case if_configurer i of None \<Rightarrow> Inl ErrIfaceNotFound | Some C \<Rightarrow> cf_FullStats C w)"

definition iface_LastActivities :: "('w, 'f) wgiface \<Rightarrow> 'w \<Rightarrow> (string \<rightharpoonup> int) option" where
  "iface_LastActivities i w = (case if_configurer i of None \<Rightarrow> None | Some C \<Rightarrow> cf_LastActivities C w)"

definition iface_SetFilter :: "('w, 'f) tun_env \<Rightarrow> 'f \<Rightarrow> ('w, 'f) wgiface \<Rightarrow> 'w \<Rightarrow> go_error option \<times> ('w, 'f) wgiface \<times> 'w" where
  "iface_SetFilter T f i w =
     (if \<not> tun_FilteredDevice T
      then (Some (ErrMsg ''userspace packet filtering not handled on this device''), i, w)
      else (None, i\<lparr>if_filter := Some f\<rparr>, tun_SetFilter T f w))"

definition iface_GetFilter :: "('w, 'f) wgiface \<Rightarrow> 'f option" where
  "iface_GetFilter i = if_filter i"

text \<open>
  The polling loop of \<^verbatim>\<open>waitUntilRemoved\<close>. The timer of five seconds bounds the number of rounds, which
  sleep 100 ms each: \<open>poll_rounds\<close> is the number of rounds that pass before the timer is seen expired.
\<close>

fun waitUntilRemoved :: "('w, 'f) tun_env \<Rightarrow> 'w \<Rightarrow> nat \<Rightarrow> nat \<Rightarrow> go_error option" where
  "waitUntilRemoved T w i left =
     (if InterfaceByName T w i = PollGone then None
      else (case left of
              0 \<Rightarrow> Some (ErrMsg ''timeout when waiting for interface to be removed'')
            | Suc n \<Rightarrow> waitUntilRemoved T w (Suc i) n))"

declare waitUntilRemoved.simps [simp del]

definition iface_Destroy :: "('w, 'f) tun_env \<Rightarrow> 'w \<Rightarrow> go_error option \<times> 'w" where
  "iface_Destroy T w =
     (case LinkByName T (tun_DeviceName T) w of
        Some e \<Rightarrow> (Some (ErrWrap ''failed to get link by name'' e), w)
      | None \<Rightarrow> (case LinkDel T (tun_DeviceName T) w of
                  (Some e, w') \<Rightarrow> (Some (ErrWrap ''failed to delete link'' e), w')
                | (None, w') \<Rightarrow> (None, w')))"

definition collect_err :: "string \<Rightarrow> go_error option \<Rightarrow> go_error list" where
  "collect_err m r = (case r of None \<Rightarrow> [] | Some e \<Rightarrow> [ErrWrap m e])"

definition iface_Close :: "('w, 'f) tun_env \<Rightarrow> 'w \<Rightarrow> go_error list \<times> 'w" where
  "iface_Close T w =
     (case proxy_Free T w of (r1, w1) \<Rightarrow>
      (case tun_Close T w1 of (r2, w2) \<Rightarrow>
       let errs = collect_err ''failed to free WireGuard proxy'' r1
                  @ collect_err ''failed to close wireguard interface'' r2 in
       (case waitUntilRemoved T w2 0 (poll_rounds T) of
          None \<Rightarrow> (errs, w2)
        | Some e \<Rightarrow>
            (case iface_Destroy T w2 of (r3, w3) \<Rightarrow>
               (errs @ collect_err ''failed to remove WireGuard interface'' r3, w3)))))"

datatype device_kind = NetstackDevice | KernelDevice | USPDevice

record new_iface =
  ni_kind :: device_kind
  ni_address :: wg_address
  ni_userspaceBind :: bool

definition NewWGIFace :: "string \<Rightarrow> bool \<Rightarrow> bool \<Rightarrow> bool \<Rightarrow> new_iface result" where
  "NewWGIFace address netstackEnabled moduleLoaded tunLoaded =
     bind_result (ParseWGAddress address) (\<lambda>a.
       if netstackEnabled then Inr \<lparr>ni_kind = NetstackDevice, ni_address = a, ni_userspaceBind = True\<rparr>
       else if moduleLoaded then Inr \<lparr>ni_kind = KernelDevice, ni_address = a, ni_userspaceBind = False\<rparr>
       else if tunLoaded then Inr \<lparr>ni_kind = USPDevice, ni_address = a, ni_userspaceBind = True\<rparr>
       else Inl (ErrMsg ''couldn't check or load tun module''))"

section \<open>The contract of a configurer\<close>

datatype peer_op =
    OpUpdatePeer "prefix list" int "udp_addr option" "wgkey option"
  | OpRemoveEndpointAddress
  | OpRemovePeer
  | OpAddAllowedIP prefix
  | OpRemoveAllowedIP prefix

fun configurer_op :: "'w configurer \<Rightarrow> peer_op \<Rightarrow> string \<Rightarrow> 'w \<Rightarrow> go_error option \<times> 'w" where
  "configurer_op C (OpUpdatePeer ips ka ep psk) k w = cf_UpdatePeer C k ips ka ep psk w"
| "configurer_op C OpRemoveEndpointAddress k w = cf_RemoveEndpointAddress C k w"
| "configurer_op C OpRemovePeer k w = cf_RemovePeer C k w"
| "configurer_op C (OpAddAllowedIP p) k w = cf_AddAllowedIP C k p w"
| "configurer_op C (OpRemoveAllowedIP p) k w = cf_RemoveAllowedIP C k p w"

fun iface_op :: "('w, 'f) wgiface \<Rightarrow> peer_op \<Rightarrow> string \<Rightarrow> 'w \<Rightarrow> go_error option \<times> 'w" where
  "iface_op i (OpUpdatePeer ips ka ep psk) k w = iface_UpdatePeer i k ips ka ep psk w"
| "iface_op i OpRemoveEndpointAddress k w = iface_RemoveEndpointAddress i k w"
| "iface_op i OpRemovePeer k w = iface_RemovePeer i k w"
| "iface_op i (OpAddAllowedIP p) k w = iface_AddAllowedIP i k p w"
| "iface_op i (OpRemoveAllowedIP p) k w = iface_RemoveAllowedIP i k p w"

lemma iface_op_configurer: "if_configurer i = Some C \<Longrightarrow> iface_op i op k w = configurer_op C op k w"
  by (cases op) (simp_all add: iface_UpdatePeer_def iface_RemoveEndpointAddress_def
    iface_RemovePeer_def iface_AddAllowedIP_def iface_RemoveAllowedIP_def)

lemma iface_op_no_configurer:
  "if_configurer i = None \<Longrightarrow> iface_op i op k w = (Some ErrIfaceNotFound, w)"
  by (cases op) (simp_all add: iface_UpdatePeer_def iface_RemoveEndpointAddress_def
    iface_RemovePeer_def iface_AddAllowedIP_def iface_RemoveAllowedIP_def)

text \<open>A sequence of operations, each on its own peer key; the errors in order.\<close>

fun iface_run :: "('w, 'f) wgiface \<Rightarrow> (peer_op \<times> string) list \<Rightarrow> 'w \<Rightarrow> go_error option list \<times> 'w" where
  "iface_run i [] w = ([], w)"
| "iface_run i ((op, k) # ops) w =
     (case iface_op i op k w of (r, w1) \<Rightarrow> (case iface_run i ops w1 of (rs, w2) \<Rightarrow> (r # rs, w2)))"

locale wg_configurer =
  fixes C :: "'w configurer" and key_ok :: "string \<Rightarrow> bool"
  assumes rejects: "\<not> key_ok k \<Longrightarrow> \<exists>e. configurer_op C op k w = (Some e, w)"
begin

lemma iface_run_bad_keys:
  assumes "if_configurer i = Some C" and "\<forall>(op, k) \<in> set ops. \<not> key_ok k"
  shows "snd (iface_run i ops w) = w \<and> None \<notin> set (fst (iface_run i ops w))"
  using assms(2)
proof (induction ops)
  case (Cons a ops)
  obtain op k where a: "a = (op, k)" by (cases a)
  then obtain e where "configurer_op C op k w = (Some e, w)" using rejects Cons.prems by fastforce
  then show ?case using Cons a by (auto simp: iface_op_configurer [OF assms(1)] split: prod.splits)
qed simp

lemma success_key_ok: "configurer_op C op k w = (None, w') \<Longrightarrow> key_ok k"
  using rejects [of k op w] by auto

lemma iface_run_good_keys:
  assumes "if_configurer i = Some C"
  shows "snd (iface_run i ops w) = snd (iface_run i (filter (\<lambda>a. key_ok (snd a)) ops) w)"
proof (induction ops arbitrary: w)
  case (Cons a ops)
  obtain op k where a: "a = (op, k)" by (cases a)
  have run: "snd (iface_run i ((op, k) # os) w) = snd (iface_run i os (snd (iface_op i op k w)))" for os
    by (simp split: prod.splits)
  show ?case
  proof (cases "key_ok k")
    case False
    then have "snd (iface_op i op k w) = w"
      using rejects [of k op w] by (auto simp: iface_op_configurer [OF assms])
    then show ?thesis using False Cons [of w] a run [of ops] by simp
  next
    case True
    then show ?thesis
      using Cons [of "snd (iface_op i op k w)"] a run [of ops] run [of "filter (\<lambda>a. key_ok (snd a)) ops"] by simp
  qed
qed simp

end

lemma usp_rejects: "ParseKey E k = Inl e \<Longrightarrow> \<exists>e. configurer_op (NewUSPConfigurer E n) op k w = (Some e, w)"
  by (cases op) (auto simp: NewUSPConfigurer_def usp_UpdatePeer_def usp_RemoveEndpointAddress_def
      usp_RemovePeer_def usp_AddAllowedIP_def usp_RemoveAllowedIP_def split: sum.splits)

lemma kernel_rejects: "ParseKey E k = Inl e \<Longrightarrow> \<exists>e. configurer_op (NewKernelConfigurer E n) op k w = (Some e, w)"
  by (cases op) (simp_all add: NewKernelConfigurer_def kernel_UpdatePeer_def kernel_RemoveEndpointAddress_def
      kernel_RemovePeer_def kernel_AddAllowedIP_def kernel_RemoveAllowedIP_def)

lemma kernel_no_device:
  assumes "\<not> ctl_ready E n w"
  shows "\<exists>e. configurer_op (NewKernelConfigurer E n) op k w = (Some e, w)"
proof -
  have getPeer: "\<exists>e. kernel_getPeer E n k w = Inl e"
    using assms by (auto simp: ctl_ready_def kernel_getPeer_def split: option.splits sum.splits)
  note nr = configure_ctx_not_ready [OF assms]
  show ?thesis
    using nr getPeer
    by (cases op; cases "ParseKey E k")
       (auto simp: NewKernelConfigurer_def kernel_UpdatePeer_def kernel_RemoveEndpointAddress_def
         kernel_RemovePeer_def kernel_AddAllowedIP_def kernel_RemoveAllowedIP_def)
qed

definition key_parses :: "'a wg_types_scheme \<Rightarrow> string \<Rightarrow> bool" where
  "key_parses E k = (case ParseKey E k of Inl _ \<Rightarrow> False | Inr _ \<Rightarrow> True)"

interpretation usp: wg_configurer "NewUSPConfigurer E n" "key_parses E" for E n
  by unfold_locales (auto simp: key_parses_def intro: usp_rejects split: sum.splits)

interpretation kernel: wg_configurer "NewKernelConfigurer E n" "key_parses E" for E n
  by unfold_locales (auto simp: key_parses_def intro!: kernel_rejects split: sum.splits)

section \<open>Behaviour of the interface object\<close>

lemma waitUntilRemoved_None_iff:
  "waitUntilRemoved T w i n = None \<longleftrightarrow> (\<exists>j \<le> n. InterfaceByName T w (i + j) = PollGone)"
proof (induction n arbitrary: i)
  case 0
  then show ?case by (simp add: waitUntilRemoved.simps)
next
  case (Suc n)
  have "(\<exists>j \<le> Suc n. InterfaceByName T w (i + j) = PollGone) \<longleftrightarrow>
     InterfaceByName T w i = PollGone \<or> (\<exists>j \<le> n. InterfaceByName T w (Suc i + j) = PollGone)"
    by (auto simp: less_Suc_eq_le [symmetric] Ex_less_Suc2)
  then show ?case by (subst waitUntilRemoved.simps) (simp add: Suc)
qed

lemma ParseWGAddress_v4:
  assumes "n \<le> 32"
  shows "ParseWGAddress (v4_String w @ ''/'' @ itoa n) =
     Inr \<lparr>wa_IP = Addr4 w, wa_Network = Prefix (Addr4 (w AND NOT (mask (32 - n)))) (int n)\<rparr>"
proof -
  have "valid_prefix4 (Prefix (Addr4 w) (int n))" using assms by (simp add: valid_prefix4_def)
  from ParsePrefix_String [OF this] show ?thesis
    using assms by (simp add: ParseWGAddress_def Prefix_String_def Prefix_IsValid_def Prefix_Masked_def PrefixFrom_def)
qed

text \<open>Parsing the text of an IPv4 interface address keeps the host address, prints back to the same text, and its network
  contains the address.\<close>

theorem ParseWGAddress_roundtrip:
  assumes "n \<le> 32"
  shows "\<exists>a. ParseWGAddress (v4_String w @ ''/'' @ itoa n) = Inr a \<and>
    wg_address_String a = v4_String w @ ''/'' @ itoa n \<and> wa_IP a = Addr4 w \<and>
    Prefix_Contains (wa_Network a) (wa_IP a)"
proof -
  let ?p = "Prefix (Addr4 w) (int n)"
  let ?a = "\<lparr>wa_IP = Addr4 w, wa_Network = Prefix (Addr4 (w AND NOT (mask (32 - n)))) (int n)\<rparr>"
  have "Prefix_Masked ?p = wa_Network ?a" "wf_prefix ?p"
    using assms by (simp_all add: Prefix_Masked_def PrefixFrom_def wf_prefix_def)
  then have "Prefix_Contains (wa_Network ?a) (Addr4 w)"
    using Prefix_Contains_Masked [of ?p "Addr4 w"] Prefix_Contains_self [of ?p]
    by (simp add: Prefix_IsValid_def)
  then show ?thesis
    using assms by (intro exI [of _ ?a]) (simp add: ParseWGAddress_v4 [simplified] wg_address_String_def itoa_int_def)
qed


lemma IPNet_String_prefix4: "n \<le> 32 \<Longrightarrow> IPNet_String (prefixToIPNet (Prefix (Addr4 a) (int n))) = cidr_text (a, n)"
  using IPNet_String_v4 [of a n]
  by (simp add: prefixToIPNet_def ipnet_of_v4_def Let_def cidr_text_def)

definition masked_cidr :: "u32 \<times> nat \<Rightarrow> bool" where
  "masked_cidr a = (snd a \<le> 32 \<and> fst a AND NOT (mask (32 - snd a)) = fst a)"

lemma cidr_net_String: "masked_cidr a \<Longrightarrow> IPNet_String (cidr_net a) = cidr_text a"
  using IPNet_String_v4 [of "fst a" "snd a"] by (simp add: masked_cidr_def cidr_net_def cidr_text_def)

lemma drop_first_cidr:
  assumes "list_all masked_cidr as" and "distinct as"
  shows "drop_first_ip (cidr_text x) (map cidr_net as) = map cidr_net (filter (\<lambda>a. a \<noteq> x) as)"
  using assms
proof (induction as)
  case (Cons a as)
  then have "a = x \<Longrightarrow> filter (\<lambda>a. a \<noteq> x) as = as" by (auto intro!: filter_True)
  with Cons show ?case by (auto simp: cidr_net_String cidr_text_inject)
qed simp

text \<open>Removing an allowed network, on the same device: both configurers compute the same replacement list, the peer's
  networks without the removed one. They differ when the peer does not have it: the userspace configurer reports
  \<^verbatim>\<open>ErrAllowedIPNotFound\<close>, the kernel one sends the unchanged list.\<close>

theorem configurers_remove_the_same:
  assumes "wf_uapi d" and "distinct (map up_key (ud_peers d))" and "p \<in> set (ud_peers d)"
    and "list_all masked_cidr (up_allowed p)" and "distinct (up_allowed p)" and "n \<le> 32"
    and "IpcGet U w = Inr (uapi_text d)" and "ParseKey U (base64_EncodeToString (up_key p)) = Inr (up_key p)"
    and "ctl_New K v = None" and "ctl_Device K name v = Inr (ctl_device_of K name d)"
    and "ParseKey K (base64_EncodeToString (up_key p)) = Inr (up_key p)"
    and "Key_String K = base64_EncodeToString"
  shows "let cfg = replace_allowed_config (up_key p)
                     (map cidr_net (filter (\<lambda>x. x \<noteq> (a, n)) (up_allowed p)));
             key = base64_EncodeToString (up_key p); pfx = Prefix (Addr4 a) (int n)
    in kernel_RemoveAllowedIP K name key pfx v = configure_ctx ''remove allowed IP'' K name cfg v \<and>
       usp_RemoveAllowedIP U key pfx w =
         (if (a, n) \<in> set (up_allowed p) then IpcSet U (toWgUserspaceString cfg) w
          else (Some ErrAllowedIPNotFound, w))"
proof -
  have "List.find (\<lambda>q. up_key q = up_key p) (ud_peers d) = Some p"
    using assms(2,3) by (rule find_distinct_key)
  then have "kernel_getPeer K name (base64_EncodeToString (up_key p)) v = Inr (ctl_peer_of p)"
    using kernel_getPeer_of [OF assms(9,10,12)] by simp
  then show ?thesis
    using assms usp_RemoveAllowedIP_device [OF assms(1,2,7,8)] allowed_of_peer [OF assms(2,3)]
    by (simp add: Let_def kernel_RemoveAllowedIP_def IPNet_String_prefix4 ctl_peer_of_def drop_first_cidr)
qed

text \<open>\<^verbatim>\<open>Close\<close> reports no error exactly when the proxy is freed, the tunnel closes and the interface disappears within
  the polling rounds or, failing that, is found and deleted through netlink.\<close>

theorem iface_Close_ok_iff:
  "iface_Close T w = ([], w') \<longleftrightarrow>
    (\<exists>w1 w2. proxy_Free T w = (None, w1) \<and> tun_Close T w1 = (None, w2) \<and>
      (if \<exists>j \<le> poll_rounds T. InterfaceByName T w2 j = PollGone then w' = w2
       else LinkByName T (tun_DeviceName T) w2 = None \<and> LinkDel T (tun_DeviceName T) w2 = (None, w')))"
proof -
  obtain r1 w1 where 1: "proxy_Free T w = (r1, w1)" by fastforce
  obtain r2 w2 where 2: "tun_Close T w1 = (r2, w2)" by fastforce
  obtain r3 w3 where 3: "LinkDel T (tun_DeviceName T) w2 = (r3, w3)" by fastforce
  have gone: "waitUntilRemoved T w2 0 (poll_rounds T) = None \<longleftrightarrow>
      (\<exists>j \<le> poll_rounds T. InterfaceByName T w2 j = PollGone)"
    by (simp add: waitUntilRemoved_None_iff)
  show ?thesis
    by (cases "waitUntilRemoved T w2 0 (poll_rounds T)"; cases "LinkByName T (tun_DeviceName T) w2";
        cases r1; cases r2; cases r3)
       (auto simp: iface_Close_def iface_Destroy_def collect_err_def 1 2 3 gone [symmetric])
qed

text \<open>On an interface over either configurer, a sequence of peer operations leaves the device exactly as the same
  sequence without the operations whose peer key does not parse: those are refused before the device is touched.\<close>

theorem iface_unparsable_keys:
  "snd (iface_run (i\<lparr>if_configurer := Some (NewUSPConfigurer U n)\<rparr>) ops w) =
     snd (iface_run (i\<lparr>if_configurer := Some (NewUSPConfigurer U n)\<rparr>) (filter (\<lambda>a. key_parses U (snd a)) ops) w) \<and>
   snd (iface_run (j\<lparr>if_configurer := Some (NewKernelConfigurer K n)\<rparr>) ops v) =
     snd (iface_run (j\<lparr>if_configurer := Some (NewKernelConfigurer K n)\<rparr>) (filter (\<lambda>a. key_parses K (snd a)) ops) v)"
  by (intro conjI usp.iface_run_good_keys kernel.iface_run_good_keys) simp_all

theorem iface_not_created:
  "iface_run (i\<lparr>if_configurer := None\<rparr>) ops w = (replicate (length ops) (Some ErrIfaceNotFound), w)"
  by (induction ops) (auto simp: iface_op_no_configurer)

theorem ValidateMTU_iff: "ValidateMTU mtu = None \<longleftrightarrow> 576 \<le> mtu \<and> mtu \<le> 8192"
  by (auto simp: ValidateMTU_def MinMTU_def MaxMTU_def word_le_nat_alt not_less)

section \<open>Witnesses\<close>

definition sample_ctl :: "uapi_dev \<Rightarrow> wg_config list ctl_env" where
  "sample_ctl d = \<lparr>ParseKey = sample_ParseKey, Key_String = base64_EncodeToString, Key_PublicKey = id,
     AdvancedRouting = True, GOOS_linux = True, ControlPlaneMark = 0x1BD00,
     ctl_New = (\<lambda>w. None), ctl_Device = (\<lambda>n w. Inr (ctl_device_of (sample_usp d) n d)),
     ctl_ConfigureDevice = (\<lambda>n c w. (None, w @ [c]))\<rparr>"

lemma sample_ctl_sel [simp]:
  "ctl_New (sample_ctl d) w = None" 
  "ctl_Device (sample_ctl d) n w = Inr (ctl_device_of (sample_ctl d) n d)"
  "ctl_ConfigureDevice (sample_ctl d) n c w = (None, w @ [c])"
  "ParseKey (sample_ctl d) = sample_ParseKey" "Key_String (sample_ctl d) = base64_EncodeToString"
  "Key_PublicKey (sample_ctl d) = id"
  by (simp_all add: sample_ctl_def ctl_device_of_def)


theorem configurers_remove_the_same_witness:
  "fst (kernel_RemoveAllowedIP (sample_ctl sample_device) ''wt0'' (base64_EncodeToString (sample_key 2))
     (Prefix (Addr4 0x64400002) (int 32)) []) = None \<and>
   fst (usp_RemoveAllowedIP (sample_usp sample_device) (base64_EncodeToString (sample_key 2))
     (Prefix (Addr4 0x64400002) (int 32)) []) = None"
proof -
  let ?p = "hd (ud_peers sample_device)"
  have p: "?p \<in> set (ud_peers sample_device)" "up_key ?p = sample_key 2"
    "up_allowed ?p = [(0x64400002, 32), (0x0A010000, 16)]"
    by (simp_all add: sample_device_def)
  have "masked_cidr (0x64400002, 32)" "masked_cidr (0x0A010000, 16)" by code_simp+
  moreover have "length (sample_key 2) = 32" by (simp add: sample_key_def)
  ultimately show ?thesis
    using configurers_remove_the_same [OF wf_sample_device p(1), of 32 "sample_usp sample_device" "[]"
      "sample_ctl sample_device" "[]" "''wt0''" "0x64400002"] p
    by (simp add: Let_def configure_ctx_def kernel_configure_def)
qed

theorem ParseWGAddress_roundtrip_witness:
  "\<exists>a. ParseWGAddress (v4_String 0x64400001 @ ''/'' @ itoa 16) = Inr a \<and>
    wg_address_String a = v4_String 0x64400001 @ ''/'' @ itoa 16 \<and> wa_IP a = Addr4 0x64400001 \<and>
    Prefix_Contains (wa_Network a) (wa_IP a)"
  by (rule ParseWGAddress_roundtrip) simp

end
