(* ===== verification/System_Ops.thy ===== *)
theory System_Ops
  imports Wg_Iface
begin

text \<open>
  The routing layer of the operating system, \<^verbatim>\<open>go/internal/routemanager/systemops/systemops.go\<close> and
  \<^verbatim>\<open>systemops_linux.go\<close>: policy rules, routes of the NetBird table, the routing-table name file, and the
  listings used for debugging.

  Netlink, sysctl, the file \<^verbatim>\<open>/etc/iproute2/rt_tables\<close> and the legacy routing of \<^verbatim>\<open>systemops_generic.go\<close>
  are outside the repository; they are the fields of \<open>nl_env\<close> over an arbitrary type \<open>'w\<close> of kernel
  states. The package variables \<^verbatim>\<open>originalSysctl\<close> and \<^verbatim>\<open>sysctlFailed\<close> are the fields of \<open>so_state\<close>.

  The theorems: which prefixes may be routed, that a failed set-up removes every rule it installed, that
  the table name is written once, that listing a route recovers the prefix that was added, and that every
  standard table is listed.
\<close>

section \<open>Netlink data\<close>

record nl_route =
  rt_Type :: int
  rt_Table :: int
  rt_Family :: int
  rt_Scope :: int
  rt_Dst :: "ipnet option"
  rt_Src :: goip
  rt_Gw :: goip
  rt_LinkIndex :: int
  rt_Priority :: int
  rt_Protocol :: int

record nl_rule =
  ru_Priority :: int
  ru_Family :: int
  ru_Table :: int
  ru_Mark :: "32 word"
  ru_Mask :: "(32 word) option"
  ru_TunID :: int
  ru_Goto :: int
  ru_Flow :: int
  ru_Src :: "ipnet option"
  ru_Dst :: "ipnet option"
  ru_IifName :: string
  ru_OifName :: string
  ru_SuppressIfgroup :: int
  ru_SuppressPrefixlen :: int
  ru_Invert :: bool
  ru_Type :: int

record net_interface =
  ni_Index :: int
  ni_Name :: string

record Nexthop =
  nh_IP :: addr
  nh_Intf :: "net_interface option"

text \<open>Constants of the kernel's routing interface.\<close>

definition RT_TABLE_MAIN :: int where "RT_TABLE_MAIN = 254"
definition RT_TABLE_LOCAL :: int where "RT_TABLE_LOCAL = 255"
definition RT_TABLE_DEFAULT :: int where "RT_TABLE_DEFAULT = 253"
definition NetbirdVPNTableID :: int where "NetbirdVPNTableID = 0x1BD0"
definition NetbirdVPNTableName :: string where "NetbirdVPNTableName = ''netbird''"
definition FAMILY_V4 :: int where "FAMILY_V4 = 2"
definition FAMILY_V6 :: int where "FAMILY_V6 = 10"
definition RTN_UNREACHABLE :: int where "RTN_UNREACHABLE = 7"
definition SCOPE_UNIVERSE :: int where "SCOPE_UNIVERSE = 0"

lemmas nl_consts = RT_TABLE_MAIN_def RT_TABLE_LOCAL_def RT_TABLE_DEFAULT_def NetbirdVPNTableID_def
  FAMILY_V4_def FAMILY_V6_def RTN_UNREACHABLE_def SCOPE_UNIVERSE_def

record 'w nl_env =
  nl_RouteAdd :: "nl_route \<Rightarrow> 'w \<Rightarrow> go_error option \<times> 'w"
  nl_RouteDel :: "nl_route \<Rightarrow> 'w \<Rightarrow> go_error option \<times> 'w"
  nl_RouteList :: "int \<Rightarrow> int \<Rightarrow> 'w \<Rightarrow> nl_route list result"
  nl_NewRule :: nl_rule
  nl_RuleAdd :: "nl_rule \<Rightarrow> 'w \<Rightarrow> go_error option \<times> 'w"
  nl_RuleDel :: "nl_rule \<Rightarrow> 'w \<Rightarrow> go_error option \<times> 'w"
  nl_RuleList :: "int \<Rightarrow> 'w \<Rightarrow> nl_rule list result"
  nl_LinkByName :: "string \<Rightarrow> 'w \<Rightarrow> int result"
  nl_LinkByIndex :: "int \<Rightarrow> 'w \<Rightarrow> net_interface result"
  rt_tables_read :: "'w \<Rightarrow> string result"
  rt_tables_seek :: "'w \<Rightarrow> go_error option"
  rt_tables_open_append :: "'w \<Rightarrow> go_error option"
  rt_tables_append :: "string \<Rightarrow> 'w \<Rightarrow> go_error option \<times> 'w"
  sysctl_Setup :: "'w \<Rightarrow> (string \<rightharpoonup> int) \<times> go_error option \<times> 'w"
  sysctl_Cleanup :: "(string \<rightharpoonup> int) option \<Rightarrow> 'w \<Rightarrow> go_error option \<times> 'w"
  sysctl_Set :: "string \<Rightarrow> int \<Rightarrow> 'w \<Rightarrow> go_error option \<times> 'w"
  legacy_Setup :: "goip list \<Rightarrow> 'w \<Rightarrow> go_error option \<times> 'w"
  legacy_Cleanup :: "'w \<Rightarrow> go_error option \<times> 'w"
  legacy_AddVPNRoute :: "prefix \<Rightarrow> net_interface \<Rightarrow> 'w \<Rightarrow> go_error option \<times> 'w"
  legacy_RemoveVPNRoute :: "prefix \<Rightarrow> net_interface \<Rightarrow> 'w \<Rightarrow> go_error option \<times> 'w"
  nl_AdvancedRouting :: bool
  nl_ControlPlaneMark :: "32 word"
  wg_Network :: prefix

record 'w so_state =
  so_originalSysctl :: "(string \<rightharpoonup> int) option"
  so_sysctlFailed :: bool
  so_world :: 'w

section \<open>systemops.go\<close>

definition Nexthop_Equal :: "Nexthop \<Rightarrow> Nexthop \<Rightarrow> bool" where
  "Nexthop_Equal n other = (nh_IP n = nh_IP other \<and>
     (case (nh_Intf n, nh_Intf other) of
        (None, None) \<Rightarrow> True
      | (Some i, Some j) \<Rightarrow> ni_Index i = ni_Index j
      | _ \<Rightarrow> False))"

definition Nexthop_String :: "Nexthop \<Rightarrow> string" where
  "Nexthop_String n =
     (case nh_Intf n of
        None \<Rightarrow> Addr_String (nh_IP n)
      | Some i \<Rightarrow> (if Addr_IsValid (nh_IP n)
                   then Addr_String (nh_IP n) @ '' @ '' @ itoa_int (ni_Index i) @ '' ('' @ ni_Name i @ '')''
                   else ''no-ip @ '' @ itoa_int (ni_Index i) @ '' ('' @ ni_Name i @ '')''))"

definition ErrRouteNotAllowed :: go_error where
  "ErrRouteNotAllowed = ErrSentinel ''route not allowed''"

definition validateRoute :: "'w nl_env \<Rightarrow> prefix \<Rightarrow> go_error option" where
  "validateRoute E p =
     (let a = pfx_Addr p in
      if \<not> Addr_IsValid a \<or> Addr_IsLoopback a \<or> Addr_IsLinkLocalUnicast a \<or> Addr_IsLinkLocalMulticast a
         \<or> Addr_IsInterfaceLocalMulticast a \<or> Addr_IsMulticast a
         \<or> (Addr_IsUnspecified a \<and> pfx_Bits p \<noteq> 0)
         \<or> Prefix_Contains (wg_Network E) a
      then Some ErrRouteNotAllowed else None)"

section \<open>Rules\<close>

record ruleParams =
  rp_priority :: int
  rp_fwmark :: "32 word"
  rp_tableID :: int
  rp_family :: int
  rp_invert :: bool
  rp_suppressPrefix :: int
  rp_description :: string

definition getSetupRules :: "'w nl_env \<Rightarrow> ruleParams list" where
  "getSetupRules E =
     [\<lparr>rp_priority = 105, rp_fwmark = 0, rp_tableID = RT_TABLE_MAIN, rp_family = FAMILY_V4,
       rp_invert = False, rp_suppressPrefix = 0, rp_description = ''rule with suppress prefixlen v4''\<rparr>,
      \<lparr>rp_priority = 105, rp_fwmark = 0, rp_tableID = RT_TABLE_MAIN, rp_family = FAMILY_V6,
       rp_invert = False, rp_suppressPrefix = 0, rp_description = ''rule with suppress prefixlen v6''\<rparr>,
      \<lparr>rp_priority = 110, rp_fwmark = nl_ControlPlaneMark E, rp_tableID = NetbirdVPNTableID,
       rp_family = FAMILY_V4, rp_invert = True, rp_suppressPrefix = -1, rp_description = ''rule v4 netbird''\<rparr>,
      \<lparr>rp_priority = 110, rp_fwmark = nl_ControlPlaneMark E, rp_tableID = NetbirdVPNTableID,
       rp_family = FAMILY_V6, rp_invert = True, rp_suppressPrefix = -1, rp_description = ''rule v6 netbird''\<rparr>]"

definition isOpErr :: "go_error \<Rightarrow> bool" where
  "isOpErr e = (errors_Is e (ErrSys EAFNOSUPPORT) \<or> errors_Is e (ErrSys EOPNOTSUPP))"

definition rule_of :: "'w nl_env \<Rightarrow> ruleParams \<Rightarrow> nl_rule" where
  "rule_of E p = (nl_NewRule E)\<lparr>ru_Table := rp_tableID p, ru_Mark := rp_fwmark p, ru_Family := rp_family p,
     ru_Priority := rp_priority p, ru_Invert := rp_invert p, ru_SuppressPrefixlen := rp_suppressPrefix p\<rparr>"

definition addRule :: "'w nl_env \<Rightarrow> ruleParams \<Rightarrow> 'w \<Rightarrow> go_error option \<times> 'w" where
  "addRule E p w =
     (case nl_RuleAdd E (rule_of E p) w of
        (None, w') \<Rightarrow> (None, w')
      | (Some e, w') \<Rightarrow> (if \<not> errors_Is e (ErrSys EEXIST) \<and> \<not> isOpErr e
                         then (Some (ErrWrap ''add routing rule'' e), w') else (None, w')))"

definition removeRule :: "'w nl_env \<Rightarrow> ruleParams \<Rightarrow> 'w \<Rightarrow> go_error option \<times> 'w" where
  "removeRule E p w =
     (case nl_RuleDel E (rule_of E p) w of
        (None, w') \<Rightarrow> (None, w')
      | (Some e, w') \<Rightarrow> (if \<not> errors_Is e (ErrSys ENOENT) \<and> \<not> isOpErr e
                         then (Some (ErrWrap ''remove routing rule'' e), w') else (None, w')))"

section \<open>Routes\<close>

definition getAddressFamily :: "prefix \<Rightarrow> int" where
  "getAddressFamily p = (if Addr_Is4 (pfx_Addr p) then FAMILY_V4 else FAMILY_V6)"

definition zero_route :: nl_route where
  "zero_route = \<lparr>rt_Type = 0, rt_Table = 0, rt_Family = 0, rt_Scope = 0, rt_Dst = None, rt_Src = [],
     rt_Gw = [], rt_LinkIndex = 0, rt_Priority = 0, rt_Protocol = 0\<rparr>"

definition addNextHop :: "'w nl_env \<Rightarrow> Nexthop \<Rightarrow> nl_route \<Rightarrow> 'w \<Rightarrow> nl_route result" where
  "addNextHop E nh r w =
     (let r1 = (case nh_Intf nh of None \<Rightarrow> r | Some i \<Rightarrow> r\<lparr>rt_LinkIndex := ni_Index i\<rparr>) in
      if \<not> Addr_IsValid (nh_IP nh) then Inr r1
      else let r2 = r1\<lparr>rt_Gw := Addr_AsSlice (nh_IP nh)\<rparr> in
        if Addr_Zone (nh_IP nh) \<noteq> [] \<and> nh_Intf nh = None then
          (case nl_LinkByName E (Addr_Zone (nh_IP nh)) w of
             Inl e \<Rightarrow> Inl (ErrWrap ''get link by name for zone'' e)
           | Inr idx \<Rightarrow> Inr (r2\<lparr>rt_LinkIndex := idx\<rparr>))
        else Inr r2)"

definition parse_dst :: "prefix \<Rightarrow> ipnet result" where
  "parse_dst p = wrap_result ''failed to parse prefix''
     (bind_result (net_ParseCIDR (Prefix_String p)) (\<lambda>(_, n). Inr n))"

text \<open>Ignore the errors the caller tolerates, wrap the others.\<close>

definition tolerate :: "(go_error \<Rightarrow> bool) \<Rightarrow> string \<Rightarrow> go_error option \<times> 'w \<Rightarrow> go_error option \<times> 'w" where
  "tolerate ok m r = (case r of
     (None, w) \<Rightarrow> (None, w)
   | (Some e, w) \<Rightarrow> (if ok e then (None, w) else (Some (ErrWrap m e), w)))"

definition addRoute :: "'w nl_env \<Rightarrow> prefix \<Rightarrow> Nexthop \<Rightarrow> int \<Rightarrow> 'w \<Rightarrow> go_error option \<times> 'w" where
  "addRoute E p nh tableID w =
     (case parse_dst p of
        Inl e \<Rightarrow> (Some e, w)
      | Inr dst \<Rightarrow>
        (case addNextHop E nh (zero_route\<lparr>rt_Scope := SCOPE_UNIVERSE, rt_Table := tableID,
                rt_Family := getAddressFamily p, rt_Dst := Some dst\<rparr>) w of
           Inl e \<Rightarrow> (Some (ErrWrap ''add gateway and device'' e), w)
         | Inr r \<Rightarrow> tolerate isOpErr ''netlink add route'' (nl_RouteAdd E r w)))"

definition unreachable_route :: "prefix \<Rightarrow> int \<Rightarrow> ipnet \<Rightarrow> nl_route" where
  "unreachable_route p tableID dst = zero_route\<lparr>rt_Type := RTN_UNREACHABLE, rt_Table := tableID,
     rt_Family := getAddressFamily p, rt_Dst := Some dst\<rparr>"

definition addUnreachableRoute :: "'w nl_env \<Rightarrow> prefix \<Rightarrow> int \<Rightarrow> 'w \<Rightarrow> go_error option \<times> 'w" where
  "addUnreachableRoute E p tableID w =
     (case parse_dst p of
        Inl e \<Rightarrow> (Some e, w)
      | Inr dst \<Rightarrow> tolerate isOpErr ''netlink add unreachable route''
                     (nl_RouteAdd E (unreachable_route p tableID dst) w))"

definition removeUnreachableRoute :: "'w nl_env \<Rightarrow> prefix \<Rightarrow> int \<Rightarrow> 'w \<Rightarrow> go_error option \<times> 'w" where
  "removeUnreachableRoute E p tableID w =
     (case parse_dst p of
        Inl e \<Rightarrow> (Some e, w)
      | Inr dst \<Rightarrow> tolerate (\<lambda>e. errors_Is e (ErrSys ESRCH) \<or> errors_Is e (ErrSys ENOENT) \<or> isOpErr e)
                     ''netlink remove unreachable route'' (nl_RouteDel E (unreachable_route p tableID dst) w))"

definition removeRoute :: "'w nl_env \<Rightarrow> prefix \<Rightarrow> Nexthop \<Rightarrow> int \<Rightarrow> 'w \<Rightarrow> go_error option \<times> 'w" where
  "removeRoute E p nh tableID w =
     (case parse_dst p of
        Inl e \<Rightarrow> (Some e, w)
      | Inr dst \<Rightarrow>
        (case addNextHop E nh (zero_route\<lparr>rt_Scope := SCOPE_UNIVERSE, rt_Table := tableID,
                rt_Family := getAddressFamily p, rt_Dst := Some dst\<rparr>) w of
           Inl e \<Rightarrow> (Some (ErrWrap ''add gateway and device'' e), w)
         | Inr r \<Rightarrow> tolerate (\<lambda>e. errors_Is e (ErrSys ESRCH) \<or> isOpErr e) ''netlink remove route''
                      (nl_RouteDel E r w)))"

definition addToRouteTable :: "'w nl_env \<Rightarrow> prefix \<Rightarrow> Nexthop \<Rightarrow> 'w \<Rightarrow> go_error option \<times> 'w" where
  "addToRouteTable E p nh w = addRoute E p nh RT_TABLE_MAIN w"

definition removeFromRouteTable :: "'w nl_env \<Rightarrow> prefix \<Rightarrow> Nexthop \<Rightarrow> 'w \<Rightarrow> go_error option \<times> 'w" where
  "removeFromRouteTable E p nh w = removeRoute E p nh RT_TABLE_MAIN w"

definition Defaultv4 :: prefix where "Defaultv4 = Prefix (Addr4 0) 0"
definition Defaultv6 :: prefix where "Defaultv6 = Prefix (Addr6 0 []) 0"

definition AddVPNRoute :: "'w nl_env \<Rightarrow> prefix \<Rightarrow> net_interface \<Rightarrow> 'w \<Rightarrow> go_error option \<times> 'w" where
  "AddVPNRoute E p intf w =
     (case validateRoute E p of
        Some e \<Rightarrow> (Some e, w)
      | None \<Rightarrow>
        if \<not> nl_AdvancedRouting E then legacy_AddVPNRoute E p intf w
        else (case (if p = Defaultv4 then addUnreachableRoute E Defaultv6 NetbirdVPNTableID w else (None, w)) of
            (Some e, w1) \<Rightarrow> (Some (ErrWrap ''add blackhole'' e), w1)
          | (None, w1) \<Rightarrow>
              (case addRoute E p \<lparr>nh_IP = AddrZero, nh_Intf = Some intf\<rparr> NetbirdVPNTableID w1 of
                 (Some e, w2) \<Rightarrow> (Some (ErrWrap ''add route'' e), w2)
               | (None, w2) \<Rightarrow> (None, w2))))"

definition RemoveVPNRoute :: "'w nl_env \<Rightarrow> prefix \<Rightarrow> net_interface \<Rightarrow> 'w \<Rightarrow> go_error option \<times> 'w" where
  "RemoveVPNRoute E p intf w =
     (case validateRoute E p of
        Some e \<Rightarrow> (Some e, w)
      | None \<Rightarrow>
        if \<not> nl_AdvancedRouting E then legacy_RemoveVPNRoute E p intf w
        else (case (if p = Defaultv4 then removeUnreachableRoute E Defaultv6 NetbirdVPNTableID w else (None, w)) of
            (Some e, w1) \<Rightarrow> (Some (ErrWrap ''remove unreachable route'' e), w1)
          | (None, w1) \<Rightarrow>
              (case removeRoute E p \<lparr>nh_IP = AddrZero, nh_Intf = Some intf\<rparr> NetbirdVPNTableID w1 of
                 (Some e, w2) \<Rightarrow> (Some (ErrWrap ''remove route'' e), w2)
               | (None, w2) \<Rightarrow> (None, w2))))"

text \<open>\<^verbatim>\<open>flushRoutes\<close>: an unreachable default route comes back without destination, which is put back before the deletion.\<close>

definition default_dst :: "int \<Rightarrow> ipnet" where
  "default_dst family = (if family = FAMILY_V4
     then \<lparr>net_IP = v4in6_prefix @ [0, 0, 0, 0], net_ones = 0, net_bits = 32\<rparr>
     else \<lparr>net_IP = replicate 16 0, net_ones = 0, net_bits = 128\<rparr>)"

definition flush_target :: "int \<Rightarrow> nl_route \<Rightarrow> nl_route" where
  "flush_target family r =
     (if rt_Gw r = [] \<and> rt_Src r = [] \<and> rt_Dst r = None then r\<lparr>rt_Dst := Some (default_dst family)\<rparr> else r)"

fun flush_loop :: "'w nl_env \<Rightarrow> int \<Rightarrow> nl_route list \<Rightarrow> 'w \<Rightarrow> go_error list \<times> 'w" where
  "flush_loop E family [] w = ([], w)"
| "flush_loop E family (r # rs) w =
     (case tolerate isOpErr ''failed to delete route'' (nl_RouteDel E (flush_target family r) w) of
        (e, w1) \<Rightarrow> (case flush_loop E family rs w1 of
                     (es, w2) \<Rightarrow> ((case e of None \<Rightarrow> [] | Some x \<Rightarrow> [x]) @ es, w2)))"

definition flushRoutes :: "'w nl_env \<Rightarrow> int \<Rightarrow> int \<Rightarrow> 'w \<Rightarrow> go_error list \<times> 'w" where
  "flushRoutes E tableID family w =
     (case nl_RouteList E family tableID w of
        Inl e \<Rightarrow> ([ErrWrap ''list routes from table'' e], w)
      | Inr rs \<Rightarrow> flush_loop E family rs w)"

definition EnableIPForwarding :: "'w nl_env \<Rightarrow> 'w \<Rightarrow> go_error option \<times> 'w" where
  "EnableIPForwarding E w = sysctl_Set E ''net.ipv4.ip_forward'' 1 w"

section \<open>The table name file\<close>

definition ErrTableIDExists :: go_error where
  "ErrTableIDExists = ErrSentinel ''ID exists with different name''"

text \<open>
  \<^verbatim>\<open>fmt.Sscanf(line, "%d %s\n", ...)\<close> without error: the line is exactly a decimal number and one word,
  separated and surrounded by white space. A line of 64 KiB or more stops the scanner; a read error in the
  middle of the opened file is not modelled.
\<close>

definition sscanf_entry :: "string \<Rightarrow> (int \<times> string) option" where
  "sscanf_entry line = (case strings_Fields line of
     [d, n] \<Rightarrow> (case strconv_ParseInt64 d of Inl _ \<Rightarrow> None | Inr i \<Rightarrow> Some (i, n))
   | _ \<Rightarrow> None)"

fun entryExists :: "string list \<Rightarrow> int \<Rightarrow> bool result" where
  "entryExists [] ident = Inr False"
| "entryExists (line # ls) ident =
     (if length line \<ge> 65536 then Inl (ErrWrap ''scan rt_tables'' (ErrMsg ''token too long''))
      else (case sscanf_entry line of
              Some (i, n) \<Rightarrow> (if i = ident
                then (if n \<noteq> NetbirdVPNTableName then Inl ErrTableIDExists else Inr True)
                else entryExists ls ident)
            | None \<Rightarrow> entryExists ls ident))"

definition table_name_entry :: string where
  "table_name_entry = [CHR 0x0A] @ itoa_int NetbirdVPNTableID @ [CHR 0x09] @ NetbirdVPNTableName @ [CHR 0x0A]"

definition addRoutingTableName :: "'w nl_env \<Rightarrow> 'w \<Rightarrow> go_error option \<times> 'w" where
  "addRoutingTableName E w =
     (case rt_tables_read E w of
        Inl e \<Rightarrow> (if errors_Is e (ErrSys ENOENT) then (None, w) else (Some (ErrWrap ''open rt_tables'' e), w))
      | Inr content \<Rightarrow>
        (case rt_tables_seek E w of
           Some e \<Rightarrow> (Some (ErrWrap ''verify entry'' (ErrWrap ''seek rt_tables'' e)), w)
         | None \<Rightarrow>
           (case entryExists (strings_Split (CHR 0x0A) content) NetbirdVPNTableID of
              Inl e \<Rightarrow> (Some (ErrWrap ''verify entry'' e), w)
            | Inr found \<Rightarrow>
                if found then (None, w)
                else (case rt_tables_open_append E w of
                   Some e \<Rightarrow> (Some (ErrWrap ''open rt_tables for appending'' e), w)
                 | None \<Rightarrow>
                     (case rt_tables_append E table_name_entry w of
                        (Some e, w') \<Rightarrow> (Some (ErrWrap ''append entry to rt_tables'' e), w')
                      | (None, w') \<Rightarrow> (None, w'))))))"

section \<open>Setting up and cleaning up\<close>

fun add_rules :: "'w nl_env \<Rightarrow> ruleParams list \<Rightarrow> 'w \<Rightarrow> go_error option \<times> 'w" where
  "add_rules E [] w = (None, w)"
| "add_rules E (p # ps) w =
     (case addRule E p w of
        (Some e, w') \<Rightarrow> (Some (ErrWrap (rp_description p) e), w')
      | (None, w') \<Rightarrow> add_rules E ps w')"

fun remove_rules :: "'w nl_env \<Rightarrow> ruleParams list \<Rightarrow> 'w \<Rightarrow> go_error list \<times> 'w" where
  "remove_rules E [] w = ([], w)"
| "remove_rules E (p # ps) w =
     (case removeRule E p w of (r, w1) \<Rightarrow>
      (case remove_rules E ps w1 of (es, w2) \<Rightarrow>
        (collect_err (rp_description p) r @ es, w2)))"

definition multi_err :: "string \<Rightarrow> go_error list \<Rightarrow> go_error list" where
  "multi_err m es = (if es = [] then [] else [ErrWrap m (ErrMulti es)])"

definition CleanupRouting :: "'w nl_env \<Rightarrow> bool \<Rightarrow> 'w so_state \<Rightarrow> go_error list \<times> 'w so_state" where
  "CleanupRouting E advancedRouting s =
     (if \<not> advancedRouting then
        (case legacy_Cleanup E (so_world s) of
           (r, w) \<Rightarrow> ((case r of None \<Rightarrow> [] | Some e \<Rightarrow> [e]), s\<lparr>so_world := w\<rparr>))
      else
        (case flushRoutes E NetbirdVPNTableID FAMILY_V4 (so_world s) of (e4, w1) \<Rightarrow>
         (case flushRoutes E NetbirdVPNTableID FAMILY_V6 w1 of (e6, w2) \<Rightarrow>
          (case remove_rules E (getSetupRules E) w2 of (er, w3) \<Rightarrow>
           (case sysctl_Cleanup E (so_originalSysctl s) w3 of (rs, w4) \<Rightarrow>
             (multi_err ''flush routes v4'' e4 @ multi_err ''flush routes v6'' e6 @ er
                @ collect_err ''cleanup sysctl'' rs,
              \<lparr>so_originalSysctl = None, so_sysctlFailed = False, so_world = w4\<rparr>))))))"

definition SetupRouting ::
    "'w nl_env \<Rightarrow> goip list \<Rightarrow> bool \<Rightarrow> 'w so_state \<Rightarrow> go_error option \<times> 'w so_state" where
  "SetupRouting E initAddresses advancedRouting s =
     (if \<not> advancedRouting then
        (case legacy_Setup E initAddresses (so_world s) of (r, w) \<Rightarrow> (r, s\<lparr>so_world := w\<rparr>))
      else
        (case add_rules E (getSetupRules E) (so_world s) of
           (Some e, w1) \<Rightarrow> (Some e, snd (CleanupRouting E advancedRouting (s\<lparr>so_world := w1\<rparr>)))
         | (None, w1) \<Rightarrow>
             (case addRoutingTableName E w1 of (_, w2) \<Rightarrow>
              (case sysctl_Setup E w2 of (vals, r, w3) \<Rightarrow>
                (None, \<lparr>so_originalSysctl = Some vals,
                        so_sysctlFailed = (so_sysctlFailed s \<or> r \<noteq> None), so_world = w3\<rparr>)))))"

section \<open>Listing routes and rules\<close>

definition route_prefix :: "ipnet \<Rightarrow> prefix option" where
  "route_prefix n = (case AddrFromSlice (net_IP n) of
     None \<Rightarrow> None
   | Some a \<Rightarrow> Some (PrefixFrom (Addr_Unmap a) (int (net_ones n))))"

fun prefixes_of_routes :: "nl_route list \<Rightarrow> prefix list result" where
  "prefixes_of_routes [] = Inr []"
| "prefixes_of_routes (r # rs) =
     (case rt_Dst r of
        None \<Rightarrow> prefixes_of_routes rs
      | Some n \<Rightarrow> (case route_prefix n of
                    None \<Rightarrow> Inl (ErrMsg ''parse route destination IP'')
                  | Some p \<Rightarrow> bind_result (prefixes_of_routes rs) (\<lambda>ps.
                               Inr (if Prefix_IsValid p then p # ps else ps))))"

definition getRoutes :: "'w nl_env \<Rightarrow> int \<Rightarrow> int \<Rightarrow> 'w \<Rightarrow> prefix list result" where
  "getRoutes E tableID family w =
     (case nl_RouteList E family tableID w of
        Inl e \<Rightarrow> Inl (ErrMsg ''list routes from table'')
      | Inr rs \<Rightarrow> prefixes_of_routes rs)"

definition GetRoutesFromTable :: "'w nl_env \<Rightarrow> 'w \<Rightarrow> prefix list result" where
  "GetRoutesFromTable E w =
     bind_result (wrap_result ''get v4 routes'' (getRoutes E RT_TABLE_MAIN FAMILY_V4 w)) (\<lambda>v4.
     bind_result (wrap_result ''get v6 routes'' (getRoutes E RT_TABLE_MAIN FAMILY_V6 w)) (\<lambda>v6.
       Inr (v4 @ v6)))"

definition ErrRoutingIsSeparate :: go_error where
  "ErrRoutingIsSeparate = ErrSentinel ''routing is separate''"

definition hasSeparateRouting :: "'w nl_env \<Rightarrow> 'w \<Rightarrow> prefix list result" where
  "hasSeparateRouting E w = (if \<not> nl_AdvancedRouting E then GetRoutesFromTable E w else Inl ErrRoutingIsSeparate)"

text \<open>Names of kernel constants; a number without a name is printed in decimal.\<close>

definition name_of :: "(int \<times> string) list \<Rightarrow> int \<Rightarrow> string" where
  "name_of table n = (case map_of table n of Some s \<Rightarrow> s | None \<Rightarrow> itoa_int n)"

definition routeProtocolToString :: "int \<Rightarrow> string" where
  "routeProtocolToString = name_of [(0, ''unspec''), (1, ''redirect''), (2, ''kernel''), (3, ''boot''),
     (4, ''static''), (16, ''dhcp''), (9, ''ra''), (11, ''zebra''), (12, ''bird''), (13, ''dnrouted''),
     (14, ''xorp''), (15, ''ntk'')]"

definition routeScopeToString :: "int \<Rightarrow> string" where
  "routeScopeToString = name_of [(0, ''global''), (200, ''site''), (253, ''link''), (254, ''host''), (255, ''nowhere'')]"

definition routeTypeToString :: "int \<Rightarrow> string" where
  "routeTypeToString = name_of [(0, ''unspec''), (1, ''unicast''), (2, ''local''), (3, ''broadcast''),
     (4, ''anycast''), (5, ''multicast''), (6, ''blackhole''), (7, ''unreachable''), (8, ''prohibit''),
     (9, ''throw''), (10, ''nat''), (11, ''xresolve'')]"

definition routeTableToString :: "int \<Rightarrow> string" where
  "routeTableToString = name_of [(RT_TABLE_MAIN, ''main''), (RT_TABLE_LOCAL, ''local''), (NetbirdVPNTableID, ''netbird'')]"

definition ruleTableToString :: "int \<Rightarrow> string" where
  "ruleTableToString = name_of [(RT_TABLE_MAIN, ''main''), (RT_TABLE_LOCAL, ''local''),
     (RT_TABLE_DEFAULT, ''default''), (NetbirdVPNTableID, ''netbird'')]"

definition ruleActionToString :: "int \<Rightarrow> string" where
  "ruleActionToString = name_of [(0, ''unspec''), (1, ''lookup''), (2, ''goto''), (3, ''nop''),
     (6, ''blackhole''), (7, ''unreachable''), (8, ''prohibit'')]"

record DetailedRoute =
  dr_Dst :: prefix
  dr_Gw :: addr
  dr_Interface :: "net_interface option"
  dr_Metric :: int
  dr_InterfaceMetric :: int
  dr_InterfaceIndex :: int
  dr_Protocol :: string
  dr_Scope :: string
  dr_Type :: string
  dr_Table :: string
  dr_Flags :: string

definition processRouteDestination :: "nl_route \<Rightarrow> int \<Rightarrow> DetailedRoute \<Rightarrow> DetailedRoute option" where
  "processRouteDestination r family d =
     (case rt_Dst r of
        Some n \<Rightarrow> (case route_prefix n of
                    None \<Rightarrow> None
                  | Some p \<Rightarrow> (if Prefix_IsValid p then Some (d\<lparr>dr_Dst := p\<rparr>) else None))
      | None \<Rightarrow> Some (d\<lparr>dr_Dst := (if family = FAMILY_V4 then Defaultv4 else Defaultv6)\<rparr>))"

definition processRouteGateway :: "nl_route \<Rightarrow> DetailedRoute \<Rightarrow> DetailedRoute" where
  "processRouteGateway r d =
     (if rt_Gw r = [] then d
      else case AddrFromSlice (rt_Gw r) of None \<Rightarrow> d | Some g \<Rightarrow> d\<lparr>dr_Gw := Addr_Unmap g\<rparr>)"

definition processRouteInterface :: "'w nl_env \<Rightarrow> 'w \<Rightarrow> nl_route \<Rightarrow> DetailedRoute \<Rightarrow> DetailedRoute" where
  "processRouteInterface E w r d =
     (if rt_LinkIndex r > 0 then
        (case nl_LinkByIndex E (rt_LinkIndex r) w of
           Inr i \<Rightarrow> d\<lparr>dr_Interface := Some i\<rparr>
         | Inl _ \<Rightarrow> d\<lparr>dr_Interface := Some \<lparr>ni_Index = rt_LinkIndex r, ni_Name = ''index-'' @ itoa_int (rt_LinkIndex r)\<rparr>\<rparr>)
      else d)"

definition buildDetailedRoute :: "'w nl_env \<Rightarrow> 'w \<Rightarrow> nl_route \<Rightarrow> int \<Rightarrow> int \<Rightarrow> DetailedRoute option" where
  "buildDetailedRoute E w r tableID family =
     map_option (\<lambda>d. processRouteInterface E w r (processRouteGateway r d))
       (processRouteDestination r family \<lparr>dr_Dst = PrefixZero, dr_Gw = AddrZero, dr_Interface = None,
          dr_Metric = rt_Priority r, dr_InterfaceMetric = -1, dr_InterfaceIndex = rt_LinkIndex r,
          dr_Protocol = routeProtocolToString (rt_Protocol r), dr_Scope = routeScopeToString (rt_Scope r),
          dr_Type = routeTypeToString (rt_Type r), dr_Table = routeTableToString tableID, dr_Flags = ''-''\<rparr>)"

definition getDetailedRoutes :: "'w nl_env \<Rightarrow> 'w \<Rightarrow> int \<Rightarrow> int \<Rightarrow> DetailedRoute list result" where
  "getDetailedRoutes E w tableID family =
     (case nl_RouteList E family tableID w of
        Inl e \<Rightarrow> Inl (ErrMsg ''list routes from table'')
      | Inr rs \<Rightarrow> Inr (List.map_filter (\<lambda>r. buildDetailedRoute E w r tableID family) rs))"

definition getRoutesForFamily :: "'w nl_env \<Rightarrow> 'w \<Rightarrow> int \<Rightarrow> int \<Rightarrow> DetailedRoute list" where
  "getRoutesForFamily E w tableID family =
     (case getDetailedRoutes E w tableID family of Inl _ \<Rightarrow> [] | Inr rs \<Rightarrow> rs)"

definition collectRoutesFromTable :: "'w nl_env \<Rightarrow> 'w \<Rightarrow> int \<Rightarrow> DetailedRoute list" where
  "collectRoutesFromTable E w tableID =
     getRoutesForFamily E w tableID FAMILY_V4 @ getRoutesForFamily E w tableID FAMILY_V6"

definition collectRoutesFromTables :: "'w nl_env \<Rightarrow> 'w \<Rightarrow> int list \<Rightarrow> DetailedRoute list" where
  "collectRoutesFromTables E w tables = concat (map (collectRoutesFromTable E w) tables)"

text \<open>
  Go iterates over \<^verbatim>\<open>tablesMap\<close> in an unspecified order; the model lists the identifiers in the order in
  which they were found.
\<close>

definition tables_of_family :: "'w nl_env \<Rightarrow> 'w \<Rightarrow> int \<Rightarrow> int list" where
  "tables_of_family E w family =
     (case nl_RouteList E family 0 w of Inl _ \<Rightarrow> [] | Inr rs \<Rightarrow> filter (\<lambda>t. t > 0) (map rt_Table rs))"

definition getAllRoutingTables :: "'w nl_env \<Rightarrow> 'w \<Rightarrow> int list result" where
  "getAllRoutingTables E w =
     (let found = remdups (tables_of_family E w FAMILY_V4 @ tables_of_family E w FAMILY_V6)
      in Inr (found @ filter (\<lambda>t. t \<notin> set found) [RT_TABLE_MAIN, RT_TABLE_LOCAL, NetbirdVPNTableID]))"

definition discoverRoutingTables :: "'w nl_env \<Rightarrow> 'w \<Rightarrow> int list" where
  "discoverRoutingTables E w =
     (case getAllRoutingTables E w of
        Inl _ \<Rightarrow> [RT_TABLE_MAIN, RT_TABLE_LOCAL, NetbirdVPNTableID] | Inr ts \<Rightarrow> ts)"

definition GetDetailedRoutesFromTable :: "'w nl_env \<Rightarrow> 'w \<Rightarrow> DetailedRoute list result" where
  "GetDetailedRoutesFromTable E w = Inr (collectRoutesFromTables E w (discoverRoutingTables E w))"

record IPRule =
  ipr_Priority :: int
  ipr_From :: prefix
  ipr_To :: prefix
  ipr_IIF :: string
  ipr_OIF :: string
  ipr_Table :: string
  ipr_Action :: string
  ipr_Mark :: "32 word"
  ipr_Mask :: "32 word"
  ipr_TunID :: "32 word"
  ipr_Goto :: "32 word"
  ipr_Flow :: "32 word"
  ipr_SuppressPlen :: int
  ipr_SuppressIFL :: int
  ipr_Invert :: bool

definition parseRulePrefix :: "ipnet \<Rightarrow> prefix" where
  "parseRulePrefix n = (case route_prefix n of
     None \<Rightarrow> PrefixZero | Some p \<Rightarrow> (if Prefix_IsValid p then p else PrefixZero))"

definition buildIPRule :: "nl_rule \<Rightarrow> IPRule" where
  "buildIPRule r = \<lparr>ipr_Priority = ru_Priority r,
     ipr_From = (case ru_Src r of None \<Rightarrow> PrefixZero | Some n \<Rightarrow> parseRulePrefix n),
     ipr_To = (case ru_Dst r of None \<Rightarrow> PrefixZero | Some n \<Rightarrow> parseRulePrefix n),
     ipr_IIF = ru_IifName r, ipr_OIF = ru_OifName r,
     ipr_Table = ruleTableToString (ru_Table r), ipr_Action = ruleActionToString (ru_Type r),
     ipr_Mark = ru_Mark r, ipr_Mask = (case ru_Mask r of None \<Rightarrow> 0 | Some m \<Rightarrow> m),
     ipr_TunID = word_of_int (ru_TunID r), ipr_Goto = word_of_int (ru_Goto r),
     ipr_Flow = word_of_int (ru_Flow r), ipr_SuppressPlen = ru_SuppressPrefixlen r,
     ipr_SuppressIFL = ru_SuppressIfgroup r, ipr_Invert = ru_Invert r\<rparr>"

definition getIPRules :: "'w nl_env \<Rightarrow> int \<Rightarrow> 'w \<Rightarrow> IPRule list result" where
  "getIPRules E family w =
     bind_result (wrap_result ''list rules for family'' (nl_RuleList E family w)) (\<lambda>rs. Inr (map buildIPRule rs))"

definition GetIPRules :: "'w nl_env \<Rightarrow> 'w \<Rightarrow> IPRule list result" where
  "GetIPRules E w =
     bind_result (wrap_result ''get v4 rules'' (getIPRules E FAMILY_V4 w)) (\<lambda>v4.
     bind_result (wrap_result ''get v6 rules'' (getIPRules E FAMILY_V6 w)) (\<lambda>v6. Inr (v4 @ v6)))"

section \<open>Which prefixes may be routed\<close>

lemma drop_bit_eq_unat: "drop_bit n (w :: u32) = k \<longleftrightarrow> unat w div 2 ^ n = unat k"
  by (metis drop_bit_eq_div unat_drop_bit_eq word_unat_eq_iff)

text \<open>Which IPv4 destinations may be routed into the tunnel: everything except loopback, link-local and multicast
  addresses, an unspecified address that is not the default route, and the addresses of the overlay network itself.\<close>

theorem validateRoute_v4:
  "validateRoute E (Prefix (Addr4 a) n) = None \<longleftrightarrow>
     unat a div 2 ^ 24 \<noteq> 127 \<and> unat a div 2 ^ 16 \<noteq> 0xa9fe \<and> unat a div 2 ^ 28 \<noteq> 14 \<and>
     \<not> (a = 0 \<and> n \<noteq> 0) \<and> \<not> Prefix_Contains (wg_Network E) (Addr4 a)"
proof -
  have "unat a div 2 ^ 8 = 0xe00000 \<Longrightarrow> unat a div 2 ^ 28 = 14"
    by (simp add: div_mult2_eq [of "unat a" "2 ^ 8" "2 ^ 20", simplified])
  then show ?thesis
    by (auto simp: validateRoute_def Let_def Addr_IsValid_def Addr_IsLoopback_def Addr_IsLinkLocalUnicast_def
        Addr_IsLinkLocalMulticast_def Addr_IsInterfaceLocalMulticast_def Addr_IsMulticast_def
        Addr_IsUnspecified_def drop_bit_eq_unat)
qed

section \<open>Rules\<close>

definition rule_laws :: "'w nl_env \<Rightarrow> ('w \<Rightarrow> nl_rule set) \<Rightarrow> (int \<Rightarrow> bool) \<Rightarrow> bool" where
  "rule_laws E rules supported =
     ((\<forall>r w w'. nl_RuleAdd E r w = (None, w') \<longrightarrow> rules w' = insert r (rules w)) \<and>
      (\<forall>r w e w'. nl_RuleAdd E r w = (Some e, w') \<longrightarrow> rules w' = rules w \<and>
         (errors_Is e (ErrSys EEXIST) \<longrightarrow> r \<in> rules w) \<and> (isOpErr e \<longrightarrow> \<not> supported (ru_Family r))) \<and>
      (\<forall>r w w'. nl_RuleDel E r w = (None, w') \<longrightarrow> rules w' = rules w - {r}) \<and>
      (\<forall>r w e w'. nl_RuleDel E r w = (Some e, w') \<longrightarrow> rules w' = rules w \<and>
         (errors_Is e (ErrSys ENOENT) \<or> isOpErr e \<longrightarrow> r \<notin> rules w)) \<and>
      (\<forall>r w. rules (snd (nl_RouteDel E r w)) = rules w) \<and>
      (\<forall>t w. rules (snd (rt_tables_append E t w)) = rules w) \<and>
      (\<forall>w. rules (snd (snd (sysctl_Setup E w))) = rules w) \<and>
      (\<forall>v w. rules (snd (sysctl_Cleanup E v w)) = rules w))"

lemma rule_of_family [simp]: "ru_Family (rule_of E p) = rp_family p"
  by (simp add: rule_of_def)

lemma addRule_rules:
  assumes "rule_laws E rules supported" and "addRule E p w = (None, w')"
  shows "rules w \<subseteq> rules w' \<and> (supported (rp_family p) \<longrightarrow> rule_of E p \<in> rules w')"
proof (cases "nl_RuleAdd E (rule_of E p) w")
  case (Pair r w1)
  show ?thesis
  proof (cases r)
    case None
    then have "rules w1 = insert (rule_of E p) (rules w)" using assms(1) Pair by (simp add: rule_laws_def)
    then show ?thesis using assms(2) Pair None by (auto simp: addRule_def)
  next
    case (Some e)
    then have "rules w1 = rules w \<and> (errors_Is e (ErrSys EEXIST) \<longrightarrow> rule_of E p \<in> rules w) \<and>
       (isOpErr e \<longrightarrow> \<not> supported (rp_family p))"
      using assms(1) Pair unfolding rule_laws_def by (metis rule_of_family)
    then show ?thesis using assms(2) Pair Some by (auto simp: addRule_def split: if_splits)
  qed
qed

lemma removeRule_rules:
  assumes "rule_laws E rules supported" and "removeRule E p w = (r, w')"
  shows "rules w' \<subseteq> rules w \<and> (r = None \<longrightarrow> rule_of E p \<notin> rules w')"
proof (cases "nl_RuleDel E (rule_of E p) w")
  case (Pair q w1)
  show ?thesis
  proof (cases q)
    case None
    then have "rules w1 = rules w - {rule_of E p}" using assms(1) Pair by (simp add: rule_laws_def)
    then show ?thesis using assms(2) Pair None by (auto simp: removeRule_def)
  next
    case (Some e)
    then have "rules w1 = rules w \<and> (errors_Is e (ErrSys ENOENT) \<or> isOpErr e \<longrightarrow> rule_of E p \<notin> rules w)"
      using assms(1) Pair unfolding rule_laws_def by metis
    then show ?thesis using assms(2) Pair Some by (auto simp: removeRule_def split: if_splits)
  qed
qed

lemma add_rules_rules:
  assumes "rule_laws E rules supported" and "add_rules E ps w = (None, w')"
  shows "rules w \<subseteq> rules w' \<and> (\<forall>p \<in> set ps. supported (rp_family p) \<longrightarrow> rule_of E p \<in> rules w')"
  using assms(2)
proof (induction ps arbitrary: w)
  case (Cons p ps)
  then obtain w1 where w1: "addRule E p w = (None, w1)" "add_rules E ps w1 = (None, w')"
    by (auto split: prod.splits option.splits)
  then show ?case using Cons.IH [OF w1(2)] addRule_rules [OF assms(1) w1(1)] by auto
qed simp

lemma remove_rules_rules:
  assumes "rule_laws E rules supported" and "remove_rules E ps w = (es, w')"
  shows "rules w' \<subseteq> rules w \<and> (es = [] \<longrightarrow> (\<forall>p \<in> set ps. rule_of E p \<notin> rules w'))"
  using assms(2)
proof (induction ps arbitrary: w es)
  case (Cons p ps)
  then obtain r w1 es' where w1: "removeRule E p w = (r, w1)" "remove_rules E ps w1 = (es', w')"
     "es = collect_err (rp_description p) r @ es'"
    by (auto split: prod.splits)
  then show ?case using Cons.IH [OF w1(2)] removeRule_rules [OF assms(1) w1(1)]
    by (auto simp: collect_err_def split: option.splits)
qed simp

lemma flush_loop_rules:
  assumes "rule_laws E rules supported"
  shows "rules (snd (flush_loop E f rs w)) = rules w"
proof (induction rs arbitrary: w)
  case (Cons r rs)
  obtain e w1 where d: "nl_RouteDel E (flush_target f r) w = (e, w1)" by fastforce
  then have "rules w1 = rules w" using assms unfolding rule_laws_def by (metis snd_conv)
  then show ?case using Cons [of w1] d by (auto simp: tolerate_def split: prod.splits option.splits)
qed simp

lemma flushRoutes_rules:
  "rule_laws E rules supported \<Longrightarrow> rules (snd (flushRoutes E t f w)) = rules w"
  by (auto simp: flushRoutes_def flush_loop_rules split: sum.splits)

text \<open>\<^verbatim>\<open>CleanupRouting\<close> only ever removes rules, forgets the saved sysctl values, and leaves none of the four set-up rules
  when it reports no error.\<close>

theorem CleanupRouting_rules:
  assumes "rule_laws E rules supported" and "CleanupRouting E True s = (es, s')"
  shows "so_originalSysctl s' = None \<and> \<not> so_sysctlFailed s' \<and> rules (so_world s') \<subseteq> rules (so_world s) \<and>
    (es = [] \<longrightarrow> (\<forall>p \<in> set (getSetupRules E). rule_of E p \<notin> rules (so_world s')))"
proof -
  obtain e4 w1 where 1: "flushRoutes E NetbirdVPNTableID FAMILY_V4 (so_world s) = (e4, w1)" by fastforce
  obtain e6 w2 where 2: "flushRoutes E NetbirdVPNTableID FAMILY_V6 w1 = (e6, w2)" by fastforce
  obtain er w3 where 3: "remove_rules E (getSetupRules E) w2 = (er, w3)" by fastforce
  obtain rs w4 where 4: "sysctl_Cleanup E (so_originalSysctl s) w3 = (rs, w4)" by fastforce
  have "rules w2 = rules (so_world s)"
    using flushRoutes_rules [OF assms(1)] 1 2 by (metis snd_conv)
  moreover have "rules w4 = rules w3" using assms(1) 4 unfolding rule_laws_def by (metis snd_conv)
  ultimately show ?thesis
    using remove_rules_rules [OF assms(1) 3] assms(2) by (auto simp: CleanupRouting_def 1 2 3 4)
qed

text \<open>When \<^verbatim>\<open>SetupRouting\<close> succeeds, every one of its policy rules whose address family the kernel supports is installed,
  given that the kernel adds and deletes rules as netlink documents.\<close>

theorem SetupRouting_rules:
  assumes "rule_laws E rules supported" and "SetupRouting E ips True s = (None, s')"
    and "p \<in> set (getSetupRules E)" and "supported (rp_family p)"
  shows "rule_of E p \<in> rules (so_world s')"
proof -
  obtain w1 where 1: "add_rules E (getSetupRules E) (so_world s) = (None, w1)"
    using assms(2) by (auto simp: SetupRouting_def split: prod.splits option.splits)
  obtain r2 w2 where 2: "addRoutingTableName E w1 = (r2, w2)" by fastforce
  obtain v r3 w3 where 3: "sysctl_Setup E w2 = (v, r3, w3)" by (metis prod_cases3)
  have "rules w2 = rules w1"
    using 2 assms(1) unfolding rule_laws_def addRoutingTableName_def
    by (auto split: sum.splits option.splits prod.splits if_splits) (metis snd_conv)+
  moreover have "rules w3 = rules w2" using assms(1) 3 unfolding rule_laws_def by (metis snd_conv)
  ultimately show ?thesis
    using assms(2-) add_rules_rules [OF assms(1) 1] by (auto simp: SetupRouting_def 1 2 3)
qed

lemma remove_rules_ok:
  assumes "\<forall>r w e w'. nl_RuleDel E r w = (Some e, w') \<longrightarrow> errors_Is e (ErrSys ENOENT) \<or> isOpErr e"
  shows "fst (remove_rules E ps w) = []"
proof (induction ps arbitrary: w)
  case (Cons p ps)
  have "\<exists>w1. removeRule E p w = (None, w1)"
    using assms by (auto simp: removeRule_def split: prod.splits option.splits)
  then show ?case using Cons by (auto simp: collect_err_def split: prod.splits) (metis fst_conv)
qed simp

lemma SetupRouting_no_rule:
  assumes "rule_laws E rules supported" and "SetupRouting E ips True s = (Some e, s')"
    and "\<forall>r w e w'. nl_RuleDel E r w = (Some e, w') \<longrightarrow> errors_Is e (ErrSys ENOENT) \<or> isOpErr e"
    and "p \<in> set (getSetupRules E)"
  shows "rule_of E p \<notin> rules (so_world s')"
proof -
  obtain w where s': "s' = snd (CleanupRouting E True (s\<lparr>so_world := w\<rparr>))"
    using assms(2) by (auto simp: SetupRouting_def split: prod.splits option.splits)
  obtain e4 w1 where 1: "flushRoutes E NetbirdVPNTableID FAMILY_V4 w = (e4, w1)" by fastforce
  obtain e6 w2 where 2: "flushRoutes E NetbirdVPNTableID FAMILY_V6 w1 = (e6, w2)" by fastforce
  obtain w3 where 3: "remove_rules E (getSetupRules E) w2 = ([], w3)"
    using remove_rules_ok [OF assms(3)] by (metis surjective_pairing)
  obtain rs w4 where 4: "sysctl_Cleanup E (so_originalSysctl s) w3 = (rs, w4)" by fastforce
  have "rules w4 = rules w3" using assms(1) 4 unfolding rule_laws_def by (metis snd_conv)
  then show ?thesis
    using remove_rules_rules [OF assms(1) 3] assms(4) by (auto simp: s' CleanupRouting_def 1 2 3 4)
qed

text \<open>C39. When \<^verbatim>\<open>SetupRouting\<close> fails, none of its policy rules is left behind, given that deleting a rule fails only because the
  rule or its family does not exist: the deferred clean-up undoes the rules installed before the failure.\<close>

theorem SetupRouting_failure_cleans:
  assumes "rule_laws E rules supported" and "SetupRouting E ips True s = (Some e, s')"
    and "\<forall>r w e w'. nl_RuleDel E r w = (Some e, w') \<longrightarrow> errors_Is e (ErrSys ENOENT) \<or> isOpErr e"
    and "p \<in> set (getSetupRules E)"
  shows "rule_of E p \<notin> rules (so_world s')"
  using assms by (rule SetupRouting_no_rule)

section \<open>Routes\<close>

definition route_laws :: "'w nl_env \<Rightarrow> ('w \<Rightarrow> nl_route set) \<Rightarrow> bool" where
  "route_laws E routes =
     ((\<forall>r w w'. nl_RouteAdd E r w = (None, w') \<longrightarrow> routes w' = insert r (routes w)) \<and>
      (\<forall>r w e w'. nl_RouteAdd E r w = (Some e, w') \<longrightarrow> routes w' = routes w) \<and>
      (\<forall>r w w'. nl_RouteDel E r w = (None, w') \<longrightarrow> routes w' = routes w - {r}) \<and>
      (\<forall>r w e w'. nl_RouteDel E r w = (Some e, w') \<longrightarrow> routes w' = routes w \<and>
         (errors_Is e (ErrSys ESRCH) \<or> errors_Is e (ErrSys ENOENT) \<or> isOpErr e \<longrightarrow> r \<notin> routes w)))"

definition vpn_route :: "prefix \<Rightarrow> net_interface \<Rightarrow> ipnet \<Rightarrow> nl_route" where
  "vpn_route p i dst = zero_route\<lparr>rt_Scope := SCOPE_UNIVERSE, rt_Table := NetbirdVPNTableID,
     rt_Family := getAddressFamily p, rt_Dst := Some dst, rt_LinkIndex := ni_Index i\<rparr>"

definition vpn_routes :: "prefix \<Rightarrow> net_interface \<Rightarrow> nl_route set" where
  "vpn_routes p i = {r. \<exists>dst. parse_dst p = Inr dst \<and> r = vpn_route p i dst} \<union>
     (if p = Defaultv4 then {r. \<exists>dst. parse_dst Defaultv6 = Inr dst \<and> r = unreachable_route Defaultv6 NetbirdVPNTableID dst}
      else {})"

lemma RouteAdd_routes:
  assumes "route_laws E routes" and "tolerate ok m (nl_RouteAdd E r w) = (None, w')"
  shows "routes w \<subseteq> routes w' \<and> routes w' \<subseteq> insert r (routes w)"
  using assms unfolding route_laws_def tolerate_def
  by (cases "nl_RouteAdd E r w"; cases "fst (nl_RouteAdd E r w)") (auto split: if_splits)

lemma RouteDel_routes:
  assumes "route_laws E routes" and "tolerate ok m (nl_RouteDel E r w) = (None, w')"
    and "\<And>e. ok e \<Longrightarrow> errors_Is e (ErrSys ESRCH) \<or> errors_Is e (ErrSys ENOENT) \<or> isOpErr e"
  shows "routes w' = routes w - {r}"
proof (cases "nl_RouteDel E r w")
  case (Pair q w1)
  show ?thesis
  proof (cases q)
    case None
    then show ?thesis using assms(1,2) Pair by (auto simp: route_laws_def tolerate_def)
  next
    case (Some e)
    then have "ok e" "w' = w1" using assms(2) Pair by (auto simp: tolerate_def split: if_splits)
    moreover from \<open>ok e\<close> have "routes w1 = routes w \<and> r \<notin> routes w"
      using assms(1) assms(3) [OF \<open>ok e\<close>] Pair Some unfolding route_laws_def by metis
    ultimately show ?thesis by simp
  qed
qed

lemma addNextHop_iface [simp]:
  "addNextHop E \<lparr>nh_IP = AddrZero, nh_Intf = Some i\<rparr> r w = Inr (r\<lparr>rt_LinkIndex := ni_Index i\<rparr>)"
  by (simp add: addNextHop_def Addr_IsValid_def)

lemma addRoute_routes:
  assumes "route_laws E routes"
    and "addRoute E p \<lparr>nh_IP = AddrZero, nh_Intf = Some i\<rparr> NetbirdVPNTableID w = (None, w')"
  shows "\<exists>dst. parse_dst p = Inr dst \<and> routes w \<subseteq> routes w' \<and> routes w' \<subseteq> insert (vpn_route p i dst) (routes w)"
  using assms(2) RouteAdd_routes [OF assms(1)]
  by (auto simp: addRoute_def vpn_route_def split: sum.splits)

lemma removeRoute_routes:
  assumes "route_laws E routes"
    and "removeRoute E p \<lparr>nh_IP = AddrZero, nh_Intf = Some i\<rparr> NetbirdVPNTableID w = (None, w')"
  shows "\<exists>dst. parse_dst p = Inr dst \<and> routes w' = routes w - {vpn_route p i dst}"
  using assms(2)
  by (auto simp: removeRoute_def vpn_route_def split: sum.splits dest!: RouteDel_routes [OF assms(1)])

lemma addUnreachable_routes:
  assumes "route_laws E routes" and "addUnreachableRoute E p t w = (None, w')"
  shows "\<exists>dst. parse_dst p = Inr dst \<and> routes w \<subseteq> routes w' \<and> routes w' \<subseteq> insert (unreachable_route p t dst) (routes w)"
  using assms(2) RouteAdd_routes [OF assms(1)] by (auto simp: addUnreachableRoute_def split: sum.splits)

lemma removeUnreachable_routes:
  assumes "route_laws E routes" and "removeUnreachableRoute E p t w = (None, w')"
  shows "\<exists>dst. parse_dst p = Inr dst \<and> routes w' = routes w - {unreachable_route p t dst}"
  using assms(2)
  by (auto simp: removeUnreachableRoute_def split: sum.splits dest!: RouteDel_routes [OF assms(1)])

lemma AddVPNRoute_routes:
  assumes "route_laws E routes" and "nl_AdvancedRouting E" and "AddVPNRoute E p i w = (None, w')"
  shows "routes w \<subseteq> routes w' \<and> routes w' \<subseteq> routes w \<union> vpn_routes p i"
proof -
  obtain w1 where u: "(if p = Defaultv4 then addUnreachableRoute E Defaultv6 NetbirdVPNTableID w else (None, w)) = (None, w1)"
    and r: "addRoute E p \<lparr>nh_IP = AddrZero, nh_Intf = Some i\<rparr> NetbirdVPNTableID w1 = (None, w')"
    using assms(2,3) by (auto simp: AddVPNRoute_def split: option.splits prod.splits)
  have "routes w \<subseteq> routes w1 \<and> routes w1 \<subseteq> routes w \<union> vpn_routes p i"
    using u addUnreachable_routes [OF assms(1), of Defaultv6 NetbirdVPNTableID w w1]
    by (auto simp: vpn_routes_def split: if_splits)
  moreover have "routes w1 \<subseteq> routes w' \<and> routes w' \<subseteq> routes w1 \<union> vpn_routes p i"
    using addRoute_routes [OF assms(1) r] by (auto simp: vpn_routes_def)
  ultimately show ?thesis by blast
qed

lemma RemoveVPNRoute_routes:
  assumes "route_laws E routes" and "nl_AdvancedRouting E" and "RemoveVPNRoute E p i w = (None, w')"
  shows "routes w' = routes w - vpn_routes p i"
proof -
  obtain w1 where u: "(if p = Defaultv4 then removeUnreachableRoute E Defaultv6 NetbirdVPNTableID w else (None, w)) = (None, w1)"
    and r: "removeRoute E p \<lparr>nh_IP = AddrZero, nh_Intf = Some i\<rparr> NetbirdVPNTableID w1 = (None, w')"
    using assms(2,3) by (auto simp: RemoveVPNRoute_def split: option.splits prod.splits)
  obtain dst where dst: "parse_dst p = Inr dst" "routes w' = routes w1 - {vpn_route p i dst}"
    using removeRoute_routes [OF assms(1) r] by blast
  show ?thesis
  proof (cases "p = Defaultv4")
    case True
    then obtain d6 where d6: "parse_dst Defaultv6 = Inr d6"
        "routes w1 = routes w - {unreachable_route Defaultv6 NetbirdVPNTableID d6}"
      using u removeUnreachable_routes [OF assms(1)] by (metis (full_types))
    have "vpn_routes p i = {vpn_route p i dst, unreachable_route Defaultv6 NetbirdVPNTableID d6}"
      unfolding vpn_routes_def using True dst(1) d6(1) by (simp add: insert_commute)
    then show ?thesis using dst(2) d6(2) by blast
  next
    case False
    then have "vpn_routes p i = {vpn_route p i dst}" "w1 = w"
      unfolding vpn_routes_def using u dst(1) by simp_all
    then show ?thesis using dst(2) by simp
  qed
qed

text \<open>C40. Adding a VPN route and removing it again leaves the kernel's routes as they were: both build the same netlink routes,
  for the default route also the unreachable IPv6 one.\<close>

theorem AddVPNRoute_RemoveVPNRoute:
  assumes "route_laws E routes" and "nl_AdvancedRouting E" and "routes w \<inter> vpn_routes p i = {}"
    and "AddVPNRoute E p i w = (None, w1)" and "RemoveVPNRoute E p i w1 = (None, w2)"
  shows "routes w2 = routes w"
  using AddVPNRoute_routes [OF assms(1,2,4)] RemoveVPNRoute_routes [OF assms(1,2,5)] assms(3) by blast

section \<open>Listings\<close>

text \<open>The destination sent to the kernel for an IPv4 prefix is listed back by \<^verbatim>\<open>getRoutes\<close> as that prefix, masked.\<close>

theorem route_prefix_parse_dst:
  assumes "valid_prefix4 p"
  shows "\<exists>dst. parse_dst p = Inr dst \<and> route_prefix dst = Some (Prefix_Masked p)"
proof -
  obtain a n where p: "p = Prefix (Addr4 a) (int n)" "n \<le> 32"
    using assms by (cases p; cases "pfx_Addr p") (auto simp: valid_prefix4_def dest!: zero_le_imp_eq_int)
  have "Prefix_String p = v4_String a @ CHR ''/'' # itoa n"
    by (simp add: p Prefix_String_def Prefix_IsValid_def)
  then show ?thesis
    using p net_ParseCIDR_v4 [of n a]
    by (simp add: parse_dst_def route_prefix_def ipnet_of_v4_def AddrFromSlice_def u32_bytes_roundtrip
        Prefix_Masked_def PrefixFrom_def)
qed

text \<open>\<^verbatim>\<open>getAllRoutingTables\<close> never fails, lists each table once and always includes the main, local and NetBird tables.\<close>

theorem getAllRoutingTables_complete:
  "\<exists>ts. getAllRoutingTables E w = Inr ts \<and> distinct ts \<and>
     {RT_TABLE_MAIN, RT_TABLE_LOCAL, NetbirdVPNTableID} \<subseteq> set ts \<and>
     set ts = {RT_TABLE_MAIN, RT_TABLE_LOCAL, NetbirdVPNTableID} \<union>
       set (tables_of_family E w FAMILY_V4) \<union> set (tables_of_family E w FAMILY_V6)"
  by (auto simp: getAllRoutingTables_def Let_def nl_consts)

lemma prefixes_of_routes_valid:
  "prefixes_of_routes rs = Inr ps \<Longrightarrow> list_all Prefix_IsValid ps"
  by (induction rs arbitrary: ps) (auto simp: bind_result_Inr_iff split: option.splits if_splits)

section \<open>The table name\<close>

lemma strings_Split_at: "strings_Split c (x @ c # y) = strings_Split c x @ strings_Split c y"
proof (induction x)
  case (Cons a x)
  then show ?case by (cases "strings_Split c x") auto
qed simp

lemma entryExists_append:
  "entryExists xs k = Inr False \<Longrightarrow> entryExists (xs @ ys) k = entryExists ys k"
  by (induction xs) (auto split: if_splits option.splits)

lemma entryExists_entry:
  "entryExists (strings_Split (CHR 0x0A) (tl table_name_entry)) NetbirdVPNTableID = Inr True"
  by code_simp

lemma table_name_entry_hd: "table_name_entry = CHR 0x0A # tl table_name_entry"
  by (simp add: table_name_entry_def)

text \<open>Naming the routing table is done once: after a successful \<^verbatim>\<open>addRoutingTableName\<close> a second call finds the entry and
  changes nothing, given a file whose appended text is read back.\<close>

theorem addRoutingTableName_idem:
  assumes appends: "\<forall>t w w' c. rt_tables_append E t w = (None, w') \<longrightarrow> rt_tables_read E w = Inr c \<longrightarrow>
      rt_tables_read E w' = Inr (c @ t) \<and> rt_tables_seek E w' = rt_tables_seek E w"
    and ok: "addRoutingTableName E w = (None, w')"
  shows "addRoutingTableName E w' = (None, w')"
proof (cases "w' = w")
  case True
  then show ?thesis using ok by simp
next
  case False
  then obtain c where c: "rt_tables_read E w = Inr c" "rt_tables_seek E w = None"
    "entryExists (strings_Split (CHR 0x0A) c) NetbirdVPNTableID = Inr False"
    "rt_tables_append E table_name_entry w = (None, w')"
    using ok by (auto simp: addRoutingTableName_def split: sum.splits option.splits if_splits prod.splits)
  then have new: "rt_tables_read E w' = Inr (c @ table_name_entry)" "rt_tables_seek E w' = None"
    using appends by auto
  have "strings_Split (CHR 0x0A) (c @ table_name_entry) =
      strings_Split (CHR 0x0A) c @ strings_Split (CHR 0x0A) (tl table_name_entry)"
    by (subst table_name_entry_hd) (rule strings_Split_at)
  then have "entryExists (strings_Split (CHR 0x0A) (c @ table_name_entry)) NetbirdVPNTableID = Inr True"
    using c(3) by (simp only: entryExists_append entryExists_entry)
  then show ?thesis using new by (simp add: addRoutingTableName_def)
qed

section \<open>Witnesses\<close>

text \<open>
  A kernel whose state is its rules, its routes and the text of the table name file. Adding a rule of the
  NetBird table for IPv6 fails when \<open>broken\<close> is set, so that the set-up stops half-way.
\<close>

type_synonym sample_kernel = "nl_rule list \<times> nl_route list \<times> string"

definition sample_rule :: nl_rule where
  "sample_rule = \<lparr>ru_Priority = -1, ru_Family = 0, ru_Table = 0, ru_Mark = 0, ru_Mask = None, ru_TunID = 0,
     ru_Goto = -1, ru_Flow = -1, ru_Src = None, ru_Dst = None, ru_IifName = [], ru_OifName = [],
     ru_SuppressIfgroup = -1, ru_SuppressPrefixlen = -1, ru_Invert = False, ru_Type = 0\<rparr>"

definition sample_nl :: "bool \<Rightarrow> sample_kernel nl_env" where
  "sample_nl broken = \<lparr>
     nl_RouteAdd = (\<lambda>r (ru, rt, f). (None, (ru, r # rt, f))),
     nl_RouteDel = (\<lambda>r (ru, rt, f). if r \<in> set rt then (None, (ru, removeAll r rt, f)) else (Some (ErrSys ESRCH), (ru, rt, f))),
     nl_RouteList = (\<lambda>fam t (ru, rt, f). Inr (filter (\<lambda>r. rt_Family r = fam \<and> (t = 0 \<or> rt_Table r = t)) rt)),
     nl_NewRule = sample_rule,
     nl_RuleAdd = (\<lambda>r (ru, rt, f). if broken \<and> ru_Table r = NetbirdVPNTableID \<and> ru_Family r = FAMILY_V6
        then (Some (ErrSys EINVAL), (ru, rt, f))
        else if r \<in> set ru then (Some (ErrSys EEXIST), (ru, rt, f)) else (None, (r # ru, rt, f))),
     nl_RuleDel = (\<lambda>r (ru, rt, f). if r \<in> set ru then (None, (removeAll r ru, rt, f)) else (Some (ErrSys ENOENT), (ru, rt, f))),
     nl_RuleList = (\<lambda>fam (ru, rt, f). Inr (filter (\<lambda>r. ru_Family r = fam) ru)),
     nl_LinkByName = (\<lambda>n w. Inl (ErrSys ENOENT)), nl_LinkByIndex = (\<lambda>n w. Inl (ErrSys ENOENT)),
     rt_tables_read = (\<lambda>(ru, rt, f). Inr f), rt_tables_seek = (\<lambda>w. None), rt_tables_open_append = (\<lambda>w. None),
     rt_tables_append = (\<lambda>t (ru, rt, f). (None, (ru, rt, f @ t))),
     sysctl_Setup = (\<lambda>w. (Map.empty, None, w)), sysctl_Cleanup = (\<lambda>v w. (None, w)), sysctl_Set = (\<lambda>k v w. (None, w)),
     legacy_Setup = (\<lambda>a w. (None, w)), legacy_Cleanup = (\<lambda>w. (None, w)),
     legacy_AddVPNRoute = (\<lambda>p i w. (None, w)), legacy_RemoveVPNRoute = (\<lambda>p i w. (None, w)),
     nl_AdvancedRouting = True, nl_ControlPlaneMark = 0x1BD00, wg_Network = Prefix (Addr4 0x64400000) 10\<rparr>"

definition sample_so :: "sample_kernel so_state" where
  "sample_so = \<lparr>so_originalSysctl = None, so_sysctlFailed = False, so_world = ([], [], ''255 local'')\<rparr>"

lemma sample_nl_rule_laws: "rule_laws (sample_nl b) (\<lambda>w. set (fst w)) (\<lambda>f. True)"
  by (auto simp: rule_laws_def sample_nl_def isOpErr_def split: if_splits)

lemma sample_nl_route_laws: "route_laws (sample_nl b) (\<lambda>w. set (fst (snd w)))"
  by (auto simp: route_laws_def sample_nl_def isOpErr_def split: if_splits)

lemma sample_setup: "fst (SetupRouting (sample_nl False) [] True sample_so) = None"
  "fst (SetupRouting (sample_nl True) [] True sample_so) \<noteq> None"
  "fst (CleanupRouting (sample_nl False) True (snd (SetupRouting (sample_nl False) [] True sample_so))) = []"
  by code_simp+

theorem SetupRouting_rules_witness:
  "\<exists>s'. SetupRouting (sample_nl False) [] True sample_so = (None, s') \<and>
     rule_of (sample_nl False) (getSetupRules (sample_nl False) ! 3) \<in> set (fst (so_world s'))"
proof -
  obtain s' where "SetupRouting (sample_nl False) [] True sample_so = (None, s')"
    using sample_setup(1) by (metis prod.collapse)
  moreover have "getSetupRules (sample_nl False) ! 3 \<in> set (getSetupRules (sample_nl False))"
    by (simp add: getSetupRules_def)
  ultimately show ?thesis
    using SetupRouting_rules [OF sample_nl_rule_laws] by blast
qed

theorem SetupRouting_failure_cleans_witness:
  "\<exists>e s'. SetupRouting (sample_nl True) [] True sample_so = (Some e, s') \<and>
     rule_of (sample_nl True) (getSetupRules (sample_nl True) ! 0) \<notin> set (fst (so_world s'))"
proof -
  obtain e s' where s': "SetupRouting (sample_nl True) [] True sample_so = (Some e, s')"
    using sample_setup(2) by (metis option.exhaust prod.collapse)
  have "\<forall>r w e w'. nl_RuleDel (sample_nl True) r w = (Some e, w') \<longrightarrow> errors_Is e (ErrSys ENOENT) \<or> isOpErr e"
    by (auto simp: sample_nl_def split: if_splits)
  moreover have "getSetupRules (sample_nl True) ! 0 \<in> set (getSetupRules (sample_nl True))"
    by (simp add: getSetupRules_def)
  ultimately show ?thesis
    using SetupRouting_failure_cleans [OF sample_nl_rule_laws s'] s' by blast
qed

theorem CleanupRouting_rules_witness:
  "\<exists>s'. CleanupRouting (sample_nl False) True (snd (SetupRouting (sample_nl False) [] True sample_so)) = ([], s') \<and>
     rule_of (sample_nl False) (getSetupRules (sample_nl False) ! 0) \<notin> set (fst (so_world s'))"
proof -
  let ?s = "snd (SetupRouting (sample_nl False) [] True sample_so)"
  obtain s' where s': "CleanupRouting (sample_nl False) True ?s = ([], s')"
    using sample_setup(3) by (metis prod.collapse)
  have "getSetupRules (sample_nl False) ! 0 \<in> set (getSetupRules (sample_nl False))"
    by (simp add: getSetupRules_def)
  then show ?thesis
    using CleanupRouting_rules [OF sample_nl_rule_laws s'] s' by blast
qed

theorem AddVPNRoute_RemoveVPNRoute_witness:
  "let E = sample_nl False; i = \<lparr>ni_Index = 7, ni_Name = ''wt0''\<rparr>; w = ([], [], []);
       w1 = snd (AddVPNRoute E Defaultv4 i w)
   in set (fst (snd w1)) \<noteq> {} \<and> set (fst (snd (snd (RemoveVPNRoute E Defaultv4 i w1)))) = {}"
proof -
  let ?E = "sample_nl False" and ?i = "\<lparr>ni_Index = 7, ni_Name = ''wt0''\<rparr>"
  let ?r = "AddVPNRoute ?E Defaultv4 ?i ([], [], [])"
  have ok: "fst ?r = None" "fst (RemoveVPNRoute ?E Defaultv4 ?i (snd ?r)) = None" "fst (snd (snd ?r)) \<noteq> []"
    by code_simp+
  have "nl_AdvancedRouting ?E" by (simp add: sample_nl_def)
  then have "set (fst (snd (snd (RemoveVPNRoute ?E Defaultv4 ?i (snd ?r))))) = set (fst (snd ([], [], [])))"
    using ok AddVPNRoute_RemoveVPNRoute [OF sample_nl_route_laws [of False], of "([], [], [])" Defaultv4 ?i
      "snd ?r" "snd (RemoveVPNRoute ?E Defaultv4 ?i (snd ?r))"]
    by (metis empty_set fst_conv inf_bot_left prod.collapse snd_conv)
  then show ?thesis using ok(3) by simp
qed

theorem route_prefix_parse_dst_witness:
  "\<exists>dst. parse_dst (Prefix (Addr4 0x0A010203) 16) = Inr dst \<and>
     route_prefix dst = Some (Prefix_Masked (Prefix (Addr4 0x0A010203) 16))"
  by (rule route_prefix_parse_dst) (simp add: valid_prefix4_def)

theorem addRoutingTableName_idem_witness:
  "\<exists>w'. addRoutingTableName (sample_nl False) ([], [], ''255 local'') = (None, w') \<and> snd (snd w') \<noteq> ''255 local'' \<and>
     addRoutingTableName (sample_nl False) w' = (None, w')"
proof -
  let ?w = "snd (addRoutingTableName (sample_nl False) ([], [], ''255 local''))"
  have "fst (addRoutingTableName (sample_nl False) ([], [], ''255 local'')) = None" "snd (snd ?w) \<noteq> ''255 local''"
    by code_simp+
  moreover from this(1) have a: "addRoutingTableName (sample_nl False) ([], [], ''255 local'') = (None, ?w)"
    by (metis prod.collapse)
  moreover have "addRoutingTableName (sample_nl False) ?w = (None, ?w)"
    by (rule addRoutingTableName_idem [OF _ a]) (auto simp: sample_nl_def)
  ultimately show ?thesis by blast
qed

end
