(* ===== verification/Route_Manager.thy ===== *)
theory Route_Manager
  imports System_Ops "HOL-Library.AList"
begin

text \<open>
  The route manager, \<^verbatim>\<open>go/internal/routemanager/manager.go\<close>: classifying the routes of a network map into
  server and client routes, keeping one active handler and one watcher per client network, following the exit-node
  selection of the management server, and setting up and tearing down the system routing.

  A Go map is an association list with distinct keys; its order stands for the iteration order Go picks, so a theorem
  for every list holds for every iteration order. Route handlers, watchers, the notifier, the server router, the route
  selector, the state file, the reference counters and name resolution are outside the repository: they are the
  fields of \<open>rm_env\<close> over a type \<open>'w\<close> of their states, while the system routing is the model of \<open>System_Ops\<close>
  over the kernel states \<open>'k\<close>. A method holds the manager's mutex for its whole run and is one function on the state.
  Indexing an empty slice (\<^verbatim>\<open>routes[0]\<close>) panics in Go and is the value \<open>None\<close> of the functions that index.

  The theorems: classification separates own from foreign networks and loses no supported route, an update leaves
  exactly the announced networks active, no update can panic, watchers never outlive their network, and a choice the
  user made is never overridden by the management server.
\<close>

section \<open>Data\<close>

record route =
  r_ID :: string
  r_Network :: prefix
  r_NetID :: string
  r_Peer :: string
  r_NetworkType :: int
  r_Domains :: "string list"
  r_Metric :: int
  r_Masquerade :: bool
  r_KeepRoute :: bool
  r_SkipAutoApply :: bool

type_synonym hamap = "(string \<times> route list) list"

record handler =
  h_Route :: route
  h_UseNewDNSRoute :: bool

record watcher =
  wt_Route :: route
  wt_Handler :: handler

record ('w, 'k) rm_env =
  GetHAUniqueID :: "route \<Rightarrow> string"
  HA_NetID :: "string \<Rightarrow> string"
  IsDynamic :: "route \<Rightarrow> bool"
  handler_AddRoute :: "handler \<Rightarrow> 'w \<Rightarrow> go_error option \<times> 'w"
  handler_RemoveRoute :: "handler \<Rightarrow> 'w \<Rightarrow> go_error option \<times> 'w"
  watcher_Start :: "string \<Rightarrow> watcher \<Rightarrow> 'w \<Rightarrow> 'w"
  watcher_SendUpdate :: "string \<Rightarrow> nat \<Rightarrow> route list \<Rightarrow> 'w \<Rightarrow> 'w"
  watcher_Stop :: "string \<Rightarrow> 'w \<Rightarrow> 'w"
  notifier_OnNewRoutes :: "hamap \<Rightarrow> 'w \<Rightarrow> 'w"
  server_NewRouter :: "'w \<Rightarrow> go_error option \<times> 'w"
  server_UpdateRoutes :: "(string \<times> route) list \<Rightarrow> bool \<Rightarrow> 'w \<Rightarrow> go_error option \<times> 'w"
  server_CleanUp :: "'w \<Rightarrow> 'w"
  FilterSelectedExitNodes :: "hamap \<Rightarrow> 'w \<Rightarrow> hamap"
  HasUserSelectionForRoute :: "string \<Rightarrow> 'w \<Rightarrow> bool"
  IsSelected :: "string \<Rightarrow> 'w \<Rightarrow> bool"
  DeselectRoutes :: "string list \<Rightarrow> string list \<Rightarrow> 'w \<Rightarrow> go_error option \<times> 'w"
  SelectRoutes :: "string list \<Rightarrow> bool \<Rightarrow> string list \<Rightarrow> 'w \<Rightarrow> go_error option \<times> 'w"
  state_RegisterState :: "'w \<Rightarrow> 'w"
  state_LoadState :: "'w \<Rightarrow> go_error option \<times> 'w"
  state_HasSelector :: "'w \<Rightarrow> bool"
  state_UpdateState :: "'w \<Rightarrow> go_error option \<times> 'w"
  selector_Restore :: "'w \<Rightarrow> 'w"
  selector_New :: "'w \<Rightarrow> 'w"
  routeRef_Flush :: "'w \<Rightarrow> 'k \<Rightarrow> go_error option \<times> 'w \<times> 'k"
  allowedRef_Flush :: "'w \<Rightarrow> go_error option \<times> 'w"
  url_Hostname :: "string \<Rightarrow> string result"
  LookupIP :: "string \<Rightarrow> goip list result"
  management_URL :: string
  signal_URL :: string
  relay_URLs :: "string list option"
  netstack_IsEnabled :: bool
  CustomRoutingDisabled :: bool
  MinRangeBits :: int
  rm_nl :: "'k nl_env"

record ('w, 'k) dm =
  dm_pubKey :: string
  dm_ctxDone :: bool
  dm_clientNetworks :: "(string \<times> watcher) list"
  dm_activeRoutes :: "(string \<times> handler) list"
  dm_clientRoutes :: hamap
  dm_useNewDNSRoute :: bool
  dm_disableClientRoutes :: bool
  dm_disableServerRoutes :: bool
  dm_serverRouter :: bool
  dm_firewall :: bool
  dm_dnsForwarderPort :: "32 word"
  dm_sysOps :: "'k so_state"
  dm_world :: 'w

section \<open>Classification\<close>

definition isRouteSupported :: "('w, 'k) rm_env \<Rightarrow> route \<Rightarrow> bool" where
  "isRouteSupported E r =
     (if netstack_IsEnabled E \<or> \<not> CustomRoutingDisabled E \<or> IsDynamic E r then True
      else \<not> pfx_Bits (r_Network r) \<le> MinRangeBits E)"

text \<open>\<^verbatim>\<open>m[k] = append(m[k], v)\<close>: extend the group of a key, or open it.\<close>

fun ha_append :: "string \<Rightarrow> 'a \<Rightarrow> (string \<times> 'a list) list \<Rightarrow> (string \<times> 'a list) list" where
  "ha_append k v [] = [(k, [v])]"
| "ha_append k v ((k', vs) # m) = (if k' = k then (k', vs @ [v]) # m else (k', vs) # ha_append k v m)"

definition own_ids :: "('w, 'k) rm_env \<Rightarrow> string \<Rightarrow> route list \<Rightarrow> string set" where
  "own_ids E pubKey rs = GetHAUniqueID E ` {r \<in> set rs. r_Peer r = pubKey}"

definition ClassifyRoutes ::
    "('w, 'k) rm_env \<Rightarrow> ('w, 'k) dm \<Rightarrow> route list \<Rightarrow> (string \<times> route) list \<times> hamap" where
  "ClassifyRoutes E m newRoutes =
     (fold (\<lambda>r acc. if r_Peer r = dm_pubKey m then AList.update (r_ID r) r acc else acc) newRoutes [],
      fold (\<lambda>r acc. if GetHAUniqueID E r \<in> own_ids E (dm_pubKey m) newRoutes then acc
                    else if \<not> isRouteSupported E r then acc
                    else ha_append (GetHAUniqueID E r) r acc) newRoutes [])"

definition initialClientRoutes :: "('w, 'k) rm_env \<Rightarrow> ('w, 'k) dm \<Rightarrow> route list \<Rightarrow> route list" where
  "initialClientRoutes E m initial = concat (map snd (snd (ClassifyRoutes E m initial)))"

text \<open>
  \<^verbatim>\<open>setupAndroidRoutes\<close>: the routes given to the notifier and the routes it compares later ones with. The fake address
  block and the fresh identifier come from outside the repository.
\<close>

definition setupAndroidRoutes ::
    "('w, 'k) rm_env \<Rightarrow> ('w, 'k) dm \<Rightarrow> route list \<Rightarrow> bool \<Rightarrow> string \<Rightarrow> prefix \<Rightarrow> route list \<times> route list" where
  "setupAndroidRoutes E m initial dnsFeatureFlag ident fakeBlock =
     (let cr = initialClientRoutes E m initial in
      (if dnsFeatureFlag
       then cr @ [\<lparr>r_ID = ident, r_Network = fakeBlock, r_NetID = ident, r_Peer = dm_pubKey m,
                   r_NetworkType = 1, r_Domains = [], r_Metric = 0, r_Masquerade = False, r_KeepRoute = False,
                   r_SkipAutoApply = False\<rparr>]
       else cr, cr))"

section \<open>Reference counters\<close>

definition ErrIgnore :: go_error where "ErrIgnore = ErrSentinel ''ignore''"

text \<open>The callbacks the manager gives to its two reference counters (\<^verbatim>\<open>setupRefCounters\<close>).\<close>

definition routeRef_add ::
    "('w, 'k) rm_env \<Rightarrow> bool \<Rightarrow> prefix \<Rightarrow> net_interface \<Rightarrow> 'k \<Rightarrow> go_error option \<times> 'k" where
  "routeRef_add E useNoop p i k = (if useNoop then (Some ErrIgnore, k) else AddVPNRoute (rm_nl E) p i k)"

definition routeRef_remove ::
    "('w, 'k) rm_env \<Rightarrow> bool \<Rightarrow> prefix \<Rightarrow> net_interface \<Rightarrow> 'k \<Rightarrow> go_error option \<times> 'k" where
  "routeRef_remove E useNoop p i k = (if useNoop then (None, k) else RemoveVPNRoute (rm_nl E) p i k)"

definition allowedRef_add :: "('d, 'f) wgiface \<Rightarrow> prefix \<Rightarrow> string \<Rightarrow> 'd \<Rightarrow> (string \<times> go_error option) \<times> 'd" where
  "allowedRef_add i p peerKey d = (case iface_AddAllowedIP i peerKey p d of (r, d') \<Rightarrow> ((peerKey, r), d'))"

definition allowedRef_remove :: "('d, 'f) wgiface \<Rightarrow> prefix \<Rightarrow> string \<Rightarrow> 'd \<Rightarrow> go_error option \<times> 'd" where
  "allowedRef_remove i p peerKey d =
     (case iface_RemoveAllowedIP i peerKey p d of
        (None, d') \<Rightarrow> (None, d')
      | (Some e, d') \<Rightarrow> (if \<not> errors_Is e ErrPeerNotFound \<and> \<not> errors_Is e ErrAllowedIPNotFound
                         then (Some e, d') else (None, d')))"

section \<open>Start and stop\<close>

definition NewManager :: "string \<Rightarrow> bool \<Rightarrow> bool \<Rightarrow> 'k so_state \<Rightarrow> 'w \<Rightarrow> 32 word \<Rightarrow> ('w, 'k) dm" where
  "NewManager pubKey disableClient disableServer so w forwarderPort =
     \<lparr>dm_pubKey = pubKey, dm_ctxDone = False, dm_clientNetworks = [], dm_activeRoutes = [], dm_clientRoutes = [],
      dm_useNewDNSRoute = False, dm_disableClientRoutes = disableClient, dm_disableServerRoutes = disableServer,
      dm_serverRouter = False, dm_firewall = False, dm_dnsForwarderPort = forwarderPort, dm_sysOps = so, dm_world = w\<rparr>"

definition initSelector :: "('w, 'k) rm_env \<Rightarrow> 'w \<Rightarrow> 'w" where
  "initSelector E w =
     (case state_LoadState E (state_RegisterState E w) of
        (Some e, w1) \<Rightarrow> selector_New E w1
      | (None, w1) \<Rightarrow> (if state_HasSelector E w1 then selector_Restore E w1 else selector_New E w1))"

definition resolveURLsToIPs :: "('w, 'k) rm_env \<Rightarrow> string list \<Rightarrow> goip list" where
  "resolveURLsToIPs E urls = concat (map (\<lambda>u. case url_Hostname E u of
     Inl _ \<Rightarrow> [] | Inr h \<Rightarrow> (case LookupIP E h of Inl _ \<Rightarrow> [] | Inr ips \<Rightarrow> ips)) urls)"

definition rm_Init :: "('w, 'k) rm_env \<Rightarrow> ('w, 'k) dm \<Rightarrow> go_error option \<times> ('w, 'k) dm" where
  "rm_Init E m =
     (let m1 = m\<lparr>dm_world := initSelector E (dm_world m)\<rparr>; adv = nl_AdvancedRouting (rm_nl E) in
      if CustomRoutingDisabled E \<or> dm_disableClientRoutes m1 then (None, m1)
      else
        let so1 = snd (CleanupRouting (rm_nl E) adv (dm_sysOps m1));
            urls = [management_URL E, signal_URL E] @ (case relay_URLs E of None \<Rightarrow> [] | Some us \<Rightarrow> us)
        in (case SetupRouting (rm_nl E) (resolveURLsToIPs E urls) adv so1 of
              (Some e, so2) \<Rightarrow> (Some (ErrWrap ''setup routing'' e), m1\<lparr>dm_sysOps := so2\<rparr>)
            | (None, so2) \<Rightarrow> (None, m1\<lparr>dm_sysOps := so2\<rparr>)))"

definition SetFirewall :: "('w, 'k) rm_env \<Rightarrow> bool \<Rightarrow> ('w, 'k) dm \<Rightarrow> go_error option \<times> ('w, 'k) dm" where
  "SetFirewall E present m =
     (let m1 = m\<lparr>dm_firewall := present\<rparr> in
      if dm_disableServerRoutes m1 \<or> \<not> present then (None, m1)
      else (case server_NewRouter E (dm_world m1) of
              (Some e, w) \<Rightarrow> (Some e, m1\<lparr>dm_serverRouter := False, dm_world := w\<rparr>)
            | (None, w) \<Rightarrow> (None, m1\<lparr>dm_serverRouter := True, dm_world := w\<rparr>)))"

definition SetDNSForwarderPort :: "16 word \<Rightarrow> ('w, 'k) dm \<Rightarrow> ('w, 'k) dm" where
  "SetDNSForwarderPort port m = m\<lparr>dm_dnsForwarderPort := ucast port\<rparr>"

definition rm_Stop :: "('w, 'k) rm_env \<Rightarrow> ('w, 'k) dm \<Rightarrow> ('w, 'k) dm" where
  "rm_Stop E m =
     (let w0 = (if dm_serverRouter m then server_CleanUp E (dm_world m) else dm_world m);
          (_, w1, k1) = routeRef_Flush E w0 (so_world (dm_sysOps m));
          (_, w2) = allowedRef_Flush E w1;
          so1 = (dm_sysOps m)\<lparr>so_world := k1\<rparr>;
          so2 = (if \<not> CustomRoutingDisabled E \<and> \<not> dm_disableClientRoutes m
                 then snd (CleanupRouting (rm_nl E) (nl_AdvancedRouting (rm_nl E)) so1) else so1)
      in m\<lparr>dm_ctxDone := True, dm_world := w2, dm_sysOps := so2, dm_clientRoutes := []\<rparr>)"

section \<open>System routes\<close>

definition routes_to_add :: "hamap \<Rightarrow> (string \<times> handler) list \<Rightarrow> (string \<times> route) list" where
  "routes_to_add newRoutes active =
     map (\<lambda>(k, rs). (k, hd rs)) (filter (\<lambda>(k, rs). rs \<noteq> [] \<and> k \<notin> fst ` set active) newRoutes)"

definition routes_to_remove :: "hamap \<Rightarrow> (string \<times> handler) list \<Rightarrow> (string \<times> handler) list" where
  "routes_to_remove newRoutes active =
     filter (\<lambda>(k, h). \<not> list_ex (\<lambda>(k', rs). k' = k \<and> rs \<noteq> []) newRoutes) active"

fun remove_loop ::
    "('w, 'k) rm_env \<Rightarrow> (string \<times> handler) list \<Rightarrow> ('w, 'k) dm \<Rightarrow> go_error list \<times> ('w, 'k) dm" where
  "remove_loop E [] m = ([], m)"
| "remove_loop E ((k, h) # ks) m =
     (case handler_RemoveRoute E h (dm_world m) of (r, w) \<Rightarrow>
      (case remove_loop E ks (m\<lparr>dm_world := w, dm_activeRoutes := AList.delete k (dm_activeRoutes m)\<rparr>) of
         (es, m') \<Rightarrow> (collect_err ''remove route'' r @ es, m')))"

fun add_loop ::
    "('w, 'k) rm_env \<Rightarrow> (string \<times> route) list \<Rightarrow> ('w, 'k) dm \<Rightarrow> go_error list \<times> ('w, 'k) dm" where
  "add_loop E [] m = ([], m)"
| "add_loop E ((k, r) # ks) m =
     (let h = \<lparr>h_Route = r, h_UseNewDNSRoute = dm_useNewDNSRoute m\<rparr> in
      case handler_AddRoute E h (dm_world m) of
        (Some e, w) \<Rightarrow> (case add_loop E ks (m\<lparr>dm_world := w\<rparr>) of (es, m') \<Rightarrow> (ErrWrap ''add route'' e # es, m'))
      | (None, w) \<Rightarrow> add_loop E ks (m\<lparr>dm_world := w, dm_activeRoutes := AList.update k h (dm_activeRoutes m)\<rparr>))"

definition updateSystemRoutes ::
    "('w, 'k) rm_env \<Rightarrow> hamap \<Rightarrow> ('w, 'k) dm \<Rightarrow> go_error list \<times> ('w, 'k) dm" where
  "updateSystemRoutes E newRoutes m =
     (case remove_loop E (routes_to_remove newRoutes (dm_activeRoutes m)) m of (e1, m1) \<Rightarrow>
      (case add_loop E (routes_to_add newRoutes (dm_activeRoutes m)) m1 of (e2, m2) \<Rightarrow> (e1 @ e2, m2)))"

section \<open>Watchers\<close>

fun stop_loop :: "('w, 'k) rm_env \<Rightarrow> hamap \<Rightarrow> (string \<times> watcher) list \<Rightarrow> 'w \<Rightarrow> (string \<times> watcher) list \<times> 'w" where
  "stop_loop E networks [] w = ([], w)"
| "stop_loop E networks ((k, x) # ks) w =
     (if k \<notin> fst ` set networks then stop_loop E networks ks (watcher_Stop E k w)
      else (case stop_loop E networks ks w of (ks', w') \<Rightarrow> ((k, x) # ks', w')))"

definition stopObsoleteClients :: "('w, 'k) rm_env \<Rightarrow> hamap \<Rightarrow> ('w, 'k) dm \<Rightarrow> ('w, 'k) dm" where
  "stopObsoleteClients E networks m =
     (case stop_loop E networks (dm_clientNetworks m) (dm_world m) of
        (ks, w) \<Rightarrow> m\<lparr>dm_clientNetworks := ks, dm_world := w\<rparr>)"

text \<open>Create the watcher of a network; \<^verbatim>\<open>routes[0]\<close> panics on an empty group.\<close>

definition start_watcher ::
    "('w, 'k) rm_env \<Rightarrow> string \<Rightarrow> route list \<Rightarrow> handler \<Rightarrow> ('w, 'k) dm \<Rightarrow> ('w, 'k) dm option" where
  "start_watcher E k rs h m =
     (case rs of
        [] \<Rightarrow> None
      | r # _ \<Rightarrow> (let x = \<lparr>wt_Route = r, wt_Handler = h\<rparr> in
          Some (m\<lparr>dm_clientNetworks := AList.update k x (dm_clientNetworks m),
                  dm_world := watcher_Start E k x (dm_world m)\<rparr>)))"

definition send_update :: "('w, 'k) rm_env \<Rightarrow> string \<Rightarrow> nat \<Rightarrow> route list \<Rightarrow> ('w, 'k) dm \<Rightarrow> ('w, 'k) dm" where
  "send_update E k serial rs m = m\<lparr>dm_world := watcher_SendUpdate E k serial rs (dm_world m)\<rparr>"

fun client_loop :: "('w, 'k) rm_env \<Rightarrow> nat \<Rightarrow> hamap \<Rightarrow> ('w, 'k) dm \<Rightarrow> ('w, 'k) dm option" where
  "client_loop E serial [] m = Some m"
| "client_loop E serial ((k, rs) # ks) m =
     (case map_of (dm_clientNetworks m) k of
        Some _ \<Rightarrow> client_loop E serial ks (send_update E k serial rs m)
      | None \<Rightarrow>
          (case map_of (dm_activeRoutes m) k of
             None \<Rightarrow> client_loop E serial ks m
           | Some h \<Rightarrow> Option.bind (start_watcher E k rs h m) (\<lambda>m1.
                         client_loop E serial ks (send_update E k serial rs m1))))"

definition updateClientNetworks ::
    "('w, 'k) rm_env \<Rightarrow> nat \<Rightarrow> hamap \<Rightarrow> ('w, 'k) dm \<Rightarrow> ('w, 'k) dm option" where
  "updateClientNetworks E serial networks m = client_loop E serial networks (stopObsoleteClients E networks m)"

text \<open>The loop of \<^verbatim>\<open>TriggerSelection\<close>: existing watchers are left alone, new ones get one update.\<close>

fun selection_loop :: "('w, 'k) rm_env \<Rightarrow> hamap \<Rightarrow> ('w, 'k) dm \<Rightarrow> ('w, 'k) dm option" where
  "selection_loop E [] m = Some m"
| "selection_loop E ((k, rs) # ks) m =
     (case map_of (dm_clientNetworks m) k of
        Some _ \<Rightarrow> selection_loop E ks m
      | None \<Rightarrow>
          (case map_of (dm_activeRoutes m) k of
             None \<Rightarrow> selection_loop E ks m
           | Some h \<Rightarrow> Option.bind (start_watcher E k rs h m) (\<lambda>m1.
                         selection_loop E ks (send_update E k 0 rs m1))))"

definition TriggerSelection :: "('w, 'k) rm_env \<Rightarrow> hamap \<Rightarrow> ('w, 'k) dm \<Rightarrow> ('w, 'k) dm option" where
  "TriggerSelection E networks0 m =
     (let networks = FilterSelectedExitNodes E networks0 (dm_world m);
          m1 = m\<lparr>dm_world := notifier_OnNewRoutes E networks (dm_world m)\<rparr>;
          m2 = snd (updateSystemRoutes E networks m1);
          m3 = stopObsoleteClients E networks m2
      in map_option (\<lambda>m4. m4\<lparr>dm_world := snd (state_UpdateState E (dm_world m4))\<rparr>) (selection_loop E networks m3))"

section \<open>Exit nodes\<close>

record exitNodeInfo =
  en_allIDs :: "string list"
  en_selectedByManagement :: "string list"
  en_userSelected :: "string list"
  en_userDeselected :: "string list"

definition ExitNodeCIDR :: string where "ExitNodeCIDR = ''0.0.0.0/0''"

definition isExitNodeRoute :: "route list \<Rightarrow> bool" where
  "isExitNodeRoute rs = (rs \<noteq> [] \<and> Prefix_String (r_Network (hd rs)) = ExitNodeCIDR)"

definition categorizeUserSelection :: "('w, 'k) rm_env \<Rightarrow> 'w \<Rightarrow> string \<Rightarrow> exitNodeInfo \<Rightarrow> exitNodeInfo" where
  "categorizeUserSelection E w netID info =
     (if IsSelected E netID w then info\<lparr>en_userSelected := en_userSelected info @ [netID]\<rparr>
      else info\<lparr>en_userDeselected := en_userDeselected info @ [netID]\<rparr>)"

definition checkManagementSelection :: "route list \<Rightarrow> string \<Rightarrow> exitNodeInfo \<Rightarrow> exitNodeInfo" where
  "checkManagementSelection rs netID info =
     (if list_ex (\<lambda>r. \<not> r_SkipAutoApply r) rs
      then info\<lparr>en_selectedByManagement := en_selectedByManagement info @ [netID]\<rparr> else info)"

definition collectExitNodeInfo :: "('w, 'k) rm_env \<Rightarrow> 'w \<Rightarrow> hamap \<Rightarrow> exitNodeInfo" where
  "collectExitNodeInfo E w clientRoutes =
     fold (\<lambda>(haID, rs) info.
             if \<not> isExitNodeRoute rs then info
             else let netID = HA_NetID E haID; info1 = info\<lparr>en_allIDs := en_allIDs info @ [netID]\<rparr> in
               if HasUserSelectionForRoute E netID w then categorizeUserSelection E w netID info1
               else checkManagementSelection rs netID info1)
       clientRoutes \<lparr>en_allIDs = [], en_selectedByManagement = [], en_userSelected = [], en_userDeselected = []\<rparr>"

definition getRoutesToDeselect :: "('w, 'k) rm_env \<Rightarrow> 'w \<Rightarrow> string list \<Rightarrow> string list" where
  "getRoutesToDeselect E w allIDs = filter (\<lambda>n. \<not> HasUserSelectionForRoute E n w) allIDs"

definition deselectExitNodes :: "('w, 'k) rm_env \<Rightarrow> string list \<Rightarrow> 'w \<Rightarrow> 'w" where
  "deselectExitNodes E ids w = (if ids = [] then w else snd (DeselectRoutes E ids ids w))"

definition selectExitNodesByManagement :: "('w, 'k) rm_env \<Rightarrow> string list \<Rightarrow> string list \<Rightarrow> 'w \<Rightarrow> 'w" where
  "selectExitNodesByManagement E ids allIDs w = (if ids = [] then w else snd (SelectRoutes E ids True allIDs w))"

definition updateExitNodeSelections :: "('w, 'k) rm_env \<Rightarrow> exitNodeInfo \<Rightarrow> 'w \<Rightarrow> 'w" where
  "updateExitNodeSelections E info w =
     selectExitNodesByManagement E (en_selectedByManagement info) (en_allIDs info)
       (deselectExitNodes E (getRoutesToDeselect E w (en_allIDs info)) w)"

definition updateRouteSelectorFromManagement :: "('w, 'k) rm_env \<Rightarrow> hamap \<Rightarrow> 'w \<Rightarrow> 'w" where
  "updateRouteSelectorFromManagement E clientRoutes w =
     (let info = collectExitNodeInfo E w clientRoutes in
      if en_allIDs info = [] then w else updateExitNodeSelections E info w)"

section \<open>Updating\<close>

definition UpdateRoutes ::
    "('w, 'k) rm_env \<Rightarrow> nat \<Rightarrow> (string \<times> route) list \<Rightarrow> hamap \<Rightarrow> bool \<Rightarrow> ('w, 'k) dm
     \<Rightarrow> (go_error list \<times> ('w, 'k) dm) option" where
  "UpdateRoutes E serial serverRoutes clientRoutes useNewDNSRoute m =
     (if dm_ctxDone m then Some ([], m)
      else
        let m0 = m\<lparr>dm_useNewDNSRoute := useNewDNSRoute\<rparr> in
        Option.bind
          (if dm_disableClientRoutes m0 then Some ([], m0)
           else
             let m1 = m0\<lparr>dm_world := updateRouteSelectorFromManagement E clientRoutes (dm_world m0)\<rparr>;
                 filtered = FilterSelectedExitNodes E clientRoutes (dm_world m1);
                 (es, m2) = updateSystemRoutes E filtered m1
             in map_option (\<lambda>m3. (multi_err ''update system routes'' es,
                                  m3\<lparr>dm_world := notifier_OnNewRoutes E filtered (dm_world m3)\<rparr>))
                  (updateClientNetworks E serial filtered m2))
          (\<lambda>(es, m4). let m5 = m4\<lparr>dm_clientRoutes := clientRoutes\<rparr> in
             if \<not> dm_serverRouter m5 then Some (es, m5)
             else (case server_UpdateRoutes E serverRoutes useNewDNSRoute (dm_world m5) of
                     (r, w) \<Rightarrow> Some (es @ collect_err ''update server routes'' r, m5\<lparr>dm_world := w\<rparr>))))"

definition GetClientRoutes :: "('w, 'k) dm \<Rightarrow> hamap" where
  "GetClientRoutes m = dm_clientRoutes m"

definition GetClientRoutesWithNetID :: "('w, 'k) rm_env \<Rightarrow> ('w, 'k) dm \<Rightarrow> hamap" where
  "GetClientRoutesWithNetID E m = fold (\<lambda>(k, rs) acc. AList.update (HA_NetID E k) rs acc) (dm_clientRoutes m) []"

section \<open>Classification\<close>

lemma map_fst_ha_append: "map fst (ha_append k v m) = map fst m @ (if k \<in> fst ` set m then [] else [k])"
  by (induction k v m rule: ha_append.induct) simp_all

lemma ha_append_distinct: "distinct (map fst m) \<Longrightarrow> distinct (map fst (ha_append k v m))"
  by (simp add: map_fst_ha_append)

definition ha_get :: "(string \<times> 'a list) list \<Rightarrow> string \<Rightarrow> 'a list" where
  "ha_get m k = (case map_of m k of None \<Rightarrow> [] | Some vs \<Rightarrow> vs)"

lemma ha_get_append: "ha_get (ha_append k v m) k' = (if k' = k then ha_get m k @ [v] else ha_get m k')"
  by (induction k v m rule: ha_append.induct) (auto simp: ha_get_def)

lemma ha_append_nonempty: "[] \<notin> snd ` set m \<Longrightarrow> [] \<notin> snd ` set (ha_append k v m)"
  by (induction k v m rule: ha_append.induct) (auto simp: image_iff)

lemma fold_ha_append:
  assumes "distinct (map fst m)" and "[] \<notin> snd ` set m"
  shows "distinct (map fst (fold (\<lambda>r acc. if P r then acc else if Q r then acc else ha_append (f r) r acc) rs m)) \<and>
    [] \<notin> snd ` set (fold (\<lambda>r acc. if P r then acc else if Q r then acc else ha_append (f r) r acc) rs m) \<and>
    ha_get (fold (\<lambda>r acc. if P r then acc else if Q r then acc else ha_append (f r) r acc) rs m) k =
      ha_get m k @ filter (\<lambda>r. \<not> P r \<and> \<not> Q r \<and> f r = k) rs"
  using assms
proof (induction rs arbitrary: m)
  case (Cons r rs)
  show ?case
  proof (cases "P r \<or> Q r")
    case True
    then show ?thesis using Cons.IH [OF Cons.prems] by auto
  next
    case False
    then show ?thesis
      using Cons.IH [of "ha_append (f r) r m"] Cons.prems
      by (simp add: ha_append_distinct ha_append_nonempty ha_get_append)
  qed
qed simp

lemma fold_update_map:
  "map_of (fold (\<lambda>r acc. if P r then AList.update (f r) r acc else acc) rs m) =
     map_of m ++ map_of (rev (map (\<lambda>r. (f r, r)) (filter P rs)))"
  by (induction rs arbitrary: m) (simp_all add: AList.update_conv' )

lemma map_of_ha_get:
  assumes "[] \<notin> snd ` set m"
  shows "map_of m k = (if ha_get m k = [] then None else Some (ha_get m k))"
proof (cases "map_of m k")
  case (Some vs)
  then have "(k, vs) \<in> set m" by (rule map_of_SomeD)
  then have "vs \<noteq> []" using assms by force
  with Some show ?thesis by (simp add: ha_get_def)
qed (simp add: ha_get_def)

definition client_group :: "('w, 'k) rm_env \<Rightarrow> string \<Rightarrow> route list \<Rightarrow> string \<Rightarrow> route list" where
  "client_group E pubKey rs k =
     (if k \<in> own_ids E pubKey rs then [] else filter (\<lambda>r. GetHAUniqueID E r = k \<and> isRouteSupported E r) rs)"

text \<open>\<^verbatim>\<open>ClassifyRoutes\<close> loses nothing and mixes nothing up: a client group holds, in order, exactly the supported routes of
  its high-availability identifier, no group is empty, a network this peer serves itself is never a client network, and
  the server routes are the routes announced by this peer, the last one for each identifier.\<close>

theorem ClassifyRoutes_spec:
  "distinct (map fst (snd (ClassifyRoutes E m rs))) \<and>
   map_of (snd (ClassifyRoutes E m rs)) k =
     (if client_group E (dm_pubKey m) rs k = [] then None else Some (client_group E (dm_pubKey m) rs k)) \<and>
   map_of (fst (ClassifyRoutes E m rs)) =
     map_of (rev (map (\<lambda>r. (r_ID r, r)) (filter (\<lambda>r. r_Peer r = dm_pubKey m) rs)))"
proof -
  let ?P = "\<lambda>r. GetHAUniqueID E r \<in> own_ids E (dm_pubKey m) rs" and ?Q = "\<lambda>r. \<not> isRouteSupported E r"
  let ?c = "snd (ClassifyRoutes E m rs)"
  have "filter (\<lambda>r. \<not> ?P r \<and> \<not> ?Q r \<and> GetHAUniqueID E r = k) rs = client_group E (dm_pubKey m) rs k"
    by (auto simp: client_group_def intro!: filter_cong filter_False)
  then have c: "distinct (map fst ?c)" "[] \<notin> snd ` set ?c" "ha_get ?c k = client_group E (dm_pubKey m) rs k"
    using fold_ha_append [of "[]" ?P ?Q "GetHAUniqueID E" rs k]
    by (simp_all add: ClassifyRoutes_def ha_get_def)
  then show ?thesis
    by (simp add: map_of_ha_get [OF c(2)]) (simp add: ClassifyRoutes_def fold_update_map)
qed

section \<open>Active routes\<close>

definition active :: "('w, 'k) dm \<Rightarrow> string \<rightharpoonup> handler" where
  "active m = map_of (dm_activeRoutes m)"

lemma active_simps [simp]:
  "active (m\<lparr>dm_world := w\<rparr>) = active m"
  "active (m\<lparr>dm_world := w, dm_activeRoutes := AList.delete k (dm_activeRoutes m)\<rparr>) = (active m)(k := None)"
  "active (m\<lparr>dm_world := w, dm_activeRoutes := AList.update k h (dm_activeRoutes m)\<rparr>) = (active m)(k \<mapsto> h)"
  by (simp_all add: active_def AList.delete_conv' AList.update_conv')

lemma remove_loop_active: "active (snd (remove_loop E ks m)) = (active m) |` (- fst ` set ks)"
proof (induction E ks m rule: remove_loop.induct)
  case (2 E k h ks m)
  obtain r w where w: "handler_RemoveRoute E h (dm_world m) = (r, w)" by fastforce
  let ?m = "m\<lparr>dm_world := w, dm_activeRoutes := AList.delete k (dm_activeRoutes m)\<rparr>"
  have step: "snd (remove_loop E ((k, h) # ks) m) = snd (remove_loop E ks ?m)" by (simp add: w split: prod.splits)
  have "((active m)(k := None)) |` (- fst ` set ks) = active m |` (- fst ` set ((k, h) # ks))"
    by (rule ext) (simp add: restrict_map_def)
  then show ?case unfolding step using 2 [OF w [symmetric]] by (simp only: active_simps)
qed simp

lemma add_loop_active:
  assumes "distinct (map fst ks)" and "fst ` set ks \<inter> dom (active m) = {}"
  shows "active m \<subseteq>\<^sub>m active (snd (add_loop E ks m)) \<and>
    dom (active (snd (add_loop E ks m))) \<subseteq> dom (active m) \<union> fst ` set ks \<and>
    (fst (add_loop E ks m) = [] \<longrightarrow> fst ` set ks \<subseteq> dom (active (snd (add_loop E ks m))))"
  using assms
proof (induction ks arbitrary: m)
  case (Cons a ks)
  obtain k r where a: "a = (k, r)" by (cases a)
  let ?h = "\<lparr>h_Route = r, h_UseNewDNSRoute = dm_useNewDNSRoute m\<rparr>"
  obtain q w where w: "handler_AddRoute E ?h (dm_world m) = (q, w)" by fastforce
  have fresh: "k \<notin> dom (active m)" "k \<notin> fst ` set ks" "distinct (map fst ks)"
    "fst ` set ks \<inter> dom (active m) = {}" using Cons.prems by (auto simp: a)
  show ?case
  proof (cases q)
    case (Some e)
    have "add_loop E (a # ks) m = (ErrWrap ''add route'' e # fst (add_loop E ks (m\<lparr>dm_world := w\<rparr>)),
        snd (add_loop E ks (m\<lparr>dm_world := w\<rparr>)))"
      by (simp add: a w Some split: prod.splits)
    then show ?thesis using Cons.IH [of "m\<lparr>dm_world := w\<rparr>"] fresh by auto
  next
    case None
    let ?m = "m\<lparr>dm_world := w, dm_activeRoutes := AList.update k ?h (dm_activeRoutes m)\<rparr>"
    have step: "add_loop E (a # ks) m = add_loop E ks ?m" by (simp add: a w None)
    have pre: "fst ` set ks \<inter> dom (active ?m) = {}" using fresh by auto
    have IH: "active ?m \<subseteq>\<^sub>m active (snd (add_loop E ks ?m))"
      "dom (active (snd (add_loop E ks ?m))) \<subseteq> dom (active ?m) \<union> fst ` set ks"
      "fst (add_loop E ks ?m) = [] \<longrightarrow> fst ` set ks \<subseteq> dom (active (snd (add_loop E ks ?m)))"
      using Cons.IH [OF fresh(3) pre] by blast+
    have "active m \<subseteq>\<^sub>m active ?m" using fresh(1) by (auto simp: map_le_def)
    then have le: "active m \<subseteq>\<^sub>m active (snd (add_loop E ks ?m))" using IH(1) by (rule map_le_trans)
    have k: "k \<in> dom (active (snd (add_loop E ks ?m)))"
      using map_le_implies_dom_le [OF IH(1)] by (rule subsetD) simp
    have ins: "dom (active ?m) = insert k (dom (active m))" "fst ` set (a # ks) = insert k (fst ` set ks)"
      by (simp_all add: a)
    show ?thesis unfolding step ins(2)
    proof (intro conjI impI)
      show "dom (active (snd (add_loop E ks ?m))) \<subseteq> dom (active m) \<union> insert k (fst ` set ks)"
        using IH(2) unfolding ins(1) by simp
    next
      assume "fst (add_loop E ks ?m) = []"
      with IH(3) k show "insert k (fst ` set ks) \<subseteq> dom (active (snd (add_loop E ks ?m)))" by simp
    qed (rule le)
  qed
qed simp

definition announced :: "hamap \<Rightarrow> string set" where
  "announced nets = fst ` {x \<in> set nets. snd x \<noteq> []}"

theorem updateSystemRoutes_active:
  assumes "distinct (map fst nets)" and "updateSystemRoutes E nets m = (es, m')"
  shows "dom (active m') \<subseteq> announced nets \<and> (es = [] \<longrightarrow> dom (active m') = announced nets) \<and>
    active m |` announced nets \<subseteq>\<^sub>m active m'"
proof -
  let ?rm = "routes_to_remove nets (dm_activeRoutes m)" and ?add = "routes_to_add nets (dm_activeRoutes m)"
  obtain e1 m1 where 1: "remove_loop E ?rm m = (e1, m1)" by fastforce
  obtain e2 where 2: "add_loop E ?add m1 = (e2, m')" "es = e1 @ e2"
    using assms(2) by (auto simp: updateSystemRoutes_def 1 split: prod.splits)
  have dom: "dom (active m) = fst ` set (dm_activeRoutes m)" by (simp add: active_def dom_map_of_conv_image_fst)
  have rm: "fst ` set ?rm = dom (active m) - announced nets"
    unfolding dom routes_to_remove_def announced_def list_ex_iff by force
  have add: "fst ` set ?add = announced nets - dom (active m)"
    unfolding dom routes_to_add_def announced_def by force
  have act1: "active m1 = active m |` announced nets"
    using remove_loop_active [of E ?rm m] by (auto simp: 1 rm restrict_map_def fun_eq_iff domIff)
  have "map fst ?add = map fst (filter (\<lambda>(k, rs). rs \<noteq> [] \<and> k \<notin> fst ` set (dm_activeRoutes m)) nets)"
    by (simp add: routes_to_add_def split_def)
  then have "distinct (map fst ?add)" using assms(1) by (simp add: distinct_map_filter)
  moreover have "fst ` set ?add \<inter> dom (active m1) = {}" by (auto simp: add act1)
  ultimately have loop: "active m1 \<subseteq>\<^sub>m active m'" "dom (active m') \<subseteq> dom (active m1) \<union> fst ` set ?add"
    "e2 = [] \<Longrightarrow> fst ` set ?add \<subseteq> dom (active m')"
    using add_loop_active [of ?add m1 E] 2(1) by simp_all
  have "dom (active m1) = dom (active m) \<inter> announced nets" by (simp add: act1)
  then show ?thesis
    using loop 2(2) map_le_implies_dom_le [OF loop(1)] unfolding add act1 [symmetric] by blast
qed

section \<open>Watchers\<close>

definition watchers :: "('w, 'k) dm \<Rightarrow> string \<rightharpoonup> watcher" where
  "watchers m = map_of (dm_clientNetworks m)"

lemma stop_loop_kept: "fst (stop_loop E nets ks w) = filter (\<lambda>x. fst x \<in> fst ` set nets) ks"
proof (induction ks arbitrary: w)
  case (Cons x ks)
  then show ?case by (cases x) (simp add: split_def)
qed simp

lemma stopObsoleteClients_simps [simp]:
  "active (stopObsoleteClients E nets m) = active m"
  "dom (watchers (stopObsoleteClients E nets m)) = dom (watchers m) \<inter> fst ` set nets"
proof -
  have "dom (map_of (filter (\<lambda>x. fst x \<in> A) ks)) = dom (map_of ks) \<inter> A" for A and ks :: "(string \<times> watcher) list"
    by (force simp: dom_map_of_conv_image_fst)
  then show "dom (watchers (stopObsoleteClients E nets m)) = dom (watchers m) \<inter> fst ` set nets"
    by (simp add: stopObsoleteClients_def watchers_def split_def stop_loop_kept)
qed (simp add: stopObsoleteClients_def active_def split: prod.splits)

lemma send_update_simps [simp]:
  "active (send_update E k n rs m) = active m" "watchers (send_update E k n rs m) = watchers m"
  by (simp_all add: send_update_def active_def watchers_def)

lemma start_watcher_Some:
  assumes "rs \<noteq> []"
  shows "\<exists>m' x. start_watcher E k rs h m = Some m' \<and> active m' = active m \<and> watchers m' = (watchers m)(k \<mapsto> x)"
  using assms by (cases rs) (auto simp: start_watcher_def Let_def active_def watchers_def AList.update_conv')

text \<open>Groups that have an active handler are not empty.\<close>

definition no_empty_active :: "hamap \<Rightarrow> ('w, 'k) dm \<Rightarrow> bool" where
  "no_empty_active nets m = (\<forall>(k, rs) \<in> set nets. rs = [] \<longrightarrow> active m k = None)"

lemma client_loop_Some:
  assumes "no_empty_active ks m"
  shows "\<exists>m'. client_loop E n ks m = Some m' \<and> active m' = active m \<and>
     dom (watchers m') = dom (watchers m) \<union> (fst ` set ks \<inter> dom (active m))"
  using assms
proof (induction ks arbitrary: m)
  case (Cons a ks)
  obtain k rs where a: "a = (k, rs)" by (cases a)
  have step: "\<exists>m1. client_loop E n (a # ks) m = client_loop E n ks m1 \<and> active m1 = active m \<and>
      dom (watchers m1) = dom (watchers m) \<union> ({k} \<inter> dom (active m))"
  proof (cases "watchers m k")
    case (Some x)
    then show ?thesis
      by (intro exI [of _ "send_update E k n rs m"]) (auto simp: a watchers_def [symmetric])
  next
    case w: None
    show ?thesis
    proof (cases "active m k")
      case None
      then show ?thesis using w by (intro exI [of _ m]) (auto simp: a watchers_def active_def)
    next
      case (Some h)
      then have "rs \<noteq> []" using Cons.prems by (auto simp: a no_empty_active_def)
      then obtain m' x where m': "start_watcher E k rs h m = Some m'" "active m' = active m"
          "watchers m' = (watchers m)(k \<mapsto> x)"
        using start_watcher_Some by blast
      then show ?thesis using w Some
        by (intro exI [of _ "send_update E k n rs m'"]) (auto simp: a watchers_def [symmetric] active_def [symmetric])
    qed
  qed
  then obtain m1 where m1: "client_loop E n (a # ks) m = client_loop E n ks m1" "active m1 = active m"
      "dom (watchers m1) = dom (watchers m) \<union> ({k} \<inter> dom (active m))" by blast
  have "no_empty_active ks m1" using Cons.prems m1(2) by (simp add: no_empty_active_def)
  from Cons.IH [OF this] show ?case unfolding m1 by (auto simp: a)
qed simp

lemma selection_loop_Some:
  assumes "no_empty_active ks m"
  shows "\<exists>m'. selection_loop E ks m = Some m' \<and> active m' = active m \<and>
     dom (watchers m') = dom (watchers m) \<union> (fst ` set ks \<inter> dom (active m))"
  using assms
proof (induction ks arbitrary: m)
  case (Cons a ks)
  obtain k rs where a: "a = (k, rs)" by (cases a)
  have step: "\<exists>m1. selection_loop E (a # ks) m = selection_loop E ks m1 \<and> active m1 = active m \<and>
      dom (watchers m1) = dom (watchers m) \<union> ({k} \<inter> dom (active m))"
  proof (cases "watchers m k = None \<and> active m k \<noteq> None")
    case False
    then show ?thesis by (intro exI [of _ m]) (auto simp: a watchers_def active_def split: option.splits)
  next
    case True
    then obtain h where h: "active m k = Some h" "watchers m k = None" by auto
    then have "rs \<noteq> []" using Cons.prems by (auto simp: a no_empty_active_def)
    then obtain m' x where m': "start_watcher E k rs h m = Some m'" "active m' = active m"
        "watchers m' = (watchers m)(k \<mapsto> x)"
      using start_watcher_Some by blast
    then show ?thesis using h
      by (intro exI [of _ "send_update E k 0 rs m'"]) (auto simp: a watchers_def [symmetric] active_def [symmetric])
  qed
  then obtain m1 where m1: "selection_loop E (a # ks) m = selection_loop E ks m1" "active m1 = active m"
      "dom (watchers m1) = dom (watchers m) \<union> ({k} \<inter> dom (active m))" by blast
  have "no_empty_active ks m1" using Cons.prems m1(2) by (simp add: no_empty_active_def)
  from Cons.IH [OF this] show ?case unfolding m1 by (auto simp: a)
qed simp

lemma no_empty_active_announced:
  assumes "distinct (map fst nets)" and "dom (active m) \<subseteq> announced nets"
  shows "no_empty_active nets m"
  unfolding no_empty_active_def
proof (clarify)
  fix k
  assume "(k, []) \<in> set nets"
  then have "k \<notin> announced nets" using eq_key_imp_eq_value [OF assms(1)] by (fastforce simp: announced_def)
  then show "active m k = None" using assms(2) by blast
qed

lemma announced_keys: "announced nets \<subseteq> fst ` set nets"
  by (auto simp: announced_def)

lemma updateSystemRoutes_frame [simp]:
  "watchers (snd (updateSystemRoutes E nets m)) = watchers m"
  "dm_serverRouter (snd (updateSystemRoutes E nets m)) = dm_serverRouter m"
proof -
  have r: "dm_clientNetworks (snd (remove_loop E ks x)) = dm_clientNetworks x \<and>
      dm_serverRouter (snd (remove_loop E ks x)) = dm_serverRouter x" for ks and x :: "('a, 'b) dm"
  proof (induction ks arbitrary: x)
    case (Cons y ks)
    then show ?case by (cases y) (simp add: split_def)
  qed simp
  have a: "dm_clientNetworks (snd (add_loop E ks x)) = dm_clientNetworks x \<and>
      dm_serverRouter (snd (add_loop E ks x)) = dm_serverRouter x" for ks and x :: "('a, 'b) dm"
  proof (induction ks arbitrary: x)
    case (Cons y ks)
    obtain k r where y: "y = (k, r)" by (cases y)
    obtain q w where "handler_AddRoute E \<lparr>h_Route = r, h_UseNewDNSRoute = dm_useNewDNSRoute x\<rparr> (dm_world x) = (q, w)"
      by fastforce
    with Cons y show ?case by (cases q) (simp_all add: Let_def split_def)
  qed simp
  show "watchers (snd (updateSystemRoutes E nets m)) = watchers m"
    "dm_serverRouter (snd (updateSystemRoutes E nets m)) = dm_serverRouter m"
    using r a by (simp_all add: updateSystemRoutes_def watchers_def split_def)
qed

lemma update_networks:
  assumes "distinct (map fst nets)"
  shows "\<exists>m'. updateClientNetworks E n nets (snd (updateSystemRoutes E nets m)) = Some m' \<and>
    active m' = active (snd (updateSystemRoutes E nets m)) \<and> dom (active m') \<subseteq> announced nets \<and>
    dom (active m') \<subseteq> dom (watchers m') \<and> dom (watchers m') \<subseteq> fst ` set nets"
proof -
  let ?m = "snd (updateSystemRoutes E nets m)"
  have act: "dom (active ?m) \<subseteq> announced nets"
    using updateSystemRoutes_active [OF assms, of E m "fst (updateSystemRoutes E nets m)" ?m] by simp
  then have "no_empty_active nets (stopObsoleteClients E nets ?m)"
    using assms by (intro no_empty_active_announced) simp_all
  from client_loop_Some [OF this, of E n] obtain m' where
    m': "client_loop E n nets (stopObsoleteClients E nets ?m) = Some m'" "active m' = active ?m"
      "dom (watchers m') = dom (watchers m) \<inter> fst ` set nets \<union> fst ` set nets \<inter> dom (active ?m)"
    by auto
  then show ?thesis
    using act announced_keys [of nets] unfolding updateClientNetworks_def by (intro exI [of _ m']) auto
qed

lemma active_watchers_world [simp]:
  "active (m\<lparr>dm_world := w, dm_clientRoutes := c\<rparr>) = active m" "active (m\<lparr>dm_clientRoutes := c\<rparr>) = active m"
  "watchers (m\<lparr>dm_world := w\<rparr>) = watchers m" "watchers (m\<lparr>dm_clientRoutes := c\<rparr>) = watchers m"
  by (simp_all add: active_def watchers_def)

definition selected_nets :: "('w, 'k) rm_env \<Rightarrow> hamap \<Rightarrow> ('w, 'k) dm \<Rightarrow> hamap" where
  "selected_nets E clientRoutes m =
     FilterSelectedExitNodes E clientRoutes (updateRouteSelectorFromManagement E clientRoutes (dm_world m))"

lemma UpdateRoutes_ok:
  assumes maps: "\<forall>nets w. distinct (map fst (FilterSelectedExitNodes E nets w))"
    and on: "\<not> dm_ctxDone m" "\<not> dm_disableClientRoutes m"
  shows "\<exists>es m'. UpdateRoutes E n sr cr dns m = Some (es, m') \<and> dm_clientRoutes m' = cr \<and>
    dom (active m') \<subseteq> dom (watchers m') \<and> dom (active m') \<subseteq> announced (selected_nets E cr m) \<and>
    dom (watchers m') \<subseteq> fst ` set (selected_nets E cr m) \<and>
    (es = [] \<longrightarrow> dom (active m') = announced (selected_nets E cr m))"
proof -
  let ?m1 = "m\<lparr>dm_useNewDNSRoute := dns, dm_world := updateRouteSelectorFromManagement E cr (dm_world m)\<rparr>"
  define nets where "nets = selected_nets E cr m"
  have nets: "FilterSelectedExitNodes E cr (updateRouteSelectorFromManagement E cr (dm_world m)) = nets"
    by (simp add: nets_def selected_nets_def)
  have d: "distinct (map fst nets)" using maps by (simp add: nets_def selected_nets_def)
  obtain es m2 where 2: "updateSystemRoutes E nets ?m1 = (es, m2)" by fastforce
  obtain m3 where 3: "updateClientNetworks E n nets m2 = Some m3" "active m3 = active m2"
      "dom (active m3) \<subseteq> announced nets" "dom (active m3) \<subseteq> dom (watchers m3)" "dom (watchers m3) \<subseteq> fst ` set nets"
    using update_networks [OF d, of E n ?m1] by (auto simp: 2)
  have ok: "es = [] \<longrightarrow> dom (active m3) = announced nets"
    using updateSystemRoutes_active [OF d 2] 3(2) by auto
  let ?m4 = "m3\<lparr>dm_world := notifier_OnNewRoutes E nets (dm_world m3), dm_clientRoutes := cr\<rparr>"
  obtain r w where srv: "server_UpdateRoutes E sr dns (dm_world ?m4) = (r, w)" by fastforce
  have "UpdateRoutes E n sr cr dns m =
      (if \<not> dm_serverRouter m3 then Some (multi_err ''update system routes'' es, ?m4)
       else Some (multi_err ''update system routes'' es @ collect_err ''update server routes'' r, ?m4\<lparr>dm_world := w\<rparr>))"
    using on 2 3(1) srv by (simp add: UpdateRoutes_def Let_def nets)
  then show ?thesis
    using 3 ok unfolding nets_def [symmetric] by (auto simp: multi_err_def active_def watchers_def split: if_splits)
qed


text \<open>\<^verbatim>\<open>TriggerSelection\<close> never panics and leaves the same relation between active networks, watchers and the selection.\<close>

theorem TriggerSelection_networks:
  assumes maps: "\<forall>nets w. distinct (map fst (FilterSelectedExitNodes E nets w))"
  shows "\<exists>m'. TriggerSelection E networks m = Some m' \<and> dom (active m') \<subseteq> dom (watchers m') \<and>
    dom (active m') \<subseteq> announced (FilterSelectedExitNodes E networks (dm_world m)) \<and>
    dom (watchers m') \<subseteq> fst ` set (FilterSelectedExitNodes E networks (dm_world m))"
proof -
  define nets where "nets = FilterSelectedExitNodes E networks (dm_world m)"
  have d: "distinct (map fst nets)" using maps by (simp add: nets_def)
  let ?m1 = "m\<lparr>dm_world := notifier_OnNewRoutes E nets (dm_world m)\<rparr>"
  let ?m2 = "snd (updateSystemRoutes E nets ?m1)"
  have act: "dom (active ?m2) \<subseteq> announced nets"
    using updateSystemRoutes_active [OF d, of E ?m1 "fst (updateSystemRoutes E nets ?m1)" ?m2] by simp
  then have "no_empty_active nets (stopObsoleteClients E nets ?m2)"
    using d by (intro no_empty_active_announced) simp_all
  from selection_loop_Some [OF this, of E] obtain m' where
    m': "selection_loop E nets (stopObsoleteClients E nets ?m2) = Some m'" "active m' = active ?m2"
      "dom (watchers m') = dom (watchers m) \<inter> fst ` set nets \<union> fst ` set nets \<inter> dom (active ?m2)"
    by auto
  let ?m4 = "m'\<lparr>dm_world := snd (state_UpdateState E (dm_world m'))\<rparr>"
  have "TriggerSelection E networks m = Some ?m4"
    using m'(1) by (simp add: TriggerSelection_def Let_def nets_def [symmetric])
  moreover have "dom (active m') \<subseteq> dom (watchers m')" "dom (watchers m') \<subseteq> fst ` set nets"
    using act announced_keys [of nets] unfolding m'(2,3) by auto
  ultimately show ?thesis
    using act unfolding nets_def [symmetric] by (intro exI [of _ ?m4]) (simp add: m'(2))
qed

section \<open>Exit nodes\<close>

definition user_respected :: "('w, 'k) rm_env \<Rightarrow> 'w \<Rightarrow> exitNodeInfo \<Rightarrow> bool" where
  "user_respected E w info = (set (en_selectedByManagement info) \<subseteq> set (en_allIDs info) \<and>
     (\<forall>n \<in> set (en_selectedByManagement info). \<not> HasUserSelectionForRoute E n w) \<and>
     (\<forall>n \<in> set (en_userSelected info). HasUserSelectionForRoute E n w \<and> IsSelected E n w) \<and>
     (\<forall>n \<in> set (en_userDeselected info). HasUserSelectionForRoute E n w \<and> \<not> IsSelected E n w))"

lemma collectExitNodeInfo_fold:
  assumes "user_respected E w info"
  shows "user_respected E w (fold (\<lambda>(haID, rs) info.
             if \<not> isExitNodeRoute rs then info
             else let netID = HA_NetID E haID; info1 = info\<lparr>en_allIDs := en_allIDs info @ [netID]\<rparr> in
               if HasUserSelectionForRoute E netID w then categorizeUserSelection E w netID info1
               else checkManagementSelection rs netID info1) nets info)"
  using assms
proof (induction nets arbitrary: info)
  case (Cons a nets)
  have step: "user_respected E w (if \<not> isExitNodeRoute rs then info
             else let netID = HA_NetID E k; info1 = info\<lparr>en_allIDs := en_allIDs info @ [netID]\<rparr> in
               if HasUserSelectionForRoute E netID w then categorizeUserSelection E w netID info1
               else checkManagementSelection rs netID info1)" for k rs
    using Cons.prems
    by (auto simp: user_respected_def Let_def categorizeUserSelection_def checkManagementSelection_def)
  show ?case using Cons.IH [OF step [of "snd a" "fst a"]] by (simp add: split_def)
qed simp

lemma collectExitNodeInfo_respected: "user_respected E w (collectExitNodeInfo E w nets)"
  unfolding collectExitNodeInfo_def by (rule collectExitNodeInfo_fold) (simp add: user_respected_def)

definition selector_frame :: "('w, 'k) rm_env \<Rightarrow> (string \<Rightarrow> 'w \<Rightarrow> 'x) \<Rightarrow> bool" where
  "selector_frame E view =
     ((\<forall>ids all w n. n \<notin> set ids \<longrightarrow> view n (snd (DeselectRoutes E ids all w)) = view n w) \<and>
      (\<forall>ids all w n. n \<notin> set ids \<longrightarrow> view n (snd (SelectRoutes E ids True all w)) = view n w))"

text \<open>What the management server says about exit nodes never changes the selection of a network the user chose, given a
  selector whose select and deselect calls affect only the networks they name.\<close>

theorem user_selection_kept:
  assumes "selector_frame E view" and "HasUserSelectionForRoute E n w"
  shows "view n (updateRouteSelectorFromManagement E nets w) = view n w"
proof -
  let ?info = "collectExitNodeInfo E w nets"
  have "n \<notin> set (en_selectedByManagement ?info)"
    using collectExitNodeInfo_respected [of E w nets] assms(2) by (auto simp: user_respected_def)
  moreover have "n \<notin> set (getRoutesToDeselect E w (en_allIDs ?info))"
    using assms(2) by (simp add: getRoutesToDeselect_def)
  ultimately show ?thesis
    using assms(1) by (simp add: updateRouteSelectorFromManagement_def Let_def updateExitNodeSelections_def
      selectExitNodesByManagement_def deselectExitNodes_def selector_frame_def)
qed

section \<open>Other operations\<close>

text \<open>Releasing an allowed address of a peer that is no longer on the device succeeds without touching the device, with
  either configurer: the errors \<^verbatim>\<open>ErrAllowedIPNotFound\<close> and \<^verbatim>\<open>ErrPeerNotFound\<close> are recognised through their wrapping.\<close>

theorem allowedRef_remove_absent_peer:
  assumes "wf_uapi d" and "distinct (map up_key (ud_peers d))" and "k \<notin> up_key ` set (ud_peers d)"
    and "IpcGet U w = Inr (uapi_text d)" and "ParseKey U (base64_EncodeToString k) = Inr k"
    and "ctl_New K v = None" and "ctl_Device K name v = Inr (ctl_device_of K name d)"
    and "ParseKey K (base64_EncodeToString k) = Inr k" and "Key_String K = base64_EncodeToString"
  shows "allowedRef_remove (i\<lparr>if_configurer := Some (NewUSPConfigurer U name)\<rparr>)
      (Prefix (Addr4 a) (int n)) (base64_EncodeToString k) w = (None, w) \<and>
    allowedRef_remove (j\<lparr>if_configurer := Some (NewKernelConfigurer K name)\<rparr>)
      (Prefix (Addr4 a) (int n)) (base64_EncodeToString k) v = (None, v)"
proof
  have "allowed_of d k = []" using assms(3) by (rule allowed_of_absent)
  then show "allowedRef_remove (i\<lparr>if_configurer := Some (NewUSPConfigurer U name)\<rparr>)
      (Prefix (Addr4 a) (int n)) (base64_EncodeToString k) w = (None, w)"
    using usp_RemoveAllowedIP_device [OF assms(1,2,4,5)]
    by (simp add: allowedRef_remove_def iface_RemoveAllowedIP_def NewUSPConfigurer_def)
  have "List.find (\<lambda>p. up_key p = k) (ud_peers d) = None"
    using assms(3) by (auto simp: find_None_iff)
  then show "allowedRef_remove (j\<lparr>if_configurer := Some (NewKernelConfigurer K name)\<rparr>)
      (Prefix (Addr4 a) (int n)) (base64_EncodeToString k) v = (None, v)"
    using assms(8) kernel_getPeer_of [OF assms(6,7,9), of k]
    by (simp add: allowedRef_remove_def iface_RemoveAllowedIP_def NewKernelConfigurer_def kernel_RemoveAllowedIP_def)
qed

lemma fold_update_keys:
  "map fst (fold (\<lambda>(k, rs) acc. AList.update (f k) rs acc) nets m) =
     fold (\<lambda>k ks. if k \<in> set ks then ks else ks @ [k]) (map (\<lambda>x. f (fst x)) nets) (map fst m)"
proof (induction nets arbitrary: m)
  case (Cons a nets)
  then show ?case by (simp add: split_def AList.update_keys)
qed simp

lemma fold_add_new:
  "distinct ks \<Longrightarrow> distinct (fold (\<lambda>k ks. if k \<in> set ks then ks else ks @ [k]) xs ks) \<and>
    set (fold (\<lambda>k ks. if k \<in> set ks then ks else ks @ [k]) xs ks) = set ks \<union> set xs"
  by (induction xs arbitrary: ks) auto

text \<open>\<^verbatim>\<open>GetClientRoutesWithNetID\<close> returns one group per network identifier, so that of several high-availability groups with the
  same network identifier all but one are dropped.\<close>

theorem GetClientRoutesWithNetID_groups:
  "length (GetClientRoutesWithNetID E m) = card (HA_NetID E ` fst ` set (dm_clientRoutes m))"
proof -
  let ?ks = "map fst (GetClientRoutesWithNetID E m)"
  have "distinct ?ks" "set ?ks = HA_NetID E ` fst ` set (dm_clientRoutes m)"
    using fold_add_new [of "[]" "map (\<lambda>x. HA_NetID E (fst x)) (dm_clientRoutes m)"]
    unfolding GetClientRoutesWithNetID_def fold_update_keys by (auto simp: image_image)
  then show ?thesis by (metis distinct_card length_map)
qed

text \<open>When \<^verbatim>\<open>Init\<close> of the route manager fails, none of the policy rules is left in the kernel.\<close>

theorem rm_Init_failure_cleans:
  assumes "rule_laws (rm_nl E) rules supported" and "nl_AdvancedRouting (rm_nl E)" and "rm_Init E m = (Some e, m')"
    and "\<forall>r w e w'. nl_RuleDel (rm_nl E) r w = (Some e, w') \<longrightarrow> errors_Is e (ErrSys ENOENT) \<or> isOpErr e"
    and "p \<in> set (getSetupRules (rm_nl E))"
  shows "rule_of (rm_nl E) p \<notin> rules (so_world (dm_sysOps m'))"
proof -
  obtain ips so e' where "SetupRouting (rm_nl E) ips True so = (Some e', dm_sysOps m')"
    using assms(2,3) by (auto simp: rm_Init_def Let_def split: if_splits prod.splits option.splits)
  then show ?thesis by (rule SetupRouting_no_rule [OF assms(1) _ assms(4,5)])
qed

section \<open>Witnesses\<close>

text \<open>A selector that remembers the networks chosen by the user and the selected ones; every other service succeeds.\<close>

definition sample_rm :: "bool \<Rightarrow> (string list \<times> string list, sample_kernel) rm_env" where
  "sample_rm broken = \<lparr>GetHAUniqueID = (\<lambda>r. r_NetID r @ ''|'' @ Prefix_String (r_Network r)),
     HA_NetID = takeWhile (\<lambda>c. c \<noteq> CHR ''|''), IsDynamic = (\<lambda>r. r_NetworkType r = 3),
     handler_AddRoute = (\<lambda>h w. (None, w)), handler_RemoveRoute = (\<lambda>h w. (None, w)),
     watcher_Start = (\<lambda>k x w. w), watcher_SendUpdate = (\<lambda>k n rs w. w), watcher_Stop = (\<lambda>k w. w),
     notifier_OnNewRoutes = (\<lambda>n w. w), server_NewRouter = (\<lambda>w. (None, w)),
     server_UpdateRoutes = (\<lambda>r d w. (None, w)), server_CleanUp = (\<lambda>w. w),
     FilterSelectedExitNodes = (\<lambda>n w. AList.clearjunk n),
     HasUserSelectionForRoute = (\<lambda>n w. n \<in> set (fst w)), IsSelected = (\<lambda>n w. n \<in> set (snd w)),
     DeselectRoutes = (\<lambda>ids all w. (None, (fst w, filter (\<lambda>n. n \<notin> set ids) (snd w)))),
     SelectRoutes = (\<lambda>ids app all w. (None, (fst w, snd w @ ids))),
     state_RegisterState = (\<lambda>w. w), state_LoadState = (\<lambda>w. (None, w)), state_HasSelector = (\<lambda>w. False),
     state_UpdateState = (\<lambda>w. (None, w)), selector_Restore = (\<lambda>w. w), selector_New = (\<lambda>w. w),
     routeRef_Flush = (\<lambda>w k. (None, w, k)), allowedRef_Flush = (\<lambda>w. (None, w)),
     url_Hostname = Inr, LookupIP = (\<lambda>h. Inr []), management_URL = ''m'', signal_URL = ''s'', relay_URLs = None,
     netstack_IsEnabled = False, CustomRoutingDisabled = False, MinRangeBits = 7, rm_nl = sample_nl broken\<rparr>"

definition sample_route :: "string \<Rightarrow> string \<Rightarrow> u32 \<Rightarrow> int \<Rightarrow> route" where
  "sample_route ident netid a n = \<lparr>r_ID = ident, r_Network = Prefix (Addr4 a) n, r_NetID = netid, r_Peer = ''peer'',
     r_NetworkType = 1, r_Domains = [], r_Metric = 0, r_Masquerade = False, r_KeepRoute = False,
     r_SkipAutoApply = False\<rparr>"

definition sample_nets :: hamap where
  "sample_nets = [(''lan|10.1.0.0/16'', [sample_route ''r1'' ''lan'' 0x0A010000 16]),
     (''exit|0.0.0.0/0'', [sample_route ''r2'' ''exit'' 0 0])]"

definition sample_dm :: "(string list \<times> string list, sample_kernel) dm" where
  "sample_dm = NewManager ''me'' False False sample_so ([''exit''], []) 5353"

lemma sample_rm_maps: "\<forall>nets w. distinct (map fst (FilterSelectedExitNodes (sample_rm b) nets w))"
  by (simp add: sample_rm_def)


theorem TriggerSelection_networks_witness:
  "\<exists>m'. TriggerSelection (sample_rm False) sample_nets sample_dm = Some m'"
  using TriggerSelection_networks [OF sample_rm_maps, of False sample_nets sample_dm] by blast

theorem user_selection_kept_witness:
  "(''exit'' \<in> set (snd (updateRouteSelectorFromManagement (sample_rm False) sample_nets ([''exit''], [])))) = False"
proof -
  have "selector_frame (sample_rm False) (\<lambda>n w. n \<in> set (snd w))"
    by (auto simp: selector_frame_def sample_rm_def)
  from user_selection_kept [OF this, of "''exit''" "([''exit''], [])" sample_nets]
  show ?thesis by (simp add: sample_rm_def)
qed

theorem allowedRef_remove_absent_peer_witness:
  "fst (allowedRef_remove \<lparr>if_configurer = Some (NewUSPConfigurer (sample_usp sample_device) ''wt0''),
       if_filter = None :: unit option, if_userspaceBind = True\<rparr>
     (Prefix (Addr4 0x0A010000) (int 16)) (base64_EncodeToString (sample_key 5)) []) = None"
proof -
  have "sample_key 5 \<notin> up_key ` set (ud_peers sample_device)" by code_simp
  moreover have "length (sample_key 5) = 32" by (simp add: sample_key_def)
  ultimately show ?thesis
    using allowedRef_remove_absent_peer [OF wf_sample_device, of "sample_key 5" "sample_usp sample_device" "[]"
      "sample_ctl sample_device" "[]" "''wt0''" "\<lparr>if_configurer = None, if_filter = None :: unit option, if_userspaceBind = True\<rparr>"
      "0x0A010000" 16 "\<lparr>if_configurer = None, if_filter = None :: unit option, if_userspaceBind = True\<rparr>"] by simp
qed

theorem rm_Init_failure_cleans_witness:
  "\<exists>e m'. rm_Init (sample_rm True) sample_dm = (Some e, m') \<and>
     rule_of (sample_nl True) (getSetupRules (sample_nl True) ! 0) \<notin> set (fst (so_world (dm_sysOps m')))"
proof -
  have "fst (rm_Init (sample_rm True) sample_dm) \<noteq> None" by code_simp
  then obtain e m' where m': "rm_Init (sample_rm True) sample_dm = (Some e, m')"
    by (metis option.exhaust prod.collapse)
  have nl: "rm_nl (sample_rm True) = sample_nl True" "nl_AdvancedRouting (sample_nl True)"
    by (simp_all add: sample_rm_def sample_nl_def)
  have "\<forall>r w e w'. nl_RuleDel (sample_nl True) r w = (Some e, w') \<longrightarrow> errors_Is e (ErrSys ENOENT) \<or> isOpErr e"
    by (auto simp: sample_nl_def split: if_splits)
  moreover have "getSetupRules (sample_nl True) ! 0 \<in> set (getSetupRules (sample_nl True))"
    by (simp add: getSetupRules_def)
  ultimately show ?thesis
    using rm_Init_failure_cleans [of "sample_rm True", unfolded nl, OF sample_nl_rule_laws nl(2) m'] m' by blast
qed

end
