(* ===== verification/Engine_Convert.thy ===== *)
theory Engine_Convert
  imports Route_Manager "HOL-Library.List_Lexorder" "HOL-Library.Char_ord"
begin

text \<open>
  The pure functions of the engine, \<^verbatim>\<open>go/internal/engine.go\<close>: the conversions of the management protocol's messages
  into routes, DNS configuration, STUN and TURN servers and forwarding rules, the comparison of posture checks and of
  allowed addresses, the NAT mappings, the interface prefixes and the shutdown time.

  A protocol message is a record of the fields the code reads. What the code calls outside the repository (punycode
  conversion, URI parsing, the DNS reverse zone, the protocol and port conversions of the forwarding rules, the network
  interfaces) is an argument of the definition that uses it. \<^verbatim>\<open>netip.MustParseAddr\<close> panics on an address that does not
  parse, which is the value \<open>None\<close>.

  The theorems: comparing allowed addresses is equality of multisets of prefixes, comparing checks is equality up to order
  as long as no file name contains the separator, a NAT mapping list is used as a whole or not at all, converted routes
  are masked and valid, and two places where the code falls short of its intent.
\<close>

section \<open>Messages\<close>

record remote_peer =
  rp_WgPubKey :: string
  rp_AllowedIps :: "string list"
  rp_Fqdn :: string
  rp_AgentVersion :: string

record proto_route =
  pr_ID :: string
  pr_Network :: string
  pr_NetworkType :: int
  pr_Peer :: string
  pr_Metric :: int
  pr_Masquerade :: bool
  pr_NetID :: string
  pr_Domains :: "string list"
  pr_KeepRoute :: bool
  pr_SkipAutoApply :: bool

section \<open>Comparisons\<close>

text \<open>
  \<^verbatim>\<open>compareNetIPLists\<close>: the counters of the first list, then the loop over the second that stops at an unparsable
  prefix or an exhausted counter, then the check that every counter is back at zero.
\<close>

definition count_strings :: "string list \<Rightarrow> string \<Rightarrow> nat" where
  "count_strings ss = fold (\<lambda>s f. f(s := f s + 1)) ss (\<lambda>_. 0)"

fun drain_counts :: "(string \<Rightarrow> nat) \<Rightarrow> string list \<Rightarrow> (string \<Rightarrow> nat) option" where
  "drain_counts f [] = Some f"
| "drain_counts f (s # ss) =
     (case ParsePrefix s of
        Inl _ \<Rightarrow> None
      | Inr p \<Rightarrow> (let key = Prefix_String p in
          if f key = 0 then None else drain_counts (f(key := f key - 1)) ss))"

definition compareNetIPLists :: "prefix list \<Rightarrow> string list \<Rightarrow> bool" where
  "compareNetIPLists list1 list2 =
     (if length list1 \<noteq> length list2 then False
      else (case drain_counts (count_strings (map Prefix_String list1)) list2 of
              None \<Rightarrow> False
            | Some f \<Rightarrow> list_all (\<lambda>p. f (Prefix_String p) = 0) list1))"

definition normalize_checks :: "string list list \<Rightarrow> string list" where
  "normalize_checks checks = sort (map (\<lambda>files. strings_Join ''|'' (sort files)) checks)"

definition isChecksEqual :: "string list list \<Rightarrow> string list list \<Rightarrow> bool" where
  "isChecksEqual checks1 checks2 = (normalize_checks checks1 = normalize_checks checks2)"

section \<open>Routes and DNS\<close>

definition toRoute :: "(string list \<Rightarrow> string list) \<Rightarrow> proto_route \<Rightarrow> route option" where
  "toRoute FromPunycodeList r =
     (case (if pr_Domains r = [] then ParsePrefix (pr_Network r) else Inr PrefixZero) of
        Inl _ \<Rightarrow> None
      | Inr p \<Rightarrow> Some \<lparr>r_ID = pr_ID r, r_Network = Prefix_Masked p, r_NetID = pr_NetID r, r_Peer = pr_Peer r,
          r_NetworkType = pr_NetworkType r, r_Domains = FromPunycodeList (pr_Domains r), r_Metric = pr_Metric r,
          r_Masquerade = pr_Masquerade r, r_KeepRoute = pr_KeepRoute r, r_SkipAutoApply = pr_SkipAutoApply r\<rparr>)"

definition toRoutes :: "(string list \<Rightarrow> string list) \<Rightarrow> proto_route list \<Rightarrow> route list" where
  "toRoutes FromPunycodeList rs = List.map_filter (toRoute FromPunycodeList) rs"

record forwarder_entry =
  fe_Domain :: string
  fe_Set :: "string list"
  fe_ResID :: string

definition toRouteDomains :: "(route \<Rightarrow> string) \<Rightarrow> string \<Rightarrow> route list \<Rightarrow> forwarder_entry list" where
  "toRouteDomains GetResourceID myPubKey rs =
     concat (map (\<lambda>r. if r_Domains r = [] then []
                      else if r_Peer r = myPubKey
                      then map (\<lambda>d. \<lparr>fe_Domain = d, fe_Set = r_Domains r, fe_ResID = GetResourceID r\<rparr>) (r_Domains r)
                      else []) rs)"

record dns_record =
  dr_Name :: string
  dr_RType :: int
  dr_Class :: string
  dr_TTL :: int
  dr_RData :: string

record custom_zone =
  cz_Domain :: string
  cz_SearchDomainDisabled :: bool
  cz_SkipPTRProcess :: bool
  cz_Records :: "dns_record list"

record proto_ns =
  pn_IP :: string
  pn_NSType :: int
  pn_Port :: int

record proto_nsgroup =
  pg_Primary :: bool
  pg_Domains :: "string list"
  pg_SearchDomainsEnabled :: bool
  pg_NameServers :: "proto_ns list"

record proto_dns =
  pd_ServiceEnable :: bool
  pd_ForwarderPort :: int
  pd_CustomZones :: "custom_zone list"
  pd_NameServerGroups :: "proto_nsgroup list"

record name_server =
  ns_IP :: addr
  ns_NSType :: int
  ns_Port :: int

record ns_group =
  ng_Primary :: bool
  ng_Domains :: "string list"
  ng_SearchDomainsEnabled :: bool
  ng_NameServers :: "name_server list"

record dns_config =
  dc_ServiceEnable :: bool
  dc_CustomZones :: "custom_zone list"
  dc_NameServerGroups :: "ns_group list"
  dc_ForwarderPort :: "16 word"

definition toNameServer :: "proto_ns \<Rightarrow> name_server option" where
  "toNameServer n = (case ParseAddr (pn_IP n) of
     Inl _ \<Rightarrow> None | Inr a \<Rightarrow> Some \<lparr>ns_IP = a, ns_NSType = pn_NSType n, ns_Port = pn_Port n\<rparr>)"

text \<open>A map that panics when one element does.\<close>

fun map_option_list :: "('a \<Rightarrow> 'b option) \<Rightarrow> 'a list \<Rightarrow> 'b list option" where
  "map_option_list f [] = Some []"
| "map_option_list f (x # xs) = Option.bind (f x) (\<lambda>y. map_option (\<lambda>ys. y # ys) (map_option_list f xs))"

definition toNSGroup :: "proto_nsgroup \<Rightarrow> ns_group option" where
  "toNSGroup g = map_option (\<lambda>nss. \<lparr>ng_Primary = pg_Primary g, ng_Domains = pg_Domains g,
     ng_SearchDomainsEnabled = pg_SearchDomainsEnabled g, ng_NameServers = nss\<rparr>)
     (map_option_list toNameServer (pg_NameServers g))"

definition toDNSConfig ::
    "(dns_config \<Rightarrow> prefix \<Rightarrow> dns_config) \<Rightarrow> 16 word \<Rightarrow> proto_dns \<Rightarrow> prefix \<Rightarrow> dns_config option" where
  "toDNSConfig addReverseZone ForwarderClientPort d network =
     map_option (\<lambda>groups.
       let port = word_of_int (pd_ForwarderPort d);
           cfg = \<lparr>dc_ServiceEnable = pd_ServiceEnable d, dc_CustomZones = pd_CustomZones d,
                  dc_NameServerGroups = groups,
                  dc_ForwarderPort = (if port = 0 then ForwarderClientPort else port)\<rparr>
       in if pd_CustomZones d \<noteq> [] then addReverseZone cfg network else cfg)
       (map_option_list toNSGroup (pd_NameServerGroups d))"

section \<open>STUN and TURN servers\<close>

record stun_uri =
  su_URI :: string
  su_Username :: string
  su_Password :: string

record turn_config =
  tc_Uri :: string
  tc_User :: string
  tc_Password :: string

definition updateSTUNs :: "(string \<Rightarrow> stun_uri result) \<Rightarrow> string list \<Rightarrow> stun_uri list \<Rightarrow> stun_uri list result" where
  "updateSTUNs ParseURI stuns old = (if stuns = [] then Inr old else map_result ParseURI stuns)"

definition updateTURNs ::
    "(string \<Rightarrow> stun_uri result) \<Rightarrow> turn_config list \<Rightarrow> stun_uri list \<Rightarrow> stun_uri list result" where
  "updateTURNs ParseURI turns old =
     (if turns = [] then Inr old
      else map_result (\<lambda>t. bind_result (ParseURI (tc_Uri t)) (\<lambda>u.
             Inr (u\<lparr>su_Username := tc_User t, su_Password := tc_Password t\<rparr>))) turns)"

section \<open>Flow, forwarding and lazy peers\<close>

record flow_proto =
  fp_Enabled :: bool
  fp_Counters :: bool
  fp_Url :: string
  fp_TokenPayload :: string
  fp_TokenSignature :: string
  fp_Interval :: "int option"
  fp_DnsCollection :: bool
  fp_ExitNodeCollection :: bool

record flow_config =
  fc_Enabled :: bool
  fc_Counters :: bool
  fc_URL :: string
  fc_TokenPayload :: string
  fc_TokenSignature :: string
  fc_Interval :: int
  fc_DNSCollection :: bool
  fc_ExitNodeCollection :: bool

definition toFlowLoggerConfig :: "flow_proto \<Rightarrow> flow_config result" where
  "toFlowLoggerConfig c =
     (case fp_Interval c of
        None \<Rightarrow> Inl (ErrMsg ''flow interval is nil'')
      | Some d \<Rightarrow> Inr \<lparr>fc_Enabled = fp_Enabled c, fc_Counters = fp_Counters c, fc_URL = fp_Url c,
          fc_TokenPayload = fp_TokenPayload c, fc_TokenSignature = fp_TokenSignature c, fc_Interval = d,
          fc_DNSCollection = fp_DnsCollection c, fc_ExitNodeCollection = fp_ExitNodeCollection c\<rparr>)"

text \<open>
  Forwarding rules. The conversions \<^verbatim>\<open>convertToFirewallProtocol\<close>, \<^verbatim>\<open>convertPortInfo\<close> and \<^verbatim>\<open>convertToIP\<close> are
  defined outside the repository and given as arguments; a message carries raw protocol, ports and address bytes.
\<close>

record 'p forward_proto =
  fw_Protocol :: int
  fw_DestinationPort :: 'p
  fw_TranslatedAddress :: goip
  fw_TranslatedPort :: 'p

record 'q forward_rule =
  fr_Protocol :: string
  fr_DestinationPort :: 'q
  fr_TranslatedAddress :: addr
  fr_TranslatedPort :: 'q

record ('p, 'q) fw_conv =
  convertToFirewallProtocol :: "int \<Rightarrow> string result"
  convertPortInfo :: "'p \<Rightarrow> 'q result"
  convertToIP :: "goip \<Rightarrow> addr result"

definition convert_rule :: "('p, 'q) fw_conv \<Rightarrow> 'p forward_proto \<Rightarrow> 'q forward_rule result" where
  "convert_rule C r =
     bind_result (wrap_result ''failed to convert protocol'' (convertToFirewallProtocol C (fw_Protocol r))) (\<lambda>pr.
     bind_result (wrap_result ''invalid destination port'' (convertPortInfo C (fw_DestinationPort r))) (\<lambda>dp.
     bind_result (wrap_result ''failed to convert translated address'' (convertToIP C (fw_TranslatedAddress r))) (\<lambda>ip.
     bind_result (wrap_result ''invalid translate port'' (convertPortInfo C (fw_TranslatedPort r))) (\<lambda>tp.
       Inr \<lparr>fr_Protocol = pr, fr_DestinationPort = dp, fr_TranslatedAddress = ip, fr_TranslatedPort = tp\<rparr>))))"

fun convert_rules :: "('p, 'q) fw_conv \<Rightarrow> 'p forward_proto list \<Rightarrow> 'q forward_rule list \<times> go_error list" where
  "convert_rules C [] = ([], [])"
| "convert_rules C (r # rs) =
     (case convert_rules C rs of (ok, errs) \<Rightarrow>
      (case convert_rule C r of Inl e \<Rightarrow> (ok, e # errs) | Inr f \<Rightarrow> (f # ok, errs)))"

definition toExcludedLazyPeers :: "'q forward_rule list \<Rightarrow> remote_peer list \<Rightarrow> string list" where
  "toExcludedLazyPeers rules peers =
     remdups (concat (map (\<lambda>r. concat (map (\<lambda>p.
       if Addr_String (fr_TranslatedAddress r) \<in> set (rp_AllowedIps p) then [rp_WgPubKey p] else []) peers)) rules))"

section \<open>Interfaces and NAT\<close>

text \<open>An interface address is a network, or another kind of address (\<open>None\<close>) on which \<^verbatim>\<open>addr.(*net.IPNet)\<close> fails.\<close>

fun first_ipv4 :: "ipnet option list \<Rightarrow> goip option option" where
  "first_ipv4 [] = Some None"
| "first_ipv4 (None # as) = None"
| "first_ipv4 (Some n # as) = (case IP_To4 (net_IP n) of Some q \<Rightarrow> Some (Some q) | None \<Rightarrow> first_ipv4 as)"

definition findIPFromInterface :: "ipnet option list result \<Rightarrow> goip result option" where
  "findIPFromInterface addrs =
     (case addrs of
        Inl e \<Rightarrow> Some (Inl e)
      | Inr as \<Rightarrow> (case first_ipv4 as of
                    None \<Rightarrow> None
                  | Some None \<Rightarrow> Some (Inl (ErrMsg ''interface don't have an ipv4 address''))
                  | Some (Some q) \<Rightarrow> Some (Inr q)))"

text \<open>
  \<^verbatim>\<open>parseNATExternalIPMappings\<close>: every \<^verbatim>\<open>break\<close> leaves the loop with fewer results than mappings, so that the
  final length test drops them all. \<open>findIP\<close> is \<^verbatim>\<open>findIPFromInterfaceName\<close>.
\<close>

definition parse_mapping :: "(string \<Rightarrow> goip result) \<Rightarrow> string list \<Rightarrow> string \<Rightarrow> string option" where
  "parse_mapping findIP blackList mapping =
     (let split = strings_Split (CHR ''/'') mapping in
      if length split > 2 then None
      else
        let internalIP =
          (if length split > 1 then
             (let internal = split ! 1 in
              case net_ParseIP internal of
                Some ip \<Rightarrow> Some (Some ip)
              | None \<Rightarrow> (if internal \<in> set blackList then None
                         else (case findIP internal of Inl _ \<Rightarrow> None | Inr ip \<Rightarrow> Some (Some ip))))
           else Some None)
        in (case internalIP of
              None \<Rightarrow> None
            | Some inn \<Rightarrow>
                (case net_ParseIP (split ! 0) of
                   None \<Rightarrow> None
                 | Some ext \<Rightarrow> Some (IP_String ext @ (case inn of None \<Rightarrow> [] | Some i \<Rightarrow> ''/'' @ IP_String i)))))"

fun mapping_loop :: "(string \<Rightarrow> goip result) \<Rightarrow> string list \<Rightarrow> string list \<Rightarrow> string list" where
  "mapping_loop findIP blackList [] = []"
| "mapping_loop findIP blackList (m # ms) =
     (case parse_mapping findIP blackList m of
        None \<Rightarrow> []
      | Some s \<Rightarrow> s # mapping_loop findIP blackList ms)"

definition parseNATExternalIPMappings :: "(string \<Rightarrow> goip result) \<Rightarrow> string list \<Rightarrow> string list \<Rightarrow> string list" where
  "parseNATExternalIPMappings findIP blackList natIPs =
     (let mapped = mapping_loop findIP blackList natIPs in
      if length mapped \<noteq> length natIPs then [] else mapped)"

definition interface_prefix :: "ipnet option \<Rightarrow> go_error + prefix option" where
  "interface_prefix a =
     (case a of
        None \<Rightarrow> Inl (ErrMsg ''cast address to IPNet'')
      | Some n \<Rightarrow>
        (case route_prefix n of
           None \<Rightarrow> Inl (ErrMsg ''cast IPNet to netip.Addr'')
         | Some p0 \<Rightarrow> (let p = Prefix_Masked p0; ip = pfx_Addr p in
             if \<not> Addr_Is4 ip \<or> Addr_IsLoopback ip \<or> Addr_IsMulticast ip \<or> Addr_IsLinkLocalUnicast ip
                \<or> Addr_IsLinkLocalMulticast ip
             then Inr None else Inr (Some p))))"

definition getInterfacePrefixes :: "ipnet option list result list result \<Rightarrow> prefix list \<times> go_error list" where
  "getInterfacePrefixes ifaces =
     (case ifaces of
        Inl e \<Rightarrow> ([], [ErrWrap ''get interfaces'' e])
      | Inr is \<Rightarrow>
        (let rs = concat (map (\<lambda>i. case i of
                    Inl e \<Rightarrow> [Inl (ErrWrap ''get addresses for interface'' e)]
                  | Inr as \<Rightarrow> map interface_prefix as) is)
         in (List.map_filter (\<lambda>r. case r of Inr (Some p) \<Rightarrow> Some p | _ \<Rightarrow> None) rs,
             List.map_filter (\<lambda>r. case r of Inl e \<Rightarrow> Some e | _ \<Rightarrow> None) rs)))"

section \<open>Shutdown time\<close>

text \<open>Durations in nanoseconds: ten seconds, a tenth of a second per peer, at most thirty seconds.\<close>

definition calculateShutdownTimeout :: "nat \<Rightarrow> int" where
  "calculateShutdownTimeout peerCount =
     (let timeout = 10 * 1000000000 + int peerCount * 100 * 1000000; maxTimeout = 30 * 1000000000
      in if timeout > maxTimeout then maxTimeout else timeout)"

section \<open>Allowed addresses\<close>

lemma count_strings_fold: "fold (\<lambda>s f. f(s := f s + 1)) ss f s = f s + count (mset ss) s"
  by (induction ss arbitrary: f) auto

lemma count_strings_mset: "count_strings ss s = count (mset ss) s"
  using count_strings_fold [of ss "\<lambda>_. 0" s] by (simp add: count_strings_def)

lemma drain_counts_Some:
  "drain_counts f ss = Some g \<longleftrightarrow>
     (\<exists>ps. map_result ParsePrefix ss = Inr ps \<and> (\<forall>s. f s = g s + count (mset (map Prefix_String ps)) s))"
proof (induction ss arbitrary: f)
  case Nil
  then show ?case by (auto simp: fun_eq_iff)
next
  case (Cons s ss)
  show ?case
  proof (cases "ParsePrefix s")
    case (Inl e)
    then show ?thesis by (auto simp: bind_result_Inr_iff)
  next
    case (Inr p)
    let ?k = "Prefix_String p"
    have "drain_counts f (s # ss) = Some g \<longleftrightarrow> f ?k \<noteq> 0 \<and> drain_counts (f(?k := f ?k - 1)) ss = Some g"
      by (simp add: Inr Let_def)
    also have "\<dots> \<longleftrightarrow> (\<exists>ps. map_result ParsePrefix ss = Inr ps \<and>
        (\<forall>s. f s = g s + count (mset (map Prefix_String (p # ps))) s))"
    proof -
      have "(f ?k \<noteq> 0 \<and> (\<forall>s. (f(?k := f ?k - 1)) s = g s + count (mset (map Prefix_String ps)) s)) \<longleftrightarrow>
          (\<forall>s. f s = g s + count (mset (map Prefix_String (p # ps))) s)" (is "?l \<longleftrightarrow> ?r") for ps
      proof
        assume l: ?l
        show ?r
        proof
          fix s
          show "f s = g s + count (mset (map Prefix_String (p # ps))) s"
            using spec [OF conjunct2 [OF l], of s] conjunct1 [OF l] by (cases "s = ?k") auto
        qed
      next
        assume r: ?r
        have "f ?k \<noteq> 0" using spec [OF r, of ?k] by simp
        moreover have "(f(?k := f ?k - 1)) s = g s + count (mset (map Prefix_String ps)) s" for s
          using spec [OF r, of s] by (cases "s = ?k") auto
        ultimately show ?l by blast
      qed
      then show ?thesis unfolding Cons by blast
    qed
    also have "\<dots> \<longleftrightarrow> (\<exists>ps. map_result ParsePrefix (s # ss) = Inr ps \<and>
        (\<forall>s. f s = g s + count (mset (map Prefix_String ps)) s))"
      by (auto simp: Inr bind_result_Inr_iff)
    finally show ?thesis .
  qed
qed

lemma compareNetIPLists_mset:
  "compareNetIPLists list1 list2 \<longleftrightarrow>
     (\<exists>ps. map_result ParsePrefix list2 = Inr ps \<and> mset (map Prefix_String list1) = mset (map Prefix_String ps))"
proof
  assume "compareNetIPLists list1 list2"
  then obtain g where len: "length list1 = length list2"
    and d: "drain_counts (count_strings (map Prefix_String list1)) list2 = Some g"
    and z: "list_all (\<lambda>p. g (Prefix_String p) = 0) list1"
    by (auto simp: compareNetIPLists_def split: if_splits option.splits)
  from d obtain ps where ps: "map_result ParsePrefix list2 = Inr ps"
    "\<And>s. count (mset (map Prefix_String list1)) s = g s + count (mset (map Prefix_String ps)) s"
    unfolding drain_counts_Some count_strings_mset by blast
  have sub: "mset (map Prefix_String ps) \<subseteq># mset (map Prefix_String list1)"
    by (rule mset_subset_eqI) (use ps(2) in simp)
  have "size (mset (map Prefix_String list1)) = size (mset (map Prefix_String ps))"
    using len map_result_length [OF ps(1)] by simp
  then have "mset (map Prefix_String ps) = mset (map Prefix_String list1)"
    using sub by (metis mset_subset_size subset_mset.le_less less_irrefl)
  with ps(1) show "\<exists>ps. map_result ParsePrefix list2 = Inr ps \<and> mset (map Prefix_String list1) = mset (map Prefix_String ps)"
    by metis
next
  assume "\<exists>ps. map_result ParsePrefix list2 = Inr ps \<and> mset (map Prefix_String list1) = mset (map Prefix_String ps)"
  then obtain ps where ps: "map_result ParsePrefix list2 = Inr ps"
    "mset (map Prefix_String list1) = mset (map Prefix_String ps)" by blast
  have "length list1 = length list2"
    using ps(2) map_result_length [OF ps(1)] by (metis length_map mset_eq_length)
  moreover have "drain_counts (count_strings (map Prefix_String list1)) list2 = Some (\<lambda>_. 0)"
    unfolding drain_counts_Some count_strings_mset using ps by auto
  ultimately show "compareNetIPLists list1 list2"
    by (simp add: compareNetIPLists_def list_all_iff)
qed

text \<open>Comparing the allowed addresses of a stored peer with those of the network map decides exactly whether every text of the map parses as a prefix and the two lists hold the same prefixes with the same multiplicities, in any order.\<close>

theorem compareNetIPLists_iff:
  "compareNetIPLists list1 list2 \<longleftrightarrow>
     (\<exists>ps. map_result ParsePrefix list2 = Inr ps \<and> mset (map Prefix_String list1) = mset (map Prefix_String ps))"
  by (rule compareNetIPLists_mset)

section \<open>Checks\<close>

lemma sort_mset_eq: "sort xs = sort ys \<longleftrightarrow> mset xs = mset (ys :: 'a :: linorder list)"
proof
  assume "sort xs = sort ys"
  then have "mset (sort xs) = mset (sort ys)" by simp
  then show "mset xs = mset ys" by simp
next
  assume "mset xs = mset ys"
  then show "sort xs = sort ys" by (intro properties_for_sort) simp_all
qed

lemma isChecksEqual_mset:
  "isChecksEqual c1 c2 \<longleftrightarrow>
     image_mset (\<lambda>fs. strings_Join ''|'' (sort fs)) (mset c1) = image_mset (\<lambda>fs. strings_Join ''|'' (sort fs)) (mset c2)"
  by (simp add: isChecksEqual_def normalize_checks_def sort_mset_eq)

definition clean_checks :: "string list list \<Rightarrow> bool" where
  "clean_checks c = list_all (\<lambda>fs. fs \<noteq> [] \<and> list_all (\<lambda>f. CHR ''|'' \<notin> set f) fs) c"

text \<open>On posture checks whose file names do not contain the separator character and whose file lists are not empty, the comparison decides exactly equality up to the order of the checks and of the files of each check.\<close>

theorem isChecksEqual_clean:
  assumes "clean_checks c1" and "clean_checks c2"
  shows "isChecksEqual c1 c2 \<longleftrightarrow> image_mset mset (mset c1) = image_mset mset (mset c2)"
proof -
  let ?J = "\<lambda>fs. strings_Join ''|'' (sort fs)"
  define h where "h m = strings_Join ''|'' (sorted_list_of_multiset m)" for m
  define k where "k s = mset (strings_Split (CHR ''|'') s)" for s
  have hm: "?J fs = h (mset fs)" for fs by (simp add: h_def sorted_list_of_multiset_mset)
  have km: "k (?J fs) = mset fs" if "fs \<in> set c1 \<union> set c2" for fs
  proof -
    have "fs \<noteq> []" "\<forall>f \<in> set fs. CHR ''|'' \<notin> set f"
      using that assms by (auto simp: clean_checks_def list_all_iff)
    moreover from this have "sort fs \<noteq> []" by (metis length_0_conv length_sort)
    ultimately show ?thesis unfolding k_def by (subst strings_Split_Join) auto
  qed
  show ?thesis unfolding isChecksEqual_mset
  proof
    assume "image_mset ?J (mset c1) = image_mset ?J (mset c2)"
    then have "image_mset k (image_mset ?J (mset c1)) = image_mset k (image_mset ?J (mset c2))" by simp
    moreover have "image_mset k (image_mset ?J (mset c)) = image_mset mset (mset c)" if "set c \<subseteq> set c1 \<union> set c2" for c
      unfolding multiset.map_comp comp_def using km that by (intro image_mset_cong) auto
    ultimately show "image_mset mset (mset c1) = image_mset mset (mset c2)" by simp
  next
    assume "image_mset mset (mset c1) = image_mset mset (mset c2)"
    then have "image_mset h (image_mset mset (mset c1)) = image_mset h (image_mset mset (mset c2))" by simp
    then show "image_mset ?J (mset c1) = image_mset ?J (mset c2)"
      by (simp add: multiset.map_comp comp_def hm)
  qed
qed

theorem isChecksEqual_clean_witness:
  "isChecksEqual [[''a'', ''b''], [''c'']] [[''c''], [''b'', ''a'']] \<and> \<not> isChecksEqual [[''a'']] [[''b'']]"
proof
  show "isChecksEqual [[''a'', ''b''], [''c'']] [[''c''], [''b'', ''a'']]"
    by (subst isChecksEqual_clean) (simp_all add: clean_checks_def add_mset_commute)
  show "\<not> isChecksEqual [[''a'']] [[''b'']]"
    by (subst isChecksEqual_clean) (simp_all add: clean_checks_def)
qed

text \<open>The comparison joins file names with a bar, so a check on two files equals a check on one file whose name contains the bar: an update of the checks from one to the other would not be noticed.\<close>

theorem isChecksEqual_separator: "isChecksEqual [[''/bin/a'', ''/bin/b'']] [[''/bin/a|/bin/b'']]"
  by code_simp


section \<open>Routes, mappings and peers\<close>

lemma ParsePrefix_wf: "ParsePrefix s = Inr p \<Longrightarrow> wf_prefix p"
  by (auto simp: ParsePrefix_def wf_prefix_PrefixFrom split: option.splits sum.splits if_splits prod.splits)

text \<open>Every route the engine passes on comes from a route of the network map, has a masked network, and when it is not a domain route its network contains exactly the addresses of the prefix the map gave.\<close>

theorem toRoutes_masked:
  assumes "r \<in> set (toRoutes puny rs)"
  shows "Prefix_Masked (r_Network r) = r_Network r \<and>
    (\<exists>pr \<in> set rs. r_ID r = pr_ID pr \<and> (pr_Domains pr = [] \<longrightarrow> (\<exists>p. ParsePrefix (pr_Network pr) = Inr p \<and> r_Network r = Prefix_Masked p \<and>
       (\<forall>a. Prefix_Contains (r_Network r) a = Prefix_Contains p a))))"
proof -
  obtain pr where pr: "pr \<in> set rs" "toRoute puny pr = Some r"
    using assms by (auto simp: toRoutes_def map_filter_def)
  show ?thesis
  proof (cases "pr_Domains pr = []")
    case True
    then obtain p where p: "ParsePrefix (pr_Network pr) = Inr p" "r_Network r = Prefix_Masked p" "r_ID r = pr_ID pr"
      using pr(2) by (auto simp: toRoute_def split: sum.splits)
    then have "wf_prefix p" using ParsePrefix_wf by blast
    then show ?thesis using pr(1) p Prefix_Masked_idem Prefix_Contains_Masked by auto
  next
    case False
    then have "r_Network r = Prefix_Masked PrefixZero" "r_ID r = pr_ID pr"
      using pr(2) by (auto simp: toRoute_def)
    moreover have "Prefix_Masked (Prefix_Masked PrefixZero) = Prefix_Masked PrefixZero"
      by (simp add: Prefix_Masked_def PrefixZero_def)
    ultimately show ?thesis using pr(1) False by auto
  qed
qed

definition sample_proto_route :: proto_route where
  "sample_proto_route = \<lparr>pr_ID = ''r1'', pr_Network = ''10.1.2.3/16'', pr_NetworkType = 1, pr_Peer = ''p'', pr_Metric = 1,
     pr_Masquerade = False, pr_NetID = ''net'', pr_Domains = [], pr_KeepRoute = False, pr_SkipAutoApply = False\<rparr>"

theorem toRoutes_masked_witness:
  "Prefix_Masked (Prefix (Addr4 0x0A010000) 16) = Prefix (Addr4 0x0A010000) 16"
proof -
  have e: "map r_Network (toRoutes (\<lambda>d. d) [sample_proto_route]) = [Prefix (Addr4 0x0A010000) 16]" by code_simp
  then obtain r where r: "toRoutes (\<lambda>d. d) [sample_proto_route] = [r]" "r_Network r = Prefix (Addr4 0x0A010000) 16"
    by (auto simp: map_eq_Cons_conv)
  from toRoutes_masked [of r "\<lambda>d. d" "[sample_proto_route]"] r show ?thesis by simp
qed

lemma mapping_loop_length: "length (mapping_loop f b ms) \<le> length ms"
  by (induction ms) (auto split: option.splits)

text \<open>The NAT external address mappings are used as a whole: all of them when each is well formed, none of them when one is not.\<close>

theorem parseNATExternalIPMappings_all_or_nothing:
  "parseNATExternalIPMappings f b ms =
     (if \<forall>m \<in> set ms. parse_mapping f b m \<noteq> None then map (\<lambda>m. the (parse_mapping f b m)) ms else [])"
proof -
  have "if \<forall>m \<in> set ms. parse_mapping f b m \<noteq> None
        then mapping_loop f b ms = map (\<lambda>m. the (parse_mapping f b m)) ms
        else length (mapping_loop f b ms) < length ms"
  proof (induction ms)
    case (Cons m ms)
    then show ?case by (cases "parse_mapping f b m") (auto split: if_splits)
  qed simp
  then show ?thesis by (auto simp: parseNATExternalIPMappings_def Let_def split: if_splits)
qed

theorem parseNATExternalIPMappings_all_or_nothing_witness:
  "parseNATExternalIPMappings (\<lambda>_. Inl (ErrMsg ''no interface'')) [] [''1.2.3.4/10.0.0.1'', ''bad''] = []"
proof -
  have "\<not> (\<forall>m \<in> set [''1.2.3.4/10.0.0.1'', ''bad'']. parse_mapping (\<lambda>_. Inl (ErrMsg ''no interface'')) [] m \<noteq> None)"
    by code_simp
  then show ?thesis by (subst parseNATExternalIPMappings_all_or_nothing) (simp only: if_False)
qed

lemma hex_itoa_chars: "c \<in> set (hex_itoa n) \<Longrightarrow> is_hex_char c"
proof (induction n rule: hex_itoa.induct)
  case (1 n)
  then show ?case
    by (subst (asm) (2) hex_itoa.simps) (auto simp: is_hex_char_def hex_val_hex_digit split: if_splits)
qed

lemma slash_notin_groups: "CHR ''/'' \<notin> set (strings_Join '':'' (map hex_itoa gs))"
  using strings_Join_set [of "'':''" "map hex_itoa gs"] hex_itoa_chars by (fastforce simp: is_hex_char_def hex_val_def)

lemma Addr_String_no_slash:
  assumes "CHR ''/'' \<notin> set (Addr_Zone a)"
  shows "CHR ''/'' \<notin> set (Addr_String a)"
proof (cases a)
  case (Addr6 w z)
  have "CHR ''/'' \<notin> set (v6_groups_String gs)" for gs
    using slash_notin_groups by (auto simp: v6_groups_String_def split: option.splits)
  then show ?thesis using assms Addr6 by (auto simp: zone_suffix_def)
qed simp_all

text \<open>When the allowed addresses of the peers are prefixes, as the management protocol sends them, no peer is ever excluded from lazy connections by a forwarding rule: the code compares the text of an address with the text of a prefix.\<close>

theorem toExcludedLazyPeers_empty:
  assumes "\<forall>r \<in> set rules. CHR ''/'' \<notin> set (Addr_Zone (fr_TranslatedAddress r))"
    and "\<forall>p \<in> set peers. \<forall>ip \<in> set (rp_AllowedIps p). \<exists>q. ParsePrefix ip = Inr q"
  shows "toExcludedLazyPeers rules peers = []"
proof -
  have "Addr_String (fr_TranslatedAddress r) \<notin> set (rp_AllowedIps p)" if r: "r \<in> set rules" and p: "p \<in> set peers" for r p
  proof
    assume "Addr_String (fr_TranslatedAddress r) \<in> set (rp_AllowedIps p)"
    then obtain q where "ParsePrefix (Addr_String (fr_TranslatedAddress r)) = Inr q" using assms(2) p by blast
    then have "CHR ''/'' \<in> set (Addr_String (fr_TranslatedAddress r))" by (rule ParsePrefix_needs_slash)
    then show False using Addr_String_no_slash assms(1) r by blast
  qed
  then show ?thesis by (auto simp: toExcludedLazyPeers_def)
qed

theorem toExcludedLazyPeers_empty_witness:
  "toExcludedLazyPeers
     [\<lparr>fr_Protocol = ''tcp'', fr_DestinationPort = (80 :: int), fr_TranslatedAddress = Addr4 0x0A000001, fr_TranslatedPort = 80\<rparr>]
     [\<lparr>rp_WgPubKey = ''p'', rp_AllowedIps = [''10.0.0.1/32''], rp_Fqdn = [], rp_AgentVersion = []\<rparr>] = []"
proof -
  have "(\<exists>q. ParsePrefix ''10.0.0.1/32'' = Inr q) = True"
    by (rule eqTrueI, rule exI [of _ "Prefix (Addr4 0x0A000001) 32"]) code_simp
  then show ?thesis by (intro toExcludedLazyPeers_empty) simp_all
qed

text \<open>The shutdown time is between ten and thirty seconds, grows with the number of peers, and is at its maximum from two hundred peers on.\<close>

theorem calculateShutdownTimeout_bounds:
  "10 * 10 ^ 9 \<le> calculateShutdownTimeout n \<and> calculateShutdownTimeout n \<le> 30 * 10 ^ 9 \<and>
   calculateShutdownTimeout n \<le> calculateShutdownTimeout (Suc n) \<and>
   (calculateShutdownTimeout n = 30 * 10 ^ 9 \<longleftrightarrow> 200 \<le> n)"
  by (auto simp: calculateShutdownTimeout_def Let_def)

lemma convert_rules_count: "length (fst (convert_rules C rs)) + length (snd (convert_rules C rs)) = length rs"
  by (induction rs) (auto split: prod.splits sum.splits)

lemma convert_rules_map_filter:
  "fst (convert_rules C rs) = List.map_filter (\<lambda>r. case convert_rule C r of Inl _ \<Rightarrow> None | Inr f \<Rightarrow> Some f) rs"
  by (induction rs) (auto simp: map_filter_simps split: prod.splits sum.splits)

end
