(* ===== verification/Engine_Peers.thy ===== *)
theory Engine_Peers
  imports Engine_Convert
begin

text \<open>
  How the engine keeps its peer connections in step with the network map, \<^verbatim>\<open>go/internal/engine.go\<close>: \<^verbatim>\<open>removePeers\<close>,
  \<^verbatim>\<open>modifyPeers\<close>, \<^verbatim>\<open>addNewPeers\<close>, \<^verbatim>\<open>removeAllPeers\<close>, \<^verbatim>\<open>createPeerConn\<close> and \<^verbatim>\<open>updateOfflinePeers\<close>.

  The peer store, the connection manager, the connections, the status recorder and the random numbers are packages
  outside the repository: the record \<open>peer_env\<close> holds their operations as functions on an opaque world \<open>'w\<close>, a
  connection is an opaque \<open>'c\<close>. What the engine relies on is \<open>store_laws\<close>: the store is a map from keys to connections
  that only adding and removing change, and a connection remembers the configuration it was created with.

  A run-time panic is the value \<open>None\<close>; otherwise an operation returns its error and the new world. The main theorem
  says that after an update the store holds exactly the peers of the map, each with the agent version and the allowed
  addresses of the map, and that connections of unchanged peers are kept.
\<close>

section \<open>Configuration\<close>

record engine_config =
  ec_WgPort :: int
  ec_WgIfaceName :: string
  ec_WgAddr :: string
  ec_WgPrivateKey :: wgkey
  ec_NetworkMonitor :: bool
  ec_IFaceBlackList :: "string list"
  ec_DisableIPv6Discovery :: bool
  ec_PreSharedKey :: "wgkey option"
  ec_UDPMuxPort :: int
  ec_UDPMuxSrflxPort :: int
  ec_SSHKey :: "byte list"
  ec_NATExternalIPs :: "string list"
  ec_CustomDNSAddress :: string
  ec_RosenpassEnabled :: bool
  ec_RosenpassPermissive :: bool
  ec_ServerSSHAllowed :: bool
  ec_EnableSSHRoot :: "bool option"
  ec_EnableSSHSFTP :: "bool option"
  ec_EnableSSHLocalPortForwarding :: "bool option"
  ec_EnableSSHRemotePortForwarding :: "bool option"
  ec_DisableSSHAuth :: "bool option"
  ec_DNSRouteInterval :: int
  ec_DisableClientRoutes :: bool
  ec_DisableServerRoutes :: bool
  ec_DisableDNS :: bool
  ec_DisableFirewall :: bool
  ec_BlockLANAccess :: bool
  ec_BlockInbound :: bool
  ec_LazyConnectionEnabled :: bool
  ec_MTU :: "16 word"

definition PeerConnectionTimeoutMax :: nat where "PeerConnectionTimeoutMax = 45000"
definition PeerConnectionTimeoutMin :: nat where "PeerConnectionTimeoutMin = 30000"
definition connInitLimit :: nat where "connInitLimit = 200"

text \<open>
  What a connection is created with, \<^verbatim>\<open>peer.ConnConfig\<close> with its \<^verbatim>\<open>peer.WgConfig\<close>; the timeout is in milliseconds. The
  ICE configuration is built by code outside the repository and left to the constructor.
\<close>

record conn_config =
  cc_Key :: string
  cc_LocalKey :: string
  cc_AgentVersion :: string
  cc_Timeout :: nat
  cc_AllowedIps :: "prefix list"
  cc_PreSharedKey :: "wgkey option"
  cc_WgListenPort :: int
  cc_LocalWgPort :: int
  cc_RosenpassPubKey :: "byte list"
  cc_RosenpassAddr :: string
  cc_RosenpassPermissive :: bool

record peer_state =
  ps_IP :: string
  ps_PubKey :: string
  ps_FQDN :: string

record ('w, 'c) peer_env =
  PeersPubKey :: "'w \<Rightarrow> string list"
  PeerConn :: "string \<Rightarrow> 'w \<Rightarrow> 'c option"
  store_AllowedIPs :: "string \<Rightarrow> 'w \<Rightarrow> prefix list option"
  AgentVersionString :: "'c \<Rightarrow> string"
  RemovePeerConn :: "string \<Rightarrow> 'w \<Rightarrow> 'w"
  AddPeerConn :: "string \<Rightarrow> 'c \<Rightarrow> 'w \<Rightarrow> bool \<times> 'w"
  NewConn :: "conn_config \<Rightarrow> 'w \<Rightarrow> 'c result \<times> 'w"
  conn_Close :: "'c \<Rightarrow> bool \<Rightarrow> 'w \<Rightarrow> 'w"
  conn_SetRosenpassHandlers :: "'c \<Rightarrow> 'w \<Rightarrow> 'w"
  status_AddPeer :: "string \<Rightarrow> string \<Rightarrow> string \<Rightarrow> 'w \<Rightarrow> go_error option \<times> 'w"
  status_RemovePeer :: "string \<Rightarrow> 'w \<Rightarrow> go_error option \<times> 'w"
  UpdatePeerFQDN :: "string \<Rightarrow> string \<Rightarrow> 'w \<Rightarrow> go_error option \<times> 'w"
  ReplaceOfflinePeers :: "peer_state list \<Rightarrow> 'w \<Rightarrow> 'w"
  SliceDiff :: "string list \<Rightarrow> string list \<Rightarrow> string list"
  rand_Intn :: "nat \<Rightarrow> 'w \<Rightarrow> nat \<times> 'w"
  PublicKeyString :: "wgkey \<Rightarrow> string"
  rp_GetPubKey :: "'w \<Rightarrow> byte list"
  rp_GetAddress :: "'w \<Rightarrow> string"

section \<open>Operations\<close>

text \<open>\<open>rp\<close> says whether the Rosenpass manager exists.\<close>

definition getRosenpassPubKey :: "('w, 'c) peer_env \<Rightarrow> bool \<Rightarrow> 'w \<Rightarrow> byte list" where
  "getRosenpassPubKey E rp w = (if rp then rp_GetPubKey E w else [])"

definition getRosenpassAddr :: "('w, 'c) peer_env \<Rightarrow> bool \<Rightarrow> 'w \<Rightarrow> string" where
  "getRosenpassAddr E rp w = (if rp then rp_GetAddress E w else [])"

definition createPeerConn ::
    "('w, 'c) peer_env \<Rightarrow> engine_config \<Rightarrow> bool \<Rightarrow> string \<Rightarrow> prefix list \<Rightarrow> string \<Rightarrow> 'w \<Rightarrow> 'c result \<times> 'w" where
  "createPeerConn E c rp pubKey allowedIPs agentVersion w =
     (case rand_Intn E (PeerConnectionTimeoutMax - PeerConnectionTimeoutMin) w of (n, w1) \<Rightarrow>
      (case NewConn E \<lparr>cc_Key = pubKey, cc_LocalKey = PublicKeyString E (ec_WgPrivateKey c),
              cc_AgentVersion = agentVersion, cc_Timeout = n + PeerConnectionTimeoutMin, cc_AllowedIps = allowedIPs,
              cc_PreSharedKey = ec_PreSharedKey c, cc_WgListenPort = ec_WgPort c, cc_LocalWgPort = ec_WgPort c,
              cc_RosenpassPubKey = getRosenpassPubKey E rp w1, cc_RosenpassAddr = getRosenpassAddr E rp w1,
              cc_RosenpassPermissive = ec_RosenpassPermissive c\<rparr> w1 of
         (Inl e, w2) \<Rightarrow> (Inl e, w2)
       | (Inr conn, w2) \<Rightarrow> (Inr conn, if rp then conn_SetRosenpassHandlers E conn w2 else w2)))"

text \<open>\<^verbatim>\<open>addNewPeer\<close>: \<^verbatim>\<open>peerIPs[0]\<close> panics when the configuration has no allowed address.\<close>

definition addNewPeer ::
    "('w, 'c) peer_env \<Rightarrow> engine_config \<Rightarrow> bool \<Rightarrow> remote_peer \<Rightarrow> 'w \<Rightarrow> (go_error option \<times> 'w) option" where
  "addNewPeer E c rp p w =
     (if PeerConn E (rp_WgPubKey p) w \<noteq> None then Some (None, w)
      else (case map_result ParsePrefix (rp_AllowedIps p) of
        Inl e \<Rightarrow> Some (Some e, w)
      | Inr peerIPs \<Rightarrow>
        (case createPeerConn E c rp (rp_WgPubKey p) peerIPs (rp_AgentVersion p) w of
           (Inl e, w1) \<Rightarrow> Some (Some (ErrWrap ''create peer connection'' e), w1)
         | (Inr conn, w1) \<Rightarrow>
           (case peerIPs of
              [] \<Rightarrow> None
            | ip # _ \<Rightarrow>
              (case status_AddPeer E (rp_WgPubKey p) (rp_Fqdn p) (Addr_String (pfx_Addr ip)) w1 of (_, w2) \<Rightarrow>
               (case AddPeerConn E (rp_WgPubKey p) conn w2 of (exists, w3) \<Rightarrow>
                  if exists then Some (Some (ErrMsg (''peer already exists: '' @ rp_WgPubKey p)), conn_Close E conn False w3)
                  else Some (None, w3)))))))"

fun addNewPeers ::
    "('w, 'c) peer_env \<Rightarrow> engine_config \<Rightarrow> bool \<Rightarrow> remote_peer list \<Rightarrow> 'w \<Rightarrow> (go_error option \<times> 'w) option" where
  "addNewPeers E c rp [] w = Some (None, w)"
| "addNewPeers E c rp (p # ps) w =
     (case addNewPeer E c rp p w of
        None \<Rightarrow> None
      | Some (Some e, w1) \<Rightarrow> Some (Some e, w1)
      | Some (None, w1) \<Rightarrow> addNewPeers E c rp ps w1)"

definition removePeer :: "('w, 'c) peer_env \<Rightarrow> string \<Rightarrow> 'w \<Rightarrow> go_error option \<times> 'w" where
  "removePeer E k w = (None, snd (status_RemovePeer E k (RemovePeerConn E k w)))"

fun remove_peers_loop :: "('w, 'c) peer_env \<Rightarrow> string list \<Rightarrow> 'w \<Rightarrow> go_error option \<times> 'w" where
  "remove_peers_loop E [] w = (None, w)"
| "remove_peers_loop E (k # ks) w =
     (case removePeer E k w of (Some e, w1) \<Rightarrow> (Some e, w1) | (None, w1) \<Rightarrow> remove_peers_loop E ks w1)"

definition removeAllPeers :: "('w, 'c) peer_env \<Rightarrow> 'w \<Rightarrow> go_error option \<times> 'w" where
  "removeAllPeers E w = remove_peers_loop E (PeersPubKey E w) w"

definition removePeers :: "('w, 'c) peer_env \<Rightarrow> remote_peer list \<Rightarrow> 'w \<Rightarrow> go_error option \<times> 'w" where
  "removePeers E ps w = remove_peers_loop E (SliceDiff E (PeersPubKey E w) (map rp_WgPubKey ps)) w"

text \<open>The first loop of \<^verbatim>\<open>modifyPeers\<close>: the peers to create again, and the FQDN updates of the others.\<close>

fun modified_peers :: "('w, 'c) peer_env \<Rightarrow> remote_peer list \<Rightarrow> 'w \<Rightarrow> remote_peer list \<times> 'w" where
  "modified_peers E [] w = ([], w)"
| "modified_peers E (p # ps) w =
     (case PeerConn E (rp_WgPubKey p) w of
        None \<Rightarrow> modified_peers E ps w
      | Some conn \<Rightarrow>
        if AgentVersionString E conn \<noteq> rp_AgentVersion p
        then (case modified_peers E ps w of (ms, w1) \<Rightarrow> (p # ms, w1))
        else (case store_AllowedIPs E (rp_WgPubKey p) w of
                None \<Rightarrow> modified_peers E ps w
              | Some ips \<Rightarrow>
                if \<not> compareNetIPLists ips (rp_AllowedIps p)
                then (case modified_peers E ps w of (ms, w1) \<Rightarrow> (p # ms, w1))
                else modified_peers E ps (snd (UpdatePeerFQDN E (rp_WgPubKey p) (rp_Fqdn p) w))))"

definition modifyPeers ::
    "('w, 'c) peer_env \<Rightarrow> engine_config \<Rightarrow> bool \<Rightarrow> remote_peer list \<Rightarrow> 'w \<Rightarrow> (go_error option \<times> 'w) option" where
  "modifyPeers E c rp ps w =
     (case modified_peers E ps w of (ms, w1) \<Rightarrow>
      (case remove_peers_loop E (map rp_WgPubKey ms) w1 of
         (Some e, w2) \<Rightarrow> Some (Some e, w2)
       | (None, w2) \<Rightarrow> addNewPeers E c rp ms w2))"

definition updateOfflinePeers :: "('w, 'c) peer_env \<Rightarrow> remote_peer list \<Rightarrow> 'w \<Rightarrow> 'w" where
  "updateOfflinePeers E offline w =
     ReplaceOfflinePeers E (map (\<lambda>p. \<lparr>ps_IP = strings_Join '','' (rp_AllowedIps p), ps_PubKey = rp_WgPubKey p,
       ps_FQDN = rp_Fqdn p\<rparr>) offline) w"

text \<open>The peer part of \<^verbatim>\<open>updateNetworkMap\<close> when the map does not ask for a cleanup.\<close>

definition update_remote_peers ::
    "('w, 'c) peer_env \<Rightarrow> engine_config \<Rightarrow> bool \<Rightarrow> remote_peer list \<Rightarrow> 'w \<Rightarrow> (go_error option \<times> 'w) option" where
  "update_remote_peers E c rp ps w =
     (case removePeers E ps w of
        (Some e, w1) \<Rightarrow> Some (Some e, w1)
      | (None, w1) \<Rightarrow>
        (case modifyPeers E c rp ps w1 of
           None \<Rightarrow> None
         | Some (Some e, w2) \<Rightarrow> Some (Some e, w2)
         | Some (None, w2) \<Rightarrow> addNewPeers E c rp ps w2))"

section \<open>The peer store\<close>

text \<open>
  What the engine relies on. \<open>conf\<close> is the configuration a connection was created with. Only adding and removing a
  connection change the store; \<^verbatim>\<open>AddPeerConn\<close> reports a key that is already present and leaves it.
\<close>

definition store :: "('w, 'c) peer_env \<Rightarrow> 'w \<Rightarrow> string \<rightharpoonup> 'c" where
  "store E w = (\<lambda>k. PeerConn E k w)"

definition store_laws :: "('w, 'c) peer_env \<Rightarrow> ('c \<Rightarrow> conn_config) \<Rightarrow> bool" where
  "store_laws E conf \<longleftrightarrow>
     (\<forall>w. set (PeersPubKey E w) = dom (store E w)) \<and>
     (\<forall>k w. store_AllowedIPs E k w = map_option (\<lambda>c. cc_AllowedIps (conf c)) (store E w k)) \<and>
     (\<forall>c. AgentVersionString E c = cc_AgentVersion (conf c)) \<and>
     (\<forall>k w. store E (RemovePeerConn E k w) = (store E w)(k := None)) \<and>
     (\<forall>k c w. store E w k = None \<longrightarrow> \<not> fst (AddPeerConn E k c w) \<and> store E (snd (AddPeerConn E k c w)) = (store E w)(k \<mapsto> c)) \<and>
     (\<forall>k c w. store E w k \<noteq> None \<longrightarrow> fst (AddPeerConn E k c w) \<and> store E (snd (AddPeerConn E k c w)) = store E w) \<and>
     (\<forall>x w. store E (snd (NewConn E x w)) = store E w) \<and>
     (\<forall>x w c. fst (NewConn E x w) = Inr c \<longrightarrow> conf c = x) \<and>
     (\<forall>c w. store E (conn_SetRosenpassHandlers E c w) = store E w) \<and>
     (\<forall>c b w. store E (conn_Close E c b w) = store E w) \<and>
     (\<forall>k f i w. store E (snd (status_AddPeer E k f i w)) = store E w) \<and>
     (\<forall>k w. store E (snd (status_RemovePeer E k w)) = store E w) \<and>
     (\<forall>k f w. store E (snd (UpdatePeerFQDN E k f w)) = store E w) \<and>
     (\<forall>n w. store E (snd (rand_Intn E n w)) = store E w \<and> (0 < n \<longrightarrow> fst (rand_Intn E n w) < n)) \<and>
     (\<forall>xs ys. set (SliceDiff E xs ys) = set xs - set ys)"

definition conn_matches :: "('c \<Rightarrow> conn_config) \<Rightarrow> 'c \<Rightarrow> remote_peer \<Rightarrow> bool" where
  "conn_matches conf c p =
     (cc_AgentVersion (conf c) = rp_AgentVersion p \<and> compareNetIPLists (cc_AllowedIps (conf c)) (rp_AllowedIps p))"

definition peer_ok :: "remote_peer \<Rightarrow> bool" where
  "peer_ok p = (case map_result ParsePrefix (rp_AllowedIps p) of Inl _ \<Rightarrow> False | Inr ips \<Rightarrow> ips \<noteq> [])"

definition conns_created :: "('w, 'c) peer_env \<Rightarrow> bool" where
  "conns_created E \<longleftrightarrow> (\<forall>x w. \<exists>c. fst (NewConn E x w) = Inr c)"

section \<open>Each operation on the store\<close>

lemma PeerConn_store: "PeerConn E k w = store E w k"
  by (simp add: store_def)

lemma store_lawsD:
  assumes "store_laws E conf"
  shows "set (PeersPubKey E w) = dom (store E w)"
    and "store_AllowedIPs E k w = map_option (\<lambda>c. cc_AllowedIps (conf c)) (store E w k)"
    and "AgentVersionString E c = cc_AgentVersion (conf c)"
    and "store E (RemovePeerConn E k w) = (store E w)(k := None)"
    and "store E w k = None \<Longrightarrow> \<not> fst (AddPeerConn E k c w)"
    and "store E w k = None \<Longrightarrow> store E (snd (AddPeerConn E k c w)) = (store E w)(k \<mapsto> c)"
    and "store E (snd (NewConn E x w)) = store E w"
    and "fst (NewConn E x w) = Inr c \<Longrightarrow> conf c = x"
    and "store E (conn_SetRosenpassHandlers E c w) = store E w"
    and "store E (snd (status_AddPeer E k f i w)) = store E w"
    and "store E (snd (status_RemovePeer E k w)) = store E w"
    and "store E (snd (UpdatePeerFQDN E k f w)) = store E w"
    and "store E (snd (rand_Intn E n w)) = store E w"
    and "0 < n \<Longrightarrow> fst (rand_Intn E n w) < n"
    and "set (SliceDiff E xs ys) = set xs - set ys"
proof -
  note a = assms [unfolded store_laws_def]
  show "fst (NewConn E x w) = Inr c \<Longrightarrow> conf c = x" using a by (elim conjE) blast
qed (use assms in \<open>simp_all add: store_laws_def\<close>)

lemma removePeer_store:
  assumes "store_laws E conf"
  shows "fst (removePeer E k w) = None" and "store E (snd (removePeer E k w)) = (store E w)(k := None)"
  by (simp_all add: removePeer_def store_lawsD [OF assms])

lemma remove_peers_loop_store:
  assumes L: "store_laws E conf"
  shows "fst (remove_peers_loop E ks w) = None \<and> store E (snd (remove_peers_loop E ks w)) = (store E w) |` (- set ks)"
proof (induction ks arbitrary: w)
  case (Cons k ks)
  obtain w1 where 1: "removePeer E k w = (None, w1)" using removePeer_store(1) [OF L] by (metis prod.collapse)
  then show ?case using Cons [of w1] removePeer_store(2) [OF L, of k w] by (auto simp: restrict_map_def fun_eq_iff)
qed (simp add: restrict_map_def fun_eq_iff)

definition is_modified :: "('w, 'c) peer_env \<Rightarrow> ('c \<Rightarrow> conn_config) \<Rightarrow> 'w \<Rightarrow> remote_peer \<Rightarrow> bool" where
  "is_modified E conf w p = (case store E w (rp_WgPubKey p) of None \<Rightarrow> False | Some c \<Rightarrow> \<not> conn_matches conf c p)"

lemma modified_peers_spec:
  assumes L: "store_laws E conf"
  shows "fst (modified_peers E ps w) = filter (is_modified E conf w) ps \<and> store E (snd (modified_peers E ps w)) = store E w"
proof (induction ps arbitrary: w)
  case (Cons p ps)
  have inv: "is_modified E conf (snd (UpdatePeerFQDN E k f w)) = is_modified E conf w" for k f
    by (simp add: fun_eq_iff is_modified_def store_lawsD [OF L])
  show ?case
    using Cons [of w] Cons [of "snd (UpdatePeerFQDN E (rp_WgPubKey p) (rp_Fqdn p) w)"]
    by (cases "store E w (rp_WgPubKey p)")
       (auto simp: PeerConn_store store_lawsD(2,3,12) [OF L] is_modified_def conn_matches_def inv split: prod.splits)
qed simp

lemma timeout_range: "PeerConnectionTimeoutMax - PeerConnectionTimeoutMin = 15000"
  by (simp add: PeerConnectionTimeoutMax_def PeerConnectionTimeoutMin_def)

lemma createPeerConn_spec:
  assumes L: "store_laws E conf"
  shows "store E (snd (createPeerConn E c rp k ips v w)) = store E w"
    and "fst (createPeerConn E c rp k ips v w) = Inr conn \<Longrightarrow>
      cc_Key (conf conn) = k \<and> cc_AgentVersion (conf conn) = v \<and> cc_AllowedIps (conf conn) = ips \<and>
      PeerConnectionTimeoutMin \<le> cc_Timeout (conf conn) \<and> cc_Timeout (conf conn) < PeerConnectionTimeoutMax"
    and "conns_created E \<Longrightarrow> \<exists>conn. fst (createPeerConn E c rp k ips v w) = Inr conn"
proof -
  obtain n w1 where r: "rand_Intn E 15000 w = (n, w1)" by fastforce
  have r': "store E w1 = store E w" "n < 15000"
    using store_lawsD(13) [OF L, of 15000 w] store_lawsD(14) [OF L, of 15000 w] r by auto
  define x where "x = \<lparr>cc_Key = k, cc_LocalKey = PublicKeyString E (ec_WgPrivateKey c),
              cc_AgentVersion = v, cc_Timeout = n + PeerConnectionTimeoutMin, cc_AllowedIps = ips,
              cc_PreSharedKey = ec_PreSharedKey c, cc_WgListenPort = ec_WgPort c, cc_LocalWgPort = ec_WgPort c,
              cc_RosenpassPubKey = getRosenpassPubKey E rp w1, cc_RosenpassAddr = getRosenpassAddr E rp w1,
              cc_RosenpassPermissive = ec_RosenpassPermissive c\<rparr>"
  obtain res w2 where nc: "NewConn E x w1 = (res, w2)" by fastforce
  have st: "store E w2 = store E w" using store_lawsD(7) [OF L, of x w1] nc r' by simp
  have eq: "createPeerConn E c rp k ips v w = (case res of Inl e \<Rightarrow> (Inl e, w2)
      | Inr conn \<Rightarrow> (Inr conn, if rp then conn_SetRosenpassHandlers E conn w2 else w2))"
    unfolding createPeerConn_def timeout_range r prod.case x_def [symmetric] nc by (simp split: sum.splits)
  show "store E (snd (createPeerConn E c rp k ips v w)) = store E w"
    by (simp add: eq st store_lawsD(9) [OF L] split: sum.splits)
  show "cc_Key (conf conn) = k \<and> cc_AgentVersion (conf conn) = v \<and> cc_AllowedIps (conf conn) = ips \<and>
      PeerConnectionTimeoutMin \<le> cc_Timeout (conf conn) \<and> cc_Timeout (conf conn) < PeerConnectionTimeoutMax"
    if "fst (createPeerConn E c rp k ips v w) = Inr conn"
  proof -
    have "res = Inr conn" using that by (auto simp: eq split: sum.splits)
    then have "conf conn = x" using store_lawsD(8) [OF L, of x w1 conn] nc by simp
    then show ?thesis using r' by (simp add: x_def PeerConnectionTimeoutMin_def PeerConnectionTimeoutMax_def)
  qed
  show "\<exists>conn. fst (createPeerConn E c rp k ips v w) = Inr conn" if "conns_created E"
  proof -
    have "\<exists>conn. res = Inr conn" using that nc by (metis conns_created_def fst_conv)
    then show ?thesis by (auto simp: eq)
  qed
qed

lemma peer_ok_ips: "peer_ok p \<Longrightarrow> \<exists>ip ips. map_result ParsePrefix (rp_AllowedIps p) = Inr (ip # ips)"
  by (auto simp: peer_ok_def neq_Nil_conv split: sum.splits)

lemma addNewPeer_fresh:
  assumes L: "store_laws E conf" and fresh: "store E w (rp_WgPubKey p) = None"
    and ips: "map_result ParsePrefix (rp_AllowedIps p) = Inr (ip # ips)"
    and conn: "fst (createPeerConn E c rp (rp_WgPubKey p) (ip # ips) (rp_AgentVersion p) w) = Inr conn"
  shows "\<exists>w'. addNewPeer E c rp p w = Some (None, w') \<and> store E w' = (store E w)(rp_WgPubKey p \<mapsto> conn) \<and> conn_matches conf conn p"
proof -
  obtain w1 where 1: "createPeerConn E c rp (rp_WgPubKey p) (ip # ips) (rp_AgentVersion p) w = (Inr conn, w1)"
    using conn by (metis prod.collapse)
  have st1: "store E w1 = store E w" using createPeerConn_spec(1) [OF L] 1 by (metis snd_conv)
  obtain r2 w2 where 2: "status_AddPeer E (rp_WgPubKey p) (rp_Fqdn p) (Addr_String (pfx_Addr ip)) w1 = (r2, w2)" by fastforce
  have st2: "store E w2 = store E w" using store_lawsD(10) [OF L] st1 2 by (metis snd_conv)
  obtain x w3 where 3: "AddPeerConn E (rp_WgPubKey p) conn w2 = (x, w3)" by fastforce
  have x: "\<not> x" "store E w3 = (store E w)(rp_WgPubKey p \<mapsto> conn)"
    using store_lawsD(5,6) [OF L, of w2 "rp_WgPubKey p" conn] fresh st2 3 by simp_all
  have "conn_matches conf conn p"
    using createPeerConn_spec(2) [OF L conn] ips by (auto simp: conn_matches_def compareNetIPLists_mset)
  then show ?thesis using fresh ips 1 2 3 x by (simp add: addNewPeer_def PeerConn_store)
qed

lemma addNewPeer_cases:
  assumes L: "store_laws E conf" and r: "addNewPeer E c rp p w = Some (r, w')"
  shows "store E w' = store E w \<or> (store E w (rp_WgPubKey p) = None \<and> (\<exists>conn. store E w' = (store E w)(rp_WgPubKey p \<mapsto> conn)))"
proof (cases "store E w (rp_WgPubKey p)")
  case (Some conn)
  then show ?thesis using r by (simp add: addNewPeer_def PeerConn_store)
next
  case None
  show ?thesis
  proof (cases "map_result ParsePrefix (rp_AllowedIps p)")
    case (Inl e)
    then show ?thesis using r None by (simp add: addNewPeer_def PeerConn_store)
  next
    case (Inr ips)
    show ?thesis
    proof (cases "fst (createPeerConn E c rp (rp_WgPubKey p) ips (rp_AgentVersion p) w)")
      case (Inl e)
      then show ?thesis using r None Inr createPeerConn_spec(1) [OF L]
        by (auto simp: addNewPeer_def PeerConn_store split_def split: sum.splits)
    next
      case conn: (Inr conn)
      show ?thesis
      proof (cases ips)
        case Nil
        then show ?thesis using r None Inr conn by (simp add: addNewPeer_def PeerConn_store split: prod.splits)
      next
        case (Cons ip ips')
        then show ?thesis using addNewPeer_fresh [OF L None, of ip ips' c rp conn] Inr conn r None by auto
      qed
    qed
  qed
qed

lemma addNewPeers_dom:
  assumes L: "store_laws E conf"
  shows "addNewPeers E c rp ps w = Some (r, w') \<Longrightarrow> dom (store E w') \<subseteq> dom (store E w) \<union> rp_WgPubKey ` set ps"
proof (induction ps arbitrary: w)
  case (Cons p ps)
  then obtain r1 w1 where 1: "addNewPeer E c rp p w = Some (r1, w1)" by (auto split: option.splits)
  have "dom (store E w1) \<subseteq> insert (rp_WgPubKey p) (dom (store E w))"
    using addNewPeer_cases [OF L 1] by auto
  moreover have "dom (store E w') \<subseteq> dom (store E w1) \<union> rp_WgPubKey ` set ps"
    using Cons.IH [of w1] Cons.prems 1 by (cases r1) auto
  ultimately show ?case unfolding list.set image_insert by blast
qed simp

definition added :: "('w, 'c) peer_env \<Rightarrow> ('c \<Rightarrow> conn_config) \<Rightarrow> remote_peer list \<Rightarrow> 'w \<Rightarrow> 'w \<Rightarrow> bool" where
  "added E conf ps w w' \<longleftrightarrow> dom (store E w') = dom (store E w) \<union> rp_WgPubKey ` set ps \<and>
     (\<forall>k \<in> dom (store E w). store E w' k = store E w k) \<and>
     (\<forall>p \<in> set ps. store E w (rp_WgPubKey p) = None \<longrightarrow> (\<exists>x. store E w' (rp_WgPubKey p) = Some x \<and> conn_matches conf x p))"

lemma added_Cons:
  assumes 1: "added E conf [p] w w1" and 2: "added E conf ps w1 w2" and new: "rp_WgPubKey p \<notin> rp_WgPubKey ` set ps"
  shows "added E conf (p # ps) w w2"
proof -
  have d1: "dom (store E w1) = insert (rp_WgPubKey p) (dom (store E w))"
    and k1: "\<And>k. k \<in> dom (store E w) \<Longrightarrow> store E w1 k = store E w k"
    and n1: "store E w (rp_WgPubKey p) = None \<Longrightarrow> \<exists>x. store E w1 (rp_WgPubKey p) = Some x \<and> conn_matches conf x p"
    using 1 by (simp_all add: added_def)
  have d2: "dom (store E w2) = dom (store E w1) \<union> rp_WgPubKey ` set ps"
    and k2: "\<And>k. k \<in> dom (store E w1) \<Longrightarrow> store E w2 k = store E w1 k"
    and n2: "\<And>q. q \<in> set ps \<Longrightarrow> store E w1 (rp_WgPubKey q) = None \<Longrightarrow> \<exists>x. store E w2 (rp_WgPubKey q) = Some x \<and> conn_matches conf x q"
    using 2 by (simp_all add: added_def)
  have "\<exists>x. store E w2 (rp_WgPubKey q) = Some x \<and> conn_matches conf x q"
    if q: "q \<in> set (p # ps)" and z: "store E w (rp_WgPubKey q) = None" for q
  proof (cases "q = p")
    case True
    then show ?thesis using n1 k2 [of "rp_WgPubKey p"] d1 z by simp
  next
    case False
    then have q': "q \<in> set ps" using q by simp
    then have "rp_WgPubKey q \<noteq> rp_WgPubKey p" using new by (metis imageI)
    then have "rp_WgPubKey q \<notin> dom (store E w1)" using d1 z by (simp add: domIff)
    then have "store E w1 (rp_WgPubKey q) = None" by (simp add: domIff)
    then show ?thesis by (rule n2 [OF q'])
  qed
  moreover have "store E w2 k = store E w k" if "k \<in> dom (store E w)" for k
    using k1 [OF that] k2 [of k] d1 that by simp
  moreover have "dom (store E w2) = dom (store E w) \<union> rp_WgPubKey ` set (p # ps)" using d1 d2 by auto
  ultimately show ?thesis unfolding added_def by blast
qed

lemma added_kept: "added E conf ps w w' \<Longrightarrow> store E w k = Some y \<Longrightarrow> store E w' k = Some y"
  by (simp add: added_def domI)

lemma addNewPeer_ok:
  assumes L: "store_laws E conf" and nc: "conns_created E" and ok: "peer_ok p"
  shows "\<exists>w'. addNewPeer E c rp p w = Some (None, w') \<and> added E conf [p] w w'"
proof (cases "store E w (rp_WgPubKey p)")
  case None
  obtain ip ips where i: "map_result ParsePrefix (rp_AllowedIps p) = Inr (ip # ips)"
    using peer_ok_ips [OF ok] by auto
  obtain conn where "fst (createPeerConn E c rp (rp_WgPubKey p) (ip # ips) (rp_AgentVersion p) w) = Inr conn"
    using createPeerConn_spec(3) [OF L nc] by blast
  from addNewPeer_fresh [OF L None i this] None show ?thesis by (auto simp: added_def)
qed (auto simp: addNewPeer_def PeerConn_store added_def)

lemma addNewPeers_ok:
  assumes L: "store_laws E conf" and nc: "conns_created E"
  shows "list_all peer_ok ps \<Longrightarrow> distinct (map rp_WgPubKey ps) \<Longrightarrow>
    \<exists>w'. addNewPeers E c rp ps w = Some (None, w') \<and> added E conf ps w w'"
proof (induction ps arbitrary: w)
  case (Cons p ps)
  obtain w1 where 1: "addNewPeer E c rp p w = Some (None, w1)" "added E conf [p] w w1"
    using addNewPeer_ok [OF L nc, of p c rp w] Cons.prems(1) by auto
  obtain w2 where 2: "addNewPeers E c rp ps w1 = Some (None, w2)" "added E conf ps w1 w2"
    using Cons by fastforce
  have "added E conf (p # ps) w w2" using added_Cons [OF 1(2) 2(2)] Cons.prems(2) by simp
  then show ?case using 1(1) 2(1) by simp
qed (simp add: added_def)

section \<open>The whole update\<close>

lemma removePeers_store:
  assumes L: "store_laws E conf"
  shows "\<exists>w'. removePeers E ps w = (None, w') \<and> store E w' = (store E w) |` (rp_WgPubKey ` set ps)"
proof -
  let ?ks = "SliceDiff E (PeersPubKey E w) (map rp_WgPubKey ps)"
  have "set ?ks = dom (store E w) - rp_WgPubKey ` set ps" by (simp add: store_lawsD(1,15) [OF L])
  then have "(store E w) |` (- set ?ks) = (store E w) |` (rp_WgPubKey ` set ps)"
    by (auto simp: restrict_map_def fun_eq_iff)
  then show ?thesis
    using remove_peers_loop_store [OF L, of ?ks w] by (metis prod.collapse removePeers_def)
qed

lemma modifyPeers_removed:
  assumes L: "store_laws E conf"
  shows "\<exists>w1. modifyPeers E c rp ps w = addNewPeers E c rp (filter (is_modified E conf w) ps) w1 \<and>
    store E w1 = (store E w) |` (- rp_WgPubKey ` set (filter (is_modified E conf w) ps))"
proof -
  obtain ms w1 where 1: "modified_peers E ps w = (ms, w1)" by fastforce
  have m: "ms = filter (is_modified E conf w) ps" "store E w1 = store E w"
    using modified_peers_spec [OF L, of ps w] 1 by simp_all
  obtain r w2 where 2: "remove_peers_loop E (map rp_WgPubKey ms) w1 = (r, w2)" by fastforce
  have "r = None" "store E w2 = (store E w1) |` (- set (map rp_WgPubKey ms))"
    using remove_peers_loop_store [OF L, of "map rp_WgPubKey ms" w1] 2 by simp_all
  then show ?thesis using 1 2 m by (intro exI [of _ w2]) (simp add: modifyPeers_def)
qed

lemma update_each:
  assumes d: "distinct (map rp_WgPubKey ps)" and p: "p \<in> set ps"
    and s1w: "store E w1 = (store E w) |` (rp_WgPubKey ` set ps)" and ms_def: "ms = filter (is_modified E conf w1) ps"
    and s2w: "store E w2 = (store E w1) |` (- rp_WgPubKey ` set ms)"
    and a3: "added E conf ms w2 w3" and a4: "added E conf ps w3 w4"
  shows "\<exists>x. store E w4 (rp_WgPubKey p) = Some x \<and> conn_matches conf x p \<and>
    (\<forall>y. store E w (rp_WgPubKey p) = Some y \<longrightarrow> conn_matches conf y p \<longrightarrow> x = y)"
proof (cases "store E w (rp_WgPubKey p)")
  case None
  then have "rp_WgPubKey p \<notin> rp_WgPubKey ` set ms" "store E w2 (rp_WgPubKey p) = None"
    by (auto simp: ms_def is_modified_def s1w s2w restrict_map_def split: option.splits)
  then have "store E w3 (rp_WgPubKey p) = None" using a3 by (auto simp: added_def)
  then show ?thesis using a4 p None by (auto simp: added_def)
next
  case (Some y)
  have s1: "store E w1 (rp_WgPubKey p) = Some y" using Some p by (simp add: s1w)
  show ?thesis
  proof (cases "conn_matches conf y p")
    case True
    have "rp_WgPubKey p \<notin> rp_WgPubKey ` set ms"
    proof
      assume "rp_WgPubKey p \<in> rp_WgPubKey ` set ms"
      then obtain q where q: "q \<in> set ms" "rp_WgPubKey q = rp_WgPubKey p" by auto
      then have "q = p" using d p by (auto simp: ms_def distinct_map inj_on_def)
      then show False using q(1) True s1 by (simp add: ms_def is_modified_def)
    qed
    then have "store E w2 (rp_WgPubKey p) = Some y" using s1 by (simp add: s2w)
    then have "store E w4 (rp_WgPubKey p) = Some y" by (metis added_kept a3 a4)
    then show ?thesis using True Some by simp
  next
    case False
    then have m: "p \<in> set ms" using p s1 by (simp add: ms_def is_modified_def)
    then have "store E w2 (rp_WgPubKey p) = None" by (simp add: s2w)
    then obtain x where "store E w3 (rp_WgPubKey p) = Some x" "conn_matches conf x p" using a3 m by (auto simp: added_def)
    then show ?thesis using added_kept [OF a4] False Some by auto
  qed
qed

lemma update_remote_peers_ok:
  assumes L: "store_laws E conf" and nc: "conns_created E"
    and ok: "list_all peer_ok ps" and d: "distinct (map rp_WgPubKey ps)"
  shows "\<exists>w'. update_remote_peers E c rp ps w = Some (None, w') \<and> dom (store E w') = rp_WgPubKey ` set ps \<and>
    (\<forall>p \<in> set ps. \<exists>x. store E w' (rp_WgPubKey p) = Some x \<and> conn_matches conf x p \<and>
       (\<forall>y. store E w (rp_WgPubKey p) = Some y \<longrightarrow> conn_matches conf y p \<longrightarrow> x = y))"
proof -
  let ?K = "rp_WgPubKey ` set ps"
  obtain w1 where 1: "removePeers E ps w = (None, w1)" "store E w1 = (store E w) |` ?K"
    using removePeers_store [OF L] by blast
  define ms where "ms = filter (is_modified E conf w1) ps"
  obtain w2 where 2: "modifyPeers E c rp ps w1 = addNewPeers E c rp ms w2" "store E w2 = (store E w1) |` (- rp_WgPubKey ` set ms)"
    using modifyPeers_removed [OF L, of c rp ps w1] by (auto simp: ms_def)
  have "list_all peer_ok ms" "distinct (map rp_WgPubKey ms)"
    using ok d by (auto simp: ms_def list_all_iff distinct_map inj_on_def)
  then obtain w3 where 3: "addNewPeers E c rp ms w2 = Some (None, w3)" "added E conf ms w2 w3"
    using addNewPeers_ok [OF L nc] by blast
  obtain w4 where 4: "addNewPeers E c rp ps w3 = Some (None, w4)" "added E conf ps w3 w4"
    using addNewPeers_ok [OF L nc ok d] by blast
  have K: "dom (store E w3) \<subseteq> ?K"
    using 3(2) by (auto simp: added_def 2(2) 1(2) ms_def restrict_map_def split: if_splits)
  have "dom (store E w4) = ?K" using 4(2) K by (auto simp: added_def)
  then show ?thesis using update_each [OF d _ 1(2) ms_def 2(2) 3(2) 4(2)] 1(1) 2(1) 3(1) 4(1) by (simp add: update_remote_peers_def)
qed

lemma update_remote_peers_dom:
  assumes L: "store_laws E conf" and r: "update_remote_peers E c rp ps w = Some (r, w')"
  shows "dom (store E w') \<subseteq> rp_WgPubKey ` set ps"
proof -
  let ?K = "rp_WgPubKey ` set ps"
  obtain w1 where 1: "removePeers E ps w = (None, w1)" "store E w1 = (store E w) |` ?K"
    using removePeers_store [OF L] by blast
  obtain w2 where 2: "modifyPeers E c rp ps w1 = addNewPeers E c rp (filter (is_modified E conf w1) ps) w2"
      "store E w2 = (store E w1) |` (- rp_WgPubKey ` set (filter (is_modified E conf w1) ps))"
    using modifyPeers_removed [OF L] by blast
  have d2: "dom (store E w2) \<subseteq> ?K" using 1(2) 2(2) by (auto simp: restrict_map_def split: if_splits)
  obtain r3 w3 where 3: "addNewPeers E c rp (filter (is_modified E conf w1) ps) w2 = Some (r3, w3)"
    using r 1(1) 2(1) by (auto simp: update_remote_peers_def split: option.splits)
  have "dom (store E w3) \<subseteq> ?K" using addNewPeers_dom [OF L 3] d2 by auto
  moreover have "dom (store E w') \<subseteq> dom (store E w3) \<union> ?K"
    using r 1(1) 2(1) 3 addNewPeers_dom [OF L, of c rp ps w3 r w'] by (cases r3) (simp_all add: update_remote_peers_def)
  ultimately show ?thesis by blast
qed

lemma removeAllPeers_empty:
  assumes L: "store_laws E conf"
  shows "fst (removeAllPeers E w) = None \<and> store E (snd (removeAllPeers E w)) = Map.empty"
  using remove_peers_loop_store [OF L, of "PeersPubKey E w" w]
  by (auto simp: removeAllPeers_def store_lawsD(1) [OF L] restrict_map_def fun_eq_iff domIff)

text \<open>C1. Applying the remote peers of a network map succeeds and leaves in the store exactly the peers of the map. Each has a
  connection created with the agent version and the allowed addresses of the map, and a connection that already matched
  is kept as it is.\<close>

theorem update_remote_peers_exact:
  assumes "store_laws E conf" and "conns_created E" and "list_all peer_ok ps" and "distinct (map rp_WgPubKey ps)"
  shows "\<exists>w'. update_remote_peers E c rp ps w = Some (None, w') \<and> dom (store E w') = rp_WgPubKey ` set ps \<and>
    (\<forall>p \<in> set ps. \<exists>x. store E w' (rp_WgPubKey p) = Some x \<and> conn_matches conf x p \<and>
       (\<forall>y. store E w (rp_WgPubKey p) = Some y \<longrightarrow> conn_matches conf y p \<longrightarrow> x = y))"
  using assms by (rule update_remote_peers_ok)

text \<open>C6. Whatever happens while a network map is applied, also when an error stops it half way, no connection remains to a peer
  the map does not contain.\<close>

theorem revoked_peers_dropped:
  assumes "store_laws E conf" and "update_remote_peers E c rp ps w = Some (r, w')"
  shows "dom (store E w') \<subseteq> rp_WgPubKey ` set ps"
  using assms by (rule update_remote_peers_dom)

text \<open>Adding a peer panics exactly when the peer is unknown, the map gives it no allowed address and its connection can be
  created: the code then reads the first element of an empty list.\<close>

theorem addNewPeer_panics_iff:
  "addNewPeer E c rp p w = None \<longleftrightarrow> PeerConn E (rp_WgPubKey p) w = None \<and> rp_AllowedIps p = [] \<and>
     (\<exists>conn. fst (createPeerConn E c rp (rp_WgPubKey p) [] (rp_AgentVersion p) w) = Inr conn)"
proof (cases "map_result ParsePrefix (rp_AllowedIps p)")
  case (Inl e)
  then show ?thesis by (auto simp: addNewPeer_def)
next
  case (Inr ips)
  moreover have "ips = [] \<longleftrightarrow> rp_AllowedIps p = []" using map_result_length [OF Inr] by auto
  ultimately show ?thesis
    by (cases ips; cases "createPeerConn E c rp (rp_WgPubKey p) ips (rp_AgentVersion p) w")
       (auto simp: addNewPeer_def split: sum.splits prod.splits)
qed

text \<open>A connection is created for the given peer with a random timeout of at least thirty and less than forty-five seconds.\<close>

theorem createPeerConn_timeout:
  assumes "store_laws E conf" and "fst (createPeerConn E c rp k ips v w) = Inr conn"
  shows "PeerConnectionTimeoutMin \<le> cc_Timeout (conf conn) \<and> cc_Timeout (conf conn) < PeerConnectionTimeoutMax \<and>
    cc_Key (conf conn) = k \<and> cc_AllowedIps (conf conn) = ips \<and> cc_AgentVersion (conf conn) = v"
  using createPeerConn_spec(2) [OF assms] by blast

section \<open>A store to evaluate on\<close>

definition sample_peers :: "((string \<times> conn_config) list, conn_config) peer_env" where
  "sample_peers = \<lparr>PeersPubKey = map fst, PeerConn = (\<lambda>k w. map_of w k),
     store_AllowedIPs = (\<lambda>k w. map_option cc_AllowedIps (map_of w k)), AgentVersionString = cc_AgentVersion,
     RemovePeerConn = AList.delete, AddPeerConn = (\<lambda>k c w. case map_of w k of None \<Rightarrow> (False, (k, c) # w) | Some _ \<Rightarrow> (True, w)),
     NewConn = (\<lambda>x w. (Inr x, w)), conn_Close = (\<lambda>c b w. w), conn_SetRosenpassHandlers = (\<lambda>c w. w),
     status_AddPeer = (\<lambda>k f i w. (None, w)), status_RemovePeer = (\<lambda>k w. (None, w)), UpdatePeerFQDN = (\<lambda>k f w. (None, w)),
     ReplaceOfflinePeers = (\<lambda>ps w. w), SliceDiff = (\<lambda>xs ys. filter (\<lambda>x. x \<notin> set ys) xs), rand_Intn = (\<lambda>n w. (0, w)),
     PublicKeyString = (\<lambda>k. ''pub''), rp_GetPubKey = (\<lambda>w. []), rp_GetAddress = (\<lambda>w. [])\<rparr>"

definition sample_config :: engine_config where
  "sample_config = \<lparr>ec_WgPort = 51820, ec_WgIfaceName = ''wt0'', ec_WgAddr = ''100.64.0.1/16'', ec_WgPrivateKey = [],
     ec_NetworkMonitor = False, ec_IFaceBlackList = [], ec_DisableIPv6Discovery = False, ec_PreSharedKey = None, ec_UDPMuxPort = 0,
     ec_UDPMuxSrflxPort = 0, ec_SSHKey = [], ec_NATExternalIPs = [], ec_CustomDNSAddress = [], ec_RosenpassEnabled = False,
     ec_RosenpassPermissive = False, ec_ServerSSHAllowed = False, ec_EnableSSHRoot = None, ec_EnableSSHSFTP = None,
     ec_EnableSSHLocalPortForwarding = None, ec_EnableSSHRemotePortForwarding = None, ec_DisableSSHAuth = None,
     ec_DNSRouteInterval = 0, ec_DisableClientRoutes = False, ec_DisableServerRoutes = False, ec_DisableDNS = False,
     ec_DisableFirewall = False, ec_BlockLANAccess = False, ec_BlockInbound = False, ec_LazyConnectionEnabled = False, ec_MTU = 1280\<rparr>"

definition sample_peer :: "string \<Rightarrow> string \<Rightarrow> string \<Rightarrow> remote_peer" where
  "sample_peer k ip v = \<lparr>rp_WgPubKey = k, rp_AllowedIps = [ip], rp_Fqdn = ''host'', rp_AgentVersion = v\<rparr>"

lemma sample_store_laws: "store_laws sample_peers (\<lambda>c. c)"
proof -
  have st: "store sample_peers w = map_of w" for w by (simp add: store_def sample_peers_def)
  have rm: "map_of (RemovePeerConn sample_peers k w) = (map_of w)(k := None)" for k w
    by (simp add: sample_peers_def AList.delete_conv')
  show ?thesis unfolding store_laws_def st rm by (auto simp: sample_peers_def dom_map_of_conv_image_fst split: option.splits)
qed

lemma sample_conns_created: "conns_created sample_peers"
  by (simp add: conns_created_def sample_peers_def)

definition sample_store :: "(string \<times> conn_config) list" where
  "sample_store = snd (the (addNewPeers sample_peers sample_config False
     [sample_peer ''old'' ''10.0.0.9/32'' ''0.1'', sample_peer ''a'' ''10.0.0.1/32'' ''0.1'', sample_peer ''b'' ''10.0.0.2/32'' ''0.1''] []))"

definition sample_update :: "remote_peer list" where
  "sample_update = [sample_peer ''a'' ''10.0.0.1/32'' ''0.1'', sample_peer ''b'' ''10.0.0.2/32'' ''0.2'', sample_peer ''new'' ''10.0.0.3/32'' ''0.1'']"

theorem update_remote_peers_exact_witness:
  "\<exists>w'. update_remote_peers sample_peers sample_config False sample_update sample_store = Some (None, w') \<and>
     dom (store sample_peers w') = {''a'', ''b'', ''new''}"
proof -
  have "list_all peer_ok sample_update" by code_simp
  moreover have "distinct (map rp_WgPubKey sample_update)" by code_simp
  ultimately have "\<exists>w'. update_remote_peers sample_peers sample_config False sample_update sample_store = Some (None, w') \<and>
      dom (store sample_peers w') = rp_WgPubKey ` set sample_update"
    using update_remote_peers_exact [OF sample_store_laws sample_conns_created] by metis
  then show ?thesis by (simp add: sample_update_def sample_peer_def)
qed

theorem revoked_peers_dropped_witness:
  "\<exists>w'. update_remote_peers sample_peers sample_config False [sample_peer ''a'' ''bad'' ''0.2''] sample_store = Some (Some errParsePrefix, w') \<and>
     dom (store sample_peers w') \<subseteq> {''a''}"
proof -
  have "map_option fst (update_remote_peers sample_peers sample_config False [sample_peer ''a'' ''bad'' ''0.2''] sample_store) = Some (Some errParsePrefix)"
    by code_simp
  then obtain w' where w': "update_remote_peers sample_peers sample_config False [sample_peer ''a'' ''bad'' ''0.2''] sample_store = Some (Some errParsePrefix, w')"
    by auto
  from revoked_peers_dropped [OF sample_store_laws w'] w' show ?thesis by (simp add: sample_peer_def)
qed

theorem createPeerConn_timeout_witness:
  "\<exists>conn. fst (createPeerConn sample_peers sample_config False ''k'' [] ''0.1'' sample_store) = Inr conn \<and>
     30000 \<le> cc_Timeout conn \<and> cc_Timeout conn < 45000"
proof -
  obtain conn where c: "fst (createPeerConn sample_peers sample_config False ''k'' [] ''0.1'' sample_store) = Inr conn"
    using createPeerConn_spec(3) [OF sample_store_laws sample_conns_created] by blast
  from createPeerConn_timeout [OF sample_store_laws c] c show ?thesis
    by (simp add: PeerConnectionTimeoutMin_def PeerConnectionTimeoutMax_def)
qed

end
