(* ===== verification/Engine_Sync.thy ===== *)
theory Engine_Sync
  imports Engine_Peers
begin

text \<open>
  The engine's reaction to a message of the management stream, \<^verbatim>\<open>go/internal/engine.go\<close>: \<^verbatim>\<open>handleSync\<close> and everything it
  calls down to \<^verbatim>\<open>updateNetworkMap\<close>.

  The record \<open>engine\<close> holds the fields of \<^verbatim>\<open>Engine\<close> that these functions read or write. A pointer to a component whose
  code is outside the repository is a flag that says whether it is set, its state is part of the world \<open>'w\<close>, and its
  operations are functions of the record \<open>eng_env\<close>. The route manager is the model of \<open>Route_Manager\<close>; while it runs, its
  world is the engine's. A run-time panic (a method called on a nil interface, \<^verbatim>\<open>netip.MustParseAddr\<close>) is \<open>None\<close>. The mutex
  \<^verbatim>\<open>syncMsgMux\<close> makes each operation one atomic step, so that a history of the engine is a sequence of steps.

  The theorems: the serial of the network never decreases and moves only when a map has been applied without an error, an
  outdated map changes nothing but the local peer's state, a successful update leaves exactly the peers and the routes of
  the map, the DNS forwarder and the ingress gateway run exactly when they should, and the stored synchronisation response
  exists only while persistence is enabled, in every reachable state.
\<close>

section \<open>Messages\<close>

datatype port_info = PortUnset | PortSingle "32 word" | PortRange "32 word" "32 word"

record fw_rule =
  fwr_PeerIP :: string
  fwr_Direction :: int
  fwr_Action :: int
  fwr_Protocol :: int
  fwr_Port :: string
  fwr_PortInfo :: port_info
  fwr_PolicyID :: "byte list"

record route_fw_rule =
  rfr_sourceRanges :: "string list"
  rfr_action :: int
  rfr_destination :: string
  rfr_protocol :: int
  rfr_portInfo :: port_info
  rfr_isDynamic :: bool
  rfr_domains :: "string list"
  rfr_customProtocol :: "32 word"
  rfr_PolicyID :: "byte list"
  rfr_RouteID :: string

record peer_config =
  pc_Address :: string
  pc_SshConfig :: bool
  pc_Fqdn :: string
  pc_RoutingPeerDnsResolutionEnabled :: bool
  pc_LazyConnectionEnabled :: bool

record network_map =
  nm_Serial :: "64 word"
  nm_PeerConfig :: "peer_config option"
  nm_RemotePeers :: "remote_peer list"
  nm_RemotePeersIsEmpty :: bool
  nm_Routes :: "proto_route list"
  nm_DNSConfig :: "proto_dns option"
  nm_OfflinePeers :: "remote_peer list"
  nm_FirewallRules :: "fw_rule list"
  nm_FirewallRulesIsEmpty :: bool
  nm_RoutesFirewallRules :: "route_fw_rule list"
  nm_RoutesFirewallRulesIsEmpty :: bool
  nm_ForwardingRules :: "port_info forward_proto list"

record relay_config =
  rc_Urls :: "string list"
  rc_TokenPayload :: string
  rc_TokenSignature :: string

record netbird_config =
  nc_Stuns :: "string list"
  nc_Turns :: "turn_config list"
  nc_Relay :: "relay_config option"
  nc_Flow :: "flow_proto option"

record sync_response =
  sr_NetbirdConfig :: "netbird_config option"
  sr_NetworkMap :: "network_map option"
  sr_Checks :: "string list list"

record sys_flags =
  sf_RosenpassEnabled :: bool
  sf_RosenpassPermissive :: bool
  sf_ServerSSHAllowed :: bool
  sf_DisableClientRoutes :: bool
  sf_DisableServerRoutes :: bool
  sf_DisableDNS :: bool
  sf_DisableFirewall :: bool
  sf_BlockLANAccess :: bool
  sf_BlockInbound :: bool
  sf_LazyConnectionEnabled :: bool
  sf_EnableSSHRoot :: "bool option"
  sf_EnableSSHSFTP :: "bool option"
  sf_EnableSSHLocalPortForwarding :: "bool option"
  sf_EnableSSHRemotePortForwarding :: "bool option"
  sf_DisableSSHAuth :: "bool option"

record local_state =
  ls_IP :: string
  ls_PubKey :: string
  ls_KernelInterface :: bool
  ls_FQDN :: string

section \<open>State and environment\<close>

record ('w, 'k) engine =
  en_config :: engine_config
  en_connMgr :: bool
  en_rpManager :: bool
  en_STUNs :: "stun_uri list"
  en_TURNs :: "stun_uri list"
  en_stunTurn :: "stun_uri list"
  en_cancel :: bool
  en_ctxDone :: bool
  en_clientCancelled :: bool
  en_wgInterface :: "('w, unit) wgiface option"
  en_networkSerial :: "64 word"
  en_networkMonitor :: bool
  en_firewall :: bool
  en_routeManager :: "('w, 'k) dm option"
  en_acl :: bool
  en_dnsForwardMgr :: bool
  en_ingressGatewayMgr :: bool
  en_dnsServer :: bool
  en_checks :: "string list list"
  en_srWatcher :: bool
  en_persistSyncResponse :: bool
  en_latestSyncResponse :: "sync_response option"
  en_flowManager :: bool
  en_wgIfaceMonitor :: bool
  en_goroutines :: nat
  en_world :: 'w

record ('w, 'k, 'c, 'q, 'i) eng_env =
  ee_peers :: "('w, 'c) peer_env"
  ee_rm :: "('w, 'k) rm_env"
  ee_tun :: "('w, unit) tun_env"
  ee_fw :: "(port_info, 'q) fw_conv"
  stun_ParseURI :: "string \<Rightarrow> stun_uri result"
  relay_UpdateToken :: "string \<Rightarrow> string \<Rightarrow> 'w \<Rightarrow> go_error option \<times> 'w"
  relay_UpdateServerURLs :: "string list \<Rightarrow> 'w \<Rightarrow> 'w"
  relay_Serve :: "'w \<Rightarrow> go_error option \<times> 'w"
  flow_Update :: "flow_config \<Rightarrow> 'w \<Rightarrow> go_error option \<times> 'w"
  dns_PopulateManagementDomain :: "string \<Rightarrow> 'w \<Rightarrow> go_error option \<times> 'w"
  dns_UpdateServerConfig :: "netbird_config \<Rightarrow> 'w \<Rightarrow> go_error option \<times> 'w"
  dns_UpdateDNSServer :: "64 word \<Rightarrow> dns_config \<Rightarrow> 'w \<Rightarrow> go_error option \<times> 'w"
  dns_ProbeAvailability :: "'w \<Rightarrow> 'w"
  GetInfoWithChecks :: "string list list \<Rightarrow> 'w \<Rightarrow> 'i result"
  GetInfo :: "'w \<Rightarrow> 'i"
  SyncMeta :: "'i \<Rightarrow> sys_flags \<Rightarrow> 'w \<Rightarrow> go_error option \<times> 'w"
  eng_updateSSH :: "'w \<Rightarrow> go_error option \<times> 'w"
  WireGuardModuleIsLoaded :: "'w \<Rightarrow> bool"
  UpdateLocalPeerState :: "local_state \<Rightarrow> 'w \<Rightarrow> 'w"
  UpdatedRemoteFeatureFlag :: "bool \<Rightarrow> 'w \<Rightarrow> go_error option \<times> 'w"
  fw_LocalIPs :: bool
  fw_UpdateLocalIPs :: "'w \<Rightarrow> go_error option \<times> 'w"
  fw_SetLegacyManagement :: "bool \<Rightarrow> 'w \<Rightarrow> go_error option \<times> 'w"
  addReverseZone :: "dns_config \<Rightarrow> prefix \<Rightarrow> dns_config"
  ForwarderClientPort :: "16 word"
  FromPunycodeList :: "string list \<Rightarrow> string list"
  GetResourceID :: "route \<Rightarrow> string"
  UpdateRouteHAMap :: "hamap \<Rightarrow> 'w \<Rightarrow> 'w"
  acl_ApplyFiltering :: "network_map \<Rightarrow> bool \<Rightarrow> 'w \<Rightarrow> 'w"
  dnsfwd_Start :: "forwarder_entry list \<Rightarrow> 'w \<Rightarrow> go_error option \<times> 'w"
  dnsfwd_Stop :: "'w \<Rightarrow> go_error option \<times> 'w"
  dnsfwd_UpdateDomains :: "forwarder_entry list \<Rightarrow> 'w \<Rightarrow> 'w"
  ingress_Update :: "'q forward_rule list \<Rightarrow> 'w \<Rightarrow> go_error option \<times> 'w"
  ingress_Close :: "'w \<Rightarrow> go_error option \<times> 'w"
  SetIngressGwMgr :: "bool \<Rightarrow> 'w \<Rightarrow> 'w"
  FinishPeerListModifications :: "'w \<Rightarrow> 'w"
  updatePeerSSHHostKeys :: "remote_peer list \<Rightarrow> 'w \<Rightarrow> 'w"
  updateSSHClientConfig :: "remote_peer list \<Rightarrow> 'w \<Rightarrow> go_error option \<times> 'w"
  SetExcludeList :: "string list \<Rightarrow> 'w \<Rightarrow> 'w"
  PublishEvent :: "string \<Rightarrow> 'w \<Rightarrow> 'w"

definition on_world :: "('w \<Rightarrow> 'w) \<Rightarrow> ('w, 'k) engine \<Rightarrow> ('w, 'k) engine" where
  "on_world f e = e\<lparr>en_world := f (en_world e)\<rparr>"

section \<open>Configuration and checks\<close>

definition engine_flags :: "engine_config \<Rightarrow> sys_flags" where
  "engine_flags c = \<lparr>sf_RosenpassEnabled = ec_RosenpassEnabled c, sf_RosenpassPermissive = ec_RosenpassPermissive c,
     sf_ServerSSHAllowed = ec_ServerSSHAllowed c, sf_DisableClientRoutes = ec_DisableClientRoutes c,
     sf_DisableServerRoutes = ec_DisableServerRoutes c, sf_DisableDNS = ec_DisableDNS c,
     sf_DisableFirewall = ec_DisableFirewall c, sf_BlockLANAccess = ec_BlockLANAccess c,
     sf_BlockInbound = ec_BlockInbound c, sf_LazyConnectionEnabled = ec_LazyConnectionEnabled c,
     sf_EnableSSHRoot = ec_EnableSSHRoot c, sf_EnableSSHSFTP = ec_EnableSSHSFTP c,
     sf_EnableSSHLocalPortForwarding = ec_EnableSSHLocalPortForwarding c,
     sf_EnableSSHRemotePortForwarding = ec_EnableSSHRemotePortForwarding c, sf_DisableSSHAuth = ec_DisableSSHAuth c\<rparr>"

definition system_info :: "('w, 'k, 'c, 'q, 'i) eng_env \<Rightarrow> string list list \<Rightarrow> 'w \<Rightarrow> 'i" where
  "system_info E checks w = (case GetInfoWithChecks E checks w of Inl _ \<Rightarrow> GetInfo E w | Inr i \<Rightarrow> i)"

definition updateChecksIfNew ::
    "('w, 'k, 'c, 'q, 'i) eng_env \<Rightarrow> string list list \<Rightarrow> ('w, 'k) engine \<Rightarrow> go_error option \<times> ('w, 'k) engine" where
  "updateChecksIfNew E checks e =
     (if isChecksEqual (en_checks e) checks then (None, e)
      else
        let e1 = e\<lparr>en_checks := checks\<rparr>;
            (r, w) = SyncMeta E (system_info E checks (en_world e1)) (engine_flags (en_config e1)) (en_world e1)
        in (r, e1\<lparr>en_world := w\<rparr>))"

definition handleRelayUpdate ::
    "('w, 'k, 'c, 'q, 'i) eng_env \<Rightarrow> relay_config option \<Rightarrow> ('w, 'k) engine \<Rightarrow> go_error option \<times> ('w, 'k) engine" where
  "handleRelayUpdate E update e =
     (case update of
        None \<Rightarrow> (None, on_world (relay_UpdateServerURLs E []) e)
      | Some c \<Rightarrow>
        (case relay_UpdateToken E (rc_TokenPayload c) (rc_TokenSignature c) (en_world e) of
           (Some err, w) \<Rightarrow> (Some (ErrWrap ''update relay token'' err), e\<lparr>en_world := w\<rparr>)
         | (None, w) \<Rightarrow> (None, e\<lparr>en_world := snd (relay_Serve E (relay_UpdateServerURLs E (rc_Urls c) w))\<rparr>)))"

definition handleFlowUpdate ::
    "('w, 'k, 'c, 'q, 'i) eng_env \<Rightarrow> flow_proto option \<Rightarrow> ('w, 'k) engine \<Rightarrow> (go_error option \<times> ('w, 'k) engine) option" where
  "handleFlowUpdate E config e =
     (case config of
        None \<Rightarrow> Some (None, e)
      | Some c \<Rightarrow>
        (case toFlowLoggerConfig c of
           Inl err \<Rightarrow> Some (Some err, e)
         | Inr fc \<Rightarrow> if \<not> en_flowManager e then None
                     else (case flow_Update E fc (en_world e) of (r, w) \<Rightarrow> Some (r, e\<lparr>en_world := w\<rparr>))))"

definition PopulateNetbirdConfig ::
    "('w, 'k, 'c, 'q, 'i) eng_env \<Rightarrow> netbird_config option \<Rightarrow> string option \<Rightarrow> ('w, 'k) engine
     \<Rightarrow> go_error option \<times> ('w, 'k) engine" where
  "PopulateNetbirdConfig E config mgmtURL e =
     (if \<not> en_dnsServer e then (None, e)
      else
        let w1 = (case mgmtURL of None \<Rightarrow> en_world e | Some u \<Rightarrow> snd (dns_PopulateManagementDomain E u (en_world e)))
        in (case config of
              None \<Rightarrow> (None, e\<lparr>en_world := w1\<rparr>)
            | Some c \<Rightarrow>
              (case dns_UpdateServerConfig E c w1 of
                 (Some err, w2) \<Rightarrow> (Some (ErrWrap ''update DNS server config from NetbirdConfig'' err), e\<lparr>en_world := w2\<rparr>)
               | (None, w2) \<Rightarrow> (None, e\<lparr>en_world := w2\<rparr>))))"

text \<open>The first part of \<^verbatim>\<open>handleSync\<close>, for a message with a \<^verbatim>\<open>NetbirdConfig\<close>.\<close>

definition sync_config ::
    "('w, 'k, 'c, 'q, 'i) eng_env \<Rightarrow> netbird_config \<Rightarrow> ('w, 'k) engine \<Rightarrow> (go_error option \<times> ('w, 'k) engine) option" where
  "sync_config E c e =
     (case updateTURNs (stun_ParseURI E) (nc_Turns c) (en_TURNs e) of
        Inl err \<Rightarrow> Some (Some (ErrWrap ''update TURNs'' err), e)
      | Inr turns \<Rightarrow>
        (let e1 = e\<lparr>en_TURNs := turns\<rparr> in
         case updateSTUNs (stun_ParseURI E) (nc_Stuns c) (en_STUNs e1) of
           Inl err \<Rightarrow> Some (Some (ErrWrap ''update STUNs'' err), e1)
         | Inr stuns \<Rightarrow>
           (let e2 = e1\<lparr>en_STUNs := stuns, en_stunTurn := stuns @ turns\<rparr> in
            case handleRelayUpdate E (nc_Relay c) e2 of
              (Some err, e3) \<Rightarrow> Some (Some err, e3)
            | (None, e3) \<Rightarrow>
              (case handleFlowUpdate E (nc_Flow c) e3 of
                 None \<Rightarrow> None
               | Some (Some err, e4) \<Rightarrow> Some (Some (ErrWrap ''handle the flow configuration'' err), e4)
               | Some (None, e4) \<Rightarrow> Some (None, snd (PopulateNetbirdConfig E (Some c) None e4))))))"

section \<open>Parts of a network map\<close>

definition updateConfig ::
    "('w, 'k, 'c, 'q, 'i) eng_env \<Rightarrow> peer_config \<Rightarrow> ('w, 'k) engine \<Rightarrow> go_error option \<times> ('w, 'k) engine" where
  "updateConfig E conf e =
     (case en_wgInterface e of
        None \<Rightarrow> (Some (ErrMsg ''wireguard interface is not initialized''), e)
      | Some _ \<Rightarrow>
        (let w1 = (if pc_SshConfig conf then snd (eng_updateSSH E (en_world e)) else en_world e);
             st = \<lparr>ls_IP = wg_address_String (tun_WgAddress (ee_tun E) w1),
                   ls_PubKey = PublicKeyString (ee_peers E) (ec_WgPrivateKey (en_config e)),
                   ls_KernelInterface = WireGuardModuleIsLoaded E w1, ls_FQDN = pc_Fqdn conf\<rparr>
         in (None, e\<lparr>en_world := UpdateLocalPeerState E st w1\<rparr>)))"

definition toDNSFeatureFlag :: "network_map \<Rightarrow> bool" where
  "toDNSFeatureFlag nm = (case nm_PeerConfig nm of None \<Rightarrow> False | Some c \<Rightarrow> pc_RoutingPeerDnsResolutionEnabled c)"

definition startDNSForwarder ::
    "('w, 'k, 'c, 'q, 'i) eng_env \<Rightarrow> forwarder_entry list \<Rightarrow> ('w, 'k) engine \<Rightarrow> ('w, 'k) engine" where
  "startDNSForwarder E entries e =
     (case dnsfwd_Start E entries (en_world e) of
        (Some _, w) \<Rightarrow> e\<lparr>en_dnsForwardMgr := False, en_world := w\<rparr>
      | (None, w) \<Rightarrow> e\<lparr>en_dnsForwardMgr := True, en_world := w\<rparr>)"

definition stopDNSForwarder :: "('w, 'k, 'c, 'q, 'i) eng_env \<Rightarrow> ('w, 'k) engine \<Rightarrow> ('w, 'k) engine" where
  "stopDNSForwarder E e =
     (if \<not> en_dnsForwardMgr e then e
      else e\<lparr>en_dnsForwardMgr := False, en_world := snd (dnsfwd_Stop E (en_world e))\<rparr>)"

definition updateDNSForwarder ::
    "('w, 'k, 'c, 'q, 'i) eng_env \<Rightarrow> bool \<Rightarrow> forwarder_entry list \<Rightarrow> ('w, 'k) engine \<Rightarrow> ('w, 'k) engine" where
  "updateDNSForwarder E enabled entries e =
     (if ec_DisableServerRoutes (en_config e) then e
      else if \<not> enabled then stopDNSForwarder E e
      else if entries \<noteq> [] then
        (if \<not> en_dnsForwardMgr e then startDNSForwarder E entries e
         else on_world (dnsfwd_UpdateDomains E entries) e)
      else if en_dnsForwardMgr e then stopDNSForwarder E e
      else e)"

definition updateForwardRules ::
    "('w, 'k, 'c, 'q, 'i) eng_env \<Rightarrow> port_info forward_proto list \<Rightarrow> ('w, 'k) engine
     \<Rightarrow> 'q forward_rule list \<times> go_error list \<times> ('w, 'k) engine" where
  "updateForwardRules E rules e =
     (if \<not> en_firewall e then ([], [], e)
      else if rules = [] then
        (if \<not> en_ingressGatewayMgr e then ([], [], e)
         else (case ingress_Close E (en_world e) of (r, w) \<Rightarrow>
           ([], case r of None \<Rightarrow> [] | Some err \<Rightarrow> [err],
            e\<lparr>en_ingressGatewayMgr := False, en_world := SetIngressGwMgr E False w\<rparr>)))
      else
        let e1 = (if en_ingressGatewayMgr e then e
                  else e\<lparr>en_ingressGatewayMgr := True, en_world := SetIngressGwMgr E True (en_world e)\<rparr>);
            (ok, errs) = convert_rules (ee_fw E) rules
        in (ok, errs, on_world (\<lambda>w. snd (ingress_Update E ok w)) e1))"

definition firewall_settings ::
    "('w, 'k, 'c, 'q, 'i) eng_env \<Rightarrow> network_map \<Rightarrow> ('w, 'k) engine \<Rightarrow> ('w, 'k) engine" where
  "firewall_settings E nm e =
     (if \<not> en_firewall e then e
      else
        let e1 = (if fw_LocalIPs E then on_world (\<lambda>w. snd (fw_UpdateLocalIPs E w)) e else e);
            isLegacy = (nm_RoutesFirewallRules nm = [] \<and> \<not> nm_RoutesFirewallRulesIsEmpty nm)
        in on_world (\<lambda>w. snd (fw_SetLegacyManagement E isLegacy w)) e1)"

definition empty_dns :: proto_dns where
  "empty_dns = \<lparr>pd_ServiceEnable = False, pd_ForwarderPort = 0, pd_CustomZones = [], pd_NameServerGroups = []\<rparr>"

text \<open>
  From the DNS configuration to the filtering rules: the part of \<^verbatim>\<open>updateNetworkMap\<close> that can panic. \<open>map_routes\<close> are the
  classified routes of the map.
\<close>

definition map_routes :: "('w, 'k, 'c, 'q, 'i) eng_env \<Rightarrow> network_map \<Rightarrow> ('w, 'k) dm \<Rightarrow> (string \<times> route) list \<times> hamap" where
  "map_routes E nm m = ClassifyRoutes (ee_rm E) m (toRoutes (FromPunycodeList E) (nm_Routes nm))"

definition route_update ::
    "('w, 'k, 'c, 'q, 'i) eng_env \<Rightarrow> network_map \<Rightarrow> 16 word \<Rightarrow> ('w, 'k) engine \<Rightarrow> ('w, 'k) engine option" where
  "route_update E nm port e =
     (case en_routeManager e of
        None \<Rightarrow> None
      | Some m0 \<Rightarrow>
        (let m1 = SetDNSForwarderPort port m0;
             serverRoutes = fst (map_routes E nm m1);
             clientRoutes = snd (map_routes E nm m1);
             e1 = (if en_connMgr e then on_world (UpdateRouteHAMap E clientRoutes) e else e)
         in map_option
              (\<lambda>r. let m2 = snd r;
                       e2 = e1\<lparr>en_routeManager := Some m2, en_world := dm_world m2\<rparr>
                   in if en_acl e2 then on_world (acl_ApplyFiltering E nm (toDNSFeatureFlag nm)) e2 else e2)
              (UpdateRoutes (ee_rm E) (unat (nm_Serial nm)) serverRoutes clientRoutes (toDNSFeatureFlag nm)
                 (m1\<lparr>dm_world := en_world e1\<rparr>))))"

definition apply_routes ::
    "('w, 'k, 'c, 'q, 'i) eng_env \<Rightarrow> network_map \<Rightarrow> ('w, 'k) engine \<Rightarrow> ('w, 'k) engine option" where
  "apply_routes E nm e =
     (if en_wgInterface e = None then None
      else
        let dns = (case nm_DNSConfig nm of None \<Rightarrow> empty_dns | Some d \<Rightarrow> d) in
        (case toDNSConfig (addReverseZone E) (ForwarderClientPort E) dns (wa_Network (tun_WgAddress (ee_tun E) (en_world e))) of
           None \<Rightarrow> None
         | Some cfg \<Rightarrow>
           if \<not> en_dnsServer e then None
           else route_update E nm (dc_ForwarderPort cfg)
                  (on_world (\<lambda>w. snd (dns_UpdateDNSServer E (nm_Serial nm) cfg w)) e)))"

definition apply_peers ::
    "('w, 'k, 'c, 'q, 'i) eng_env \<Rightarrow> network_map \<Rightarrow> ('w, 'k) engine \<Rightarrow> (go_error option \<times> ('w, 'k) engine) option" where
  "apply_peers E nm e =
     (if nm_RemotePeersIsEmpty nm then
        (case removeAllPeers (ee_peers E) (en_world e) of (r, w) \<Rightarrow>
           Some (r, e\<lparr>en_world := FinishPeerListModifications E w\<rparr>))
      else
        (case update_remote_peers (ee_peers E) (en_config e) (en_rpManager e) (nm_RemotePeers nm) (en_world e) of
           None \<Rightarrow> None
         | Some (Some err, w) \<Rightarrow> Some (Some err, e\<lparr>en_world := w\<rparr>)
         | Some (None, w) \<Rightarrow>
           Some (None, e\<lparr>en_world := snd (updateSSHClientConfig E (nm_RemotePeers nm)
             (updatePeerSSHHostKeys E (nm_RemotePeers nm) (FinishPeerListModifications E w)))\<rparr>)))"

text \<open>What \<^verbatim>\<open>updateNetworkMap\<close> does before it changes peers, and after it.\<close>

definition before_peers ::
    "('w, 'k, 'c, 'q, 'i) eng_env \<Rightarrow> network_map \<Rightarrow> ('w, 'k) engine \<Rightarrow> ('q forward_rule list \<times> ('w, 'k) engine) option" where
  "before_peers E nm e =
     (let lazy = (case nm_PeerConfig nm of None \<Rightarrow> False | Some c \<Rightarrow> pc_LazyConnectionEnabled c);
          e1 = on_world (\<lambda>w. snd (UpdatedRemoteFeatureFlag E lazy w)) e
      in map_option
           (\<lambda>e2. let entries = toRouteDomains (GetResourceID E) (PublicKeyString (ee_peers E) (ec_WgPrivateKey (en_config e2)))
                                (toRoutes (FromPunycodeList E) (nm_Routes nm));
                     e3 = updateDNSForwarder E (toDNSFeatureFlag nm) entries e2;
                     (fwdRules, _, e4) = updateForwardRules E (nm_ForwardingRules nm) e3
                 in (fwdRules, on_world (updateOfflinePeers (ee_peers E) (nm_OfflinePeers nm)) e4))
           (apply_routes E nm (firewall_settings E nm e1)))"

definition after_peers ::
    "('w, 'k, 'c, 'q, 'i) eng_env \<Rightarrow> network_map \<Rightarrow> 'q forward_rule list \<Rightarrow> ('w, 'k) engine \<Rightarrow> ('w, 'k) engine" where
  "after_peers E nm fwdRules e =
     (let e1 = on_world (SetExcludeList E (toExcludedLazyPeers fwdRules (nm_RemotePeers nm))) e;
          e2 = e1\<lparr>en_networkSerial := nm_Serial nm\<rparr>
      in on_world (dns_ProbeAvailability E) e2)"

definition apply_network_map ::
    "('w, 'k, 'c, 'q, 'i) eng_env \<Rightarrow> network_map \<Rightarrow> ('w, 'k) engine \<Rightarrow> (go_error option \<times> ('w, 'k) engine) option" where
  "apply_network_map E nm e =
     (case before_peers E nm e of
        None \<Rightarrow> None
      | Some (fwdRules, e1) \<Rightarrow>
        (case apply_peers E nm e1 of
           None \<Rightarrow> None
         | Some (Some err, e2) \<Rightarrow> Some (Some err, e2)
         | Some (None, e2) \<Rightarrow> Some (None, after_peers E nm fwdRules e2)))"

definition updateNetworkMap ::
    "('w, 'k, 'c, 'q, 'i) eng_env \<Rightarrow> network_map \<Rightarrow> ('w, 'k) engine \<Rightarrow> (go_error option \<times> ('w, 'k) engine) option" where
  "updateNetworkMap E nm e =
     (case (case nm_PeerConfig nm of None \<Rightarrow> (None, e) | Some c \<Rightarrow> updateConfig E c e) of
        (Some err, e1) \<Rightarrow> Some (Some err, e1)
      | (None, e1) \<Rightarrow>
        if en_networkSerial e1 > nm_Serial nm then Some (None, e1)
        else apply_network_map E nm e1)"

section \<open>The handler\<close>

text \<open>The second part of \<^verbatim>\<open>handleSync\<close>: checks, persistence and the network map.\<close>

definition sync_map ::
    "('w, 'k, 'c, 'q, 'i) eng_env \<Rightarrow> sync_response \<Rightarrow> ('w, 'k) engine \<Rightarrow> (go_error option \<times> ('w, 'k) engine) option" where
  "sync_map E update e =
     (case updateChecksIfNew E (sr_Checks update) e of
        (Some err, e1) \<Rightarrow> Some (Some err, e1)
      | (None, e1) \<Rightarrow>
        (case sr_NetworkMap update of
           None \<Rightarrow> Some (None, e1)
         | Some nm \<Rightarrow>
           (let e2 = (if en_persistSyncResponse e1 then e1\<lparr>en_latestSyncResponse := Some update\<rparr> else e1) in
            case updateNetworkMap E nm e2 of
              None \<Rightarrow> None
            | Some (Some err, e3) \<Rightarrow> Some (Some err, e3)
            | Some (None, e3) \<Rightarrow> Some (None, on_world (PublishEvent E ''Network map updated'') e3))))"

definition handleSync ::
    "('w, 'k, 'c, 'q, 'i) eng_env \<Rightarrow> sync_response \<Rightarrow> ('w, 'k) engine \<Rightarrow> (go_error option \<times> ('w, 'k) engine) option" where
  "handleSync E update e =
     (case sr_NetbirdConfig update of
        None \<Rightarrow> sync_map E update e
      | Some c \<Rightarrow>
        (case sync_config E c e of
           None \<Rightarrow> None
         | Some (Some err, e1) \<Rightarrow> Some (Some err, e1)
         | Some (None, e1) \<Rightarrow> sync_map E update e1))"

definition SetSyncResponsePersistence :: "bool \<Rightarrow> ('w, 'k) engine \<Rightarrow> ('w, 'k) engine" where
  "SetSyncResponsePersistence enabled e =
     (if enabled = en_persistSyncResponse e then e
      else
        let e1 = e\<lparr>en_persistSyncResponse := enabled\<rparr>
        in if \<not> enabled then e1\<lparr>en_latestSyncResponse := None\<rparr> else e1)"

definition GetLatestSyncResponse :: "('w, 'k) engine \<Rightarrow> sync_response option result" where
  "GetLatestSyncResponse e =
     (if \<not> en_persistSyncResponse e then Inl (ErrMsg ''sync response persistence is disabled'')
      else Inr (en_latestSyncResponse e))"

section \<open>What the parts leave alone\<close>

named_theorems core_frame \<open>operations that keep the engine's core\<close>

definition core :: "('w, 'k) engine \<Rightarrow> 64 word \<times> bool \<times> sync_response option \<times> engine_config \<times> bool" where
  "core e = (en_networkSerial e, en_persistSyncResponse e, en_latestSyncResponse e, en_config e, en_wgInterface e = None)"

definition parts :: "('w, 'k) engine \<Rightarrow> ('w, 'k) dm option \<times> bool \<times> bool \<times> bool \<times> bool" where
  "parts e = (en_routeManager e, en_dnsServer e, en_firewall e, en_acl e, en_connMgr e)"

lemma core_update [simp, core_frame]:
  "core (e\<lparr>en_world := w\<rparr>) = core e" "core (e\<lparr>en_checks := cs\<rparr>) = core e"
  "core (e\<lparr>en_STUNs := s\<rparr>) = core e" "core (e\<lparr>en_TURNs := s\<rparr>) = core e" "core (e\<lparr>en_stunTurn := s\<rparr>) = core e"
  "core (e\<lparr>en_dnsForwardMgr := b\<rparr>) = core e" "core (e\<lparr>en_ingressGatewayMgr := b\<rparr>) = core e"
  "core (e\<lparr>en_routeManager := m\<rparr>) = core e" "core (on_world f e) = core e"
  by (simp_all add: core_def on_world_def)

lemma parts_update [simp, core_frame]:
  "parts (e\<lparr>en_world := w\<rparr>) = parts e" "parts (e\<lparr>en_checks := cs\<rparr>) = parts e"
  "parts (e\<lparr>en_STUNs := s\<rparr>) = parts e" "parts (e\<lparr>en_TURNs := s\<rparr>) = parts e" "parts (e\<lparr>en_stunTurn := s\<rparr>) = parts e"
  "parts (e\<lparr>en_dnsForwardMgr := b\<rparr>) = parts e" "parts (e\<lparr>en_ingressGatewayMgr := b\<rparr>) = parts e"
  "parts (e\<lparr>en_networkSerial := n\<rparr>) = parts e" "parts (e\<lparr>en_latestSyncResponse := l\<rparr>) = parts e" "parts (on_world f e) = parts e"
  by (simp_all add: parts_def on_world_def)

lemma on_world_sel [simp]:
  "en_world (on_world f e) = f (en_world e)" "en_config (on_world f e) = en_config e"
  "en_dnsForwardMgr (on_world f e) = en_dnsForwardMgr e" "en_ingressGatewayMgr (on_world f e) = en_ingressGatewayMgr e"
  "en_networkSerial (on_world f e) = en_networkSerial e" "en_checks (on_world f e) = en_checks e"
  "en_routeManager (on_world f e) = en_routeManager e" "en_firewall (on_world f e) = en_firewall e"
  by (simp_all add: on_world_def)

lemma coreD:
  assumes "core e' = core e"
  shows "en_networkSerial e' = en_networkSerial e" "en_persistSyncResponse e' = en_persistSyncResponse e"
    "en_latestSyncResponse e' = en_latestSyncResponse e" "en_config e' = en_config e"
  using assms by (simp_all add: core_def)

lemma partsD: "parts e' = parts e \<Longrightarrow> en_routeManager e' = en_routeManager e"
  by (simp add: parts_def)

lemma updateChecksIfNew_core [core_frame]:
  "updateChecksIfNew E cs e = (r, e') \<Longrightarrow> core e' = core e \<and> parts e' = parts e"
  by (auto simp: updateChecksIfNew_def Let_def split: if_splits prod.splits)

lemma handleRelayUpdate_core: "handleRelayUpdate E u e = (r, e') \<Longrightarrow> core e' = core e \<and> parts e' = parts e"
  by (auto simp: handleRelayUpdate_def split: option.splits prod.splits)

lemma handleFlowUpdate_core: "handleFlowUpdate E u e = Some (r, e') \<Longrightarrow> core e' = core e \<and> parts e' = parts e"
  by (auto simp: handleFlowUpdate_def split: option.splits prod.splits sum.splits if_splits)

lemma PopulateNetbirdConfig_core: "core (snd (PopulateNetbirdConfig E c u e)) = core e \<and> parts (snd (PopulateNetbirdConfig E c u e)) = parts e"
  by (auto simp: PopulateNetbirdConfig_def Let_def split: option.splits prod.splits)

lemma sync_config_core:
  assumes "sync_config E c e = Some (r, e')"
  shows "core e' = core e \<and> parts e' = parts e"
proof (cases "updateTURNs (stun_ParseURI E) (nc_Turns c) (en_TURNs e)")
  case (Inl err)
  then show ?thesis using assms by (simp add: sync_config_def)
next
  case t: (Inr turns)
  show ?thesis
  proof (cases "updateSTUNs (stun_ParseURI E) (nc_Stuns c) (en_STUNs e)")
    case (Inl err)
    then show ?thesis using assms t by (auto simp: sync_config_def Let_def)
  next
    case s: (Inr stuns)
    let ?e2 = "e\<lparr>en_TURNs := turns, en_STUNs := stuns, en_stunTurn := stuns @ turns\<rparr>"
    obtain r3 e3 where 3: "handleRelayUpdate E (nc_Relay c) ?e2 = (r3, e3)" by fastforce
    have c3: "core e3 = core e \<and> parts e3 = parts e" using handleRelayUpdate_core [OF 3] by simp
    show ?thesis
    proof (cases r3)
      case (Some err)
      then show ?thesis using assms t s 3 c3 by (simp add: sync_config_def Let_def)
    next
      case None
      then show ?thesis using assms t s 3 c3 handleFlowUpdate_core [of E "nc_Flow c" e3]
        by (auto simp: sync_config_def Let_def PopulateNetbirdConfig_core split: option.splits)
    qed
  qed
qed

lemma updateConfig_core: "updateConfig E c e = (r, e') \<Longrightarrow> core e' = core e \<and> parts e' = parts e"
  by (auto simp: updateConfig_def Let_def split: option.splits)

lemma updateDNSForwarder_core: "core (updateDNSForwarder E b es e) = core e \<and> parts (updateDNSForwarder E b es e) = parts e"
  by (auto simp: updateDNSForwarder_def startDNSForwarder_def stopDNSForwarder_def split: option.splits prod.splits)

lemma updateForwardRules_core:
  "updateForwardRules E rs e = (ok, errs, e') \<Longrightarrow> core e' = core e \<and> parts e' = parts e"
  by (auto simp: updateForwardRules_def Let_def split: if_splits prod.splits)

lemma firewall_settings_core: "core (firewall_settings E nm e) = core e \<and> parts (firewall_settings E nm e) = parts e"
  by (simp add: firewall_settings_def Let_def)

lemma apply_peers_core: "apply_peers E nm e = Some (r, e') \<Longrightarrow> core e' = core e \<and> parts e' = parts e"
  by (auto simp: apply_peers_def split: if_splits prod.splits option.splits)

text \<open>The route manager with another world and another forwarder port: what \<^verbatim>\<open>updateNetworkMap\<close> gives to \<^verbatim>\<open>UpdateRoutes\<close>.\<close>

definition prepared :: "('w, 'k) dm \<Rightarrow> ('w, 'k) dm \<Rightarrow> bool" where
  "prepared m m1 \<longleftrightarrow> m1 = m\<lparr>dm_world := dm_world m1, dm_dnsForwarderPort := dm_dnsForwarderPort m1\<rparr>"

lemma route_update_Some:
  assumes "route_update E nm port e = Some e'"
  shows "core e' = core e \<and> (\<exists>m m1 es m'. en_routeManager e = Some m \<and> prepared m m1 \<and>
    UpdateRoutes (ee_rm E) (unat (nm_Serial nm)) (fst (map_routes E nm m)) (snd (map_routes E nm m)) (toDNSFeatureFlag nm) m1 = Some (es, m') \<and>
    en_routeManager e' = Some m')"
proof -
  obtain m where m: "en_routeManager e = Some m" using assms by (auto simp: route_update_def split: option.splits)
  have cls: "map_routes E nm (SetDNSForwarderPort port m) = map_routes E nm m"
    by (simp add: SetDNSForwarderPort_def ClassifyRoutes_def map_routes_def)
  define e1 where "e1 = (if en_connMgr e then on_world (UpdateRouteHAMap E (snd (map_routes E nm m))) e else e)"
  define m1 where "m1 = (SetDNSForwarderPort port m)\<lparr>dm_world := en_world e1\<rparr>"
  obtain r where r: "UpdateRoutes (ee_rm E) (unat (nm_Serial nm)) (fst (map_routes E nm m)) (snd (map_routes E nm m)) (toDNSFeatureFlag nm) m1 = Some r"
    and e': "e' = (let e2 = e1\<lparr>en_routeManager := Some (snd r), en_world := dm_world (snd r)\<rparr>
        in if en_acl e2 then on_world (acl_ApplyFiltering E nm (toDNSFeatureFlag nm)) e2 else e2)"
    using assms unfolding route_update_def m option.case Let_def cls e1_def [symmetric] m1_def [symmetric] by auto
  have "core e1 = core e" by (simp add: e1_def)
  then have "core e' = core e" "en_routeManager e' = Some (snd r)" using e' by (simp_all add: Let_def core_def on_world_def)
  moreover have "prepared m m1" by (simp add: prepared_def m1_def SetDNSForwarderPort_def)
  ultimately show ?thesis using m r by (metis prod.collapse)
qed

lemma apply_routes_Some:
  assumes "apply_routes E nm e = Some e'"
  shows "core e' = core e \<and> (\<exists>m m1 es m'. en_routeManager e = Some m \<and> prepared m m1 \<and>
    UpdateRoutes (ee_rm E) (unat (nm_Serial nm)) (fst (map_routes E nm m)) (snd (map_routes E nm m)) (toDNSFeatureFlag nm) m1 = Some (es, m') \<and>
    en_routeManager e' = Some m')"
proof -
  obtain port f where "route_update E nm port (on_world f e) = Some e'"
    using assms by (auto simp: apply_routes_def Let_def split: if_splits option.splits)
  from route_update_Some [OF this] show ?thesis by simp
qed

section \<open>The serial\<close>

lemma before_peers_Some:
  assumes "before_peers E nm e = Some (rules, e')"
  shows "core e' = core e \<and> (\<exists>m m1 es m'. en_routeManager e = Some m \<and> prepared m m1 \<and>
    UpdateRoutes (ee_rm E) (unat (nm_Serial nm)) (fst (map_routes E nm m)) (snd (map_routes E nm m)) (toDNSFeatureFlag nm) m1 = Some (es, m') \<and>
    en_routeManager e' = Some m')"
proof -
  obtain f e2 where 2: "apply_routes E nm (firewall_settings E nm (on_world f e)) = Some e2"
    and r: "(rules, e') = (let entries = toRouteDomains (GetResourceID E) (PublicKeyString (ee_peers E) (ec_WgPrivateKey (en_config e2)))
                             (toRoutes (FromPunycodeList E) (nm_Routes nm));
                     e3 = updateDNSForwarder E (toDNSFeatureFlag nm) entries e2;
                     (fwdRules, _, e4) = updateForwardRules E (nm_ForwardingRules nm) e3
                 in (fwdRules, on_world (updateOfflinePeers (ee_peers E) (nm_OfflinePeers nm)) e4))"
    using assms by (auto simp: before_peers_def Let_def)
  have "core e' = core e2 \<and> parts e' = parts e2"
    using r by (auto simp: Let_def updateDNSForwarder_core dest: updateForwardRules_core split: prod.splits)
  moreover have "core (firewall_settings E nm (on_world f e)) = core e \<and> parts (firewall_settings E nm (on_world f e)) = parts e"
    by (simp add: firewall_settings_core)
  ultimately show ?thesis using apply_routes_Some [OF 2] by (metis partsD)
qed

lemma after_peers_sel [simp]:
  "en_networkSerial (after_peers E nm rs e) = nm_Serial nm" "en_persistSyncResponse (after_peers E nm rs e) = en_persistSyncResponse e"
  "en_latestSyncResponse (after_peers E nm rs e) = en_latestSyncResponse e" "en_config (after_peers E nm rs e) = en_config e"
  "parts (after_peers E nm rs e) = parts e"
  by (simp_all add: after_peers_def Let_def on_world_def parts_def)

lemma apply_network_map_Some:
  assumes "apply_network_map E nm e = Some (r, e')"
  shows "en_networkSerial e' = (if r = None then nm_Serial nm else en_networkSerial e) \<and>
    en_persistSyncResponse e' = en_persistSyncResponse e \<and> en_latestSyncResponse e' = en_latestSyncResponse e \<and> en_config e' = en_config e"
proof -
  obtain rs e1 where 1: "before_peers E nm e = Some (rs, e1)" using assms by (auto simp: apply_network_map_def split: option.splits)
  obtain r2 e2 where 2: "apply_peers E nm e1 = Some (r2, e2)"
    using assms 1 by (auto simp: apply_network_map_def split: option.splits)
  have "core e2 = core e" using apply_peers_core [OF 2] before_peers_Some [OF 1] by simp
  note this = coreD [OF this]
  then show ?thesis using assms 1 2 by (auto simp: apply_network_map_def split: option.splits)
qed

lemma updateNetworkMap_Some:
  assumes "updateNetworkMap E nm e = Some (r, e')"
  shows "en_networkSerial e' = (if r = None then max (en_networkSerial e) (nm_Serial nm) else en_networkSerial e) \<and>
    en_persistSyncResponse e' = en_persistSyncResponse e \<and> en_latestSyncResponse e' = en_latestSyncResponse e \<and> en_config e' = en_config e"
proof -
  obtain r1 e1 where 1: "(case nm_PeerConfig nm of None \<Rightarrow> (None, e) | Some c \<Rightarrow> updateConfig E c e) = (r1, e1)" by fastforce
  have c: "core e1 = core e" using 1 updateConfig_core by (fastforce split: option.splits)
  show ?thesis
  proof (cases r1)
    case (Some err)
    then show ?thesis using assms 1 coreD [OF c] by (auto simp: updateNetworkMap_def)
  next
    case None
    then have "(if en_networkSerial e1 > nm_Serial nm then Some (None, e1) else apply_network_map E nm e1) = Some (r, e')"
      using assms 1 by (simp add: updateNetworkMap_def)
    then show ?thesis
      using coreD [OF c] apply_network_map_Some [of E nm e1 r e'] by (auto simp: max_def split: if_splits)
  qed
qed

lemma sync_map_Some:
  assumes "sync_map E u e = Some (r, e')"
  shows "en_networkSerial e' = (case sr_NetworkMap u of None \<Rightarrow> en_networkSerial e
      | Some nm \<Rightarrow> if r = None then max (en_networkSerial e) (nm_Serial nm) else en_networkSerial e) \<and>
    en_persistSyncResponse e' = en_persistSyncResponse e \<and> en_config e' = en_config e \<and>
    (en_latestSyncResponse e' = en_latestSyncResponse e \<or> en_persistSyncResponse e \<and> en_latestSyncResponse e' = Some u) \<and>
    (r = None \<longrightarrow> en_persistSyncResponse e \<longrightarrow> sr_NetworkMap u \<noteq> None \<longrightarrow> en_latestSyncResponse e' = Some u)"
proof -
  obtain r1 e1 where 1: "updateChecksIfNew E (sr_Checks u) e = (r1, e1)" by fastforce
  note c = coreD [OF conjunct1 [OF updateChecksIfNew_core [OF 1]]]
  show ?thesis
  proof (cases "r1 = None \<and> sr_NetworkMap u \<noteq> None")
    case False
    then show ?thesis using assms 1 c by (auto simp: sync_map_def split: option.splits)
  next
    case True
    then obtain nm where nm: "sr_NetworkMap u = Some nm" by auto
    define e2 where "e2 = (if en_persistSyncResponse e1 then e1\<lparr>en_latestSyncResponse := Some u\<rparr> else e1)"
    have "en_networkSerial e2 = en_networkSerial e" "en_persistSyncResponse e2 = en_persistSyncResponse e" "en_config e2 = en_config e"
      "en_latestSyncResponse e2 = (if en_persistSyncResponse e then Some u else en_latestSyncResponse e)"
      using c by (simp_all add: e2_def)
    moreover obtain e3 where 3: "updateNetworkMap E nm e2 = Some (r, e3)"
        "e' = (if r = None then on_world (PublishEvent E ''Network map updated'') e3 else e3)"
      using assms True 1 nm by (auto simp: sync_map_def Let_def e2_def [symmetric] split: option.splits)
    ultimately show ?thesis using updateNetworkMap_Some [OF 3(1)] 3(2) nm by (simp add: on_world_def)
  qed
qed

lemma handleSync_parts:
  assumes "handleSync E u e = Some (r, e')"
  shows "(\<exists>e1. core e1 = core e \<and> parts e1 = parts e \<and> sync_map E u e1 = Some (r, e')) \<or> (core e' = core e \<and> r \<noteq> None)"
proof (cases "sr_NetbirdConfig u")
  case None
  then show ?thesis using assms by (auto simp: handleSync_def)
next
  case (Some c)
  then obtain r1 e1 where 1: "sync_config E c e = Some (r1, e1)"
    using assms by (auto simp: handleSync_def split: option.splits)
  then show ?thesis using assms Some sync_config_core [OF 1] by (cases r1) (auto simp: handleSync_def)
qed

lemma handleSync_Some:
  assumes "handleSync E u e = Some (r, e')"
  shows "en_networkSerial e' = (case sr_NetworkMap u of None \<Rightarrow> en_networkSerial e
      | Some nm \<Rightarrow> if r = None then max (en_networkSerial e) (nm_Serial nm) else en_networkSerial e) \<and>
    en_persistSyncResponse e' = en_persistSyncResponse e \<and> en_config e' = en_config e \<and>
    (en_latestSyncResponse e' = en_latestSyncResponse e \<or> en_persistSyncResponse e \<and> en_latestSyncResponse e' = Some u) \<and>
    (r = None \<longrightarrow> en_persistSyncResponse e \<longrightarrow> sr_NetworkMap u \<noteq> None \<longrightarrow> en_latestSyncResponse e' = Some u)"
  using handleSync_parts [OF assms]
proof (elim disjE exE conjE)
  fix e1
  assume c: "core e1 = core e" and m: "sync_map E u e1 = Some (r, e')"
  show ?thesis using sync_map_Some [OF m] unfolding coreD [OF c] .
next
  assume c: "core e' = core e" and r: "r \<noteq> None"
  show ?thesis using coreD [OF c] r by (auto split: option.splits)
qed

text \<open>C5. The serial of the network moves exactly when a map has been applied: a message without a map or with an error leaves it,
  a successful one leaves the larger of the old serial and the map's. It therefore never decreases.\<close>

theorem handleSync_serial:
  assumes "handleSync E u e = Some (r, e')"
  shows "en_networkSerial e' = (case sr_NetworkMap u of None \<Rightarrow> en_networkSerial e
      | Some nm \<Rightarrow> if r = None then max (en_networkSerial e) (nm_Serial nm) else en_networkSerial e)"
  using handleSync_Some [OF assms] by blast

text \<open>A network map with a smaller serial than the last one applied changes no field of the engine; only the state of the
  local peer is refreshed, and nothing at all when the map carries no peer configuration.\<close>

theorem outdated_map_ignored:
  assumes old: "nm_Serial nm < en_networkSerial e"
  shows "\<exists>r w. updateNetworkMap E nm e = Some (r, e\<lparr>en_world := w\<rparr>) \<and> (nm_PeerConfig nm = None \<longrightarrow> r = None \<and> w = en_world e)"
proof (cases "nm_PeerConfig nm")
  case None
  then show ?thesis using old by (intro exI [of _ None] exI [of _ "en_world e"]) (simp add: updateNetworkMap_def)
next
  case (Some c)
  obtain r w where u: "updateConfig E c e = (r, e\<lparr>en_world := w\<rparr>)"
  proof (cases "en_wgInterface e")
    case None
    then show ?thesis using that [of "Some (ErrMsg ''wireguard interface is not initialized'')" "en_world e"] by (simp add: updateConfig_def)
  next
    case (Some i)
    then show ?thesis using that [of None] by (simp add: updateConfig_def Let_def)
  qed
  then show ?thesis using Some old by (cases r) (auto simp: updateNetworkMap_def)
qed

section \<open>What a successful update leaves\<close>

text \<open>What runs after the peers are in place does not change the peer store.\<close>

definition store_kept :: "('w, 'k, 'c, 'q, 'i) eng_env \<Rightarrow> bool" where
  "store_kept E \<longleftrightarrow>
     (\<forall>w. store (ee_peers E) (FinishPeerListModifications E w) = store (ee_peers E) w) \<and>
     (\<forall>ps w. store (ee_peers E) (updatePeerSSHHostKeys E ps w) = store (ee_peers E) w) \<and>
     (\<forall>ps w. store (ee_peers E) (snd (updateSSHClientConfig E ps w)) = store (ee_peers E) w) \<and>
     (\<forall>ks w. store (ee_peers E) (SetExcludeList E ks w) = store (ee_peers E) w) \<and>
     (\<forall>w. store (ee_peers E) (dns_ProbeAvailability E w) = store (ee_peers E) w) \<and>
     (\<forall>m w. store (ee_peers E) (PublishEvent E m w) = store (ee_peers E) w)"

definition map_peers :: "network_map \<Rightarrow> string set" where
  "map_peers nm = (if nm_RemotePeersIsEmpty nm then {} else rp_WgPubKey ` set (nm_RemotePeers nm))"

lemma apply_peers_store:
  assumes L: "store_laws (ee_peers E) conf" and K: "store_kept E" and r: "apply_peers E nm e = Some (r, e')"
  shows "dom (store (ee_peers E) (en_world e')) \<subseteq> map_peers nm"
proof (cases "nm_RemotePeersIsEmpty nm")
  case True
  then show ?thesis using r K removeAllPeers_empty [OF L, of "en_world e"]
    by (auto simp: apply_peers_def store_kept_def map_peers_def split: prod.splits)
next
  case False
  then obtain r1 w where u: "update_remote_peers (ee_peers E) (en_config e) (en_rpManager e) (nm_RemotePeers nm) (en_world e) = Some (r1, w)"
    using r by (auto simp: apply_peers_def split: option.splits)
  have "store (ee_peers E) (en_world e') = store (ee_peers E) w"
    using r False u K by (cases r1) (auto simp: apply_peers_def store_kept_def)
  then show ?thesis using update_remote_peers_dom [OF L u] False by (simp add: map_peers_def)
qed

lemma apply_peers_exact:
  assumes L: "store_laws (ee_peers E) conf" and nc: "conns_created (ee_peers E)" and K: "store_kept E"
    and ok: "list_all peer_ok (nm_RemotePeers nm)" "distinct (map rp_WgPubKey (nm_RemotePeers nm))"
  shows "\<exists>e'. apply_peers E nm e = Some (None, e') \<and> dom (store (ee_peers E) (en_world e')) = map_peers nm"
proof (cases "nm_RemotePeersIsEmpty nm")
  case True
  then show ?thesis using K removeAllPeers_empty [OF L, of "en_world e"]
    by (auto simp: apply_peers_def store_kept_def map_peers_def split: prod.splits)
next
  case False
  obtain w where "update_remote_peers (ee_peers E) (en_config e) (en_rpManager e) (nm_RemotePeers nm) (en_world e) = Some (None, w)"
      "dom (store (ee_peers E) w) = rp_WgPubKey ` set (nm_RemotePeers nm)"
    using update_remote_peers_ok [OF L nc ok] by blast
  then show ?thesis using K False by (auto simp: apply_peers_def store_kept_def map_peers_def)
qed

lemma UpdateRoutes_clientRoutes:
  "UpdateRoutes E n sr cr b m = Some (es, m') \<Longrightarrow> \<not> dm_ctxDone m \<Longrightarrow> dm_clientRoutes m' = cr"
  by (auto simp: UpdateRoutes_def Let_def Option.bind_eq_Some_conv split: if_splits prod.splits)

definition peers_good :: "('w, 'k, 'c, 'q, 'i) eng_env \<Rightarrow> network_map \<Rightarrow> bool" where
  "peers_good E nm \<longleftrightarrow> conns_created (ee_peers E) \<and> list_all peer_ok (nm_RemotePeers nm) \<and> distinct (map rp_WgPubKey (nm_RemotePeers nm))"

definition map_applied :: "('w, 'k, 'c, 'q, 'i) eng_env \<Rightarrow> network_map \<Rightarrow> ('w, 'k) engine \<Rightarrow> ('w, 'k) engine \<Rightarrow> bool" where
  "map_applied E nm e e' \<longleftrightarrow> en_networkSerial e' = nm_Serial nm \<and> dom (store (ee_peers E) (en_world e')) \<subseteq> map_peers nm \<and>
     (peers_good E nm \<longrightarrow> dom (store (ee_peers E) (en_world e')) = map_peers nm) \<and>
     (\<exists>m m'. en_routeManager e = Some m \<and> en_routeManager e' = Some m' \<and>
        (\<not> dm_ctxDone m \<longrightarrow> dm_clientRoutes m' = snd (map_routes E nm m)))"

lemma apply_network_map_applied:
  assumes L: "store_laws (ee_peers E) conf" and K: "store_kept E" and r: "apply_network_map E nm e = Some (None, e')"
  shows "map_applied E nm e e'"
proof -
  obtain rs e1 where 1: "before_peers E nm e = Some (rs, e1)" using r by (auto simp: apply_network_map_def split: option.splits)
  obtain e2 where 2: "apply_peers E nm e1 = Some (None, e2)" "e' = after_peers E nm rs e2"
    using r 1 by (auto simp: apply_network_map_def split: option.splits)
  have st: "store (ee_peers E) (en_world e') = store (ee_peers E) (en_world e2)"
    using K by (simp add: 2(2) after_peers_def Let_def on_world_def store_kept_def)
  obtain m m1 es m' where m: "en_routeManager e = Some m" "prepared m m1" "en_routeManager e1 = Some m'"
    "UpdateRoutes (ee_rm E) (unat (nm_Serial nm)) (fst (map_routes E nm m)) (snd (map_routes E nm m)) (toDNSFeatureFlag nm) m1 = Some (es, m')"
    using before_peers_Some [OF 1] by blast
  have "dm_ctxDone m1 = dm_ctxDone m" using m(2) unfolding prepared_def by (metis dm.select_convs(2) dm.update_convs(11,13) dm.surjective)
  then have "\<not> dm_ctxDone m \<longrightarrow> dm_clientRoutes m' = snd (map_routes E nm m)" using UpdateRoutes_clientRoutes [OF m(4)] by simp
  moreover have "en_routeManager e' = Some m'"
    using partsD [OF conjunct2 [OF apply_peers_core [OF 2(1)]]] m(3) partsD [of e' e2] by (simp add: 2(2))
  moreover have "dom (store (ee_peers E) (en_world e2)) = map_peers nm" if "peers_good E nm"
    using apply_peers_exact [OF L _ K, of nm e1] that 2(1) by (auto simp: peers_good_def)
  ultimately show ?thesis
    using m(1) apply_peers_store [OF L K 2(1)] st by (simp add: map_applied_def) (simp add: 2(2))
qed

lemma updateNetworkMap_new:
  assumes "updateNetworkMap E nm e = Some (None, e')" and new: "en_networkSerial e \<le> nm_Serial nm"
  shows "\<exists>e1. apply_network_map E nm e1 = Some (None, e') \<and> parts e1 = parts e"
proof -
  obtain r1 e1 where 1: "(case nm_PeerConfig nm of None \<Rightarrow> (None, e) | Some c \<Rightarrow> updateConfig E c e) = (r1, e1)" by fastforce
  have c: "core e1 = core e \<and> parts e1 = parts e" using 1 updateConfig_core by (fastforce split: option.splits)
  have "\<not> nm_Serial nm < en_networkSerial e1" using coreD(1) [of e1 e] c new by simp
  then show ?thesis using assms(1) 1 c by (cases r1) (auto simp: updateNetworkMap_def)
qed

text \<open>C2. When a message with a map that is not outdated is handled without an error, the serial is the map's, no connection is
  left to a peer outside the map (none at all on a cleanup request, and exactly the map's peers when the map is well
  formed), and the route manager's client routes are the classified routes of the map.\<close>

theorem handleSync_applies:
  assumes L: "store_laws (ee_peers E) conf" and K: "store_kept E"
    and nm: "sr_NetworkMap u = Some nm" and new: "en_networkSerial e \<le> nm_Serial nm"
    and r: "handleSync E u e = Some (None, e')"
  shows "map_applied E nm e e'"
proof -
  obtain e1 where 1: "core e1 = core e" "parts e1 = parts e" "sync_map E u e1 = Some (None, e')"
    using handleSync_parts [OF r] by auto
  obtain r2 e2 where 2: "updateChecksIfNew E (sr_Checks u) e1 = (r2, e2)" by fastforce
  define e3 where "e3 = (if en_persistSyncResponse e2 then e2\<lparr>en_latestSyncResponse := Some u\<rparr> else e2)"
  have p3: "parts e3 = parts e" "en_networkSerial e3 = en_networkSerial e"
    using updateChecksIfNew_core [OF 2] 1(1,2) coreD(1) by (auto simp: e3_def core_def parts_def)
  obtain e4 where 4: "updateNetworkMap E nm e3 = Some (None, e4)" "e' = on_world (PublishEvent E ''Network map updated'') e4"
    using 1(3) 2 nm by (auto simp: sync_map_def Let_def e3_def [symmetric] split: option.splits)
  obtain e5 where 5: "apply_network_map E nm e5 = Some (None, e4)" "parts e5 = parts e"
    using updateNetworkMap_new [OF 4(1)] new p3 by auto
  from apply_network_map_applied [OF L K 5(1)] show ?thesis
    using K 4(2) partsD [OF 5(2)] by (auto simp: map_applied_def on_world_def store_kept_def)
qed

section \<open>Single components\<close>

text \<open>When the posture checks change and the meta data cannot be sent to the management server, the error is reported but the
  new checks are already stored, so handling the same checks again succeeds without sending anything.\<close>

theorem checks_not_retried:
  assumes "updateChecksIfNew E cs e = (Some err, e')"
  shows "en_checks e' = cs \<and> updateChecksIfNew E cs e' = (None, e')"
  using assms by (auto simp: updateChecksIfNew_def Let_def isChecksEqual_def split: if_splits prod.splits)

text \<open>Unless server routes are disabled, after an update the DNS forwarder runs exactly when the feature is enabled, there are
  domains to forward, and it was running or could be started.\<close>

theorem updateDNSForwarder_runs:
  assumes "\<not> ec_DisableServerRoutes (en_config e)"
  shows "en_dnsForwardMgr (updateDNSForwarder E enabled entries e) \<longleftrightarrow>
    enabled \<and> entries \<noteq> [] \<and> (en_dnsForwardMgr e \<or> fst (dnsfwd_Start E entries (en_world e)) = None)"
  using assms by (auto simp: updateDNSForwarder_def startDNSForwarder_def stopDNSForwarder_def split: option.splits prod.splits)

text \<open>With a firewall, the ingress gateway exists after an update exactly when there are forwarding rules; the rules it gets
  are the convertible ones in their order, and every other rule gives one error.\<close>

theorem updateForwardRules_ingress:
  assumes "en_firewall e" and "updateForwardRules E rules e = (ok, errs, e')"
  shows "(en_ingressGatewayMgr e' \<longleftrightarrow> rules \<noteq> []) \<and>
    ok = List.map_filter (\<lambda>r. case convert_rule (ee_fw E) r of Inl _ \<Rightarrow> None | Inr f \<Rightarrow> Some f) rules \<and>
    (rules \<noteq> [] \<longrightarrow> length ok + length errs = length rules)"
proof (cases "rules = []")
  case True
  then show ?thesis using assms by (auto simp: updateForwardRules_def map_filter_simps split: if_splits prod.splits)
next
  case False
  then have "ok = fst (convert_rules (ee_fw E) rules)" "errs = snd (convert_rules (ee_fw E) rules)" "en_ingressGatewayMgr e'"
    using assms by (auto simp: updateForwardRules_def Let_def split: prod.splits)
  then show ?thesis using False convert_rules_map_filter [of "ee_fw E" rules] convert_rules_count [of "ee_fw E" rules] by auto
qed

section \<open>Witnesses\<close>

text \<open>Services that do nothing but keep the peer store.\<close>

definition quiet_rm :: "('w, sample_kernel) rm_env" where
  "quiet_rm = \<lparr>GetHAUniqueID = (\<lambda>r. r_NetID r @ ''|'' @ Prefix_String (r_Network r)),
     HA_NetID = takeWhile (\<lambda>c. c \<noteq> CHR ''|''), IsDynamic = (\<lambda>r. r_NetworkType r = 3),
     handler_AddRoute = (\<lambda>h w. (None, w)), handler_RemoveRoute = (\<lambda>h w. (None, w)),
     watcher_Start = (\<lambda>k x w. w), watcher_SendUpdate = (\<lambda>k n rs w. w), watcher_Stop = (\<lambda>k w. w),
     notifier_OnNewRoutes = (\<lambda>n w. w), server_NewRouter = (\<lambda>w. (None, w)),
     server_UpdateRoutes = (\<lambda>r d w. (None, w)), server_CleanUp = (\<lambda>w. w),
     FilterSelectedExitNodes = (\<lambda>n w. AList.clearjunk n),
     HasUserSelectionForRoute = (\<lambda>n w. False), IsSelected = (\<lambda>n w. True),
     DeselectRoutes = (\<lambda>ids all w. (None, w)), SelectRoutes = (\<lambda>ids app all w. (None, w)),
     state_RegisterState = (\<lambda>w. w), state_LoadState = (\<lambda>w. (None, w)), state_HasSelector = (\<lambda>w. False),
     state_UpdateState = (\<lambda>w. (None, w)), selector_Restore = (\<lambda>w. w), selector_New = (\<lambda>w. w),
     routeRef_Flush = (\<lambda>w k. (None, w, k)), allowedRef_Flush = (\<lambda>w. (None, w)),
     url_Hostname = Inr, LookupIP = (\<lambda>h. Inr []), management_URL = ''m'', signal_URL = ''s'', relay_URLs = None,
     netstack_IsEnabled = False, CustomRoutingDisabled = False, MinRangeBits = 7, rm_nl = sample_nl False\<rparr>"

definition quiet_tun :: "('w, unit) tun_env" where
  "quiet_tun = \<lparr>tun_Create = (\<lambda>w. (Inl (ErrMsg ''no device''), w)), tun_Up = (\<lambda>w. (None, w)), tun_UpdateAddr = (\<lambda>a w. (None, w)),
     tun_Close = (\<lambda>w. (None, w)), tun_WgAddress = (\<lambda>w. \<lparr>wa_IP = Addr4 0x64400001, wa_Network = Prefix (Addr4 0x64400000) 16\<rparr>),
     tun_MTU = (\<lambda>w. 1280), tun_DeviceName = ''wt0'', tun_FilteredDevice = False, tun_SetFilter = (\<lambda>f w. w),
     proxy_Free = (\<lambda>w. (None, w)), InterfaceByName = (\<lambda>w n. PollGone), poll_rounds = 1,
     LinkByName = (\<lambda>n w. None), LinkDel = (\<lambda>n w. (None, w))\<rparr>"

definition sample_conv :: "(port_info, port_info) fw_conv" where
  "sample_conv = \<lparr>convertToFirewallProtocol = (\<lambda>n. if n = 2 then Inr ''tcp'' else Inl (ErrMsg ''protocol'')),
     convertPortInfo = Inr, convertToIP = (\<lambda>b. Inr (Addr4 0))\<rparr>"

type_synonym sample_world = "(string \<times> conn_config) list"

definition sample_eng :: "(sample_world, sample_kernel, conn_config, port_info, unit) eng_env" where
  "sample_eng = \<lparr>ee_peers = sample_peers, ee_rm = quiet_rm, ee_tun = quiet_tun, ee_fw = sample_conv,
     stun_ParseURI = (\<lambda>u. Inr \<lparr>su_URI = u, su_Username = [], su_Password = []\<rparr>),
     relay_UpdateToken = (\<lambda>p s w. (None, w)), relay_UpdateServerURLs = (\<lambda>u w. w), relay_Serve = (\<lambda>w. (None, w)),
     flow_Update = (\<lambda>c w. (None, w)), dns_PopulateManagementDomain = (\<lambda>u w. (None, w)),
     dns_UpdateServerConfig = (\<lambda>c w. (None, w)), dns_UpdateDNSServer = (\<lambda>n c w. (None, w)), dns_ProbeAvailability = (\<lambda>w. w),
     GetInfoWithChecks = (\<lambda>cs w. Inr ()), GetInfo = (\<lambda>w. ()), SyncMeta = (\<lambda>i f w. (Some (ErrMsg ''unavailable''), w)),
     eng_updateSSH = (\<lambda>w. (None, w)), WireGuardModuleIsLoaded = (\<lambda>w. True), UpdateLocalPeerState = (\<lambda>s w. w),
     UpdatedRemoteFeatureFlag = (\<lambda>b w. (None, w)), fw_LocalIPs = False, fw_UpdateLocalIPs = (\<lambda>w. (None, w)),
     fw_SetLegacyManagement = (\<lambda>b w. (None, w)), addReverseZone = (\<lambda>c p. c), ForwarderClientPort = 5353,
     FromPunycodeList = (\<lambda>ds. ds), GetResourceID = r_ID, UpdateRouteHAMap = (\<lambda>m w. w), acl_ApplyFiltering = (\<lambda>n b w. w),
     dnsfwd_Start = (\<lambda>es w. (None, w)), dnsfwd_Stop = (\<lambda>w. (None, w)), dnsfwd_UpdateDomains = (\<lambda>es w. w),
     ingress_Update = (\<lambda>rs w. (None, w)), ingress_Close = (\<lambda>w. (None, w)), SetIngressGwMgr = (\<lambda>b w. w),
     FinishPeerListModifications = (\<lambda>w. w), updatePeerSSHHostKeys = (\<lambda>ps w. w), updateSSHClientConfig = (\<lambda>ps w. (None, w)),
     SetExcludeList = (\<lambda>ks w. w), PublishEvent = (\<lambda>m w. w)\<rparr>"

definition sample_engine :: "(sample_world, sample_kernel) engine" where
  "sample_engine = \<lparr>en_config = sample_config, en_connMgr = True, en_rpManager = False, en_STUNs = [], en_TURNs = [], en_stunTurn = [],
     en_cancel = True, en_ctxDone = False, en_clientCancelled = False,
     en_wgInterface = Some \<lparr>if_configurer = None, if_filter = None, if_userspaceBind = True\<rparr>, en_networkSerial = 3,
     en_networkMonitor = False, en_firewall = True, en_routeManager = Some (NewManager ''pub'' False False sample_so sample_store 5353),
     en_acl = True, en_dnsForwardMgr = False, en_ingressGatewayMgr = False, en_dnsServer = True, en_checks = [], en_srWatcher = True,
     en_persistSyncResponse = True, en_latestSyncResponse = None, en_flowManager = True, en_wgIfaceMonitor = True, en_goroutines = 3,
     en_world = sample_store\<rparr>"

definition sample_map :: "64 word \<Rightarrow> network_map" where
  "sample_map n = \<lparr>nm_Serial = n, nm_PeerConfig = None, nm_RemotePeers = sample_update, nm_RemotePeersIsEmpty = False,
     nm_Routes = [sample_proto_route], nm_DNSConfig = None, nm_OfflinePeers = [], nm_FirewallRules = [], nm_FirewallRulesIsEmpty = True,
     nm_RoutesFirewallRules = [], nm_RoutesFirewallRulesIsEmpty = True, nm_ForwardingRules = []\<rparr>"

definition sample_sync :: "64 word \<Rightarrow> sync_response" where
  "sample_sync n = \<lparr>sr_NetbirdConfig = Some \<lparr>nc_Stuns = [''stun:a''], nc_Turns = [], nc_Relay = None, nc_Flow = None\<rparr>,
     sr_NetworkMap = Some (sample_map n), sr_Checks = []\<rparr>"

lemma sample_eng_peers [simp]: "ee_peers sample_eng = sample_peers"
  by (simp add: sample_eng_def)

lemma sample_store_kept: "store_kept sample_eng"
  by (simp add: store_kept_def sample_eng_def)

lemma sample_sync_ok:
  obtains e' where "handleSync sample_eng (sample_sync 4) sample_engine = Some (None, e')"
proof -
  have "map_option fst (handleSync sample_eng (sample_sync 4) sample_engine) = Some None" by code_simp
  then show thesis using that by auto
qed

theorem handleSync_serial_witness:
  "map_option (\<lambda>(r, e'). en_networkSerial e') (handleSync sample_eng (sample_sync 4) sample_engine) = Some 4"
proof -
  obtain e' where e': "handleSync sample_eng (sample_sync 4) sample_engine = Some (None, e')" by (rule sample_sync_ok)
  from handleSync_serial [OF this] have "en_networkSerial e' = 4" by (simp add: sample_sync_def sample_map_def sample_engine_def)
  then show ?thesis using e' by simp
qed

theorem outdated_map_ignored_witness: "\<exists>r w. updateNetworkMap sample_eng (sample_map 2) sample_engine = Some (r, sample_engine\<lparr>en_world := w\<rparr>)"
proof -
  have "nm_Serial (sample_map 2) < en_networkSerial sample_engine" by (simp add: sample_map_def sample_engine_def)
  from outdated_map_ignored [OF this, of sample_eng] show ?thesis by blast
qed

theorem handleSync_applies_witness:
  "\<exists>e'. handleSync sample_eng (sample_sync 4) sample_engine = Some (None, e') \<and>
     dom (store sample_peers (en_world e')) = {''a'', ''b'', ''new''}"
proof -
  obtain e' where e': "handleSync sample_eng (sample_sync 4) sample_engine = Some (None, e')" by (rule sample_sync_ok)
  have "map_applied sample_eng (sample_map 4) sample_engine e'"
    by (rule handleSync_applies [OF _ sample_store_kept _ _ e', of "\<lambda>c. c"])
       (simp_all add: sample_store_laws sample_sync_def sample_engine_def sample_map_def)
  moreover have "list_all peer_ok sample_update" "distinct (map rp_WgPubKey sample_update)" by code_simp+
  ultimately have "dom (store sample_peers (en_world e')) = map_peers (sample_map 4)"
    using sample_conns_created by (simp add: map_applied_def peers_good_def) (simp add: sample_map_def)
  then show ?thesis using e' by (simp add: map_peers_def sample_map_def sample_update_def sample_peer_def)
qed

theorem checks_not_retried_witness:
  "fst (updateChecksIfNew sample_eng [[''/bin/x'']] (snd (updateChecksIfNew sample_eng [[''/bin/x'']] sample_engine))) = None"
proof -
  have "fst (updateChecksIfNew sample_eng [[''/bin/x'']] sample_engine) = Some (ErrMsg ''unavailable'')" by code_simp
  then obtain e' where e': "updateChecksIfNew sample_eng [[''/bin/x'']] sample_engine = (Some (ErrMsg ''unavailable''), e')"
    by (metis prod.collapse)
  from checks_not_retried [OF e'] e' show ?thesis by simp
qed

theorem updateDNSForwarder_runs_witness:
  "en_dnsForwardMgr (updateDNSForwarder sample_eng True [\<lparr>fe_Domain = ''a'', fe_Set = [''a''], fe_ResID = ''r''\<rparr>] sample_engine)"
  by (subst updateDNSForwarder_runs) (simp_all add: sample_engine_def sample_config_def sample_eng_def)

theorem updateForwardRules_ingress_witness:
  "\<not> en_ingressGatewayMgr (snd (snd (updateForwardRules sample_eng [] sample_engine)))"
proof -
  obtain ok errs e' where u: "updateForwardRules sample_eng [] sample_engine = (ok, errs, e')" by (metis prod.exhaust)
  from updateForwardRules_ingress [OF _ u] show ?thesis by (simp add: u) (simp add: sample_engine_def)
qed

end
