(* ===== verification/Engine_Signal.thy ===== *)
theory Engine_Signal
  imports Engine_Sync
begin

text \<open>
  Messages of the signal service: \<^verbatim>\<open>MarshalCredential\<close> and \<^verbatim>\<open>UnMarshalCredential\<close> of
  \<^verbatim>\<open>go/signal/client/client.go\<close>, \<^verbatim>\<open>convertToOfferAnswer\<close> and the message handler of \<^verbatim>\<open>receiveSignalEvents\<close> of
  \<^verbatim>\<open>go/internal/engine.go\<close>.

  Connections, the ICE candidate parser and the session identifiers are outside the repository: the record \<open>sig_env\<close>
  holds their operations. A message whose body is missing makes the handler dereference a nil pointer, which is \<open>None\<close>.

  The theorems: an offer or an answer survives marshalling and conversion exactly when the credentials do not contain the
  separator, a message for an unknown peer is refused and changes nothing, and only messages that do not ask for idleness
  wake a lazy connection.
\<close>

section \<open>Messages\<close>

datatype body_type = OFFER | ANSWER | CANDIDATE | MODE | GO_IDLE | OtherType int

record rosenpass_config =
  rpc_PubKey :: "byte list"
  rpc_ServerAddr :: string

record sig_body =
  sb_Type :: body_type
  sb_Payload :: string
  sb_WgListenPort :: "32 word"
  sb_NetBirdVersion :: string
  sb_RosenpassConfig :: "rosenpass_config option"
  sb_RelayServerAddress :: string
  sb_SessionId :: "byte list option"

record sig_message =
  sm_Key :: string
  sm_RemoteKey :: string
  sm_Body :: "sig_body option"

record credential =
  cr_UFrag :: string
  cr_Pwd :: string

record offer_answer =
  oa_IceCredentials :: credential
  oa_WgListenPort :: int
  oa_Version :: string
  oa_RosenpassPubKey :: "byte list"
  oa_RosenpassAddr :: string
  oa_RelaySrvAddress :: string
  oa_SessionID :: "string option"

record ('w, 'c) sig_env =
  ActivatePeer :: "'c \<Rightarrow> 'w \<Rightarrow> 'w"
  DeactivatePeer :: "'c \<Rightarrow> 'w \<Rightarrow> 'w"
  OnRemoteOffer :: "'c \<Rightarrow> offer_answer \<Rightarrow> 'w \<Rightarrow> 'w"
  OnRemoteAnswer :: "'c \<Rightarrow> offer_answer \<Rightarrow> 'w \<Rightarrow> 'w"
  OnRemoteCandidate :: "'c \<Rightarrow> string \<Rightarrow> hamap \<Rightarrow> 'w \<Rightarrow> 'w"
  UnmarshalCandidate :: "string \<Rightarrow> string result"
  ICESessionIDFromBytes :: "byte list \<Rightarrow> string result"

section \<open>Credentials\<close>

definition MarshalCredential ::
    "string \<Rightarrow> int \<Rightarrow> string \<Rightarrow> credential \<Rightarrow> body_type \<Rightarrow> byte list \<Rightarrow> string \<Rightarrow> string \<Rightarrow> byte list option \<Rightarrow> string
     \<Rightarrow> sig_message" where
  "MarshalCredential myPublicKey myPort remoteKey cred t rpKey rpAddr relaySrv sessionID version =
     \<lparr>sm_Key = myPublicKey, sm_RemoteKey = remoteKey,
      sm_Body = Some \<lparr>sb_Type = t, sb_Payload = cr_UFrag cred @ '':'' @ cr_Pwd cred, sb_WgListenPort = word_of_int myPort,
        sb_NetBirdVersion = version, sb_RosenpassConfig = Some \<lparr>rpc_PubKey = rpKey, rpc_ServerAddr = rpAddr\<rparr>,
        sb_RelayServerAddress = relaySrv, sb_SessionId = sessionID\<rparr>\<rparr>"

definition body_payload :: "sig_message \<Rightarrow> string" where
  "body_payload msg = (case sm_Body msg of None \<Rightarrow> [] | Some b \<Rightarrow> sb_Payload b)"

definition UnMarshalCredential :: "sig_message \<Rightarrow> credential result" where
  "UnMarshalCredential msg =
     (let c = strings_Split (CHR '':'') (body_payload msg) in
      if length c \<noteq> 2 then Inl (ErrMsg ''error parsing message body'')
      else Inr \<lparr>cr_UFrag = c ! 0, cr_Pwd = c ! 1\<rparr>)"

text \<open>The conversion is only reached with a body; the field getters of a missing one would return zero values.\<close>

definition convertToOfferAnswer :: "('w, 'c) sig_env \<Rightarrow> sig_message \<Rightarrow> sig_body \<Rightarrow> offer_answer result" where
  "convertToOfferAnswer S msg b =
     bind_result (UnMarshalCredential msg) (\<lambda>cred.
       let (rpKey, rpAddr) = (case sb_RosenpassConfig b of None \<Rightarrow> ([], []) | Some c \<Rightarrow> (rpc_PubKey c, rpc_ServerAddr c));
           session = (case sb_SessionId b of
                        None \<Rightarrow> None
                      | Some bs \<Rightarrow> (case ICESessionIDFromBytes S bs of Inl _ \<Rightarrow> None | Inr i \<Rightarrow> Some i))
       in Inr \<lparr>oa_IceCredentials = cred, oa_WgListenPort = uint (sb_WgListenPort b), oa_Version = sb_NetBirdVersion b,
               oa_RosenpassPubKey = rpKey, oa_RosenpassAddr = rpAddr, oa_RelaySrvAddress = sb_RelayServerAddress b,
               oa_SessionID = session\<rparr>)"

section \<open>The handler\<close>

text \<open>\<open>None\<close> is a panic; the candidate is handed to the connection in a goroutine, here as part of the step.\<close>

definition handleSignal ::
    "('w, 'c) peer_env \<Rightarrow> ('w, 'c) sig_env \<Rightarrow> ('w, 'k) dm option \<Rightarrow> sig_message \<Rightarrow> 'w \<Rightarrow> (go_error option \<times> 'w) option" where
  "handleSignal E S rm msg w =
     (case PeerConn E (sm_Key msg) w of
        None \<Rightarrow> Some (Some (ErrMsg (''wrongly addressed message '' @ sm_Key msg)), w)
      | Some conn \<Rightarrow>
        (case sm_Body msg of
           None \<Rightarrow> None
         | Some b \<Rightarrow>
           (let w1 = (if sb_Type b \<noteq> GO_IDLE then ActivatePeer S conn w else w) in
            case sb_Type b of
              OFFER \<Rightarrow> (case convertToOfferAnswer S msg b of
                           Inl e \<Rightarrow> Some (Some e, w1) | Inr oa \<Rightarrow> Some (None, OnRemoteOffer S conn oa w1))
            | ANSWER \<Rightarrow> (case convertToOfferAnswer S msg b of
                           Inl e \<Rightarrow> Some (Some e, w1) | Inr oa \<Rightarrow> Some (None, OnRemoteAnswer S conn oa w1))
            | CANDIDATE \<Rightarrow> (case UnmarshalCandidate S (sb_Payload b) of
                           Inl e \<Rightarrow> Some (Some e, w1)
                         | Inr c \<Rightarrow> (case rm of None \<Rightarrow> None
                                     | Some m \<Rightarrow> Some (None, OnRemoteCandidate S conn c (GetClientRoutes m) w1)))
            | MODE \<Rightarrow> Some (None, w1)
            | GO_IDLE \<Rightarrow> Some (None, DeactivatePeer S conn w1)
            | OtherType _ \<Rightarrow> Some (None, w1))))"

section \<open>Round trips\<close>

lemma split_two:
  assumes "strings_Split c (x @ c # y) = [x', y']"
  shows "c \<notin> set x \<and> c \<notin> set y \<and> x' = x \<and> y' = y"
proof -
  have "count_list (x @ c # y) c = 1"
  proof -
    have "x @ c # y = x' @ c # y'" using strings_Join_Split [of c "x @ c # y"] assms by simp
    moreover have "c \<notin> set x'" "c \<notin> set y'" using strings_Split_sep_free [of _ c "x @ c # y"] assms by auto
    ultimately show ?thesis by (simp add: count_list_0_iff)
  qed
  then have "c \<notin> set x" "c \<notin> set y" by (simp_all add: count_list_0_iff)
  then show ?thesis using assms by (simp add: strings_Split_append strings_Split_no_sep)
qed

lemma UnMarshal_Marshal:
  "UnMarshalCredential (MarshalCredential k p r cred t rk ra rs sid v) = Inr cred' \<longleftrightarrow>
     cred' = cred \<and> CHR '':'' \<notin> set (cr_UFrag cred) \<and> CHR '':'' \<notin> set (cr_Pwd cred)"
proof
  assume "UnMarshalCredential (MarshalCredential k p r cred t rk ra rs sid v) = Inr cred'"
  then have l: "length (strings_Split (CHR '':'') (cr_UFrag cred @ CHR '':'' # cr_Pwd cred)) = 2"
    and c: "cred' = \<lparr>cr_UFrag = strings_Split (CHR '':'') (cr_UFrag cred @ CHR '':'' # cr_Pwd cred) ! 0,
      cr_Pwd = strings_Split (CHR '':'') (cr_UFrag cred @ CHR '':'' # cr_Pwd cred) ! 1\<rparr>"
    by (auto simp: UnMarshalCredential_def MarshalCredential_def body_payload_def Let_def split: if_splits)
  obtain x y where xy: "strings_Split (CHR '':'') (cr_UFrag cred @ CHR '':'' # cr_Pwd cred) = [x, y]"
    using l by (auto simp: numeral_2_eq_2 length_Suc_conv)
  from split_two [OF this] show "cred' = cred \<and> CHR '':'' \<notin> set (cr_UFrag cred) \<and> CHR '':'' \<notin> set (cr_Pwd cred)"
    using c xy by simp
qed (simp add: UnMarshalCredential_def MarshalCredential_def body_payload_def strings_Split_append strings_Split_no_sep)

text \<open>Credentials survive marshalling and unmarshalling exactly when neither the fragment nor the password contains the
  colon that separates them; otherwise the receiver rejects the message.\<close>

theorem credential_roundtrip_iff:
  "UnMarshalCredential (MarshalCredential k p r cred t rk ra rs sid v) = Inr cred \<longleftrightarrow>
     CHR '':'' \<notin> set (cr_UFrag cred) \<and> CHR '':'' \<notin> set (cr_Pwd cred)"
  by (simp add: UnMarshal_Marshal)

text \<open>An offer or answer built by \<^verbatim>\<open>MarshalCredential\<close> is received with the same credentials, port, version, Rosenpass
  data and relay address; the session identifier is the decoded one, or none when it does not decode.\<close>

theorem offer_answer_roundtrip:
  assumes "CHR '':'' \<notin> set (cr_UFrag cred)" and "CHR '':'' \<notin> set (cr_Pwd cred)" and "0 \<le> port" and "port < 2 ^ 32"
    and "sm_Body (MarshalCredential k port r cred t rk ra rs sid v) = Some b"
  shows "convertToOfferAnswer S (MarshalCredential k port r cred t rk ra rs sid v) b =
    Inr \<lparr>oa_IceCredentials = cred, oa_WgListenPort = port, oa_Version = v, oa_RosenpassPubKey = rk, oa_RosenpassAddr = ra,
      oa_RelaySrvAddress = rs,
      oa_SessionID = (case sid of None \<Rightarrow> None | Some bs \<Rightarrow> (case ICESessionIDFromBytes S bs of Inl _ \<Rightarrow> None | Inr i \<Rightarrow> Some i))\<rparr>"
proof -
  have "UnMarshalCredential (MarshalCredential k port r cred t rk ra rs sid v) = Inr cred"
    using assms(1,2) UnMarshal_Marshal by blast
  moreover have "uint (word_of_int port :: 32 word) = port" using assms(3,4) by (simp add: uint_word_of_int)
  ultimately show ?thesis using assms(5)
    by (auto simp: convertToOfferAnswer_def) (auto simp: MarshalCredential_def)
qed

text \<open>A message whose sender is not in the peer store is refused with an error and changes nothing; for a known sender the
  handler panics only when the body is missing or a candidate arrives without a route manager.\<close>

theorem handleSignal_unknown_peer:
  "(PeerConn E (sm_Key msg) w = None \<longrightarrow> (\<exists>e. handleSignal E S rm msg w = Some (Some e, w))) \<and>
   (handleSignal E S rm msg w = None \<longleftrightarrow> PeerConn E (sm_Key msg) w \<noteq> None \<and>
      (case sm_Body msg of None \<Rightarrow> True
       | Some b \<Rightarrow> sb_Type b = CANDIDATE \<and> (\<exists>c. UnmarshalCandidate S (sb_Payload b) = Inr c) \<and> rm = None))"
  by (auto simp: handleSignal_def Let_def split: option.splits sum.splits body_type.splits)

section \<open>Witnesses\<close>

definition sample_sig :: "((string \<times> conn_config) list, conn_config) sig_env" where
  "sample_sig = \<lparr>ActivatePeer = (\<lambda>c w. w), DeactivatePeer = (\<lambda>c w. w), OnRemoteOffer = (\<lambda>c o' w. w), OnRemoteAnswer = (\<lambda>c o' w. w),
     OnRemoteCandidate = (\<lambda>c s h w. w), UnmarshalCandidate = Inr,
     ICESessionIDFromBytes = (\<lambda>bs. if length bs = 5 then Inr ''session'' else Inl (ErrMsg ''invalid session''))\<rparr>"

definition sample_offer :: "byte list option \<Rightarrow> sig_message" where
  "sample_offer sid = MarshalCredential ''a'' 51820 ''me'' \<lparr>cr_UFrag = ''frag'', cr_Pwd = ''pwd''\<rparr> OFFER [] [] ''rels://r'' sid ''0.1''"

theorem offer_answer_roundtrip_witness:
  "\<exists>oa. convertToOfferAnswer sample_sig (sample_offer (Some [1, 2])) (the (sm_Body (sample_offer (Some [1, 2])))) = Inr oa \<and>
     oa_WgListenPort oa = 51820 \<and> oa_SessionID oa = None"
proof -
  have b: "sm_Body (sample_offer (Some [1, 2])) = Some (the (sm_Body (sample_offer (Some [1, 2]))))"
    by (simp add: sample_offer_def MarshalCredential_def)
  from offer_answer_roundtrip [OF _ _ _ _ b [unfolded sample_offer_def], of sample_sig] show ?thesis
    by (simp add: sample_offer_def) (simp add: sample_sig_def)
qed

theorem handleSignal_unknown_peer_witness:
  "\<exists>e. handleSignal sample_peers sample_sig (None :: (sample_world, sample_kernel) dm option) (sample_offer None) [] = Some (Some e, [])"
  using handleSignal_unknown_peer [of sample_peers "sample_offer None" "[]" sample_sig "None :: (sample_world, sample_kernel) dm option"]
  by (simp add: sample_peers_def)

end
