(* ===== verification/Grpc_Client.thy ===== *)
theory Grpc_Client
  imports Go_Codec
begin

text \<open>
  What the clients of the signal service and of the management service share: the connection states of gRPC, the errors
  of a cancelled context, and the contract of \<^verbatim>\<open>backoff.Retry\<close>.

  \<^verbatim>\<open>google.golang.org/grpc\<close> and \<^verbatim>\<open>github.com/cenkalti/backoff\<close> are outside the repository. The inductive relation
  \<open>retried\<close> writes down what the documentation of \<^verbatim>\<open>Retry\<close> promises: the operation runs at least once, \<^verbatim>\<open>nil\<close> and a permanent
  error end the loop, after any other error the loop sleeps and tries again, and it may give up with that error or with
  the error of the context. While the loop sleeps the rest of the program goes on; the relation \<open>pause\<close> says how far.
  A function of the program that calls \<^verbatim>\<open>Retry\<close> takes it as an argument, and a theorem about it assumes \<open>retry_contract\<close>.

  The lemmas are the proof rules of that contract: an invariant of the attempts and of the pauses holds when the loop
  returns, a successful first attempt is the result, and a permanent error is reported unwrapped.
\<close>

section \<open>Connections\<close>

datatype conn_state = Idle | Connecting | Ready | TransientFailure | Shutdown

definition conn_usable :: "conn_state \<Rightarrow> bool" where
  "conn_usable s = (s = Ready \<or> s = Idle)"

fun conn_state_String :: "conn_state \<Rightarrow> string" where
  "conn_state_String Idle = ''IDLE''"
| "conn_state_String Connecting = ''CONNECTING''"
| "conn_state_String Ready = ''READY''"
| "conn_state_String TransientFailure = ''TRANSIENT_FAILURE''"
| "conn_state_String Shutdown = ''SHUTDOWN''"

text \<open>The time limit of a call, in seconds.\<close>

definition ConnectTimeout :: nat where "ConnectTimeout = 10"

definition context_Canceled :: go_error where "context_Canceled = ErrSentinel ''context canceled''"
definition context_DeadlineExceeded :: go_error where
  "context_DeadlineExceeded = ErrSentinel ''context deadline exceeded''"
definition io_EOF :: go_error where "io_EOF = ErrSentinel ''EOF''"

text \<open>
  \<^verbatim>\<open>status.FromError\<close> returns the code of an error and whether it carries one; the code of \<^verbatim>\<open>nil\<close> is \<open>OK\<close>. The function is
  an argument of the clients, and \<open>status_laws\<close> is what its documentation says of it.
\<close>

type_synonym from_error = "go_error option \<Rightarrow> grpc_code \<times> bool"

definition status_laws :: "from_error \<Rightarrow> bool" where
  "status_laws F \<longleftrightarrow> F None = (OK, True) \<and> (\<forall>c m. c \<noteq> OK \<longrightarrow> F (Some (ErrStatus c m)) = (c, True))
     \<and> (\<forall>m. F (Some (ErrMsg m)) = (Unknown, False)) \<and> (\<forall>m. F (Some (ErrSentinel m)) = (Unknown, False))"

definition has_code :: "from_error \<Rightarrow> grpc_code \<Rightarrow> go_error option \<Rightarrow> bool" where
  "has_code F c err = (snd (F err) \<and> fst (F err) = c)"

lemma has_code_simps [simp]:
  assumes "status_laws F"
  shows "has_code F c None \<longleftrightarrow> c = OK"
    and "c' \<noteq> OK \<Longrightarrow> has_code F c (Some (ErrStatus c' m)) \<longleftrightarrow> c = c'"
    and "\<not> has_code F c (Some (ErrMsg m))"
    and "\<not> has_code F c (Some (ErrSentinel m))"
  using assms by (auto simp: has_code_def status_laws_def)

definition plain_FromError :: from_error where
  "plain_FromError err =
     (case err of None \<Rightarrow> (OK, True) | Some (ErrStatus c _) \<Rightarrow> (c, True) | Some _ \<Rightarrow> (Unknown, False))"

lemma plain_FromError_laws [simp]: "status_laws plain_FromError"
  by (simp add: status_laws_def plain_FromError_def)

section \<open>Retrying\<close>

fun permanent_of :: "go_error \<Rightarrow> go_error option" where
  "permanent_of (ErrPermanent e) = Some e"
| "permanent_of (ErrWrap m e) = permanent_of e"
| "permanent_of _ = None"

inductive retried ::
    "('s \<Rightarrow> (go_error option \<times> 's) option) \<Rightarrow> ('s \<Rightarrow> 's \<Rightarrow> bool) \<Rightarrow> 's \<Rightarrow> go_error option \<Rightarrow> 's \<Rightarrow> bool"
  for operation pause where
  succeeds: "operation s = Some (None, s') \<Longrightarrow> retried operation pause s None s'"
| permanent: "operation s = Some (Some e, s') \<Longrightarrow> permanent_of e = Some e'
     \<Longrightarrow> retried operation pause s (Some e') s'"
| again: "operation s = Some (Some e, s1) \<Longrightarrow> permanent_of e = None \<Longrightarrow> pause s1 s2
     \<Longrightarrow> retried operation pause s2 r s' \<Longrightarrow> retried operation pause s r s'"
| gives_up: "operation s = Some (Some e, s1) \<Longrightarrow> permanent_of e = None \<Longrightarrow> pause s1 s2
     \<Longrightarrow> e' \<in> {e, context_Canceled, context_DeadlineExceeded}
     \<Longrightarrow> retried operation pause s (Some e') s2"

inductive_cases retried_cases: "retried operation pause s r s'"

type_synonym 's operation = "'s \<Rightarrow> (go_error option \<times> 's) option"

definition retry_contract :: "('s operation \<Rightarrow> 's operation) \<Rightarrow> ('s \<Rightarrow> 's \<Rightarrow> bool) \<Rightarrow> bool" where
  "retry_contract Retry pause \<longleftrightarrow>
     (\<forall>operation s r s'. Retry operation s = Some (r, s') \<longrightarrow> retried operation pause s r s')
   \<and> (\<forall>operation s s'. operation s = Some (None, s') \<longrightarrow> Retry operation s \<noteq> None)
   \<and> (\<forall>operation s e s' e'. operation s = Some (Some e, s') \<longrightarrow> permanent_of e = Some e' \<longrightarrow>
        Retry operation s = Some (Some e', s'))"

lemma retry_contractD:
  "retry_contract Retry pause \<Longrightarrow> Retry operation s = Some (r, s') \<Longrightarrow> retried operation pause s r s'"
  unfolding retry_contract_def by simp

lemma retry_success:
  assumes "retry_contract Retry pause" and op: "operation s = Some (None, s')"
  shows "Retry operation s = Some (None, s')"
proof (cases "Retry operation s")
  case None
  then show ?thesis
    using assms unfolding retry_contract_def by simp
next
  case (Some p)
  obtain r t where p: "p = (r, t)" by (cases p)
  have "retried operation pause s r t"
    using retry_contractD [OF assms(1)] Some p by blast
  then show ?thesis
    using op Some p by (auto elim: retried_cases)
qed

lemma retry_permanent:
  assumes "retry_contract Retry pause" and "operation s = Some (Some e, s')" and "permanent_of e = Some e'"
  shows "Retry operation s = Some (Some e', s')"
  using assms unfolding retry_contract_def by simp

lemma retried_invariant:
  assumes "retried operation pause s r s'" and "I s"
    and "\<And>s r s'. I s \<Longrightarrow> operation s = Some (r, s') \<Longrightarrow> I s'"
    and "\<And>s s'. I s \<Longrightarrow> pause s s' \<Longrightarrow> I s'"
  shows "I s'"
  using assms(1,2)
proof (induction rule: retried.induct)
  case (again s e s1 s2 r s')
  then show ?case using assms(3) [OF again.prems again.hyps(1)] assms(4) [of s1 s2] by blast
next
  case (gives_up s e s1 s2 e')
  then show ?case using assms(3) [OF gives_up.prems gives_up.hyps(1)] assms(4) [of s1 s2] by blast
qed (auto dest: assms(3))

text \<open>The error a loop returns is that of an attempt, unwrapped when it was permanent, or that of the context.\<close>

lemma retried_error:
  assumes "retried operation pause s (Some e) s'" and "I s"
    and "\<And>s r s'. I s \<Longrightarrow> operation s = Some (r, s') \<Longrightarrow> I s'"
    and "\<And>s s'. I s \<Longrightarrow> pause s s' \<Longrightarrow> I s'"
  shows "e \<in> {context_Canceled, context_DeadlineExceeded}
    \<or> (\<exists>t t' e0. I t \<and> operation t = Some (Some e0, t') \<and> (permanent_of e0 = Some e \<or> permanent_of e0 = None \<and> e0 = e))"
proof -
  have "\<forall>e. r = Some e \<longrightarrow> e \<in> {context_Canceled, context_DeadlineExceeded}
      \<or> (\<exists>t t' e0. I t \<and> operation t = Some (Some e0, t') \<and> (permanent_of e0 = Some e \<or> permanent_of e0 = None \<and> e0 = e))"
    if "retried operation pause s r s'" "I s" for r s
    using that
  proof (induction rule: retried.induct)
    case (again s e s1 s2 r s')
    then show ?case using assms(3) [OF again.prems again.hyps(1)] assms(4) [of s1 s2] by blast
  qed auto
  then show ?thesis
    using assms(1,2) by blast
qed

text \<open>
  A retry that never sleeps longer than \<open>n\<close> times satisfies the contract, whatever the pause does: the contract can be
  met.
\<close>

fun retry_times :: "nat \<Rightarrow> ('s \<Rightarrow> 's) \<Rightarrow> 's operation \<Rightarrow> 's operation" where
  "retry_times 0 sleep operation s =
     (case operation s of
        None \<Rightarrow> None
      | Some (None, s') \<Rightarrow> Some (None, s')
      | Some (Some e, s') \<Rightarrow>
          (case permanent_of e of Some e' \<Rightarrow> Some (Some e', s') | None \<Rightarrow> Some (Some e, sleep s')))"
| "retry_times (Suc n) sleep operation s =
     (case operation s of
        None \<Rightarrow> None
      | Some (None, s') \<Rightarrow> Some (None, s')
      | Some (Some e, s') \<Rightarrow>
          (case permanent_of e of Some e' \<Rightarrow> Some (Some e', s') | None \<Rightarrow> retry_times n sleep operation (sleep s')))"

lemma retry_times_retried:
  "retry_times n sleep operation s = Some (r, s') \<Longrightarrow> retried operation (\<lambda>s t. t = sleep s) s r s'"
proof (induction n arbitrary: s)
  case 0
  obtain x t where x: "operation s = Some (x, t)" using 0 by (cases "operation s") auto
  show ?case
  proof (cases x)
    case (Some e)
    then show ?thesis
      using 0 x
      by (cases "permanent_of e"; simp; blast intro: retried.permanent retried.again retried.gives_up)
  qed (use 0 x in \<open>auto intro: retried.intros\<close>)
next
  case (Suc n)
  obtain x t where x: "operation s = Some (x, t)" using Suc.prems by (cases "operation s") auto
  show ?case
  proof (cases x)
    case (Some e)
    then show ?thesis
      using Suc x
      by (cases "permanent_of e"; simp; blast intro: retried.permanent retried.again retried.gives_up)
  qed (use Suc.prems x in \<open>auto intro: retried.intros\<close>)
qed

lemma retry_times_contract: "retry_contract (retry_times n sleep) (\<lambda>s t. t = sleep s)"
  unfolding retry_contract_def
  by (intro conjI allI impI; (erule retry_times_retried | cases n; simp))

end
