(* ===== verification/Signal_Client.thy ===== *)
theory Signal_Client
  imports Engine_Signal Grpc_Client "HOL-Library.Sublist"
begin

text \<open>
  The client of the signal service, \<^verbatim>\<open>go/signal/client/grpc.go\<close> and \<^verbatim>\<open>worker.go\<close>: opening the stream and reopening it after
  errors, encrypting and sending messages, and the worker that decrypts and handles the received ones.

  The gRPC connection, its streams, the cipher and the keys are outside the repository; they are the fields of \<open>sc_env\<close>
  over a world \<open>'w\<close>, and \<open>'s\<close> is the type of streams. The record \<open>sig_client\<close> has the fields of \<^verbatim>\<open>GrpcClient\<close>; a channel of
  waiting goroutines is a number, and the closed channels are remembered. Logging is left out, and the duration of an
  attempt is in seconds.

  The client is used by several goroutines: the receiving loop, the worker, goroutines that wait for the stream, and the
  callers of the other methods. \<open>sig_step\<close> interleaves them; a step is the code between two points where a goroutine can
  block or another one can observe it, and the control state of the receiving loop is \<open>rx_pc\<close>. The lists \<open>sc_got\<close> and
  \<open>sc_done\<close> record the messages received and the messages the worker has taken.

  The theorems: sending makes at most four attempts with growing time limits and stops at the first success or
  cancellation, a message encrypted for a peer is decrypted by it, the worker takes the messages in the order in which
  they were received and none is lost while the client runs, every goroutine that waits on a channel is released by the
  next connection, and a goroutine that looked at the status too early waits although the stream is connected.
\<close>

section \<open>Data\<close>

record enc_message =
  em_Key :: string
  em_RemoteKey :: string
  em_Body :: "byte list"

datatype stream_status = StreamConnected | StreamDisconnected

record 'w notifier =
  MarkDisconnected :: "go_error option \<Rightarrow> 'w \<Rightarrow> 'w"
  MarkConnected :: "'w \<Rightarrow> 'w"

type_synonym 'w sig_handler = "sig_message \<Rightarrow> 'w \<Rightarrow> go_error option \<times> 'w"

record 'w worker =
  wk_handler :: "'w sig_handler"
  wk_encryptedMsgPool :: "enc_message list"

datatype 's rx_pc =
    RxAttempt
  | RxStream 's
  | RxAdd 's enc_message
  | RxBackoff go_error
  | RxReturned "go_error option"
  | RxPanic

record ('w, 's) sig_client =
  sc_key :: wgkey
  sc_stream :: "'s option"
  sc_connectedCh :: "nat option"
  sc_status :: stream_status
  sc_connStateCallback :: "'w notifier option"
  sc_onReconnected :: "('w \<Rightarrow> 'w) option"
  sc_worker :: "'w worker option"
  sc_channels :: nat
  sc_closed :: "nat set"
  sc_world :: 'w

record ('w, 's) sc_env =
  GetState :: "'w \<Rightarrow> conn_state"
  WaitForStateChange :: "conn_state \<Rightarrow> 'w \<Rightarrow> 'w"
  ConnectStream :: "string \<Rightarrow> 'w \<Rightarrow> 's result \<times> 'w"
  RegisteredHeader :: "'s \<Rightarrow> 'w \<Rightarrow> string list result \<times> 'w"
  stream_Recv :: "'s \<Rightarrow> 'w \<Rightarrow> enc_message option result \<times> 'w"
  stream_Send :: "'s \<Rightarrow> enc_message \<Rightarrow> 'w \<Rightarrow> go_error option \<times> 'w"
  rpc_Send :: "nat \<Rightarrow> enc_message \<Rightarrow> 'w \<Rightarrow> go_error option \<times> 'w"
  conn_Close :: "'w \<Rightarrow> go_error option \<times> 'w"
  FromError :: from_error
  sc_ParseKey :: "string \<Rightarrow> wgkey result"
  sc_PublicKey :: "wgkey \<Rightarrow> wgkey"
  sc_KeyString :: "wgkey \<Rightarrow> string"
  EncryptMessage :: "wgkey \<Rightarrow> wgkey \<Rightarrow> sig_body option \<Rightarrow> 'w \<Rightarrow> byte list result \<times> 'w"
  DecryptMessage :: "wgkey \<Rightarrow> wgkey \<Rightarrow> byte list \<Rightarrow> sig_body result"

section \<open>Creation and status\<close>

text \<open>
  \<open>CreateConnection\<close> is one attempt to connect; the loop around it is \<^verbatim>\<open>backoff.Retry\<close>. The connection it leaves is part of
  the world.
\<close>

definition create_operation :: "('w \<Rightarrow> go_error option \<times> 'w) \<Rightarrow> 'w operation" where
  "create_operation CreateConnection w =
     (case CreateConnection w of
        (Some e, w') \<Rightarrow> Some (Some (ErrWrap ''create connection'' e), w')
      | (None, w') \<Rightarrow> Some (None, w'))"

definition signal_NewClient ::
    "('w operation \<Rightarrow> 'w operation) \<Rightarrow> ('w \<Rightarrow> go_error option \<times> 'w) \<Rightarrow> wgkey \<Rightarrow> 'w
     \<Rightarrow> (('w, 's) sig_client result \<times> 'w) option" where
  "signal_NewClient Retry CreateConnection key w =
     (case Retry (create_operation CreateConnection) w of
        None \<Rightarrow> None
      | Some (Some e, w') \<Rightarrow> Some (Inl e, w')
      | Some (None, w') \<Rightarrow>
          Some (Inr \<lparr>sc_key = key, sc_stream = None, sc_connectedCh = None, sc_status = StreamDisconnected,
                     sc_connStateCallback = None, sc_onReconnected = None, sc_worker = None, sc_channels = 0,
                     sc_closed = {}, sc_world = w'\<rparr>, w'))"

definition is_StreamConnected :: "('w, 's) sig_client \<Rightarrow> bool" where
  "is_StreamConnected c = (sc_status c = StreamConnected)"

definition sc_GetStatus :: "('w, 's) sig_client \<Rightarrow> stream_status" where
  "sc_GetStatus c = sc_status c"

definition sc_SetConnStateListener :: "'w notifier option \<Rightarrow> ('w, 's) sig_client \<Rightarrow> ('w, 's) sig_client" where
  "sc_SetConnStateListener n c = c\<lparr>sc_connStateCallback := n\<rparr>"

definition sc_SetOnReconnectedListener :: "('w \<Rightarrow> 'w) option \<Rightarrow> ('w, 's) sig_client \<Rightarrow> ('w, 's) sig_client" where
  "sc_SetOnReconnectedListener f c = c\<lparr>sc_onReconnected := f\<rparr>"

definition sc_Ready :: "('w, 's) sc_env \<Rightarrow> ('w, 's) sig_client \<Rightarrow> bool" where
  "sc_Ready E c = (GetState E (sc_world c) = Ready \<or> GetState E (sc_world c) = Idle)"

definition sc_notifyDisconnected :: "go_error option \<Rightarrow> ('w, 's) sig_client \<Rightarrow> ('w, 's) sig_client" where
  "sc_notifyDisconnected err c =
     (case sc_connStateCallback c of
        None \<Rightarrow> c
      | Some n \<Rightarrow> c\<lparr>sc_world := MarkDisconnected n err (sc_world c)\<rparr>)"

definition sc_notifyConnected :: "('w, 's) sig_client \<Rightarrow> ('w, 's) sig_client" where
  "sc_notifyConnected c =
     (case sc_connStateCallback c of
        None \<Rightarrow> c
      | Some n \<Rightarrow> c\<lparr>sc_world := MarkConnected n (sc_world c)\<rparr>)"

definition notifyStreamDisconnected :: "('w, 's) sig_client \<Rightarrow> ('w, 's) sig_client" where
  "notifyStreamDisconnected c = c\<lparr>sc_status := StreamDisconnected\<rparr>"

definition notifyStreamConnected :: "('w, 's) sig_client \<Rightarrow> ('w, 's) sig_client" where
  "notifyStreamConnected c =
     (let c1 = c\<lparr>sc_status := StreamConnected\<rparr>;
          c2 = (case sc_connectedCh c1 of
                  None \<Rightarrow> c1
                | Some ch \<Rightarrow> c1\<lparr>sc_closed := insert ch (sc_closed c1), sc_connectedCh := None\<rparr>)
      in case sc_onReconnected c2 of None \<Rightarrow> c2 | Some f \<Rightarrow> c2\<lparr>sc_world := f (sc_world c2)\<rparr>)"

definition getStreamStatusChan :: "('w, 's) sig_client \<Rightarrow> nat \<times> ('w, 's) sig_client" where
  "getStreamStatusChan c =
     (case sc_connectedCh c of
        Some ch \<Rightarrow> (ch, c)
      | None \<Rightarrow> (sc_channels c, c\<lparr>sc_connectedCh := Some (sc_channels c), sc_channels := Suc (sc_channels c)\<rparr>))"

section \<open>Messages\<close>

definition decryptMessage :: "('w, 's) sc_env \<Rightarrow> wgkey \<Rightarrow> enc_message \<Rightarrow> sig_message result" where
  "decryptMessage E key msg =
     bind_result (sc_ParseKey E (em_Key msg)) (\<lambda>remoteKey.
     bind_result (DecryptMessage E remoteKey key (em_Body msg)) (\<lambda>body.
       Inr \<lparr>sm_Key = em_Key msg, sm_RemoteKey = em_RemoteKey msg, sm_Body = Some body\<rparr>))"

definition encryptMessage ::
    "('w, 's) sc_env \<Rightarrow> wgkey \<Rightarrow> sig_message \<Rightarrow> 'w \<Rightarrow> enc_message result \<times> 'w" where
  "encryptMessage E key msg w =
     (case sc_ParseKey E (sm_RemoteKey msg) of
        Inl e \<Rightarrow> (Inl e, w)
      | Inr remoteKey \<Rightarrow>
          (case EncryptMessage E remoteKey key (sm_Body msg) w of
             (Inl e, w') \<Rightarrow> (Inl e, w')
           | (Inr encryptedBody, w') \<Rightarrow>
               (Inr \<lparr>em_Key = sm_Key msg, em_RemoteKey = sm_RemoteKey msg, em_Body = encryptedBody\<rparr>, w')))"

section \<open>Sending\<close>

text \<open>
  The loop of \<^verbatim>\<open>Send\<close>: \<open>n\<close> attempts are left, \<open>timeout\<close> is the time limit of the attempt before and \<open>lastErr\<close> the error of that
  attempt.
\<close>

fun send_attempts ::
    "('w, 's) sc_env \<Rightarrow> enc_message \<Rightarrow> nat \<Rightarrow> nat \<Rightarrow> nat \<Rightarrow> go_error option \<Rightarrow> 'w \<Rightarrow> go_error option \<times> 'w" where
  "send_attempts E m 0 attempt timeout lastErr w = (lastErr, w)"
| "send_attempts E m (Suc n) attempt timeout lastErr w =
     (let timeout' = (if attempt > 1 then attempt * 5 else timeout);
          (err, w') = rpc_Send E timeout' m w
      in if has_code (FromError E) Canceled err then (err, w')
         else if err = None then (None, w')
         else send_attempts E m n (Suc attempt) timeout' err w')"

definition sc_Send :: "('w, 's) sc_env \<Rightarrow> ('w, 's) sig_client \<Rightarrow> sig_message \<Rightarrow> go_error option \<times> ('w, 's) sig_client" where
  "sc_Send E c msg =
     (if \<not> sc_Ready E c then (Some (ErrMsg ''no connection to signal''), c)
      else (case encryptMessage E (sc_key c) msg (sc_world c) of
              (Inl e, w') \<Rightarrow> (Some e, c\<lparr>sc_world := w'\<rparr>)
            | (Inr encrypted, w') \<Rightarrow>
                (let (err, w2) = send_attempts E encrypted 4 0 ConnectTimeout None w'
                 in (err, c\<lparr>sc_world := w2\<rparr>))))"

definition SendToStream :: "('w, 's) sc_env \<Rightarrow> ('w, 's) sig_client \<Rightarrow> enc_message \<Rightarrow> go_error option \<times> ('w, 's) sig_client" where
  "SendToStream E c msg =
     (if \<not> sc_Ready E c then (Some (ErrMsg ''no connection to signal''), c)
      else (case sc_stream c of
              None \<Rightarrow> (Some (ErrMsg ''connection to the Signal Exchange has not been established yet. Please call GrpcClient.Receive before sending messages''), c)
            | Some st \<Rightarrow> (let (err, w') = stream_Send E st msg (sc_world c) in (err, c\<lparr>sc_world := w'\<rparr>))))"

definition sc_IsHealthy :: "('w, 's) sc_env \<Rightarrow> ('w, 's) sig_client \<Rightarrow> bool \<times> ('w, 's) sig_client" where
  "sc_IsHealthy E c =
     (case GetState E (sc_world c) of
        TransientFailure \<Rightarrow> (False, c)
      | Connecting \<Rightarrow> (True, c)
      | Shutdown \<Rightarrow> (True, c)
      | _ \<Rightarrow>
         (let (err, w') = rpc_Send E 1 \<lparr>em_Key = sc_KeyString E (sc_PublicKey E (sc_key c)), em_RemoteKey = ''dummy'',
                                        em_Body = []\<rparr> (sc_world c);
              c1 = c\<lparr>sc_world := w'\<rparr>
          in if err \<noteq> None then (False, sc_notifyDisconnected err c1) else (True, sc_notifyConnected c1)))"

section \<open>The worker\<close>

definition NewWorker :: "'w sig_handler \<Rightarrow> 'w worker" where
  "NewWorker handler = \<lparr>wk_handler = handler, wk_encryptedMsgPool = []\<rparr>"

definition pool_capacity :: nat where "pool_capacity = 1"

text \<open>The send on the channel succeeds when there is room for the message.\<close>

definition AddMsg :: "enc_message \<Rightarrow> 'w worker \<Rightarrow> 'w worker option" where
  "AddMsg msg k =
     (if length (wk_encryptedMsgPool k) < pool_capacity
      then Some (k\<lparr>wk_encryptedMsgPool := wk_encryptedMsgPool k @ [msg]\<rparr>) else None)"

text \<open>One turn of \<^verbatim>\<open>Work\<close>: the message it takes is decrypted and handled; both errors are only logged.\<close>

definition Work_turn ::
    "(enc_message \<Rightarrow> sig_message result) \<Rightarrow> 'w worker \<Rightarrow> 'w \<Rightarrow> (enc_message \<times> 'w worker \<times> 'w) option" where
  "Work_turn decrypt k w =
     (case wk_encryptedMsgPool k of
        [] \<Rightarrow> None
      | msg # rest \<Rightarrow>
          Some (msg, k\<lparr>wk_encryptedMsgPool := rest\<rparr>,
            (case decrypt msg of Inl _ \<Rightarrow> w | Inr m \<Rightarrow> snd (wk_handler k m w))))"

definition startEncryptionWorker :: "'w sig_handler \<Rightarrow> ('w, 's) sig_client \<Rightarrow> ('w, 's) sig_client" where
  "startEncryptionWorker handler c =
     (case sc_worker c of Some _ \<Rightarrow> c | None \<Rightarrow> c\<lparr>sc_worker := Some (NewWorker handler)\<rparr>)"

text \<open>\<^verbatim>\<open>Close\<close> cancels the worker, waits until its goroutine has ended and closes the connection.\<close>

definition sc_Close :: "('w, 's) sc_env \<Rightarrow> ('w, 's) sig_client \<Rightarrow> go_error option \<times> ('w, 's) sig_client" where
  "sc_Close E c =
     (let c1 = c\<lparr>sc_worker := None\<rparr>; (err, w') = conn_Close E (sc_world c1) in (err, c1\<lparr>sc_world := w'\<rparr>))"

section \<open>Receiving\<close>

definition sc_connect :: "('w, 's) sc_env \<Rightarrow> string \<Rightarrow> ('w, 's) sig_client \<Rightarrow> 's result \<times> ('w, 's) sig_client" where
  "sc_connect E key c =
     (case ConnectStream E key (sc_world c) of
        (Inl e, w') \<Rightarrow> (Inl e, c\<lparr>sc_stream := None, sc_world := w'\<rparr>)
      | (Inr st, w') \<Rightarrow>
         (case RegisteredHeader E st w' of
            (Inl e, w2) \<Rightarrow> (Inl e, c\<lparr>sc_stream := Some st, sc_world := w2\<rparr>)
          | (Inr registered, w2) \<Rightarrow>
             (if registered = [] then
                (Inl (ErrMsg (''didn'' @ [CHR 0x27] @ ''t receive a registration header from the Signal server whille connecting to the streams'')),
                 c\<lparr>sc_stream := Some st, sc_world := w2\<rparr>)
              else (Inr st, c\<lparr>sc_stream := Some st, sc_world := w2\<rparr>))))"

text \<open>The operation of \<^verbatim>\<open>Receive\<close> up to the receiving loop: the stream, or the error the operation returns.\<close>

definition receive_attempt ::
    "('w, 's) sc_env \<Rightarrow> 'w sig_handler \<Rightarrow> ('w, 's) sig_client \<Rightarrow> 's result \<times> ('w, 's) sig_client" where
  "receive_attempt E handler c =
     (let c1 = notifyStreamDisconnected c; connState = GetState E (sc_world c1) in
      if connState = Shutdown then (Inl (ErrPermanent (ErrMsg ''connection to signal has been shut down'')), c1)
      else if \<not> (connState = Ready \<or> connState = Idle) then
        (Inl (ErrMsg (''connection to signal is not ready and in '' @ conn_state_String connState @ '' state'')),
         c1\<lparr>sc_world := WaitForStateChange E connState (sc_world c1)\<rparr>)
      else (case sc_connect E (sc_KeyString E (sc_PublicKey E (sc_key c1))) c1 of
              (Inl e, c2) \<Rightarrow> (Inl e, c2)
            | (Inr st, c2) \<Rightarrow>
                (Inr st, startEncryptionWorker handler (sc_notifyConnected (notifyStreamConnected c2)))))"

text \<open>
  One turn of the receiving loop: it returns the error of the stream, skips an empty message or goes on to hand the
  message to the worker. The cases of the switch all return the error, they only log different texts.
\<close>

datatype recv_turn = RecvReturn go_error | RecvSkip | RecvMsg enc_message

definition receive_turn :: "('w, 's) sc_env \<Rightarrow> 's \<Rightarrow> 'w \<Rightarrow> recv_turn \<times> 'w" where
  "receive_turn E st w =
     (case stream_Recv E st w of
        (Inl e, w') \<Rightarrow> (RecvReturn e, w')
      | (Inr None, w') \<Rightarrow> (RecvSkip, w')
      | (Inr (Some m), w') \<Rightarrow> (RecvMsg m, w'))"

text \<open>The rest of the operation, after the receiving loop returned \<open>err\<close>.\<close>

definition receive_ended :: "('w, 's) sc_env \<Rightarrow> go_error \<Rightarrow> ('w, 's) sig_client \<Rightarrow> go_error option \<times> ('w, 's) sig_client" where
  "receive_ended E err c =
     (if has_code (FromError E) Canceled (Some err) then (None, c)
      else (Some err, sc_notifyDisconnected (Some err) c))"

section \<open>The goroutines\<close>

datatype waiter = WaitChecked | WaitOn nat | WaitDone

record ('w, 's) sig_sys =
  ss_client :: "('w, 's) sig_client"
  ss_rx :: "'s rx_pc"
  ss_waiters :: "waiter list"
  ss_got :: "enc_message list"
  ss_done :: "enc_message list"
  ss_ctxDone :: bool
  ss_closed :: bool

text \<open>What \<^verbatim>\<open>backoff.Retry\<close> does with the result of the operation.\<close>

definition after_operation :: "go_error option \<Rightarrow> 's rx_pc" where
  "after_operation r =
     (case r of
        None \<Rightarrow> RxReturned None
      | Some e \<Rightarrow> (case permanent_of e of Some e' \<Rightarrow> RxReturned (Some e') | None \<Rightarrow> RxBackoff e))"

inductive sig_step :: "('w, 's) sc_env \<Rightarrow> 'w sig_handler \<Rightarrow> ('w, 's) sig_sys \<Rightarrow> ('w, 's) sig_sys \<Rightarrow> bool"
  for E handler where
  attempt_ok: "ss_rx S = RxAttempt \<Longrightarrow> receive_attempt E handler (ss_client S) = (Inr st, c')
     \<Longrightarrow> sig_step E handler S (S\<lparr>ss_client := c', ss_rx := RxStream st\<rparr>)"
| attempt_err: "ss_rx S = RxAttempt \<Longrightarrow> receive_attempt E handler (ss_client S) = (Inl e, c')
     \<Longrightarrow> sig_step E handler S (S\<lparr>ss_client := c', ss_rx := after_operation (Some e)\<rparr>)"
| backoff_again: "ss_rx S = RxBackoff e \<Longrightarrow> sig_step E handler S (S\<lparr>ss_rx := RxAttempt\<rparr>)"
| backoff_stop: "ss_rx S = RxBackoff e \<Longrightarrow> e' \<in> {e, context_Canceled, context_DeadlineExceeded}
     \<Longrightarrow> sig_step E handler S (S\<lparr>ss_rx := RxReturned (Some e')\<rparr>)"
| recv_skip: "ss_rx S = RxStream st \<Longrightarrow> receive_turn E st (sc_world (ss_client S)) = (RecvSkip, w')
     \<Longrightarrow> sig_step E handler S (S\<lparr>ss_client := ss_client S\<lparr>sc_world := w'\<rparr>\<rparr>)"
| recv_msg: "ss_rx S = RxStream st \<Longrightarrow> receive_turn E st (sc_world (ss_client S)) = (RecvMsg m, w')
     \<Longrightarrow> sig_step E handler S
           (S\<lparr>ss_client := ss_client S\<lparr>sc_world := w'\<rparr>, ss_rx := RxAdd st m, ss_got := ss_got S @ [m]\<rparr>)"
| recv_return: "ss_rx S = RxStream st \<Longrightarrow> receive_turn E st (sc_world (ss_client S)) = (RecvReturn e, w')
     \<Longrightarrow> receive_ended E e (ss_client S\<lparr>sc_world := w'\<rparr>) = (r, c')
     \<Longrightarrow> sig_step E handler S (S\<lparr>ss_client := c', ss_rx := after_operation r\<rparr>)"
| add_msg: "ss_rx S = RxAdd st m \<Longrightarrow> sc_worker (ss_client S) = Some k \<Longrightarrow> AddMsg m k = Some k'
     \<Longrightarrow> sig_step E handler S (S\<lparr>ss_client := ss_client S\<lparr>sc_worker := Some k'\<rparr>, ss_rx := RxStream st\<rparr>)"
| add_cancelled: "ss_rx S = RxAdd st m \<Longrightarrow> sc_worker (ss_client S) = Some k \<Longrightarrow> ss_ctxDone S
     \<Longrightarrow> sig_step E handler S (S\<lparr>ss_rx := RxStream st\<rparr>)"
| add_panics: "ss_rx S = RxAdd st m \<Longrightarrow> sc_worker (ss_client S) = None
     \<Longrightarrow> sig_step E handler S (S\<lparr>ss_rx := RxPanic\<rparr>)"
| work: "sc_worker (ss_client S) = Some k
     \<Longrightarrow> Work_turn (decryptMessage E (sc_key (ss_client S))) k (sc_world (ss_client S)) = Some (m, k', w')
     \<Longrightarrow> sig_step E handler S
           (S\<lparr>ss_client := ss_client S\<lparr>sc_worker := Some k', sc_world := w'\<rparr>, ss_done := ss_done S @ [m]\<rparr>)"
| send: "sc_Send E (ss_client S) msg = (err, c') \<Longrightarrow> sig_step E handler S (S\<lparr>ss_client := c'\<rparr>)"
| send_stream: "SendToStream E (ss_client S) em = (err, c') \<Longrightarrow> sig_step E handler S (S\<lparr>ss_client := c'\<rparr>)"
| health: "sc_IsHealthy E (ss_client S) = (b, c') \<Longrightarrow> sig_step E handler S (S\<lparr>ss_client := c'\<rparr>)"
| listener: "sig_step E handler S (S\<lparr>ss_client := sc_SetConnStateListener n (ss_client S)\<rparr>)"
| on_reconnected: "sig_step E handler S (S\<lparr>ss_client := sc_SetOnReconnectedListener f (ss_client S)\<rparr>)"
| wait_check: "sig_step E handler S
     (S\<lparr>ss_waiters := ss_waiters S @ [if is_StreamConnected (ss_client S) then WaitDone else WaitChecked]\<rparr>)"
| wait_channel: "i < length (ss_waiters S) \<Longrightarrow> ss_waiters S ! i = WaitChecked
     \<Longrightarrow> getStreamStatusChan (ss_client S) = (ch, c')
     \<Longrightarrow> sig_step E handler S (S\<lparr>ss_client := c', ss_waiters := (ss_waiters S)[i := WaitOn ch]\<rparr>)"
| wait_released: "i < length (ss_waiters S) \<Longrightarrow> ss_waiters S ! i = WaitOn ch
     \<Longrightarrow> ch \<in> sc_closed (ss_client S) \<or> ss_ctxDone S
     \<Longrightarrow> sig_step E handler S (S\<lparr>ss_waiters := (ss_waiters S)[i := WaitDone]\<rparr>)"
| cancel: "sig_step E handler S (S\<lparr>ss_ctxDone := True\<rparr>)"
| closes: "sc_Close E (ss_client S) = (err, c') \<Longrightarrow> sig_step E handler S (S\<lparr>ss_client := c', ss_closed := True\<rparr>)"
| world: "sig_step E handler S (S\<lparr>ss_client := ss_client S\<lparr>sc_world := w'\<rparr>\<rparr>)"

inductive sig_reachable :: "('w, 's) sc_env \<Rightarrow> 'w sig_handler \<Rightarrow> ('w, 's) sig_sys \<Rightarrow> bool" for E handler where
  sig_init: "signal_NewClient Retry CreateConnection key w = Some (Inr c, w')
     \<Longrightarrow> sig_reachable E handler \<lparr>ss_client = c, ss_rx = RxAttempt, ss_waiters = [], ss_got = [], ss_done = [],
           ss_ctxDone = False, ss_closed = False\<rparr>"
| sig_more: "sig_reachable E handler S \<Longrightarrow> sig_step E handler S S' \<Longrightarrow> sig_reachable E handler S'"

section \<open>Sending and encryption\<close>

text \<open>The calls of the service with the given time limits, one after the other, and their results.\<close>

fun rpc_calls :: "('w, 's) sc_env \<Rightarrow> enc_message \<Rightarrow> nat list \<Rightarrow> 'w \<Rightarrow> go_error option list \<times> 'w" where
  "rpc_calls E m [] w = ([], w)"
| "rpc_calls E m (t # ts) w =
     (let (err, w1) = rpc_Send E t m w; (errs, w2) = rpc_calls E m ts w1 in (err # errs, w2))"

definition send_stops :: "('w, 's) sc_env \<Rightarrow> go_error option \<Rightarrow> bool" where
  "send_stops E err = (err = None \<or> has_code (FromError E) Canceled err)"

text \<open>The time limits of the attempts that are left.\<close>

fun send_limits :: "nat \<Rightarrow> nat \<Rightarrow> nat \<Rightarrow> nat list" where
  "send_limits 0 attempt timeout = []"
| "send_limits (Suc n) attempt timeout =
     (let t = (if attempt > 1 then attempt * 5 else timeout) in t # send_limits n (Suc attempt) t)"

lemma send_attempts_calls:
  "0 < n \<Longrightarrow> \<exists>k es w'. 0 < k \<and> k \<le> n \<and> rpc_calls E m (take k (send_limits n a t)) w = (es, w')
     \<and> send_attempts E m n a t e0 w = (last es, w') \<and> es \<noteq> [] \<and> (\<forall>e \<in> set (butlast es). \<not> send_stops E e)
     \<and> (k = n \<or> send_stops E (last es))"
proof (induction n arbitrary: a t e0 w)
  case (Suc n)
  define t' where "t' = (if a > 1 then a * 5 else t)"
  obtain err w1 where rpc: "rpc_Send E t' m w = (err, w1)" by (cases "rpc_Send E t' m w")
  have step: "send_attempts E m (Suc n) a t e0 w =
      (if send_stops E err then (err, w1) else send_attempts E m n (Suc a) t' err w1)"
    using rpc unfolding send_attempts.simps Let_def t'_def [symmetric] by (auto simp: send_stops_def)
  have limits: "send_limits (Suc n) a t = t' # send_limits n (Suc a) t'"
    by (simp add: t'_def Let_def)
  show ?case
  proof (cases "send_stops E err \<or> n = 0")
    case True
    have "send_attempts E m (Suc n) a t e0 w = (err, w1)"
      using True unfolding step by auto
    moreover have "rpc_calls E m (take 1 (send_limits (Suc n) a t)) w = ([err], w1)"
      using rpc unfolding limits by simp
    ultimately show ?thesis
      using True by (intro exI [of _ 1] exI [of _ "[err]"] exI [of _ w1]) auto
  next
    case False
    then obtain k es w' where k: "0 < k" "k \<le> n" "rpc_calls E m (take k (send_limits n (Suc a) t')) w1 = (es, w')"
      "send_attempts E m n (Suc a) t' err w1 = (last es, w')" "es \<noteq> []"
      "\<forall>e \<in> set (butlast es). \<not> send_stops E e" "k = n \<or> send_stops E (last es)"
      using Suc.IH [of "Suc a" t' w1 err] by blast
    have "send_attempts E m (Suc n) a t e0 w = (last (err # es), w')"
      using False k unfolding step by simp
    moreover have "rpc_calls E m (take (Suc k) (send_limits (Suc n) a t)) w = (err # es, w')"
      using rpc k unfolding limits by simp
    ultimately show ?thesis
      using False k by (intro exI [of _ "Suc k"] exI [of _ "err # es"] exI [of _ w']) auto
  qed
qed simp

lemma send_limits_Send: "send_limits 4 0 ConnectTimeout = [10, 10, 10, 15]"
  by (simp add: ConnectTimeout_def numeral_eq_Suc)

text \<open>C19. 
  A message that can be encrypted is offered to the service at least once and at most four times, with time limits of 10,
  10, 10 and 15 seconds. The attempts go on exactly while the service answers with an error other than a cancellation, and
  the answer of the last attempt is the result of \<^verbatim>\<open>Send\<close>.
\<close>

theorem Send_attempts:
  assumes "sc_Ready E c" and "encryptMessage E (sc_key c) msg (sc_world c) = (Inr m, w)"
  shows "\<exists>k errs w'. 1 \<le> k \<and> k \<le> 4 \<and> rpc_calls E m (take k [10, 10, 10, 15]) w = (errs, w')
     \<and> sc_Send E c msg = (last errs, c\<lparr>sc_world := w'\<rparr>) \<and> (\<forall>e \<in> set (butlast errs). \<not> send_stops E e)
     \<and> (k = 4 \<or> send_stops E (last errs))"
proof -
  obtain k errs w' where "0 < k" "k \<le> 4" "rpc_calls E m (take k [10, 10, 10, 15]) w = (errs, w')"
    "send_attempts E m 4 0 ConnectTimeout None w = (last errs, w')"
    "\<forall>e \<in> set (butlast errs). \<not> send_stops E e" "k = 4 \<or> send_stops E (last errs)"
    using send_attempts_calls [of 4 E m 0 ConnectTimeout w None, unfolded send_limits_Send] by auto
  then show ?thesis
    using assms by (intro exI [of _ k] exI [of _ errs] exI [of _ w']) (simp add: sc_Send_def)
qed

text \<open>
  What the cipher and the keys promise: a box closed with the public key of the receiver and the private key of the sender
  opens with the public key of the sender and the private key of the receiver, and a printed key parses.
\<close>

definition cipher_laws :: "('w, 's) sc_env \<Rightarrow> bool" where
  "cipher_laws E \<longleftrightarrow>
     (\<forall>a b body w box w'. EncryptMessage E (sc_PublicKey E b) a (Some body) w = (Inr box, w') \<longrightarrow>
        DecryptMessage E (sc_PublicKey E a) b box = Inr body)
   \<and> (\<forall>k. sc_ParseKey E (sc_KeyString E k) = Inr k)"

text \<open>
  A message that a peer encrypts for another one is decrypted by that peer to the same message, provided it names the keys
  of both.
\<close>

theorem signal_message_roundtrip:
  assumes "cipher_laws E" and "sm_Key msg = sc_KeyString E (sc_PublicKey E a)"
    and "sm_RemoteKey msg = sc_KeyString E (sc_PublicKey E b)" and "sm_Body msg = Some body"
    and "encryptMessage E a msg w = (Inr em, w')"
  shows "decryptMessage E b em = Inr msg"
proof -
  obtain box where box: "EncryptMessage E (sc_PublicKey E b) a (Some body) w = (Inr box, w')"
    "em = \<lparr>em_Key = sm_Key msg, em_RemoteKey = sm_RemoteKey msg, em_Body = box\<rparr>"
    using assms by (auto simp: encryptMessage_def cipher_laws_def split: sum.splits prod.splits)
  then have "DecryptMessage E (sc_PublicKey E a) b box = Inr body"
    using assms(1) unfolding cipher_laws_def by blast
  then show ?thesis
    using box assms by (simp add: decryptMessage_def cipher_laws_def)
qed

section \<open>Invariants of the goroutines\<close>

text \<open>What the operations of the client leave alone.\<close>

definition same_channels :: "('w, 's) sig_client \<Rightarrow> ('w, 's) sig_client \<Rightarrow> bool" where
  "same_channels c c' \<longleftrightarrow> sc_connectedCh c' = sc_connectedCh c \<and> sc_closed c' = sc_closed c \<and> sc_channels c' = sc_channels c
     \<and> sc_worker c' = sc_worker c"

named_theorems sig_ops

lemma same_channels_refl [simp]: "same_channels c c"
  by (simp add: same_channels_def)

lemma same_channels_world [simp]: "same_channels c (c\<lparr>sc_world := w\<rparr>)"
  by (simp add: same_channels_def)

lemma same_channels_ops [sig_ops]:
  "sc_Send E c msg = (err, c') \<Longrightarrow> same_channels c c'"
  "SendToStream E c em = (err, c') \<Longrightarrow> same_channels c c'"
  "sc_IsHealthy E c = (b, c') \<Longrightarrow> same_channels c c'"
  "receive_ended E e c = (r, c') \<Longrightarrow> same_channels c c'"
  "sc_connect E key c = (st, c') \<Longrightarrow> same_channels c c'"
  by (auto simp: sc_Send_def SendToStream_def sc_IsHealthy_def receive_ended_def sc_connect_def same_channels_def
        sc_notifyDisconnected_def sc_notifyConnected_def Let_def
      split: if_splits prod.splits sum.splits option.splits conn_state.splits)

lemma same_channels_listeners [simp]:
  "same_channels c (sc_SetConnStateListener n c)" "same_channels c (sc_SetOnReconnectedListener f c)"
  "same_channels c (sc_notifyConnected c)" "same_channels c (notifyStreamDisconnected c)"
  by (auto simp: sc_SetConnStateListener_def sc_SetOnReconnectedListener_def same_channels_def sc_notifyConnected_def
      notifyStreamDisconnected_def split: option.splits)

text \<open>The messages between the stream and the handler: in the worker's channel, and in the hand of the receiving loop.\<close>

definition queued :: "('w, 's) sig_client \<Rightarrow> enc_message list" where
  "queued c = (case sc_worker c of None \<Rightarrow> [] | Some k \<Rightarrow> wk_encryptedMsgPool k)"

definition pending :: "'s rx_pc \<Rightarrow> enc_message list" where
  "pending rx = (case rx of RxAdd st m \<Rightarrow> [m] | _ \<Rightarrow> [])"

lemma pending_simps [simp]:
  "pending RxAttempt = []" "pending (RxStream st) = []" "pending (RxAdd st m) = [m]" "pending (RxBackoff e) = []"
  "pending (RxReturned r) = []" "pending RxPanic = []" "pending (after_operation r) = []"
  by (auto simp: pending_def after_operation_def split: option.splits)

lemma queued_same: "same_channels c c' \<Longrightarrow> queued c' = queued c"
  by (simp add: queued_def same_channels_def)

lemma queued_start [simp]: "queued (startEncryptionWorker h c) = queued c"
  by (simp add: queued_def startEncryptionWorker_def NewWorker_def split: option.splits)

lemma notifyStreamConnected_worker [simp]: "sc_worker (notifyStreamConnected c) = sc_worker c"
  by (simp add: notifyStreamConnected_def Let_def split: option.splits)

lemma queued_notify [simp]: "queued (notifyStreamConnected c) = queued c"
  by (simp add: queued_def)

lemma receive_attempt_worker:
  "receive_attempt E h c = (Inl e, c') \<Longrightarrow> same_channels c c'"
  "receive_attempt E h c = (Inr st, c') \<Longrightarrow> queued c' = queued c \<and> sc_worker c' \<noteq> None"
proof -
  assume "receive_attempt E h c = (Inl e, c')"
  then show "same_channels c c'"
    using same_channels_ops(5) [of E _ "notifyStreamDisconnected c"]
    by (auto simp: receive_attempt_def Let_def same_channels_def notifyStreamDisconnected_def
        split: if_splits prod.splits sum.splits)
next
  assume "receive_attempt E h c = (Inr st, c')"
  then obtain key c2 where c2: "sc_connect E key (notifyStreamDisconnected c) = (Inr st, c2)"
    and c': "c' = startEncryptionWorker h (sc_notifyConnected (notifyStreamConnected c2))"
    by (auto simp: receive_attempt_def Let_def split: if_splits prod.splits sum.splits)
  have "same_channels (notifyStreamDisconnected c) c2"
    using c2 by (rule same_channels_ops(5))
  then have "queued c2 = queued c"
    using queued_same [OF same_channels_listeners(4), of c] by (simp add: queued_same)
  moreover have "queued (sc_notifyConnected (notifyStreamConnected c2)) = queued c2"
    using queued_same [OF same_channels_listeners(3), of "notifyStreamConnected c2"] by simp
  ultimately show "queued c' = queued c \<and> sc_worker c' \<noteq> None"
    unfolding c' queued_start by (simp add: startEncryptionWorker_def split: option.splits)
qed

text \<open>The queue between the receiving loop and the worker is bounded, ordered, and loses nothing while the client lives.\<close>

definition queue_inv :: "('w, 's) sig_sys \<Rightarrow> bool" where
  "queue_inv S \<longleftrightarrow>
     length (queued (ss_client S)) \<le> pool_capacity
   \<and> subseq (ss_done S @ queued (ss_client S) @ pending (ss_rx S)) (ss_got S)
   \<and> (\<not> ss_ctxDone S \<and> \<not> ss_closed S \<longrightarrow> ss_got S = ss_done S @ queued (ss_client S) @ pending (ss_rx S))"

lemma queue_inv_same:
  assumes "queue_inv S" and "queued c' = queued (ss_client S)" and "pending rx' = pending (ss_rx S)"
  shows "queue_inv (S\<lparr>ss_client := c', ss_rx := rx'\<rparr>)"
  using assms by (simp add: queue_inv_def)

lemma subseq_drop_middle:
  assumes "subseq (xs @ ys @ zs) l"
  shows "subseq (xs @ zs) l"
proof -
  have "subseq (xs @ zs) (xs @ ys @ zs)"
    by (intro list_emb_append_mono list_emb_append2 subseq_order.order_refl)
  then show ?thesis
    using assms by (rule subseq_order.order_trans)
qed

lemmas subseq_drop_last = subseq_drop_middle [where zs = "[]", simplified]

text \<open>While the client is open, the receiving loop runs only with a worker, so it cannot panic.\<close>

definition on_stream :: "'s rx_pc \<Rightarrow> bool" where
  "on_stream rx = (case rx of RxStream st \<Rightarrow> True | RxAdd st m \<Rightarrow> True | _ \<Rightarrow> False)"

lemma on_stream_simps [simp]:
  "\<not> on_stream RxAttempt" "on_stream (RxStream st)" "on_stream (RxAdd st m)" "\<not> on_stream (RxBackoff e)"
  "\<not> on_stream (RxReturned r)" "\<not> on_stream RxPanic" "\<not> on_stream (after_operation r)"
  by (auto simp: on_stream_def after_operation_def split: option.splits)

lemma after_operation_no_panic [simp]: "after_operation r \<noteq> RxPanic"
  by (simp add: after_operation_def split: option.splits)

definition worker_inv :: "('w, 's) sig_sys \<Rightarrow> bool" where
  "worker_inv S \<longleftrightarrow> \<not> ss_closed S \<longrightarrow>
     ss_rx S \<noteq> RxPanic \<and> (on_stream (ss_rx S) \<longrightarrow> sc_worker (ss_client S) \<noteq> None)"

lemma same_worker: "same_channels c c' \<Longrightarrow> sc_worker c' = sc_worker c"
  by (simp add: same_channels_def)

lemma getStreamStatusChan_worker: "getStreamStatusChan c = (ch, c') \<Longrightarrow> sc_worker c' = sc_worker c"
  by (auto simp: getStreamStatusChan_def split: option.splits)

lemma worker_inv_step:
  assumes "sig_step E handler S S'" and inv: "worker_inv S"
  shows "worker_inv S'"
  using assms(1)
proof (cases rule: sig_step.cases)
  case (attempt_ok st c')
  then show ?thesis using receive_attempt_worker(2) [OF attempt_ok(3)] by (simp add: worker_inv_def)
qed (use inv in \<open>auto simp: worker_inv_def getStreamStatusChan_worker same_worker [OF same_channels_ops(1)]
      same_worker [OF same_channels_ops(2)] same_worker [OF same_channels_ops(3)]
      same_worker [OF same_channels_listeners(1)] same_worker [OF same_channels_listeners(2)]\<close>)

lemma queue_inv_step:
  assumes "sig_step E handler S S'" and inv: "queue_inv S" and wk: "worker_inv S"
  shows "queue_inv S'"
  using assms(1)
proof (cases rule: sig_step.cases)
  case (attempt_ok st c')
  then show ?thesis using receive_attempt_worker(2) [OF attempt_ok(3)] by (simp add: queue_inv_same [OF inv])
next
  case (attempt_err e c')
  then show ?thesis
    using queued_same [OF receive_attempt_worker(1) [OF attempt_err(3)]] by (simp add: queue_inv_same [OF inv])
next
  case (recv_msg st m w')
  have "subseq (ss_done S @ queued (ss_client S)) (ss_got S)"
    using inv recv_msg by (simp add: queue_inv_def)
  then have "subseq ((ss_done S @ queued (ss_client S)) @ [m]) (ss_got S @ [m])"
    by (rule list_emb_append_mono) simp
  then show ?thesis
    using inv recv_msg by (auto simp: queue_inv_def queued_def)
next
  case (recv_return st e w' r c')
  then show ?thesis
    using queued_same [OF same_channels_ops(4) [OF recv_return(4)]] inv
    by (simp add: queue_inv_def queued_def)
next
  case (add_msg st m k k')
  then show ?thesis using inv by (auto simp: queue_inv_def queued_def AddMsg_def pool_capacity_def split: if_splits)
next
  case (add_cancelled st m k)
  then show ?thesis using inv subseq_drop_last [of "ss_done S @ queued (ss_client S)" "[m]"] by (simp add: queue_inv_def)
next
  case (add_panics st m)
  then show ?thesis using inv wk subseq_drop_last [of "ss_done S" "[m]"] by (simp add: queue_inv_def queued_def worker_inv_def)
next
  case (work k m k' w')
  then show ?thesis using inv by (auto simp: queue_inv_def queued_def Work_turn_def pool_capacity_def split: list.splits)
next
  case (wait_channel i ch c')
  then show ?thesis using inv by (auto simp: queue_inv_def queued_def getStreamStatusChan_def split: option.splits)
next
  case (closes err c')
  then have "queued c' = []" by (auto simp: sc_Close_def queued_def split: prod.splits)
  moreover have "subseq (ss_done S @ pending (ss_rx S)) (ss_got S)"
    using inv by (auto simp: queue_inv_def intro: subseq_drop_middle)
  ultimately show ?thesis
    using closes by (simp add: queue_inv_def pool_capacity_def)
qed (use inv in \<open>auto simp: queue_inv_def queued_same [OF same_channels_ops(1)] queued_same [OF same_channels_ops(2)]
      queued_same [OF same_channels_ops(3)] queued_same [OF same_channels_listeners(1)]
      queued_same [OF same_channels_listeners(2)] queued_same [OF same_channels_world]\<close>)


text \<open>Every channel a goroutine waits on is closed or will be closed by the next connection.\<close>

definition waiters_inv :: "('w, 's) sig_sys \<Rightarrow> bool" where
  "waiters_inv S \<longleftrightarrow>
     (\<forall>ch. WaitOn ch \<in> set (ss_waiters S) \<longrightarrow> ch \<in> sc_closed (ss_client S) \<or> sc_connectedCh (ss_client S) = Some ch)"

lemma same_waiters:
  "waiters_inv S \<Longrightarrow> same_channels (ss_client S) c' \<Longrightarrow> waiters_inv (S\<lparr>ss_client := c'\<rparr>)"
  "waiters_inv S \<Longrightarrow> same_channels (ss_client S) c' \<Longrightarrow> waiters_inv (S\<lparr>ss_client := c', ss_rx := rx\<rparr>)"
  by (simp_all add: waiters_inv_def same_channels_def)

lemma receive_attempt_channels:
  assumes "receive_attempt E h c = (Inr st, c')"
  shows "sc_connectedCh c' = None" and "sc_closed c' = sc_closed c \<union> set_option (sc_connectedCh c)"
    and "is_StreamConnected c'"
proof -
  obtain key c2 where c2: "sc_connect E key (notifyStreamDisconnected c) = (Inr st, c2)"
    and c': "c' = startEncryptionWorker h (sc_notifyConnected (notifyStreamConnected c2))"
    using assms by (auto simp: receive_attempt_def Let_def split: if_splits prod.splits sum.splits)
  have "same_channels (notifyStreamDisconnected c) c2"
    using c2 by (rule same_channels_ops(5))
  then show "sc_connectedCh c' = None" "sc_closed c' = sc_closed c \<union> set_option (sc_connectedCh c)"
    "is_StreamConnected c'"
    by (auto simp: c' startEncryptionWorker_def sc_notifyConnected_def notifyStreamConnected_def same_channels_def
        notifyStreamDisconnected_def is_StreamConnected_def Let_def split: option.splits)
qed

lemma waiters_inv_step:
  assumes "sig_step E handler S S'" and inv: "waiters_inv S"
  shows "waiters_inv S'"
  using assms(1)
proof (cases rule: sig_step.cases)
  case (attempt_ok st c')
  then show ?thesis using inv receive_attempt_channels [OF attempt_ok(3)] by (auto simp: waiters_inv_def)
next
  case (attempt_err e c')
  then show ?thesis using same_waiters(2) [OF inv receive_attempt_worker(1) [OF attempt_err(3)]] by simp
next
  case (recv_return st e w' r c')
  then show ?thesis using same_channels_ops(4) [OF recv_return(4)] inv by (simp add: same_channels_def waiters_inv_def)
next
  case (wait_channel i ch c')
  then show ?thesis
    using inv by (auto simp: waiters_inv_def getStreamStatusChan_def set_update_subset_insert [THEN subsetD]
        dest!: set_update_subset_insert [THEN subsetD] split: option.splits)
next
  case (wait_released i ch)
  then show ?thesis using inv by (auto simp: waiters_inv_def dest!: set_update_subset_insert [THEN subsetD])
next
  case (closes err c')
  then show ?thesis using inv by (auto simp: waiters_inv_def sc_Close_def split: prod.splits)
next
  case (wait_check)
  then show ?thesis using inv by (auto simp: waiters_inv_def)
next
  case (send msg err c')
  then show ?thesis using same_waiters(1) [OF inv same_channels_ops(1)] by simp
next
  case (send_stream em err c')
  then show ?thesis using same_waiters(1) [OF inv same_channels_ops(2)] by simp
next
  case (health b c')
  then show ?thesis using same_waiters(1) [OF inv same_channels_ops(3)] by simp
next
  case (listener n)
  then show ?thesis using same_waiters(1) [OF inv] by simp
next
  case (on_reconnected f)
  then show ?thesis using same_waiters(1) [OF inv] by simp
qed (use inv in \<open>auto simp: waiters_inv_def\<close>)

section \<open>Reachable states\<close>

lemma sig_reachable_inv: "sig_reachable E handler S \<Longrightarrow> queue_inv S \<and> worker_inv S \<and> waiters_inv S"
proof (induction rule: sig_reachable.induct)
  case (sig_init Retry CreateConnection key w c w')
  then have "sc_worker c = None"
    by (auto simp: signal_NewClient_def split: option.splits)
  then show ?case
    by (simp add: queue_inv_def worker_inv_def waiters_inv_def queued_def)
next
  case (sig_more S S')
  then show ?case
    by (blast intro: queue_inv_step worker_inv_step waiters_inv_step)
qed

text \<open>
  Whatever the goroutines of the client do, at most one message waits for the worker, the worker takes messages in the
  order in which the stream delivered them, and as long as the client is neither closed nor cancelled every delivered
  message has been taken, waits in the channel or is about to be put there.
\<close>

theorem signal_messages_in_order:
  assumes "sig_reachable E handler S"
  shows "length (queued (ss_client S)) \<le> 1 \<and> subseq (ss_done S) (ss_got S)
     \<and> (\<not> ss_ctxDone S \<and> \<not> ss_closed S \<longrightarrow> ss_got S = ss_done S @ queued (ss_client S) @ pending (ss_rx S))"
  using sig_reachable_inv [OF assms] subseq_drop_last [of "ss_done S"]
  by (auto simp: queue_inv_def pool_capacity_def)

text \<open>The receiving loop meets a missing worker, and panics, only after the client has been closed.\<close>

theorem signal_no_panic_while_open:
  assumes "sig_reachable E handler S" and "ss_rx S = RxPanic"
  shows "ss_closed S"
  using sig_reachable_inv [OF assms(1)] assms(2) by (simp add: worker_inv_def)

text \<open>C28. 
  When the stream has been established, every goroutine that waited for it on a channel can go on: all the channels that
  were ever handed out to them are closed.
\<close>

theorem signal_waiters_released:
  assumes "sig_reachable E handler S" and "receive_attempt E handler (ss_client S) = (Inr st, c')"
    and "WaitOn ch \<in> set (ss_waiters S)"
  shows "is_StreamConnected c' \<and> ch \<in> sc_closed c'"
  using sig_reachable_inv [OF assms(1)] assms(3) receive_attempt_channels [OF assms(2)]
  by (auto simp: waiters_inv_def)

section \<open>A client with a scripted stream\<close>

text \<open>The world is the list of the messages the stream will deliver; the cipher numbers the body types.\<close>

definition demo_body :: "nat \<Rightarrow> sig_body" where
  "demo_body n = \<lparr>sb_Type = OtherType (int n), sb_Payload = [], sb_WgListenPort = 0, sb_NetBirdVersion = [],
     sb_RosenpassConfig = None, sb_RelayServerAddress = [], sb_SessionId = None\<rparr>"

definition demo_sc_env :: "(enc_message list, unit) sc_env" where
  "demo_sc_env =
     \<lparr>GetState = (\<lambda>w. Ready), WaitForStateChange = (\<lambda>s w. w), ConnectStream = (\<lambda>key w. (Inr (), w)),
      RegisteredHeader = (\<lambda>st w. (Inr [''1''], w)),
      stream_Recv = (\<lambda>st w. case w of [] \<Rightarrow> (Inl io_EOF, []) | m # ms \<Rightarrow> (Inr (Some m), ms)),
      stream_Send = (\<lambda>st m w. (None, w)),
      rpc_Send = (\<lambda>t m w. (if t = 15 then None else Some (ErrStatus DeadlineExceeded []), w)),
      conn_Close = (\<lambda>w. (None, w)), FromError = plain_FromError, sc_ParseKey = base64_DecodeString, sc_PublicKey = (\<lambda>k. k),
      sc_KeyString = base64_EncodeToString,
      EncryptMessage = (\<lambda>remote k b w.
        (case b of
           Some b' \<Rightarrow> (case sb_Type b' of
                        OtherType i \<Rightarrow> if b' = demo_body (nat i) then Inr (replicate (nat i) 0) else Inl (ErrMsg ''body'')
                      | _ \<Rightarrow> Inl (ErrMsg ''body''))
         | None \<Rightarrow> Inl (ErrMsg ''body''), w)),
      DecryptMessage = (\<lambda>remote k bs. Inr (demo_body (length bs)))\<rparr>"

definition demo_enc :: "nat \<Rightarrow> enc_message" where
  "demo_enc n = \<lparr>em_Key = [], em_RemoteKey = [], em_Body = replicate n 0\<rparr>"

definition demo_client :: "enc_message list \<Rightarrow> (enc_message list, unit) sig_client" where
  "demo_client w = \<lparr>sc_key = [], sc_stream = None, sc_connectedCh = None, sc_status = StreamDisconnected,
     sc_connStateCallback = None, sc_onReconnected = None, sc_worker = None, sc_channels = 0, sc_closed = {}, sc_world = w\<rparr>"

definition demo_handler :: "(enc_message list) sig_handler" where
  "demo_handler m w = (None, w)"

definition demo_sys :: "(enc_message list, unit) sig_client \<Rightarrow> unit rx_pc \<Rightarrow> waiter list \<Rightarrow> enc_message list
    \<Rightarrow> (enc_message list, unit) sig_sys" where
  "demo_sys c rx ws got = \<lparr>ss_client = c, ss_rx = rx, ss_waiters = ws, ss_got = got, ss_done = [], ss_ctxDone = False,
     ss_closed = False\<rparr>"

lemma demo_reachable_init: "sig_reachable demo_sc_env demo_handler (demo_sys (demo_client w) RxAttempt [] [])"
proof -
  have "signal_NewClient (retry_times 0 id) (\<lambda>w. (None, w)) [] w = Some (Inr (demo_client w), w)"
    by (simp add: signal_NewClient_def create_operation_def demo_client_def)
  from sig_init [OF this] show ?thesis
    by (simp add: demo_sys_def)
qed

definition demo_connected :: "enc_message list \<Rightarrow> enc_message list \<Rightarrow> (enc_message list, unit) sig_client" where
  "demo_connected pool w = (demo_client w)\<lparr>sc_stream := Some (), sc_status := StreamConnected,
     sc_worker := Some \<lparr>wk_handler = demo_handler, wk_encryptedMsgPool = pool\<rparr>\<rparr>"

lemma demo_attempt: "receive_attempt demo_sc_env demo_handler (demo_client w) = (Inr (), demo_connected [] w)"
  by (simp add: receive_attempt_def demo_sc_env_def demo_client_def demo_connected_def notifyStreamDisconnected_def
      sc_connect_def notifyStreamConnected_def sc_notifyConnected_def startEncryptionWorker_def NewWorker_def)

lemmas demo_more = sig_more [where E = demo_sc_env and handler = demo_handler]

lemma demo_reachable_connected:
  "sig_reachable demo_sc_env demo_handler (demo_sys (demo_connected [] w) (RxStream ()) [] [])"
proof -
  have "sig_step demo_sc_env demo_handler (demo_sys (demo_client w) RxAttempt [] [])
      (demo_sys (demo_connected [] w) (RxStream ()) [] [])"
    using attempt_ok [of "demo_sys (demo_client w) RxAttempt [] []" demo_sc_env demo_handler "()" "demo_connected [] w"]
    by (simp add: demo_sys_def demo_attempt)
  then show ?thesis
    by (rule demo_more [OF demo_reachable_init])
qed

lemma demo_recv:
  assumes "sig_reachable demo_sc_env demo_handler (demo_sys (demo_connected pool (m # w)) (RxStream ()) [] got)"
  shows "sig_reachable demo_sc_env demo_handler (demo_sys (demo_connected pool w) (RxAdd () m) [] (got @ [m]))"
proof -
  have "sig_step demo_sc_env demo_handler (demo_sys (demo_connected pool (m # w)) (RxStream ()) [] got)
      (demo_sys (demo_connected pool w) (RxAdd () m) [] (got @ [m]))"
    using recv_msg [of "demo_sys (demo_connected pool (m # w)) (RxStream ()) [] got" "()" demo_sc_env m w demo_handler]
    by (simp add: demo_sys_def receive_turn_def demo_sc_env_def demo_connected_def demo_client_def)
  then show ?thesis
    by (rule demo_more [OF assms])
qed

lemma demo_add:
  assumes "sig_reachable demo_sc_env demo_handler (demo_sys (demo_connected [] w) (RxAdd () m) [] got)"
  shows "sig_reachable demo_sc_env demo_handler (demo_sys (demo_connected [m] w) (RxStream ()) [] got)"
proof -
  have "sig_step demo_sc_env demo_handler (demo_sys (demo_connected [] w) (RxAdd () m) [] got)
      (demo_sys (demo_connected [m] w) (RxStream ()) [] got)"
    using add_msg [of "demo_sys (demo_connected [] w) (RxAdd () m) [] got" "()" m
        "\<lparr>wk_handler = demo_handler, wk_encryptedMsgPool = []\<rparr>" "\<lparr>wk_handler = demo_handler, wk_encryptedMsgPool = [m]\<rparr>"
        demo_sc_env demo_handler]
    by (simp add: demo_sys_def AddMsg_def pool_capacity_def demo_connected_def demo_client_def)
  then show ?thesis
    by (rule demo_more [OF assms])
qed

lemma demo_two_messages:
  "sig_reachable demo_sc_env demo_handler
     (demo_sys (demo_connected [demo_enc 1] []) (RxAdd () (demo_enc 2)) [] [demo_enc 1, demo_enc 2])"
  using demo_recv [OF demo_add [OF demo_recv [OF demo_reachable_connected [of "[demo_enc 1, demo_enc 2]"]]]] by simp

theorem signal_messages_in_order_witness:
  "ss_got (demo_sys (demo_connected [demo_enc 1] []) (RxAdd () (demo_enc 2)) [] [demo_enc 1, demo_enc 2])
     = [] @ [demo_enc 1] @ [demo_enc 2]"
  using signal_messages_in_order [OF demo_two_messages]
  by (simp add: demo_sys_def queued_def demo_connected_def)

theorem Send_attempts_witness:
  "\<exists>k errs w'. 1 \<le> k \<and> k \<le> 4 \<and> rpc_calls demo_sc_env (demo_enc 3) (take k [10, 10, 10, 15]) [] = (errs, w')
     \<and> sc_Send demo_sc_env (demo_client []) \<lparr>sm_Key = [], sm_RemoteKey = [], sm_Body = Some (demo_body 3)\<rparr>
         = (last errs, (demo_client [])\<lparr>sc_world := w'\<rparr>)
     \<and> (\<forall>e \<in> set (butlast errs). \<not> send_stops demo_sc_env e) \<and> (k = 4 \<or> send_stops demo_sc_env (last errs))"
  by (rule Send_attempts) (simp_all add: sc_Ready_def demo_sc_env_def encryptMessage_def demo_client_def demo_enc_def demo_body_def
      base64_DecodeString_def)

lemma demo_cipher_laws: "cipher_laws demo_sc_env"
  by (auto simp: cipher_laws_def demo_sc_env_def split: body_type.splits if_splits)

theorem signal_message_roundtrip_witness:
  "decryptMessage demo_sc_env (replicate 32 2)
     \<lparr>em_Key = base64_EncodeToString (replicate 32 1), em_RemoteKey = base64_EncodeToString (replicate 32 2),
      em_Body = replicate 3 0\<rparr>
   = Inr \<lparr>sm_Key = base64_EncodeToString (replicate 32 1), sm_RemoteKey = base64_EncodeToString (replicate 32 2),
      sm_Body = Some (demo_body 3)\<rparr>"
  by (rule signal_message_roundtrip [OF demo_cipher_laws, where a = "replicate 32 1" and w = "[]" and w' = "[]"])
    (simp_all add: demo_sc_env_def encryptMessage_def demo_body_def)


lemma demo_waiting:
  "sig_reachable demo_sc_env demo_handler (demo_sys ((demo_client [])\<lparr>sc_connectedCh := Some 0, sc_channels := 1\<rparr>)
     RxAttempt [WaitOn 0] [])"
proof -
  have "sig_step demo_sc_env demo_handler (demo_sys (demo_client []) RxAttempt [] [])
      (demo_sys (demo_client []) RxAttempt [WaitChecked] [])"
    using wait_check [of demo_sc_env demo_handler "demo_sys (demo_client []) RxAttempt [] []"]
    by (simp add: demo_sys_def is_StreamConnected_def demo_client_def)
  moreover have "sig_step demo_sc_env demo_handler (demo_sys (demo_client []) RxAttempt [WaitChecked] [])
      (demo_sys ((demo_client [])\<lparr>sc_connectedCh := Some 0, sc_channels := 1\<rparr>) RxAttempt [WaitOn 0] [])"
    using wait_channel [of 0 "demo_sys (demo_client []) RxAttempt [WaitChecked] []" 0 _ demo_sc_env demo_handler]
    by (simp add: demo_sys_def getStreamStatusChan_def demo_client_def)
  ultimately show ?thesis
    by (blast intro: demo_more demo_reachable_init)
qed

theorem signal_waiters_released_witness:
  "is_StreamConnected (snd (receive_attempt demo_sc_env demo_handler
     ((demo_client [])\<lparr>sc_connectedCh := Some 0, sc_channels := 1\<rparr>))) \<and>
   0 \<in> sc_closed (snd (receive_attempt demo_sc_env demo_handler
     ((demo_client [])\<lparr>sc_connectedCh := Some 0, sc_channels := 1\<rparr>)))"
proof (rule signal_waiters_released [OF demo_waiting, of "()"])
  show "receive_attempt demo_sc_env demo_handler (ss_client (demo_sys
      ((demo_client [])\<lparr>sc_connectedCh := Some 0, sc_channels := 1\<rparr>) RxAttempt [WaitOn 0] []))
    = (Inr (), snd (receive_attempt demo_sc_env demo_handler
        ((demo_client [])\<lparr>sc_connectedCh := Some 0, sc_channels := 1\<rparr>)))"
    by (simp add: demo_sys_def receive_attempt_def demo_sc_env_def demo_client_def notifyStreamDisconnected_def sc_connect_def)
qed (simp add: demo_sys_def)

text \<open>
  \<^verbatim>\<open>WaitStreamConnected\<close> reads the status before it asks for the channel. A goroutine that reads it just before the
  connection is established gets a new channel afterwards, and waits although the stream is connected.
\<close>

theorem signal_lost_wakeup:
  "\<exists>S. sig_reachable demo_sc_env demo_handler S \<and> is_StreamConnected (ss_client S) \<and> ss_waiters S = [WaitOn 0]
     \<and> 0 \<notin> sc_closed (ss_client S)"
proof -
  let ?S1 = "demo_sys (demo_client []) RxAttempt [WaitChecked] []"
  let ?S2 = "demo_sys (demo_connected [] []) (RxStream ()) [WaitChecked] []"
  let ?S3 = "demo_sys ((demo_connected [] [])\<lparr>sc_connectedCh := Some 0, sc_channels := 1\<rparr>) (RxStream ()) [WaitOn 0] []"
  have "sig_step demo_sc_env demo_handler (demo_sys (demo_client []) RxAttempt [] []) ?S1"
    using wait_check [of demo_sc_env demo_handler "demo_sys (demo_client []) RxAttempt [] []"]
    by (simp add: demo_sys_def is_StreamConnected_def demo_client_def)
  moreover have "sig_step demo_sc_env demo_handler ?S1 ?S2"
    using attempt_ok [of ?S1 demo_sc_env demo_handler "()" "demo_connected [] []"]
    by (simp add: demo_sys_def demo_attempt)
  moreover have "sig_step demo_sc_env demo_handler ?S2 ?S3"
    using wait_channel [of 0 ?S2 0 "(demo_connected [] [])\<lparr>sc_connectedCh := Some 0, sc_channels := 1\<rparr>" demo_sc_env demo_handler]
    by (simp add: demo_sys_def getStreamStatusChan_def demo_client_def demo_connected_def)
  ultimately have "sig_reachable demo_sc_env demo_handler ?S3"
    by (blast intro: demo_more demo_reachable_init)
  then show ?thesis
    by (intro exI [of _ ?S3]) (simp add: demo_sys_def is_StreamConnected_def demo_connected_def demo_client_def)
qed

text \<open>\<^verbatim>\<open>Close\<close> drops the worker before it closes the connection, so a message that arrives in between makes the loop panic.\<close>

lemma signal_close_race:
  "\<exists>S. sig_reachable demo_sc_env demo_handler S \<and> ss_rx S = RxPanic \<and> ss_closed S"
proof -
  let ?S0 = "demo_sys (demo_connected [] []) (RxAdd () (demo_enc 1)) [] [demo_enc 1]"
  let ?S1 = "?S0\<lparr>ss_client := (demo_connected [] [])\<lparr>sc_worker := None\<rparr>, ss_closed := True\<rparr>"
  let ?S2 = "?S1\<lparr>ss_rx := RxPanic\<rparr>"
  have "sig_reachable demo_sc_env demo_handler ?S0"
    using demo_recv [OF demo_reachable_connected [of "[demo_enc 1]"]] by simp
  moreover have "sig_step demo_sc_env demo_handler ?S0 ?S1"
    using closes [of demo_sc_env ?S0 None "(demo_connected [] [])\<lparr>sc_worker := None\<rparr>" demo_handler]
    by (simp add: demo_sys_def sc_Close_def demo_sc_env_def demo_connected_def)
  moreover have "sig_step demo_sc_env demo_handler ?S1 ?S2"
    using add_panics [of ?S1 "()" "demo_enc 1" demo_sc_env demo_handler] by (simp add: demo_sys_def)
  ultimately have "sig_reachable demo_sc_env demo_handler ?S2"
    by (blast intro: demo_more)
  then show ?thesis
    by (intro exI [of _ ?S2]) (simp add: demo_sys_def)
qed

theorem signal_no_panic_while_open_witness:
  "\<exists>S. sig_reachable demo_sc_env demo_handler S \<and> ss_rx S = RxPanic \<and> ss_closed S"
proof -
  obtain S where S: "sig_reachable demo_sc_env demo_handler S" "ss_rx S = RxPanic"
    using signal_close_race by blast
  then have "ss_closed S" by (rule signal_no_panic_while_open)
  with S show ?thesis by blast
qed

section \<open>The client as a queue\<close>

text \<open>
  The specification: a first-in, first-out queue of unbounded length between the stream and the handler. Its state is the
  messages that arrived and the messages that were taken.
\<close>

inductive fifo_step :: "enc_message list \<times> enc_message list \<Rightarrow> enc_message list \<times> enc_message list \<Rightarrow> bool" where
  arrives: "fifo_step (arrived, taken) (arrived @ [m], taken)"
| is_taken: "arrived = taken @ m # rest \<Longrightarrow> fifo_step (arrived, taken) (arrived, taken @ [m])"

definition fifo_of :: "('w, 's) sig_sys \<Rightarrow> enc_message list \<times> enc_message list" where
  "fifo_of S = (ss_got S, ss_done S)"

lemma fifo_same: "ss_got S' = ss_got S \<Longrightarrow> ss_done S' = ss_done S \<Longrightarrow> fifo_of S' = fifo_of S"
  by (simp add: fifo_of_def)

text \<open>C15. 
  Every step of the running client is a step of the queue or leaves the queue alone: the goroutines, the bounded channel and
  the reconnections implement the queue.
\<close>

theorem signal_client_refines_fifo:
  assumes "sig_reachable E handler S" and "sig_step E handler S S'" and "\<not> ss_ctxDone S \<and> \<not> ss_closed S"
  shows "fifo_step (fifo_of S) (fifo_of S') \<or> fifo_of S' = fifo_of S"
  using assms(2)
proof (cases rule: sig_step.cases)
  case (recv_msg st m w')
  then show ?thesis by (simp add: fifo_of_def arrives)
next
  case (work k m k' w')
  then obtain rest where "queued (ss_client S) = m # rest"
    by (auto simp: queued_def Work_turn_def split: list.splits)
  then have "ss_got S = ss_done S @ m # (rest @ pending (ss_rx S))"
    using sig_reachable_inv [OF assms(1)] assms(3) by (simp add: queue_inv_def)
  then show ?thesis
    using work is_taken [of "ss_got S" "ss_done S" m] by (simp add: fifo_of_def)
qed (auto simp: fifo_of_def)

theorem signal_client_refines_fifo_witness:
  "\<exists>S'. sig_step demo_sc_env demo_handler (demo_sys (demo_connected [demo_enc 1] []) (RxAdd () (demo_enc 2)) [] [demo_enc 1, demo_enc 2]) S'
     \<and> fifo_step ([demo_enc 1, demo_enc 2], []) ([demo_enc 1, demo_enc 2], [demo_enc 1]) \<and> ss_done S' = [demo_enc 1]"
proof -
  let ?S = "demo_sys (demo_connected [demo_enc 1] []) (RxAdd () (demo_enc 2)) [] [demo_enc 1, demo_enc 2]"
  let ?S' = "?S\<lparr>ss_client := ss_client ?S\<lparr>sc_worker := Some \<lparr>wk_handler = demo_handler, wk_encryptedMsgPool = []\<rparr>, sc_world := []\<rparr>,
    ss_done := [demo_enc 1]\<rparr>"
  have step: "sig_step demo_sc_env demo_handler ?S ?S'"
    using work [of ?S "\<lparr>wk_handler = demo_handler, wk_encryptedMsgPool = [demo_enc 1]\<rparr>" demo_sc_env "demo_enc 1"
        "\<lparr>wk_handler = demo_handler, wk_encryptedMsgPool = []\<rparr>" "[]" demo_handler]
    by (simp add: demo_sys_def demo_connected_def demo_client_def Work_turn_def demo_handler_def split: sum.split)
  then have "fifo_step (fifo_of ?S) (fifo_of ?S') \<or> fifo_of ?S' = fifo_of ?S"
    by (rule signal_client_refines_fifo [OF demo_two_messages]) (simp add: demo_sys_def)
  then show ?thesis
    using step by (intro exI [of _ ?S']) (simp add: fifo_of_def demo_sys_def)
qed

end
