(* ===== verification/Engine_Lifecycle.thy ===== *)
theory Engine_Lifecycle
  imports Engine_Signal
begin

text \<open>
  Starting and stopping the engine, \<^verbatim>\<open>go/internal/engine.go\<close>: \<^verbatim>\<open>Start\<close> with the creation of the interface, the DNS
  server, the route manager and the firewall, \<^verbatim>\<open>Stop\<close>, \<^verbatim>\<open>close\<close>, the restart trigger, the health probes and the read
  access to the engine. The step relation \<open>engine_step\<close> interleaves them with the messages of \<open>Engine_Sync\<close> and
  \<open>Engine_Signal\<close>: all of them hold \<^verbatim>\<open>syncMsgMux\<close>, so a history of the engine is a sequence of such steps.

  The record \<open>life_env\<close> adds to \<open>eng_env\<close> the services that only these functions use. \<open>GOOS\<close> chooses the platform
  branches. A goroutine is counted in \<open>en_goroutines\<close>; what it does later is a step of its own.

  The theorems: a failed start leaves no tunnel device behind, a successful one leaves an engine in which no message can
  meet a missing component, stopping closes the device and drops every peer, a message that arrives after the stop is
  refused or panics, and in every reachable state the serial only grows and a stored response implies persistence.
\<close>

section \<open>Environment\<close>

datatype goos = Linux | Android | IOS | OtherOS

datatype fw_target = AllowRosenpass "16 word" | BlockNetwork prefix

record ('w, 'k, 'c, 'q, 'i) life_env =
  le_eng :: "('w, 'k, 'c, 'q, 'i) eng_env"
  GOOS :: goos
  le_netstack :: bool
  le_tunLoaded :: bool
  le_kernel :: 'k
  le_rmForwarderPort :: "32 word"
  SetWgIface :: "bool \<Rightarrow> 'w \<Rightarrow> 'w"
  flow_NewManager :: "'w \<Rightarrow> 'w"
  flow_Close :: "'w \<Rightarrow> 'w"
  rosenpass_NewManager :: "'w \<Rightarrow> go_error option \<times> 'w"
  rosenpass_Run :: "'w \<Rightarrow> go_error option \<times> 'w"
  rosenpass_Close :: "'w \<Rightarrow> go_error option \<times> 'w"
  rosenpass_Port :: "'w \<Rightarrow> int"
  state_Start :: "'w \<Rightarrow> 'w"
  state_Stop :: "'w \<Rightarrow> go_error option \<times> 'w"
  state_Persist :: "'w \<Rightarrow> go_error option \<times> 'w"
  mgm_GetNetworkMap :: "'i \<Rightarrow> sys_flags \<Rightarrow> 'w \<Rightarrow> network_map result \<times> 'w"
  dns_NewServer :: "dns_config option \<Rightarrow> 'w \<Rightarrow> go_error option \<times> 'w"
  dns_Initialize :: "'w \<Rightarrow> go_error option \<times> 'w"
  dns_Stop :: "'w \<Rightarrow> 'w"
  status_DisableDNSStates :: "'w \<Rightarrow> 'w"
  CreateOnAndroid :: "'w \<Rightarrow> 'w configurer result \<times> 'w"
  SetInterfaceIP :: "string \<Rightarrow> 'w \<Rightarrow> 'w"
  SetRouteChangeListener :: "'w \<Rightarrow> 'w"
  NewFirewall :: "'w \<Rightarrow> bool \<times> go_error option \<times> 'w"
  fw_AddFiltering :: "fw_target \<Rightarrow> 'w \<Rightarrow> go_error option \<times> 'w"
  fw_Close :: "'w \<Rightarrow> go_error option \<times> 'w"
  net_Interfaces :: "'w \<Rightarrow> ipnet option list result list result"
  connMgr_Start :: "'w \<Rightarrow> 'w"
  connMgr_Close :: "'w \<Rightarrow> 'w"
  srWatcher_Start :: "'w \<Rightarrow> 'w"
  srWatcher_Close :: "'w \<Rightarrow> 'w"
  networkMonitor_Stop :: "'w \<Rightarrow> 'w"
  stopSSHServer :: "'w \<Rightarrow> go_error option \<times> 'w"
  cleanupSSHConfig :: "'w \<Rightarrow> 'w"
  status_ClearStates :: "'w \<Rightarrow> 'w"
  ctx_SetConnecting :: "'w \<Rightarrow> 'w"
  ctx_WrapReset :: "'w \<Rightarrow> 'w"
  signal_Receive :: "'w \<Rightarrow> 'w"
  signal_WaitStreamConnected :: "'w \<Rightarrow> 'w"
  mgm_Sync :: "'i \<Rightarrow> sys_flags \<Rightarrow> 'w \<Rightarrow> 'w"
  signal_IsHealthy :: "'w \<Rightarrow> bool"
  mgm_IsHealthy :: "'w \<Rightarrow> bool"
  UpdateWireGuardPeerState :: "string \<Rightarrow> wg_stats \<Rightarrow> 'w \<Rightarrow> go_error option \<times> 'w"
  ProbeAll :: "bool \<Rightarrow> stun_uri list \<Rightarrow> stun_uri list \<Rightarrow> 'w \<Rightarrow> go_error option list"
  UpdateRelayStates :: "go_error option list \<Rightarrow> 'w \<Rightarrow> 'w"
  IsAddrRouted :: "addr \<Rightarrow> prefix list \<Rightarrow> bool \<times> prefix"
  iface_RenewTun :: "int \<Rightarrow> 'w \<Rightarrow> go_error option \<times> 'w"

section \<open>Closing\<close>

text \<open>Cancelling the engine's context also cancels the context the route manager derives from it.\<close>

definition cancel_ctx :: "('w, 'k) engine \<Rightarrow> ('w, 'k) engine" where
  "cancel_ctx e = e\<lparr>en_ctxDone := True, en_routeManager := map_option (\<lambda>m. m\<lparr>dm_ctxDone := True\<rparr>) (en_routeManager e)\<rparr>"

definition engine_close :: "('w, 'k, 'c, 'q, 'i) life_env \<Rightarrow> ('w, 'k) engine \<Rightarrow> ('w, 'k) engine" where
  "engine_close L e =
     (let e1 = (if en_wgInterface e = None then e
                else e\<lparr>en_wgInterface := None,
                       en_world := SetWgIface L False (snd (iface_Close (ee_tun (le_eng L)) (en_world e)))\<rparr>);
          e2 = (if en_firewall e1 then on_world (\<lambda>w. snd (fw_Close L w)) e1 else e1)
      in if en_rpManager e2 then on_world (\<lambda>w. snd (rosenpass_Close L w)) e2 else e2)"

definition stopDNSServer :: "('w, 'k, 'c, 'q, 'i) life_env \<Rightarrow> ('w, 'k) engine \<Rightarrow> ('w, 'k) engine" where
  "stopDNSServer L e =
     (if \<not> en_dnsServer e then e
      else e\<lparr>en_dnsServer := False, en_world := status_DisableDNSStates L (dns_Stop L (en_world e))\<rparr>)"

section \<open>Starting\<close>

definition newWgIface :: "('w, 'k, 'c, 'q, 'i) life_env \<Rightarrow> ('w, 'k) engine \<Rightarrow> ('w, unit) wgiface result" where
  "newWgIface L e =
     bind_result (NewWGIFace (ec_WgAddr (en_config e)) (le_netstack L) (WireGuardModuleIsLoaded (le_eng L) (en_world e)) (le_tunLoaded L))
       (\<lambda>n. Inr \<lparr>if_configurer = None, if_filter = None, if_userspaceBind = ni_userspaceBind n\<rparr>)"

text \<open>The routes, the DNS configuration and the feature flag that only Android reads before the start.\<close>

definition readInitialSettings ::
    "('w, 'k, 'c, 'q, 'i) life_env \<Rightarrow> ('w, 'k) engine
     \<Rightarrow> ((route list \<times> dns_config option \<times> bool) result \<times> ('w, 'k) engine) option" where
  "readInitialSettings L e =
     (if GOOS L \<noteq> Android then Some (Inr ([], None, False), e)
      else
        (case mgm_GetNetworkMap L (GetInfo (le_eng L) (en_world e)) (engine_flags (en_config e)) (en_world e) of
           (Inl err, w) \<Rightarrow> Some (Inl err, e\<lparr>en_world := w\<rparr>)
         | (Inr nm, w) \<Rightarrow>
           (let e1 = e\<lparr>en_world := w\<rparr>; routes = toRoutes (FromPunycodeList (le_eng L)) (nm_Routes nm) in
            case toDNSConfig (addReverseZone (le_eng L)) (ForwarderClientPort (le_eng L))
                   (case nm_DNSConfig nm of None \<Rightarrow> empty_dns | Some d \<Rightarrow> d)
                   (wa_Network (tun_WgAddress (ee_tun (le_eng L)) w)) of
              None \<Rightarrow> None
            | Some cfg \<Rightarrow> Some (Inr (routes, Some cfg, toDNSFeatureFlag nm), e1))))"

definition newDnsServer ::
    "('w, 'k, 'c, 'q, 'i) life_env \<Rightarrow> dns_config option \<Rightarrow> ('w, 'k) engine \<Rightarrow> go_error option \<times> ('w, 'k) engine" where
  "newDnsServer L cfg e =
     (if en_dnsServer e then (None, e)
      else
        (case dns_NewServer L cfg (en_world e) of
           (Some err, w) \<Rightarrow> if GOOS L = Android \<or> GOOS L = IOS then (None, e\<lparr>en_dnsServer := True, en_world := w\<rparr>)
                             else (Some err, e\<lparr>en_world := w\<rparr>)
         | (None, w) \<Rightarrow> (None, e\<lparr>en_dnsServer := True, en_world := w\<rparr>)))"

definition wgInterfaceCreate ::
    "('w, 'k, 'c, 'q, 'i) life_env \<Rightarrow> ('w, unit) wgiface \<Rightarrow> ('w, 'k) engine \<Rightarrow> go_error option \<times> ('w, 'k) engine" where
  "wgInterfaceCreate L i e =
     (let w0 = (if GOOS L = IOS then SetInterfaceIP L (ec_WgAddr (en_config e)) (en_world e) else en_world e);
          T = (if GOOS L = Android then (ee_tun (le_eng L))\<lparr>tun_Create := CreateOnAndroid L\<rparr> else ee_tun (le_eng L));
          (r, i1, w1) = iface_Create T i w0
      in (r, e\<lparr>en_wgInterface := Some i1, en_world := w1\<rparr>))"

fun block_networks :: "('w, 'k, 'c, 'q, 'i) life_env \<Rightarrow> prefix list \<Rightarrow> 'w \<Rightarrow> 'w" where
  "block_networks L [] w = w"
| "block_networks L (p # ps) w = block_networks L ps (snd (fw_AddFiltering L (BlockNetwork p) w))"

definition blockLanAccess :: "('w, 'k, 'c, 'q, 'i) life_env \<Rightarrow> ('w, 'k) engine \<Rightarrow> ('w, 'k) engine" where
  "blockLanAccess L e =
     (if ec_BlockInbound (en_config e) then e
      else on_world (\<lambda>w. block_networks L (fst (getInterfacePrefixes (net_Interfaces L w))) w) e)"

definition initFirewall ::
    "('w, 'k, 'c, 'q, 'i) life_env \<Rightarrow> ('w, 'k) engine \<Rightarrow> (go_error option \<times> ('w, 'k) engine) option" where
  "initFirewall L e =
     (case en_routeManager e of
        None \<Rightarrow> None
      | Some m \<Rightarrow>
        (case SetFirewall (ee_rm (le_eng L)) True (m\<lparr>dm_world := en_world e\<rparr>) of
           (Some err, m1) \<Rightarrow> Some (Some (ErrWrap ''set firewall'' err),
              engine_close L (e\<lparr>en_routeManager := Some m1, en_world := dm_world m1\<rparr>))
         | (None, m1) \<Rightarrow>
           (let e1 = e\<lparr>en_routeManager := Some m1, en_world := dm_world m1\<rparr>;
                e2 = (if ec_BlockLANAccess (en_config e1) then blockLanAccess L e1 else e1)
            in if \<not> en_rpManager e2 \<or> \<not> ec_RosenpassEnabled (en_config e2) then Some (None, e2)
               else Some (None, on_world (\<lambda>w. snd (fw_AddFiltering L (AllowRosenpass (word_of_int (rosenpass_Port L w))) w)) e2))))"

definition createFirewall ::
    "('w, 'k, 'c, 'q, 'i) life_env \<Rightarrow> ('w, 'k) engine \<Rightarrow> (go_error option \<times> ('w, 'k) engine) option" where
  "createFirewall L e =
     (if ec_DisableFirewall (en_config e) then Some (None, e)
      else
        (case NewFirewall L (en_world e) of (present, err, w) \<Rightarrow>
           let e1 = e\<lparr>en_firewall := present, en_world := w\<rparr>
           in if err \<noteq> None \<or> \<not> present then Some (None, e1) else initFirewall L e1))"

definition startNetworkMonitor :: "('w, 'k) engine \<Rightarrow> ('w, 'k) engine" where
  "startNetworkMonitor e =
     (if \<not> ec_NetworkMonitor (en_config e) then e
      else e\<lparr>en_networkMonitor := True, en_goroutines := Suc (en_goroutines e)\<rparr>)"

text \<open>
  The two streams. Starting one starts a goroutine that registers a handler (\<open>handleSignal\<close>, \<open>handleSync\<close>); when the
  stream ends with an error the goroutine cancels the whole client.
\<close>

definition receiveSignalEvents :: "('w, 'k, 'c, 'q, 'i) life_env \<Rightarrow> ('w, 'k) engine \<Rightarrow> ('w, 'k) engine" where
  "receiveSignalEvents L e =
     e\<lparr>en_goroutines := Suc (en_goroutines e), en_world := signal_WaitStreamConnected L (signal_Receive L (en_world e))\<rparr>"

definition receiveManagementEvents :: "('w, 'k, 'c, 'q, 'i) life_env \<Rightarrow> ('w, 'k) engine \<Rightarrow> ('w, 'k) engine" where
  "receiveManagementEvents L e =
     e\<lparr>en_goroutines := Suc (en_goroutines e),
       en_world := mgm_Sync L (system_info (le_eng L) (en_checks e) (en_world e)) (engine_flags (en_config e)) (en_world e)\<rparr>"

definition cancel_client :: "('w, 'k, 'c, 'q, 'i) life_env \<Rightarrow> ('w, 'k) engine \<Rightarrow> ('w, 'k) engine" where
  "cancel_client L e = (cancel_ctx e)\<lparr>en_clientCancelled := True, en_world := ctx_WrapReset L (en_world e)\<rparr>"

definition stream_ended ::
    "('w, 'k, 'c, 'q, 'i) life_env \<Rightarrow> go_error option \<Rightarrow> ('w, 'k) engine \<Rightarrow> ('w, 'k) engine" where
  "stream_ended L err e =
     (let e1 = (if err \<noteq> None then cancel_client L e else e) in e1\<lparr>en_goroutines := en_goroutines e1 - 1\<rparr>)"

text \<open>The end of \<^verbatim>\<open>Start\<close>, from the pull up of the interface on.\<close>

definition start_services ::
    "('w, 'k, 'c, 'q, 'i) life_env \<Rightarrow> ('w, 'k) engine \<Rightarrow> go_error option \<times> ('w, 'k) engine" where
  "start_services L e =
     (case iface_Up (ee_tun (le_eng L)) (en_world e) of
        (Some err, w) \<Rightarrow> (Some (ErrWrap ''up wg interface'' err), engine_close L (e\<lparr>en_world := w\<rparr>))
      | (None, w) \<Rightarrow>
        (let e1 = e\<lparr>en_world := w\<rparr>;
             e2 = (if en_firewall e1 \<and> \<not> ec_BlockInbound (en_config e1) then e1\<lparr>en_acl := True\<rparr> else e1)
         in case dns_Initialize L (en_world e2) of
              (Some err, w1) \<Rightarrow> (Some (ErrWrap ''initialize dns server'' err), engine_close L (e2\<lparr>en_world := w1\<rparr>))
            | (None, w1) \<Rightarrow>
              (let e3 = e2\<lparr>en_connMgr := True, en_srWatcher := True, en_world := srWatcher_Start L (connMgr_Start L w1)\<rparr>;
                   e4 = startNetworkMonitor (receiveManagementEvents L (receiveSignalEvents L e3))
               in (None, e4\<lparr>en_wgIfaceMonitor := True, en_goroutines := Suc (en_goroutines e4)\<rparr>))))"

text \<open>The middle of \<^verbatim>\<open>Start\<close>: the route manager, the device and the firewall.\<close>

definition kernel_of :: "('w, 'k, 'c, 'q, 'i) life_env \<Rightarrow> ('w, 'k) engine \<Rightarrow> 'k" where
  "kernel_of L e = (case en_routeManager e of None \<Rightarrow> le_kernel L | Some m \<Rightarrow> so_world (dm_sysOps m))"

definition new_route_manager :: "('w, 'k, 'c, 'q, 'i) life_env \<Rightarrow> ('w, 'k) engine \<Rightarrow> ('w, 'k) engine" where
  "new_route_manager L e =
     (let m0 = NewManager (PublicKeyString (ee_peers (le_eng L)) (ec_WgPrivateKey (en_config e))) (ec_DisableClientRoutes (en_config e))
                 (ec_DisableServerRoutes (en_config e))
                 \<lparr>so_originalSysctl = None, so_sysctlFailed = False, so_world = kernel_of L e\<rparr> (en_world e) (le_rmForwarderPort L);
          m1 = snd (rm_Init (ee_rm (le_eng L)) (m0\<lparr>dm_ctxDone := en_ctxDone e\<rparr>))
      in e\<lparr>en_routeManager := Some m1, en_world := SetRouteChangeListener L (dm_world m1)\<rparr>)"

definition start_device ::
    "('w, 'k, 'c, 'q, 'i) life_env \<Rightarrow> ('w, unit) wgiface \<Rightarrow> ('w, 'k) engine \<Rightarrow> (go_error option \<times> ('w, 'k) engine) option" where
  "start_device L i e =
     (case wgInterfaceCreate L i (new_route_manager L e) of
        (Some err, e1) \<Rightarrow> Some (Some (ErrWrap ''create wg interface'' err), engine_close L e1)
      | (None, e1) \<Rightarrow>
        (case createFirewall L e1 of
           None \<Rightarrow> None
         | Some (Some err, e2) \<Rightarrow> Some (Some err, e2)
         | Some (None, e2) \<Rightarrow> Some (start_services L e2)))"

definition start_rosenpass ::
    "('w, 'k, 'c, 'q, 'i) life_env \<Rightarrow> ('w, 'k) engine \<Rightarrow> go_error option \<times> ('w, 'k) engine" where
  "start_rosenpass L e =
     (if \<not> ec_RosenpassEnabled (en_config e) then (None, e)
      else
        (case rosenpass_NewManager L (en_world e) of
           (Some err, w) \<Rightarrow> (Some (ErrWrap ''create rosenpass manager'' err), e\<lparr>en_rpManager := False, en_world := w\<rparr>)
         | (None, w) \<Rightarrow>
           (case rosenpass_Run L w of
              (Some err, w1) \<Rightarrow> (Some (ErrWrap ''run rosenpass manager'' err), e\<lparr>en_rpManager := True, en_world := w1\<rparr>)
            | (None, w1) \<Rightarrow> (None, e\<lparr>en_rpManager := True, en_world := w1\<rparr>))))"

definition engine_Start ::
    "('w, 'k, 'c, 'q, 'i) life_env \<Rightarrow> netbird_config option \<Rightarrow> string option \<Rightarrow> ('w, 'k) engine
     \<Rightarrow> (go_error option \<times> ('w, 'k) engine) option" where
  "engine_Start L cfg mgmtURL e =
     (case ValidateMTU (ec_MTU (en_config e)) of
        Some err \<Rightarrow> Some (Some (ErrWrap ''invalid MTU configuration'' err), e)
      | None \<Rightarrow>
        (let e1 = (if en_cancel e then cancel_ctx e else e)\<lparr>en_cancel := True, en_ctxDone := en_clientCancelled e\<rparr> in
         case newWgIface L e1 of
           Inl err \<Rightarrow> Some (Some (ErrWrap ''new wg interface'' err), e1)
         | Inr i \<Rightarrow>
           (let e2 = e1\<lparr>en_wgInterface := Some i, en_flowManager := True,
                        en_world := flow_NewManager L (SetWgIface L True (en_world e1))\<rparr> in
            case start_rosenpass L e2 of
              (Some err, e3) \<Rightarrow> Some (Some err, e3)
            | (None, e3) \<Rightarrow>
              (case readInitialSettings L (on_world (state_Start L) e3) of
                 None \<Rightarrow> None
               | Some (Inl err, e4) \<Rightarrow> Some (Some (ErrWrap ''read initial settings'' err), engine_close L e4)
               | Some (Inr (routes, dnsCfg, flag), e4) \<Rightarrow>
                 (case newDnsServer L dnsCfg e4 of
                    (Some err, e5) \<Rightarrow> Some (Some (ErrWrap ''create dns server'' err), engine_close L e5)
                  | (None, e5) \<Rightarrow> start_device L i (snd (PopulateNetbirdConfig (le_eng L) cfg mgmtURL e5)))))))"


section \<open>Stopping\<close>

text \<open>
  The part of \<^verbatim>\<open>Stop\<close> before the peers are removed. The waiting for goroutines at the end of \<^verbatim>\<open>Stop\<close> changes
  nothing of the engine and is the subject of the theory \<open>Engine_Shutdown\<close>.
\<close>

definition stop_services :: "('w, 'k, 'c, 'q, 'i) life_env \<Rightarrow> ('w, 'k) engine \<Rightarrow> ('w, 'k) engine" where
  "stop_services L e =
     (let e1 = (if en_connMgr e then on_world (connMgr_Close L) e else e);
          e2 = (if en_networkMonitor e1 then on_world (networkMonitor_Stop L) e1 else e1);
          e3 = on_world (\<lambda>w. cleanupSSHConfig L (snd (stopSSHServer L w))) e2;
          e4 = stopDNSServer L e3;
          e5 = (if en_ingressGatewayMgr e4
                then e4\<lparr>en_ingressGatewayMgr := False, en_world := snd (ingress_Close (le_eng L) (en_world e4))\<rparr> else e4);
          e6 = stopDNSForwarder (le_eng L) e5;
          e7 = (case en_routeManager e6 of
                  None \<Rightarrow> e6
                | Some m \<Rightarrow> (let m1 = rm_Stop (ee_rm (le_eng L)) (m\<lparr>dm_world := en_world e6\<rparr>)
                             in e6\<lparr>en_routeManager := Some m1, en_world := dm_world m1\<rparr>));
          e8 = (if en_srWatcher e7 then on_world (srWatcher_Close L) e7 else e7)
      in on_world (status_ClearStates L) e8)"

definition engine_Stop :: "('w, 'k, 'c, 'q, 'i) life_env \<Rightarrow> ('w, 'k) engine \<Rightarrow> go_error option \<times> ('w, 'k) engine" where
  "engine_Stop L e =
     (let e1 = stop_services L e in
      case removeAllPeers (ee_peers (le_eng L)) (en_world e1) of
        (Some err, w) \<Rightarrow> (Some (ErrWrap ''failed to remove all peers'' err), e1\<lparr>en_world := w\<rparr>)
      | (None, w) \<Rightarrow>
        (let e2 = (if en_cancel e1 then cancel_ctx (e1\<lparr>en_world := w\<rparr>) else e1\<lparr>en_world := w\<rparr>);
             e3 = engine_close L e2;
             e4 = (if en_flowManager e3 then on_world (flow_Close L) e3 else e3)
         in case state_Stop L (en_world e4) of
              (Some err, w1) \<Rightarrow> (Some (ErrWrap ''failed to stop state manager'' err), e4\<lparr>en_world := w1\<rparr>)
            | (None, w1) \<Rightarrow> (None, e4\<lparr>en_world := snd (state_Persist L w1)\<rparr>)))"

definition triggerClientRestart :: "('w, 'k, 'c, 'q, 'i) life_env \<Rightarrow> ('w, 'k) engine \<Rightarrow> ('w, 'k) engine" where
  "triggerClientRestart L e =
     (if en_ctxDone e then e else cancel_client L (on_world (ctx_SetConnecting L) e))"

text \<open>The goroutines of the network monitor and of the interface monitor, when they end.\<close>

definition network_monitor_ended ::
    "('w, 'k, 'c, 'q, 'i) life_env \<Rightarrow> go_error option \<Rightarrow> ('w, 'k) engine \<Rightarrow> ('w, 'k) engine" where
  "network_monitor_ended L err e =
     (let e1 = (if err \<noteq> None then e else triggerClientRestart L e) in e1\<lparr>en_goroutines := en_goroutines e1 - 1\<rparr>)"

definition iface_monitor_ended :: "('w, 'k, 'c, 'q, 'i) life_env \<Rightarrow> bool \<Rightarrow> ('w, 'k) engine \<Rightarrow> ('w, 'k) engine" where
  "iface_monitor_ended L shouldRestart e =
     (let e1 = (if shouldRestart then triggerClientRestart L e else e) in e1\<lparr>en_goroutines := en_goroutines e1 - 1\<rparr>)"

section \<open>Probes and access\<close>

fun update_peer_stats ::
    "('w, 'k, 'c, 'q, 'i) life_env \<Rightarrow> (string \<rightharpoonup> wg_stats) \<Rightarrow> string list \<Rightarrow> 'w \<Rightarrow> 'w" where
  "update_peer_stats L stats [] w = w"
| "update_peer_stats L stats (k # ks) w =
     update_peer_stats L stats ks (case stats k of None \<Rightarrow> w | Some s \<Rightarrow> snd (UpdateWireGuardPeerState L k s w))"

definition RunHealthProbes ::
    "('w, 'k, 'c, 'q, 'i) life_env \<Rightarrow> bool \<Rightarrow> ('w, 'k) engine \<Rightarrow> bool \<times> ('w, 'k) engine" where
  "RunHealthProbes L waitForResult e =
     (let signalHealthy = signal_IsHealthy L (en_world e);
          managementHealthy = mgm_IsHealthy L (en_world e);
          probe = (\<lambda>e1. let results = ProbeAll L waitForResult (en_STUNs e1) (en_TURNs e1) (en_world e1);
                             relayHealthy = list_all (\<lambda>r. r = None) results
                         in (signalHealthy \<and> managementHealthy \<and> relayHealthy, on_world (UpdateRelayStates L results) e1))
      in case en_wgInterface e of
           None \<Rightarrow> probe e
         | Some i \<Rightarrow>
           (case iface_GetStats i (en_world e) of
              Inl _ \<Rightarrow> (False, e)
            | Inr stats \<Rightarrow>
              probe (on_world (update_peer_stats L stats (PeersPubKey (ee_peers (le_eng L)) (en_world e))) e)))"

definition addrViaRoutes :: "('w, 'k, 'c, 'q, 'i) life_env \<Rightarrow> addr \<Rightarrow> ('w, 'k) dm \<Rightarrow> bool \<times> prefix" where
  "addrViaRoutes L a m =
     (let vpnRoutes = concat (map (\<lambda>(k, rs). case rs of [] \<Rightarrow> [] | r # _ \<Rightarrow> [r_Network r]) (GetClientRoutes m));
          (isVpn, p) = IsAddrRouted L a vpnRoutes
      in if isVpn then (True, p) else (False, PrefixZero))"

definition GetWgAddr :: "('w, 'k, 'c, 'q, 'i) life_env \<Rightarrow> ('w, 'k) engine \<Rightarrow> addr" where
  "GetWgAddr L e = (if en_wgInterface e = None then AddrZero else wa_IP (tun_WgAddress (ee_tun (le_eng L)) (en_world e)))"

definition engine_Address :: "('w, 'k, 'c, 'q, 'i) life_env \<Rightarrow> ('w, 'k) engine \<Rightarrow> addr result" where
  "engine_Address L e =
     (if en_wgInterface e = None then Inl (ErrMsg ''wireguard interface not initialized'')
      else Inr (wa_IP (tun_WgAddress (ee_tun (le_eng L)) (en_world e))))"

definition RenewTun ::
    "('w, 'k, 'c, 'q, 'i) life_env \<Rightarrow> int \<Rightarrow> ('w, 'k) engine \<Rightarrow> go_error option \<times> ('w, 'k) engine" where
  "RenewTun L fd e =
     (if en_wgInterface e = None then (Some (ErrMsg ''wireguard interface not initialized''), e)
      else (case iface_RenewTun L fd (en_world e) of (r, w) \<Rightarrow> (r, e\<lparr>en_world := w\<rparr>)))"

definition NewEngine :: "engine_config \<Rightarrow> string list list \<Rightarrow> 'w \<Rightarrow> ('w, 'k) engine" where
  "NewEngine config checks w =
     \<lparr>en_config = config, en_connMgr = False, en_rpManager = False, en_STUNs = [], en_TURNs = [], en_stunTurn = [],
      en_cancel = False, en_ctxDone = False, en_clientCancelled = False, en_wgInterface = None, en_networkSerial = 0,
      en_networkMonitor = False, en_firewall = False, en_routeManager = None, en_acl = False, en_dnsForwardMgr = False,
      en_ingressGatewayMgr = False, en_dnsServer = False, en_checks = checks, en_srWatcher = False,
      en_persistSyncResponse = False, en_latestSyncResponse = None, en_flowManager = False, en_wgIfaceMonitor = False,
      en_goroutines = 0, en_world = w\<rparr>"

section \<open>Histories\<close>

inductive engine_step ::
    "('w, 'k, 'c, 'q, 'i) life_env \<Rightarrow> ('w, 'c) sig_env \<Rightarrow> ('w, 'k) engine \<Rightarrow> ('w, 'k) engine \<Rightarrow> bool"
  for L S where
  step_start: "engine_Start L cfg url e = Some (r, e') \<Longrightarrow> engine_step L S e e'"
| step_stop: "engine_Stop L e = (r, e') \<Longrightarrow> engine_step L S e e'"
| step_sync: "handleSync (le_eng L) u e = Some (r, e') \<Longrightarrow> engine_step L S e e'"
| step_signal: "handleSignal (ee_peers (le_eng L)) S (en_routeManager e) msg (en_world e) = Some (r, w) \<Longrightarrow>
    engine_step L S e (e\<lparr>en_world := w\<rparr>)"
| step_persistence: "engine_step L S e (SetSyncResponsePersistence b e)"
| step_probes: "engine_step L S e (snd (RunHealthProbes L b e))"
| step_restart: "engine_step L S e (triggerClientRestart L e)"
| step_stream: "engine_step L S e (stream_ended L err e)"
| step_network_monitor: "engine_step L S e (network_monitor_ended L err e)"
| step_iface_monitor: "engine_step L S e (iface_monitor_ended L b e)"
| step_renew: "RenewTun L fd e = (r, e') \<Longrightarrow> engine_step L S e e'"

inductive_cases engine_stepE: "engine_step L S e e'"

section \<open>What the life cycle leaves alone\<close>

definition history :: "('w, 'k) engine \<Rightarrow> 64 word \<times> bool \<times> sync_response option \<times> engine_config" where
  "history e = (en_networkSerial e, en_persistSyncResponse e, en_latestSyncResponse e, en_config e)"

named_theorems life_frame \<open>operations that keep the serial, the persistence and the configuration\<close>

lemma history_update [simp]:
  "history (e\<lparr>en_world := w\<rparr>) = history e" "history (e\<lparr>en_wgInterface := i\<rparr>) = history e"
  "history (e\<lparr>en_dnsServer := b\<rparr>) = history e" "history (e\<lparr>en_routeManager := m\<rparr>) = history e"
  "history (e\<lparr>en_firewall := b\<rparr>) = history e" "history (e\<lparr>en_acl := b\<rparr>) = history e" "history (e\<lparr>en_connMgr := b\<rparr>) = history e"
  "history (e\<lparr>en_srWatcher := b\<rparr>) = history e" "history (e\<lparr>en_wgIfaceMonitor := b\<rparr>) = history e"
  "history (e\<lparr>en_goroutines := n\<rparr>) = history e" "history (e\<lparr>en_networkMonitor := b\<rparr>) = history e"
  "history (e\<lparr>en_rpManager := b\<rparr>) = history e" "history (e\<lparr>en_flowManager := b\<rparr>) = history e"
  "history (e\<lparr>en_cancel := b\<rparr>) = history e" "history (e\<lparr>en_ctxDone := b\<rparr>) = history e"
  "history (e\<lparr>en_clientCancelled := b\<rparr>) = history e" "history (e\<lparr>en_ingressGatewayMgr := b\<rparr>) = history e"
  "history (e\<lparr>en_dnsForwardMgr := b\<rparr>) = history e" "history (on_world f e) = history e"
  by (simp_all add: history_def on_world_def)

lemma cancel_ctx_history [simp]: "history (cancel_ctx e) = history e"
  by (simp add: cancel_ctx_def)

lemma close_history [life_frame]: "history (engine_close L e) = history e"
  by (simp add: engine_close_def Let_def)

lemma PopulateNetbirdConfig_history [life_frame]: "history (snd (PopulateNetbirdConfig E c u e)) = history e"
  by (simp add: PopulateNetbirdConfig_def Let_def split: option.splits prod.splits)

lemma readInitialSettings_history [life_frame]: "readInitialSettings L e = Some (r, e') \<Longrightarrow> history e' = history e"
  by (auto simp: readInitialSettings_def Let_def split: if_splits prod.splits sum.splits option.splits)

lemma newDnsServer_history [life_frame]: "newDnsServer L c e = (r, e') \<Longrightarrow> history e' = history e"
  by (auto simp: newDnsServer_def split: if_splits prod.splits option.splits)

lemma wgInterfaceCreate_history [life_frame]: "wgInterfaceCreate L i e = (r, e') \<Longrightarrow> history e' = history e"
  by (auto simp: wgInterfaceCreate_def Let_def split: prod.splits)

lemma initFirewall_history [life_frame]: "initFirewall L e = Some (r, e') \<Longrightarrow> history e' = history e"
  by (auto simp: initFirewall_def blockLanAccess_def Let_def life_frame split: if_splits prod.splits option.splits)

lemma createFirewall_history [life_frame]: "createFirewall L e = Some (r, e') \<Longrightarrow> history e' = history e"
  by (auto simp: createFirewall_def Let_def dest: initFirewall_history split: if_splits prod.splits)

lemma start_services_history [life_frame]: "start_services L e = (r, e') \<Longrightarrow> history e' = history e"
  by (auto simp: start_services_def Let_def life_frame startNetworkMonitor_def receiveManagementEvents_def receiveSignalEvents_def
      split: prod.splits option.splits if_splits)

lemma start_rosenpass_history [life_frame]: "start_rosenpass L e = (r, e') \<Longrightarrow> history e' = history e"
  by (auto simp: start_rosenpass_def split: if_splits prod.splits option.splits)

lemma new_route_manager_history [life_frame]: "history (new_route_manager L e) = history e"
  by (simp add: new_route_manager_def Let_def)

lemma start_device_history:
  assumes "start_device L i e = Some (r, e')"
  shows "history e' = history e"
proof -
  obtain r1 e1 where 1: "wgInterfaceCreate L i (new_route_manager L e) = (r1, e1)" by fastforce
  have h1: "history e1 = history e" using wgInterfaceCreate_history [OF 1] by (simp add: life_frame)
  show ?thesis
  proof (cases r1)
    case (Some err)
    then show ?thesis using assms 1 h1 by (auto simp: start_device_def life_frame)
  next
    case None
    obtain r2 e2 where 2: "createFirewall L e1 = Some (r2, e2)"
      using assms 1 None by (auto simp: start_device_def split: option.splits)
    show ?thesis
      using assms 1 None 2 h1 createFirewall_history [OF 2] start_services_history [of L e2 r e']
      by (cases r2) (auto simp: start_device_def)
  qed
qed

section \<open>Devices\<close>

text \<open>The tunnel device exists once the interface has a configurer.\<close>

definition no_device :: "('w, 'k) engine \<Rightarrow> bool" where
  "no_device e = (case en_wgInterface e of None \<Rightarrow> True | Some i \<Rightarrow> if_configurer i = None)"

definition ready :: "('w, 'k) engine \<Rightarrow> bool" where
  "ready e \<longleftrightarrow> \<not> no_device e \<and> en_dnsServer e \<and> en_routeManager e \<noteq> None \<and> en_connMgr e \<and> en_flowManager e"

lemma close_no_device: "en_wgInterface (engine_close L e) = None"
  by (simp add: engine_close_def Let_def on_world_def)

definition pieces :: "('w, 'k) engine \<Rightarrow> bool \<times> bool \<times> bool" where
  "pieces e = (en_dnsServer e, en_routeManager e = None, en_flowManager e)"

lemma initFirewall_ok:
  "initFirewall L e = Some (None, e') \<Longrightarrow> en_wgInterface e' = en_wgInterface e \<and> pieces e' = pieces e"
  "initFirewall L e = Some (Some err, e') \<Longrightarrow> en_wgInterface e' = None"
  by (auto simp: initFirewall_def blockLanAccess_def Let_def close_no_device on_world_def pieces_def
      split: if_splits prod.splits option.splits)

lemma createFirewall_ok:
  "createFirewall L e = Some (None, e') \<Longrightarrow> en_wgInterface e' = en_wgInterface e \<and> pieces e' = pieces e"
  "createFirewall L e = Some (Some err, e') \<Longrightarrow> en_wgInterface e' = None"
  by (auto simp: createFirewall_def Let_def pieces_def split: if_splits prod.splits dest: initFirewall_ok)

lemma start_services_ok:
  "start_services L e = (None, e') \<Longrightarrow> en_wgInterface e' = en_wgInterface e \<and> pieces e' = pieces e \<and> en_connMgr e'"
  "start_services L e = (Some err, e') \<Longrightarrow> en_wgInterface e' = None"
  by (auto simp: start_services_def Let_def close_no_device pieces_def startNetworkMonitor_def receiveManagementEvents_def
      receiveSignalEvents_def split: prod.splits option.splits if_splits)

lemma wgInterfaceCreate_ok:
  "wgInterfaceCreate L i e = (None, e') \<Longrightarrow> \<not> no_device e' \<and> pieces e' = pieces e"
  by (auto simp: wgInterfaceCreate_def iface_Create_def Let_def no_device_def pieces_def split: prod.splits sum.splits)

lemma start_device_ok:
  "start_device L i e = Some (None, e') \<Longrightarrow> en_dnsServer e \<Longrightarrow> en_flowManager e \<Longrightarrow> ready e'"
  "start_device L i e = Some (Some err, e') \<Longrightarrow> en_wgInterface e' = None"
proof -
  obtain r1 e1 where 1: "wgInterfaceCreate L i (new_route_manager L e) = (r1, e1)" by fastforce
  have rm: "pieces (new_route_manager L e) = (en_dnsServer e, False, en_flowManager e)"
    by (simp add: pieces_def new_route_manager_def Let_def)
  show "ready e'" if s: "start_device L i e = Some (None, e')" and on: "en_dnsServer e" "en_flowManager e"
  proof -
    have r1: "r1 = None" using s 1 by (cases r1) (auto simp: start_device_def)
    obtain e2 where 2: "createFirewall L e1 = Some (None, e2)" "start_services L e2 = (None, e')"
      using s 1 r1 by (auto simp: start_device_def split: option.splits)
    have "pieces e' = (True, False, True)" "en_wgInterface e' = en_wgInterface e1" "en_connMgr e'" "\<not> no_device e1"
      using start_services_ok(1) [OF 2(2)] createFirewall_ok(1) [OF 2(1)] wgInterfaceCreate_ok [OF 1 [unfolded r1]] rm on by auto
    then show ?thesis by (simp add: ready_def pieces_def no_device_def)
  qed
  show "en_wgInterface e' = None" if s: "start_device L i e = Some (Some err, e')"
  proof (cases r1)
    case None
    then obtain r2 e2 where 2: "createFirewall L e1 = Some (r2, e2)" using s 1 by (auto simp: start_device_def split: option.splits)
    then show ?thesis using s 1 None createFirewall_ok(2) start_services_ok(2) by (cases r2) (auto simp: start_device_def)
  qed (use s 1 in \<open>auto simp: start_device_def close_no_device\<close>)
qed

section \<open>Starting and stopping\<close>

lemma start_rosenpass_ok: "start_rosenpass L e = (r, e') \<Longrightarrow> en_wgInterface e' = en_wgInterface e \<and> en_flowManager e' = en_flowManager e"
  by (auto simp: start_rosenpass_def split: if_splits prod.splits option.splits)

lemma readInitialSettings_ok: "readInitialSettings L e = Some (r, e') \<Longrightarrow> en_flowManager e' = en_flowManager e"
  by (auto simp: readInitialSettings_def Let_def split: if_splits prod.splits sum.splits option.splits)

lemma newDnsServer_ok: "newDnsServer L c e = (None, e') \<Longrightarrow> en_dnsServer e' \<and> en_flowManager e' = en_flowManager e"
  by (auto simp: newDnsServer_def split: if_splits prod.splits option.splits)

lemma PopulateNetbirdConfig_ok: "pieces (snd (PopulateNetbirdConfig E c u e)) = pieces e"
  by (simp add: PopulateNetbirdConfig_def pieces_def Let_def split: option.splits prod.splits)

definition start_outcome :: "('w, 'k, 'c, 'q, 'i) life_env \<Rightarrow> go_error option \<Rightarrow> ('w, 'k) engine \<Rightarrow> ('w, 'k) engine \<Rightarrow> bool" where
  "start_outcome L r e e' \<longleftrightarrow> history e' = history e \<and>
     (if r = None then ready e' else no_device e' \<or> en_wgInterface e' = en_wgInterface e)"

lemma start_settings:
  assumes "(case readInitialSettings L e of
                 None \<Rightarrow> None
               | Some (Inl err, e4) \<Rightarrow> Some (Some (ErrWrap ''read initial settings'' err), engine_close L e4)
               | Some (Inr (routes, dnsCfg, flag), e4) \<Rightarrow>
                 (case newDnsServer L dnsCfg e4 of
                    (Some err, e5) \<Rightarrow> Some (Some (ErrWrap ''create dns server'' err), engine_close L e5)
                  | (None, e5) \<Rightarrow> start_device L i (snd (PopulateNetbirdConfig (le_eng L) cfg mgmtURL e5)))) = Some (r, e')"
    and flow: "en_flowManager e"
  shows "start_outcome L r e e'"
proof -
  obtain x e4 where 4: "readInitialSettings L e = Some (x, e4)" using assms(1) by (auto split: option.splits)
  note h4 = readInitialSettings_history [OF 4] readInitialSettings_ok [OF 4]
  show ?thesis
  proof (cases x)
    case (Inl err)
    then show ?thesis using assms(1) 4 h4 by (auto simp: start_outcome_def life_frame no_device_def close_no_device)
  next
    case (Inr y)
    obtain routes dnsCfg flag where y: "y = (routes, dnsCfg, flag)" by (metis prod.exhaust)
    obtain r5 e5 where 5: "newDnsServer L dnsCfg e4 = (r5, e5)" by fastforce
    note h5 = newDnsServer_history [OF 5]
    show ?thesis
    proof (cases r5)
      case (Some err)
      then show ?thesis using assms(1) 4 5 Inr y h4 h5 by (auto simp: start_outcome_def life_frame no_device_def close_no_device)
    next
      case None
      let ?e6 = "snd (PopulateNetbirdConfig (le_eng L) cfg mgmtURL e5)"
      have d: "start_device L i ?e6 = Some (r, e')" using assms(1) 4 5 Inr y None by simp
      have "pieces ?e6 = pieces e5" by (rule PopulateNetbirdConfig_ok)
      then have on: "en_dnsServer ?e6" "en_flowManager ?e6"
        using newDnsServer_ok [OF 5 [unfolded None]] h4 flow by (simp_all add: pieces_def)
      have "history e' = history e" using start_device_history [OF d] h4 h5 by (simp add: life_frame)
      then show ?thesis
        using start_device_ok(1) [of L i ?e6 e'] start_device_ok(2) [of L i ?e6 _ e'] d on
        by (cases r) (auto simp: start_outcome_def no_device_def)
    qed
  qed
qed

lemma engine_Start_outcome:
  assumes "engine_Start L cfg url e = Some (r, e')"
  shows "start_outcome L r e e'"
proof (cases "ValidateMTU (ec_MTU (en_config e))")
  case (Some err)
  then show ?thesis using assms by (auto simp: engine_Start_def start_outcome_def)
next
  case mtu: None
  define e1 where "e1 = (if en_cancel e then cancel_ctx e else e)\<lparr>en_cancel := True, en_ctxDone := en_clientCancelled e\<rparr>"
  have h1: "history e1 = history e" "en_wgInterface e1 = en_wgInterface e" by (simp_all add: e1_def cancel_ctx_def)
  show ?thesis
  proof (cases "newWgIface L e1")
    case (Inl err)
    then show ?thesis using assms mtu h1 by (auto simp: engine_Start_def Let_def e1_def [symmetric] start_outcome_def)
  next
    case i: (Inr i)
    define e2 where "e2 = e1\<lparr>en_wgInterface := Some i, en_flowManager := True, en_world := flow_NewManager L (SetWgIface L True (en_world e1))\<rparr>"
    obtain r3 e3 where 3: "start_rosenpass L e2 = (r3, e3)" by fastforce
    have e2: "no_device e2" "history e2 = history e" "en_flowManager e2"
      using i h1 by (auto simp: e2_def no_device_def newWgIface_def bind_result_Inr_iff)
    note h3 = start_rosenpass_history [OF 3] start_rosenpass_ok [OF 3]
    show ?thesis
    proof (cases r3)
      case (Some err)
      then show ?thesis using assms mtu i 3 h3 e2
        by (auto simp: engine_Start_def Let_def e1_def [symmetric] e2_def [symmetric] start_outcome_def no_device_def)
    next
      case None
      have "start_outcome L r (on_world (state_Start L) e3) e'"
        by (rule start_settings [where i = i and cfg = cfg and mgmtURL = url]) (use assms mtu i 3 None h3 e2 in
          \<open>simp_all add: engine_Start_def Let_def e1_def [symmetric] e2_def [symmetric] on_world_def\<close>)
      then show ?thesis using h3 e2 by (auto simp: start_outcome_def no_device_def on_world_def)
    qed
  qed
qed

lemma stopDNSForwarder_sel:
  "history (stopDNSForwarder E e) = history e" "\<not> en_dnsForwardMgr (stopDNSForwarder E e)"
  "en_dnsServer (stopDNSForwarder E e) = en_dnsServer e" "en_ingressGatewayMgr (stopDNSForwarder E e) = en_ingressGatewayMgr e"
  "en_routeManager (stopDNSForwarder E e) = en_routeManager e"
  by (simp_all add: stopDNSForwarder_def)

lemma stopDNSServer_sel: "history (stopDNSServer L e) = history e" "\<not> en_dnsServer (stopDNSServer L e)"
  by (simp_all add: stopDNSServer_def)

definition stopped :: "('w, 'k) engine \<Rightarrow> bool" where
  "stopped e \<longleftrightarrow> \<not> en_dnsServer e \<and> \<not> en_dnsForwardMgr e \<and> \<not> en_ingressGatewayMgr e \<and>
     (\<forall>m. en_routeManager e = Some m \<longrightarrow> dm_ctxDone m \<and> dm_clientRoutes m = [])"

lemma stopped_update [simp]:
  "stopped (e\<lparr>en_world := w\<rparr>) = stopped e" "stopped (on_world f e) = stopped e" "stopped (e\<lparr>en_wgInterface := i\<rparr>) = stopped e"
  "stopped e \<Longrightarrow> stopped (cancel_ctx e)"
  by (auto simp: stopped_def on_world_def cancel_ctx_def)

lemma stop_services_spec: "history (stop_services L e) = history e \<and> stopped (stop_services L e)"
proof -
  have rs: "dm_ctxDone (rm_Stop E m) \<and> dm_clientRoutes (rm_Stop E m) = []" for E :: "('a, 'b) rm_env" and m
    by (simp add: rm_Stop_def Let_def split: prod.splits)
  show ?thesis
    by (simp add: stop_services_def Let_def stopDNSForwarder_sel stopDNSServer_sel stopped_def rs on_world_def split: option.splits)
qed

lemma close_stopped: "stopped e \<Longrightarrow> stopped (engine_close L e)"
  by (simp add: engine_close_def Let_def)

lemma engine_Stop_history: "engine_Stop L e = (r, e') \<Longrightarrow> history e' = history e"
  by (auto simp: engine_Stop_def Let_def stop_services_spec life_frame split: prod.splits option.splits if_splits)

lemma engine_Stop_spec:
  assumes L: "store_laws (ee_peers (le_eng L)) conf" and r: "engine_Stop L e = (r, e')"
  shows "en_wgInterface e' = None \<and> stopped e'"
proof -
  define e1 where "e1 = stop_services L e"
  have s1: "stopped e1" using stop_services_spec by (auto simp: e1_def)
  obtain w where w: "removeAllPeers (ee_peers (le_eng L)) (en_world e1) = (None, w)"
    using removeAllPeers_empty [OF L, of "en_world e1"] by (metis prod.collapse)
  define e3 where "e3 = engine_close L (if en_cancel e1 then cancel_ctx (e1\<lparr>en_world := w\<rparr>) else e1\<lparr>en_world := w\<rparr>)"
  have s3: "stopped e3" "en_wgInterface e3 = None"
    using s1 by (auto simp: e3_def close_no_device intro!: close_stopped)
  have "(case state_Stop L (en_world (if en_flowManager e3 then on_world (flow_Close L) e3 else e3)) of
      (Some err, w1) \<Rightarrow> (Some (ErrWrap ''failed to stop state manager'' err), (if en_flowManager e3 then on_world (flow_Close L) e3 else e3)\<lparr>en_world := w1\<rparr>)
    | (None, w1) \<Rightarrow> (None, (if en_flowManager e3 then on_world (flow_Close L) e3 else e3)\<lparr>en_world := snd (state_Persist L w1)\<rparr>)) = (r, e')"
    using r unfolding engine_Stop_def Let_def e1_def [symmetric] w prod.case option.case e3_def [symmetric] .
  then show ?thesis using s3 by (auto simp: on_world_def split: prod.splits option.splits if_splits)
qed

section \<open>Histories of the engine\<close>

definition persistence_ok :: "('w, 'k) engine \<Rightarrow> bool" where
  "persistence_ok e = (en_latestSyncResponse e = None \<or> en_persistSyncResponse e)"

definition monotone_step :: "('w, 'k) engine \<Rightarrow> ('w, 'k) engine \<Rightarrow> bool" where
  "monotone_step e e' \<longleftrightarrow> en_networkSerial e \<le> en_networkSerial e' \<and> en_config e' = en_config e \<and>
     (persistence_ok e \<longrightarrow> persistence_ok e')"

lemma monotone_history: "history e' = history e \<Longrightarrow> monotone_step e e'"
  by (simp add: monotone_step_def history_def persistence_ok_def)

lemma cancel_client_history: "history (cancel_client L e) = history e"
  by (simp add: cancel_client_def)

lemma RunHealthProbes_history: "history (snd (RunHealthProbes L b e)) = history e"
  by (simp add: RunHealthProbes_def Let_def split: option.splits sum.splits)

lemma restart_history: "history (triggerClientRestart L e) = history e"
  by (simp add: triggerClientRestart_def cancel_client_history)

lemma engine_step_monotone: "engine_step L S e e' \<Longrightarrow> monotone_step e e'"
proof (induction rule: engine_step.induct)
  case (step_start cfg url e r e')
  then show ?case using engine_Start_outcome by (blast intro: monotone_history dest: start_outcome_def [THEN iffD1])
next
  case (step_stop e r e')
  then show ?case by (blast intro: monotone_history engine_Stop_history)
next
  case (step_sync u e r e')
  from handleSync_Some [OF step_sync] show ?case
    by (auto simp: monotone_step_def persistence_ok_def split: option.splits)
next
  case (step_persistence e b)
  then show ?case by (simp add: monotone_step_def SetSyncResponsePersistence_def persistence_ok_def Let_def)
next
  case (step_renew fd e r e')
  then show ?case by (intro monotone_history) (auto simp: RenewTun_def split: if_splits prod.splits)
qed (auto intro!: monotone_history simp: RunHealthProbes_history restart_history cancel_client_history stream_ended_def
    network_monitor_ended_def iface_monitor_ended_def Let_def)

lemma engine_steps_monotone: "(engine_step L S)\<^sup>*\<^sup>* e e' \<Longrightarrow> monotone_step e e'"
proof (induction rule: rtranclp_induct)
  case base
  show ?case by (simp add: monotone_step_def)
next
  case (step y z)
  have "monotone_step y z" by (rule engine_step_monotone [OF step.hyps(2)])
  then show ?case using step.IH by (auto simp: monotone_step_def intro: order_trans)
qed

section \<open>No message meets a missing component\<close>

definition shape :: "('w, 'k) engine \<Rightarrow> ('w, unit) wgiface option \<times> bool \<times> bool \<times> bool \<times> bool" where
  "shape e = (en_wgInterface e, en_dnsServer e, en_flowManager e, en_connMgr e, en_routeManager e = None)"

lemma ready_shape: "shape e' = shape e \<Longrightarrow> ready e' = ready e"
  by (simp add: shape_def ready_def no_device_def)

lemma shape_update [simp]:
  "shape (e\<lparr>en_world := w\<rparr>) = shape e" "shape (e\<lparr>en_checks := cs\<rparr>) = shape e" "shape (e\<lparr>en_STUNs := s\<rparr>) = shape e"
  "shape (e\<lparr>en_TURNs := s\<rparr>) = shape e" "shape (e\<lparr>en_stunTurn := s\<rparr>) = shape e" "shape (e\<lparr>en_dnsForwardMgr := b\<rparr>) = shape e"
  "shape (e\<lparr>en_ingressGatewayMgr := b\<rparr>) = shape e" "shape (e\<lparr>en_networkSerial := n\<rparr>) = shape e"
  "shape (e\<lparr>en_latestSyncResponse := l\<rparr>) = shape e" "shape (on_world f e) = shape e"
  by (simp_all add: shape_def on_world_def)

lemma shapeD: "shape e' = shape e \<Longrightarrow> en_flowManager e' = en_flowManager e \<and> en_dnsServer e' = en_dnsServer e \<and>
    en_wgInterface e' = en_wgInterface e \<and> (en_routeManager e' = None) = (en_routeManager e = None)"
  by (simp add: shape_def)

lemma handleFlowUpdate_total: "en_flowManager e \<Longrightarrow> \<exists>r e'. handleFlowUpdate E c e = Some (r, e') \<and> shape e' = shape e"
  by (auto simp: handleFlowUpdate_def split: option.splits sum.splits prod.splits)

lemma handleRelayUpdate_shape: "handleRelayUpdate E c e = (r, e') \<Longrightarrow> shape e' = shape e"
  by (auto simp: handleRelayUpdate_def split: option.splits prod.splits)

lemma PopulateNetbirdConfig_shape: "shape (snd (PopulateNetbirdConfig E c u e)) = shape e"
  by (simp add: PopulateNetbirdConfig_def Let_def split: option.splits prod.splits)

lemma sync_config_total:
  assumes "en_flowManager e"
  shows "\<exists>r e'. sync_config E c e = Some (r, e') \<and> shape e' = shape e"
proof (cases "updateTURNs (stun_ParseURI E) (nc_Turns c) (en_TURNs e)")
  case (Inl err)
  then show ?thesis by (simp add: sync_config_def)
next
  case t: (Inr turns)
  show ?thesis
  proof (cases "updateSTUNs (stun_ParseURI E) (nc_Stuns c) (en_STUNs e)")
    case (Inl err)
    then show ?thesis using t by (simp add: sync_config_def)
  next
    case s: (Inr stuns)
    let ?e2 = "e\<lparr>en_TURNs := turns, en_STUNs := stuns, en_stunTurn := stuns @ turns\<rparr>"
    obtain r3 e3 where 3: "handleRelayUpdate E (nc_Relay c) ?e2 = (r3, e3)" by fastforce
    have s3: "shape e3 = shape e" using handleRelayUpdate_shape [OF 3] by simp
    obtain r4 e4 where 4: "handleFlowUpdate E (nc_Flow c) e3 = Some (r4, e4)" "shape e4 = shape e3"
      using handleFlowUpdate_total [of e3] shapeD [OF s3] assms by metis
    show ?thesis
      using t s 3 4 s3 by (cases r3; cases r4) (auto simp: sync_config_def PopulateNetbirdConfig_shape)
  qed
qed

lemma updateChecksIfNew_shape: "updateChecksIfNew E cs e = (r, e') \<Longrightarrow> shape e' = shape e"
  by (auto simp: updateChecksIfNew_def Let_def split: if_splits prod.splits)

lemma updateConfig_shape: "updateConfig E c e = (r, e') \<Longrightarrow> shape e' = shape e"
  by (auto simp: updateConfig_def Let_def split: option.splits)

lemma UpdateRoutes_total:
  assumes "\<forall>nets w. distinct (map fst (FilterSelectedExitNodes E nets w))"
  shows "\<exists>r. UpdateRoutes E n sr cr dns m = Some r"
proof (cases "dm_ctxDone m \<or> dm_disableClientRoutes m")
  case True
  then show ?thesis by (auto simp: UpdateRoutes_def Let_def split: prod.splits)
next
  case False
  then show ?thesis using UpdateRoutes_ok [OF assms] by blast
qed

definition dns_parses :: "proto_dns \<Rightarrow> bool" where
  "dns_parses d = list_all (\<lambda>g. list_all (\<lambda>n. toNameServer n \<noteq> None) (pg_NameServers g)) (pd_NameServerGroups d)"

lemma map_option_list_total: "list_all (\<lambda>x. f x \<noteq> None) xs \<Longrightarrow> map_option_list f xs \<noteq> None"
  by (induction xs) auto

lemma toDNSConfig_total:
  assumes "dns_parses d"
  shows "toDNSConfig rz p d n \<noteq> None"
proof -
  have "toNSGroup g \<noteq> None" if g: "g \<in> set (pd_NameServerGroups d)" for g
  proof -
    have "list_all (\<lambda>n. toNameServer n \<noteq> None) (pg_NameServers g)" using assms g by (simp add: dns_parses_def list_all_iff)
    from map_option_list_total [OF this] show ?thesis by (simp add: toNSGroup_def)
  qed
  then have "list_all (\<lambda>g. toNSGroup g \<noteq> None) (pd_NameServerGroups d)" by (simp add: list_all_iff)
  from map_option_list_total [OF this] show ?thesis by (simp add: toDNSConfig_def)
qed

definition message_ok :: "network_map \<Rightarrow> bool" where
  "message_ok nm \<longleftrightarrow> (case nm_DNSConfig nm of None \<Rightarrow> True | Some d \<Rightarrow> dns_parses d) \<and>
     list_all (\<lambda>p. rp_AllowedIps p \<noteq> []) (nm_RemotePeers nm)"

lemma route_update_shape:
  assumes "route_update E nm port e = Some e'"
  shows "shape e' = shape e"
proof -
  obtain m where m: "en_routeManager e = Some m" using assms by (auto simp: route_update_def split: option.splits)
  define e1 where "e1 = (if en_connMgr e then on_world (UpdateRouteHAMap E (snd (map_routes E nm (SetDNSForwarderPort port m)))) e else e)"
  have s1: "shape e1 = shape e" by (simp add: e1_def)
  obtain m' where "e' = (let e2 = e1\<lparr>en_routeManager := Some m', en_world := dm_world m'\<rparr>
        in if en_acl e2 then on_world (acl_ApplyFiltering E nm (toDNSFeatureFlag nm)) e2 else e2)"
    using assms unfolding route_update_def m option.case Let_def e1_def [symmetric] map_option_eq_Some by blast
  then have "shape e' = shape (e1\<lparr>en_routeManager := Some m'\<rparr>)" by (simp add: Let_def)
  then show ?thesis using s1 m by (simp add: shape_def)
qed

lemma apply_routes_total:
  assumes maps: "\<forall>nets w. distinct (map fst (FilterSelectedExitNodes (ee_rm E) nets w))" and ok: "message_ok nm"
    and on: "en_wgInterface e \<noteq> None" "en_dnsServer e" "en_routeManager e \<noteq> None"
  shows "\<exists>e'. apply_routes E nm e = Some e' \<and> shape e' = shape e"
proof -
  let ?d = "case nm_DNSConfig nm of None \<Rightarrow> empty_dns | Some d \<Rightarrow> d"
  have "dns_parses ?d" using ok by (simp add: message_ok_def dns_parses_def empty_dns_def split: option.splits)
  then obtain cfg where cfg: "toDNSConfig (addReverseZone E) (ForwarderClientPort E) ?d
      (wa_Network (tun_WgAddress (ee_tun E) (en_world e))) = Some cfg" using toDNSConfig_total by fastforce
  let ?e1 = "on_world (\<lambda>w. snd (dns_UpdateDNSServer E (nm_Serial nm) cfg w)) e"
  obtain m where m: "en_routeManager e = Some m" using on by blast
  have "\<exists>e'. route_update E nm (dc_ForwarderPort cfg) ?e1 = Some e'"
    using UpdateRoutes_total [OF maps] m by (simp add: route_update_def Let_def)
  then obtain e' where e': "route_update E nm (dc_ForwarderPort cfg) ?e1 = Some e'" ..
  then have "shape e' = shape e" using route_update_shape by fastforce
  then show ?thesis using e' cfg on by (simp add: apply_routes_def)
qed

lemma addNewPeers_total: "list_all (\<lambda>p. rp_AllowedIps p \<noteq> []) ps \<Longrightarrow> addNewPeers E c rp ps w \<noteq> None"
proof (induction ps arbitrary: w)
  case (Cons p ps)
  have "addNewPeer E c rp p w \<noteq> None"
  proof (cases "map_result ParsePrefix (rp_AllowedIps p)")
    case (Inr ips)
    then have "ips \<noteq> []" using map_result_length [OF Inr] Cons.prems by auto
    then show ?thesis using Inr by (auto simp: addNewPeer_def neq_Nil_conv split: prod.splits sum.splits)
  qed (simp add: addNewPeer_def)
  then show ?case using Cons by (auto split: option.splits)
qed simp

lemma modified_peers_subset: "set (fst (modified_peers E ps w)) \<subseteq> set ps"
proof (induction ps arbitrary: w)
  case (Cons p ps)
  have "set (fst (modified_peers E ps w)) \<subseteq> set (p # ps)" for w using Cons.IH [of w] by auto
  moreover have "set (fst (p # fst (modified_peers E ps w), snd (modified_peers E ps w))) \<subseteq> set (p # ps)" for w
    using Cons.IH [of w] by auto
  ultimately show ?case by (simp add: split_def split: option.splits)
qed simp

lemma update_remote_peers_total:
  assumes "list_all (\<lambda>p. rp_AllowedIps p \<noteq> []) ps"
  shows "update_remote_peers E c rp ps w \<noteq> None"
proof -
  have "modifyPeers E c rp ps w1 \<noteq> None" for w1
  proof -
    obtain ms w2 where m: "modified_peers E ps w1 = (ms, w2)" by fastforce
    have "list_all (\<lambda>p. rp_AllowedIps p \<noteq> []) ms"
      using assms modified_peers_subset [of E ps w1] m by (auto simp: list_all_iff)
    from addNewPeers_total [OF this, of E c rp] show ?thesis
      by (simp add: modifyPeers_def m split: prod.splits option.splits)
  qed
  then obtain r2 w2 where "modifyPeers E c rp ps (snd (removePeers E ps w)) = Some (r2, w2)" by (metis not_Some_eq prod.exhaust)
  then show ?thesis using addNewPeers_total [OF assms, of E c rp w2]
    by (auto simp: update_remote_peers_def split_def split: option.splits)
qed

lemma before_peers_total:
  assumes maps: "\<forall>nets w. distinct (map fst (FilterSelectedExitNodes (ee_rm E) nets w))" and ok: "message_ok nm"
    and on: "en_wgInterface e \<noteq> None" "en_dnsServer e" "en_routeManager e \<noteq> None"
  shows "\<exists>rs e'. before_peers E nm e = Some (rs, e') \<and> shape e' = shape e"
proof -
  define e1 where "e1 = firewall_settings E nm (on_world (\<lambda>w. snd (UpdatedRemoteFeatureFlag E
      (case nm_PeerConfig nm of None \<Rightarrow> False | Some c \<Rightarrow> pc_LazyConnectionEnabled c) w)) e)"
  have s1: "shape e1 = shape e" by (simp add: e1_def firewall_settings_def Let_def)
  obtain e2 where 2: "apply_routes E nm e1 = Some e2" "shape e2 = shape e1"
    using apply_routes_total [OF maps ok, of e1] shapeD [OF s1] on by auto
  have f: "shape (updateDNSForwarder E b es e2) = shape e2" for b es
    by (simp add: updateDNSForwarder_def startDNSForwarder_def stopDNSForwarder_def split: prod.splits option.splits)
  have u: "shape (snd (snd (updateForwardRules E rs x))) = shape x" for rs x
    by (simp add: updateForwardRules_def Let_def split: prod.splits)
  show ?thesis
    using 2 s1 f u unfolding before_peers_def Let_def e1_def [symmetric] by (auto simp: split_def)
qed

lemma apply_peers_total:
  assumes "message_ok nm"
  shows "\<exists>r e'. apply_peers E nm e = Some (r, e') \<and> shape e' = shape e"
proof (cases "nm_RemotePeersIsEmpty nm")
  case True
  then show ?thesis by (auto simp: apply_peers_def split: prod.splits)
next
  case False
  have "list_all (\<lambda>p. rp_AllowedIps p \<noteq> []) (nm_RemotePeers nm)" using assms by (simp add: message_ok_def)
  from update_remote_peers_total [OF this, of "ee_peers E" "en_config e" "en_rpManager e" "en_world e"]
  obtain r w where "update_remote_peers (ee_peers E) (en_config e) (en_rpManager e) (nm_RemotePeers nm) (en_world e) = Some (r, w)"
    by (metis not_Some_eq prod.exhaust)
  then show ?thesis using False by (cases r) (auto simp: apply_peers_def)
qed

lemma apply_network_map_total:
  assumes "\<forall>nets w. distinct (map fst (FilterSelectedExitNodes (ee_rm E) nets w))" and ok: "message_ok nm"
    and "en_wgInterface e \<noteq> None" "en_dnsServer e" "en_routeManager e \<noteq> None"
  shows "\<exists>r e'. apply_network_map E nm e = Some (r, e') \<and> shape e' = shape e"
proof -
  obtain rs e1 where 1: "before_peers E nm e = Some (rs, e1)" "shape e1 = shape e"
    using before_peers_total [OF assms] by blast
  obtain r2 e2 where 2: "apply_peers E nm e1 = Some (r2, e2)" "shape e2 = shape e1"
    using apply_peers_total [OF ok] by blast
  show ?thesis using 1 2 by (cases r2) (auto simp: apply_network_map_def after_peers_def Let_def)
qed

lemma sync_map_total:
  assumes maps: "\<forall>nets w. distinct (map fst (FilterSelectedExitNodes (ee_rm E) nets w))"
    and ok: "case sr_NetworkMap u of None \<Rightarrow> True | Some nm \<Rightarrow> message_ok nm"
    and on: "en_wgInterface e \<noteq> None" "en_dnsServer e" "en_routeManager e \<noteq> None"
  shows "\<exists>r e'. sync_map E u e = Some (r, e') \<and> shape e' = shape e"
proof -
  obtain r1 e1 where 1: "updateChecksIfNew E (sr_Checks u) e = (r1, e1)" by fastforce
  note s1 = updateChecksIfNew_shape [OF 1]
  show ?thesis
  proof (cases "r1 = None \<and> sr_NetworkMap u \<noteq> None")
    case False
    then show ?thesis using 1 s1 by (auto simp: sync_map_def split: option.splits)
  next
    case True
    then obtain nm where nm: "sr_NetworkMap u = Some nm" by auto
    define e2 where "e2 = (if en_persistSyncResponse e1 then e1\<lparr>en_latestSyncResponse := Some u\<rparr> else e1)"
    obtain r3 e3 where 3: "(case nm_PeerConfig nm of None \<Rightarrow> (None, e2) | Some c \<Rightarrow> updateConfig E c e2) = (r3, e3)" by fastforce
    have s3: "shape e3 = shape e"
      using 3 s1 updateConfig_shape [of E _ e2 r3 e3] by (auto simp: e2_def split: option.splits)
    obtain r4 e4 where 4: "apply_network_map E nm e3 = Some (r4, e4)" "shape e4 = shape e3"
      using apply_network_map_total [OF maps, of nm e3] ok nm shapeD [OF s3] on by auto
    have "\<exists>r e'. updateNetworkMap E nm e2 = Some (r, e') \<and> shape e' = shape e"
      using 3 4 s3 by (cases r3) (auto simp: updateNetworkMap_def)
    then obtain r5 e5 where "updateNetworkMap E nm e2 = Some (r5, e5)" "shape e5 = shape e" by blast
    then show ?thesis using True 1 nm by (cases r5) (auto simp: sync_map_def Let_def e2_def [symmetric])
  qed
qed

lemma handleSync_total:
  assumes "\<forall>nets w. distinct (map fst (FilterSelectedExitNodes (ee_rm E) nets w))"
    and "case sr_NetworkMap u of None \<Rightarrow> True | Some nm \<Rightarrow> message_ok nm" and "ready e"
  shows "\<exists>r e'. handleSync E u e = Some (r, e') \<and> ready e'"
proof -
  have on: "en_wgInterface e \<noteq> None" "en_dnsServer e" "en_routeManager e \<noteq> None" "en_flowManager e"
    using assms(3) by (auto simp: ready_def no_device_def split: option.splits)
  have "\<exists>r e'. handleSync E u e = Some (r, e') \<and> shape e' = shape e"
  proof (cases "sr_NetbirdConfig u")
    case None
    then show ?thesis using sync_map_total [OF assms(1,2) on(1-3)] by (simp add: handleSync_def)
  next
    case (Some c)
    obtain r1 e1 where 1: "sync_config E c e = Some (r1, e1)" "shape e1 = shape e" using sync_config_total [OF on(4)] by blast
    have "\<exists>r e'. sync_map E u e1 = Some (r, e') \<and> shape e' = shape e1"
      using sync_map_total [OF assms(1,2), of e1] shapeD [OF 1(2)] on by simp
    then show ?thesis using 1 Some by (cases r1) (auto simp: handleSync_def)
  qed
  then show ?thesis using ready_shape assms(3) by blast
qed

section \<open>The peers after a stop\<close>

text \<open>Closing the device, the firewall and the managers does not change the peer store.\<close>

definition closing_keeps_store :: "('w, 'k, 'c, 'q, 'i) life_env \<Rightarrow> bool" where
  "closing_keeps_store L \<longleftrightarrow> (let st = store (ee_peers (le_eng L)); T = ee_tun (le_eng L) in
     (\<forall>w. st (snd (proxy_Free T w)) = st w) \<and> (\<forall>w. st (snd (tun_Close T w)) = st w) \<and> (\<forall>n w. st (snd (LinkDel T n w)) = st w) \<and>
     (\<forall>b w. st (SetWgIface L b w) = st w) \<and> (\<forall>w. st (snd (fw_Close L w)) = st w) \<and> (\<forall>w. st (snd (rosenpass_Close L w)) = st w) \<and>
     (\<forall>w. st (flow_Close L w) = st w) \<and> (\<forall>w. st (snd (state_Stop L w)) = st w) \<and> (\<forall>w. st (snd (state_Persist L w)) = st w))"

lemma iface_Close_store:
  assumes "\<forall>w. st (snd (proxy_Free T w)) = st w" "\<forall>w. st (snd (tun_Close T w)) = st w" "\<forall>n w. st (snd (LinkDel T n w)) = st w"
  shows "st (snd (iface_Close T w)) = st w"
proof -
  have d: "st (snd (iface_Destroy T x)) = st x" for x
    using assms(3) by (auto simp: iface_Destroy_def split: option.splits prod.splits) (metis snd_conv)+
  obtain r1 w1 where 1: "proxy_Free T w = (r1, w1)" by fastforce
  obtain r2 w2 where 2: "tun_Close T w1 = (r2, w2)" by fastforce
  have "st w2 = st w" using assms(1,2) 1 2 by (metis snd_conv)
  then show ?thesis using d [of w2] by (simp add: iface_Close_def 1 2 Let_def split: option.splits prod.splits) auto
qed

lemma engine_close_store:
  assumes "closing_keeps_store L"
  shows "store (ee_peers (le_eng L)) (en_world (engine_close L e)) = store (ee_peers (le_eng L)) (en_world e)"
proof -
  have "store (ee_peers (le_eng L)) (snd (iface_Close (ee_tun (le_eng L)) w)) = store (ee_peers (le_eng L)) w" for w
    using assms by (intro iface_Close_store) (simp_all add: closing_keeps_store_def Let_def)
  then show ?thesis using assms by (simp add: engine_close_def Let_def closing_keeps_store_def)
qed

lemma engine_Stop_store:
  assumes L: "store_laws (ee_peers (le_eng L)) conf" and K: "closing_keeps_store L" and r: "engine_Stop L e = (r, e')"
  shows "store (ee_peers (le_eng L)) (en_world e') = Map.empty"
proof -
  define e1 where "e1 = stop_services L e"
  obtain w where w: "removeAllPeers (ee_peers (le_eng L)) (en_world e1) = (None, w)" "store (ee_peers (le_eng L)) w = Map.empty"
    using removeAllPeers_empty [OF L, of "en_world e1"] by (metis prod.collapse)
  define e2 where "e2 = (if en_cancel e1 then cancel_ctx (e1\<lparr>en_world := w\<rparr>) else e1\<lparr>en_world := w\<rparr>)"
  define e4 where "e4 = (if en_flowManager (engine_close L e2) then on_world (flow_Close L) (engine_close L e2) else engine_close L e2)"
  have "en_world e2 = w" by (simp add: e2_def cancel_ctx_def)
  then have s4: "store (ee_peers (le_eng L)) (en_world e4) = Map.empty"
    using K engine_close_store [OF K, of e2] w(2) by (simp add: e4_def closing_keeps_store_def Let_def)
  have "(case state_Stop L (en_world e4) of
      (Some err, w1) \<Rightarrow> (Some (ErrWrap ''failed to stop state manager'' err), e4\<lparr>en_world := w1\<rparr>)
    | (None, w1) \<Rightarrow> (None, e4\<lparr>en_world := snd (state_Persist L w1)\<rparr>)) = (r, e')"
    using r unfolding engine_Stop_def Let_def e1_def [symmetric] w prod.case option.case e2_def [symmetric] e4_def [symmetric] .
  moreover obtain rs w1 where st: "state_Stop L (en_world e4) = (rs, w1)" by fastforce
  moreover have "store (ee_peers (le_eng L)) w1 = Map.empty" "store (ee_peers (le_eng L)) (snd (state_Persist L w1)) = store (ee_peers (le_eng L)) w1"
    using K s4 st unfolding closing_keeps_store_def Let_def by (metis snd_conv)+
  ultimately show ?thesis by (cases rs) auto
qed

text \<open>C7. A start that fails leaves no tunnel device behind; one that succeeds leaves a device with a configurer, a DNS server, a
  route manager, a connection manager and a flow manager.\<close>

theorem engine_Start_device:
  assumes "engine_Start L cfg url e = Some (r, e')" and "no_device e"
  shows "if r = None then ready e' else no_device e'"
  using engine_Start_outcome [OF assms(1)] assms(2) by (auto simp: start_outcome_def no_device_def)



text \<open>A message that was waiting for the lock while the engine stopped is refused when its map carries a peer configuration, and
  makes the handler panic on the missing interface when it does not.\<close>

theorem sync_after_stop:
  assumes "store_laws (ee_peers (le_eng L)) conf" and "engine_Stop L e = (r, e')"
    and u: "sr_NetbirdConfig u = None" "isChecksEqual (en_checks e') (sr_Checks u)" "sr_NetworkMap u = Some nm"
    and new: "en_networkSerial e' \<le> nm_Serial nm"
  shows "case nm_PeerConfig nm of
      None \<Rightarrow> handleSync (le_eng L) u e' = None
    | Some c \<Rightarrow> \<exists>e''. handleSync (le_eng L) u e' = Some (Some (ErrMsg ''wireguard interface is not initialized''), e'')"
proof -
  let ?e = "if en_persistSyncResponse e' then e'\<lparr>en_latestSyncResponse := Some u\<rparr> else e'"
  have i: "en_wgInterface ?e = None" using engine_Stop_spec [OF assms(1,2)] by simp
  have n: "\<not> nm_Serial nm < en_networkSerial ?e" using new by simp
  have h: "handleSync (le_eng L) u e' = (case updateNetworkMap (le_eng L) nm ?e of None \<Rightarrow> None
      | Some (Some err, e3) \<Rightarrow> Some (Some err, e3)
      | Some (None, e3) \<Rightarrow> Some (None, on_world (PublishEvent (le_eng L) ''Network map updated'') e3))"
    using u by (simp add: handleSync_def sync_map_def updateChecksIfNew_def Let_def)
  show ?thesis
  proof (cases "nm_PeerConfig nm")
    case None
    have "apply_routes (le_eng L) nm (firewall_settings (le_eng L) nm (on_world f ?e)) = None" for f
    proof -
      have "shape (firewall_settings (le_eng L) nm (on_world f ?e)) = shape ?e" by (simp add: firewall_settings_def Let_def)
      from shapeD [OF this] i show ?thesis by (simp add: apply_routes_def)
    qed
    then have "before_peers (le_eng L) nm ?e = None" unfolding before_peers_def Let_def by simp
    then have "updateNetworkMap (le_eng L) nm ?e = None" using None n by (simp add: updateNetworkMap_def apply_network_map_def)
    then show ?thesis using h None by simp
  next
    case (Some c)
    then have "updateNetworkMap (le_eng L) nm ?e = Some (Some (ErrMsg ''wireguard interface is not initialized''), ?e)"
      using i by (simp add: updateNetworkMap_def updateConfig_def)
    then show ?thesis using h Some by simp
  qed
qed

text \<open>C11. In every history of starts, stops, messages, probes and restarts of a new engine the network serial never decreases, the
  configuration never changes, and a stored synchronisation response implies that persistence is enabled.\<close>

theorem engine_histories:
  assumes "(engine_step L S)\<^sup>*\<^sup>* (NewEngine c cs w) e" and "(engine_step L S)\<^sup>*\<^sup>* e e'"
  shows "en_networkSerial e \<le> en_networkSerial e' \<and> en_config e' = c \<and>
    (en_latestSyncResponse e' = None \<or> en_persistSyncResponse e')"
proof -
  have "monotone_step (NewEngine c cs w) e" "monotone_step e e'" using assms by (blast intro: engine_steps_monotone)+
  moreover have "persistence_ok (NewEngine c cs w)" "en_config (NewEngine c cs w) = c" by (simp_all add: persistence_ok_def NewEngine_def)
  ultimately have "en_networkSerial e \<le> en_networkSerial e'" "en_config e' = c" "persistence_ok e'"
    by (auto simp: monotone_step_def)
  then show ?thesis by (simp add: persistence_ok_def)
qed

section \<open>Witnesses\<close>

definition quiet_configurer :: "'w configurer" where
  "quiet_configurer = \<lparr>cf_UpdatePeer = (\<lambda>k a n e p w. (None, w)), cf_RemoveEndpointAddress = (\<lambda>k w. (None, w)),
     cf_RemovePeer = (\<lambda>k w. (None, w)), cf_AddAllowedIP = (\<lambda>k p w. (None, w)), cf_RemoveAllowedIP = (\<lambda>k p w. (None, w)),
     cf_GetStats = (\<lambda>w. Inr Map.empty), cf_FullStats = (\<lambda>w. Inl (ErrMsg ''no stats'')), cf_LastActivities = (\<lambda>w. None)\<rparr>"

definition sample_life :: "(sample_world, sample_kernel, conn_config, port_info, unit) life_env" where
  "sample_life = \<lparr>le_eng = sample_eng\<lparr>ee_tun := quiet_tun\<lparr>tun_Create := (\<lambda>w. (Inr quiet_configurer, w))\<rparr>\<rparr>,
     GOOS = Linux, le_netstack = False, le_tunLoaded = True, le_kernel = ([], [], ''255 local''), le_rmForwarderPort = 5353,
     SetWgIface = (\<lambda>b w. w), flow_NewManager = (\<lambda>w. w), flow_Close = (\<lambda>w. w), rosenpass_NewManager = (\<lambda>w. (None, w)),
     rosenpass_Run = (\<lambda>w. (None, w)), rosenpass_Close = (\<lambda>w. (None, w)), rosenpass_Port = (\<lambda>w. 9999), state_Start = (\<lambda>w. w),
     state_Stop = (\<lambda>w. (None, w)), state_Persist = (\<lambda>w. (None, w)), mgm_GetNetworkMap = (\<lambda>i f w. (Inr (sample_map 1), w)),
     dns_NewServer = (\<lambda>c w. (None, w)), dns_Initialize = (\<lambda>w. (None, w)), dns_Stop = (\<lambda>w. w), status_DisableDNSStates = (\<lambda>w. w),
     CreateOnAndroid = (\<lambda>w. (Inl (ErrMsg ''android''), w)), SetInterfaceIP = (\<lambda>a w. w), SetRouteChangeListener = (\<lambda>w. w),
     NewFirewall = (\<lambda>w. (True, None, w)), fw_AddFiltering = (\<lambda>t w. (None, w)), fw_Close = (\<lambda>w. (None, w)),
     net_Interfaces = (\<lambda>w. Inr []), connMgr_Start = (\<lambda>w. w), connMgr_Close = (\<lambda>w. w), srWatcher_Start = (\<lambda>w. w),
     srWatcher_Close = (\<lambda>w. w), networkMonitor_Stop = (\<lambda>w. w), stopSSHServer = (\<lambda>w. (None, w)), cleanupSSHConfig = (\<lambda>w. w),
     status_ClearStates = (\<lambda>w. w), ctx_SetConnecting = (\<lambda>w. w), ctx_WrapReset = (\<lambda>w. w), signal_Receive = (\<lambda>w. w),
     signal_WaitStreamConnected = (\<lambda>w. w), mgm_Sync = (\<lambda>i f w. w), signal_IsHealthy = (\<lambda>w. True), mgm_IsHealthy = (\<lambda>w. True),
     UpdateWireGuardPeerState = (\<lambda>k s w. (None, w)), ProbeAll = (\<lambda>b s t w. []), UpdateRelayStates = (\<lambda>rs w. w),
     IsAddrRouted = (\<lambda>a ps. (False, PrefixZero)), iface_RenewTun = (\<lambda>fd w. (None, w))\<rparr>"

definition sample_new :: "(sample_world, sample_kernel) engine" where
  "sample_new = NewEngine sample_config [] sample_store"

lemma sample_life_peers [simp]: "ee_peers (le_eng sample_life) = sample_peers"
  by (simp add: sample_life_def)

lemma sample_started:
  obtains e where "engine_Start sample_life None None sample_new = Some (None, e)"
proof -
  have "map_option fst (engine_Start sample_life None None sample_new) = Some None" by code_simp
  then show thesis using that by auto
qed

lemma sample_ready:
  assumes "engine_Start sample_life None None sample_new = Some (None, e)"
  shows "ready e"
  using engine_Start_outcome [OF assms] by (simp add: start_outcome_def)

lemma sample_life_maps: "\<forall>nets w. distinct (map fst (FilterSelectedExitNodes (ee_rm (le_eng sample_life)) nets w))"
  by (simp add: sample_life_def sample_eng_def quiet_rm_def)

lemma sample_closing: "closing_keeps_store sample_life"
  by (simp add: closing_keeps_store_def sample_life_def quiet_tun_def)

theorem engine_Start_device_witness:
  "\<exists>e. engine_Start sample_life None None sample_new = Some (None, e) \<and> ready e"
proof -
  obtain e where e: "engine_Start sample_life None None sample_new = Some (None, e)" by (rule sample_started)
  have "no_device sample_new" by (simp add: sample_new_def NewEngine_def no_device_def)
  from engine_Start_device [OF e this] e show ?thesis by simp
qed



theorem sync_after_stop_witness:
  "handleSync (le_eng sample_life) \<lparr>sr_NetbirdConfig = None, sr_NetworkMap = Some (sample_map 9), sr_Checks = []\<rparr>
     (snd (engine_Stop sample_life sample_engine)) = None"
proof -
  obtain r e' where s: "engine_Stop sample_life sample_engine = (r, e')" by fastforce
  have "en_networkSerial e' = 3" using engine_Stop_history [OF s] by (simp add: history_def sample_engine_def)
  moreover have "en_checks (snd (engine_Stop sample_life sample_engine)) = []" by code_simp
  ultimately have "case nm_PeerConfig (sample_map 9) of
      None \<Rightarrow> handleSync (le_eng sample_life) \<lparr>sr_NetbirdConfig = None, sr_NetworkMap = Some (sample_map 9), sr_Checks = []\<rparr> e' = None
    | Some c \<Rightarrow> \<exists>e''. handleSync (le_eng sample_life) \<lparr>sr_NetbirdConfig = None, sr_NetworkMap = Some (sample_map 9), sr_Checks = []\<rparr> e' =
        Some (Some (ErrMsg ''wireguard interface is not initialized''), e'')"
    using s by (intro sync_after_stop [where conf = "\<lambda>c. c", OF _ s]) (simp_all add: sample_store_laws isChecksEqual_def sample_map_def)
  then show ?thesis by (simp add: s) (simp add: sample_map_def)
qed

theorem engine_histories_witness:
  "\<exists>e. (engine_step sample_life sample_sig)\<^sup>*\<^sup>* sample_new e \<and> en_config e = sample_config \<and> en_networkSerial sample_new \<le> en_networkSerial e"
proof -
  obtain e where e: "engine_Start sample_life None None sample_new = Some (None, e)" by (rule sample_started)
  then have st: "(engine_step sample_life sample_sig)\<^sup>*\<^sup>* sample_new e" by (blast intro: engine_step.step_start)
  from engine_histories [of sample_life sample_sig sample_config "[]" sample_store sample_new e, folded sample_new_def, OF rtranclp.rtrancl_refl st]
  show ?thesis using st by blast
qed

end
