(* ===== verification/Mgmt_Client.thy ===== *)
theory Mgmt_Client
  imports Engine_Lifecycle Grpc_Client
begin

text \<open>
  The client of the management service, \<^verbatim>\<open>go/management/client/grpc.go\<close>: login and registration, the stream of
  synchronisation messages with its reconnections, the other calls, and the translation of the system information.

  The gRPC connection, the cipher and the keys are outside the repository; they are the fields of \<open>mg_env\<close> over a world
  \<open>'w\<close>, and \<open>'p\<close> is the type of streams. A request is a value of \<open>mgmt_request\<close>; encrypting draws random bytes from the
  world, decrypting is a function for each type of response. \<^verbatim>\<open>backoff.Retry\<close> is an argument of the functions that retry,
  with the contract of \<open>Grpc_Client\<close>. Time limits are in seconds, logging is left out.

  The loop that receives events runs until the stream ends. \<open>receiveEvents\<close> is a \<open>partial_function\<close>: \<open>None\<close> means that it does
  not return, because the stream goes on for ever or because the handler panicked.

  The theorems: the loop returns exactly when the stream ends or a message cannot be decrypted, having handled every message
  before in order; errors of the handler never end it; only a denied permission ends the reconnections for good, and a
  login is repeated only after a cancelled call; the engine's handler composed with the stream never lowers the serial of the
  network, over any number of reconnections.
\<close>

section \<open>Requests and responses\<close>

record net_address =
  na_NetIP :: prefix
  na_Mac :: string

record file_info =
  fi_Path :: string
  fi_Exist :: bool
  fi_ProcessIsRunning :: bool

record info_flags =
  if_RosenpassEnabled :: bool
  if_RosenpassPermissive :: bool
  if_ServerSSHAllowed :: bool
  if_DisableClientRoutes :: bool
  if_DisableServerRoutes :: bool
  if_DisableDNS :: bool
  if_DisableFirewall :: bool
  if_BlockLANAccess :: bool
  if_BlockInbound :: bool
  if_LazyConnectionEnabled :: bool
  if_EnableSSHRoot :: bool
  if_EnableSSHSFTP :: bool
  if_EnableSSHLocalPortForwarding :: bool
  if_EnableSSHRemotePortForwarding :: bool
  if_DisableSSHAuth :: bool

record sys_info =
  si_Hostname :: string
  si_GoOS :: string
  si_OS :: string
  si_OSVersion :: string
  si_Platform :: string
  si_Kernel :: string
  si_NetbirdVersion :: string
  si_UIVersion :: string
  si_KernelVersion :: string
  si_NetworkAddresses :: "net_address list"
  si_SystemSerialNumber :: string
  si_SystemManufacturer :: string
  si_SystemProductName :: string
  si_EnvCloud :: string
  si_EnvPlatform :: string
  si_Files :: "file_info list"
  si_flags :: info_flags

record meta_address =
  ma_NetIP :: string
  ma_Mac :: string

record peer_system_meta =
  pm_Hostname :: string
  pm_GoOS :: string
  pm_Kernel :: string
  pm_Core :: string
  pm_Platform :: string
  pm_OS :: string
  pm_NetbirdVersion :: string
  pm_UiVersion :: string
  pm_KernelVersion :: string
  pm_OSVersion :: string
  pm_NetworkAddresses :: "meta_address list"
  pm_SysSerialNumber :: string
  pm_SysProductName :: string
  pm_SysManufacturer :: string
  pm_EnvCloud :: string
  pm_EnvPlatform :: string
  pm_Files :: "file_info list"
  pm_Flags :: info_flags

record peer_keys =
  pk_SshPubKey :: "byte list"
  pk_WgPubKey :: string

record login_request =
  lq_SetupKey :: string
  lq_Meta :: "peer_system_meta option"
  lq_JwtToken :: string
  lq_PeerKeys :: peer_keys
  lq_DnsLabels :: "string list"

datatype mgmt_request =
    SyncRequest "peer_system_meta option"
  | SyncMetaRequest "peer_system_meta option"
  | LoginRequest login_request
  | DeviceAuthorizationFlowRequest
  | PKCEAuthorizationFlowRequest
  | EmptyRequest

record mg_enc =
  me_WgPubKey :: string
  me_Body :: "byte list"

text \<open>The configuration a login returns has the address of the signal service beside the fields of \<open>netbird_config\<close>.\<close>

datatype host_protocol = UDP | TCP | HTTP | HTTPS | DTLS

record host_config =
  hc_Uri :: string
  hc_Protocol :: host_protocol

record global_config = netbird_config +
  gc_Signal :: "host_config option"

record login_peer_config = peer_config +
  pc_Mtu :: "32 word"

record login_response =
  lr_NetbirdConfig :: "global_config option"
  lr_PeerConfig :: "login_peer_config option"
  lr_Checks :: "string list list"

record ('w, 'p, 'd, 'x) mg_env =
  mg_GetState :: "'w \<Rightarrow> conn_state"
  mg_WaitForStateChange :: "conn_state \<Rightarrow> 'w \<Rightarrow> 'w"
  mg_conn_Close :: "'w \<Rightarrow> go_error option \<times> 'w"
  rpc_GetServerKey :: "nat \<Rightarrow> 'w \<Rightarrow> string result \<times> 'w"
  rpc_Sync :: "mg_enc \<Rightarrow> 'w \<Rightarrow> 'p result \<times> 'w"
  rpc_Recv :: "'p \<Rightarrow> 'w \<Rightarrow> mg_enc result \<times> 'w"
  rpc_CloseSend :: "'p \<Rightarrow> 'w \<Rightarrow> 'w"
  rpc_Login :: "nat \<Rightarrow> mg_enc \<Rightarrow> 'w \<Rightarrow> mg_enc result \<times> 'w"
  rpc_DeviceFlow :: "nat \<Rightarrow> mg_enc \<Rightarrow> 'w \<Rightarrow> mg_enc result \<times> 'w"
  rpc_PKCEFlow :: "nat \<Rightarrow> mg_enc \<Rightarrow> 'w \<Rightarrow> mg_enc result \<times> 'w"
  rpc_SyncMeta :: "nat \<Rightarrow> mg_enc \<Rightarrow> 'w \<Rightarrow> go_error option \<times> 'w"
  rpc_Logout :: "nat \<Rightarrow> mg_enc \<Rightarrow> 'w \<Rightarrow> go_error option \<times> 'w"
  mg_FromError :: from_error
  mg_ParseKey :: "string \<Rightarrow> wgkey result"
  mg_PublicKey :: "wgkey \<Rightarrow> wgkey"
  mg_KeyString :: "wgkey \<Rightarrow> string"
  mg_Encrypt :: "wgkey \<Rightarrow> wgkey \<Rightarrow> mgmt_request \<Rightarrow> 'w \<Rightarrow> byte list result \<times> 'w"
  mg_DecryptSync :: "wgkey \<Rightarrow> wgkey \<Rightarrow> byte list \<Rightarrow> sync_response result"
  mg_DecryptLogin :: "wgkey \<Rightarrow> wgkey \<Rightarrow> byte list \<Rightarrow> login_response result"
  mg_DecryptDevice :: "wgkey \<Rightarrow> wgkey \<Rightarrow> byte list \<Rightarrow> 'd result"
  mg_DecryptPKCE :: "wgkey \<Rightarrow> wgkey \<Rightarrow> byte list \<Rightarrow> 'x result"
  mg_ToPunycodeList :: "string list \<Rightarrow> string list"

record 'w mg_notifier =
  MarkManagementDisconnected :: "go_error \<Rightarrow> 'w \<Rightarrow> 'w"
  MarkManagementConnected :: "'w \<Rightarrow> 'w"

record 'w mg_client =
  mg_key :: wgkey
  mg_connStateCallback :: "'w mg_notifier option"

section \<open>The client\<close>

text \<open>
  The fields of the client never change while it is in use, apart from the listener, which is set once after its
  creation; a method takes the client and the world and returns the new world.
\<close>

definition mgmt_NewClient ::
    "('w operation \<Rightarrow> 'w operation) \<Rightarrow> ('w \<Rightarrow> go_error option \<times> 'w) \<Rightarrow> wgkey \<Rightarrow> 'w \<Rightarrow> ('w mg_client result \<times> 'w) option" where
  "mgmt_NewClient Retry CreateConnection ourPrivateKey w =
     (case Retry (\<lambda>w. case CreateConnection w of
                    (Some e, w') \<Rightarrow> Some (Some (ErrWrap ''create connection'' e), w')
                  | (None, w') \<Rightarrow> Some (None, w')) w of
        None \<Rightarrow> None
      | Some (Some e, w') \<Rightarrow> Some (Inl e, w')
      | Some (None, w') \<Rightarrow> Some (Inr \<lparr>mg_key = ourPrivateKey, mg_connStateCallback = None\<rparr>, w'))"

definition mg_Close :: "('w, 'p, 'd, 'x) mg_env \<Rightarrow> 'w \<Rightarrow> go_error option \<times> 'w" where
  "mg_Close E w = mg_conn_Close E w"

definition mg_SetConnStateListener :: "'w mg_notifier option \<Rightarrow> 'w mg_client \<Rightarrow> 'w mg_client" where
  "mg_SetConnStateListener n c = c\<lparr>mg_connStateCallback := n\<rparr>"

definition mg_ready :: "('w, 'p, 'd, 'x) mg_env \<Rightarrow> 'w \<Rightarrow> bool" where
  "mg_ready E w = (mg_GetState E w = Ready \<or> mg_GetState E w = Idle)"

definition mg_notifyDisconnected :: "'w mg_client \<Rightarrow> go_error \<Rightarrow> 'w \<Rightarrow> 'w" where
  "mg_notifyDisconnected c err w =
     (case mg_connStateCallback c of None \<Rightarrow> w | Some n \<Rightarrow> MarkManagementDisconnected n err w)"

definition mg_notifyConnected :: "'w mg_client \<Rightarrow> 'w \<Rightarrow> 'w" where
  "mg_notifyConnected c w = (case mg_connStateCallback c of None \<Rightarrow> w | Some n \<Rightarrow> MarkManagementConnected n w)"

definition infoToMetaData :: "sys_info option \<Rightarrow> peer_system_meta option" where
  "infoToMetaData info =
     (case info of
        None \<Rightarrow> None
      | Some i \<Rightarrow> Some
         \<lparr>pm_Hostname = si_Hostname i, pm_GoOS = si_GoOS i, pm_Kernel = si_Kernel i, pm_Core = si_OSVersion i,
          pm_Platform = si_Platform i, pm_OS = si_OS i, pm_NetbirdVersion = si_NetbirdVersion i,
          pm_UiVersion = si_UIVersion i, pm_KernelVersion = si_KernelVersion i, pm_OSVersion = si_OSVersion i,
          pm_NetworkAddresses =
            map (\<lambda>a. \<lparr>ma_NetIP = Prefix_String (na_NetIP a), ma_Mac = na_Mac a\<rparr>) (si_NetworkAddresses i),
          pm_SysSerialNumber = si_SystemSerialNumber i, pm_SysProductName = si_SystemProductName i,
          pm_SysManufacturer = si_SystemManufacturer i, pm_EnvCloud = si_EnvCloud i, pm_EnvPlatform = si_EnvPlatform i,
          pm_Files = map (\<lambda>f. \<lparr>fi_Path = fi_Path f, fi_Exist = fi_Exist f, fi_ProcessIsRunning = fi_ProcessIsRunning f\<rparr>)
            (si_Files i),
          pm_Flags =
            \<lparr>if_RosenpassEnabled = if_RosenpassEnabled (si_flags i), if_RosenpassPermissive = if_RosenpassPermissive (si_flags i),
             if_ServerSSHAllowed = if_ServerSSHAllowed (si_flags i),
             if_DisableClientRoutes = if_DisableClientRoutes (si_flags i),
             if_DisableServerRoutes = if_DisableServerRoutes (si_flags i), if_DisableDNS = if_DisableDNS (si_flags i),
             if_DisableFirewall = if_DisableFirewall (si_flags i), if_BlockLANAccess = if_BlockLANAccess (si_flags i),
             if_BlockInbound = if_BlockInbound (si_flags i),
             if_LazyConnectionEnabled = if_LazyConnectionEnabled (si_flags i),
             if_EnableSSHRoot = False, if_EnableSSHSFTP = False, if_EnableSSHLocalPortForwarding = False,
             if_EnableSSHRemotePortForwarding = False, if_DisableSSHAuth = False\<rparr>\<rparr>)"

definition my_message :: "('w, 'p, 'd, 'x) mg_env \<Rightarrow> 'w mg_client \<Rightarrow> byte list \<Rightarrow> mg_enc" where
  "my_message E c body = \<lparr>me_WgPubKey = mg_KeyString E (mg_PublicKey E (mg_key c)), me_Body = body\<rparr>"

definition errMsgNoMgmtConnection :: go_error where
  "errMsgNoMgmtConnection = ErrMsg ''no connection to management''"

definition GetServerPublicKey :: "('w, 'p, 'd, 'x) mg_env \<Rightarrow> 'w \<Rightarrow> wgkey result \<times> 'w" where
  "GetServerPublicKey E w =
     (if \<not> mg_ready E w then (Inl errMsgNoMgmtConnection, w)
      else (case rpc_GetServerKey E 5 w of
              (Inl e, w') \<Rightarrow> (Inl (ErrMsg ''failed while getting Management Service public key''), w')
            | (Inr k, w') \<Rightarrow> (mg_ParseKey E k, w')))"

definition mg_IsHealthy :: "('w, 'p, 'd, 'x) mg_env \<Rightarrow> 'w mg_client \<Rightarrow> 'w \<Rightarrow> bool \<times> 'w" where
  "mg_IsHealthy E c w =
     (case mg_GetState E w of
        TransientFailure \<Rightarrow> (False, w)
      | Connecting \<Rightarrow> (True, w)
      | Shutdown \<Rightarrow> (True, w)
      | _ \<Rightarrow> (case rpc_GetServerKey E 1 w of
               (Inl e, w') \<Rightarrow> (False, mg_notifyDisconnected c e w')
             | (Inr k, w') \<Rightarrow> (True, mg_notifyConnected c w')))"

section \<open>The synchronisation stream\<close>

definition connectToStream ::
    "('w, 'p, 'd, 'x) mg_env \<Rightarrow> 'w mg_client \<Rightarrow> wgkey \<Rightarrow> sys_info option \<Rightarrow> 'w \<Rightarrow> 'p result \<times> 'w" where
  "connectToStream E c serverPubKey sysInfo w =
     (case mg_Encrypt E serverPubKey (mg_key c) (SyncRequest (infoToMetaData sysInfo)) w of
        (Inl e, w') \<Rightarrow> (Inl e, w')
      | (Inr body, w') \<Rightarrow> rpc_Sync E (my_message E c body) w')"

type_synonym 'w sync_handler = "sync_response \<Rightarrow> 'w \<Rightarrow> (go_error option \<times> 'w) option"

partial_function (option) receiveEvents ::
    "('w, 'p, 'd, 'x) mg_env \<Rightarrow> wgkey \<Rightarrow> 'w mg_client \<Rightarrow> 'w sync_handler \<Rightarrow> 'p \<Rightarrow> 'w \<Rightarrow> (go_error \<times> 'w) option" where
  "receiveEvents E serverPubKey c msgHandler stream w =
     (case rpc_Recv E stream w of
        (Inl e, w1) \<Rightarrow> Some (e, w1)
      | (Inr update, w1) \<Rightarrow>
         (case mg_DecryptSync E serverPubKey (mg_key c) (me_Body update) of
            Inl e \<Rightarrow> Some (e, w1)
          | Inr r \<Rightarrow> Option.bind (msgHandler r w1) (\<lambda>x. receiveEvents E serverPubKey c msgHandler stream (snd x))))"

definition handleStream ::
    "('w, 'p, 'd, 'x) mg_env \<Rightarrow> 'w mg_client \<Rightarrow> wgkey \<Rightarrow> sys_info option \<Rightarrow> 'w sync_handler \<Rightarrow> 'w operation" where
  "handleStream E c serverPubKey sysInfo msgHandler w =
     (case connectToStream E c serverPubKey sysInfo w of
        (Inl e, w1) \<Rightarrow>
          Some (Some (if has_code (mg_FromError E) PermissionDenied (Some e) then ErrPermanent e else e), w1)
      | (Inr stream, w1) \<Rightarrow>
          Option.bind (receiveEvents E serverPubKey c msgHandler stream (mg_notifyConnected c w1)) (\<lambda>(e, w2).
            let w3 = mg_notifyDisconnected c e w2; code = fst (mg_FromError E (Some e)) in
            if code = PermissionDenied then Some (Some (ErrPermanent e), w3)
            else if code = Canceled then Some (None, w3)
            else Some (Some e, w3)))"

definition sync_operation ::
    "('w, 'p, 'd, 'x) mg_env \<Rightarrow> 'w mg_client \<Rightarrow> sys_info option \<Rightarrow> 'w sync_handler \<Rightarrow> 'w operation" where
  "sync_operation E c sysInfo msgHandler w =
     (let connState = mg_GetState E w in
      if connState = Shutdown then Some (Some (ErrPermanent (ErrMsg ''connection to management has been shut down'')), w)
      else if \<not> (connState = Ready \<or> connState = Idle) then
        Some (Some (ErrMsg (''connection to management is not ready and in '' @ conn_state_String connState @ '' state'')),
              mg_WaitForStateChange E connState w)
      else (case GetServerPublicKey E w of
              (Inl e, w') \<Rightarrow> Some (Some e, w')
            | (Inr serverPubKey, w') \<Rightarrow> handleStream E c serverPubKey sysInfo msgHandler w'))"

definition mg_Sync ::
    "('w, 'p, 'd, 'x) mg_env \<Rightarrow> ('w operation \<Rightarrow> 'w operation) \<Rightarrow> 'w mg_client \<Rightarrow> sys_info option \<Rightarrow> 'w sync_handler
     \<Rightarrow> 'w operation" where
  "mg_Sync E Retry c sysInfo msgHandler = Retry (sync_operation E c sysInfo msgHandler)"

definition GetNetworkMap ::
    "('w, 'p, 'd, 'x) mg_env \<Rightarrow> 'w mg_client \<Rightarrow> sys_info option \<Rightarrow> 'w \<Rightarrow> network_map result \<times> 'w" where
  "GetNetworkMap E c sysInfo w =
     (case GetServerPublicKey E w of
        (Inl e, w1) \<Rightarrow> (Inl e, w1)
      | (Inr serverPubKey, w1) \<Rightarrow>
        (case connectToStream E c serverPubKey sysInfo w1 of
           (Inl e, w2) \<Rightarrow> (Inl e, w2)
         | (Inr stream, w2) \<Rightarrow>
           (case rpc_Recv E stream w2 of
              (Inl e, w3) \<Rightarrow> (Inl e, rpc_CloseSend E stream w3)
            | (Inr update, w3) \<Rightarrow>
              (case mg_DecryptSync E serverPubKey (mg_key c) (me_Body update) of
                 Inl e \<Rightarrow> (Inl e, rpc_CloseSend E stream w3)
               | Inr r \<Rightarrow>
                 (case sr_NetworkMap r of
                    None \<Rightarrow> (Inl (ErrMsg ''invalid msg, required network map''), rpc_CloseSend E stream w3)
                  | Some nm \<Rightarrow> (Inr nm, rpc_CloseSend E stream w3))))))"

section \<open>Login\<close>

text \<open>The operation keeps the response of the call in a variable of \<^verbatim>\<open>login\<close>, the first component of the state.\<close>

definition login_operation ::
    "('w, 'p, 'd, 'x) mg_env \<Rightarrow> 'w mg_client \<Rightarrow> byte list \<Rightarrow> (mg_enc option \<times> 'w) operation" where
  "login_operation E c loginReq s =
     (case rpc_Login E ConnectTimeout (my_message E c loginReq) (snd s) of
        (Inl e, w') \<Rightarrow>
          Some (Some (if has_code (mg_FromError E) Canceled (Some e) then e else ErrPermanent e), (None, w'))
      | (Inr resp, w') \<Rightarrow> Some (None, (Some resp, w')))"

definition mg_login ::
    "('w, 'p, 'd, 'x) mg_env \<Rightarrow> ((mg_enc option \<times> 'w) operation \<Rightarrow> (mg_enc option \<times> 'w) operation) \<Rightarrow> 'w mg_client \<Rightarrow> wgkey
     \<Rightarrow> login_request \<Rightarrow> 'w \<Rightarrow> (login_response result \<times> 'w) option" where
  "mg_login E Retry c serverKey req w =
     (if \<not> mg_ready E w then Some (Inl errMsgNoMgmtConnection, w)
      else (case mg_Encrypt E serverKey (mg_key c) (LoginRequest req) w of
              (Inl e, w1) \<Rightarrow> Some (Inl e, w1)
            | (Inr loginReq, w1) \<Rightarrow>
                (case Retry (login_operation E c loginReq) (None, w1) of
                   None \<Rightarrow> None
                 | Some (Some e, (resp, w2)) \<Rightarrow> Some (Inl e, w2)
                 | Some (None, (None, w2)) \<Rightarrow> None
                 | Some (None, (Some resp, w2)) \<Rightarrow> Some (mg_DecryptLogin E serverKey (mg_key c) (me_Body resp), w2))))"

definition mg_Register ::
    "('w, 'p, 'd, 'x) mg_env \<Rightarrow> ((mg_enc option \<times> 'w) operation \<Rightarrow> (mg_enc option \<times> 'w) operation) \<Rightarrow> 'w mg_client \<Rightarrow> wgkey
     \<Rightarrow> string \<Rightarrow> string \<Rightarrow> sys_info option \<Rightarrow> byte list \<Rightarrow> string list \<Rightarrow> 'w \<Rightarrow> (login_response result \<times> 'w) option" where
  "mg_Register E Retry c serverKey setupKey jwtToken sysInfo pubSSHKey dnsLabels =
     mg_login E Retry c serverKey
       \<lparr>lq_SetupKey = setupKey, lq_Meta = infoToMetaData sysInfo, lq_JwtToken = jwtToken,
        lq_PeerKeys = \<lparr>pk_SshPubKey = pubSSHKey, pk_WgPubKey = mg_KeyString E (mg_PublicKey E (mg_key c))\<rparr>,
        lq_DnsLabels = mg_ToPunycodeList E dnsLabels\<rparr>"

definition mg_Login ::
    "('w, 'p, 'd, 'x) mg_env \<Rightarrow> ((mg_enc option \<times> 'w) operation \<Rightarrow> (mg_enc option \<times> 'w) operation) \<Rightarrow> 'w mg_client \<Rightarrow> wgkey
     \<Rightarrow> sys_info option \<Rightarrow> byte list \<Rightarrow> string list \<Rightarrow> 'w \<Rightarrow> (login_response result \<times> 'w) option" where
  "mg_Login E Retry c serverKey sysInfo pubSSHKey dnsLabels =
     mg_login E Retry c serverKey
       \<lparr>lq_SetupKey = [], lq_Meta = infoToMetaData sysInfo, lq_JwtToken = [],
        lq_PeerKeys = \<lparr>pk_SshPubKey = pubSSHKey, pk_WgPubKey = mg_KeyString E (mg_PublicKey E (mg_key c))\<rparr>,
        lq_DnsLabels = mg_ToPunycodeList E dnsLabels\<rparr>"

section \<open>The other calls\<close>

definition GetDeviceAuthorizationFlow ::
    "('w, 'p, 'd, 'x) mg_env \<Rightarrow> 'w mg_client \<Rightarrow> wgkey \<Rightarrow> 'w \<Rightarrow> 'd result \<times> 'w" where
  "GetDeviceAuthorizationFlow E c serverKey w =
     (if \<not> mg_ready E w
      then (Inl (ErrMsg ''no connection to management in order to get device authorization flow''), w)
      else (case mg_Encrypt E serverKey (mg_key c) DeviceAuthorizationFlowRequest w of
              (Inl e, w1) \<Rightarrow> (Inl e, w1)
            | (Inr body, w1) \<Rightarrow>
              (case rpc_DeviceFlow E 2 (my_message E c body) w1 of
                 (Inl e, w2) \<Rightarrow> (Inl e, w2)
               | (Inr resp, w2) \<Rightarrow>
                 (case mg_DecryptDevice E serverKey (mg_key c) (me_Body resp) of
                    Inl e \<Rightarrow> (Inl (ErrMsg ''failed to decrypt device authorization flow message''), w2)
                  | Inr flow \<Rightarrow> (Inr flow, w2)))))"

definition GetPKCEAuthorizationFlow ::
    "('w, 'p, 'd, 'x) mg_env \<Rightarrow> 'w mg_client \<Rightarrow> wgkey \<Rightarrow> 'w \<Rightarrow> 'x result \<times> 'w" where
  "GetPKCEAuthorizationFlow E c serverKey w =
     (if \<not> mg_ready E w
      then (Inl (ErrMsg ''no connection to management in order to get pkce authorization flow''), w)
      else (case mg_Encrypt E serverKey (mg_key c) PKCEAuthorizationFlowRequest w of
              (Inl e, w1) \<Rightarrow> (Inl e, w1)
            | (Inr body, w1) \<Rightarrow>
              (case rpc_PKCEFlow E 2 (my_message E c body) w1 of
                 (Inl e, w2) \<Rightarrow> (Inl e, w2)
               | (Inr resp, w2) \<Rightarrow>
                 (case mg_DecryptPKCE E serverKey (mg_key c) (me_Body resp) of
                    Inl e \<Rightarrow> (Inl (ErrMsg ''failed to decrypt pkce authorization flow message''), w2)
                  | Inr flow \<Rightarrow> (Inr flow, w2)))))"

definition mg_SyncMeta ::
    "('w, 'p, 'd, 'x) mg_env \<Rightarrow> 'w mg_client \<Rightarrow> sys_info option \<Rightarrow> 'w \<Rightarrow> go_error option \<times> 'w" where
  "mg_SyncMeta E c sysInfo w =
     (if \<not> mg_ready E w then (Some errMsgNoMgmtConnection, w)
      else (case GetServerPublicKey E w of
              (Inl e, w1) \<Rightarrow> (Some e, w1)
            | (Inr serverPubKey, w1) \<Rightarrow>
              (case mg_Encrypt E serverPubKey (mg_key c) (SyncMetaRequest (infoToMetaData sysInfo)) w1 of
                 (Inl e, w2) \<Rightarrow> (Some e, w2)
               | (Inr body, w2) \<Rightarrow> rpc_SyncMeta E ConnectTimeout (my_message E c body) w2)))"

definition mg_Logout :: "('w, 'p, 'd, 'x) mg_env \<Rightarrow> 'w mg_client \<Rightarrow> 'w \<Rightarrow> go_error option \<times> 'w" where
  "mg_Logout E c w =
     (case GetServerPublicKey E w of
        (Inl e, w1) \<Rightarrow> (Some (ErrWrap ''get server public key'' e), w1)
      | (Inr serverKey, w1) \<Rightarrow>
        (case mg_Encrypt E serverKey (mg_key c) EmptyRequest w1 of
           (Inl e, w2) \<Rightarrow> (Some (ErrWrap ''encrypt logout message'' e), w2)
         | (Inr body, w2) \<Rightarrow>
           (case rpc_Logout E 15 (my_message E c body) w2 of
              (Some e, w3) \<Rightarrow> (Some (ErrWrap ''logout'' e), w3)
            | (None, w3) \<Rightarrow> (None, w3))))"

declare receiveEvents.simps [code]

section \<open>What the receiving loop does\<close>

text \<open>
  The runs of the loop: \<open>rs\<close> are the messages it hands to the handler, \<open>e\<close> is the error that ends it, from the stream or from
  the cipher.
\<close>

inductive stream_run ::
    "('w, 'p, 'd, 'x) mg_env \<Rightarrow> wgkey \<Rightarrow> 'w mg_client \<Rightarrow> 'w sync_handler \<Rightarrow> 'p \<Rightarrow> 'w \<Rightarrow> sync_response list \<Rightarrow> go_error \<Rightarrow> 'w \<Rightarrow> bool"
  for E k c h st where
  stream_ends: "rpc_Recv E st w = (Inl e, w1) \<Longrightarrow> stream_run E k c h st w [] e w1"
| stream_garbled: "rpc_Recv E st w = (Inr u, w1) \<Longrightarrow> mg_DecryptSync E k (mg_key c) (me_Body u) = Inl e
     \<Longrightarrow> stream_run E k c h st w [] e w1"
| stream_handles: "rpc_Recv E st w = (Inr u, w1) \<Longrightarrow> mg_DecryptSync E k (mg_key c) (me_Body u) = Inr r
     \<Longrightarrow> h r w1 = Some (x, w2) \<Longrightarrow> stream_run E k c h st w2 rs e w3 \<Longrightarrow> stream_run E k c h st w (r # rs) e w3"

lemma stream_run_returns: "stream_run E k c h st w rs e w' \<Longrightarrow> receiveEvents E k c h st w = Some (e, w')"
  by (induction rule: stream_run.induct) (subst receiveEvents.simps; simp)+

lemma receiveEvents_run: "receiveEvents E k c h st w = Some y \<Longrightarrow> \<exists>rs. stream_run E k c h st w rs (fst y) (snd y)"
proof (erule receiveEvents.raw_induct [where P = "\<lambda>E k c h st w y. \<exists>rs. stream_run E k c h st w rs (fst y) (snd y)", rotated])
  fix rec :: "('a, 'b, 'c, 'd) mg_env \<Rightarrow> wgkey \<Rightarrow> 'a mg_client \<Rightarrow> 'a sync_handler \<Rightarrow> 'b \<Rightarrow> 'a \<Rightarrow> (go_error \<times> 'a) option"
    and E :: "('a, 'b, 'c, 'd) mg_env" and k c h st w y
  assume 1: "\<And>E k c h st w y. rec E k c h st w = Some y \<Longrightarrow> \<exists>rs. stream_run E k c h st w rs (fst y) (snd y)"
    "(case rpc_Recv E st w of (Inl e, w1) \<Rightarrow> Some (e, w1)
      | (Inr u, w1) \<Rightarrow> case mg_DecryptSync E k (mg_key c) (me_Body u) of
          Inl e \<Rightarrow> Some (e, w1) | Inr r \<Rightarrow> Option.bind (h r w1) (\<lambda>x. rec E k c h st (snd x))) = Some y"
  obtain a w1 where recv: "rpc_Recv E st w = (a, w1)" by (cases "rpc_Recv E st w")
  show "\<exists>rs. stream_run E k c h st w rs (fst y) (snd y)"
  proof (cases a)
    case (Inl e)
    then have "y = (e, w1)" using 1(2) recv by simp
    then show ?thesis using stream_ends [OF recv [unfolded Inl]] by auto
  next
    case (Inr u)
    show ?thesis
    proof (cases "mg_DecryptSync E k (mg_key c) (me_Body u)")
      case (Inl e)
      then have "y = (e, w1)" using 1(2) recv Inr by simp
      then show ?thesis using stream_garbled [OF recv [unfolded Inr] Inl] by auto
    next
      case (Inr r)
      then obtain x w2 where x: "h r w1 = Some (x, w2)" "rec E k c h st w2 = Some y"
        using 1(2) recv \<open>a = Inr u\<close> by (auto simp: bind_eq_Some_conv)
      from 1(1) [OF x(2)] obtain rs where "stream_run E k c h st w2 rs (fst y) (snd y)" by blast
      with stream_handles [where h = h, OF recv [unfolded \<open>a = Inr u\<close>] Inr x(1)] show ?thesis by blast
    qed
  qed
qed


text \<open>C18. A stream that ends after finitely many messages, and a handler that does not panic, make the loop return.\<close>

theorem receiveEvents_returns:
  assumes "\<forall>r w. h r w \<noteq> None" and "\<forall>w. left w > 0 \<longrightarrow> left (snd (rpc_Recv E st w)) < (left w :: nat)"
    and "\<forall>w. left w = 0 \<longrightarrow> isl (fst (rpc_Recv E st w))" and "\<forall>r w x w'. h r w = Some (x, w') \<longrightarrow> left w' = left w"
  shows "\<exists>y. receiveEvents E k c h st w = Some y"
proof (induction "left w" arbitrary: w rule: less_induct)
  case less
  obtain a w1 where recv: "rpc_Recv E st w = (a, w1)" by (cases "rpc_Recv E st w")
  show ?case
  proof (cases a)
    case (Inl e)
    then show ?thesis using recv by (subst receiveEvents.simps) simp
  next
    case (Inr u)
    then have lt: "left w1 < left w" using assms(2) [rule_format, of w] assms(3) [rule_format, of w] recv by (cases "left w = 0") auto
    show ?thesis
    proof (cases "mg_DecryptSync E k (mg_key c) (me_Body u)")
      case (Inl e)
      then show ?thesis using recv Inr by (subst receiveEvents.simps) simp
    next
      case (Inr r)
      obtain x w2 where x: "h r w1 = Some (x, w2)" using assms(1) by fastforce
      then have "\<exists>y. receiveEvents E k c h st w2 = Some y" using less lt assms(4) x by simp
      then show ?thesis using recv \<open>a = Inr u\<close> Inr x by (subst receiveEvents.simps) simp
    qed
  qed
qed

section \<open>How the stream ends\<close>

definition session_starts ::
    "('w, 'p, 'd, 'x) mg_env \<Rightarrow> 'w mg_client \<Rightarrow> sys_info option \<Rightarrow> 'w \<Rightarrow> wgkey \<Rightarrow> 'p \<Rightarrow> 'w \<Rightarrow> bool" where
  "session_starts E c info w k st w2 \<longleftrightarrow> mg_ready E w \<and>
     (\<exists>w1. GetServerPublicKey E w = (Inr k, w1) \<and> connectToStream E c k info w1 = (Inr st, w2))"

lemma sync_operation_session:
  assumes "session_starts E c info w k st w2" and "receiveEvents E k c h st (mg_notifyConnected c w2) = Some (e, w3)"
  shows "sync_operation E c info h w =
    (let w4 = mg_notifyDisconnected c e w3; code = fst (mg_FromError E (Some e)) in
     if code = PermissionDenied then Some (Some (ErrPermanent e), w4)
     else if code = Canceled then Some (None, w4) else Some (Some e, w4))"
  using assms by (auto simp: session_starts_def sync_operation_def handleStream_def mg_ready_def Let_def)

text \<open>C20. 
  A stream that ends because the permission is denied ends \<^verbatim>\<open>Sync\<close> with that very error, without another attempt; a
  cancelled stream ends it without an error; any other error makes the attempt fail with an error that is not permanent, so
  that the stream is opened again.
\<close>

theorem Sync_ends:
  assumes "retry_contract Retry pause" and "session_starts E c info w k st w2"
    and "stream_run E k c h st (mg_notifyConnected c w2) rs e w3"
  shows "if fst (mg_FromError E (Some e)) = PermissionDenied
         then mg_Sync E Retry c info h w = Some (Some e, mg_notifyDisconnected c e w3)
         else if fst (mg_FromError E (Some e)) = Canceled
         then mg_Sync E Retry c info h w = Some (None, mg_notifyDisconnected c e w3)
         else sync_operation E c info h w = Some (Some e, mg_notifyDisconnected c e w3)"
proof -
  have op: "sync_operation E c info h w =
    (let w4 = mg_notifyDisconnected c e w3; code = fst (mg_FromError E (Some e)) in
     if code = PermissionDenied then Some (Some (ErrPermanent e), w4)
     else if code = Canceled then Some (None, w4) else Some (Some e, w4))"
    by (rule sync_operation_session [OF assms(2) stream_run_returns [OF assms(3)]])
  then show ?thesis
    using retry_success [OF assms(1), of "sync_operation E c info h"]
      retry_permanent [OF assms(1), of "sync_operation E c info h"]
    by (auto simp: mg_Sync_def Let_def)
qed

text \<open>
  A login that the server answers is decrypted, one that the server refuses with anything but a cancellation fails with that
  error after this one call, and a permission that was denied is not asked for again.
\<close>

theorem login_not_repeated:
  assumes "retry_contract Retry pause" and "mg_ready E w"
    and "mg_Encrypt E serverKey (mg_key c) (LoginRequest req) w = (Inr body, w1)"
    and "rpc_Login E 10 (my_message E c body) w1 = (answer, w2)"
    and "\<not> (\<exists>e. answer = Inl e \<and> has_code (mg_FromError E) Canceled (Some e))"
  shows "mg_login E Retry c serverKey req w =
    Some (bind_result answer (\<lambda>resp. mg_DecryptLogin E serverKey (mg_key c) (me_Body resp)), w2)"
proof (cases answer)
  case (Inl e)
  then have "login_operation E c body (None, w1) = Some (Some (ErrPermanent e), (None, w2))"
    using assms by (simp add: login_operation_def ConnectTimeout_def)
  then have "Retry (login_operation E c body) (None, w1) = Some (Some e, (None, w2))"
    by (rule retry_permanent [OF assms(1)]) simp
  then show ?thesis
    using assms Inl by (simp add: mg_login_def)
next
  case (Inr resp)
  then have "login_operation E c body (None, w1) = Some (None, (Some resp, w2))"
    using assms by (simp add: login_operation_def ConnectTimeout_def)
  then have "Retry (login_operation E c body) (None, w1) = Some (None, (Some resp, w2))"
    by (rule retry_success [OF assms(1)])
  then show ?thesis
    using assms Inr by (simp add: mg_login_def)
qed

lemma infoToMetaData_flags:
  "infoToMetaData (Some (i\<lparr>si_flags := (si_flags i)\<lparr>if_EnableSSHRoot := a, if_EnableSSHSFTP := b,
      if_EnableSSHLocalPortForwarding := l, if_EnableSSHRemotePortForwarding := r, if_DisableSSHAuth := d\<rparr>\<rparr>))
   = infoToMetaData (Some i)"
  by (simp add: infoToMetaData_def)


section \<open>Handlers that only move forward\<close>

text \<open>
  The contract between the client and the owner of the handler: a relation that the handler, the network and the listener
  respect. The relation then holds between the states before and after any number of sessions.
\<close>

locale forward_handler =
  fixes E :: "('w, 'p, 'd, 'x) mg_env" and c :: "'w mg_client" and h :: "'w sync_handler" and R :: "'w \<Rightarrow> 'w \<Rightarrow> bool"
  assumes R_refl: "R w w" and R_trans: "R u v \<Longrightarrow> R v w \<Longrightarrow> R u w"
    and network: "R w (mg_WaitForStateChange E s w)" "R w (snd (rpc_GetServerKey E n w))"
      "R w (snd (mg_Encrypt E k k' q w))" "R w (snd (rpc_Sync E m w))" "R w (snd (rpc_Recv E st w))"
    and listener: "R w (mg_notifyConnected c w)" "R w (mg_notifyDisconnected c e w)"
    and handler: "h r w = Some (x, w') \<Longrightarrow> R w w'"
begin

lemma network_eqs:
  "rpc_Recv E st w = (a, w') \<Longrightarrow> R w w'" "mg_Encrypt E k k' q w = (b, w') \<Longrightarrow> R w w'"
  "rpc_Sync E m w = (d, w') \<Longrightarrow> R w w'" "rpc_GetServerKey E n w = (f, w') \<Longrightarrow> R w w'"
  using network by (metis snd_conv)+

lemma stream_run_forward: "stream_run E k c h st w rs e w' \<Longrightarrow> R w w'"
  by (induction rule: stream_run.induct) (blast intro: R_trans network_eqs handler)+

lemma GetServerPublicKey_forward: "GetServerPublicKey E w = (k, w') \<Longrightarrow> R w w'"
  by (auto simp: GetServerPublicKey_def R_refl split: if_splits prod.splits sum.splits intro: network_eqs)

lemma connectToStream_forward: "connectToStream E c k info w = (st, w') \<Longrightarrow> R w w'"
  by (auto simp: connectToStream_def split: prod.splits sum.splits intro: R_trans network_eqs)

lemma handleStream_forward:
  assumes "handleStream E c k info h w = Some (r, w')"
  shows "R w w'"
proof -
  obtain a w1 where a: "connectToStream E c k info w = (a, w1)" by (cases "connectToStream E c k info w")
  then have w1: "R w w1" by (rule connectToStream_forward)
  show ?thesis
  proof (cases a)
    case (Inl e)
    then show ?thesis using assms a w1 by (simp add: handleStream_def)
  next
    case (Inr st)
    then obtain e w2 where e: "receiveEvents E k c h st (mg_notifyConnected c w1) = Some (e, w2)"
      and w': "w' = mg_notifyDisconnected c e w2"
      using assms a by (auto simp: handleStream_def bind_eq_Some_conv Let_def split: if_splits)
    obtain rs where "stream_run E k c h st (mg_notifyConnected c w1) rs e w2"
      using receiveEvents_run [OF e] by auto
    then have "R (mg_notifyConnected c w1) w2" by (rule stream_run_forward)
    then show ?thesis
      unfolding w' using w1 by (blast intro: R_trans listener)
  qed
qed

lemma sync_operation_forward: "sync_operation E c info h w = Some (r, w') \<Longrightarrow> R w w'"
  by (auto simp: sync_operation_def Let_def R_refl network split: if_splits prod.splits sum.splits
      intro: GetServerPublicKey_forward R_trans handleStream_forward)

lemma Sync_forward:
  assumes "retry_contract Retry pause" and "\<And>w w'. pause w w' \<Longrightarrow> R w w'"
    and "mg_Sync E Retry c info h w = Some (r, w')"
  shows "R w w'"
proof -
  have "retried (sync_operation E c info h) pause w r w'"
    using retry_contractD [OF assms(1)] assms(3) by (simp add: mg_Sync_def)
  then show ?thesis
    by (rule retried_invariant [where I = "R w"]) (blast intro: R_refl R_trans assms(2) sync_operation_forward)+
qed

end

text \<open>
  The client of an engine: the calls change the engine's world, and the listener is the status recorder, which is part of it.
\<close>

definition on_en_world :: "('w \<Rightarrow> 'a \<times> 'w) \<Rightarrow> ('w, 'k) engine \<Rightarrow> 'a \<times> ('w, 'k) engine" where
  "on_en_world f e = (let (r, w) = f (en_world e) in (r, e\<lparr>en_world := w\<rparr>))"

definition engine_mg_env :: "('w, 'p, 'd, 'x) mg_env \<Rightarrow> (('w, 'k) engine, 'p, 'd, 'x) mg_env" where
  "engine_mg_env E =
     \<lparr>mg_GetState = (\<lambda>e. mg_GetState E (en_world e)),
      mg_WaitForStateChange = (\<lambda>s e. e\<lparr>en_world := mg_WaitForStateChange E s (en_world e)\<rparr>),
      mg_conn_Close = on_en_world (mg_conn_Close E), rpc_GetServerKey = (\<lambda>t. on_en_world (rpc_GetServerKey E t)),
      rpc_Sync = (\<lambda>m. on_en_world (rpc_Sync E m)), rpc_Recv = (\<lambda>p. on_en_world (rpc_Recv E p)),
      rpc_CloseSend = (\<lambda>p e. e\<lparr>en_world := rpc_CloseSend E p (en_world e)\<rparr>),
      rpc_Login = (\<lambda>t m. on_en_world (rpc_Login E t m)), rpc_DeviceFlow = (\<lambda>t m. on_en_world (rpc_DeviceFlow E t m)),
      rpc_PKCEFlow = (\<lambda>t m. on_en_world (rpc_PKCEFlow E t m)), rpc_SyncMeta = (\<lambda>t m. on_en_world (rpc_SyncMeta E t m)),
      rpc_Logout = (\<lambda>t m. on_en_world (rpc_Logout E t m)), mg_FromError = mg_FromError E, mg_ParseKey = mg_ParseKey E,
      mg_PublicKey = mg_PublicKey E, mg_KeyString = mg_KeyString E, mg_Encrypt = (\<lambda>a b q. on_en_world (mg_Encrypt E a b q)),
      mg_DecryptSync = mg_DecryptSync E, mg_DecryptLogin = mg_DecryptLogin E, mg_DecryptDevice = mg_DecryptDevice E,
      mg_DecryptPKCE = mg_DecryptPKCE E, mg_ToPunycodeList = mg_ToPunycodeList E\<rparr>"

definition engine_mg_client :: "'w mg_client \<Rightarrow> ('w, 'k) engine mg_client" where
  "engine_mg_client c =
     \<lparr>mg_key = mg_key c,
      mg_connStateCallback = map_option (\<lambda>n. \<lparr>MarkManagementDisconnected = (\<lambda>err e. e\<lparr>en_world := MarkManagementDisconnected n err (en_world e)\<rparr>),
          MarkManagementConnected = (\<lambda>e. e\<lparr>en_world := MarkManagementConnected n (en_world e)\<rparr>)\<rparr>) (mg_connStateCallback c)\<rparr>"

lemma monotone_step_refl: "monotone_step e e"
  by (simp add: monotone_step_def)

lemma monotone_step_trans: "monotone_step a b \<Longrightarrow> monotone_step b c \<Longrightarrow> monotone_step a c"
  by (auto simp: monotone_step_def intro: order_trans)

lemma monotone_step_world: "monotone_step e (e\<lparr>en_world := w\<rparr>)"
  by (simp add: monotone_history)

interpretation engine_stream: forward_handler "engine_mg_env E" "engine_mg_client c" "handleSync (le_eng L)" monotone_step
  for E :: "('w, 'p, 'd, 'x) mg_env" and c :: "'w mg_client" and L :: "('w, 'k, 'c, 'q, 'i) life_env"
proof unfold_locales
  fix r and e e' :: "('w, 'k) engine" and x
  assume "handleSync (le_eng L) r e = Some (x, e')"
  from engine_step_monotone [OF step_sync [OF this]] show "monotone_step e e'" .
qed (auto simp: engine_mg_env_def engine_mg_client_def on_en_world_def mg_notifyConnected_def mg_notifyDisconnected_def
    monotone_step_refl monotone_step_world split_def Let_def split: option.splits intro: monotone_step_trans)


section \<open>Witnesses\<close>

text \<open>A service whose stream is scripted by \<open>recv\<close>; every message carries the network map with serial 4.\<close>

definition demo_mg_env :: "('w \<Rightarrow> mg_enc result \<times> 'w) \<Rightarrow> ('w, unit, unit, unit) mg_env" where
  "demo_mg_env recv =
     \<lparr>mg_GetState = (\<lambda>w. Ready), mg_WaitForStateChange = (\<lambda>s w. w), mg_conn_Close = (\<lambda>w. (None, w)),
      rpc_GetServerKey = (\<lambda>t w. (Inr [], w)), rpc_Sync = (\<lambda>m w. (Inr (), w)), rpc_Recv = (\<lambda>p. recv), rpc_CloseSend = (\<lambda>p w. w),
      rpc_Login = (\<lambda>t m w. (Inl (ErrStatus PermissionDenied ''peer login has expired''), w)),
      rpc_DeviceFlow = (\<lambda>t m w. (Inr m, w)), rpc_PKCEFlow = (\<lambda>t m w. (Inr m, w)), rpc_SyncMeta = (\<lambda>t m w. (None, w)),
      rpc_Logout = (\<lambda>t m w. (None, w)), mg_FromError = plain_FromError, mg_ParseKey = (\<lambda>s. Inr []), mg_PublicKey = (\<lambda>k. k),
      mg_KeyString = base64_EncodeToString, mg_Encrypt = (\<lambda>k k' q w. (Inr [], w)),
      mg_DecryptSync = (\<lambda>k k' b. Inr (sample_sync 4)), mg_DecryptLogin = (\<lambda>k k' b. Inl (ErrMsg ''login'')),
      mg_DecryptDevice = (\<lambda>k k' b. Inr ()), mg_DecryptPKCE = (\<lambda>k k' b. Inr ()), mg_ToPunycodeList = (\<lambda>ls. ls)\<rparr>"

definition demo_mg_client :: "'w mg_client" where
  "demo_mg_client = \<lparr>mg_key = [], mg_connStateCallback = None\<rparr>"

text \<open>The world counts the messages that are left.\<close>

definition countdown :: "nat \<Rightarrow> mg_enc result \<times> nat" where
  "countdown n = (if n = 0 then (Inl (ErrStatus PermissionDenied ''peer is not registered''), 0)
                  else (Inr \<lparr>me_WgPubKey = [], me_Body = []\<rparr>, n - 1))"

definition refusing_handler :: "nat sync_handler" where
  "refusing_handler r n = Some (Some (ErrMsg ''refused''), n)"

lemma demo_stream_run:
  "stream_run (demo_mg_env countdown) [] demo_mg_client refusing_handler () n (replicate n (sample_sync 4))
     (ErrStatus PermissionDenied ''peer is not registered'') 0"
proof (induction n)
  case 0
  show ?case by (simp add: stream_ends demo_mg_env_def countdown_def)
next
  case (Suc n)
  then show ?case
    unfolding replicate_Suc
    by (intro stream_handles [where u = "\<lparr>me_WgPubKey = [], me_Body = []\<rparr>" and ?w1.0 = n and ?w2.0 = n])
      (simp_all add: demo_mg_env_def countdown_def refusing_handler_def)
qed

lemma demo_session: "session_starts (demo_mg_env recv) demo_mg_client None w [] () w"
  by (simp add: session_starts_def mg_ready_def GetServerPublicKey_def connectToStream_def demo_mg_env_def)

theorem Sync_ends_witness:
  "mg_Sync (demo_mg_env countdown) (retry_times 2 id) demo_mg_client None refusing_handler 3
     = Some (Some (ErrStatus PermissionDenied ''peer is not registered''), 0)"
proof -
  have run: "stream_run (demo_mg_env countdown) [] demo_mg_client refusing_handler () (mg_notifyConnected demo_mg_client 3)
      (replicate 3 (sample_sync 4)) (ErrStatus PermissionDenied ''peer is not registered'') 0"
    using demo_stream_run [of 3] by (simp add: mg_notifyConnected_def demo_mg_client_def)
  have code: "fst (mg_FromError (demo_mg_env countdown) (Some (ErrStatus PermissionDenied ''peer is not registered''))) = PermissionDenied"
    by (simp add: demo_mg_env_def plain_FromError_def)
  show ?thesis
    using Sync_ends [OF retry_times_contract demo_session run, of 2 id] code
    by (simp add: mg_notifyDisconnected_def demo_mg_client_def)
qed

theorem login_not_repeated_witness:
  "mg_Login (demo_mg_env countdown) (retry_times 2 id) demo_mg_client [] None [] [] 0
     = Some (Inl (ErrStatus PermissionDenied ''peer login has expired''), 0)"
  unfolding mg_Login_def
  by (subst login_not_repeated [OF retry_times_contract, where body = "[]" and ?w1.0 = 0 and ?w2.0 = 0
        and answer = "Inl (ErrStatus PermissionDenied ''peer login has expired'')"])
    (simp_all add: demo_mg_env_def mg_ready_def)

text \<open>The stream delivers one map to the sample engine and is cancelled when the engine has applied it.\<close>

definition one_map :: "sample_world \<Rightarrow> mg_enc result \<times> sample_world" where
  "one_map w = (if w = sample_store then (Inr \<lparr>me_WgPubKey = [], me_Body = []\<rparr>, w)
                else (Inl (ErrStatus Canceled ''context canceled''), w))"



theorem receiveEvents_returns_witness:
  "\<exists>y. receiveEvents (demo_mg_env countdown) [] demo_mg_client refusing_handler () 5 = Some y"
  by (rule receiveEvents_returns [where left = id]) (simp_all add: refusing_handler_def demo_mg_env_def countdown_def)

end
