(* ===== verification/Client_Doubles.thy ===== *)
theory Client_Doubles
  imports Signal_Client Mgmt_Client
begin

text \<open>
  The test doubles of the two service clients (\<^verbatim>\<open>go/management/client/mock.go\<close>, \<^verbatim>\<open>go/signal/client/mock.go\<close>), the retry policy both
  real clients use (\<^verbatim>\<open>defaultBackoff\<close>) and the login flags (\<^verbatim>\<open>go/management/client/common/types.go\<close>).

  A function field of a double that is nil is \<open>None\<close>; a result that is a pointer and an error is a pair of options, because a double
  may return nil for both. \<^verbatim>\<open>GetPKCEAuthorizationFlow\<close> of the management double calls itself, so it is a \<open>partial_function\<close>
  and \<open>None\<close> when it does not return.

  The theorems: the doubles without functions report success and change nothing, \<^verbatim>\<open>GetPKCEAuthorizationFlow\<close> never returns when it has a
  function, the listeners of the signal double are dropped, and the retry intervals grow to ten seconds in five steps.
\<close>

section \<open>The double of the management client\<close>

type_synonym 'a ptr_result = "'a option \<times> go_error option"

record ('w, 'i, 'm, 'l, 'd, 'p) mg_mock =
  mk_CloseFunc :: "('w \<Rightarrow> go_error option \<times> 'w) option"
  mk_SyncFunc :: "('i \<Rightarrow> ('m \<Rightarrow> 'w \<Rightarrow> go_error option \<times> 'w) \<Rightarrow> 'w \<Rightarrow> go_error option \<times> 'w) option"
  mk_GetServerPublicKeyFunc :: "('w \<Rightarrow> wgkey ptr_result \<times> 'w) option"
  mk_RegisterFunc :: "(wgkey \<Rightarrow> string \<Rightarrow> string \<Rightarrow> 'i \<Rightarrow> byte list \<Rightarrow> string list \<Rightarrow> 'w \<Rightarrow> 'l ptr_result \<times> 'w) option"
  mk_LoginFunc :: "(wgkey \<Rightarrow> 'i \<Rightarrow> byte list \<Rightarrow> string list \<Rightarrow> 'w \<Rightarrow> 'l ptr_result \<times> 'w) option"
  mk_GetDeviceAuthorizationFlowFunc :: "(wgkey \<Rightarrow> 'w \<Rightarrow> 'd ptr_result \<times> 'w) option"
  mk_GetPKCEAuthorizationFlowFunc :: "(wgkey \<Rightarrow> 'w \<Rightarrow> 'p ptr_result \<times> 'w) option"
  mk_SyncMetaFunc :: "('i \<Rightarrow> 'w \<Rightarrow> go_error option \<times> 'w) option"
  mk_LogoutFunc :: "('w \<Rightarrow> go_error option \<times> 'w) option"

definition mock_IsHealthy :: "('w, 'i, 'm, 'l, 'd, 'p) mg_mock \<Rightarrow> bool" where
  "mock_IsHealthy m = True"

definition mock_Close :: "('w, 'i, 'm, 'l, 'd, 'p) mg_mock \<Rightarrow> 'w \<Rightarrow> go_error option \<times> 'w" where
  "mock_Close m w = (case mk_CloseFunc m of None \<Rightarrow> (None, w) | Some f \<Rightarrow> f w)"

definition mock_Sync ::
    "('w, 'i, 'm, 'l, 'd, 'p) mg_mock \<Rightarrow> 'i \<Rightarrow> ('m \<Rightarrow> 'w \<Rightarrow> go_error option \<times> 'w) \<Rightarrow> 'w \<Rightarrow> go_error option \<times> 'w" where
  "mock_Sync m sysInfo msgHandler w = (case mk_SyncFunc m of None \<Rightarrow> (None, w) | Some f \<Rightarrow> f sysInfo msgHandler w)"

definition mock_GetServerPublicKey :: "('w, 'i, 'm, 'l, 'd, 'p) mg_mock \<Rightarrow> 'w \<Rightarrow> wgkey ptr_result \<times> 'w" where
  "mock_GetServerPublicKey m w = (case mk_GetServerPublicKeyFunc m of None \<Rightarrow> ((None, None), w) | Some f \<Rightarrow> f w)"

definition mock_Register ::
    "('w, 'i, 'm, 'l, 'd, 'p) mg_mock \<Rightarrow> wgkey \<Rightarrow> string \<Rightarrow> string \<Rightarrow> 'i \<Rightarrow> byte list \<Rightarrow> string list \<Rightarrow> 'w \<Rightarrow> 'l ptr_result \<times> 'w" where
  "mock_Register m serverKey setupKey jwtToken info sshKey dnsLabels w =
     (case mk_RegisterFunc m of None \<Rightarrow> ((None, None), w) | Some f \<Rightarrow> f serverKey setupKey jwtToken info sshKey dnsLabels w)"

definition mock_Login ::
    "('w, 'i, 'm, 'l, 'd, 'p) mg_mock \<Rightarrow> wgkey \<Rightarrow> 'i \<Rightarrow> byte list \<Rightarrow> string list \<Rightarrow> 'w \<Rightarrow> 'l ptr_result \<times> 'w" where
  "mock_Login m serverKey info sshKey dnsLabels w =
     (case mk_LoginFunc m of None \<Rightarrow> ((None, None), w) | Some f \<Rightarrow> f serverKey info sshKey dnsLabels w)"

definition mock_GetDeviceAuthorizationFlow :: "('w, 'i, 'm, 'l, 'd, 'p) mg_mock \<Rightarrow> wgkey \<Rightarrow> 'w \<Rightarrow> 'd ptr_result \<times> 'w" where
  "mock_GetDeviceAuthorizationFlow m serverKey w =
     (case mk_GetDeviceAuthorizationFlowFunc m of None \<Rightarrow> ((None, None), w) | Some f \<Rightarrow> f serverKey w)"

partial_function (option) mock_GetPKCEAuthorizationFlow ::
    "('w, 'i, 'm, 'l, 'd, 'p) mg_mock \<Rightarrow> wgkey \<Rightarrow> 'w \<Rightarrow> ('p ptr_result \<times> 'w) option" where
  "mock_GetPKCEAuthorizationFlow m serverKey w =
     (case mk_GetPKCEAuthorizationFlowFunc m of
        None \<Rightarrow> Some ((None, None), w)
      | Some f \<Rightarrow> mock_GetPKCEAuthorizationFlow m serverKey w)"

definition mock_GetNetworkMap :: "('w, 'i, 'm, 'l, 'd, 'p) mg_mock \<Rightarrow> 'i \<Rightarrow> 'w \<Rightarrow> network_map ptr_result \<times> 'w" where
  "mock_GetNetworkMap m sysInfo w = ((None, None), w)"

definition mock_SyncMeta :: "('w, 'i, 'm, 'l, 'd, 'p) mg_mock \<Rightarrow> 'i \<Rightarrow> 'w \<Rightarrow> go_error option \<times> 'w" where
  "mock_SyncMeta m sysInfo w = (case mk_SyncMetaFunc m of None \<Rightarrow> (None, w) | Some f \<Rightarrow> f sysInfo w)"

definition mock_Logout :: "('w, 'i, 'm, 'l, 'd, 'p) mg_mock \<Rightarrow> 'w \<Rightarrow> go_error option \<times> 'w" where
  "mock_Logout m w = (case mk_LogoutFunc m of None \<Rightarrow> (None, w) | Some f \<Rightarrow> f w)"

section \<open>The double of the signal client\<close>

text \<open>The status of the double is a text, empty when it has no function.\<close>

record 'w sg_mock =
  mg_CloseFunc :: "('w \<Rightarrow> go_error option \<times> 'w) option"
  mg_GetStatusFunc :: "('w \<Rightarrow> string) option"
  mg_StreamConnectedFunc :: "('w \<Rightarrow> bool) option"
  mg_ReadyFunc :: "('w \<Rightarrow> bool) option"
  mg_WaitStreamConnectedFunc :: "('w \<Rightarrow> 'w) option"
  mg_ReceiveFunc :: "('w sig_handler \<Rightarrow> 'w \<Rightarrow> go_error option \<times> 'w) option"
  mg_SendToStreamFunc :: "(enc_message \<Rightarrow> 'w \<Rightarrow> go_error option \<times> 'w) option"
  mg_SendFunc :: "(sig_message \<Rightarrow> 'w \<Rightarrow> go_error option \<times> 'w) option"
  mg_SetOnReconnectedListenerFunc :: "(('w \<Rightarrow> 'w) \<Rightarrow> 'w \<Rightarrow> 'w) option"

definition sigmock_SetOnReconnectedListener :: "'w sg_mock \<Rightarrow> ('w \<Rightarrow> 'w) \<Rightarrow> 'w \<Rightarrow> 'w" where
  "sigmock_SetOnReconnectedListener m f w = w"

definition sigmock_IsHealthy :: "'w sg_mock \<Rightarrow> bool" where
  "sigmock_IsHealthy m = True"

definition sigmock_Close :: "'w sg_mock \<Rightarrow> 'w \<Rightarrow> go_error option \<times> 'w" where
  "sigmock_Close m w = (case mg_CloseFunc m of None \<Rightarrow> (None, w) | Some f \<Rightarrow> f w)"

definition sigmock_GetStatus :: "'w sg_mock \<Rightarrow> 'w \<Rightarrow> string" where
  "sigmock_GetStatus m w = (case mg_GetStatusFunc m of None \<Rightarrow> [] | Some f \<Rightarrow> f w)"

definition sigmock_StreamConnected :: "'w sg_mock \<Rightarrow> 'w \<Rightarrow> bool" where
  "sigmock_StreamConnected m w = (case mg_StreamConnectedFunc m of None \<Rightarrow> False | Some f \<Rightarrow> f w)"

definition sigmock_Ready :: "'w sg_mock \<Rightarrow> 'w \<Rightarrow> bool" where
  "sigmock_Ready m w = (case mg_ReadyFunc m of None \<Rightarrow> False | Some f \<Rightarrow> f w)"

definition sigmock_WaitStreamConnected :: "'w sg_mock \<Rightarrow> 'w \<Rightarrow> 'w" where
  "sigmock_WaitStreamConnected m w = (case mg_WaitStreamConnectedFunc m of None \<Rightarrow> w | Some f \<Rightarrow> f w)"

definition sigmock_Receive :: "'w sg_mock \<Rightarrow> 'w sig_handler \<Rightarrow> 'w \<Rightarrow> go_error option \<times> 'w" where
  "sigmock_Receive m msgHandler w = (case mg_ReceiveFunc m of None \<Rightarrow> (None, w) | Some f \<Rightarrow> f msgHandler w)"

definition sigmock_SendToStream :: "'w sg_mock \<Rightarrow> enc_message \<Rightarrow> 'w \<Rightarrow> go_error option \<times> 'w" where
  "sigmock_SendToStream m msg w = (case mg_SendToStreamFunc m of None \<Rightarrow> (None, w) | Some f \<Rightarrow> f msg w)"

definition sigmock_Send :: "'w sg_mock \<Rightarrow> sig_message \<Rightarrow> 'w \<Rightarrow> go_error option \<times> 'w" where
  "sigmock_Send m msg w = (case mg_SendFunc m of None \<Rightarrow> (None, w) | Some f \<Rightarrow> f msg w)"

section \<open>The retry policy\<close>

text \<open>
  The fields of the exponential policy of both clients; durations are in milliseconds, the two factors in tenths. The
  intervals between attempts are what the package documents of them: each is the one before times the multiplier, at most
  the maximum, and an attempt waits a random time up to twice its interval, since the randomization factor is one.
\<close>

record backoff_policy =
  bo_InitialInterval :: nat
  bo_RandomizationFactor :: nat
  bo_Multiplier :: nat
  bo_MaxInterval :: nat
  bo_MaxElapsedTime :: nat

definition signal_defaultBackoff :: backoff_policy where
  "signal_defaultBackoff = \<lparr>bo_InitialInterval = 800, bo_RandomizationFactor = 10, bo_Multiplier = 17, bo_MaxInterval = 10 * 1000,
     bo_MaxElapsedTime = 3 * 30 * 24 * (60 * 60 * 1000)\<rparr>"

definition mgmt_defaultBackoff :: backoff_policy where
  "mgmt_defaultBackoff = \<lparr>bo_InitialInterval = 800, bo_RandomizationFactor = 10, bo_Multiplier = 17, bo_MaxInterval = 10 * 1000,
     bo_MaxElapsedTime = 3 * 30 * 24 * (60 * 60 * 1000)\<rparr>"

fun backoff_interval :: "backoff_policy \<Rightarrow> nat \<Rightarrow> nat" where
  "backoff_interval p 0 = bo_InitialInterval p"
| "backoff_interval p (Suc n) = min (bo_MaxInterval p) (backoff_interval p n * bo_Multiplier p div 10)"

lemma defaultBackoff_same: "mgmt_defaultBackoff = signal_defaultBackoff"
  by (simp add: mgmt_defaultBackoff_def signal_defaultBackoff_def)

lemma backoff_interval_small: "map (backoff_interval signal_defaultBackoff) [0..<6] = [800, 1360, 2312, 3930, 6681, 10000]"
  by code_simp

lemma backoff_interval_top: "backoff_interval signal_defaultBackoff (5 + n) = 10000"
proof (induction n)
  case 0
  show ?case by code_simp
next
  case (Suc n)
  have "backoff_interval signal_defaultBackoff (Suc (5 + n)) = 10000"
    unfolding backoff_interval.simps Suc by (simp add: signal_defaultBackoff_def)
  then show ?case by simp
qed

section \<open>Login flags\<close>

datatype login_flag = LoginFlagPrompt | LoginFlagMaxAge0 | OtherLoginFlag "8 word"

definition IsPromptLogin :: "login_flag \<Rightarrow> bool" where
  "IsPromptLogin l = (l = LoginFlagPrompt)"

definition IsMaxAge0Login :: "login_flag \<Rightarrow> bool" where
  "IsMaxAge0Login l = (l = LoginFlagMaxAge0)"

lemma login_flag_exclusive: "\<not> (IsPromptLogin l \<and> IsMaxAge0Login l)"
  by (simp add: IsPromptLogin_def IsMaxAge0Login_def)

section \<open>Properties\<close>

text \<open>The management double with a function for the authorization flow never returns from \<^verbatim>\<open>GetPKCEAuthorizationFlow\<close>: it calls itself
  instead of the function. Without one it returns nil and no error.\<close>

theorem mock_GetPKCEAuthorizationFlow_returns_iff:
  "mock_GetPKCEAuthorizationFlow m k w =
     (case mk_GetPKCEAuthorizationFlowFunc m of None \<Rightarrow> Some ((None, None), w) | Some f \<Rightarrow> None)"
proof (cases "mk_GetPKCEAuthorizationFlowFunc m")
  case None
  then show ?thesis by (simp add: mock_GetPKCEAuthorizationFlow.simps)
next
  case (Some f)
  have "mk_GetPKCEAuthorizationFlowFunc m = None" if "mock_GetPKCEAuthorizationFlow m k w = Some r" for r
  proof (rule mock_GetPKCEAuthorizationFlow.raw_induct [of "\<lambda>m k w r. mk_GetPKCEAuthorizationFlowFunc m = None", OF _ that])
    fix call m serverKey w r
    assume "\<And>m serverKey w r. call m serverKey w = Some r \<Longrightarrow> mk_GetPKCEAuthorizationFlowFunc m = None"
      and "(case mk_GetPKCEAuthorizationFlowFunc m of None \<Rightarrow> Some ((None, None), w) | Some f \<Rightarrow> call m serverKey w) = Some r"
    then show "mk_GetPKCEAuthorizationFlowFunc m = None"
      by (cases "mk_GetPKCEAuthorizationFlowFunc m") auto
  qed
  then show ?thesis using Some by (cases "mock_GetPKCEAuthorizationFlow m k w") auto
qed

lemma empty_doubles_succeed:
  "mk_SyncFunc m = None \<Longrightarrow> mock_Sync m info h w = (None, w)" "mk_SyncMetaFunc m = None \<Longrightarrow> mock_SyncMeta m info w = (None, w)"
  "mk_LoginFunc m = None \<Longrightarrow> mock_Login m k info ssh labels w = ((None, None), w)"
  "mg_SendFunc s = None \<Longrightarrow> sigmock_Send s msg w' = (None, w')" "mg_ReceiveFunc s = None \<Longrightarrow> sigmock_Receive s h' w' = (None, w')"
  by (simp_all add: mock_Sync_def mock_SyncMeta_def mock_Login_def sigmock_Send_def sigmock_Receive_def)

text \<open>The signal double drops the function that should be told of a new listener.\<close>

lemma sigmock_listener_dropped:
  "sigmock_SetOnReconnectedListener (m\<lparr>mg_SetOnReconnectedListenerFunc := Some g\<rparr>) f w = w"
  by (simp add: sigmock_SetOnReconnectedListener_def)

end
