(* ===== verification/Cmd_Options.thy ===== *)
theory Cmd_Options
  imports Wg_Iface
begin

text \<open>
  The options of the command line, \<^verbatim>\<open>go/cmd/up.go\<close> and \<^verbatim>\<open>go/cmd/status.go\<close>: their validation, and the three requests that are
  built from them, for the configuration of the daemon, for its login, and for the configuration file in foreground mode.

  The variables of the package that the flags are bound to are the record \<open>up_vars\<close>; \<open>uv_changed\<close> says which flags were given
  on the command line (\<^verbatim>\<open>cmd.Flag(f).Changed\<close>). A slice that may be nil is an option. The names of the flags, the list of
  validated DNS labels (type \<open>'d list\<close>) and the conversion of a duration are outside the repository. The operating system
  and the interfaces of the host are arguments.

  The theorems: the accepted forms of an external address; what the filters of the status command accept and switch on; the
  three requests agree on every option and depend on a variable only if its flag was given; two of them refuse an MTU out of
  range, the third one does not.
\<close>

section \<open>Addresses with a port\<close>

text \<open>\<^verbatim>\<open>netip.ParseAddrPort\<close>.\<close>

definition errParseAddrPort :: "string \<Rightarrow> go_error" where "errParseAddrPort m = ErrMsg m"

definition splitAddrPort :: "string \<Rightarrow> (string \<times> string \<times> bool) result" where
  "splitAddrPort s =
     (case cut_last (CHR '':'') s of
        None \<Rightarrow> Inl (errParseAddrPort ''not an ip:port'')
      | Some (ip, port) \<Rightarrow>
          if ip = [] then Inl (errParseAddrPort ''no IP'')
          else if port = [] then Inl (errParseAddrPort ''no port'')
          else if hd ip = CHR ''['' then
            (if length ip < 2 \<or> last ip \<noteq> CHR '']'' then Inl (errParseAddrPort ''missing ]'')
             else Inr (butlast (tl ip), port, True))
          else Inr (ip, port, False))"

definition netip_ParseAddrPort :: "string \<Rightarrow> (addr \<times> 16 word) result" where
  "netip_ParseAddrPort s =
     bind_result (splitAddrPort s) (\<lambda>(ip, port, v6).
       case ParseUDec port of
         Inl e \<Rightarrow> Inl (errParseAddrPort ''invalid port'')
       | Inr n \<Rightarrow>
           if n \<ge> 2 ^ 16 then Inl (errParseAddrPort ''invalid port'')
           else bind_result (ParseAddr ip) (\<lambda>a.
             if v6 \<and> Addr_Is4 a then Inl (errParseAddrPort ''square brackets can only be used with IPv6 addresses'')
             else if \<not> v6 \<and> Addr_Is6 a then Inl (errParseAddrPort ''IPv6 addresses must be surrounded by square brackets'')
             else Inr (a, word_of_nat n)))"

definition isValidAddrPort :: "string \<Rightarrow> bool" where
  "isValidAddrPort input =
     (if input = [] then True else case netip_ParseAddrPort input of Inl err \<Rightarrow> False | Inr _ \<Rightarrow> True)"

section \<open>Validation\<close>

datatype input_type = invalidInputType | ipInputType | interfaceInputType

definition isValidIP :: "string \<Rightarrow> bool" where "isValidIP ip = (net_ParseIP ip \<noteq> None)"

text \<open>The first argument is the answer of \<^verbatim>\<open>net.Interfaces\<close>: the names of the interfaces of the host.\<close>

definition isValidInterface :: "string list result \<Rightarrow> string \<Rightarrow> bool result" where
  "isValidInterface ifaces name = (case ifaces of Inl err \<Rightarrow> Inl err | Inr ns \<Rightarrow> Inr (list_ex (\<lambda>n. n = name) ns))"

definition validateElement :: "string list result \<Rightarrow> string \<Rightarrow> input_type \<times> go_error option" where
  "validateElement ifaces element =
     (if isValidIP element then (ipInputType, None)
      else case isValidInterface ifaces element of
        Inl err \<Rightarrow> (invalidInputType, Some (ErrMsg ''unable to validate the network interface name''))
      | Inr True \<Rightarrow> (interfaceInputType, None)
      | Inr False \<Rightarrow> (interfaceInputType, Some (ErrMsg ''invalid IP or network interface name not found'')))"

fun validate_subElements :: "string list result \<Rightarrow> input_type \<Rightarrow> string list \<Rightarrow> go_error option" where
  "validate_subElements ifaces lst [] = None"
| "validate_subElements ifaces lst (singleElement # rest) =
     (case validateElement ifaces singleElement of
        (inputType, Some err) \<Rightarrow> Some (ErrMsg ''it should be an IP string or a network name'')
      | (inputType, None) \<Rightarrow>
          if lst = interfaceInputType \<and> inputType = interfaceInputType
          then Some (ErrMsg ''it should not contain two interface names'')
          else validate_subElements ifaces inputType rest)"

fun validateNATExternalIPs :: "string list result \<Rightarrow> string list \<Rightarrow> go_error option" where
  "validateNATExternalIPs ifaces [] = None"
| "validateNATExternalIPs ifaces (element # rest) =
     (if element = [] then Some (ErrMsg ''empty string is not a valid input'')
      else let subElements = strings_Split (CHR ''/'') element in
        if length subElements > 2 then Some (ErrMsg ''it should be formatted as String or String/String'')
        else if length subElements = 1 \<and> \<not> isValidIP (subElements ! 0)
        then Some (ErrMsg ''it should be formatted as IP or IP/IP, or IP/Interface Name'')
        else case validate_subElements ifaces invalidInputType subElements of
          Some err \<Rightarrow> Some err
        | None \<Rightarrow> validateNATExternalIPs ifaces rest)"

definition parseInterfaceName :: "string \<Rightarrow> string \<Rightarrow> go_error option" where
  "parseInterfaceName goos name =
     (if goos \<noteq> ''darwin'' then None
      else if strings_HasPrefix name ''utun'' then None
      else Some (ErrMsg (''invalid interface name '' @ name)))"

text \<open>\<open>logPath\<close> is \<^verbatim>\<open>util.FindFirstLogPath(logFiles)\<close>.\<close>

definition parseCustomDNSAddress :: "string \<Rightarrow> string \<Rightarrow> bool \<Rightarrow> string option result" where
  "parseCustomDNSAddress logPath customDNSAddress modified =
     (if modified then
        (if \<not> isValidAddrPort customDNSAddress then Inl (ErrMsg (customDNSAddress @ '' is invalid''))
         else if customDNSAddress = [] \<and> logPath \<noteq> [] then Inr (Some ''empty'')
         else Inr (Some customDNSAddress))
      else Inr None)"

definition validateDnsLabels :: "(string list \<Rightarrow> 'd list result) \<Rightarrow> string list \<Rightarrow> 'd list result" where
  "validateDnsLabels ValidateDomains labels =
     (if length labels = 0 then Inr []
      else case ValidateDomains labels of
        Inl err \<Rightarrow> Inl (ErrMsg ''failed to validate dns labels'')
      | Inr domains \<Rightarrow> Inr domains)"

section \<open>Variables and flags\<close>

datatype up_flag = enableRosenpassFlag | rosenpassPermissiveFlag | serverSSHAllowedFlag | enableSSHRootFlag
  | enableSSHSFTPFlag | enableSSHLocalPortForwardFlag | enableSSHRemotePortForwardFlag | disableSSHAuthFlag
  | sshJWTCacheTTLFlag | interfaceNameFlag | wireguardPortFlag | mtuFlag | networkMonitorFlag | preSharedKeyFlag
  | disableAutoConnectFlag | dnsRouteIntervalFlag | disableClientRoutesFlag | disableServerRoutesFlag | disableDNSFlag
  | disableFirewallFlag | blockLANAccessFlag | blockInboundFlag | enableLazyConnectionFlag | dnsResolverAddress
  | configFlag

record 'd up_vars =
  uv_changed :: "up_flag \<Rightarrow> bool"
  uv_managementURL :: string
  uv_adminURL :: string
  uv_hostName :: string
  uv_profileName :: string
  uv_configPath :: string
  uv_foregroundMode :: bool
  uv_natExternalIPs :: "string list option"
  uv_customDNSAddress :: string
  uv_extraIFaceBlackList :: "string list"
  uv_dnsLabels :: "string list option"
  uv_dnsLabelsValidated :: "'d list"
  uv_rosenpassEnabled :: bool
  uv_rosenpassPermissive :: bool
  uv_serverSSHAllowed :: bool
  uv_enableSSHRoot :: bool
  uv_enableSSHSFTP :: bool
  uv_enableSSHLocalPortForward :: bool
  uv_enableSSHRemotePortForward :: bool
  uv_disableSSHAuth :: bool
  uv_sshJWTCacheTTL :: "64 word"
  uv_interfaceName :: string
  uv_wireguardPort :: "16 word"
  uv_mtu :: "16 word"
  uv_networkMonitor :: bool
  uv_preSharedKey :: string
  uv_autoConnectDisabled :: bool
  uv_dnsRouteInterval :: int
  uv_disableClientRoutes :: bool
  uv_disableServerRoutes :: bool
  uv_disableDNS :: bool
  uv_disableFirewall :: bool
  uv_blockLANAccess :: bool
  uv_blockInbound :: bool
  uv_lazyConnEnabled :: bool

text \<open>\<^verbatim>\<open>if cmd.Flag(f).Changed { field = &v }\<close>: the pointer stays nil when the flag was not given.\<close>

definition when_changed :: "'d up_vars \<Rightarrow> up_flag \<Rightarrow> 'a \<Rightarrow> 'a option" where
  "when_changed v f x = (if uv_changed v f then Some x else None)"

definition is_empty_slice :: "string list option \<Rightarrow> bool" where
  "is_empty_slice xs = (xs \<noteq> None \<and> length (the xs) = 0)"

section \<open>Requests\<close>

text \<open>
  The optional fields that \<^verbatim>\<open>SetConfigRequest\<close>, \<^verbatim>\<open>LoginRequest\<close> and \<^verbatim>\<open>ConfigInput\<close> have in common with the same type; the three messages
  extend this record with the fields that differ. All three functions fill these fields by the same statements, which are
  written down once.
\<close>

record up_options =
  op_RosenpassEnabled :: "bool option"
  op_RosenpassPermissive :: "bool option"
  op_ServerSSHAllowed :: "bool option"
  op_EnableSSHRoot :: "bool option"
  op_EnableSSHSFTP :: "bool option"
  op_EnableSSHLocalPortForwarding :: "bool option"
  op_EnableSSHRemotePortForwarding :: "bool option"
  op_DisableSSHAuth :: "bool option"
  op_InterfaceName :: "string option"
  op_NetworkMonitor :: "bool option"
  op_PreSharedKey :: "string option"
  op_DisableAutoConnect :: "bool option"
  op_DisableClientRoutes :: "bool option"
  op_DisableServerRoutes :: "bool option"
  op_DisableDns :: "bool option"
  op_DisableFirewall :: "bool option"
  op_BlockLanAccess :: "bool option"
  op_BlockInbound :: "bool option"
  op_LazyConnectionEnabled :: "bool option"

record 't SetConfigRequest = up_options +
  sr_ProfileName :: string
  sr_Username :: string
  sr_ManagementUrl :: string
  sr_AdminURL :: string
  sr_NatExternalIPs :: "string list option"
  sr_CustomDNSAddress :: "string option"
  sr_ExtraIFaceBlacklist :: "string list"
  sr_DnsLabels :: "string list"
  sr_CleanDNSLabels :: bool
  sr_CleanNATExternalIPs :: bool
  sr_SshJWTCacheTTL :: "32 word option"
  sr_WireguardPort :: "64 word option"
  sr_Mtu :: "64 word option"
  sr_DnsRouteInterval :: "'t option"

record 'd ConfigInput = up_options +
  ci_ManagementURL :: string
  ci_ConfigPath :: string
  ci_NATExternalIPs :: "string list option"
  ci_CustomDNSAddress :: "string option"
  ci_ExtraIFaceBlackList :: "string list"
  ci_DNSLabels :: "'d list"
  ci_SSHJWTCacheTTL :: "64 word option"
  ci_WireguardPort :: "64 word option"
  ci_MTU :: "16 word option"
  ci_DNSRouteInterval :: "int option"

record 't LoginRequest = up_options +
  lq_SetupKey :: string
  lq_ManagementUrl :: string
  lq_NatExternalIPs :: "string list option"
  lq_CleanNATExternalIPs :: bool
  lq_CustomDNSAddress :: "string option"
  lq_IsUnixDesktopClient :: bool
  lq_Hostname :: string
  lq_ExtraIFaceBlacklist :: "string list"
  lq_DnsLabels :: "string list option"
  lq_CleanDNSLabels :: bool
  lq_SshJWTCacheTTL :: "32 word option"
  lq_WireguardPort :: "64 word option"
  lq_Mtu :: "64 word option"
  lq_DnsRouteInterval :: "'t option"
  lq_ProfileName :: "string option"
  lq_Username :: "string option"
  lq_Hint :: "string option"

definition given_options :: "'d up_vars \<Rightarrow> up_options" where
  "given_options v =
     \<lparr>op_RosenpassEnabled = when_changed v enableRosenpassFlag (uv_rosenpassEnabled v),
      op_RosenpassPermissive = when_changed v rosenpassPermissiveFlag (uv_rosenpassPermissive v),
      op_ServerSSHAllowed = when_changed v serverSSHAllowedFlag (uv_serverSSHAllowed v),
      op_EnableSSHRoot = when_changed v enableSSHRootFlag (uv_enableSSHRoot v),
      op_EnableSSHSFTP = when_changed v enableSSHSFTPFlag (uv_enableSSHSFTP v),
      op_EnableSSHLocalPortForwarding = when_changed v enableSSHLocalPortForwardFlag (uv_enableSSHLocalPortForward v),
      op_EnableSSHRemotePortForwarding = when_changed v enableSSHRemotePortForwardFlag (uv_enableSSHRemotePortForward v),
      op_DisableSSHAuth = when_changed v disableSSHAuthFlag (uv_disableSSHAuth v),
      op_InterfaceName = when_changed v interfaceNameFlag (uv_interfaceName v),
      op_NetworkMonitor = when_changed v networkMonitorFlag (uv_networkMonitor v),
      op_PreSharedKey = when_changed v preSharedKeyFlag (uv_preSharedKey v),
      op_DisableAutoConnect = when_changed v disableAutoConnectFlag (uv_autoConnectDisabled v),
      op_DisableClientRoutes = when_changed v disableClientRoutesFlag (uv_disableClientRoutes v),
      op_DisableServerRoutes = when_changed v disableServerRoutesFlag (uv_disableServerRoutes v),
      op_DisableDns = when_changed v disableDNSFlag (uv_disableDNS v),
      op_DisableFirewall = when_changed v disableFirewallFlag (uv_disableFirewall v),
      op_BlockLanAccess = when_changed v blockLANAccessFlag (uv_blockLANAccess v),
      op_BlockInbound = when_changed v blockInboundFlag (uv_blockInbound v),
      op_LazyConnectionEnabled = when_changed v enableLazyConnectionFlag (uv_lazyConnEnabled v)\<rparr>"

definition bad_interface_name :: "string \<Rightarrow> 'd up_vars \<Rightarrow> go_error option" where
  "bad_interface_name goos v = (if uv_changed v interfaceNameFlag then parseInterfaceName goos (uv_interfaceName v) else None)"

definition bad_MTU :: "'d up_vars \<Rightarrow> go_error option" where
  "bad_MTU v = (if uv_changed v mtuFlag then ValidateMTU (uv_mtu v) else None)"

text \<open>A nil request is \<open>None\<close>. \<open>punycode\<close> is \<^verbatim>\<open>ToPunycodeList\<close>, \<open>duration\<close> is \<^verbatim>\<open>durationpb.New\<close>.\<close>

definition setupSetConfigReq ::
    "string \<Rightarrow> ('d list \<Rightarrow> string list) \<Rightarrow> (int \<Rightarrow> 't) \<Rightarrow> 'd up_vars \<Rightarrow> string option \<Rightarrow> string \<Rightarrow> string \<Rightarrow> 't SetConfigRequest option" where
  "setupSetConfigReq goos punycode duration v customDNSAddressConverted profileName username =
     (case bad_interface_name goos v of
        Some err \<Rightarrow> None
      | None \<Rightarrow>
        Some (up_options.extend (given_options v) (SetConfigRequest.fields
          profileName username (uv_managementURL v) (uv_adminURL v) (uv_natExternalIPs v) customDNSAddressConverted
          (uv_extraIFaceBlackList v) (punycode (uv_dnsLabelsValidated v)) (is_empty_slice (uv_dnsLabels v))
          (is_empty_slice (uv_natExternalIPs v))
          (when_changed v sshJWTCacheTTLFlag (ucast (uv_sshJWTCacheTTL v)))
          (when_changed v wireguardPortFlag (ucast (uv_wireguardPort v)))
          (when_changed v mtuFlag (ucast (uv_mtu v)))
          (when_changed v dnsRouteIntervalFlag (duration (uv_dnsRouteInterval v))))))"

text \<open>The two notices about autoconnect that the function prints are left out.\<close>

definition setupConfig :: "string \<Rightarrow> 'd up_vars \<Rightarrow> string option \<Rightarrow> string \<Rightarrow> 'd ConfigInput result" where
  "setupConfig goos v customDNSAddressConverted configFilePath =
     (case bad_interface_name goos v of
        Some err \<Rightarrow> Inl err
      | None \<Rightarrow>
        (case bad_MTU v of
           Some err \<Rightarrow> Inl err
         | None \<Rightarrow>
           Inr (up_options.extend (given_options v) (ConfigInput.fields
             (uv_managementURL v) configFilePath (uv_natExternalIPs v) customDNSAddressConverted (uv_extraIFaceBlackList v)
             (uv_dnsLabelsValidated v)
             (when_changed v sshJWTCacheTTLFlag (uv_sshJWTCacheTTL v))
             (when_changed v wireguardPortFlag (ucast (uv_wireguardPort v)))
             (when_changed v mtuFlag (uv_mtu v))
             (when_changed v dnsRouteIntervalFlag (uv_dnsRouteInterval v))))))"

definition setupLoginRequest ::
    "string \<Rightarrow> (int \<Rightarrow> 't) \<Rightarrow> bool \<Rightarrow> string \<Rightarrow> string option \<Rightarrow> 'd up_vars \<Rightarrow> 't LoginRequest result" where
  "setupLoginRequest goos duration unixDesktop providedSetupKey customDNSAddressConverted v =
     (case bad_interface_name goos v of
        Some err \<Rightarrow> Inl err
      | None \<Rightarrow>
        (case bad_MTU v of
           Some err \<Rightarrow> Inl err
         | None \<Rightarrow>
           Inr (up_options.extend (given_options v) (LoginRequest.fields
             providedSetupKey (uv_managementURL v) (uv_natExternalIPs v) (is_empty_slice (uv_natExternalIPs v))
             customDNSAddressConverted unixDesktop (uv_hostName v) (uv_extraIFaceBlackList v) (uv_dnsLabels v)
             (is_empty_slice (uv_dnsLabels v))
             (when_changed v sshJWTCacheTTLFlag (ucast (uv_sshJWTCacheTTL v)))
             (when_changed v wireguardPortFlag (ucast (uv_wireguardPort v)))
             (when_changed v mtuFlag (ucast (uv_mtu v)))
             (when_changed v dnsRouteIntervalFlag (duration (uv_dnsRouteInterval v)))
             None None None))))"

section \<open>Filters of the status command\<close>

record status_vars =
  sv_detailFlag :: bool
  sv_ipv4Flag :: bool
  sv_jsonFlag :: bool
  sv_yamlFlag :: bool
  sv_ipsFilter :: "string list"
  sv_prefixNamesFilter :: "string list"
  sv_statusFilter :: string
  sv_ipsFilterMap :: "string set"
  sv_prefixNamesFilterMap :: "string set"
  sv_connectionTypeFilter :: string

definition enableDetailFlagWhenFilterFlag :: "status_vars \<Rightarrow> status_vars" where
  "enableDetailFlagWhenFilterFlag v =
     (if \<not> sv_detailFlag v \<and> \<not> sv_jsonFlag v \<and> \<not> sv_yamlFlag v then v\<lparr>sv_detailFlag := True\<rparr> else v)"

fun parse_ipsFilter :: "string list \<Rightarrow> status_vars \<Rightarrow> go_error option \<times> status_vars" where
  "parse_ipsFilter [] v = (None, v)"
| "parse_ipsFilter (addr # rest) v =
     (case ParseAddr addr of
        Inl err \<Rightarrow> (Some (ErrMsg ''got an invalid IP address in the filter''), v)
      | Inr _ \<Rightarrow>
          parse_ipsFilter rest (enableDetailFlagWhenFilterFlag (v\<lparr>sv_ipsFilterMap := insert addr (sv_ipsFilterMap v)\<rparr>)))"

definition parse_prefixNamesFilter :: "status_vars \<Rightarrow> status_vars" where
  "parse_prefixNamesFilter v =
     (if length (sv_prefixNamesFilter v) > 0
      then enableDetailFlagWhenFilterFlag
             (fold (\<lambda>name v. v\<lparr>sv_prefixNamesFilterMap := insert (strings_ToLower name) (sv_prefixNamesFilterMap v)\<rparr>)
                (sv_prefixNamesFilter v) v)
      else v)"

definition parseFilters :: "status_vars \<Rightarrow> go_error option \<times> status_vars" where
  "parseFilters v =
     (if strings_ToLower (sv_statusFilter v) \<in> {[], ''idle'', ''connecting'', ''connected''} then
        (let v1 = (if strings_ToLower (sv_statusFilter v) \<noteq> [] then enableDetailFlagWhenFilterFlag v else v) in
         case parse_ipsFilter (sv_ipsFilter v1) v1 of
           (Some err, v2) \<Rightarrow> (Some err, v2)
         | (None, v2) \<Rightarrow>
             (let v3 = parse_prefixNamesFilter v2 in
              if strings_ToLower (sv_connectionTypeFilter v3) \<in> {[], ''p2p'', ''relayed''}
              then (None, if strings_ToLower (sv_connectionTypeFilter v3) \<noteq> [] then enableDetailFlagWhenFilterFlag v3 else v3)
              else (Some (ErrMsg ''wrong connection-type filter''), v3)))
      else (Some (ErrMsg ''wrong status filter''), v))"

definition parseInterfaceIP :: "string \<Rightarrow> string" where
  "parseInterfaceIP interfaceIP =
     (case net_ParseCIDR interfaceIP of Inl err \<Rightarrow> [] | Inr (ip, _) \<Rightarrow> IP_String ip @ [CHR 0x0A])"

section \<open>What is accepted\<close>

text \<open>
  The documented forms of an external address: an IP address, or two parts separated by a slash, each one an IP address or the
  name of an interface, and not two names.
\<close>

definition known_part :: "string list result \<Rightarrow> string \<Rightarrow> bool" where
  "known_part ifaces x = (isValidIP x \<or> (case ifaces of Inl e \<Rightarrow> False | Inr ns \<Rightarrow> x \<in> set ns))"

definition external_ip_form :: "string list result \<Rightarrow> string \<Rightarrow> bool" where
  "external_ip_form ifaces x \<longleftrightarrow> isValidIP x
     \<or> (\<exists>a b. x = a @ CHR ''/'' # b \<and> CHR ''/'' \<notin> set a \<and> CHR ''/'' \<notin> set b
          \<and> known_part ifaces a \<and> known_part ifaces b \<and> (isValidIP a \<or> isValidIP b))"

lemma validateElement_iff:
  "validateElement ifaces x =
     (if isValidIP x then (ipInputType, None)
      else if known_part ifaces x then (interfaceInputType, None) else validateElement ifaces x)"
  "snd (validateElement ifaces x) = None \<longleftrightarrow> known_part ifaces x"
  by (auto simp: validateElement_def isValidInterface_def known_part_def list_ex_iff split: sum.splits bool.splits)

lemma validate_pieces:
  "validate_subElements ifaces invalidInputType [a] = None \<longleftrightarrow> known_part ifaces a"
  "validate_subElements ifaces invalidInputType [a, b] = None
     \<longleftrightarrow> known_part ifaces a \<and> known_part ifaces b \<and> (isValidIP a \<or> isValidIP b)"
  by (auto simp: validateElement_def isValidInterface_def known_part_def list_ex_iff split: sum.splits bool.splits)

lemma length_1_iff: "length xs = 1 \<longleftrightarrow> (\<exists>a. xs = [a])"
  by (cases xs) auto

lemma length_2_iff: "length xs = 2 \<longleftrightarrow> (\<exists>a b. xs = [a, b])"
  by (cases xs; cases "tl xs") auto

lemma Split_single: "strings_Split c x = [a] \<longleftrightarrow> x = a \<and> c \<notin> set x"
  using strings_Join_Split [of c x] strings_Split_no_sep [of c x] strings_Split_sep_free [of a c x]
  by (auto dest: sym)

lemma Split_pair: "strings_Split c x = [a, b] \<longleftrightarrow> x = a @ c # b \<and> c \<notin> set a \<and> c \<notin> set b"
proof
  assume *: "strings_Split c x = [a, b]"
  then show "x = a @ c # b \<and> c \<notin> set a \<and> c \<notin> set b"
    using strings_Join_Split [of c x] strings_Split_sep_free [of _ c x] by simp
next
  assume "x = a @ c # b \<and> c \<notin> set a \<and> c \<notin> set b"
  then show "strings_Split c x = [a, b]"
    by (simp add: strings_Split_append strings_Split_no_sep)
qed

text \<open>The text of an address has no slash: its characters are hexadecimal digits, dots and colons.\<close>

definition addr_char :: "char \<Rightarrow> bool" where
  "addr_char c = (is_hex_char c \<or> c = CHR ''.'' \<or> c = CHR '':'')"

lemma is_digit_hex: "is_digit c \<Longrightarrow> is_hex_char c"
  by (auto simp: is_digit_def is_hex_char_def hex_val_def)

lemma parseIPv4Fields_chars: "parseIPv4Fields s = Inr q \<Longrightarrow> list_all addr_char s"
proof -
  assume "parseIPv4Fields s = Inr q"
  then have "list_all2 (\<lambda>f b. parse_octet f = Inr b) (strings_Split (CHR ''.'') s) q"
    by (auto simp: parseIPv4Fields_def Let_def map_result_Inr_iff split: if_splits)
  then have "\<forall>f \<in> set (strings_Split (CHR ''.'') s). list_all is_digit f"
    by (auto simp: list_all2_conv_all_nth in_set_conv_nth parse_octet_def split: if_splits)
  then have "(\<Union>x \<in> set (strings_Split (CHR ''.'') s). set x) \<subseteq> Collect addr_char"
    using is_digit_hex unfolding addr_char_def list_all_iff by blast
  then have "set (strings_Join [CHR ''.''] (strings_Split (CHR ''.'') s)) \<subseteq> Collect addr_char"
    using strings_Join_set [of "[CHR ''.'']" "strings_Split (CHR ''.'') s"] unfolding addr_char_def by simp blast
  then show ?thesis
    by (auto simp: strings_Join_Split list_all_iff)
qed

lemma hex_prefix_split: "s = hex_prefix s @ drop (length (hex_prefix s)) s" "list_all is_hex_char (hex_prefix s)"
proof -
  show "s = hex_prefix s @ drop (length (hex_prefix s)) s"
    unfolding hex_prefix_def by (subst dropWhile_eq_drop [symmetric]) simp
  show "list_all is_hex_char (hex_prefix s)"
    by (auto simp: hex_prefix_def list_all_iff dest: set_takeWhileD)
qed

lemma v6_loop_chars: "v6_loop ip el s = Inr (ip', el', []) \<Longrightarrow> list_all addr_char s"
proof (induction ip el s rule: v6_loop.induct)
  case (1 ip el s)
  define h where "h = hex_prefix s"
  define r where "r = drop (length h) s"
  have s: "s = h @ r" "list_all addr_char h"
    using hex_prefix_split [of s] by (auto simp: h_def r_def list_all_iff addr_char_def)
  show ?case
  proof (cases "length ip \<ge> 16 \<or> h = [] \<or> length h > 4 \<or> r = [] \<or> hd r = CHR ''.''")
    case True
    then show ?thesis
      using "1.prems" s unfolding v6_loop.simps [of ip el s] h_def [symmetric]
      by (auto simp: Let_def r_def [symmetric] bind_result_Inr_iff dest: parseIPv4Fields_chars split: if_splits)
  next
    case False
    define ip1 where "ip1 = ip @ nat_bytes 2 (hex_str_val h)"
    have step: "v6_loop ip el s =
       (if hd r \<noteq> CHR '':'' \<or> length r = 1 then Inl errParseAddr
        else if hd (tl r) = CHR '':'' then
          (if el \<noteq> None then Inl errParseAddr
           else if tl (tl r) = [] then Inr (ip1, Some (length ip1), [])
           else v6_loop ip1 (Some (length ip1)) (tl (tl r)))
        else v6_loop ip1 el (tl r))"
      using False unfolding v6_loop.simps [of ip el s] h_def [symmetric]
      by (simp add: Let_def r_def [symmetric] ip1_def)
    then obtain c t where r: "r = CHR '':'' # c # t"
      using "1.prems" False by (cases r; cases "tl r") (auto split: if_splits)
    have IH: "v6_loop ip1 (Some (length ip1)) t = Inr (ip', el', []) \<Longrightarrow> list_all addr_char t"
      if "c = CHR '':''" "el = None" "t \<noteq> []"
      using "1.IH"(1) [OF _ h_def r_def _ _ ip1_def] False r that by simp
    have IH2: "v6_loop ip1 el (c # t) = Inr (ip', el', []) \<Longrightarrow> list_all addr_char (c # t)" if "c \<noteq> CHR '':''"
      using "1.IH"(2) [OF _ h_def r_def _ _ ip1_def] False r that by simp
    have "list_all addr_char (c # t)"
      using "1.prems" step r IH IH2 by (cases "c = CHR '':''") (auto simp: addr_char_def split: if_splits)
    moreover have "addr_char (CHR '':'')"
      by (simp add: addr_char_def)
    ultimately show ?thesis
      using s r by simp
  qed
qed

lemma isValidIP_chars: "isValidIP x \<Longrightarrow> list_all addr_char x"
proof -
  assume "isValidIP x"
  then obtain a where a: "ParseAddr x = Inr a" "Addr_Zone a = []"
    by (auto simp: isValidIP_def net_ParseIP_def split: sum.splits if_splits)
  then consider (v4) "parseIPv4 x = Inr a" | (v6) "parseIPv6 x = Inr a"
    by (auto simp: ParseAddr_def split: list.splits if_splits)
  then show ?thesis
  proof cases
    case v4
    then show ?thesis by (auto simp: parseIPv4_def bind_result_Inr_iff dest: parseIPv4Fields_chars)
  next
    case v6
    have no_zone: "CHR ''%'' \<notin> set x"
      using v6 a(2) by (auto simp: parseIPv6_def Let_def bind_result_Inr_iff split: if_splits option.splits)
    then have tw: "takeWhile (\<lambda>c. c \<noteq> CHR ''%'') x = x"
      by (auto simp: takeWhile_eq_all_conv)
    define t where "t = (if strings_HasPrefix x ''::'' then drop 2 x else x)"
    have x: "x = t \<or> x = ''::'' @ t"
      by (auto simp: t_def strings_HasPrefix_iff)
    have "t = [] \<or> (\<exists>el ip' el'. v6_loop [] el t = Inr (ip', el', []))"
      using v6 no_zone unfolding parseIPv6_def tw Let_def t_def [symmetric]
      by (fastforce simp: bind_result_Inr_iff split: if_splits)
    then have "list_all addr_char t"
      using v6_loop_chars by auto
    then show ?thesis
      using x by (auto simp: addr_char_def)
  qed
qed

lemma isValidIP_no_slash: "isValidIP x \<Longrightarrow> CHR ''/'' \<notin> set x"
proof -
  have "\<not> addr_char (CHR ''/'')"
    by (simp add: addr_char_def is_hex_char_def hex_val_def)
  then show "isValidIP x \<Longrightarrow> CHR ''/'' \<notin> set x"
    using isValidIP_chars [of x] by (auto simp: list_all_iff)
qed

lemma external_ip_form_step:
  "external_ip_form ifaces x \<longleftrightarrow>
     x \<noteq> [] \<and> (let ps = strings_Split (CHR ''/'') x in
       length ps \<le> 2 \<and> (length ps = 1 \<longrightarrow> isValidIP (ps ! 0)) \<and> validate_subElements ifaces invalidInputType ps = None)"
proof -
  have nil: "\<not> isValidIP []"
    by (simp add: isValidIP_def net_ParseIP_def ParseAddr_def)
  consider (one) a where "strings_Split (CHR ''/'') x = [a]" | (two) a b where "strings_Split (CHR ''/'') x = [a, b]"
    | (more) "length (strings_Split (CHR ''/'') x) > 2"
    by (cases "strings_Split (CHR ''/'') x"; cases "tl (strings_Split (CHR ''/'') x)"; cases "tl (tl (strings_Split (CHR ''/'') x))") auto
  then show ?thesis
  proof cases
    case one
    then have "x = a" "CHR ''/'' \<notin> set x" using Split_single by blast+
    then show ?thesis
      using one nil by (auto simp: external_ip_form_def Let_def validate_pieces known_part_def simp del: validate_subElements.simps)
  next
    case two
    then have x: "x = a @ CHR ''/'' # b" "CHR ''/'' \<notin> set a" "CHR ''/'' \<notin> set b" by (simp_all add: Split_pair)
    then have "\<not> isValidIP x" using isValidIP_no_slash [of x] by auto
    moreover have "a' = a \<and> b' = b" if "x = a' @ CHR ''/'' # b'" "CHR ''/'' \<notin> set a'" "CHR ''/'' \<notin> set b'" for a' b'
      using two that Split_pair [of "CHR ''/''" x a' b'] by simp
    ultimately have "external_ip_form ifaces x \<longleftrightarrow> known_part ifaces a \<and> known_part ifaces b \<and> (isValidIP a \<or> isValidIP b)"
      unfolding external_ip_form_def using x by metis
    moreover have "x \<noteq> []" using x by simp
    ultimately show ?thesis
      unfolding two Let_def validate_pieces by simp
  next
    case more
    have "\<not> isValidIP x"
      using more isValidIP_no_slash [of x] strings_Split_no_sep [of "CHR ''/''" x] by auto
    moreover have "\<not> (x = a @ CHR ''/'' # b \<and> CHR ''/'' \<notin> set a \<and> CHR ''/'' \<notin> set b)" for a b
    proof
      assume "x = a @ CHR ''/'' # b \<and> CHR ''/'' \<notin> set a \<and> CHR ''/'' \<notin> set b"
      then have "strings_Split (CHR ''/'') x = [a, b]" by (iprover intro: Split_pair [THEN iffD2])
      then show False using more by simp
    qed
    ultimately show ?thesis
      using more unfolding external_ip_form_def Let_def by auto
  qed
qed


section \<open>Filters\<close>

text \<open>An option whose comparison ignores case is valid if its lower case is one of the words.\<close>

definition filters_valid :: "status_vars \<Rightarrow> bool" where
  "filters_valid v \<longleftrightarrow> strings_ToLower (sv_statusFilter v) \<in> {[], ''idle'', ''connecting'', ''connected''}
     \<and> list_all (\<lambda>a. \<exists>ip. ParseAddr a = Inr ip) (sv_ipsFilter v)
     \<and> strings_ToLower (sv_connectionTypeFilter v) \<in> {[], ''p2p'', ''relayed''}"

definition filters_given :: "status_vars \<Rightarrow> bool" where
  "filters_given v \<longleftrightarrow> sv_statusFilter v \<noteq> [] \<or> sv_ipsFilter v \<noteq> [] \<or> sv_prefixNamesFilter v \<noteq> [] \<or> sv_connectionTypeFilter v \<noteq> []"

definition detail_if :: "bool \<Rightarrow> status_vars \<Rightarrow> status_vars" where
  "detail_if b v = v\<lparr>sv_detailFlag := sv_detailFlag v \<or> b \<and> \<not> sv_jsonFlag v \<and> \<not> sv_yamlFlag v\<rparr>"

lemma enableDetail_eq: "enableDetailFlagWhenFilterFlag v = detail_if True v" "detail_if False v = v"
  by (cases v; simp add: enableDetailFlagWhenFilterFlag_def detail_if_def)+

lemma detail_if_twice: "detail_if b (detail_if c v) = detail_if (b \<or> c) v"
  by (cases v) (auto simp: detail_if_def)

lemma detail_if_simps [simp]:
  "sv_ipsFilter (detail_if b v) = sv_ipsFilter v" "sv_prefixNamesFilter (detail_if b v) = sv_prefixNamesFilter v"
  "sv_statusFilter (detail_if b v) = sv_statusFilter v" "sv_ipsFilterMap (detail_if b v) = sv_ipsFilterMap v"
  "sv_prefixNamesFilterMap (detail_if b v) = sv_prefixNamesFilterMap v"
  "sv_connectionTypeFilter (detail_if b v) = sv_connectionTypeFilter v"
  "(detail_if b v)\<lparr>sv_ipsFilterMap := m\<rparr> = detail_if b (v\<lparr>sv_ipsFilterMap := m\<rparr>)"
  "(detail_if b v)\<lparr>sv_prefixNamesFilterMap := m\<rparr> = detail_if b (v\<lparr>sv_prefixNamesFilterMap := m\<rparr>)"
  by (cases v; simp add: detail_if_def)+

lemma parse_ipsFilter_eq:
  "list_all (\<lambda>a. \<exists>ip. ParseAddr a = Inr ip) as \<Longrightarrow>
     parse_ipsFilter as v = (None, detail_if (as \<noteq> []) (v\<lparr>sv_ipsFilterMap := sv_ipsFilterMap v \<union> set as\<rparr>))"
  "\<not> list_all (\<lambda>a. \<exists>ip. ParseAddr a = Inr ip) as \<Longrightarrow> fst (parse_ipsFilter as v) \<noteq> None"
  by (induction as arbitrary: v) (auto simp: enableDetail_eq detail_if_twice split: sum.splits)

lemma fold_names:
  "fold (\<lambda>name v. v\<lparr>sv_prefixNamesFilterMap := insert (strings_ToLower name) (sv_prefixNamesFilterMap v)\<rparr>) ns v =
     v\<lparr>sv_prefixNamesFilterMap := sv_prefixNamesFilterMap v \<union> strings_ToLower ` set ns\<rparr>"
  by (induction ns arbitrary: v) auto

lemma parse_prefixNamesFilter_eq:
  "parse_prefixNamesFilter v =
     detail_if (sv_prefixNamesFilter v \<noteq> [])
       (v\<lparr>sv_prefixNamesFilterMap := sv_prefixNamesFilterMap v \<union> strings_ToLower ` set (sv_prefixNamesFilter v)\<rparr>)"
  by (auto simp: parse_prefixNamesFilter_def fold_names enableDetail_eq)

lemma strings_ToLower_Nil [simp]: "strings_ToLower s = [] \<longleftrightarrow> s = []"
  by (simp add: strings_ToLower_def)

text \<open>
  The filters of the status command: the options are accepted exactly if the two words are known and every address parses; then the
  two sets hold exactly the given addresses and the names in lower case, and the detailed output is switched on exactly if
  a filter was given and no other format was chosen.
\<close>

theorem parseFilters_spec:
  "(fst (parseFilters v) = None \<longleftrightarrow> filters_valid v) \<and>
   (filters_valid v \<longrightarrow> snd (parseFilters v) =
      v\<lparr>sv_ipsFilterMap := sv_ipsFilterMap v \<union> set (sv_ipsFilter v),
        sv_prefixNamesFilterMap := sv_prefixNamesFilterMap v \<union> strings_ToLower ` set (sv_prefixNamesFilter v),
        sv_detailFlag := sv_detailFlag v \<or> filters_given v \<and> \<not> sv_jsonFlag v \<and> \<not> sv_yamlFlag v\<rparr>)"
proof -
  have start: "(if strings_ToLower (sv_statusFilter v) \<noteq> [] then enableDetailFlagWhenFilterFlag v else v) = detail_if (sv_statusFilter v \<noteq> []) v"
    by (simp add: enableDetail_eq)
  show ?thesis
  proof (cases "list_all (\<lambda>a. \<exists>ip. ParseAddr a = Inr ip) (sv_ipsFilter v)")
    case True
    have final: "(if strings_ToLower t \<noteq> [] then enableDetailFlagWhenFilterFlag u else u) = detail_if (t \<noteq> []) u" for t u
      by (simp add: enableDetail_eq)
    let ?u = "v\<lparr>sv_ipsFilterMap := sv_ipsFilterMap v \<union> set (sv_ipsFilter v),
          sv_prefixNamesFilterMap := sv_prefixNamesFilterMap v \<union> strings_ToLower ` set (sv_prefixNamesFilter v)\<rparr>"
    have given: "(sv_connectionTypeFilter v \<noteq> [] \<or> sv_prefixNamesFilter v \<noteq> [] \<or> sv_ipsFilter v \<noteq> [] \<or> sv_statusFilter v \<noteq> [])
        = filters_given v"
      by (auto simp: filters_given_def)
    have ips: "parse_ipsFilter (sv_ipsFilter v) (detail_if b v) =
        (None, detail_if (sv_ipsFilter v \<noteq> [] \<or> b) (v\<lparr>sv_ipsFilterMap := sv_ipsFilterMap v \<union> set (sv_ipsFilter v)\<rparr>))" for b
      using parse_ipsFilter_eq(1) [OF True] by (simp add: detail_if_twice)
    have frame: "sv_prefixNamesFilter (v\<lparr>sv_ipsFilterMap := m\<rparr>) = sv_prefixNamesFilter v"
        "sv_prefixNamesFilterMap (v\<lparr>sv_ipsFilterMap := m\<rparr>) = sv_prefixNamesFilterMap v"
        "sv_connectionTypeFilter (v\<lparr>sv_ipsFilterMap := m, sv_prefixNamesFilterMap := n\<rparr>) = sv_connectionTypeFilter v" for m n
      by simp_all
    have "parseFilters v =
       (if strings_ToLower (sv_statusFilter v) \<in> {[], ''idle'', ''connecting'', ''connected''} then
          (if strings_ToLower (sv_connectionTypeFilter v) \<in> {[], ''p2p'', ''relayed''} then (None, detail_if (filters_given v) ?u)
           else (Some (ErrMsg ''wrong connection-type filter''),
                 detail_if (sv_prefixNamesFilter v \<noteq> [] \<or> sv_ipsFilter v \<noteq> [] \<or> sv_statusFilter v \<noteq> []) ?u))
        else (Some (ErrMsg ''wrong status filter''), v))"
      unfolding parseFilters_def start Let_def final
      by (simp only: ips detail_if_simps prod.case option.case parse_prefixNamesFilter_eq detail_if_twice given
          frame disj_assoc)
    then show ?thesis
      by (simp add: filters_valid_def True detail_if_def)
  next
    case False
    obtain e w where *: "parse_ipsFilter (sv_ipsFilter v) (detail_if (sv_statusFilter v \<noteq> []) v) = (Some e, w)"
      using parse_ipsFilter_eq(2) [OF False, of "detail_if (sv_statusFilter v \<noteq> []) v"]
      by (cases "parse_ipsFilter (sv_ipsFilter v) (detail_if (sv_statusFilter v \<noteq> []) v)") auto
    have "fst (parseFilters v) \<noteq> None"
      unfolding parseFilters_def start Let_def detail_if_simps * by simp
    then show ?thesis
      using False by (simp add: filters_valid_def)
  qed
qed

lemma IP_String_v4: "IP_String (Addr_As16 (Addr4 w)) = v4_String w"
  by (simp add: IP_String_def IP_To4_def v4in6_prefix_def u32_bytes_roundtrip)

lemma parseInterfaceIP_v4:
  "n \<le> 32 \<Longrightarrow> parseInterfaceIP (v4_String w @ ''/'' @ itoa n) = v4_String w @ [CHR 0x0A]"
  using IP_String_v4 [of w] by (simp add: parseInterfaceIP_def net_ParseCIDR_v4)

section \<open>Requests\<close>

text \<open>
  Two states of the variables that agree on the variables every request reads and on those whose flag was given. A variable whose
  flag was not given holds the default value of the flag, which must not reach the daemon: it would overwrite what the user
  stored before.
\<close>

definition same_given :: "'d up_vars \<Rightarrow> 'd up_vars \<Rightarrow> bool" where
  "same_given v v' \<longleftrightarrow> uv_changed v = uv_changed v' \<and> uv_managementURL v = uv_managementURL v' \<and> uv_adminURL v = uv_adminURL v'
     \<and> uv_hostName v = uv_hostName v' \<and> uv_natExternalIPs v = uv_natExternalIPs v'
     \<and> uv_extraIFaceBlackList v = uv_extraIFaceBlackList v' \<and> uv_dnsLabels v = uv_dnsLabels v'
     \<and> uv_dnsLabelsValidated v = uv_dnsLabelsValidated v' \<and> given_options v = given_options v'
     \<and> when_changed v sshJWTCacheTTLFlag (uv_sshJWTCacheTTL v) = when_changed v' sshJWTCacheTTLFlag (uv_sshJWTCacheTTL v')
     \<and> when_changed v wireguardPortFlag (uv_wireguardPort v) = when_changed v' wireguardPortFlag (uv_wireguardPort v')
     \<and> when_changed v mtuFlag (uv_mtu v) = when_changed v' mtuFlag (uv_mtu v')
     \<and> when_changed v dnsRouteIntervalFlag (uv_dnsRouteInterval v) = when_changed v' dnsRouteIntervalFlag (uv_dnsRouteInterval v')"


lemma same_givenD:
  assumes "same_given v v'"
  shows "uv_changed v = uv_changed v'" "given_options v = given_options v'"
    and "when_changed v sshJWTCacheTTLFlag (f (uv_sshJWTCacheTTL v)) = when_changed v' sshJWTCacheTTLFlag (f (uv_sshJWTCacheTTL v'))"
    and "when_changed v wireguardPortFlag (g (uv_wireguardPort v)) = when_changed v' wireguardPortFlag (g (uv_wireguardPort v'))"
    and "when_changed v mtuFlag (h (uv_mtu v)) = when_changed v' mtuFlag (h (uv_mtu v'))"
    and "when_changed v dnsRouteIntervalFlag (k (uv_dnsRouteInterval v)) = when_changed v' dnsRouteIntervalFlag (k (uv_dnsRouteInterval v'))"
  using assms by (auto simp: same_given_def when_changed_def split: if_splits)

lemma same_given_checks:
  assumes "same_given v v'"
  shows "bad_interface_name goos v = bad_interface_name goos v'" "bad_MTU v = bad_MTU v'"
proof -
  have "when_changed v interfaceNameFlag (uv_interfaceName v) = when_changed v' interfaceNameFlag (uv_interfaceName v')"
    using arg_cong [OF same_givenD(2) [OF assms], of op_InterfaceName] by (simp add: given_options_def)
  then show "bad_interface_name goos v = bad_interface_name goos v'"
    using same_givenD(1) [OF assms] by (auto simp: bad_interface_name_def when_changed_def)
  show "bad_MTU v = bad_MTU v'"
    using same_givenD(1) [OF assms] same_givenD(5) [OF assms, of id] by (auto simp: bad_MTU_def when_changed_def)
qed


text \<open>
  The three requests agree. The foreground configuration and the login request are refused for the same options with the same error; the
  options of every request that is built are those of the flags given, and the MTU, the port and the list of external addresses are
  the same in all of them.
\<close>

lemmas request_defs = setupSetConfigReq_def setupConfig_def setupLoginRequest_def

lemma extend_options:
  "up_options.truncate (up_options.extend r m) = r"
  by (cases r) (simp add: up_options.truncate_def up_options.extend_def)

lemma extend_SetConfigRequest [simp]:
  "sr_NatExternalIPs (up_options.extend r (SetConfigRequest.fields a b c d e f g h i j k l m n)) = e"
  "sr_CleanNATExternalIPs (up_options.extend r (SetConfigRequest.fields a b c d e f g h i j k l m n)) = j"
  "sr_SshJWTCacheTTL (up_options.extend r (SetConfigRequest.fields a b c d e f g h i j k l m n)) = k"
  "sr_WireguardPort (up_options.extend r (SetConfigRequest.fields a b c d e f g h i j k l m n)) = l"
  "sr_Mtu (up_options.extend r (SetConfigRequest.fields a b c d e f g h i j k l m n)) = m"
  by (simp_all add: up_options.extend_def SetConfigRequest.fields_def)

lemma extend_ConfigInput [simp]:
  "ci_NATExternalIPs (up_options.extend r (ConfigInput.fields a b c d e f g h i j)) = c"
  "ci_SSHJWTCacheTTL (up_options.extend r (ConfigInput.fields a b c d e f g h i j)) = g"
  "ci_WireguardPort (up_options.extend r (ConfigInput.fields a b c d e f g h i j)) = h"
  "ci_MTU (up_options.extend r (ConfigInput.fields a b c d e f g h i j)) = i"
  by (simp_all add: up_options.extend_def ConfigInput.fields_def)

lemma extend_LoginRequest [simp]:
  "lq_NatExternalIPs (up_options.extend r (LoginRequest.fields a b c d e f g h i j k l m n u p q)) = c"
  "lq_CleanNATExternalIPs (up_options.extend r (LoginRequest.fields a b c d e f g h i j k l m n u p q)) = d"
  "lq_SshJWTCacheTTL (up_options.extend r (LoginRequest.fields a b c d e f g h i j k l m n u p q)) = k"
  "lq_WireguardPort (up_options.extend r (LoginRequest.fields a b c d e f g h i j k l m n u p q)) = l"
  "lq_Mtu (up_options.extend r (LoginRequest.fields a b c d e f g h i j k l m n u p q)) = m"
  by (simp_all add: up_options.extend_def LoginRequest.fields_def)

lemma when_changed_map: "map_option f (when_changed v x y) = when_changed v x (f y)"
  by (simp add: when_changed_def)

lemma request_refused:
  "setupConfig goos v dns path = Inl e \<longleftrightarrow> setupLoginRequest goos duration desktop key dns v = Inl e"
  "setupSetConfigReq goos punycode duration v dns prof user = None \<longleftrightarrow> bad_interface_name goos v \<noteq> None"
  by (auto simp: request_defs split: option.splits)

theorem requests_agree:
  assumes "setupSetConfigReq goos punycode duration v dns prof user = Some req"
    and "setupConfig goos v dns path = Inr ic" and "setupLoginRequest goos duration desktop key dns v = Inr lq"
  shows "up_options.truncate req = given_options v \<and> up_options.truncate ic = given_options v
    \<and> up_options.truncate lq = given_options v
    \<and> sr_Mtu req = lq_Mtu lq \<and> map_option ucast (ci_MTU ic) = lq_Mtu lq
    \<and> sr_WireguardPort req = lq_WireguardPort lq \<and> ci_WireguardPort ic = lq_WireguardPort lq
    \<and> sr_SshJWTCacheTTL req = lq_SshJWTCacheTTL lq \<and> map_option ucast (ci_SSHJWTCacheTTL ic) = lq_SshJWTCacheTTL lq
    \<and> sr_NatExternalIPs req = lq_NatExternalIPs lq \<and> ci_NATExternalIPs ic = lq_NatExternalIPs lq
    \<and> sr_CleanNATExternalIPs req = lq_CleanNATExternalIPs lq"
proof -
  have ok: "bad_interface_name goos v = None" "bad_MTU v = None"
    using assms(1,2) by (auto simp: request_defs split: option.splits)
  show ?thesis
    using assms unfolding request_defs ok option.case
    by (simp only: option.inject sum.inject) (drule sym, drule sym, drule sym, simp add: extend_options when_changed_map)
qed

text \<open>An MTU that the login request refuses is put into the configuration request all the same.\<close>

lemma MTU_not_validated_for_daemon:
  assumes "uv_changed v mtuFlag" and "ValidateMTU (uv_mtu v) = Some e" and "bad_interface_name goos v = None"
  shows "setupLoginRequest goos duration desktop key dns v = Inl e"
    and "\<exists>req. setupSetConfigReq goos punycode duration v dns prof user = Some req \<and> sr_Mtu req = Some (ucast (uv_mtu v))"
  using assms
  by (simp_all add: request_defs bad_MTU_def when_changed_def)

section \<open>Examples\<close>

definition demo_vars :: "bool \<Rightarrow> 16 word \<Rightarrow> string up_vars" where
  "demo_vars foreground mtu =
     \<lparr>uv_changed = (\<lambda>f. f = mtuFlag), uv_managementURL = ''https://api'', uv_adminURL = [], uv_hostName = [], uv_profileName = [],
      uv_configPath = [], uv_foregroundMode = foreground, uv_natExternalIPs = None, uv_customDNSAddress = [],
      uv_extraIFaceBlackList = [], uv_dnsLabels = None, uv_dnsLabelsValidated = [], uv_rosenpassEnabled = False,
      uv_rosenpassPermissive = False, uv_serverSSHAllowed = False, uv_enableSSHRoot = False, uv_enableSSHSFTP = False,
      uv_enableSSHLocalPortForward = False, uv_enableSSHRemotePortForward = False, uv_disableSSHAuth = False, uv_sshJWTCacheTTL = 0,
      uv_interfaceName = ''wt0'', uv_wireguardPort = 51820, uv_mtu = mtu, uv_networkMonitor = False, uv_preSharedKey = [],
      uv_autoConnectDisabled = False, uv_dnsRouteInterval = 0, uv_disableClientRoutes = False, uv_disableServerRoutes = False,
      uv_disableDNS = False, uv_disableFirewall = False, uv_blockLANAccess = False, uv_blockInbound = False,
      uv_lazyConnEnabled = False\<rparr>"



theorem requests_agree_witness:
  "\<exists>req ic lq. setupSetConfigReq ''linux'' id id (demo_vars False 1280) None ''default'' ''root'' = Some req
     \<and> setupConfig ''linux'' (demo_vars False 1280) None ''path'' = Inr ic
     \<and> setupLoginRequest ''linux'' (id :: int \<Rightarrow> int) False [] None (demo_vars False 1280) = Inr lq
     \<and> sr_Mtu req = Some 1280 \<and> lq_Mtu lq = sr_Mtu req \<and> map_option ucast (ci_MTU ic) = lq_Mtu lq"
proof -
  have ok: "bad_interface_name ''linux'' (demo_vars False 1280) = None" "bad_MTU (demo_vars False 1280) = None"
    by (simp_all add: bad_interface_name_def bad_MTU_def demo_vars_def ValidateMTU_def MinMTU_def MaxMTU_def)
  obtain req ic lq where r: "setupSetConfigReq ''linux'' id id (demo_vars False 1280) None ''default'' ''root'' = Some req"
      "setupConfig ''linux'' (demo_vars False 1280) None ''path'' = Inr ic"
      "setupLoginRequest ''linux'' (id :: int \<Rightarrow> int) False [] None (demo_vars False 1280) = Inr lq"
    by (simp add: request_defs ok)
  have "when_changed (demo_vars False 1280) mtuFlag (ucast (uv_mtu (demo_vars False 1280))) = Some (1280 :: 64 word)"
    by (simp add: when_changed_def demo_vars_def)
  then have "sr_Mtu req = Some 1280"
    using r(1) unfolding setupSetConfigReq_def ok option.case option.inject by (drule_tac sym) simp
  then show ?thesis
    using requests_agree [OF r] r by auto
qed

theorem parseFilters_spec_witness:
  "let v = \<lparr>sv_detailFlag = False, sv_ipv4Flag = False, sv_jsonFlag = False, sv_yamlFlag = False, sv_ipsFilter = [''100.64.0.1''],
        sv_prefixNamesFilter = [''Peer-A''], sv_statusFilter = ''Connected'', sv_ipsFilterMap = {}, sv_prefixNamesFilterMap = {},
        sv_connectionTypeFilter = []\<rparr>
   in filters_valid v \<and> fst (parseFilters v) = None \<and> sv_detailFlag (snd (parseFilters v))
      \<and> sv_prefixNamesFilterMap (snd (parseFilters v)) = {''peer-a''}"
proof -
  let ?v = "\<lparr>sv_detailFlag = False, sv_ipv4Flag = False, sv_jsonFlag = False, sv_yamlFlag = False, sv_ipsFilter = [''100.64.0.1''],
        sv_prefixNamesFilter = [''Peer-A''], sv_statusFilter = ''Connected'', sv_ipsFilterMap = {}, sv_prefixNamesFilterMap = {},
        sv_connectionTypeFilter = []\<rparr>"
  have lower: "strings_ToLower ''Connected'' = ''connected''" "strings_ToLower ''Peer-A'' = ''peer-a''" "strings_ToLower [] = []"
    by code_simp+
  have "map_sum (\<lambda>_. ()) (\<lambda>_. ()) (ParseAddr ''100.64.0.1'') = Inr ()" by code_simp
  then have "\<exists>ip. ParseAddr ''100.64.0.1'' = Inr ip" by (cases "ParseAddr ''100.64.0.1''") auto
  then have "filters_valid ?v" by (simp add: filters_valid_def lower)
  with parseFilters_spec [of ?v] show ?thesis
    by (simp add: filters_given_def lower)
qed

end
