(* ===== verification/Connect_Client.thy ===== *)
theory Connect_Client
  imports Mgmt_Client Signal_Client
begin

text \<open>
  The outer loop of the client, \<^verbatim>\<open>go/internal/connect.go\<close>: connecting to the management service, logging in, connecting to the
  signal and relay services, creating and running the engine, and starting over after errors; and the translation of the
  stored configuration and of the login response into the configuration of the engine.

  The clients of both services and the engine are the models of \<open>Mgmt_Client\<close>, \<open>Signal_Client\<close> and \<open>Engine_Lifecycle\<close>. The
  status recorder, the relay client, the UDP sockets and the state object of the context are outside the repository and
  are fields of \<open>cn_env\<close>; \<open>'a\<close> is the type of the state object. While an engine exists, its world is that of the
  client, \<open>cs_world\<close>.

  The operation blocks until the context of the engine ends. What the engine does meanwhile is the argument
  \<open>engine_runs\<close>, which may also change the state object, as the engine does when it asks for a restart. \<open>None\<close> means that a
  function does not return: a nil pointer was dereferenced, or the engine runs for ever. Deferred functions run when the
  function returns, the last one first; \<open>deferred\<close> adds one. The options for Android and iOS are only passed on to the engine
  and are left out.

  The theorems: a login that is denied ends the loop with that error and leaves the status at \<^verbatim>\<open>NeedsLogin\<close>, every other run
  ends with the status \<^verbatim>\<open>Idle\<close>; after each attempt no tunnel device is left with the client; the channel of the caller is
  closed once at most, after an engine has started; a login response without signal configuration makes the client panic;
  and an MTU that does not fit 16 bits is cut.
\<close>

section \<open>Configuration\<close>

record client_config =
  cf_PrivateKey :: string
  cf_SSHKey :: "byte list"
  cf_ManagementScheme :: string
  cf_ManagementHost :: string
  cf_ManagementURL :: string
  cf_WgIface :: string
  cf_WgPort :: int
  cf_PreSharedKey :: string
  cf_NetworkMonitor :: "bool option"
  cf_IFaceBlackList :: "string list"
  cf_DisableIPv6Discovery :: bool
  cf_NATExternalIPs :: "string list"
  cf_CustomDNSAddress :: string
  cf_RosenpassEnabled :: bool
  cf_RosenpassPermissive :: bool
  cf_ServerSSHAllowed :: "bool option"
  cf_EnableSSHRoot :: "bool option"
  cf_EnableSSHSFTP :: "bool option"
  cf_EnableSSHLocalPortForwarding :: "bool option"
  cf_EnableSSHRemotePortForwarding :: "bool option"
  cf_DisableSSHAuth :: "bool option"
  cf_DNSRouteInterval :: int
  cf_DisableClientRoutes :: bool
  cf_DisableServerRoutes :: bool
  cf_DisableDNS :: bool
  cf_DisableFirewall :: bool
  cf_BlockLANAccess :: bool
  cf_BlockInbound :: bool
  cf_LazyConnectionEnabled :: bool
  cf_MTU :: "16 word"
  cf_DNSLabels :: "string list"

datatype status_type = StatusIdle | StatusConnecting | StatusConnected | StatusNeedsLogin | StatusOther string

definition ErrResetConnection :: go_error where "ErrResetConnection = ErrSentinel ''reset connection''"

record ('w, 'k, 'a) connect_client =
  cs_config :: client_config
  cs_engine :: "('w, 'k) engine option"
  cs_persistSyncResponse :: bool
  cs_state :: 'a
  cs_runningChan :: bool
  cs_runningClosed :: nat
  cs_world :: 'w

record ('w, 'k, 'c, 'q, 'i, 'p, 'd, 'x, 's, 'a) cn_env =
  cn_life :: "('w, 'k, 'c, 'q, 'i) life_env"
  cn_mg :: "('w, 'p, 'd, 'x) mg_env"
  cn_sc :: "('w, 's) sc_env"
  st_Set :: "status_type \<Rightarrow> 'a \<Rightarrow> 'a"
  st_Status :: "'a \<Rightarrow> status_type \<times> go_error option"
  st_Wrap :: "go_error \<Rightarrow> 'a \<Rightarrow> go_error \<times> 'a"
  ctx_Err :: "'w \<Rightarrow> go_error option"
  nbnet_Init :: "'w \<Rightarrow> 'w"
  GeneratePublicKey :: "byte list \<Rightarrow> byte list result"
  ClientStart :: "'w \<Rightarrow> 'w"
  ClientStop :: "'w \<Rightarrow> 'w"
  ClientTeardown :: "'w \<Rightarrow> 'w"
  rec_MgmtDisconnected :: "go_error option \<Rightarrow> 'w \<Rightarrow> 'w"
  rec_MgmtConnected :: "'w \<Rightarrow> 'w"
  rec_SignalDisconnected :: "go_error option \<Rightarrow> 'w \<Rightarrow> 'w"
  rec_SignalConnected :: "'w \<Rightarrow> 'w"
  CleanLocalPeerState :: "'w \<Rightarrow> 'w"
  UpdateSignalAddress :: "string \<Rightarrow> 'w \<Rightarrow> 'w"
  SetRelayMgr :: "string list \<Rightarrow> string \<Rightarrow> 16 word \<Rightarrow> 'w \<Rightarrow> 'w"
  mgm_CreateConnection :: "string \<Rightarrow> bool \<Rightarrow> 'w \<Rightarrow> go_error option \<times> 'w"
  sig_CreateConnection :: "string \<Rightarrow> bool \<Rightarrow> 'w \<Rightarrow> go_error option \<times> 'w"
  RetryConnect :: "'w operation \<Rightarrow> 'w operation"
  RetryLogin :: "(mg_enc option \<times> 'w) operation \<Rightarrow> (mg_enc option \<times> 'w) operation"
  GetInfoWithFlags :: "client_config \<Rightarrow> 'w \<Rightarrow> sys_info"
  SetCurrentMTU :: "16 word \<Rightarrow> 'w \<Rightarrow> 'w"
  ListenUDP :: "int \<Rightarrow> 'w \<Rightarrow> int result \<times> 'w"
  CloseUDP :: "'w \<Rightarrow> 'w"

definition NewConnectClient :: "client_config \<Rightarrow> 'a \<Rightarrow> 'w \<Rightarrow> ('w, 'k, 'a) connect_client" where
  "NewConnectClient config st w =
     \<lparr>cs_config = config, cs_engine = None, cs_persistSyncResponse = False, cs_state = st, cs_runningChan = False,
      cs_runningClosed = 0, cs_world = w\<rparr>"

section \<open>The engine's configuration\<close>

definition selectMTU :: "(16 word \<Rightarrow> 'w \<Rightarrow> 'w) \<Rightarrow> 16 word \<Rightarrow> 32 word \<Rightarrow> 'w \<Rightarrow> 16 word \<times> 'w" where
  "selectMTU setMTU localMTU peerMTU w =
     (let finalMTU = (if localMTU > 0 then localMTU
                      else if sint peerMTU > 0 then ucast peerMTU
                      else of_nat DefaultMTU)
      in (finalMTU, setMTU finalMTU w))"

definition freePort :: "(int \<Rightarrow> 'w \<Rightarrow> int result \<times> 'w) \<Rightarrow> ('w \<Rightarrow> 'w) \<Rightarrow> int \<Rightarrow> 'w \<Rightarrow> int result \<times> 'w" where
  "freePort listen close initPort w =
     (case listen initPort w of
        (Inr port, w1) \<Rightarrow> (Inr port, close w1)
      | (Inl e, w1) \<Rightarrow>
          (case listen 0 w1 of
             (Inl e2, w2) \<Rightarrow> (Inl (ErrMsg ''unable to get a free port''), w2)
           | (Inr port, w2) \<Rightarrow> (Inr port, close w2)))"

text \<open>A nil peer configuration is dereferenced: \<open>None\<close>.\<close>

definition createEngineConfig ::
    "('w, 'k, 'c, 'q, 'i, 'p, 'd, 'x, 's, 'a) cn_env \<Rightarrow> wgkey \<Rightarrow> client_config \<Rightarrow> login_peer_config option \<Rightarrow> 'w
     \<Rightarrow> (engine_config result \<times> 'w) option" where
  "createEngineConfig N key cfg peerConfig w =
     (case peerConfig of
        None \<Rightarrow> None
      | Some pc \<Rightarrow>
        (let nm = (case cf_NetworkMonitor cfg of None \<Rightarrow> False | Some b \<Rightarrow> b);
             (mtu, w1) = selectMTU (SetCurrentMTU N) (cf_MTU cfg) (pc_Mtu pc) w;
             conf = \<lparr>ec_WgPort = cf_WgPort cfg, ec_WgIfaceName = cf_WgIface cfg, ec_WgAddr = pc_Address pc,
               ec_WgPrivateKey = key, ec_NetworkMonitor = nm, ec_IFaceBlackList = cf_IFaceBlackList cfg,
               ec_DisableIPv6Discovery = cf_DisableIPv6Discovery cfg, ec_PreSharedKey = None, ec_UDPMuxPort = 0,
               ec_UDPMuxSrflxPort = 0, ec_SSHKey = cf_SSHKey cfg, ec_NATExternalIPs = cf_NATExternalIPs cfg,
               ec_CustomDNSAddress = cf_CustomDNSAddress cfg, ec_RosenpassEnabled = cf_RosenpassEnabled cfg,
               ec_RosenpassPermissive = cf_RosenpassPermissive cfg,
               ec_ServerSSHAllowed = (case cf_ServerSSHAllowed cfg of None \<Rightarrow> True | Some b \<Rightarrow> b),
               ec_EnableSSHRoot = cf_EnableSSHRoot cfg, ec_EnableSSHSFTP = cf_EnableSSHSFTP cfg,
               ec_EnableSSHLocalPortForwarding = cf_EnableSSHLocalPortForwarding cfg,
               ec_EnableSSHRemotePortForwarding = cf_EnableSSHRemotePortForwarding cfg,
               ec_DisableSSHAuth = cf_DisableSSHAuth cfg, ec_DNSRouteInterval = cf_DNSRouteInterval cfg,
               ec_DisableClientRoutes = cf_DisableClientRoutes cfg,
               ec_DisableServerRoutes = cf_DisableServerRoutes cfg \<or> cf_BlockInbound cfg, ec_DisableDNS = cf_DisableDNS cfg,
               ec_DisableFirewall = cf_DisableFirewall cfg, ec_BlockLANAccess = cf_BlockLANAccess cfg,
               ec_BlockInbound = cf_BlockInbound cfg, ec_LazyConnectionEnabled = cf_LazyConnectionEnabled cfg, ec_MTU = mtu\<rparr>
         in case (if cf_PreSharedKey cfg \<noteq> [] then map_sum id Some (mg_ParseKey (cn_mg N) (cf_PreSharedKey cfg)) else Inr None) of
              Inl e \<Rightarrow> Some (Inl e, w1)
            | Inr psk \<Rightarrow>
                (case freePort (ListenUDP N) (CloseUDP N) (cf_WgPort cfg) w1 of
                   (Inl e, w2) \<Rightarrow> Some (Inl e, w2)
                 | (Inr port, w2) \<Rightarrow> Some (Inr (conf\<lparr>ec_PreSharedKey := psk, ec_WgPort := port\<rparr>), w2))))"

definition parseRelayInfo :: "login_response \<Rightarrow> string list \<times> (string \<times> string) option" where
  "parseRelayInfo loginResp =
     (case lr_NetbirdConfig loginResp of
        None \<Rightarrow> ([], None)
      | Some cfg \<Rightarrow>
        (case nc_Relay cfg of
           None \<Rightarrow> ([], None)
         | Some r \<Rightarrow> (rc_Urls r, Some (rc_TokenPayload r, rc_TokenSignature r))))"


section \<open>Connecting\<close>

definition statusRecorderToMgmConnStateNotifier ::
    "('w, 'k, 'c, 'q, 'i, 'p, 'd, 'x, 's, 'a) cn_env \<Rightarrow> 'w mg_notifier option" where
  "statusRecorderToMgmConnStateNotifier N =
     Some \<lparr>MarkManagementDisconnected = (\<lambda>e. rec_MgmtDisconnected N (Some e)), MarkManagementConnected = rec_MgmtConnected N\<rparr>"

definition statusRecorderToSignalConnStateNotifier ::
    "('w, 'k, 'c, 'q, 'i, 'p, 'd, 'x, 's, 'a) cn_env \<Rightarrow> 'w notifier option" where
  "statusRecorderToSignalConnStateNotifier N =
     Some \<lparr>MarkDisconnected = rec_SignalDisconnected N, MarkConnected = rec_SignalConnected N\<rparr>"

definition loginToManagement ::
    "('w, 'k, 'c, 'q, 'i, 'p, 'd, 'x, 's, 'a) cn_env \<Rightarrow> 'w mg_client \<Rightarrow> byte list \<Rightarrow> client_config \<Rightarrow> 'w
     \<Rightarrow> (login_response result \<times> 'w) option" where
  "loginToManagement N client pubSSHKey cfg w =
     (case GetServerPublicKey (cn_mg N) w of
        (Inl e, w1) \<Rightarrow>
          Some (Inl (ErrStatus FailedPrecondition ''failed while getting Management Service public key''), w1)
      | (Inr serverPublicKey, w1) \<Rightarrow>
          mg_Login (cn_mg N) (RetryLogin N) client serverPublicKey (Some (GetInfoWithFlags N cfg w1)) pubSSHKey
            (cf_DNSLabels cfg) w1)"

text \<open>A missing configuration or a missing signal section is dereferenced: \<open>None\<close>.\<close>

definition connectToSignal ::
    "('w, 'k, 'c, 'q, 'i, 'p, 'd, 'x, 's, 'a) cn_env \<Rightarrow> global_config option \<Rightarrow> wgkey \<Rightarrow> 'w
     \<Rightarrow> (('w, 's) sig_client result \<times> 'w) option" where
  "connectToSignal N wtConfig ourPrivateKey w =
     (case Option.bind wtConfig gc_Signal of
        None \<Rightarrow> None
      | Some h \<Rightarrow>
        (let sigTLSEnabled = (hc_Protocol h = HTTPS) in
         case signal_NewClient (RetryConnect N) (sig_CreateConnection N (hc_Uri h) sigTLSEnabled) ourPrivateKey w of
           None \<Rightarrow> None
         | Some (Inl e, w1) \<Rightarrow> Some (Inl (ErrStatus FailedPrecondition ''failed connecting to Signal Service''), w1)
         | Some (Inr c, w1) \<Rightarrow> Some (Inr c, w1)))"

section \<open>Methods of the client\<close>

definition with_world :: "'w \<Rightarrow> ('w, 'k, 'a) connect_client \<Rightarrow> ('w, 'k, 'a) connect_client" where
  "with_world w s = s\<lparr>cs_world := w\<rparr>"

definition with_engine :: "('w, 'k) engine \<Rightarrow> ('w, 'k, 'a) connect_client \<Rightarrow> ('w, 'k, 'a) connect_client" where
  "with_engine e s = s\<lparr>cs_engine := Some e, cs_world := en_world e\<rparr>"

definition cs_Engine :: "('w, 'k, 'a) connect_client option \<Rightarrow> ('w, 'k) engine option" where
  "cs_Engine s = (case s of None \<Rightarrow> None | Some c \<Rightarrow> map_option (\<lambda>e. e\<lparr>en_world := cs_world c\<rparr>) (cs_engine c))"

definition cs_GetLatestSyncResponse :: "('w, 'k, 'a) connect_client \<Rightarrow> sync_response result" where
  "cs_GetLatestSyncResponse s =
     (case cs_Engine (Some s) of
        None \<Rightarrow> Inl (ErrMsg ''engine is not initialized'')
      | Some e \<Rightarrow>
        (case GetLatestSyncResponse e of
           Inl err \<Rightarrow> Inl (ErrWrap ''get latest sync response'' err)
         | Inr None \<Rightarrow> Inl (ErrMsg ''sync response is not available'')
         | Inr (Some r) \<Rightarrow> Inr r))"

definition cs_Status :: "('w, 'k, 'c, 'q, 'i, 'p, 'd, 'x, 's, 'a) cn_env \<Rightarrow> ('w, 'k, 'a) connect_client option \<Rightarrow> status_type" where
  "cs_Status N s =
     (case s of
        None \<Rightarrow> StatusIdle
      | Some c \<Rightarrow> (case st_Status N (cs_state c) of (st, Some e) \<Rightarrow> StatusIdle | (st, None) \<Rightarrow> st))"

definition cs_Stop ::
    "('w, 'k, 'c, 'q, 'i, 'p, 'd, 'x, 's, 'a) cn_env \<Rightarrow> ('w, 'k, 'a) connect_client \<Rightarrow> go_error option \<times> ('w, 'k, 'a) connect_client" where
  "cs_Stop N s =
     (case cs_Engine (Some s) of
        None \<Rightarrow> (None, s)
      | Some e \<Rightarrow>
        (case engine_Stop (cn_life N) e of
           (Some err, e') \<Rightarrow> (Some (ErrWrap ''stop engine'' err), with_engine e' s)
         | (None, e') \<Rightarrow> (None, with_engine e' s)))"

definition cs_SetSyncResponsePersistence :: "bool \<Rightarrow> ('w, 'k, 'a) connect_client \<Rightarrow> ('w, 'k, 'a) connect_client" where
  "cs_SetSyncResponsePersistence enabled s =
     (let s1 = s\<lparr>cs_persistSyncResponse := enabled\<rparr> in
      case cs_Engine (Some s1) of
        None \<Rightarrow> s1
      | Some e \<Rightarrow> with_engine (SetSyncResponsePersistence enabled e) s1)"

section \<open>One attempt\<close>

type_synonym ('w, 'k, 'a) attempt = "(go_error option \<times> ('w, 'k, 'a) connect_client) option"

definition deferred :: "(('w, 'k, 'a) connect_client \<Rightarrow> ('w, 'k, 'a) connect_client) \<Rightarrow> ('w, 'k, 'a) attempt \<Rightarrow> ('w, 'k, 'a) attempt" where
  "deferred f r = map_option (\<lambda>(err, s). (err, f s)) r"

definition set_status ::
    "('w, 'k, 'c, 'q, 'i, 'p, 'd, 'x, 's, 'a) cn_env \<Rightarrow> status_type \<Rightarrow> ('w, 'k, 'a) connect_client \<Rightarrow> ('w, 'k, 'a) connect_client" where
  "set_status N st s = s\<lparr>cs_state := st_Set N st (cs_state s)\<rparr>"

definition wrapErr ::
    "('w, 'k, 'c, 'q, 'i, 'p, 'd, 'x, 's, 'a) cn_env \<Rightarrow> go_error \<Rightarrow> ('w, 'k, 'a) connect_client \<Rightarrow> go_error option \<times> ('w, 'k, 'a) connect_client" where
  "wrapErr N err s = (let (e, st) = st_Wrap N err (cs_state s) in (Some e, s\<lparr>cs_state := st\<rparr>))"

definition on_recorder :: "('w \<Rightarrow> 'w) \<Rightarrow> ('w, 'k, 'a) connect_client \<Rightarrow> ('w, 'k, 'a) connect_client" where
  "on_recorder f s = s\<lparr>cs_world := f (cs_world s)\<rparr>"

text \<open>The end of the operation, once the context of the engine is done.\<close>

definition engine_finished ::
    "('w, 'k, 'c, 'q, 'i, 'p, 'd, 'x, 's, 'a) cn_env \<Rightarrow> ('w, 'k) engine \<Rightarrow> ('w, 'k, 'a) connect_client \<Rightarrow> ('w, 'k, 'a) attempt" where
  "engine_finished N e s =
     (let s1 = s\<lparr>cs_engine := None, cs_world := en_world e\<rparr>;
          s2 = (if en_wgInterface e \<noteq> None then with_world (en_world (snd (engine_Stop (cn_life N) e))) s1 else s1);
          s3 = on_recorder (ClientTeardown N) s2
      in case snd (st_Status N (cs_state s3)) of
           Some err \<Rightarrow> Some (if errors_Is err ErrResetConnection then Some err else None, s3)
         | None \<Rightarrow> Some (None, s3))"

definition run_engine ::
    "('w, 'k, 'c, 'q, 'i, 'p, 'd, 'x, 's, 'a) cn_env \<Rightarrow> (('w, 'k) engine \<times> 'a \<Rightarrow> (('w, 'k) engine \<times> 'a) option) \<Rightarrow> login_response
     \<Rightarrow> engine_config \<Rightarrow> ('w, 'k, 'a) connect_client \<Rightarrow> ('w, 'k, 'a) attempt" where
  "run_engine N engine_runs loginResp engineConfig s =
     (let e0 = SetSyncResponsePersistence (cs_persistSyncResponse s) (NewEngine engineConfig (lr_Checks loginResp) (cs_world s)) in
      case engine_Start (cn_life N) (map_option netbird_config.truncate (lr_NetbirdConfig loginResp))
             (Some (cf_ManagementURL (cs_config s))) e0 of
        None \<Rightarrow> None
      | Some (Some err, e1) \<Rightarrow> Some (wrapErr N err (with_engine e1 s))
      | Some (None, e1) \<Rightarrow>
        (let s1 = set_status N StatusConnected (with_engine e1 s);
             s2 = (if cs_runningChan s1 then s1\<lparr>cs_runningChan := False, cs_runningClosed := Suc (cs_runningClosed s1)\<rparr> else s1)
         in case engine_runs (e1, cs_state s2) of
              None \<Rightarrow> None
            | Some (e2, st) \<Rightarrow> engine_finished N e2 (s2\<lparr>cs_state := st\<rparr>)))"

definition run_relay ::
    "('w, 'k, 'c, 'q, 'i, 'p, 'd, 'x, 's, 'a) cn_env \<Rightarrow> (('w, 'k) engine \<times> 'a \<Rightarrow> (('w, 'k) engine \<times> 'a) option) \<Rightarrow> wgkey
     \<Rightarrow> login_response \<Rightarrow> ('w, 'k, 'a) connect_client \<Rightarrow> ('w, 'k, 'a) attempt" where
  "run_relay N engine_runs myPrivateKey loginResp s =
     (let (relayURLs, token) = parseRelayInfo loginResp; E = le_eng (cn_life N) in
      case createEngineConfig N myPrivateKey (cs_config s) (lr_PeerConfig loginResp) (cs_world s) of
        None \<Rightarrow> None
      | Some (Inl err, w1) \<Rightarrow> Some (wrapErr N err (with_world w1 s))
      | Some (Inr engineConfig, w1) \<Rightarrow>
        (let w2 = SetRelayMgr N relayURLs (mg_KeyString (cn_mg N) (mg_PublicKey (cn_mg N) myPrivateKey)) (ec_MTU engineConfig) w1 in
         if relayURLs = [] then run_engine N engine_runs loginResp engineConfig (with_world w2 s)
         else (case (case token of None \<Rightarrow> (None, w2) | Some (p, g) \<Rightarrow> relay_UpdateToken E p g w2) of
                 (Some err, w3) \<Rightarrow> Some (wrapErr N err (with_world w3 s))
               | (None, w3) \<Rightarrow>
                   run_engine N engine_runs loginResp engineConfig (with_world (snd (relay_Serve E w3)) s))))"

definition proto_String :: "host_protocol \<Rightarrow> string" where
  "proto_String p = (case p of UDP \<Rightarrow> ''UDP'' | TCP \<Rightarrow> ''TCP'' | HTTP \<Rightarrow> ''HTTP'' | HTTPS \<Rightarrow> ''HTTPS'' | DTLS \<Rightarrow> ''DTLS'')"

text \<open>The getters of a missing message return zero values; the zero value of the protocol is \<^verbatim>\<open>UDP\<close>.\<close>

definition signal_address :: "login_response \<Rightarrow> string" where
  "signal_address loginResp =
     (case Option.bind (lr_NetbirdConfig loginResp) gc_Signal of
        None \<Rightarrow> strings_ToLower (proto_String UDP) @ ''://''
      | Some h \<Rightarrow> strings_ToLower (proto_String (hc_Protocol h)) @ ''://'' @ hc_Uri h)"

definition run_signal ::
    "('w, 'k, 'c, 'q, 'i, 'p, 'd, 'x, 's, 'a) cn_env \<Rightarrow> (('w, 'k) engine \<times> 'a \<Rightarrow> (('w, 'k) engine \<times> 'a) option) \<Rightarrow> wgkey
     \<Rightarrow> login_response \<Rightarrow> ('w, 'k, 'a) connect_client \<Rightarrow> ('w, 'k, 'a) attempt" where
  "run_signal N engine_runs myPrivateKey loginResp s =
     (let E = le_eng (cn_life N);
          w1 = rec_MgmtConnected N (cs_world s);
          w2 = UpdateLocalPeerState E
                 \<lparr>ls_IP = (case lr_PeerConfig loginResp of None \<Rightarrow> [] | Some pc \<Rightarrow> pc_Address pc),
                  ls_PubKey = mg_KeyString (cn_mg N) (mg_PublicKey (cn_mg N) myPrivateKey),
                  ls_KernelInterface = WireGuardModuleIsLoaded E w1,
                  ls_FQDN = (case lr_PeerConfig loginResp of None \<Rightarrow> [] | Some pc \<Rightarrow> pc_Fqdn pc)\<rparr> w1;
          w3 = rec_SignalDisconnected N None (UpdateSignalAddress N (signal_address loginResp) w2)
      in deferred (\<lambda>s. on_recorder (rec_SignalDisconnected N (snd (st_Status N (cs_state s)))) s)
           (case connectToSignal N (lr_NetbirdConfig loginResp) myPrivateKey w3 of
              None \<Rightarrow> None
            | Some (Inl err, w4) \<Rightarrow> Some (wrapErr N err (with_world w4 s))
            | Some (Inr signalClient, w4) \<Rightarrow>
                deferred (\<lambda>s. with_world (sc_world (snd (sc_Close (cn_sc N)
                    (sc_SetConnStateListener (statusRecorderToSignalConnStateNotifier N) signalClient\<lparr>sc_world := cs_world s\<rparr>)))) s)
                  (run_relay N engine_runs myPrivateKey loginResp (with_world (rec_SignalConnected N w4) s))))"

definition run_login ::
    "('w, 'k, 'c, 'q, 'i, 'p, 'd, 'x, 's, 'a) cn_env \<Rightarrow> (('w, 'k) engine \<times> 'a \<Rightarrow> (('w, 'k) engine \<times> 'a) option) \<Rightarrow> wgkey
     \<Rightarrow> byte list \<Rightarrow> 'w mg_client \<Rightarrow> ('w, 'k, 'a) connect_client \<Rightarrow> ('w, 'k, 'a) attempt" where
  "run_login N engine_runs myPrivateKey publicSSHKey mgmClient s =
     (case loginToManagement N mgmClient publicSSHKey (cs_config s) (cs_world s) of
        None \<Rightarrow> None
      | Some (Inl err, w1) \<Rightarrow>
        (if has_code (mg_FromError (cn_mg N)) PermissionDenied (Some err) then
           (let s1 = set_status N StatusNeedsLogin (with_world w1 s);
                s2 = snd (cs_Stop N s1);
                (e, s3) = wrapErr N err s2
            in Some (map_option ErrPermanent e, s3))
         else Some (wrapErr N err (with_world w1 s)))
      | Some (Inr loginResp, w1) \<Rightarrow> run_signal N engine_runs myPrivateKey loginResp (with_world w1 s))"

text \<open>The operation that is retried.\<close>

definition run_operation ::
    "('w, 'k, 'c, 'q, 'i, 'p, 'd, 'x, 's, 'a) cn_env \<Rightarrow> (('w, 'k) engine \<times> 'a \<Rightarrow> (('w, 'k) engine \<times> 'a) option) \<Rightarrow> wgkey
     \<Rightarrow> byte list \<Rightarrow> ('w, 'k, 'a) connect_client \<Rightarrow> ('w, 'k, 'a) attempt" where
  "run_operation N engine_runs myPrivateKey publicSSHKey s =
     (if ctx_Err N (cs_world s) \<noteq> None then Some (None, s)
      else
        (let s1 = set_status N StatusConnecting s; tls = (cf_ManagementScheme (cs_config s) = ''https'') in
         deferred (\<lambda>s. on_recorder (\<lambda>w. CleanLocalPeerState N (rec_MgmtDisconnected N (snd (st_Status N (cs_state s))) w)) s)
           (case mgmt_NewClient (RetryConnect N) (mgm_CreateConnection N (cf_ManagementHost (cs_config s)) tls) myPrivateKey (cs_world s1) of
              None \<Rightarrow> None
            | Some (Inl err, w1) \<Rightarrow>
                Some (wrapErr N (ErrStatus FailedPrecondition ''failed connecting to Management Service'') (with_world w1 s1))
            | Some (Inr c, w1) \<Rightarrow>
                deferred (\<lambda>s. with_world (snd (mg_Close (cn_mg N) (cs_world s))) s)
                  (run_login N engine_runs myPrivateKey publicSSHKey
                    (mg_SetConnStateListener (statusRecorderToMgmConnStateNotifier N) c) (with_world w1 s1)))))"

text \<open>\<^verbatim>\<open>Retry\<close> is the loop around the operation; the deferred functions of \<^verbatim>\<open>run\<close> set the final status and stop the recorder.\<close>

definition final_status ::
    "('w, 'k, 'c, 'q, 'i, 'p, 'd, 'x, 's, 'a) cn_env \<Rightarrow> ('w, 'k, 'a) connect_client \<Rightarrow> ('w, 'k, 'a) connect_client" where
  "final_status N s =
     (case st_Status N (cs_state s) of
        (st, err) \<Rightarrow> if err \<noteq> None \<or> st \<noteq> StatusNeedsLogin then set_status N StatusIdle s else s)"

definition connect_run ::
    "('w, 'k, 'c, 'q, 'i, 'p, 'd, 'x, 's, 'a) cn_env \<Rightarrow> (('w, 'k) engine \<times> 'a \<Rightarrow> (('w, 'k) engine \<times> 'a) option)
     \<Rightarrow> (('w, 'k, 'a) connect_client operation \<Rightarrow> ('w, 'k, 'a) connect_client operation) \<Rightarrow> bool \<Rightarrow> ('w, 'k, 'a) connect_client
     \<Rightarrow> ('w, 'k, 'a) attempt" where
  "connect_run N engine_runs Retry runningChan s0 =
     (let s = on_recorder (nbnet_Init N) (s0\<lparr>cs_runningChan := runningChan\<rparr>) in
      deferred (final_status N)
        (case mg_ParseKey (cn_mg N) (cf_PrivateKey (cs_config s)) of
           Inl err \<Rightarrow> Some (wrapErr N err s)
         | Inr myPrivateKey \<Rightarrow>
           (case GeneratePublicKey N (cf_SSHKey (cs_config s)) of
              Inl err \<Rightarrow> Some (Some err, s)
            | Inr publicSSHKey \<Rightarrow>
                deferred (on_recorder (ClientStop N))
                  (case Retry (run_operation N engine_runs myPrivateKey publicSSHKey) (on_recorder (ClientStart N) s) of
                     None \<Rightarrow> None
                   | Some (None, s1) \<Rightarrow> Some (None, s1)
                   | Some (Some err, s1) \<Rightarrow>
                       (if has_code (mg_FromError (cn_mg N)) PermissionDenied (Some err)
                        then Some (Some err, snd (cs_Stop N (set_status N StatusNeedsLogin s1)))
                        else Some (Some err, s1))))))"

definition connect_Run ::
    "('w, 'k, 'c, 'q, 'i, 'p, 'd, 'x, 's, 'a) cn_env \<Rightarrow> (('w, 'k) engine \<times> 'a \<Rightarrow> (('w, 'k) engine \<times> 'a) option)
     \<Rightarrow> (('w, 'k, 'a) connect_client operation \<Rightarrow> ('w, 'k, 'a) connect_client operation) \<Rightarrow> bool \<Rightarrow> ('w, 'k, 'a) connect_client
     \<Rightarrow> ('w, 'k, 'a) attempt" where
  "connect_Run N engine_runs Retry runningChan = connect_run N engine_runs Retry runningChan"

section \<open>What an attempt keeps\<close>

text \<open>
  No engine with a tunnel device stays with the client, the caller's channel is closed at most once, and the configuration
  and the persistence setting stay as they are.
\<close>

definition idle_engine :: "('w, 'k, 'a) connect_client \<Rightarrow> bool" where
  "idle_engine s = (case cs_engine s of None \<Rightarrow> True | Some e \<Rightarrow> no_device e)"

definition chan_budget :: "('w, 'k, 'a) connect_client \<Rightarrow> nat" where
  "chan_budget s = cs_runningClosed s + of_bool (cs_runningChan s)"

definition keeps :: "('w, 'k, 'a) connect_client \<Rightarrow> ('w, 'k, 'a) connect_client \<Rightarrow> bool" where
  "keeps s s' \<longleftrightarrow> (idle_engine s \<longrightarrow> idle_engine s') \<and> chan_budget s' = chan_budget s \<and> cs_runningClosed s \<le> cs_runningClosed s'
     \<and> cs_config s' = cs_config s \<and> cs_persistSyncResponse s' = cs_persistSyncResponse s"

lemma keeps_refl [simp]: "keeps s s"
  by (simp add: keeps_def)

lemma keeps_trans: "keeps s t \<Longrightarrow> keeps t u \<Longrightarrow> keeps s u"
  by (auto simp: keeps_def)

lemma keeps_ops [simp]:
  "keeps s (with_world w s)" "keeps s (on_recorder f s)" "keeps s (set_status N st s)" "keeps s (snd (wrapErr N e s))"
  "keeps s (final_status N s)"
  by (auto simp: keeps_def idle_engine_def chan_budget_def with_world_def on_recorder_def set_status_def wrapErr_def
      final_status_def split_def Let_def)

definition kept :: "('w, 'k, 'a) connect_client \<Rightarrow> ('w, 'k, 'a) attempt \<Rightarrow> bool" where
  "kept s r = (case r of None \<Rightarrow> True | Some (err, s') \<Rightarrow> keeps s s')"

lemma kept_None [simp]: "kept s None"
  by (simp add: kept_def)

lemma kept_Some [simp]: "kept s (Some p) \<longleftrightarrow> keeps s (snd p)"
  by (simp add: kept_def split_def)

lemma kept_trans: "keeps s t \<Longrightarrow> kept t r \<Longrightarrow> kept s r"
  by (auto simp: kept_def split: option.splits intro: keeps_trans)

lemma kept_deferred: "kept s r \<Longrightarrow> (\<And>t. keeps t (f t)) \<Longrightarrow> kept s (deferred f r)"
  by (auto simp: kept_def deferred_def split: option.splits intro: keeps_trans)

lemma kept_wrapErr: "keeps s t \<Longrightarrow> kept s (Some (wrapErr N e t))"
  by (auto intro: keeps_trans)

lemma new_engine_no_device: "no_device (SetSyncResponsePersistence b (NewEngine c cs w))"
  by (simp add: SetSyncResponsePersistence_def NewEngine_def no_device_def Let_def)

lemma Start_failure_no_device:
  assumes "engine_Start L cfg url (SetSyncResponsePersistence b (NewEngine c cs w)) = Some (Some err, e)"
  shows "no_device e"
  using engine_Start_outcome [OF assms] new_engine_no_device [of b c cs w] by (auto simp: start_outcome_def no_device_def)

lemma kept_run_engine:
  fixes s :: "('w, 'k, 'a) connect_client"
  shows "kept s (run_engine N engine_runs lr conf s)"
proof -
  define e0 :: "('w, 'k) engine" where "e0 = SetSyncResponsePersistence (cs_persistSyncResponse s) (NewEngine conf (lr_Checks lr) (cs_world s))"
  show ?thesis
  proof (cases "engine_Start (cn_life N) (map_option netbird_config.truncate (lr_NetbirdConfig lr))
             (Some (cf_ManagementURL (cs_config s))) e0")
    case None
    then show ?thesis by (simp add: run_engine_def e0_def [symmetric])
  next
    case (Some p)
    obtain r e1 where p: "p = (r, e1)" by (cases p)
    show ?thesis
    proof (cases r)
      case (Some err)
      have "no_device e1"
        using \<open>_ = Some p\<close> p Some unfolding e0_def by (blast intro: Start_failure_no_device)
      then have "keeps s (with_engine e1 s)"
        by (simp add: keeps_def with_engine_def idle_engine_def chan_budget_def)
      then show ?thesis
        using \<open>_ = Some p\<close> p Some by (simp add: run_engine_def e0_def [symmetric] kept_wrapErr [simplified])
    next
      case None
      have *: "kept s (engine_finished N e2 t)"
        if "chan_budget t = chan_budget s" "cs_runningClosed s \<le> cs_runningClosed t" "cs_config t = cs_config s"
          "cs_persistSyncResponse t = cs_persistSyncResponse s" for e2 t
        using that by (auto simp: engine_finished_def Let_def keeps_def idle_engine_def chan_budget_def with_world_def
            on_recorder_def split: option.splits)
      show ?thesis
        using \<open>_ = Some p\<close> p None
        by (auto simp: run_engine_def e0_def [symmetric] Let_def chan_budget_def set_status_def with_engine_def
            split: option.splits intro!: *)
    qed
  qed
qed

lemma kept_run_relay: "kept s (run_relay N engine_runs k lr s)"
  by (auto simp: run_relay_def Let_def split: option.splits sum.splits prod.splits
      intro: kept_trans [OF keeps_ops(1) kept_run_engine] keeps_trans [OF keeps_ops(1) keeps_ops(4)])

lemma kept_run_signal: "kept s (run_signal N engine_runs k lr s)"
  unfolding run_signal_def Let_def
  by (rule kept_deferred)
    (auto split: option.splits sum.splits intro!: kept_deferred intro: kept_trans [OF keeps_ops(1) kept_run_relay]
      keeps_trans [OF keeps_ops(1) keeps_ops(4)])

text \<open>Stopping an engine leaves it without a device.\<close>

lemma keeps_Stop:
  assumes "store_laws (ee_peers (le_eng (cn_life N))) conf"
  shows "keeps s (snd (cs_Stop N s))"
proof (cases "cs_Engine (Some s)")
  case (Some e)
  obtain r e' where stop: "engine_Stop (cn_life N) e = (r, e')" by fastforce
  then have "no_device e'" using engine_Stop_spec [OF assms stop] by (simp add: no_device_def)
  then show ?thesis
    using Some stop by (auto simp: cs_Stop_def keeps_def with_engine_def idle_engine_def chan_budget_def split: option.splits)
qed (simp add: cs_Stop_def)

lemma kept_run_login:
  assumes "store_laws (ee_peers (le_eng (cn_life N))) conf"
  shows "kept s (run_login N engine_runs k ssh c s)"
proof -
  have denied: "keeps s (snd (wrapErr N e (snd (cs_Stop N (set_status N st (with_world w s))))))" for e st w
    by (rule keeps_trans [OF keeps_trans [OF keeps_trans [OF keeps_ops(1) keeps_ops(3)] keeps_Stop [OF assms]] keeps_ops(4)])
  show ?thesis
    using denied
    by (auto simp: run_login_def Let_def split_def split: option.splits sum.splits
        intro: kept_trans [OF keeps_ops(1) kept_run_signal] keeps_trans [OF keeps_ops(1) keeps_ops(4)])
qed

lemma kept_run_operation:
  assumes "store_laws (ee_peers (le_eng (cn_life N))) conf"
  shows "kept s (run_operation N engine_runs k ssh s)"
proof (cases "ctx_Err N (cs_world s) = None")
  case True
  have "kept (set_status N StatusConnecting s) (run_operation N engine_runs k ssh s)"
    using True unfolding run_operation_def Let_def
    by (auto intro!: kept_deferred split: option.splits sum.splits
        intro: kept_trans [OF keeps_ops(1) kept_run_login [OF assms]] keeps_trans [OF keeps_ops(1) keeps_ops(4)])
  then show ?thesis by (rule kept_trans [OF keeps_ops(3)])
qed (simp add: run_operation_def)

section \<open>Running the client\<close>

lemma connect_run_idle:
  assumes "store_laws (ee_peers (le_eng (cn_life N))) conf" and "retry_contract Retry pause"
    and "\<forall>s s'. pause s s' \<longrightarrow> keeps s s'" and "idle_engine s" and "cs_runningClosed s = 0"
    and "connect_run N engine_runs Retry runningChan s = Some (r, s')"
  shows "idle_engine s' \<and> cs_runningClosed s' \<le> of_bool runningChan \<and> cs_config s' = cs_config s"
proof -
  let ?s0 = "s\<lparr>cs_runningChan := runningChan\<rparr>"
  have retry: "kept t (Retry (run_operation N engine_runs k ssh) t)" for k ssh t
  proof (cases "Retry (run_operation N engine_runs k ssh) t")
    case (Some p)
    obtain r' t' where p: "p = (r', t')" by (cases p)
    have "retried (run_operation N engine_runs k ssh) pause t r' t'"
      using retry_contractD [OF assms(2)] Some p by blast
    then have "keeps t t'"
    proof (rule retried_invariant [where I = "keeps t"])
      fix u r u'
      assume "keeps t u" "run_operation N engine_runs k ssh u = Some (r, u')"
      then show "keeps t u'" using kept_run_operation [OF assms(1), of u engine_runs k ssh] by (auto intro: keeps_trans)
    qed (use assms(3) in \<open>auto intro: keeps_trans\<close>)
    then show ?thesis using Some p by simp
  qed simp
  have "kept ?s0 (connect_run N engine_runs Retry runningChan s)"
    unfolding connect_run_def Let_def
  proof (rule kept_trans [OF keeps_ops(2) [of ?s0 "nbnet_Init N"]], rule kept_deferred, goal_cases)
    case 1
    let ?s = "on_recorder (nbnet_Init N) ?s0"
    have ok: "kept ?s (case Retry (run_operation N engine_runs k ssh) (on_recorder (ClientStart N) ?s) of
                     None \<Rightarrow> None
                   | Some (None, s1) \<Rightarrow> Some (None, s1)
                   | Some (Some err, s1) \<Rightarrow>
                       (if has_code (mg_FromError (cn_mg N)) PermissionDenied (Some err)
                        then Some (Some err, snd (cs_Stop N (set_status N StatusNeedsLogin s1)))
                        else Some (Some err, s1)))" for k ssh
      using kept_trans [OF keeps_ops(2) [of ?s "ClientStart N"] retry [of _ k ssh]]
        keeps_trans [OF _ keeps_trans [OF keeps_ops(3) keeps_Stop [OF assms(1)]]]
      by (auto split: option.splits)
    show ?case
      by (auto split: sum.splits intro!: kept_deferred ok)
  qed simp
  then have "keeps ?s0 s'"
    using assms(6) by simp
  then show ?thesis
    using assms(4,5) by (auto simp: keeps_def idle_engine_def chan_budget_def)
qed

text \<open>C13. 
  However the client runs and however often it starts over, no engine that it keeps holds a tunnel device when it returns,
  and the channel of the caller has been closed once at most. While the loop sleeps, other callers may use the client as long as
  they respect the same.
\<close>

theorem connect_run_keeps:
  assumes "store_laws (ee_peers (le_eng (cn_life N))) conf" and "retry_contract Retry pause"
    and "\<forall>s s'. pause s s' \<longrightarrow> keeps s s'" and "idle_engine s" and "cs_runningClosed s = 0"
    and "connect_run N engine_runs Retry runningChan s = Some (r, s')"
  shows "idle_engine s' \<and> cs_runningClosed s' \<le> of_bool runningChan \<and> cs_config s' = cs_config s"
  using assms by (rule connect_run_idle)

text \<open>
  The state object of the context: setting a status clears the error, and wrapping an error keeps the status and returns the
  error.
\<close>

definition state_laws :: "('w, 'k, 'c, 'q, 'i, 'p, 'd, 'x, 's, 'a) cn_env \<Rightarrow> bool" where
  "state_laws N \<longleftrightarrow> (\<forall>st a. st_Status N (st_Set N st a) = (st, None))
     \<and> (\<forall>e a. fst (st_Wrap N e a) = e \<and> st_Status N (snd (st_Wrap N e a)) = (fst (st_Status N a), Some e))"

lemma cs_Stop_state [simp]: "cs_state (snd (cs_Stop N s)) = cs_state s"
  by (simp add: cs_Stop_def with_engine_def split: option.splits prod.splits)

text \<open>When the client returns, its status is \<^verbatim>\<open>Idle\<close> or \<^verbatim>\<open>NeedsLogin\<close>, without an error.\<close>

theorem connect_run_final_status:
  assumes "state_laws N" and "connect_run N engine_runs Retry runningChan s = Some (r, s')"
  shows "st_Status N (cs_state s') \<in> {(StatusIdle, None), (StatusNeedsLogin, None)}"
proof -
  obtain t where "s' = final_status N t"
    using assms(2) by (auto simp: connect_run_def Let_def deferred_def)
  then show ?thesis
    using assms(1) by (auto simp: final_status_def state_laws_def set_status_def split: prod.splits)
qed

text \<open>C14. 
  A login that the management service denies ends the loop at once: the client returns that error, the engine it may have
  is stopped, and the status asks for a login.
\<close>

theorem denied_login_needs_login:
  assumes "state_laws N" and "retry_contract Retry pause"
    and "mg_ParseKey (cn_mg N) (cf_PrivateKey (cs_config s)) = Inr key" and "GeneratePublicKey N (cf_SSHKey (cs_config s)) = Inr ssh"
    and "ctx_Err N (ClientStart N (nbnet_Init N (cs_world s))) = None"
    and "mgmt_NewClient (RetryConnect N) (mgm_CreateConnection N (cf_ManagementHost (cs_config s))
           (cf_ManagementScheme (cs_config s) = ''https'')) key (ClientStart N (nbnet_Init N (cs_world s))) = Some (Inr c, w1)"
    and "loginToManagement N (mg_SetConnStateListener (statusRecorderToMgmConnStateNotifier N) c) ssh (cs_config s) w1 = Some (Inl e, w2)"
    and "has_code (mg_FromError (cn_mg N)) PermissionDenied (Some e)"
  shows "\<exists>s'. connect_run N engine_runs Retry runningChan s = Some (Some e, s')
     \<and> st_Status N (cs_state s') = (StatusNeedsLogin, None) \<and> cs_Status N (Some s') = StatusNeedsLogin"
proof -
  define s1 where "s1 = on_recorder (ClientStart N) (on_recorder (nbnet_Init N) (s\<lparr>cs_runningChan := runningChan\<rparr>))"
  have s1: "cs_world s1 = ClientStart N (nbnet_Init N (cs_world s))" "cs_config s1 = cs_config s"
    by (simp_all add: s1_def on_recorder_def)
  have "\<exists>s2. run_operation N engine_runs key ssh s1 = Some (Some (ErrPermanent e), s2)"
    using assms(1,5-8)
    by (simp add: run_operation_def s1 Let_def set_status_def run_login_def with_world_def deferred_def wrapErr_def
        state_laws_def split_def)
  then obtain s2 where "run_operation N engine_runs key ssh s1 = Some (Some (ErrPermanent e), s2)" by blast
  then have "Retry (run_operation N engine_runs key ssh) s1 = Some (Some e, s2)"
    by (rule retry_permanent [OF assms(2)]) simp
  then have run: "connect_run N engine_runs Retry runningChan s =
      Some (Some e, final_status N (on_recorder (ClientStop N) (snd (cs_Stop N (set_status N StatusNeedsLogin s2)))))"
    using assms(3,4,8) by (simp add: connect_run_def Let_def s1_def on_recorder_def deferred_def)
  have st: "st_Status N (cs_state (on_recorder (ClientStop N) (snd (cs_Stop N (set_status N StatusNeedsLogin s2))))) = (StatusNeedsLogin, None)"
    using assms(1) by (simp add: on_recorder_def set_status_def state_laws_def)
  then have "final_status N (on_recorder (ClientStop N) (snd (cs_Stop N (set_status N StatusNeedsLogin s2))))
      = on_recorder (ClientStop N) (snd (cs_Stop N (set_status N StatusNeedsLogin s2)))"
    by (simp add: final_status_def)
  then show ?thesis
    using run st by (simp add: cs_Status_def)
qed

text \<open>
  A login response without the address of the signal service makes the client panic: the section is dereferenced without a
  check.
\<close>

theorem login_without_signal_panics:
  assumes "loginToManagement N c ssh (cs_config s) (cs_world s) = Some (Inr lr, w)"
    and "Option.bind (lr_NetbirdConfig lr) gc_Signal = None"
  shows "run_login N engine_runs key ssh c s = None"
  using assms by (simp add: run_login_def run_signal_def Let_def connectToSignal_def deferred_def)

lemma selectMTU_value:
  "unat (fst (selectMTU f m p w)) =
     (if m \<noteq> 0 then unat m else if sint p > 0 then nat (sint p) mod 65536 else 1280)"
proof -
  have "take_bit 16 (sint p) = take_bit 16 (uint p)"
    by (simp add: sint_uint take_bit_signed_take_bit)
  then have "uint (ucast p :: 16 word) = sint p mod 65536"
    by (simp add: unsigned_ucast_eq take_bit_eq_mod)
  then have "unat (ucast p :: 16 word) = nat (sint p) mod 65536" if "sint p > 0"
    using that by (simp add: nat_mod_distrib flip: nat_uint_eq)
  then show ?thesis
    by (auto simp: selectMTU_def Let_def DefaultMTU_def word_gt_0)
qed

lemma createEngineConfig_MTU:
  assumes "createEngineConfig N key cfg (Some pc) w = Some (Inr conf, w')"
  shows "ec_MTU conf = fst (selectMTU (SetCurrentMTU N) (cf_MTU cfg) (pc_Mtu pc) w)"
  using assms by (auto simp: createEngineConfig_def Let_def split: prod.splits sum.splits)

text \<open>C27. 
  The MTU of the engine: a local setting wins over the one of the management service, which is reduced modulo 65536, and
  the default is 1280. An engine that starts with the configuration has an MTU between 576 and 8192.
\<close>

theorem engine_MTU_bounds:
  assumes "createEngineConfig N key cfg (Some pc) w = Some (Inr conf, w')"
  shows "unat (ec_MTU conf) =
      (if cf_MTU cfg \<noteq> 0 then unat (cf_MTU cfg) else if sint (pc_Mtu pc) > 0 then nat (sint (pc_Mtu pc)) mod 65536 else 1280)
    \<and> (engine_Start L g url (NewEngine conf checks w1) = Some (None, e) \<longrightarrow> 576 \<le> unat (ec_MTU conf) \<and> unat (ec_MTU conf) \<le> 8192)"
proof -
  have "ValidateMTU (ec_MTU conf) = None" if "engine_Start L g url (NewEngine conf checks w1) = Some (None, e)"
    using that by (cases "ValidateMTU (ec_MTU conf)") (simp_all add: engine_Start_def NewEngine_def)
  then show ?thesis
    by (auto simp: createEngineConfig_MTU [OF assms] selectMTU_value ValidateMTU_def MinMTU_def MaxMTU_def split: if_splits)
qed

lemma peer_MTU_cut:
  assumes "cf_MTU cfg = 0" and "pc_Mtu pc = 66816" and "createEngineConfig N key cfg (Some pc) w = Some (Inr conf, w')"
  shows "ec_MTU conf = 1280"
proof -
  have "unat (ec_MTU conf) = 1280"
    using selectMTU_value [of "SetCurrentMTU N" "cf_MTU cfg" "pc_Mtu pc" w] assms(1,2)
    by (simp add: createEngineConfig_MTU [OF assms(3)])
  then show ?thesis by (simp add: word_unat_eq_iff)
qed

section \<open>Witnesses\<close>

definition demo_config :: client_config where
  "demo_config = \<lparr>cf_PrivateKey = ''key'', cf_SSHKey = [], cf_ManagementScheme = ''https'', cf_ManagementHost = ''api:443'',
     cf_ManagementURL = ''https://api:443'', cf_WgIface = ''wt0'', cf_WgPort = 51820, cf_PreSharedKey = [],
     cf_NetworkMonitor = None, cf_IFaceBlackList = [], cf_DisableIPv6Discovery = False, cf_NATExternalIPs = [],
     cf_CustomDNSAddress = [], cf_RosenpassEnabled = False, cf_RosenpassPermissive = False, cf_ServerSSHAllowed = None,
     cf_EnableSSHRoot = None, cf_EnableSSHSFTP = None, cf_EnableSSHLocalPortForwarding = None,
     cf_EnableSSHRemotePortForwarding = None, cf_DisableSSHAuth = None, cf_DNSRouteInterval = 60, cf_DisableClientRoutes = False,
     cf_DisableServerRoutes = False, cf_DisableDNS = False, cf_DisableFirewall = False, cf_BlockLANAccess = False,
     cf_BlockInbound = True, cf_LazyConnectionEnabled = False, cf_MTU = 0, cf_DNSLabels = []\<rparr>"

definition quiet_sc_env :: "('w, unit) sc_env" where
  "quiet_sc_env =
     \<lparr>GetState = (\<lambda>w. Ready), WaitForStateChange = (\<lambda>s w. w), ConnectStream = (\<lambda>key w. (Inr (), w)),
      RegisteredHeader = (\<lambda>st w. (Inr [''1''], w)), stream_Recv = (\<lambda>st w. (Inl io_EOF, w)), stream_Send = (\<lambda>st m w. (None, w)),
      rpc_Send = (\<lambda>t m w. (None, w)), conn_Close = (\<lambda>w. (None, w)), FromError = plain_FromError, sc_ParseKey = (\<lambda>s. Inr []),
      sc_PublicKey = (\<lambda>k. k), sc_KeyString = base64_EncodeToString, EncryptMessage = (\<lambda>a b q w. (Inr [], w)),
      DecryptMessage = (\<lambda>a b q. Inl (ErrMsg ''cipher''))\<rparr>"

definition demo_peer :: login_peer_config where
  "demo_peer = \<lparr>pc_Address = ''10.0.0.9/16'', pc_SshConfig = False, pc_Fqdn = ''me'',
     pc_RoutingPeerDnsResolutionEnabled = False, pc_LazyConnectionEnabled = False, pc_Mtu = 1300\<rparr>"

definition demo_login_response :: "global_config option \<Rightarrow> login_response" where
  "demo_login_response g = \<lparr>lr_NetbirdConfig = g, lr_PeerConfig = Some demo_peer, lr_Checks = []\<rparr>"

definition demo_global :: "global_config option" where
  "demo_global = Some \<lparr>nc_Stuns = [], nc_Turns = [], nc_Relay = None, nc_Flow = None,
     gc_Signal = Some \<lparr>hc_Uri = ''sig:443'', hc_Protocol = HTTPS\<rparr>\<rparr>"

text \<open>The first argument is the answer to a login.\<close>

definition demo_cn_env :: "login_response result \<Rightarrow>
    (sample_world, sample_kernel, conn_config, port_info, unit, unit, unit, unit, unit, status_type \<times> go_error option) cn_env" where
  "demo_cn_env answer =
     \<lparr>cn_life = sample_life,
      cn_mg = (demo_mg_env one_map)\<lparr>rpc_Login := (\<lambda>t m w. case answer of Inl e \<Rightarrow> (Inl e, w) | Inr r \<Rightarrow> (Inr m, w)),
        mg_DecryptLogin := (\<lambda>k k' b. answer)\<rparr>,
      cn_sc = quiet_sc_env, st_Set = (\<lambda>st a. (st, None)), st_Status = (\<lambda>a. a), st_Wrap = (\<lambda>e a. (e, (fst a, Some e))),
      ctx_Err = (\<lambda>w. None), nbnet_Init = (\<lambda>w. w), GeneratePublicKey = (\<lambda>k. Inr []), ClientStart = (\<lambda>w. w), ClientStop = (\<lambda>w. w),
      ClientTeardown = (\<lambda>w. w), rec_MgmtDisconnected = (\<lambda>e w. w), rec_MgmtConnected = (\<lambda>w. w), rec_SignalDisconnected = (\<lambda>e w. w),
      rec_SignalConnected = (\<lambda>w. w), CleanLocalPeerState = (\<lambda>w. w), UpdateSignalAddress = (\<lambda>a w. w), SetRelayMgr = (\<lambda>u k m w. w),
      mgm_CreateConnection = (\<lambda>a b w. (None, w)), sig_CreateConnection = (\<lambda>a b w. (None, w)), RetryConnect = retry_times 1 id,
      RetryLogin = retry_times 1 id,
      GetInfoWithFlags = (\<lambda>cfg w. \<lparr>si_Hostname = [], si_GoOS = [], si_OS = [], si_OSVersion = [], si_Platform = [], si_Kernel = [],
        si_NetbirdVersion = [], si_UIVersion = [], si_KernelVersion = [], si_NetworkAddresses = [], si_SystemSerialNumber = [],
        si_SystemManufacturer = [], si_SystemProductName = [], si_EnvCloud = [], si_EnvPlatform = [], si_Files = [],
        si_flags = \<lparr>if_RosenpassEnabled = False, if_RosenpassPermissive = False, if_ServerSSHAllowed = False,
          if_DisableClientRoutes = False, if_DisableServerRoutes = False, if_DisableDNS = False, if_DisableFirewall = False,
          if_BlockLANAccess = False, if_BlockInbound = False, if_LazyConnectionEnabled = False, if_EnableSSHRoot = False,
          if_EnableSSHSFTP = False, if_EnableSSHLocalPortForwarding = False, if_EnableSSHRemotePortForwarding = False,
          if_DisableSSHAuth = False\<rparr>\<rparr>),
      SetCurrentMTU = (\<lambda>m w. w), ListenUDP = (\<lambda>p w. (Inr p, w)), CloseUDP = (\<lambda>w. w)\<rparr>"

abbreviation demo_start :: "(sample_world, sample_kernel, status_type \<times> go_error option) connect_client" where
  "demo_start \<equiv> NewConnectClient demo_config (StatusIdle, None) sample_store"

lemma demo_st_Status: "st_Status (demo_cn_env answer) a = a"
  by (simp add: demo_cn_env_def)

lemma demo_state_laws: "state_laws (demo_cn_env answer)"
  by (simp add: state_laws_def demo_cn_env_def)

abbreviation demo_run :: "login_response result \<Rightarrow> (sample_world, sample_kernel, status_type \<times> go_error option) attempt" where
  "demo_run answer \<equiv> connect_run (demo_cn_env answer) Some (retry_times 1 id) True demo_start"

lemma demo_run_returns:
  obtains s' where "demo_run (Inr (demo_login_response demo_global)) = Some (None, s')"
proof -
  have "map_option fst (demo_run (Inr (demo_login_response demo_global))) = Some None" by code_simp
  then show thesis using that by auto
qed

theorem connect_run_keeps_witness:
  "\<exists>s'. demo_run (Inr (demo_login_response demo_global)) = Some (None, s') \<and> idle_engine s' \<and> cs_runningClosed s' \<le> 1"
proof -
  obtain s' where s': "demo_run (Inr (demo_login_response demo_global)) = Some (None, s')" by (rule demo_run_returns)
  have laws: "store_laws (ee_peers (le_eng (cn_life (demo_cn_env (Inr (demo_login_response demo_global)))))) (\<lambda>c. c)"
    by (simp add: demo_cn_env_def sample_store_laws)
  have "idle_engine s' \<and> cs_runningClosed s' \<le> of_bool True \<and> cs_config s' = cs_config demo_start"
    by (rule connect_run_keeps [OF laws retry_times_contract _ _ _ s']) (simp_all add: NewConnectClient_def idle_engine_def)
  then show ?thesis
    using s' by simp
qed

theorem connect_run_final_status_witness:
  "\<exists>s'. demo_run (Inr (demo_login_response demo_global)) = Some (None, s')
     \<and> cs_state s' \<in> {(StatusIdle, None), (StatusNeedsLogin, None)}"
proof -
  obtain s' where s': "demo_run (Inr (demo_login_response demo_global)) = Some (None, s')" by (rule demo_run_returns)
  from connect_run_final_status [OF demo_state_laws s'] s' show ?thesis by (simp add: demo_st_Status)
qed

lemma demo_login_denied:
  "loginToManagement (demo_cn_env (Inl (ErrStatus PermissionDenied m))) c ssh demo_config w = Some (Inl (ErrStatus PermissionDenied m), w)"
  by (simp add: loginToManagement_def demo_cn_env_def demo_mg_env_def GetServerPublicKey_def mg_ready_def mg_Login_def mg_login_def
      login_operation_def plain_FromError_def has_code_def)

theorem denied_login_needs_login_witness:
  "\<exists>s'. demo_run (Inl (ErrStatus PermissionDenied ''expired'')) = Some (Some (ErrStatus PermissionDenied ''expired''), s')
     \<and> cs_state s' = (StatusNeedsLogin, None)"
proof -
  let ?N = "demo_cn_env (Inl (ErrStatus PermissionDenied ''expired''))"
  have "\<exists>s'. demo_run (Inl (ErrStatus PermissionDenied ''expired'')) = Some (Some (ErrStatus PermissionDenied ''expired''), s')
     \<and> st_Status ?N (cs_state s') = (StatusNeedsLogin, None) \<and> cs_Status ?N (Some s') = StatusNeedsLogin"
  proof (rule denied_login_needs_login [OF demo_state_laws retry_times_contract])
    show "mgmt_NewClient (RetryConnect ?N) (mgm_CreateConnection ?N (cf_ManagementHost (cs_config demo_start))
        (cf_ManagementScheme (cs_config demo_start) = ''https'')) [] (ClientStart ?N (nbnet_Init ?N (cs_world demo_start)))
      = Some (Inr \<lparr>mg_key = [], mg_connStateCallback = None\<rparr>, sample_store)"
      by (simp add: demo_cn_env_def mgmt_NewClient_def NewConnectClient_def)
    show "loginToManagement ?N (mg_SetConnStateListener (statusRecorderToMgmConnStateNotifier ?N)
        \<lparr>mg_key = [], mg_connStateCallback = None\<rparr>) [] (cs_config demo_start) sample_store
      = Some (Inl (ErrStatus PermissionDenied ''expired''), sample_store)"
      using demo_login_denied [of "''expired''"] by (simp add: NewConnectClient_def)
  qed (simp_all add: demo_cn_env_def demo_mg_env_def has_code_def plain_FromError_def)
  then show ?thesis
    unfolding demo_st_Status by blast
qed

theorem login_without_signal_panics_witness:
  "run_login (demo_cn_env (Inr (demo_login_response None))) Some [] [] demo_mg_client demo_start = None"
proof (rule login_without_signal_panics)
  show "loginToManagement (demo_cn_env (Inr (demo_login_response None))) demo_mg_client [] (cs_config demo_start) (cs_world demo_start)
    = Some (Inr (demo_login_response None), sample_store)"
    by (simp add: loginToManagement_def demo_cn_env_def demo_mg_env_def GetServerPublicKey_def mg_ready_def mg_Login_def mg_login_def
      login_operation_def my_message_def NewConnectClient_def)
qed (simp add: demo_login_response_def)

theorem engine_MTU_bounds_witness:
  "\<exists>conf w'. createEngineConfig (demo_cn_env (Inr (demo_login_response demo_global))) [] demo_config (Some demo_peer) sample_store
     = Some (Inr conf, w') \<and> unat (ec_MTU conf) = 1300"
proof -
  let ?c = "createEngineConfig (demo_cn_env (Inr (demo_login_response demo_global))) [] demo_config (Some demo_peer) sample_store"
  have "map_option (isl \<circ> fst) ?c = Some False" by code_simp
  then obtain conf w' where c: "?c = Some (Inr conf, w')"
    by auto (metis isl_def sum.exhaust)
  have "unat (ec_MTU conf) = (if cf_MTU demo_config \<noteq> 0 then unat (cf_MTU demo_config)
      else if sint (pc_Mtu demo_peer) > 0 then nat (sint (pc_Mtu demo_peer)) mod 65536 else 1280)"
    using engine_MTU_bounds [OF c, of sample_life None None "[]" sample_store sample_new] by (rule conjunct1)
  then have "unat (ec_MTU conf) = 1300"
    by (simp add: demo_config_def demo_peer_def)
  with c show ?thesis by blast
qed

end
