(* ===== verification/Cmd_Daemon.thy ===== *)
theory Cmd_Daemon
  imports Cmd_Options Connect_Client
begin

text \<open>
  The commands \<^verbatim>\<open>up\<close>, \<^verbatim>\<open>down\<close> and \<^verbatim>\<open>status\<close> (\<^verbatim>\<open>go/cmd\<close>): how they drive the daemon, or, in foreground mode, the client of
  \<open>Connect_Client\<close>.

  The daemon, the profile manager, the interactive login and the setting of flags from environment variables are outside the
  repository and are fields of \<open>up_env\<close>. \<open>us_calls\<close> is the log of the calls to the daemon with their answers, in order; it is
  what the theorems about the order of the calls speak about. \<open>us_out\<close> collects what the command prints to the user as its
  result; warnings and log messages are left out. \<^verbatim>\<open>WithBackOff\<close> is an argument with the contract of \<open>Grpc_Client\<close>; \<open>None\<close> means
  that the command does not return. The current user is constant.

  The theorems: a successful \<^verbatim>\<open>up\<close> has made exactly the calls status, configuration, logins, interactive login if asked for, up; the
  daemon is never told to connect before a login was accepted, whatever fails; every connection to the daemon is closed; a
  connected daemon is left alone unless the profile changed; an MTU out of range reaches the daemon before the command refuses
  it; a command in foreground mode leaves no device behind.
\<close>

section \<open>The daemon\<close>

record daemon_status =
  ds_Status :: string
  ds_LocalIP :: string

record daemon_login =
  dl_NeedsSSOLogin :: bool

datatype 't daemon_call =
    DialDaemon "go_error option"
  | CloseDaemon
  | CallStatus "daemon_status result"
  | CallDown "go_error option"
  | CallSetConfig "'t SetConfigRequest option" "go_error option"
  | CallLogin "'t LoginRequest" "daemon_login result"
  | CallSSO "go_error option"
  | CallUp string string "go_error option"

record ('w, 't, 'd) up_state =
  us_vars :: "'d up_vars"
  us_calls :: "'t daemon_call list"
  us_out :: "string list"
  us_world :: 'w

datatype cobra_command = rootCmd | upCmd

record ('w, 't, 'd) up_env =
  ue_GOOS :: string
  ue_SetFlagsFromEnvVars :: "cobra_command \<Rightarrow> 'd up_vars \<Rightarrow> 'd up_vars"
  ue_InitLog :: "go_error option"
  ue_Interfaces :: "string list result"
  ue_ValidateDomains :: "string list \<Rightarrow> 'd list result"
  ue_ToPunycodeList :: "'d list \<Rightarrow> string list"
  ue_durationpb_New :: "int \<Rightarrow> 't"
  ue_isUnixRunningDesktop :: bool
  ue_FindFirstLogPath :: string
  ue_user_Current :: "string result"
  ue_switchProfile :: "string \<Rightarrow> string \<Rightarrow> 'w \<Rightarrow> go_error option \<times> 'w"
  ue_pm_SwitchProfile :: "string \<Rightarrow> 'w \<Rightarrow> go_error option \<times> 'w"
  ue_GetActiveProfile :: "'w \<Rightarrow> string result"
  ue_GetProfileState :: "string \<Rightarrow> 'w \<Rightarrow> string result"
  ue_getSetupKey :: "'w \<Rightarrow> string result"
  ue_FromError :: from_error
  ue_Dial :: "'w \<Rightarrow> go_error option \<times> 'w"
  ue_Close :: "'w \<Rightarrow> 'w"
  ue_Status :: "bool \<Rightarrow> bool \<Rightarrow> bool \<Rightarrow> 'w \<Rightarrow> daemon_status result \<times> 'w"
  ue_Down :: "'w \<Rightarrow> go_error option \<times> 'w"
  ue_SetConfig :: "'t SetConfigRequest option \<Rightarrow> 'w \<Rightarrow> go_error option \<times> 'w"
  ue_Login :: "'t LoginRequest \<Rightarrow> 'w \<Rightarrow> daemon_login result \<times> 'w"
  ue_handleSSOLogin :: "daemon_login \<Rightarrow> 'w \<Rightarrow> go_error option \<times> 'w"
  ue_Up :: "string \<Rightarrow> string \<Rightarrow> 'w \<Rightarrow> go_error option \<times> 'w"

text \<open>A call to the daemon, entered into the log with its answer.\<close>

definition call :: "('r \<Rightarrow> 't daemon_call) \<Rightarrow> ('w \<Rightarrow> 'r \<times> 'w) \<Rightarrow> ('w, 't, 'd) up_state \<Rightarrow> 'r \<times> ('w, 't, 'd) up_state" where
  "call entry f s = (case f (us_world s) of (r, w) \<Rightarrow> (r, s\<lparr>us_calls := us_calls s @ [entry r], us_world := w\<rparr>))"

definition Println :: "string \<Rightarrow> ('w, 't, 'd) up_state \<Rightarrow> ('w, 't, 'd) up_state" where
  "Println t s = s\<lparr>us_out := us_out s @ [t]\<rparr>"

text \<open>The deferred \<^verbatim>\<open>conn.Close()\<close>; its error is logged only.\<close>

definition close_conn :: "('w, 't, 'd) up_env \<Rightarrow> ('w, 't, 'd) up_state \<Rightarrow> ('w, 't, 'd) up_state" where
  "close_conn E s = snd (call (\<lambda>_. CloseDaemon) (\<lambda>w. ((), ue_Close E w)) s)"

definition StatusConnected_text :: string where "StatusConnected_text = ''Connected''"

section \<open>The commands down and status\<close>

definition down_RunE :: "('w, 't, 'd) up_env \<Rightarrow> ('w, 't, 'd) up_state \<Rightarrow> go_error option \<times> ('w, 't, 'd) up_state" where
  "down_RunE E s0 =
     (let s = s0\<lparr>us_vars := ue_SetFlagsFromEnvVars E rootCmd (us_vars s0)\<rparr> in
      case ue_InitLog E of
        Some err \<Rightarrow> (Some err, s)
      | None \<Rightarrow>
        (case call DialDaemon (ue_Dial E) s of
           (Some err, s1) \<Rightarrow> (Some err, s1)
         | (None, s1) \<Rightarrow>
             apsnd (close_conn E)
               (case call CallDown (ue_Down E) s1 of
                  (Some err, s2) \<Rightarrow> (Some err, s2)
                | (None, s2) \<Rightarrow> (None, Println ''Disconnected'' s2))))"

definition getStatus ::
    "('w, 't, 'd) up_env \<Rightarrow> bool \<Rightarrow> ('w, 't, 'd) up_state \<Rightarrow> daemon_status result \<times> ('w, 't, 'd) up_state" where
  "getStatus E shouldRunProbes s =
     (case call DialDaemon (ue_Dial E) s of
        (Some err, s1) \<Rightarrow> (Inl (ErrMsg ''failed to connect to daemon error''), s1)
      | (None, s1) \<Rightarrow>
          apsnd (close_conn E)
            (case call CallStatus (ue_Status E True shouldRunProbes False) s1 of
               (Inl err, s2) \<Rightarrow> (Inl (ErrMsg ''status failed''), s2)
             | (Inr resp, s2) \<Rightarrow> (Inr resp, s2)))"

text \<open>What the package \<^verbatim>\<open>client/status\<close> makes of an answer, for the type \<open>'o\<close> of its overview.\<close>

record 'o nbstatus =
  nb_ConvertToStatusOutputOverview :: "daemon_status \<Rightarrow> status_vars \<Rightarrow> string \<Rightarrow> 'o"
  nb_ParseToFullDetailSummary :: "'o \<Rightarrow> string"
  nb_ParseToJSON :: "'o \<Rightarrow> string result"
  nb_ParseToYAML :: "'o \<Rightarrow> string result"
  nb_ParseGeneralSummary :: "'o \<Rightarrow> string"

definition needs_login_text :: "string \<Rightarrow> string" where
  "needs_login_text st = ''Daemon status: '' @ st"

definition statusFunc ::
    "('w, 't, 'd) up_env \<Rightarrow> 'o nbstatus \<Rightarrow> status_vars \<Rightarrow> ('w, 't, 'd) up_state
     \<Rightarrow> go_error option \<times> status_vars \<times> ('w, 't, 'd) up_state" where
  "statusFunc E B v0 s0 =
     (let s = s0\<lparr>us_vars := ue_SetFlagsFromEnvVars E rootCmd (us_vars s0)\<rparr> in
      case parseFilters v0 of
        (Some err, v) \<Rightarrow> (Some err, v, s)
      | (None, v) \<Rightarrow>
        (case ue_InitLog E of
           Some err \<Rightarrow> (Some (ErrMsg ''failed initializing log''), v, s)
         | None \<Rightarrow>
           (case getStatus E False s of
              (Inl err, s1) \<Rightarrow> (Some err, v, s1)
            | (Inr resp, s1) \<Rightarrow>
                if ds_Status resp \<in> {''NeedsLogin'', ''LoginFailed'', ''SessionExpired''}
                then (None, v, Println (needs_login_text (ds_Status resp)) s1)
                else if sv_ipv4Flag v then (None, v, Println (parseInterfaceIP (ds_LocalIP resp)) s1)
                else
                  (let profName = (case ue_GetActiveProfile E (us_world s1) of Inl err \<Rightarrow> [] | Inr p \<Rightarrow> p);
                       holder = nb_ConvertToStatusOutputOverview B resp v profName;
                       txt = (if sv_detailFlag v then Inr (nb_ParseToFullDetailSummary B holder)
                              else if sv_jsonFlag v then nb_ParseToJSON B holder
                              else if sv_yamlFlag v then nb_ParseToYAML B holder
                              else Inr (nb_ParseGeneralSummary B holder))
                   in case txt of
                        Inl err \<Rightarrow> (Some err, v, s1)
                      | Inr t \<Rightarrow> (None, v, Println t s1)))))"

section \<open>Up with the daemon\<close>

definition final_login_error :: "('w, 't, 'd) up_env \<Rightarrow> go_error option \<Rightarrow> bool" where
  "final_login_error E err =
     list_ex (\<lambda>c. has_code (ue_FromError E) c err) [InvalidArgument, PermissionDenied, NotFound, Unimplemented]"

type_synonym ('w, 't, 'd) login_state = "go_error option \<times> daemon_login option \<times> ('w, 't, 'd) up_state"

definition login_attempt :: "('w, 't, 'd) up_env \<Rightarrow> 't LoginRequest \<Rightarrow> ('w, 't, 'd) login_state operation" where
  "login_attempt E req = (\<lambda>(loginErr, loginResp, s).
     case call (CallLogin req) (ue_Login E req) s of
       (Inr resp, s1) \<Rightarrow> Some (None, loginErr, Some resp, s1)
     | (Inl e, s1) \<Rightarrow>
         if final_login_error E (Some e) then Some (None, Some e, None, s1) else Some (Some e, loginErr, None, s1))"

definition after_login ::
    "('w, 't, 'd) up_env \<Rightarrow> string \<Rightarrow> string \<Rightarrow> daemon_login \<Rightarrow> ('w, 't, 'd) up_state \<Rightarrow> go_error option \<times> ('w, 't, 'd) up_state" where
  "after_login E prof username resp s =
     (case (if dl_NeedsSSOLogin resp then call CallSSO (ue_handleSSOLogin E resp) s else (None, s)) of
        (Some err, s1) \<Rightarrow> (Some (ErrMsg ''sso login failed''), s1)
      | (None, s1) \<Rightarrow>
        (case call (CallUp prof username) (ue_Up E prof username) s1 of
           (Some err, s2) \<Rightarrow> (Some (ErrMsg ''call service up method''), s2)
         | (None, s2) \<Rightarrow> (None, s2)))"

definition daemon_login_request ::
    "('w, 't, 'd) up_env \<Rightarrow> string \<Rightarrow> string option \<Rightarrow> string \<Rightarrow> string \<Rightarrow> ('w, 't, 'd) up_state \<Rightarrow> 't LoginRequest result" where
  "daemon_login_request E providedSetupKey dns prof username s =
     (case setupLoginRequest (ue_GOOS E) (ue_durationpb_New E) (ue_isUnixRunningDesktop E) providedSetupKey dns (us_vars s) of
        Inl err \<Rightarrow> Inl (ErrMsg ''setup login request'')
      | Inr req0 \<Rightarrow>
        (let req = req0\<lparr>lq_ProfileName := Some prof, lq_Username := Some username\<rparr>
         in case ue_GetProfileState E prof (us_world s) of
              Inl err \<Rightarrow> Inr req
            | Inr email \<Rightarrow> Inr (if email \<noteq> [] then req\<lparr>lq_Hint := Some email\<rparr> else req)))"

definition doDaemonUp ::
    "('w, 't, 'd) up_env \<Rightarrow> (('w, 't, 'd) login_state operation \<Rightarrow> ('w, 't, 'd) login_state operation) \<Rightarrow> string \<Rightarrow> string option \<Rightarrow> string
     \<Rightarrow> ('w, 't, 'd) up_state operation" where
  "doDaemonUp E WithBackOff prof dns username s =
     (case ue_getSetupKey E (us_world s) of
        Inl err \<Rightarrow> Some (Some (ErrMsg ''get setup key''), s)
      | Inr key \<Rightarrow>
        (case daemon_login_request E key dns prof username s of
           Inl err \<Rightarrow> Some (Some err, s)
         | Inr req \<Rightarrow>
           (case WithBackOff (login_attempt E req) (None, None, s) of
              None \<Rightarrow> None
            | Some (Some err, _, _, s1) \<Rightarrow> Some (Some (ErrMsg ''login backoff cycle failed''), s1)
            | Some (None, Some loginErr, _, s1) \<Rightarrow> Some (Some (ErrMsg ''login failed''), s1)
            | Some (None, None, None, s1) \<Rightarrow> None
            | Some (None, None, Some resp, s1) \<Rightarrow> Some (after_login E prof username resp s1))))"

definition daemon_configured ::
    "('w, 't, 'd) up_env \<Rightarrow> (('w, 't, 'd) login_state operation \<Rightarrow> ('w, 't, 'd) login_state operation) \<Rightarrow> string \<Rightarrow> string option
     \<Rightarrow> ('w, 't, 'd) up_state operation" where
  "daemon_configured E WithBackOff prof dns s =
     (case ue_user_Current E of
        Inl err \<Rightarrow> Some (Some (ErrMsg ''get current user''), s)
      | Inr username \<Rightarrow>
        (let req = setupSetConfigReq (ue_GOOS E) (ue_ToPunycodeList E) (ue_durationpb_New E) (us_vars s) dns prof username in
         case call (CallSetConfig req) (ue_SetConfig E req) s of
           (err, s1) \<Rightarrow>
             if err \<noteq> None \<and> \<not> has_code (ue_FromError E) Unavailable err
             then Some (Some (ErrMsg ''call service setConfig method''), s1)
             else (case doDaemonUp E WithBackOff prof dns username s1 of
                     None \<Rightarrow> None
                   | Some (Some e, s2) \<Rightarrow> Some (Some (ErrMsg ''daemon up failed''), s2)
                   | Some (None, s2) \<Rightarrow> Some (None, Println ''Connected'' s2))))"

definition runInDaemonMode ::
    "('w, 't, 'd) up_env \<Rightarrow> (('w, 't, 'd) login_state operation \<Rightarrow> ('w, 't, 'd) login_state operation) \<Rightarrow> string \<Rightarrow> bool
     \<Rightarrow> ('w, 't, 'd) up_state operation" where
  "runInDaemonMode E WithBackOff prof profileSwitched s =
     (case parseCustomDNSAddress (ue_FindFirstLogPath E) (uv_customDNSAddress (us_vars s)) (uv_changed (us_vars s) dnsResolverAddress) of
        Inl err \<Rightarrow> Some (Some (ErrMsg ''parse custom DNS address''), s)
      | Inr dns \<Rightarrow>
        (case call DialDaemon (ue_Dial E) s of
           (Some err, s1) \<Rightarrow> Some (Some (ErrMsg ''failed to connect to daemon error''), s1)
         | (None, s1) \<Rightarrow>
             map_option (apsnd (close_conn E))
               (case call CallStatus (ue_Status E False False True) s1 of
                  (Inl err, s2) \<Rightarrow> Some (Some (ErrMsg ''unable to get daemon status''), s2)
                | (Inr status, s2) \<Rightarrow>
                    if ds_Status status = StatusConnected_text then
                      (if \<not> profileSwitched then Some (None, Println ''Already connected'' s2)
                       else case call CallDown (ue_Down E) s2 of
                         (Some err, s3) \<Rightarrow> Some (Some err, s3)
                       | (None, s3) \<Rightarrow> daemon_configured E WithBackOff prof dns s3)
                    else daemon_configured E WithBackOff prof dns s2)))"

section \<open>Up in the foreground\<close>

record ('w, 'd) fg_env =
  fg_NewServiceManager :: "string \<Rightarrow> 'w \<Rightarrow> 'w"
  fg_handleRebrand :: "'w \<Rightarrow> go_error option \<times> 'w"
  fg_FilePath :: "string \<Rightarrow> string result"
  fg_UpdateOrCreateConfig :: "'d ConfigInput \<Rightarrow> 'w \<Rightarrow> client_config result \<times> 'w"
  fg_UpdateOldManagementURL :: "client_config \<Rightarrow> string \<Rightarrow> 'w \<Rightarrow> 'w"
  fg_foregroundLogin :: "client_config \<Rightarrow> string \<Rightarrow> string \<Rightarrow> 'w \<Rightarrow> go_error option \<times> 'w"
  fg_SetupCloseHandler :: "'w \<Rightarrow> 'w"
  fg_NewRecorder :: "string \<Rightarrow> 'w \<Rightarrow> 'w"
  fg_SetupDebugHandler :: "'w \<Rightarrow> 'w"

text \<open>The effect of a call to code outside the repository that is not a call to the daemon.\<close>

definition on_world :: "('w \<Rightarrow> 'r \<times> 'w) \<Rightarrow> ('w, 't, 'd) up_state \<Rightarrow> 'r \<times> ('w, 't, 'd) up_state" where
  "on_world f s = (case f (us_world s) of (r, w) \<Rightarrow> (r, s\<lparr>us_world := w\<rparr>))"

definition changing :: "('w \<Rightarrow> 'w) \<Rightarrow> ('w, 't, 'd) up_state \<Rightarrow> ('w, 't, 'd) up_state" where
  "changing f s = s\<lparr>us_world := f (us_world s)\<rparr>"

text \<open>
  The result has the client whose \<^verbatim>\<open>Run\<close> was called, if it was. \<open>run_client\<close> is that method, the new client gets the fresh state object
  of the context.
\<close>

type_synonym ('w, 't, 'd, 'k, 'a) fg_result = "(go_error option \<times> ('w, 't, 'd) up_state \<times> ('w, 'k, 'a) connect_client option) option"

definition run_client ::
    "(('w, 'k, 'a) connect_client \<Rightarrow> ('w, 'k, 'a) attempt) \<Rightarrow> 'a \<Rightarrow> client_config \<Rightarrow> ('w, 't, 'd) up_state \<Rightarrow> ('w, 't, 'd, 'k, 'a) fg_result" where
  "run_client Run st config s =
     (case Run (NewConnectClient config st (us_world s)) of
        None \<Rightarrow> None
      | Some (err, c) \<Rightarrow> Some (err, s\<lparr>us_world := cs_world c\<rparr>, Some c))"

definition runInForegroundMode ::
    "('w, 't, 'd) up_env \<Rightarrow> ('w, 'd) fg_env \<Rightarrow> (('w, 'k, 'a) connect_client \<Rightarrow> ('w, 'k, 'a) attempt) \<Rightarrow> 'a \<Rightarrow> string
     \<Rightarrow> ('w, 't, 'd) up_state \<Rightarrow> ('w, 't, 'd, 'k, 'a) fg_result" where
  "runInForegroundMode E F Run st prof s0 =
     (let v = us_vars s0;
          s = (if uv_configPath v \<noteq> [] then changing (fg_NewServiceManager F (uv_configPath v)) s0 else s0) in
      case on_world (fg_handleRebrand F) s of
        (Some err, s1) \<Rightarrow> Some (Some err, s1, None)
      | (None, s1) \<Rightarrow>
        (case parseCustomDNSAddress (ue_FindFirstLogPath E) (uv_customDNSAddress v) (uv_changed v dnsResolverAddress) of
           Inl err \<Rightarrow> Some (Some err, s1, None)
         | Inr dns \<Rightarrow>
           (case fg_FilePath F prof of
              Inl err \<Rightarrow> Some (Some (ErrMsg ''get active profile file path''), s1, None)
            | Inr configFilePath \<Rightarrow>
              (case setupConfig (ue_GOOS E) v dns configFilePath of
                 Inl err \<Rightarrow> Some (Some (ErrMsg ''setup config''), s1, None)
               | Inr ic \<Rightarrow>
                 (case ue_getSetupKey E (us_world s1) of
                    Inl err \<Rightarrow> Some (Some err, s1, None)
                  | Inr key \<Rightarrow>
                    (case on_world (fg_UpdateOrCreateConfig F ic) s1 of
                       (Inl err, s2) \<Rightarrow> Some (Some (ErrMsg ''get config file''), s2, None)
                     | (Inr config, s2) \<Rightarrow>
                       (case on_world (fg_foregroundLogin F config key prof)
                               (changing (fg_UpdateOldManagementURL F config configFilePath) s2) of
                          (Some err, s3) \<Rightarrow> Some (Some (ErrMsg ''foreground login failed''), s3, None)
                        | (None, s3) \<Rightarrow>
                            run_client Run st config
                              (changing (fg_SetupDebugHandler F)
                                (changing (fg_NewRecorder F (cf_ManagementURL config)) (changing (fg_SetupCloseHandler F) s3))))))))))"

section \<open>Up\<close>

definition switch_profile ::
    "('w, 't, 'd) up_env \<Rightarrow> string \<Rightarrow> ('w, 't, 'd) up_state \<Rightarrow> go_error option \<times> bool \<times> ('w, 't, 'd) up_state" where
  "switch_profile E username s =
     (let profileName = uv_profileName (us_vars s) in
      if profileName \<noteq> [] then
        (case on_world (ue_switchProfile E profileName username) s of
           (Some err, s1) \<Rightarrow> (Some (ErrMsg ''switch profile''), False, s1)
         | (None, s1) \<Rightarrow>
           (case on_world (ue_pm_SwitchProfile E profileName) s1 of
              (Some err, s2) \<Rightarrow> (Some (ErrMsg ''switch profile''), False, s2)
            | (None, s2) \<Rightarrow> (None, True, s2)))
      else (None, False, s))"

definition slice_of :: "string list option \<Rightarrow> string list" where
  "slice_of xs = (case xs of None \<Rightarrow> [] | Some ys \<Rightarrow> ys)"

definition upFunc ::
    "('w, 't, 'd) up_env \<Rightarrow> ('w, 'd) fg_env \<Rightarrow> (('w, 'k, 'a) connect_client \<Rightarrow> ('w, 'k, 'a) attempt) \<Rightarrow> 'a
     \<Rightarrow> (('w, 't, 'd) login_state operation \<Rightarrow> ('w, 't, 'd) login_state operation) \<Rightarrow> ('w, 't, 'd) up_state
     \<Rightarrow> ('w, 't, 'd, 'k, 'a) fg_result" where
  "upFunc E F Run st WithBackOff s0 =
     (let v = ue_SetFlagsFromEnvVars E upCmd (ue_SetFlagsFromEnvVars E rootCmd (us_vars s0)); s = s0\<lparr>us_vars := v\<rparr> in
      case ue_InitLog E of
        Some err \<Rightarrow> Some (Some (ErrMsg ''failed initializing log''), s, None)
      | None \<Rightarrow>
        (case validateNATExternalIPs (ue_Interfaces E) (slice_of (uv_natExternalIPs v)) of
           Some err \<Rightarrow> Some (Some err, s, None)
         | None \<Rightarrow>
           (case validateDnsLabels (ue_ValidateDomains E) (slice_of (uv_dnsLabels v)) of
              Inl err \<Rightarrow> Some (Some err, s\<lparr>us_vars := v\<lparr>uv_dnsLabelsValidated := []\<rparr>\<rparr>, None)
            | Inr ds \<Rightarrow>
              (let s1 = s\<lparr>us_vars := v\<lparr>uv_dnsLabelsValidated := ds\<rparr>\<rparr> in
               case ue_user_Current E of
                 Inl err \<Rightarrow> Some (Some (ErrMsg ''get current user''), s1, None)
               | Inr username \<Rightarrow>
                 (case switch_profile E username s1 of
                    (Some err, _, s2) \<Rightarrow> Some (Some err, s2, None)
                  | (None, profileSwitched, s2) \<Rightarrow>
                    (case ue_GetActiveProfile E (us_world s2) of
                       Inl err \<Rightarrow> Some (Some (ErrMsg ''get active profile''), s2, None)
                     | Inr activeProf \<Rightarrow>
                         if uv_foregroundMode v then runInForegroundMode E F Run st activeProf s2
                         else map_option (\<lambda>(err, s3). (err, s3, None))
                                (runInDaemonMode E WithBackOff activeProf profileSwitched s2)))))))"

section \<open>The order of the calls\<close>

text \<open>While \<^verbatim>\<open>WithBackOff\<close> sleeps, the command does nothing; the daemon goes on.\<close>

definition quiet_pause :: "(('w, 't, 'd) login_state \<Rightarrow> ('w, 't, 'd) login_state \<Rightarrow> bool) \<Rightarrow> bool" where
  "quiet_pause pause \<longleftrightarrow> (\<forall>le lr s t. pause (le, lr, s) t \<longrightarrow> (\<exists>w. t = (le, lr, s\<lparr>us_world := w\<rparr>)))"

lemma quiet_pauseD: "quiet_pause pause \<Longrightarrow> pause (le, lr, s) t \<Longrightarrow> \<exists>w. t = (le, lr, s\<lparr>us_world := w\<rparr>)"
  unfolding quiet_pause_def by blast

definition refused :: "'t LoginRequest \<Rightarrow> go_error list \<Rightarrow> 't daemon_call list" where
  "refused req es = map (\<lambda>e. CallLogin req (Inl e)) es"

lemma refused_simps [simp]:
  "refused req [] = []" "refused req (e # es) = CallLogin req (Inl e) # refused req es"
  "refused req (es @ es') = refused req es @ refused req es'" "refused req es = [] \<longleftrightarrow> es = []"
  by (simp_all add: refused_def)

text \<open>
  What a loop of logins enters into the log: errors that are worth another attempt, and then an accepted login, a final error, or
  nothing when the loop gives up.
\<close>

definition login_trace ::
    "('w, 't, 'd) up_env \<Rightarrow> 't LoginRequest \<Rightarrow> go_error option \<Rightarrow> go_error option \<Rightarrow> daemon_login option \<Rightarrow> 't daemon_call list \<Rightarrow> bool" where
  "login_trace E req r le lr cs \<longleftrightarrow> (\<exists>es. list_all (\<lambda>e. \<not> final_login_error E (Some e)) es \<and>
     (r \<noteq> None \<and> cs = refused req es
      \<or> r = None \<and> (\<exists>e. le = Some e \<and> final_login_error E (Some e) \<and> cs = refused req (es @ [e]))
      \<or> r = None \<and> le = None \<and> (\<exists>resp. lr = Some resp \<and> cs = refused req es @ [CallLogin req (Inr resp)])))"

lemma login_trace_Cons:
  "\<not> final_login_error E (Some e) \<Longrightarrow> login_trace E req r le lr cs \<Longrightarrow> login_trace E req r le lr (CallLogin req (Inl e) # cs)"
  unfolding login_trace_def by (elim exE conjE) (rule_tac x = "e # es" in exI, auto)

lemma login_attempt_cases:
  assumes "login_attempt E req (le, lr, s) = Some (r, t)"
  obtains (accepted) resp w where "r = None" "t = (le, Some resp, s\<lparr>us_calls := us_calls s @ [CallLogin req (Inr resp)], us_world := w\<rparr>)"
  | (final) e w where "r = None" "final_login_error E (Some e)"
      "t = (Some e, None, s\<lparr>us_calls := us_calls s @ [CallLogin req (Inl e)], us_world := w\<rparr>)"
  | (again) e w where "r = Some e" "\<not> final_login_error E (Some e)"
      "t = (le, None, s\<lparr>us_calls := us_calls s @ [CallLogin req (Inl e)], us_world := w\<rparr>)"
  using assms by (auto simp: login_attempt_def call_def split: prod.splits sum.splits if_splits)

lemma logins_traced:
  assumes "retried (login_attempt E req) pause t0 r t" and "quiet_pause pause" and "t0 = (None, lr0, s)"
  shows "\<exists>cs w. us_calls (snd (snd t)) = us_calls s @ cs \<and> login_trace E req r (fst t) (fst (snd t)) cs
    \<and> us_vars (snd (snd t)) = us_vars s \<and> us_out (snd (snd t)) = us_out s"
  using assms(1,3)
proof (induction arbitrary: lr0 s rule: retried.induct)
  case (succeeds t0 t)
  from succeeds show ?case
    by (auto elim!: login_attempt_cases simp: login_trace_def)
next
  case (permanent t0 e t e')
  then show ?case
    by (auto elim!: login_attempt_cases simp: login_trace_def intro!: exI [of _ "[e]"])
next
  case (gives_up t0 e t1 t2 e')
  then show ?case
    by (auto elim!: login_attempt_cases dest!: quiet_pauseD [OF assms(2)] simp: login_trace_def intro!: exI [of _ "[e]"])
next
  case (again t0 e t1 t2 r t)
  obtain w where t1: "t1 = (None, None, s\<lparr>us_calls := us_calls s @ [CallLogin req (Inl e)], us_world := w\<rparr>)"
      and e: "\<not> final_login_error E (Some e)"
    using again.hyps(1) again.prems by (auto elim!: login_attempt_cases)
  obtain w2 where t2: "t2 = (None, None, s\<lparr>us_calls := us_calls s @ [CallLogin req (Inl e)], us_world := w2\<rparr>)"
    using quiet_pauseD [OF assms(2)] again.hyps(3) t1 by fastforce
  show ?case
    using again.IH [OF t2] login_trace_Cons [OF e] by fastforce
qed

text \<open>The log of one \<^verbatim>\<open>doDaemonUp\<close>: nothing, the logins, or an accepted login with what follows it.\<close>

definition up_trace :: "('w, 't, 'd) up_env \<Rightarrow> string \<Rightarrow> string \<Rightarrow> go_error option \<Rightarrow> 't daemon_call list \<Rightarrow> bool" where
  "up_trace E prof username r cs \<longleftrightarrow>
     r \<noteq> None \<and> cs = []
   \<or> (\<exists>req es. r \<noteq> None \<and> cs = refused req es)
   \<or> (\<exists>req es resp after. cs = refused req es @ CallLogin req (Inr resp) # after
        \<and> lq_ProfileName req = Some prof \<and> lq_Username req = Some username
        \<and> list_all (\<lambda>e. \<not> final_login_error E (Some e)) es
        \<and> ((\<exists>e. r \<noteq> None \<and> dl_NeedsSSOLogin resp \<and> after = [CallSSO (Some e)])
           \<or> (\<exists>x. (r = None \<longleftrightarrow> x = None) \<and> after = (if dl_NeedsSSOLogin resp then [CallSSO None] else []) @ [CallUp prof username x])))"

lemma after_login_trace:
  assumes "after_login E prof username resp s = (r, s')"
  shows "\<exists>after. us_calls s' = us_calls s @ after
    \<and> ((\<exists>e. r \<noteq> None \<and> dl_NeedsSSOLogin resp \<and> after = [CallSSO (Some e)])
       \<or> (\<exists>x. (r = None \<longleftrightarrow> x = None) \<and> after = (if dl_NeedsSSOLogin resp then [CallSSO None] else []) @ [CallUp prof username x]))"
  using assms by (auto simp: after_login_def call_def split: prod.splits option.splits if_splits)

lemma daemon_login_request_names:
  "daemon_login_request E key dns prof username s = Inr req \<Longrightarrow> lq_ProfileName req = Some prof \<and> lq_Username req = Some username"
  by (auto simp: daemon_login_request_def Let_def split: sum.splits)

lemma doDaemonUp_trace:
  assumes "retry_contract WithBackOff pause" and "quiet_pause pause"
    and "doDaemonUp E WithBackOff prof dns username s = Some (r, s')"
  shows "\<exists>cs. us_calls s' = us_calls s @ cs \<and> up_trace E prof username r cs"
proof (cases "ue_getSetupKey E (us_world s)")
  case (Inl err)
  then show ?thesis using assms(3) by (auto simp: doDaemonUp_def up_trace_def)
next
  case key: (Inr key)
  show ?thesis
  proof (cases "daemon_login_request E key dns prof username s")
    case (Inl err)
    then show ?thesis using assms(3) key by (auto simp: doDaemonUp_def up_trace_def)
  next
    case req: (Inr req)
    obtain r1 le lr s1 where run: "WithBackOff (login_attempt E req) (None, None, s) = Some (r1, le, lr, s1)"
      using assms(3) key req by (auto simp: doDaemonUp_def split: option.splits)
    obtain cs where cs: "us_calls s1 = us_calls s @ cs" "login_trace E req r1 le lr cs"
      using logins_traced [OF retry_contractD [OF assms(1) run] assms(2) refl] by auto
    show ?thesis
    proof (cases "r1 = None \<and> le = None")
      case True
      then obtain resp es where lr: "lr = Some resp" "list_all (\<lambda>e. \<not> final_login_error E (Some e)) es"
          "cs = refused req es @ [CallLogin req (Inr resp)]"
        using cs(2) by (auto simp: login_trace_def)
      then have "after_login E prof username resp s1 = (r, s')"
        using assms(3) key req run True by (simp add: doDaemonUp_def)
      from after_login_trace [OF this] obtain after where "us_calls s' = us_calls s1 @ after"
        "(\<exists>e. r \<noteq> None \<and> dl_NeedsSSOLogin resp \<and> after = [CallSSO (Some e)])
         \<or> (\<exists>x. (r = None \<longleftrightarrow> x = None) \<and> after = (if dl_NeedsSSOLogin resp then [CallSSO None] else []) @ [CallUp prof username x])"
        by blast
      then show ?thesis
        using cs(1) lr daemon_login_request_names [OF req] unfolding up_trace_def
        by (intro exI [of _ "cs @ after"] conjI, simp) (rule disjI2, rule disjI2, rule exI [of _ req], rule exI [of _ es], simp)
    next
      case False
      then have "r \<noteq> None" "s' = s1"
        using assms(3) key req run by (auto simp: doDaemonUp_def split: option.splits)
      moreover have "\<exists>es. cs = refused req es"
        using cs(2) False unfolding login_trace_def by blast
      ultimately show ?thesis
        using cs(1) unfolding up_trace_def by blast
    qed
  qed
qed

lemma call_log: "call entry f s = (r, s') \<Longrightarrow> us_calls s' = us_calls s @ [entry r] \<and> us_vars s' = us_vars s \<and> us_out s' = us_out s"
  by (auto simp: call_def split: prod.splits)

lemma log_simps [simp]:
  "us_calls (Println t s) = us_calls s" "us_calls (close_conn E s) = us_calls s @ [CloseDaemon]"
  by (simp_all add: Println_def close_conn_def call_def)

definition configure_trace :: "('w, 't, 'd) up_env \<Rightarrow> string \<Rightarrow> go_error option \<Rightarrow> 't daemon_call list \<Rightarrow> bool" where
  "configure_trace E prof r cs \<longleftrightarrow>
     r \<noteq> None \<and> cs = []
   \<or> (\<exists>req x cs2. cs = CallSetConfig req x # cs2
        \<and> (r \<noteq> None \<and> cs2 = [] \<or> (\<exists>username r2. (r = None \<longleftrightarrow> r2 = None) \<and> up_trace E prof username r2 cs2)))"

lemma daemon_configured_trace:
  assumes "retry_contract WithBackOff pause" and "quiet_pause pause"
    and "daemon_configured E WithBackOff prof dns s = Some (r, s')"
  shows "\<exists>cs. us_calls s' = us_calls s @ cs \<and> configure_trace E prof r cs"
proof (cases "ue_user_Current E")
  case (Inl err)
  then show ?thesis using assms(3) by (auto simp: daemon_configured_def configure_trace_def)
next
  case (Inr username)
  define req where "req = setupSetConfigReq (ue_GOOS E) (ue_ToPunycodeList E) (ue_durationpb_New E) (us_vars s) dns prof username"
  obtain err s1 where c: "call (CallSetConfig req) (ue_SetConfig E req) s = (err, s1)" by fastforce
  show ?thesis
  proof (cases "err \<noteq> None \<and> \<not> has_code (ue_FromError E) Unavailable err")
    case True
    then have "r \<noteq> None" "s' = s1"
      using assms(3) Inr c unfolding daemon_configured_def req_def [symmetric] by (auto simp: Let_def req_def [symmetric])
    then show ?thesis
      using call_log [OF c] unfolding configure_trace_def by auto
  next
    case False
    then obtain r2 s2 where up: "doDaemonUp E WithBackOff prof dns username s1 = Some (r2, s2)" "r = None \<longleftrightarrow> r2 = None"
        "us_calls s' = us_calls s2"
      using assms(3) Inr c unfolding daemon_configured_def
      by (auto simp: Let_def req_def [symmetric] split: option.splits)
    obtain cs where "us_calls s2 = us_calls s1 @ cs" "up_trace E prof username r2 cs"
      using doDaemonUp_trace [OF assms(1,2) up(1)] by blast
    then show ?thesis
      using call_log [OF c] up(2,3) unfolding configure_trace_def
      by (intro exI [of _ "CallSetConfig req err # cs"]) auto
  qed
qed

definition daemon_mode_trace :: "('w, 't, 'd) up_env \<Rightarrow> string \<Rightarrow> bool \<Rightarrow> go_error option \<Rightarrow> 't daemon_call list \<Rightarrow> bool" where
  "daemon_mode_trace E prof switched r cs \<longleftrightarrow>
     r \<noteq> None \<and> cs = []
   \<or> (\<exists>e. r \<noteq> None \<and> cs = [DialDaemon (Some e)])
   \<or> (\<exists>st. cs = [DialDaemon None, CallStatus st, CloseDaemon] \<and> (r = None \<longrightarrow> \<not> switched \<and> (\<exists>d. st = Inr d \<and> ds_Status d = StatusConnected_text)))
   \<or> (\<exists>st e. r \<noteq> None \<and> cs = [DialDaemon None, CallStatus st, CallDown (Some e), CloseDaemon])
   \<or> (\<exists>d cs2. cs = [DialDaemon None, CallStatus (Inr d)] @ (if ds_Status d = StatusConnected_text then [CallDown None] else []) @ cs2 @ [CloseDaemon]
        \<and> (ds_Status d = StatusConnected_text \<longrightarrow> switched) \<and> configure_trace E prof r cs2)"

lemma runInDaemonMode_trace:
  assumes "retry_contract WithBackOff pause" and "quiet_pause pause"
    and "runInDaemonMode E WithBackOff prof switched s = Some (r, s')"
  shows "\<exists>cs. us_calls s' = us_calls s @ cs \<and> daemon_mode_trace E prof switched r cs"
proof (cases "parseCustomDNSAddress (ue_FindFirstLogPath E) (uv_customDNSAddress (us_vars s)) (uv_changed (us_vars s) dnsResolverAddress)")
  case (Inl err)
  then show ?thesis using assms(3) by (auto simp: runInDaemonMode_def daemon_mode_trace_def)
next
  case dns: (Inr dns)
  obtain d1 s1 where dial: "call DialDaemon (ue_Dial E) s = (d1, s1)" by fastforce
  show ?thesis
  proof (cases d1)
    case (Some err)
    then show ?thesis
      using assms(3) dns dial call_log [OF dial] by (auto simp: runInDaemonMode_def daemon_mode_trace_def)
  next
    case None
    obtain st s2 where status: "call CallStatus (ue_Status E False False True) s1 = (st, s2)" by fastforce
    note log = call_log [OF dial] call_log [OF status]
    have conf: "\<exists>cs. us_calls s' = us_calls s @ cs \<and> daemon_mode_trace E prof switched r cs"
      if "daemon_configured E WithBackOff prof dns s3 = Some (r, s4)" "s' = close_conn E s4" "st = Inr d"
        "us_calls s3 = us_calls s2 @ (if ds_Status d = StatusConnected_text then [CallDown None] else [])"
        "ds_Status d = StatusConnected_text \<longrightarrow> switched" for s3 s4 d
    proof -
      note h = that
      obtain cs where "us_calls s4 = us_calls s3 @ cs" "configure_trace E prof r cs"
        using daemon_configured_trace [OF assms(1,2) h(1)] by blast
      then show ?thesis
        using h(2-5) log None unfolding daemon_mode_trace_def
        by (intro exI [of _ "[DialDaemon None, CallStatus (Inr d)] @ (if ds_Status d = StatusConnected_text then [CallDown None] else [])
              @ cs @ [CloseDaemon]"] conjI) (simp, blast)
    qed
    show ?thesis
    proof (cases st)
      case (Inl err)
      then have "r \<noteq> None" "us_calls s' = us_calls s2 @ [CloseDaemon]"
        using assms(3) dns dial None status by (auto simp: runInDaemonMode_def)
      then show ?thesis using log None unfolding daemon_mode_trace_def by auto
    next
      case (Inr d)
      show ?thesis
      proof (cases "ds_Status d = StatusConnected_text")
        case False
        then show ?thesis
          using assms(3) dns dial None status Inr conf [of s2 _ d] by (auto simp: runInDaemonMode_def)
      next
        case True
        obtain d3 s3 where down: "call CallDown (ue_Down E) s2 = (d3, s3)" by fastforce
        show ?thesis
        proof (cases "switched \<and> d3 = None")
          case sw: True
          then show ?thesis
            using assms(3) dns dial None status Inr True down call_log [OF down] conf [of s3 _ d]
            by (auto simp: runInDaemonMode_def)
        next
          case sw: False
          then show ?thesis
            using assms(3) dns dial None status Inr True down call_log [OF down] log unfolding daemon_mode_trace_def
            by (cases switched; cases d3) (auto simp: runInDaemonMode_def)
        qed
      qed
    qed
  qed
qed

section \<open>Properties of the commands\<close>

text \<open>The daemon is told to connect only after a login was accepted.\<close>

fun up_after_login :: "bool \<Rightarrow> 't daemon_call list \<Rightarrow> bool" where
  "up_after_login accepted [] = True"
| "up_after_login accepted (CallUp p u x # cs) = (accepted \<and> up_after_login accepted cs)"
| "up_after_login accepted (CallLogin req (Inr resp) # cs) = up_after_login True cs"
| "up_after_login accepted (c # cs) = up_after_login accepted cs"

text \<open>The number of connections to the daemon that are open after the calls.\<close>

fun open_conns :: "'t daemon_call list \<Rightarrow> int" where
  "open_conns [] = 0"
| "open_conns (DialDaemon None # cs) = open_conns cs + 1"
| "open_conns (CloseDaemon # cs) = open_conns cs - 1"
| "open_conns (c # cs) = open_conns cs"

lemma refused_checks [simp]:
  "up_after_login a (refused req es @ cs) = up_after_login a cs" "open_conns (refused req es @ cs) = open_conns cs"
  "up_after_login a (refused req es)" "open_conns (refused req es) = 0"
  by (induction es) auto

lemma up_trace_checks: "up_trace E prof username r cs \<Longrightarrow> up_after_login False (cs @ [CloseDaemon]) \<and> open_conns (cs @ [CloseDaemon]) = -1"
  unfolding up_trace_def by (elim disjE exE conjE) (simp_all split: if_splits)

lemma configure_trace_checks:
  "configure_trace E prof r cs \<Longrightarrow> up_after_login False (cs @ [CloseDaemon]) \<and> open_conns (cs @ [CloseDaemon]) = -1"
  unfolding configure_trace_def by (elim disjE exE conjE) (simp_all add: up_trace_checks)

lemma daemon_mode_trace_checks:
  "daemon_mode_trace E prof switched r cs \<Longrightarrow> up_after_login False cs \<and> open_conns cs = 0"
  unfolding daemon_mode_trace_def by (elim disjE exE conjE) (simp_all add: configure_trace_checks)

lemma switch_profile_calls: "switch_profile E username s = (r, sw, s') \<Longrightarrow> us_calls s' = us_calls s"
  by (auto simp: switch_profile_def on_world_def Let_def split: if_splits prod.splits option.splits)

lemma on_world_calls: "on_world f s = (r, s') \<Longrightarrow> us_calls s' = us_calls s"
  by (auto simp: on_world_def split: prod.splits)

lemma changing_calls [simp]: "us_calls (changing f s) = us_calls s"
  by (simp add: changing_def)

lemma run_client_calls: "run_client Run st config s = Some (r, s', c) \<Longrightarrow> us_calls s' = us_calls s"
  by (auto simp: run_client_def split: option.splits prod.splits)

lemma foreground_calls: "runInForegroundMode E F Run st prof s = Some (r, s', c) \<Longrightarrow> us_calls s' = us_calls s"
  unfolding runInForegroundMode_def Let_def
  by (auto dest!: on_world_calls run_client_calls split: if_splits prod.splits option.splits sum.splits)

lemma upFunc_trace:
  assumes "retry_contract WithBackOff pause" and "quiet_pause pause" and "upFunc E F Run st WithBackOff s = Some (r, s', c)"
  shows "\<exists>cs. us_calls s' = us_calls s @ cs \<and> (cs = [] \<or> (\<exists>prof sw. daemon_mode_trace E prof sw r cs))"
proof (cases "us_calls s' = us_calls s")
  case False
  obtain t prof sw where run: "runInDaemonMode E WithBackOff prof sw t = Some (r, s')" "us_calls t = us_calls s"
    using assms(3) False
    by (auto simp: upFunc_def Let_def dest!: switch_profile_calls foreground_calls
        split: option.splits sum.splits prod.splits if_splits)
  from runInDaemonMode_trace [OF assms(1,2) run(1)] show ?thesis
    using run(2) by auto
qed simp

text \<open>C22. 
  Whatever the command \<^verbatim>\<open>up\<close> returns, it has told the daemon to connect only after a login that the daemon accepted, and it has closed
  every connection to the daemon that it opened.
\<close>

theorem up_connects_after_login:
  assumes "retry_contract WithBackOff pause" and "quiet_pause pause" and "us_calls s = []"
    and "upFunc E F Run st WithBackOff s = Some (r, s', c)"
  shows "up_after_login False (us_calls s') \<and> open_conns (us_calls s') = 0"
  using upFunc_trace [OF assms(1,2,4)] assms(3) by (auto simp: daemon_mode_trace_checks)

text \<open>
  A command that succeeds without the foreground mode has made exactly these calls: it found the daemon connected and left it
  alone because the profile is the same; or it asked for the status, disconnected the daemon if it was connected, sent the
  configuration, logged in until it was accepted, did the interactive login if the answer asked for it, and connected.
\<close>

theorem successful_up_calls:
  assumes "retry_contract WithBackOff pause" and "quiet_pause pause"
    and "runInDaemonMode E WithBackOff prof switched s = Some (None, s')"
  shows "(\<exists>d. us_calls s' = us_calls s @ [DialDaemon None, CallStatus (Inr d), CloseDaemon]
            \<and> ds_Status d = StatusConnected_text \<and> \<not> switched)
    \<or> (\<exists>d req x lreq es resp username. us_calls s' = us_calls s @ [DialDaemon None, CallStatus (Inr d)]
            @ (if ds_Status d = StatusConnected_text then [CallDown None] else []) @ [CallSetConfig req x]
            @ refused lreq es @ [CallLogin lreq (Inr resp)] @ (if dl_NeedsSSOLogin resp then [CallSSO None] else [])
            @ [CallUp prof username None, CloseDaemon]
            \<and> (ds_Status d = StatusConnected_text \<longrightarrow> switched)
            \<and> lq_ProfileName lreq = Some prof \<and> lq_Username lreq = Some username)"
proof -
  obtain cs where cs: "us_calls s' = us_calls s @ cs" "daemon_mode_trace E prof switched None cs"
    using runInDaemonMode_trace [OF assms] by blast
  then consider (kept) d where "cs = [DialDaemon None, CallStatus (Inr d), CloseDaemon]" "ds_Status d = StatusConnected_text" "\<not> switched"
    | (configured) d cs2 where "cs = [DialDaemon None, CallStatus (Inr d)] @ (if ds_Status d = StatusConnected_text then [CallDown None] else []) @ cs2 @ [CloseDaemon]"
        "ds_Status d = StatusConnected_text \<longrightarrow> switched" "configure_trace E prof None cs2"
    unfolding daemon_mode_trace_def by blast
  then show ?thesis
  proof cases
    case kept
    then show ?thesis using cs(1) by blast
  next
    case configured
    then obtain req x cs3 username where c2: "cs2 = CallSetConfig req x # cs3" "up_trace E prof username None cs3"
      unfolding configure_trace_def by blast
    then obtain lreq es resp where c3: "cs3 = refused lreq es @ CallLogin lreq (Inr resp)
        # (if dl_NeedsSSOLogin resp then [CallSSO None] else []) @ [CallUp prof username None]"
        "lq_ProfileName lreq = Some prof" "lq_Username lreq = Some username"
      unfolding up_trace_def by blast
    show ?thesis
      by (rule disjI2, intro exI [of _ d] exI [of _ req] exI [of _ x] exI [of _ lreq] exI [of _ es] exI [of _ resp] exI [of _ username])
        (simp add: cs(1) configured c2 c3)
  qed
qed


text \<open>
  An MTU out of range is sent to the daemon with the configuration before the login request refuses it: the command fails, but the
  daemon that accepts the configuration has been given the MTU.
\<close>

theorem invalid_MTU_reaches_daemon:
  assumes "uv_changed (us_vars s) mtuFlag" and "ValidateMTU (uv_mtu (us_vars s)) \<noteq> None"
    and "bad_interface_name (ue_GOOS E) (us_vars s) = None" and "ue_user_Current E = Inr username"
    and "fst (ue_SetConfig E (setupSetConfigReq (ue_GOOS E) (ue_ToPunycodeList E) (ue_durationpb_New E) (us_vars s) dns prof username)
           (us_world s)) = None"
  shows "\<exists>e s' req. daemon_configured E WithBackOff prof dns s = Some (Some e, s')
    \<and> us_calls s' = us_calls s @ [CallSetConfig (Some req) None] \<and> sr_Mtu req = Some (ucast (uv_mtu (us_vars s)))"
proof -
  obtain e where e: "ValidateMTU (uv_mtu (us_vars s)) = Some e" using assms(2) by blast
  obtain req where req: "setupSetConfigReq (ue_GOOS E) (ue_ToPunycodeList E) (ue_durationpb_New E) (us_vars s) dns prof username = Some req"
      "sr_Mtu req = Some (ucast (uv_mtu (us_vars s)))"
    using MTU_not_validated_for_daemon(2) [OF assms(1) e assms(3)] by blast
  obtain s1 where c: "call (CallSetConfig (Some req)) (ue_SetConfig E (Some req)) s = (None, s1)"
    using assms(5) req(1) by (cases "ue_SetConfig E (Some req) (us_world s)") (auto simp: call_def)
  have "daemon_login_request E key dns prof username s1 = Inl (ErrMsg ''setup login request'')" for key
    using call_log [OF c] by (simp add: daemon_login_request_def MTU_not_validated_for_daemon(1) [OF assms(1) e assms(3)])
  then obtain e2 where "doDaemonUp E WithBackOff prof dns username s1 = Some (Some e2, s1)"
    by (cases "ue_getSetupKey E (us_world s1)") (auto simp: doDaemonUp_def)
  then show ?thesis
    using assms(4) req c call_log [OF c] by (auto simp: daemon_configured_def Let_def)
qed

section \<open>Examples\<close>

definition demo_up_env :: "('w \<Rightarrow> daemon_login result \<times> 'w) \<Rightarrow> ('w, int, string) up_env" where
  "demo_up_env login =
     \<lparr>ue_GOOS = ''linux'', ue_SetFlagsFromEnvVars = (\<lambda>c v. v), ue_InitLog = None, ue_Interfaces = Inr [], ue_ValidateDomains = Inr,
      ue_ToPunycodeList = (\<lambda>ds. ds), ue_durationpb_New = (\<lambda>d. d), ue_isUnixRunningDesktop = False, ue_FindFirstLogPath = [],
      ue_user_Current = Inr ''root'', ue_switchProfile = (\<lambda>p u w. (None, w)), ue_pm_SwitchProfile = (\<lambda>p w. (None, w)),
      ue_GetActiveProfile = (\<lambda>w. Inr ''default''), ue_GetProfileState = (\<lambda>p w. Inr []), ue_getSetupKey = (\<lambda>w. Inr []),
      ue_FromError = plain_FromError, ue_Dial = (\<lambda>w. (None, w)), ue_Close = (\<lambda>w. w),
      ue_Status = (\<lambda>a b c w. (Inr \<lparr>ds_Status = ''Idle'', ds_LocalIP = []\<rparr>, w)), ue_Down = (\<lambda>w. (None, w)),
      ue_SetConfig = (\<lambda>r w. (None, w)), ue_Login = (\<lambda>r. login), ue_handleSSOLogin = (\<lambda>r w. (None, w)), ue_Up = (\<lambda>p u w. (None, w))\<rparr>"

definition demo_fg_env :: "client_config \<Rightarrow> ('w, string) fg_env" where
  "demo_fg_env config =
     \<lparr>fg_NewServiceManager = (\<lambda>p w. w), fg_handleRebrand = (\<lambda>w. (None, w)), fg_FilePath = Inr,
      fg_UpdateOrCreateConfig = (\<lambda>ic w. (Inr config, w)), fg_UpdateOldManagementURL = (\<lambda>c p w. w),
      fg_foregroundLogin = (\<lambda>c k p w. (None, w)), fg_SetupCloseHandler = (\<lambda>w. w), fg_NewRecorder = (\<lambda>u w. w),
      fg_SetupDebugHandler = (\<lambda>w. w)\<rparr>"

text \<open>A daemon that is unavailable for the first login and asks for the interactive login afterwards.\<close>

definition second_login :: "nat \<Rightarrow> daemon_login result \<times> nat" where
  "second_login n = (if n = 0 then (Inl (ErrStatus Unavailable ''starting''), 1) else (Inr \<lparr>dl_NeedsSSOLogin = True\<rparr>, n))"

definition demo_up_state :: "bool \<Rightarrow> 16 word \<Rightarrow> 'w \<Rightarrow> ('w, int, string) up_state" where
  "demo_up_state foreground mtu w = \<lparr>us_vars = demo_vars foreground mtu, us_calls = [], us_out = [], us_world = w\<rparr>"

lemma quiet_sleep: "quiet_pause (\<lambda>s t. t = id (s :: ('w, 't, 'd) login_state))"
proof -
  have "\<exists>w. s = s\<lparr>us_world := w\<rparr>" for s :: "('w, 't, 'd) up_state"
    by (rule exI [of _ "us_world s"]) simp
  then show ?thesis
    by (simp add: quiet_pause_def)
qed

theorem up_connects_after_login_witness:
  "\<exists>r s' c. upFunc (demo_up_env second_login) (demo_fg_env demo_config)
      (\<lambda>c :: (nat, unit, unit) connect_client. None) () (retry_times 2 id) (demo_up_state False 1280 0)
      = Some (r, s', c) \<and> up_after_login False (us_calls s') \<and> open_conns (us_calls s') = 0 \<and> length (us_calls s') = 8"
proof -
  let ?up = "upFunc (demo_up_env second_login) (demo_fg_env demo_config) (\<lambda>c :: (nat, unit, unit) connect_client. None) ()
    (retry_times 2 id) (demo_up_state False 1280 0)"
  have "map_option (\<lambda>(r, s', c). length (us_calls s')) ?up = Some 8" by code_simp
  then obtain r s' c where up: "?up = Some (r, s', c)" "length (us_calls s') = 8" by auto
  have "up_after_login False (us_calls s') \<and> open_conns (us_calls s') = 0"
    by (rule up_connects_after_login [OF retry_times_contract quiet_sleep _ up(1)]) (simp add: demo_up_state_def)
  then show ?thesis using up by blast
qed

theorem successful_up_calls_witness:
  "\<exists>s'. runInDaemonMode (demo_up_env second_login) (retry_times 2 id) ''default'' False (demo_up_state False 1280 0) = Some (None, s')
     \<and> (\<exists>req x lreq es resp username. us_calls s' = [DialDaemon None, CallStatus (Inr \<lparr>ds_Status = ''Idle'', ds_LocalIP = []\<rparr>)]
          @ [CallSetConfig req x] @ refused lreq es @ [CallLogin lreq (Inr resp)] @ (if dl_NeedsSSOLogin resp then [CallSSO None] else [])
          @ [CallUp ''default'' username None, CloseDaemon])"
proof -
  let ?run = "runInDaemonMode (demo_up_env second_login) (retry_times 2 id) ''default'' False (demo_up_state False 1280 0)"
  have "map_option (\<lambda>(r, s'). (r, us_calls s' ! 1 = CallStatus (Inr \<lparr>ds_Status = ''Idle'', ds_LocalIP = []\<rparr>))) ?run = Some (None, True)"
    by code_simp
  then obtain s' where run: "?run = Some (None, s')" "us_calls s' ! 1 = CallStatus (Inr \<lparr>ds_Status = ''Idle'', ds_LocalIP = []\<rparr>)" by auto
  from successful_up_calls [OF retry_times_contract quiet_sleep run(1)]
  obtain d req x lreq es resp username where calls: "us_calls s' = [DialDaemon None, CallStatus (Inr d)]
      @ (if ds_Status d = StatusConnected_text then [CallDown None] else []) @ [CallSetConfig req x]
      @ refused lreq es @ [CallLogin lreq (Inr resp)] @ (if dl_NeedsSSOLogin resp then [CallSSO None] else [])
      @ [CallUp ''default'' username None, CloseDaemon]"
    using run(2) by (auto simp: demo_up_state_def StatusConnected_text_def)
  then have "d = \<lparr>ds_Status = ''Idle'', ds_LocalIP = []\<rparr>"
    using run(2) by simp
  then have "us_calls s' = [DialDaemon None, CallStatus (Inr \<lparr>ds_Status = ''Idle'', ds_LocalIP = []\<rparr>)]
      @ [CallSetConfig req x] @ refused lreq es @ [CallLogin lreq (Inr resp)] @ (if dl_NeedsSSOLogin resp then [CallSSO None] else [])
      @ [CallUp ''default'' username None, CloseDaemon]"
    using calls by (simp add: StatusConnected_text_def)
  then show ?thesis using run(1) by blast
qed

theorem invalid_MTU_reaches_daemon_witness:
  "\<exists>e s' req. daemon_configured (demo_up_env second_login) (retry_times 2 id) ''default'' None (demo_up_state False 100 0) = Some (Some e, s')
    \<and> us_calls s' = [CallSetConfig (Some req) None] \<and> sr_Mtu req = Some 100"
proof -
  have "\<exists>e s' req. daemon_configured (demo_up_env second_login) (retry_times 2 id) ''default'' None (demo_up_state False 100 0) = Some (Some e, s')
    \<and> us_calls s' = us_calls (demo_up_state False 100 (0 :: nat)) @ [CallSetConfig (Some req) None]
    \<and> sr_Mtu req = Some (ucast (uv_mtu (us_vars (demo_up_state False 100 (0 :: nat)))))"
    by (rule invalid_MTU_reaches_daemon [where username = "''root''"])
      (simp_all add: demo_up_state_def demo_vars_def demo_up_env_def bad_interface_name_def ValidateMTU_def MinMTU_def)
  then show ?thesis
    by (simp add: demo_up_state_def demo_vars_def)
qed


end
