(* ===== verification/Engine_Shutdown.thy ===== *)
theory Engine_Shutdown
  imports Engine_Lifecycle Grpc_Client
begin

text \<open>
  The end of \<^verbatim>\<open>Engine.Stop\<close> (\<^verbatim>\<open>go/internal/engine.go\<close>): the engine waits for its goroutines with a time limit
  (\<^verbatim>\<open>waitWithContext\<close>), still holding the lock that its message handlers need. The goroutines are those counted by
  \<^verbatim>\<open>shutdownWg\<close>: the two message streams, whose handlers lock \<^verbatim>\<open>syncMsgMux\<close>, and the two monitors.

  \<open>wait_step\<close> interleaves the goroutines, the goroutine that waits for the group and closes \<^verbatim>\<open>done\<close>, the timer and the
  \<^verbatim>\<open>select\<close>. The theorems: the wait reports success only when every goroutine has ended, it can always be left, and a
  handler that is waiting for the lock makes it last until the time limit; the limit itself is always ten seconds, since
  the peers it counts have been removed before.
\<close>

section \<open>Access to the parts of an engine\<close>

text \<open>
  The userspace objects behind the tunnel are outside the repository: \<open>'n\<close> is the type of network stacks, \<open>'b\<close> of binds and \<open>'d\<close> of
  devices. Each is missing (nil) for some kinds of tunnel.
\<close>

record ('w, 'n, 'b, 'd) tun_objects =
  tun_GetNet :: "'w \<Rightarrow> 'n option"
  tun_GetICEBind :: "'w \<Rightarrow> 'b option"
  tun_Device :: "'w \<Rightarrow> 'd option"
  factory_GetProxy :: "'w \<Rightarrow> 'b"

definition iface_GetNet :: "('w, 'n, 'b, 'd) tun_objects \<Rightarrow> 'w \<Rightarrow> 'n option" where
  "iface_GetNet T w = tun_GetNet T w"

text \<open>The interface object always has a tunnel, so the nil test of \<^verbatim>\<open>GetBind\<close> never fires.\<close>

definition iface_GetBind :: "('w, 'n, 'b, 'd) tun_objects \<Rightarrow> 'w \<Rightarrow> 'b option" where
  "iface_GetBind T w = tun_GetICEBind T w"

definition iface_GetWGDevice :: "('w, 'n, 'b, 'd) tun_objects \<Rightarrow> 'w \<Rightarrow> 'd option" where
  "iface_GetWGDevice T w = tun_Device T w"

definition iface_GetProxy :: "('w, 'n, 'b, 'd) tun_objects \<Rightarrow> 'w \<Rightarrow> 'b" where
  "iface_GetProxy T w = factory_GetProxy T w"

definition engine_GetNet :: "('w, 'n, 'b, 'd) tun_objects \<Rightarrow> ('w, 'k) engine \<Rightarrow> 'n result" where
  "engine_GetNet T e =
     (case en_wgInterface e of
        None \<Rightarrow> Inl (ErrMsg ''wireguard interface not initialized'')
      | Some intf \<Rightarrow> (case iface_GetNet T (en_world e) of
                       None \<Rightarrow> Inl (ErrMsg ''failed to get netstack'')
                     | Some nsnet \<Rightarrow> Inr nsnet))"

definition GetRouteManager :: "('w, 'k) engine \<Rightarrow> ('w, 'k) dm option" where
  "GetRouteManager e = en_routeManager e"

definition GetFirewallManager :: "('w, 'k) engine \<Rightarrow> bool" where
  "GetFirewallManager e = en_firewall e"

definition findIPFromInterfaceName :: "(string \<Rightarrow> ipnet option list result result) \<Rightarrow> string \<Rightarrow> goip result option" where
  "findIPFromInterfaceName byName ifaceName =
     (case byName ifaceName of Inl e \<Rightarrow> Some (Inl e) | Inr addrs \<Rightarrow> findIPFromInterface addrs)"

text \<open>
  Where \<^verbatim>\<open>NewEngine\<close> keeps the state file. On a mobile system the path is given; the file is created when it is missing, and
  an error of that is only logged.
\<close>

record 'w state_files =
  os_Stat :: "string \<Rightarrow> 'w \<Rightarrow> go_error option"
  os_IsNotExist :: "go_error option \<Rightarrow> bool"
  os_Create :: "string \<Rightarrow> 'w \<Rightarrow> go_error option \<times> 'w"
  file_Close :: "string \<Rightarrow> 'w \<Rightarrow> go_error option \<times> 'w"

definition fileExists :: "'w state_files \<Rightarrow> string \<Rightarrow> 'w \<Rightarrow> bool" where
  "fileExists F path w = (\<not> os_IsNotExist F (os_Stat F path w))"

definition createFile :: "'w state_files \<Rightarrow> string \<Rightarrow> 'w \<Rightarrow> go_error option \<times> 'w" where
  "createFile F path w =
     (case os_Create F path w of (Some e, w1) \<Rightarrow> (Some e, w1) | (None, w1) \<Rightarrow> file_Close F path w1)"

definition engine_state_path :: "'w state_files \<Rightarrow> bool \<Rightarrow> string \<Rightarrow> string \<Rightarrow> 'w \<Rightarrow> string \<times> 'w" where
  "engine_state_path F mobile statePath mobilePath w =
     (if mobile then (mobilePath, if fileExists F mobilePath w then w else snd (createFile F mobilePath w))
      else (statePath, w))"

lemma stopped_engine_no_net:
  assumes "store_laws (ee_peers (le_eng L)) conf" and "engine_Stop L e = (r, e')"
  shows "engine_GetNet T e' = Inl (ErrMsg ''wireguard interface not initialized'')"
  using engine_Stop_spec [OF assms] by (simp add: engine_GetNet_def)

lemma engine_state_path_keeps_existing:
  "fileExists F mobilePath w \<Longrightarrow> snd (engine_state_path F mobile statePath mobilePath w) = w"
  by (simp add: engine_state_path_def)

section \<open>Waiting for the goroutines\<close>

datatype goroutine = GrRuns | GrWantsLock | GrEnded

datatype stop_pc = StopWaits | StopReturned "go_error option"

record shutdown =
  sh_goroutines :: "goroutine list"
  sh_done :: bool
  sh_expired :: bool
  sh_pc :: stop_pc

definition shutdown_init :: "goroutine list \<Rightarrow> shutdown" where
  "shutdown_init gs = \<lparr>sh_goroutines = gs, sh_done = False, sh_expired = False, sh_pc = StopWaits\<rparr>"

text \<open>\<^verbatim>\<open>Stop\<close> holds \<^verbatim>\<open>syncMsgMux\<close> until it returns, right after the wait.\<close>

definition sh_locked :: "shutdown \<Rightarrow> bool" where
  "sh_locked s = (sh_pc s = StopWaits)"

inductive wait_step :: "shutdown \<Rightarrow> shutdown \<Rightarrow> bool" where
  gr_ends: "i < length (sh_goroutines s) \<Longrightarrow> sh_goroutines s ! i = GrRuns \<Longrightarrow>
     wait_step s (s\<lparr>sh_goroutines := (sh_goroutines s)[i := GrEnded]\<rparr>)"
| gr_lock: "i < length (sh_goroutines s) \<Longrightarrow> sh_goroutines s ! i = GrRuns \<Longrightarrow>
     wait_step s (s\<lparr>sh_goroutines := (sh_goroutines s)[i := GrWantsLock]\<rparr>)"
| gr_locked: "i < length (sh_goroutines s) \<Longrightarrow> sh_goroutines s ! i = GrWantsLock \<Longrightarrow> \<not> sh_locked s \<Longrightarrow>
     wait_step s (s\<lparr>sh_goroutines := (sh_goroutines s)[i := GrRuns]\<rparr>)"
| wg_Wait: "list_all (\<lambda>g. g = GrEnded) (sh_goroutines s) \<Longrightarrow> wait_step s (s\<lparr>sh_done := True\<rparr>)"
| ctx_expires: "wait_step s (s\<lparr>sh_expired := True\<rparr>)"
| select_done: "sh_pc s = StopWaits \<Longrightarrow> sh_done s \<Longrightarrow> wait_step s (s\<lparr>sh_pc := StopReturned None\<rparr>)"
| select_expired: "sh_pc s = StopWaits \<Longrightarrow> sh_expired s \<Longrightarrow>
     wait_step s (s\<lparr>sh_pc := StopReturned (Some context_DeadlineExceeded)\<rparr>)"

lemma wait_invariant:
  assumes "wait_step\<^sup>*\<^sup>* s s'" and "sh_done s \<longrightarrow> list_all (\<lambda>g. g = GrEnded) (sh_goroutines s)"
    and "sh_pc s = StopReturned None \<longrightarrow> sh_done s"
  shows "(sh_done s' \<longrightarrow> list_all (\<lambda>g. g = GrEnded) (sh_goroutines s')) \<and> (sh_pc s' = StopReturned None \<longrightarrow> sh_done s')"
  using assms
proof (induction rule: rtranclp_induct)
  case (step y z)
  have ended: "g \<noteq> GrEnded \<Longrightarrow> i < length gs \<Longrightarrow> gs ! i = g \<Longrightarrow> \<not> list_all (\<lambda>g. g = GrEnded) gs" for g i gs
    by (auto simp: list_all_length)
  from step.hyps(2) show ?case using step.IH [OF step.prems] ended by cases auto
qed simp

lemma wait_blocked_invariant:
  assumes "wait_step\<^sup>*\<^sup>* s s'" and "sh_pc s = StopWaits" and "GrWantsLock \<in> set (sh_goroutines s)" and "\<not> sh_done s"
  shows "case sh_pc s' of StopWaits \<Rightarrow> GrWantsLock \<in> set (sh_goroutines s') \<and> \<not> sh_done s'
    | StopReturned r \<Rightarrow> r = Some context_DeadlineExceeded \<and> sh_expired s'"
  using assms(1)
proof (induction rule: rtranclp_induct)
  case base
  then show ?case using assms by simp
next
  case (step y z)
  have keep: "GrWantsLock \<in> set gs \<Longrightarrow> i < length gs \<Longrightarrow> gs ! i = GrRuns \<Longrightarrow> GrWantsLock \<in> set (gs[i := g])" for gs i g
    by (metis goroutine.distinct(1) in_set_conv_nth length_list_update nth_list_update_neq)
  from step.hyps(2) show ?case
    using step.IH keep by cases (auto simp: sh_locked_def list_all_iff split: stop_pc.splits)
qed

section \<open>Properties\<close>

text \<open>C10. The wait at the end of \<^verbatim>\<open>Stop\<close> reports success only when every goroutine of the engine has ended. It can be left from
  every state it reaches, and when a message handler is waiting for the lock that \<^verbatim>\<open>Stop\<close> holds, then only
  by the expiry of the time limit.\<close>

theorem waitWithContext_outcomes:
  assumes "wait_step\<^sup>*\<^sup>* (shutdown_init gs) s"
  shows "(sh_pc s = StopReturned None \<longrightarrow> list_all (\<lambda>g. g = GrEnded) (sh_goroutines s)) \<and>
    (\<exists>s' r. wait_step\<^sup>*\<^sup>* s s' \<and> sh_pc s' = StopReturned r) \<and>
    (GrWantsLock \<in> set gs \<longrightarrow> sh_pc s \<noteq> StopWaits \<longrightarrow> sh_pc s = StopReturned (Some context_DeadlineExceeded) \<and> sh_expired s)"
proof (intro conjI impI)
  show "list_all (\<lambda>g. g = GrEnded) (sh_goroutines s)" if "sh_pc s = StopReturned None"
    using wait_invariant [OF assms] that by (simp add: shutdown_init_def)
  show "\<exists>s' r. wait_step\<^sup>*\<^sup>* s s' \<and> sh_pc s' = StopReturned r"
  proof (cases "sh_pc s")
    case StopWaits
    then have "wait_step (s\<lparr>sh_expired := True\<rparr>)
        (s\<lparr>sh_expired := True, sh_pc := StopReturned (Some context_DeadlineExceeded)\<rparr>)"
      using select_expired [of "s\<lparr>sh_expired := True\<rparr>"] by simp
    with ctx_expires [of s] have "wait_step\<^sup>*\<^sup>* s (s\<lparr>sh_expired := True, sh_pc := StopReturned (Some context_DeadlineExceeded)\<rparr>)"
      by (meson r_into_rtranclp rtranclp.rtrancl_into_rtrancl)
    then show ?thesis by fastforce
  qed blast
  assume "GrWantsLock \<in> set gs" and "sh_pc s \<noteq> StopWaits"
  then show "sh_pc s = StopReturned (Some context_DeadlineExceeded)" "sh_expired s"
    using wait_blocked_invariant [OF assms] by (simp_all add: shutdown_init_def split: stop_pc.splits)
qed

text \<open>The time limit of \<^verbatim>\<open>Stop\<close> does not depend on the number of peers it had: they are counted after they have been
  removed, so the limit is always the base of ten seconds.\<close>

theorem Stop_timeout_constant:
  assumes "store_laws (ee_peers (le_eng L)) conf" and "closing_keeps_store L" and "engine_Stop L e = (r, e')"
  shows "calculateShutdownTimeout (length (PeersPubKey (ee_peers (le_eng L)) (en_world e'))) = 10 * 10 ^ 9"
proof -
  have "set (PeersPubKey (ee_peers (le_eng L)) (en_world e')) = {}"
    using engine_Stop_store [OF assms] store_lawsD(1) [OF assms(1)] by simp
  then show ?thesis by (simp add: calculateShutdownTimeout_def Let_def)
qed

section \<open>Witnesses\<close>

lemma shutdown_run: "wait_step\<^sup>*\<^sup>* (shutdown_init [GrWantsLock, GrRuns])
   \<lparr>sh_goroutines = [GrWantsLock, GrRuns], sh_done = False, sh_expired = True,
     sh_pc = StopReturned (Some context_DeadlineExceeded)\<rparr>"
proof -
  let ?s = "shutdown_init [GrWantsLock, GrRuns]"
  have "wait_step ?s (?s\<lparr>sh_expired := True\<rparr>)" by (rule ctx_expires)
  moreover have "wait_step (?s\<lparr>sh_expired := True\<rparr>)
      (?s\<lparr>sh_expired := True, sh_pc := StopReturned (Some context_DeadlineExceeded)\<rparr>)"
    using select_expired [of "?s\<lparr>sh_expired := True\<rparr>"] by (simp add: shutdown_init_def)
  ultimately show ?thesis
    by (simp add: shutdown_init_def)
qed

theorem waitWithContext_outcomes_witness:
  "\<exists>s. wait_step\<^sup>*\<^sup>* (shutdown_init [GrWantsLock, GrRuns]) s \<and> sh_pc s = StopReturned (Some context_DeadlineExceeded) \<and> sh_expired s"
  using waitWithContext_outcomes [OF shutdown_run] shutdown_run by fastforce

theorem Stop_timeout_constant_witness:
  "calculateShutdownTimeout (length (PeersPubKey sample_peers (en_world (snd (engine_Stop sample_life sample_engine))))) = 10 * 10 ^ 9"
proof -
  obtain r e' where s: "engine_Stop sample_life sample_engine = (r, e')" by fastforce
  from Stop_timeout_constant [of sample_life "\<lambda>c. c", OF _ sample_closing s] show ?thesis
    by (simp add: sample_store_laws s)
qed

end
