(* ===== verification/Go_Path.thy ===== *)
theory Go_Path
  imports Go_Strings
begin

text \<open>
  The part of Go's \<^verbatim>\<open>path/filepath\<close> the program uses, on slash-separated paths: \<^verbatim>\<open>Base\<close>, \<^verbatim>\<open>Ext\<close>, \<^verbatim>\<open>Clean\<close> and \<^verbatim>\<open>Join\<close>. The lemmas
  say how an extension sits at the end of its path, and that removing one makes the path shorter.
\<close>

section \<open>Definitions\<close>

abbreviation slash :: char where "slash \<equiv> CHR ''/''"

definition drop_trailing :: "char \<Rightarrow> string \<Rightarrow> string" where
  "drop_trailing c s = rev (dropWhile (\<lambda>x. x = c) (rev s))"

definition after_last :: "char \<Rightarrow> string \<Rightarrow> string" where
  "after_last c s = rev (takeWhile (\<lambda>x. x \<noteq> c) (rev s))"

definition filepath_Base :: "string \<Rightarrow> string" where
  "filepath_Base path =
     (if path = [] then ''.''
      else let b = after_last slash (drop_trailing slash path) in if b = [] then ''/'' else b)"

definition filepath_Ext :: "string \<Rightarrow> string" where
  "filepath_Ext path =
     (let b = after_last slash path in
      if CHR ''.'' \<in> set b then CHR ''.'' # after_last (CHR ''.'') b else [])"

fun clean_elements :: "bool \<Rightarrow> string list \<Rightarrow> string list \<Rightarrow> string list" where
  "clean_elements rooted acc [] = acc"
| "clean_elements rooted acc (x # xs) =
     (if x = [] \<or> x = ''.'' then clean_elements rooted acc xs
      else if x = ''..'' then
        (if acc \<noteq> [] \<and> last acc \<noteq> ''..'' then clean_elements rooted (butlast acc) xs
         else if rooted then clean_elements rooted acc xs
         else clean_elements rooted (acc @ [x]) xs)
      else clean_elements rooted (acc @ [x]) xs)"

definition filepath_Clean :: "string \<Rightarrow> string" where
  "filepath_Clean path =
     (if path = [] then ''.''
      else let rooted = (hd path = slash);
               r = strings_Join ''/'' (clean_elements rooted [] (strings_Split slash path))
           in if rooted then slash # r else if r = [] then ''.'' else r)"

definition filepath_Join :: "string list \<Rightarrow> string" where
  "filepath_Join elem =
     (case dropWhile (\<lambda>e. e = []) elem of [] \<Rightarrow> [] | es \<Rightarrow> filepath_Clean (strings_Join ''/'' es))"

section \<open>Suffixes\<close>

lemma after_last_split:
  assumes "c \<in> set s"
  obtains p where "s = p @ c # after_last c s"
proof -
  obtain xs ys where r: "rev s = xs @ c # ys" "c \<notin> set xs"
    using assms split_list_first [of c "rev s"] by auto
  then have "after_last c s = rev xs"
    by (simp add: after_last_def takeWhile_dropWhile_notin)
  moreover have "s = rev ys @ c # rev xs"
    using r(1) by (metis append.assoc append_Cons append_Nil rev.simps(2) rev_append rev_rev_ident)
  ultimately show thesis using that by simp
qed

lemma after_last_none: "c \<notin> set s \<Longrightarrow> after_last c s = s"
  using takeWhile_append1 [of _ "rev s"] takeWhile_eq_all_conv [of "\<lambda>x. x \<noteq> c" "rev s"]
  by (metis (mono_tags, lifting) after_last_def rev_rev_ident set_rev)

lemma after_last_suffix: obtains p where "s = p @ after_last c s"
proof (cases "c \<in> set s")
  case True
  then obtain p where "s = p @ c # after_last c s" by (rule after_last_split)
  then have "s = (p @ [c]) @ after_last c s" by simp
  then show thesis by (rule that)
next
  case False
  then show thesis using that [of "[]"] by (simp add: after_last_none)
qed

lemma strings_TrimSuffix_append [simp]: "strings_TrimSuffix (p @ e) e = p"
  by (simp add: strings_TrimSuffix_def strings_HasSuffix_def)

lemma filepath_Ext_suffix:
  assumes "filepath_Ext s \<noteq> []"
  obtains p where "s = p @ filepath_Ext s"
proof -
  define b where "b = after_last slash s"
  have dot: "CHR ''.'' \<in> set b" and ext: "filepath_Ext s = CHR ''.'' # after_last (CHR ''.'') b"
    using assms by (auto simp: filepath_Ext_def b_def Let_def split: if_splits)
  obtain p where "s = p @ b" unfolding b_def by (rule after_last_suffix)
  moreover obtain q where "b = q @ filepath_Ext s" unfolding ext by (rule after_last_split [OF dot])
  ultimately show thesis using that [of "p @ q"] by simp
qed

lemma filepath_Ext_shortens:
  assumes "filepath_Ext s \<noteq> []"
  shows "length (strings_TrimSuffix s (filepath_Ext s)) < length s"
proof -
  obtain p where p: "s = p @ filepath_Ext s" using assms by (rule filepath_Ext_suffix)
  then have "strings_TrimSuffix s (filepath_Ext s) = p" by (metis strings_TrimSuffix_append)
  moreover have "length s = length p + length (filepath_Ext s)" by (metis p length_append)
  ultimately show ?thesis using assms by simp
qed

lemma after_last_notin: "c \<notin> set (after_last c s)"
proof -
  have "c \<notin> set (takeWhile (\<lambda>x. x \<noteq> c) (rev s))" using set_takeWhileD [of c "\<lambda>x. x \<noteq> c" "rev s"] by blast
  then show ?thesis by (simp add: after_last_def)
qed

end
