(* ===== verification/Helper_Daemon.thy ===== *)
theory Helper_Daemon
  imports Engine_Sync Grpc_Client Go_Path
begin

text \<open>
  The helper daemon, \<^verbatim>\<open>helper/crypto.go\<close>, \<^verbatim>\<open>management.go\<close> and \<^verbatim>\<open>main.go\<close>: it logs in to the management service with a setup
  key, receives the network map and writes the peers and the routes into two files that another process reads.

  The NaCl box, the random numbers, the curve, protocol buffers, gRPC and the files are outside the repository and are the
  fields of \<open>hp_env\<close> over a world \<open>'w\<close>. A file holds a document, the value that is marshalled to JSON. A slice
  expression past the end of a string panics: \<open>None\<close>. The receiving loop is a \<open>partial_function\<close>, so that \<open>None\<close> also
  stands for a stream that never ends.

  The theorems: a message encrypted for the server is decrypted by it, key and nonce checked on the way; the readers of a file see
  the old document or the new one and nothing else; after an update the files hold the peers and the routes of the map,
  except that an empty list leaves the old file in place; a masked key shows at most eight characters; and when the connection
  to the server fails, the next tick replaces the peers by a demonstration peer.
\<close>

section \<open>Environment\<close>

record peer_info =
  pi_ID :: string
  pi_PublicKey :: string
  pi_Endpoint :: string
  pi_AllowedIPs :: "string list"
  pi_Keepalive :: int

record peers_file =
  pf_Peers :: "peer_info list"
  pf_UpdatedAt :: string

record route_info =
  ri_Network :: string
  ri_Metric :: int

record routes_file =
  rf_Routes :: "route_info list"
  rf_UpdatedAt :: string

datatype document = PeersDoc peers_file | RoutesDoc routes_file

record helper_config =
  hc_PrivateKey :: string
  hc_ManagementURL :: string
  hc_SetupKey :: string

record helper_meta =
  hm_Hostname :: string
  hm_GoOS :: string
  hm_Kernel :: string
  hm_Core :: string
  hm_Platform :: string
  hm_OS :: string
  hm_KernelVersion :: string
  hm_OSVersion :: string
  hm_NetbirdVersion :: string

record helper_login =
  hl_SetupKey :: string
  hl_Meta :: helper_meta
  hl_WgPubKey :: string

record helper_enc =
  he_WgPubKey :: string
  he_Body :: "byte list"

record ('w, 'l, 'p) hp_env =
  rand_Read :: "'w \<Rightarrow> byte list result \<times> 'w"
  box_Seal :: "byte list \<Rightarrow> byte list \<Rightarrow> byte list \<Rightarrow> byte list \<Rightarrow> byte list"
  box_Open :: "byte list \<Rightarrow> byte list \<Rightarrow> byte list \<Rightarrow> byte list \<Rightarrow> byte list option"
  X25519_base :: "byte list \<Rightarrow> byte list result"
  hp_Dial :: "string \<Rightarrow> bool \<Rightarrow> 'w \<Rightarrow> go_error option \<times> 'w"
  hp_ConnClose :: "'w \<Rightarrow> go_error option \<times> 'w"
  hp_GetServerKey :: "'w \<Rightarrow> string result \<times> 'w"
  hp_Login :: "helper_enc \<Rightarrow> 'w \<Rightarrow> helper_enc result \<times> 'w"
  hp_Sync :: "helper_enc \<Rightarrow> 'w \<Rightarrow> 'p result \<times> 'w"
  hp_Recv :: "'p \<Rightarrow> 'w \<Rightarrow> helper_enc result \<times> 'w"
  Marshal_login :: "helper_login \<Rightarrow> byte list result"
  Marshal_sync :: "helper_meta \<Rightarrow> byte list result"
  Unmarshal_login :: "byte list \<Rightarrow> 'l result"
  Unmarshal_sync :: "byte list \<Rightarrow> sync_response result"
  hp_ReadConfig :: "string \<Rightarrow> 'w \<Rightarrow> string result"
  Unmarshal_config :: "string \<Rightarrow> helper_config result"
  Marshal_document :: "document \<Rightarrow> string result"
  os_WriteFile :: "string \<Rightarrow> string \<Rightarrow> 'w \<Rightarrow> go_error option \<times> 'w"
  os_Rename :: "string \<Rightarrow> string \<Rightarrow> 'w \<Rightarrow> go_error option \<times> 'w"
  time_Now :: "'w \<Rightarrow> string"

section \<open>Keys and messages\<close>

definition KeySize :: nat where "KeySize = 32"
definition NonceSize :: nat where "NonceSize = 24"

definition DecodeWGKey :: "string \<Rightarrow> byte list result" where
  "DecodeWGKey keyStr =
     (case base64_DecodeString keyStr of
        Inl e \<Rightarrow> Inl (ErrWrap ''decode base64'' e)
      | Inr key \<Rightarrow> if length key \<noteq> KeySize then Inl (ErrMsg ''invalid key size'') else Inr key)"

definition EncodeWGKey :: "byte list \<Rightarrow> string" where
  "EncodeWGKey key = base64_EncodeToString key"

definition toArray32 :: "byte list \<Rightarrow> byte list result" where
  "toArray32 key = (if length key \<noteq> 32 then Inl (ErrMsg ''key must be 32 bytes'') else Inr key)"

text \<open>\<^verbatim>\<open>box.Seal\<close> appends the ciphertext to its first argument, here the nonce.\<close>

definition hp_EncryptMessage ::
    "('w, 'l, 'p) hp_env \<Rightarrow> byte list \<Rightarrow> byte list \<Rightarrow> byte list \<Rightarrow> 'w \<Rightarrow> byte list result \<times> 'w" where
  "hp_EncryptMessage E plaintext ourPrivKey peerPubKey w =
     (case rand_Read E w of
        (Inl e, w1) \<Rightarrow> (Inl (ErrWrap ''generate nonce'' e), w1)
      | (Inr nonce, w1) \<Rightarrow>
          (bind_result (wrap_result ''convert private key'' (toArray32 ourPrivKey)) (\<lambda>privKey.
           bind_result (wrap_result ''convert public key'' (toArray32 peerPubKey)) (\<lambda>pubKey.
             Inr (nonce @ box_Seal E plaintext nonce pubKey privKey))), w1))"

definition hp_DecryptMessage :: "('w, 'l, 'p) hp_env \<Rightarrow> byte list \<Rightarrow> byte list \<Rightarrow> byte list \<Rightarrow> byte list result" where
  "hp_DecryptMessage E encrypted ourPrivKey peerPubKey =
     (if length encrypted < NonceSize then Inl (ErrMsg ''encrypted message too short'')
      else
        bind_result (wrap_result ''convert private key'' (toArray32 ourPrivKey)) (\<lambda>privKey.
        bind_result (wrap_result ''convert public key'' (toArray32 peerPubKey)) (\<lambda>pubKey.
          case box_Open E (drop NonceSize encrypted) (take NonceSize encrypted) pubKey privKey of
            None \<Rightarrow> Inl (ErrMsg ''decrypt: authentication failed'')
          | Some plaintext \<Rightarrow> Inr plaintext)))"

definition EncryptForServer :: "('w, 'l, 'p) hp_env \<Rightarrow> byte list \<Rightarrow> string \<Rightarrow> string \<Rightarrow> 'w \<Rightarrow> byte list result \<times> 'w" where
  "EncryptForServer E plaintext ourPrivKeyStr serverPubKeyStr w =
     (case DecodeWGKey ourPrivKeyStr of
        Inl e \<Rightarrow> (Inl (ErrWrap ''decode our private key'' e), w)
      | Inr ourPrivKey \<Rightarrow>
        (case DecodeWGKey serverPubKeyStr of
           Inl e \<Rightarrow> (Inl (ErrWrap ''decode server public key'' e), w)
         | Inr serverPubKey \<Rightarrow>
             (let (r, w1) = hp_EncryptMessage E plaintext ourPrivKey serverPubKey w in (wrap_result ''encrypt'' r, w1))))"

definition DecryptFromServer :: "('w, 'l, 'p) hp_env \<Rightarrow> byte list \<Rightarrow> string \<Rightarrow> string \<Rightarrow> byte list result" where
  "DecryptFromServer E encrypted ourPrivKeyStr serverPubKeyStr =
     bind_result (wrap_result ''decode our private key'' (DecodeWGKey ourPrivKeyStr)) (\<lambda>ourPrivKey.
     bind_result (wrap_result ''decode server public key'' (DecodeWGKey serverPubKeyStr)) (\<lambda>serverPubKey.
       wrap_result ''decrypt'' (hp_DecryptMessage E encrypted ourPrivKey serverPubKey)))"

definition DerivePublicKey :: "('w, 'l, 'p) hp_env \<Rightarrow> string \<Rightarrow> string result" where
  "DerivePublicKey E privKeyStr =
     bind_result (wrap_result ''decode private key'' (DecodeWGKey privKeyStr)) (\<lambda>privKey.
     bind_result (wrap_result ''derive public key'' (X25519_base E privKey)) (\<lambda>pubKey. Inr (EncodeWGKey pubKey)))"

section \<open>The management client\<close>

record helper_client =
  hp_url :: string
  hp_connected :: bool
  hp_serverPubKey :: string
  hp_ourPrivKey :: string
  hp_ourPubKey :: string

text \<open>\<^verbatim>\<open>s[:n]\<close> panics when the string is shorter than \<open>n\<close>.\<close>

definition slice_to :: "nat \<Rightarrow> string \<Rightarrow> string option" where
  "slice_to n s = (if length s < n then None else Some (take n s))"

definition NewManagementClient :: "('w, 'l, 'p) hp_env \<Rightarrow> string \<Rightarrow> string \<Rightarrow> helper_client result" where
  "NewManagementClient E url ourPrivKey =
     bind_result (wrap_result ''derive public key'' (DerivePublicKey E ourPrivKey)) (\<lambda>ourPubKey.
       Inr \<lparr>hp_url = url, hp_connected = False, hp_serverPubKey = [], hp_ourPrivKey = ourPrivKey, hp_ourPubKey = ourPubKey\<rparr>)"

definition parse_target :: "string \<Rightarrow> string \<times> bool" where
  "parse_target url =
     (if strings_HasPrefix url ''https://'' then (strings_TrimPrefix url ''https://'', True)
      else if strings_HasPrefix url ''http://'' then (strings_TrimPrefix url ''http://'', False)
      else (url, False))"

definition hp_Connect :: "('w, 'l, 'p) hp_env \<Rightarrow> helper_client \<Rightarrow> 'w \<Rightarrow> helper_client result \<times> 'w" where
  "hp_Connect E m w =
     (let (target, useTLS) = parse_target (hp_url m) in
      case hp_Dial E target useTLS w of
        (Some e, w1) \<Rightarrow> (Inl (ErrWrap ''dial'' e), w1)
      | (None, w1) \<Rightarrow> (Inr (m\<lparr>hp_connected := True\<rparr>), w1))"

definition hp_Close :: "('w, 'l, 'p) hp_env \<Rightarrow> helper_client \<Rightarrow> 'w \<Rightarrow> go_error option \<times> 'w" where
  "hp_Close E m w = (if hp_connected m then hp_ConnClose E w else (None, w))"

definition hp_FetchServerKey :: "('w, 'l, 'p) hp_env \<Rightarrow> helper_client \<Rightarrow> 'w \<Rightarrow> (helper_client result \<times> 'w) option" where
  "hp_FetchServerKey E m w =
     (case hp_GetServerKey E w of
        (Inl e, w1) \<Rightarrow> Some (Inl (ErrWrap ''get server key'' e), w1)
      | (Inr key, w1) \<Rightarrow>
          Option.bind (slice_to 16 key) (\<lambda>shown. Some (Inr (m\<lparr>hp_serverPubKey := key\<rparr>), w1)))"

definition helper_login_meta :: helper_meta where
  "helper_login_meta =
     \<lparr>hm_Hostname = ''netbird-minimal-c'', hm_GoOS = ''linux'', hm_Kernel = ''Linux'', hm_Core = ''22.04'', hm_Platform = ''unknown'',
      hm_OS = ''linux'', hm_KernelVersion = ''5.15.0-generic'', hm_OSVersion = ''22.04'', hm_NetbirdVersion = ''0.27.0''\<rparr>"

definition helper_sync_meta :: helper_meta where
  "helper_sync_meta =
     \<lparr>hm_Hostname = ''netbird-minimal-c'', hm_GoOS = ''linux'', hm_Kernel = [], hm_Core = ''minimal'', hm_Platform = ''linux'',
      hm_OS = ''Linux'', hm_KernelVersion = [], hm_OSVersion = [], hm_NetbirdVersion = []\<rparr>"

definition helper_Login :: "('w, 'l, 'p) hp_env \<Rightarrow> helper_client \<Rightarrow> string \<Rightarrow> 'w \<Rightarrow> ('l result \<times> 'w) option" where
  "helper_Login E m setupKey w =
     (if hp_serverPubKey m = [] then Some (Inl (ErrMsg ''server public key not set, call GetServerKey first''), w)
      else
        Option.bind (slice_to 8 setupKey) (\<lambda>shown1.
        Option.bind (slice_to 16 (hp_ourPubKey m)) (\<lambda>shown2.
          case Marshal_login E \<lparr>hl_SetupKey = setupKey, hl_Meta = helper_login_meta, hl_WgPubKey = hp_ourPubKey m\<rparr> of
            Inl e \<Rightarrow> Some (Inl (ErrWrap ''marshal login request'' e), w)
          | Inr loginReqBytes \<Rightarrow>
            (case EncryptForServer E loginReqBytes (hp_ourPrivKey m) (hp_serverPubKey m) w of
               (Inl e, w1) \<Rightarrow> Some (Inl (ErrWrap ''encrypt login request'' e), w1)
             | (Inr encrypted, w1) \<Rightarrow>
               (case hp_Login E \<lparr>he_WgPubKey = hp_ourPubKey m, he_Body = encrypted\<rparr> w1 of
                  (Inl e, w2) \<Rightarrow> Some (Inl (ErrWrap ''login call'' e), w2)
                | (Inr resp, w2) \<Rightarrow>
                    Some (bind_result (wrap_result ''decrypt login response''
                            (DecryptFromServer E (he_Body resp) (hp_ourPrivKey m) (hp_serverPubKey m))) (\<lambda>decrypted.
                          wrap_result ''unmarshal login response'' (Unmarshal_login E decrypted)), w2))))))"

text \<open>The receiving loop: \<open>Some (None, w)\<close> when the server closed the stream.\<close>

partial_function (option) sync_loop ::
    "('w, 'l, 'p) hp_env \<Rightarrow> helper_client \<Rightarrow> (sync_response \<Rightarrow> 'w \<Rightarrow> 'w option) \<Rightarrow> 'p \<Rightarrow> 'w \<Rightarrow> (go_error option \<times> 'w) option" where
  "sync_loop E m onUpdate stream w =
     (case hp_Recv E stream w of
        (Inl e, w1) \<Rightarrow> if e = io_EOF then Some (None, w1) else Some (Some (ErrWrap ''receive sync update'' e), w1)
      | (Inr resp, w1) \<Rightarrow>
        (case bind_result (DecryptFromServer E (he_Body resp) (hp_ourPrivKey m) (hp_serverPubKey m)) (Unmarshal_sync E) of
           Inl e \<Rightarrow> sync_loop E m onUpdate stream w1
         | Inr r \<Rightarrow> Option.bind (onUpdate r w1) (sync_loop E m onUpdate stream)))"

definition helper_Sync ::
    "('w, 'l, 'p) hp_env \<Rightarrow> helper_client \<Rightarrow> (sync_response \<Rightarrow> 'w \<Rightarrow> 'w option) \<Rightarrow> 'w \<Rightarrow> (go_error option \<times> 'w) option" where
  "helper_Sync E m onUpdate w =
     (if hp_serverPubKey m = [] then Some (Some (ErrMsg ''server public key not set''), w)
      else (case Marshal_sync E helper_sync_meta of
              Inl e \<Rightarrow> Some (Some (ErrWrap ''marshal sync request'' e), w)
            | Inr bytes \<Rightarrow>
              (case EncryptForServer E bytes (hp_ourPrivKey m) (hp_serverPubKey m) w of
                 (Inl e, w1) \<Rightarrow> Some (Some (ErrWrap ''encrypt sync request'' e), w1)
               | (Inr encrypted, w1) \<Rightarrow>
                 (case hp_Sync E \<lparr>he_WgPubKey = hp_ourPubKey m, he_Body = encrypted\<rparr> w1 of
                    (Inl e, w2) \<Rightarrow> Some (Some (ErrWrap ''sync call'' e), w2)
                  | (Inr stream, w2) \<Rightarrow> sync_loop E m onUpdate stream w2))))"

section \<open>Files\<close>

definition writeJSONAtomic :: "('w, 'l, 'p) hp_env \<Rightarrow> string \<Rightarrow> document \<Rightarrow> 'w \<Rightarrow> go_error option \<times> 'w" where
  "writeJSONAtomic E path data w =
     (let tmpFile = path @ ''.tmp'' in
      case Marshal_document E data of
        Inl e \<Rightarrow> (Some (ErrWrap ''marshal json'' e), w)
      | Inr jsonData \<Rightarrow>
        (case os_WriteFile E tmpFile jsonData w of
           (Some e, w1) \<Rightarrow> (Some (ErrWrap ''write temp file'' e), w1)
         | (None, w1) \<Rightarrow>
           (case os_Rename E tmpFile path w1 of
              (Some e, w2) \<Rightarrow> (Some (ErrWrap ''atomic rename'' e), w2)
            | (None, w2) \<Rightarrow> (None, w2))))"

record helper =
  hh_configDir :: string
  hh_config :: helper_config
  hh_peersFile :: string
  hh_routesFile :: string
  hh_running :: bool

definition writePeers :: "('w, 'l, 'p) hp_env \<Rightarrow> helper \<Rightarrow> peers_file \<Rightarrow> 'w \<Rightarrow> go_error option \<times> 'w" where
  "writePeers E h peers w = writeJSONAtomic E (hh_peersFile h) (PeersDoc peers) w"

definition writeRoutes :: "('w, 'l, 'p) hp_env \<Rightarrow> helper \<Rightarrow> routes_file \<Rightarrow> 'w \<Rightarrow> go_error option \<times> 'w" where
  "writeRoutes E h routes w = writeJSONAtomic E (hh_routesFile h) (RoutesDoc routes) w"

definition peer_info_of :: "remote_peer \<Rightarrow> peer_info" where
  "peer_info_of rp = \<lparr>pi_ID = rp_WgPubKey rp, pi_PublicKey = rp_WgPubKey rp, pi_Endpoint = [], pi_AllowedIPs = rp_AllowedIps rp,
     pi_Keepalive = 25\<rparr>"

definition processPeers :: "('w, 'l, 'p) hp_env \<Rightarrow> helper \<Rightarrow> remote_peer list \<Rightarrow> 'w \<Rightarrow> 'w option" where
  "processPeers E h remotePeers w =
     (if remotePeers = [] then Some w
      else if list_ex (\<lambda>rp. slice_to 16 (rp_WgPubKey rp) = None) remotePeers then None
      else Some (snd (writePeers E h \<lparr>pf_Peers = map peer_info_of remotePeers, pf_UpdatedAt = time_Now E w\<rparr> w)))"

definition processRoutes :: "('w, 'l, 'p) hp_env \<Rightarrow> helper \<Rightarrow> proto_route list \<Rightarrow> 'w \<Rightarrow> 'w" where
  "processRoutes E h routes w =
     (if routes = [] then w
      else snd (writeRoutes E h
        \<lparr>rf_Routes = map (\<lambda>r. \<lparr>ri_Network = pr_Network r, ri_Metric = 100\<rparr>) routes, rf_UpdatedAt = time_Now E w\<rparr> w))"

definition onSyncUpdate :: "('w, 'l, 'p) hp_env \<Rightarrow> helper \<Rightarrow> sync_response \<Rightarrow> 'w \<Rightarrow> 'w option" where
  "onSyncUpdate E h resp w =
     (case sr_NetworkMap resp of
        None \<Rightarrow> Some w
      | Some nm \<Rightarrow> map_option (processRoutes E h (nm_Routes nm)) (processPeers E h (nm_RemotePeers nm) w))"

section \<open>The daemon\<close>

definition maskSetupKey :: "string \<Rightarrow> string" where
  "maskSetupKey key =
     (if key = [] then ''(none)''
      else if length key \<le> 8 then ''***''
      else take 4 key @ ''...'' @ drop (length key - 4) key)"

definition loadConfig :: "('w, 'l, 'p) hp_env \<Rightarrow> string \<Rightarrow> 'w \<Rightarrow> helper_config result" where
  "loadConfig E configDir w =
     bind_result (wrap_result ''read config'' (hp_ReadConfig E (filepath_Join [configDir, ''config.json'']) w)) (\<lambda>data.
       wrap_result ''parse config'' (Unmarshal_config E data))"

definition new_helper :: "string \<Rightarrow> helper_config \<Rightarrow> helper" where
  "new_helper configDir config =
     \<lparr>hh_configDir = configDir, hh_config = config, hh_peersFile = filepath_Join [configDir, ''peers.json''],
      hh_routesFile = filepath_Join [configDir, ''routes.json''], hh_running = True\<rparr>"

definition demo_peers :: "string \<Rightarrow> peers_file" where
  "demo_peers now =
     \<lparr>pf_Peers = [\<lparr>pi_ID = ''peer-demo-001'', pi_PublicKey = ''DEMO_PEER_PUBLIC_KEY_FROM_GO_HELPER'',
        pi_Endpoint = ''203.0.113.100:51820'', pi_AllowedIPs = [''100.64.10.0/24''], pi_Keepalive = 25\<rparr>], pf_UpdatedAt = now\<rparr>"

definition demo_routes :: "string \<Rightarrow> routes_file" where
  "demo_routes now = \<lparr>rf_Routes = [\<lparr>ri_Network = ''10.30.0.0/16'', ri_Metric = 100\<rparr>], rf_UpdatedAt = now\<rparr>"

definition updateStub :: "('w, 'l, 'p) hp_env \<Rightarrow> helper \<Rightarrow> 'w \<Rightarrow> 'w" where
  "updateStub E h w =
     (if hc_SetupKey (hh_config h) = [] then w
      else (let w1 = snd (writePeers E h (demo_peers (time_Now E w)) w)
            in snd (writeRoutes E h (demo_routes (time_Now E w1)) w1)))"

text \<open>The loop of the stub mode, as far as it gets in \<open>n\<close> ticks.\<close>

definition runStubMode :: "('w, 'l, 'p) hp_env \<Rightarrow> helper \<Rightarrow> nat \<Rightarrow> 'w \<Rightarrow> 'w" where
  "runStubMode E h n w = (if hh_running h then (updateStub E h ^^ n) w else w)"

definition runRealMode :: "('w, 'l, 'p) hp_env \<Rightarrow> helper \<Rightarrow> 'w \<Rightarrow> (go_error option \<times> 'w) option" where
  "runRealMode E h w =
     (case NewManagementClient E (hc_ManagementURL (hh_config h)) (hc_PrivateKey (hh_config h)) of
        Inl e \<Rightarrow> Some (Some (ErrWrap ''create management client'' e), w)
      | Inr m0 \<Rightarrow>
        (case hp_Connect E m0 w of
           (Inl e, w1) \<Rightarrow> Some (Some (ErrWrap ''connect'' e), w1)
         | (Inr m1, w1) \<Rightarrow>
           map_option (\<lambda>(r, w2). (r, snd (hp_Close E m1 w2)))
             (case hp_FetchServerKey E m1 w1 of
                None \<Rightarrow> None
              | Some (Inl e, w2) \<Rightarrow> Some (Some (ErrWrap ''get server key'' e), w2)
              | Some (Inr m2, w2) \<Rightarrow>
                (case helper_Login E m2 (hc_SetupKey (hh_config h)) w2 of
                   None \<Rightarrow> None
                 | Some (Inl e, w3) \<Rightarrow> Some (Some (ErrWrap ''login'' e), w3)
                 | Some (Inr loginResp, w3) \<Rightarrow>
                     map_option (\<lambda>(r, w4). (map_option (ErrWrap ''sync'') r, w4)) (helper_Sync E m2 (onSyncUpdate E h) w3)))))"

text \<open>\<open>n\<close> is the number of ticks the stub mode lasts.\<close>

definition helper_run :: "('w, 'l, 'p) hp_env \<Rightarrow> helper \<Rightarrow> nat \<Rightarrow> 'w \<Rightarrow> 'w option" where
  "helper_run E h n w =
     (if hc_SetupKey (hh_config h) = [] then Some (runStubMode E h n w)
      else (case runRealMode E h w of
              None \<Rightarrow> None
            | Some (None, w1) \<Rightarrow> Some w1
            | Some (Some e, w1) \<Rightarrow> Some (runStubMode E h n w1)))"

definition helper_stop :: "helper \<Rightarrow> helper" where
  "helper_stop h = h\<lparr>hh_running := False\<rparr>"

section \<open>Encryption\<close>

text \<open>
  What the box and the random numbers promise: a nonce has 24 bytes, and a box closed with a private key and the public key of
  the other side is opened with the keys exchanged.
\<close>

definition box_laws :: "('w, 'l, 'p) hp_env \<Rightarrow> bool" where
  "box_laws E \<longleftrightarrow>
     (\<forall>w n w'. rand_Read E w = (Inr n, w') \<longrightarrow> length n = NonceSize)
   \<and> (\<forall>a b pa pb m n. X25519_base E a = Inr pa \<longrightarrow> X25519_base E b = Inr pb \<longrightarrow>
        box_Open E (box_Seal E m n pb a) n pa b = Some m)"

lemma DecodeWGKey_Encode [simp]:
  "DecodeWGKey (EncodeWGKey k) = (if length k = 32 then Inr k else Inl (ErrMsg ''invalid key size''))"
  by (simp add: DecodeWGKey_def EncodeWGKey_def KeySize_def)

text \<open>
  A message that one side encrypts with its private key and the public key of the other side is decrypted by the other side, and
  the keys are the printed keys both sides exchange.
\<close>

theorem helper_message_roundtrip:
  assumes "box_laws E" and "length a = 32" and "length b = 32" and "length pa = 32" and "length pb = 32"
    and "X25519_base E a = Inr pa" and "X25519_base E b = Inr pb"
    and "EncryptForServer E m (EncodeWGKey a) (EncodeWGKey pb) w = (Inr c, w')"
  shows "DecryptFromServer E c (EncodeWGKey b) (EncodeWGKey pa) = Inr m"
proof -
  obtain n where n: "rand_Read E w = (Inr n, w')" "c = n @ box_Seal E m n pb a"
    using assms by (auto simp: EncryptForServer_def hp_EncryptMessage_def toArray32_def split: prod.splits sum.splits)
  then have "length n = NonceSize" "box_Open E (box_Seal E m n pb a) n pa b = Some m"
    using assms(1,6,7) unfolding box_laws_def by blast+
  then show ?thesis
    using n assms by (simp add: DecryptFromServer_def hp_DecryptMessage_def toArray32_def)
qed

section \<open>Files\<close>

text \<open>
  What the reader of a file sees, and what the file system promises: writing changes the written file only, a renamed file
  replaces its target as a whole, and a rename that fails changes nothing.
\<close>

definition file_laws :: "('w, 'l, 'p) hp_env \<Rightarrow> (string \<Rightarrow> 'w \<Rightarrow> string option) \<Rightarrow> bool" where
  "file_laws E content \<longleftrightarrow>
     (\<forall>p d w r w'. os_WriteFile E p d w = (r, w') \<longrightarrow>
        (\<forall>q. q \<noteq> p \<longrightarrow> content q w' = content q w) \<and> (r = None \<longrightarrow> content p w' = Some d))
   \<and> (\<forall>src dst w r w'. os_Rename E src dst w = (r, w') \<longrightarrow>
        (if r = None then content dst w' = content src w \<and> (\<forall>q. q \<noteq> src \<and> q \<noteq> dst \<longrightarrow> content q w' = content q w)
         else \<forall>q. content q w' = content q w))"

lemma file_write:
  "file_laws E content \<Longrightarrow> os_WriteFile E p d w = (r, w') \<Longrightarrow> q \<noteq> p \<Longrightarrow> content q w' = content q w"
  "file_laws E content \<Longrightarrow> os_WriteFile E p d w = (None, w') \<Longrightarrow> content p w' = Some d"
  unfolding file_laws_def by blast+

lemma file_rename:
  "file_laws E content \<Longrightarrow> os_Rename E src dst w = (None, w') \<Longrightarrow> content dst w' = content src w"
  "file_laws E content \<Longrightarrow> os_Rename E src dst w = (r, w') \<Longrightarrow> q \<noteq> src \<Longrightarrow> q \<noteq> dst \<Longrightarrow> content q w' = content q w"
  "file_laws E content \<Longrightarrow> os_Rename E src dst w = (Some e, w') \<Longrightarrow> content q w' = content q w"
  unfolding file_laws_def by (metis option.distinct(1))+

lemma writeJSONAtomic_cases:
  assumes "file_laws E content" and "writeJSONAtomic E path doc w = (r, w')"
  shows "(if r = None then \<exists>json. Marshal_document E doc = Inr json \<and> content path w' = Some json
          else content path w' = content path w)
     \<and> (\<forall>q. q \<noteq> path \<and> q \<noteq> path @ ''.tmp'' \<longrightarrow> content q w' = content q w)"
proof (cases "Marshal_document E doc")
  case (Inl e)
  then show ?thesis using assms(2) by (auto simp: writeJSONAtomic_def)
next
  case (Inr json)
  obtain r1 w1 where w1: "os_WriteFile E (path @ ''.tmp'') json w = (r1, w1)" by fastforce
  obtain r2 w2 where w2: "os_Rename E (path @ ''.tmp'') path w1 = (r2, w2)" by fastforce
  have tmp: "path \<noteq> path @ ''.tmp''" by simp
  show ?thesis
  proof (cases r1)
    case (Some e)
    then have "r \<noteq> None" "w' = w1" using assms(2) Inr w1 by (auto simp: writeJSONAtomic_def)
    then show ?thesis using file_write(1) [OF assms(1) w1] tmp by auto
  next
    case None
    show ?thesis
    proof (cases r2)
      case (Some e)
      then have "r \<noteq> None" "w' = w2" using assms(2) Inr w1 w2 None by (auto simp: writeJSONAtomic_def)
      then show ?thesis
        using file_write(1) [OF assms(1) w1] file_rename(3) [OF assms(1), of _ path w1 e w2] w2 Some tmp by auto
    next
      case rn: None
      then have "r = None" "w' = w2" using assms(2) Inr w1 w2 None by (auto simp: writeJSONAtomic_def)
      then show ?thesis
        using file_write [OF assms(1)] w1 None file_rename(1,2) [OF assms(1)] w2 rn Inr by metis
    qed
  qed
qed

text \<open>C29. 
  Writing a document is atomic for its readers: when it succeeds they find the new document, when it fails at any point they
  still find what was there before, and no other file than the temporary one changes.
\<close>

theorem writeJSONAtomic_atomic:
  assumes "file_laws E content" and "writeJSONAtomic E path doc w = (r, w')"
  shows "(if r = None then \<exists>json. Marshal_document E doc = Inr json \<and> content path w' = Some json
          else content path w' = content path w)
     \<and> (\<forall>q. q \<noteq> path \<and> q \<noteq> path @ ''.tmp'' \<longrightarrow> content q w' = content q w)"
  using assms by (rule writeJSONAtomic_cases)

definition files_apart :: "helper \<Rightarrow> bool" where
  "files_apart h \<longleftrightarrow> hh_peersFile h \<noteq> hh_routesFile h \<and> hh_peersFile h \<noteq> hh_routesFile h @ ''.tmp''
     \<and> hh_routesFile h \<noteq> hh_peersFile h @ ''.tmp''"

text \<open>A disk on which every write succeeds.\<close>

definition disk_ok :: "('w, 'l, 'p) hp_env \<Rightarrow> bool" where
  "disk_ok E \<longleftrightarrow> (\<forall>p d w. fst (os_WriteFile E p d w) = None) \<and> (\<forall>s d w. fst (os_Rename E s d w) = None)
     \<and> (\<forall>doc. \<exists>json. Marshal_document E doc = Inr json)"

lemma writeJSONAtomic_disk:
  assumes "file_laws E content" and "disk_ok E"
  shows "\<exists>json. Marshal_document E doc = Inr json \<and> content path (snd (writeJSONAtomic E path doc w)) = Some json"
    and "q \<noteq> path \<Longrightarrow> q \<noteq> path @ ''.tmp'' \<Longrightarrow> content q (snd (writeJSONAtomic E path doc w)) = content q w"
proof -
  obtain r w' where w': "writeJSONAtomic E path doc w = (r, w')" by fastforce
  have "r = None"
    using assms(2) w' by (auto simp: disk_ok_def writeJSONAtomic_def Let_def split: sum.splits prod.splits option.splits) (metis fst_conv option.distinct(1) sum.distinct(1))+
  then show "\<exists>json. Marshal_document E doc = Inr json \<and> content path (snd (writeJSONAtomic E path doc w)) = Some json"
    "q \<noteq> path \<Longrightarrow> q \<noteq> path @ ''.tmp'' \<Longrightarrow> content q (snd (writeJSONAtomic E path doc w)) = content q w"
    using writeJSONAtomic_cases [OF assms(1) w'] w' by simp_all
qed

lemma writePeers_disk:
  assumes "file_laws E content" and "disk_ok E" and "files_apart h"
  shows "\<exists>json. Marshal_document E (PeersDoc pf) = Inr json \<and> content (hh_peersFile h) (snd (writePeers E h pf w)) = Some json"
    and "content (hh_routesFile h) (snd (writePeers E h pf w)) = content (hh_routesFile h) w"
  using assms(3) unfolding writePeers_def files_apart_def
  by (intro writeJSONAtomic_disk [OF assms(1,2)]; metis)+

lemma writeRoutes_disk:
  assumes "file_laws E content" and "disk_ok E" and "files_apart h"
  shows "\<exists>json. Marshal_document E (RoutesDoc rf) = Inr json \<and> content (hh_routesFile h) (snd (writeRoutes E h rf w)) = Some json"
    and "content (hh_peersFile h) (snd (writeRoutes E h rf w)) = content (hh_peersFile h) w"
  using assms(3) unfolding writeRoutes_def files_apart_def
  by (intro writeJSONAtomic_disk [OF assms(1,2)]; metis)+

text \<open>
  On a disk that can be written, an update with a network map leaves the peers of the map in the peers file and its routes in
  the routes file. An empty list is not written: the file keeps what it had.
\<close>

theorem onSyncUpdate_files:
  assumes "file_laws E content" and "disk_ok E" and "files_apart h" and "sr_NetworkMap resp = Some nm"
    and "\<forall>rp \<in> set (nm_RemotePeers nm). 16 \<le> length (rp_WgPubKey rp)"
  shows "\<exists>w'. onSyncUpdate E h resp w = Some w' \<and>
    (if nm_RemotePeers nm = [] then content (hh_peersFile h) w' = content (hh_peersFile h) w
     else \<exists>json v. Marshal_document E (PeersDoc \<lparr>pf_Peers = map peer_info_of (nm_RemotePeers nm), pf_UpdatedAt = time_Now E v\<rparr>) = Inr json
        \<and> content (hh_peersFile h) w' = Some json) \<and>
    (if nm_Routes nm = [] then content (hh_routesFile h) w' = content (hh_routesFile h) w
     else \<exists>json v. Marshal_document E (RoutesDoc \<lparr>rf_Routes = map (\<lambda>r. \<lparr>ri_Network = pr_Network r, ri_Metric = 100\<rparr>) (nm_Routes nm),
          rf_UpdatedAt = time_Now E v\<rparr>) = Inr json \<and> content (hh_routesFile h) w' = Some json)"
proof -
  have keys: "\<not> list_ex (\<lambda>rp. slice_to 16 (rp_WgPubKey rp) = None) (nm_RemotePeers nm)"
    using assms(5) by (auto simp: list_ex_iff slice_to_def)
  define w1 where "w1 = (if nm_RemotePeers nm = [] then w
    else snd (writePeers E h \<lparr>pf_Peers = map peer_info_of (nm_RemotePeers nm), pf_UpdatedAt = time_Now E w\<rparr> w))"
  have peers: "processPeers E h (nm_RemotePeers nm) w = Some w1"
    using keys by (simp add: processPeers_def w1_def)
  have up: "onSyncUpdate E h resp w = Some (processRoutes E h (nm_Routes nm) w1)"
    using assms(4) peers by (simp add: onSyncUpdate_def)
  have p1: "if nm_RemotePeers nm = [] then content (hh_peersFile h) w1 = content (hh_peersFile h) w
     else \<exists>json v. Marshal_document E (PeersDoc \<lparr>pf_Peers = map peer_info_of (nm_RemotePeers nm), pf_UpdatedAt = time_Now E v\<rparr>) = Inr json
        \<and> content (hh_peersFile h) w1 = Some json"
    using writePeers_disk(1) [OF assms(1-3), of "\<lparr>pf_Peers = map peer_info_of (nm_RemotePeers nm), pf_UpdatedAt = time_Now E w\<rparr>" w]
    by (auto simp: w1_def)
  have r1: "content (hh_routesFile h) w1 = content (hh_routesFile h) w"
    using writePeers_disk(2) [OF assms(1-3)] by (simp add: w1_def)
  have p2: "content (hh_peersFile h) (processRoutes E h (nm_Routes nm) w1) = content (hh_peersFile h) w1"
    using writeRoutes_disk(2) [OF assms(1-3)] by (simp add: processRoutes_def)
  have r2: "if nm_Routes nm = [] then content (hh_routesFile h) (processRoutes E h (nm_Routes nm) w1) = content (hh_routesFile h) w
     else \<exists>json v. Marshal_document E (RoutesDoc \<lparr>rf_Routes = map (\<lambda>r. \<lparr>ri_Network = pr_Network r, ri_Metric = 100\<rparr>) (nm_Routes nm),
          rf_UpdatedAt = time_Now E v\<rparr>) = Inr json \<and> content (hh_routesFile h) (processRoutes E h (nm_Routes nm) w1) = Some json"
    using writeRoutes_disk(1) [OF assms(1-3), of "\<lparr>rf_Routes = map (\<lambda>r. \<lparr>ri_Network = pr_Network r, ri_Metric = 100\<rparr>) (nm_Routes nm),
      rf_UpdatedAt = time_Now E w1\<rparr>" w1] r1 by (auto simp: processRoutes_def)
  show ?thesis
    using p1 r2 unfolding p2 [symmetric] by (intro exI [of _ "processRoutes E h (nm_Routes nm) w1"] conjI up)
qed

section \<open>Falling back\<close>

lemma updateStub_peers:
  assumes "file_laws E content" and "disk_ok E" and "files_apart h" and "hc_SetupKey (hh_config h) \<noteq> []"
  shows "\<exists>json now. Marshal_document E (PeersDoc (demo_peers now)) = Inr json \<and> content (hh_peersFile h) (updateStub E h w) = Some json"
  using writePeers_disk(1) [OF assms(1-3), of "demo_peers (time_Now E w)" w] writeRoutes_disk(2) [OF assms(1-3)] assms(4)
  by (auto simp: updateStub_def Let_def)

text \<open>
  When the real mode fails, for whatever reason, the helper goes on in stub mode, and its first tick replaces the peers in the
  file by a demonstration peer.
\<close>

theorem failed_connection_installs_demo_peer:
  assumes "file_laws E content" and "disk_ok E" and "files_apart h" and "hc_SetupKey (hh_config h) \<noteq> []" and "hh_running h"
    and "runRealMode E h w = Some (Some e, w1)" and "0 < n"
  shows "\<exists>w' json now. helper_run E h n w = Some w' \<and> Marshal_document E (PeersDoc (demo_peers now)) = Inr json
     \<and> content (hh_peersFile h) w' = Some json"
proof -
  obtain k where n: "n = Suc k" using assms(7) by (cases n) auto
  have "helper_run E h n w = Some (updateStub E h ((updateStub E h ^^ k) w1))"
    using assms(4-6) by (simp add: helper_run_def runStubMode_def n)
  then show ?thesis
    using updateStub_peers [OF assms(1-4)] by blast
qed

lemma no_setup_key_writes_nothing:
  assumes "hc_SetupKey (hh_config h) = []"
  shows "helper_run E h n w = Some w"
proof -
  have "(updateStub E h ^^ n) w = w" by (induction n) (simp_all add: updateStub_def assms)
  then show ?thesis by (simp add: helper_run_def runStubMode_def assms)
qed

lemma maskSetupKey_hides:
  "8 < length k \<Longrightarrow> 8 < length k' \<Longrightarrow> take 4 k = take 4 k' \<Longrightarrow> drop (length k - 4) k = drop (length k' - 4) k'
     \<Longrightarrow> maskSetupKey k = maskSetupKey k'"
  by (auto simp: maskSetupKey_def)

lemma short_setup_key_panics:
  assumes "hp_serverPubKey m \<noteq> []" and "length setupKey < 8"
  shows "helper_Login E m setupKey w = None"
  using assms by (simp add: helper_Login_def slice_to_def)


section \<open>Witnesses\<close>

text \<open>The world is the list of the files; a document is printed as the list of its keys or networks.\<close>

definition demo_hp_env :: "((string \<times> string) list, unit, unit) hp_env" where
  "demo_hp_env =
     \<lparr>rand_Read = (\<lambda>w. (Inr (replicate 24 7), w)), box_Seal = (\<lambda>m n p k. rev m), box_Open = (\<lambda>c n p k. Some (rev c)),
      X25519_base = (\<lambda>k. Inr k), hp_Dial = (\<lambda>t b w. (None, w)), hp_ConnClose = (\<lambda>w. (None, w)),
      hp_GetServerKey = (\<lambda>w. (Inl (ErrStatus Unavailable ''down''), w)), hp_Login = (\<lambda>m w. (Inr m, w)), hp_Sync = (\<lambda>m w. (Inr (), w)),
      hp_Recv = (\<lambda>p w. (Inl io_EOF, w)), Marshal_login = (\<lambda>q. Inr []), Marshal_sync = (\<lambda>q. Inr []), Unmarshal_login = (\<lambda>b. Inr ()),
      Unmarshal_sync = (\<lambda>b. Inl (ErrMsg ''sync'')), hp_ReadConfig = (\<lambda>p w. Inr []), Unmarshal_config = (\<lambda>s. Inl (ErrMsg ''config'')),
      Marshal_document = (\<lambda>d. Inr (case d of PeersDoc f \<Rightarrow> concat (map pi_PublicKey (pf_Peers f)) | RoutesDoc f \<Rightarrow> concat (map ri_Network (rf_Routes f)))),
      os_WriteFile = (\<lambda>p d w. (None, AList.update p d w)),
      os_Rename = (\<lambda>s d w. (None, case map_of w s of None \<Rightarrow> AList.delete d w | Some c \<Rightarrow> AList.update d c (AList.delete s w))),
      time_Now = (\<lambda>w. ''now'')\<rparr>"

definition demo_helper :: helper where
  "demo_helper = new_helper ''/etc/netbird''
     \<lparr>hc_PrivateKey = EncodeWGKey (replicate 32 1), hc_ManagementURL = ''https://api'', hc_SetupKey = ''0123456789''\<rparr>"

lemma demo_file_laws: "file_laws demo_hp_env (\<lambda>p w. map_of w p)"
  by (auto simp: file_laws_def demo_hp_env_def update_conv' delete_conv' split: option.splits)

lemma demo_disk_ok: "disk_ok demo_hp_env"
  by (simp add: disk_ok_def demo_hp_env_def)

lemma demo_files_apart: "files_apart demo_helper"
  by code_simp

theorem helper_message_roundtrip_witness:
  "DecryptFromServer demo_hp_env (replicate 24 7 @ [3, 2, 1]) (EncodeWGKey (replicate 32 2)) (EncodeWGKey (replicate 32 1)) = Inr [1, 2, 3]"
proof (rule helper_message_roundtrip [where a = "replicate 32 1" and b = "replicate 32 2" and pb = "replicate 32 2" and w = "[]" and w' = "[]"])
  show "box_laws demo_hp_env" by (simp add: box_laws_def demo_hp_env_def NonceSize_def)
  show "EncryptForServer demo_hp_env [1, 2, 3] (EncodeWGKey (replicate 32 1)) (EncodeWGKey (replicate 32 2)) [] = (Inr (replicate 24 7 @ [3, 2, 1]), [])"
    by (simp add: EncryptForServer_def hp_EncryptMessage_def toArray32_def demo_hp_env_def)
qed (simp_all add: demo_hp_env_def)

theorem writeJSONAtomic_atomic_witness:
  "\<exists>w'. writeJSONAtomic demo_hp_env ''p'' (PeersDoc (demo_peers ''now'')) [(''p'', ''old''), (''q'', ''other'')] = (None, w')
     \<and> map_of w' ''p'' = Some ''DEMO_PEER_PUBLIC_KEY_FROM_GO_HELPER'' \<and> map_of w' ''q'' = Some ''other''"
proof -
  have "fst (writeJSONAtomic demo_hp_env ''p'' (PeersDoc (demo_peers ''now'')) [(''p'', ''old''), (''q'', ''other'')]) = None"
    by code_simp
  then obtain w' where w': "writeJSONAtomic demo_hp_env ''p'' (PeersDoc (demo_peers ''now'')) [(''p'', ''old''), (''q'', ''other'')] = (None, w')"
    by (metis prod.collapse)
  have "Marshal_document demo_hp_env (PeersDoc (demo_peers ''now'')) = Inr ''DEMO_PEER_PUBLIC_KEY_FROM_GO_HELPER''"
    by (simp add: demo_hp_env_def demo_peers_def)
  with writeJSONAtomic_atomic [OF demo_file_laws w'] w' show ?thesis
    by simp
qed

definition demo_update :: sync_response where
  "demo_update = \<lparr>sr_NetbirdConfig = None, sr_NetworkMap = Some ((sample_map 4)\<lparr>nm_RemotePeers := [\<lparr>rp_WgPubKey = ''0123456789abcdef'', rp_AllowedIps = [], rp_Fqdn = [],
     rp_AgentVersion = []\<rparr>]\<rparr>), sr_Checks = []\<rparr>"


theorem onSyncUpdate_files_witness:
  "\<exists>w'. onSyncUpdate demo_hp_env demo_helper demo_update [] = Some w' \<and> map_of w' (hh_peersFile demo_helper) = Some ''0123456789abcdef''"
proof -
  let ?nm = "(sample_map 4)\<lparr>nm_RemotePeers := [\<lparr>rp_WgPubKey = ''0123456789abcdef'', rp_AllowedIps = [], rp_Fqdn = [], rp_AgentVersion = []\<rparr>]\<rparr>"
  have "\<exists>w'. onSyncUpdate demo_hp_env demo_helper demo_update [] = Some w' \<and>
    (if nm_RemotePeers ?nm = [] then map_of w' (hh_peersFile demo_helper) = map_of [] (hh_peersFile demo_helper)
     else \<exists>json v. Marshal_document demo_hp_env (PeersDoc \<lparr>pf_Peers = map peer_info_of (nm_RemotePeers ?nm), pf_UpdatedAt = time_Now demo_hp_env v\<rparr>) = Inr json
        \<and> map_of w' (hh_peersFile demo_helper) = Some json)"
    using onSyncUpdate_files [OF demo_file_laws demo_disk_ok demo_files_apart, of demo_update ?nm "[]"]
    by (auto simp: demo_update_def)
  then show ?thesis
    by (simp add: demo_hp_env_def peer_info_of_def)
qed

theorem failed_connection_installs_demo_peer_witness:
  "\<exists>w'. helper_run demo_hp_env demo_helper 3 [(hh_peersFile demo_helper, ''real peers'')] = Some w'
     \<and> map_of w' (hh_peersFile demo_helper) = Some ''DEMO_PEER_PUBLIC_KEY_FROM_GO_HELPER''"
proof -
  have "map_option fst (runRealMode demo_hp_env demo_helper [(hh_peersFile demo_helper, ''real peers'')])
      = Some (Some (ErrWrap ''get server key'' (ErrWrap ''get server key'' (ErrStatus Unavailable ''down''))))" by code_simp
  then obtain w1 where "runRealMode demo_hp_env demo_helper [(hh_peersFile demo_helper, ''real peers'')]
      = Some (Some (ErrWrap ''get server key'' (ErrWrap ''get server key'' (ErrStatus Unavailable ''down''))), w1)" by auto
  then have "\<exists>w' json now. helper_run demo_hp_env demo_helper 3 [(hh_peersFile demo_helper, ''real peers'')] = Some w'
      \<and> Marshal_document demo_hp_env (PeersDoc (demo_peers now)) = Inr json \<and> map_of w' (hh_peersFile demo_helper) = Some json"
    by (intro failed_connection_installs_demo_peer [OF demo_file_laws demo_disk_ok demo_files_apart])
      (simp_all add: demo_helper_def new_helper_def)
  moreover have "Marshal_document demo_hp_env (PeersDoc (demo_peers now)) = Inr ''DEMO_PEER_PUBLIC_KEY_FROM_GO_HELPER''" for now
    by (simp add: demo_hp_env_def demo_peers_def)
  ultimately show ?thesis by auto
qed

end
