(* ===== verification/Go_Json.thy ===== *)
theory Go_Json
  imports Go_Codec
begin

text \<open>
  What the program uses of \<^verbatim>\<open>encoding/json\<close> (Go 1.21): \<^verbatim>\<open>MarshalIndent\<close> with two blanks, and the syntax that \<^verbatim>\<open>Unmarshal\<close>
  accepts. A document is a value of the datatype \<open>json\<close>; a number is kept as its literal, as the decoder does until it knows the
  type of the field. How a struct becomes a document, and a document a struct, is said by the theory that has the struct; the locale
  \<open>json_struct\<close> is what it has to show.

  Texts are sequences of bytes. The printer escapes what \<^verbatim>\<open>htmlSafeSet\<close> does not have and copies bytes above 127, which is right
  for text in UTF-8 without the two line separators U+2028 and U+2029; the theorems are stated for ASCII text. Nesting is not
  bounded (the decoder stops at a depth of 10000).

  The parser has fuel, twice the length of the text; \<open>parse_value_fuel\<close> shows that more fuel never changes the result. The main
  lemma is \<open>json_parse_MarshalIndent\<close>: a printed document is parsed back.
\<close>

datatype json = JNull | JBool bool | JNum string | JStr string | JArr "json list" | JObj "(string \<times> json) list"

section \<open>Printing\<close>

definition is_ascii :: "char \<Rightarrow> bool" where "is_ascii c = ((of_char c :: nat) < 128)"

lemma is_ascii_Char [simp]: "is_ascii (Char b0 b1 b2 b3 b4 b5 b6 b7) \<longleftrightarrow> \<not> b7"
  by (cases b0; cases b1; cases b2; cases b3; cases b4; cases b5; cases b6; cases b7) (simp_all add: is_ascii_def)

definition html_safe :: "char \<Rightarrow> bool" where
  "html_safe c = ((of_char c :: nat) \<ge> 32 \<and> c \<notin> {CHR 0x22, CHR 0x5C, CHR ''<'', CHR ''>'', CHR ''&''})"

definition escape_char :: "char \<Rightarrow> string" where
  "escape_char c =
     (if html_safe c then [c]
      else if c = CHR 0x5C \<or> c = CHR 0x22 then [CHR 0x5C, c]
      else if c = CHR 0x0A then [CHR 0x5C, CHR ''n'']
      else if c = CHR 0x0D then [CHR 0x5C, CHR ''r'']
      else if c = CHR 0x09 then [CHR 0x5C, CHR ''t'']
      else [CHR 0x5C, CHR ''u'', CHR ''0'', CHR ''0'', hex_digit (of_char c div 16), hex_digit (of_char c mod 16)])"

definition print_string :: "string \<Rightarrow> string" where
  "print_string s = CHR 0x22 # concat (map escape_char s) @ [CHR 0x22]"

text \<open>A new line with the indentation of a nesting level.\<close>

definition new_line :: "nat \<Rightarrow> string" where
  "new_line n = CHR 0x0A # replicate (2 * n) (CHR 0x20)"

fun print_json :: "nat \<Rightarrow> json \<Rightarrow> string"
  and print_elements :: "nat \<Rightarrow> json list \<Rightarrow> string"
  and print_members :: "nat \<Rightarrow> (string \<times> json) list \<Rightarrow> string" where
  "print_json n JNull = ''null''"
| "print_json n (JBool b) = (if b then ''true'' else ''false'')"
| "print_json n (JNum t) = t"
| "print_json n (JStr s) = print_string s"
| "print_json n (JArr xs) = CHR ''['' # (if xs = [] then [] else print_elements (Suc n) xs @ new_line n) @ [CHR '']'']"
| "print_json n (JObj ms) = CHR ''{'' # (if ms = [] then [] else print_members (Suc n) ms @ new_line n) @ [CHR ''}'']"
| "print_elements n [] = []"
| "print_elements n (x # xs) = new_line n @ print_json n x @ (if xs = [] then [] else CHR '','' # print_elements n xs)"
| "print_members n [] = []"
| "print_members n ((k, x) # ms) =
     new_line n @ print_string k @ [CHR '':'', CHR 0x20] @ print_json n x @ (if ms = [] then [] else CHR '','' # print_members n ms)"

definition json_MarshalIndent :: "json \<Rightarrow> string" where "json_MarshalIndent v = print_json 0 v"

section \<open>Parsing\<close>

definition json_ws :: "char \<Rightarrow> bool" where
  "json_ws c = (c = CHR 0x20 \<or> c = CHR 0x09 \<or> c = CHR 0x0A \<or> c = CHR 0x0D)"

definition skip_ws :: "string \<Rightarrow> string" where "skip_ws s = dropWhile json_ws s"

text \<open>The four hexadecimal digits of an escape and the UTF-8 encoding of the code point they name.\<close>

fun hex4 :: "string \<Rightarrow> (nat \<times> string) option" where
  "hex4 (a # b # c # d # r) =
     (case (hex_val a, hex_val b, hex_val c, hex_val d) of
        (Some w, Some x, Some y, Some z) \<Rightarrow> Some (4096 * w + 256 * x + 16 * y + z, r)
      | _ \<Rightarrow> None)"
| "hex4 _ = None"

definition utf8_encode :: "nat \<Rightarrow> string" where
  "utf8_encode r =
     (if r < 128 then [char_of r]
      else if r < 2048 then [char_of (192 + r div 64), char_of (128 + r mod 64)]
      else if r < 65536 then [char_of (224 + r div 4096), char_of (128 + r div 64 mod 64), char_of (128 + r mod 64)]
      else [char_of (240 + r div 262144), char_of (128 + r div 4096 mod 64), char_of (128 + r div 64 mod 64), char_of (128 + r mod 64)])"

definition is_surrogate :: "nat \<Rightarrow> bool" where "is_surrogate r = (55296 \<le> r \<and> r < 57344)"

text \<open>A lone surrogate becomes U+FFFD; a pair is one code point.\<close>

definition unescape_u :: "string \<Rightarrow> (string \<times> string) option" where
  "unescape_u s =
     (case hex4 s of
        None \<Rightarrow> None
      | Some (r, rest) \<Rightarrow>
          if is_surrogate r then
            (case rest of
               b # u # t \<Rightarrow>
                 if b = CHR 0x5C \<and> u = CHR ''u'' then
                   (case hex4 t of
                      Some (r2, rest2) \<Rightarrow>
                        if r < 56320 \<and> 56320 \<le> r2 \<and> r2 < 57344
                        then Some (utf8_encode (65536 + (r - 55296) * 1024 + (r2 - 56320)), rest2)
                        else Some (utf8_encode 65533, rest)
                    | None \<Rightarrow> Some (utf8_encode 65533, rest))
                 else Some (utf8_encode 65533, rest)
             | _ \<Rightarrow> Some (utf8_encode 65533, rest))
          else Some (utf8_encode r, rest))"

definition unescape_char :: "char \<Rightarrow> char option" where
  "unescape_char c =
     (if c = CHR 0x22 \<or> c = CHR 0x5C \<or> c = CHR ''/'' then Some c
      else if c = CHR ''b'' then Some (CHR 0x08)
      else if c = CHR ''f'' then Some (CHR 0x0C)
      else if c = CHR ''n'' then Some (CHR 0x0A)
      else if c = CHR ''r'' then Some (CHR 0x0D)
      else if c = CHR ''t'' then Some (CHR 0x09)
      else None)"

text \<open>The rest of a string literal after its opening quote, and what follows the closing one.\<close>

function parse_string :: "string \<Rightarrow> (string \<times> string) option" where
  "parse_string [] = None"
| "parse_string (c # s) =
     (if c = CHR 0x22 then Some ([], s)
      else if c = CHR 0x5C then
        (case s of
           [] \<Rightarrow> None
         | e # t \<Rightarrow>
             if e = CHR ''u'' then
               (case unescape_u t of
                  None \<Rightarrow> None
                | Some (u, r) \<Rightarrow> if length r < length t then map_option (apfst ((@) u)) (parse_string r) else None)
             else (case unescape_char e of
                     None \<Rightarrow> None
                   | Some d \<Rightarrow> map_option (apfst ((#) d)) (parse_string t)))
      else if (of_char c :: nat) < 32 then None
      else map_option (apfst ((#) c)) (parse_string s))"
  by pat_completeness auto
termination
  by (relation "measure length") auto

text \<open>A number: the longest prefix of characters that occur in numbers has to be one.\<close>

definition num_char :: "char \<Rightarrow> bool" where
  "num_char c = (is_digit c \<or> c \<in> {CHR ''-'', CHR ''+'', CHR ''.'', CHR ''e'', CHR ''E''})"

definition is_digits :: "string \<Rightarrow> bool" where "is_digits s = (s \<noteq> [] \<and> list_all is_digit s)"

definition valid_exponent :: "string \<Rightarrow> bool" where
  "valid_exponent s =
     (s = [] \<or> (hd s = CHR ''e'' \<or> hd s = CHR ''E'')
        \<and> is_digits (if tl s \<noteq> [] \<and> (hd (tl s) = CHR ''+'' \<or> hd (tl s) = CHR ''-'') then tl (tl s) else tl s))"

definition valid_fraction :: "string \<Rightarrow> bool" where
  "valid_fraction s =
     (if s \<noteq> [] \<and> hd s = CHR ''.''
      then takeWhile is_digit (tl s) \<noteq> [] \<and> valid_exponent (dropWhile is_digit (tl s))
      else valid_exponent s)"

definition valid_number :: "string \<Rightarrow> bool" where
  "valid_number s =
     (let t = (if s \<noteq> [] \<and> hd s = CHR ''-'' then tl s else s) in
      t \<noteq> [] \<and> (if hd t = CHR ''0'' then valid_fraction (tl t)
                 else takeWhile is_digit t \<noteq> [] \<and> valid_fraction (dropWhile is_digit t)))"

definition parse_number :: "string \<Rightarrow> (json \<times> string) option" where
  "parse_number s = (if valid_number (takeWhile num_char s) then Some (JNum (takeWhile num_char s), dropWhile num_char s) else None)"

definition parse_literal :: "string \<Rightarrow> (json \<times> string) option" where
  "parse_literal s =
     (if strings_HasPrefix s ''null'' then Some (JNull, drop 4 s)
      else if strings_HasPrefix s ''true'' then Some (JBool True, drop 4 s)
      else if strings_HasPrefix s ''false'' then Some (JBool False, drop 5 s)
      else parse_number s)"

fun parse_value :: "nat \<Rightarrow> string \<Rightarrow> (json \<times> string) option"
  and parse_elements :: "nat \<Rightarrow> string \<Rightarrow> (json list \<times> string) option"
  and parse_members :: "nat \<Rightarrow> string \<Rightarrow> ((string \<times> json) list \<times> string) option" where
  "parse_value 0 s = None"
| "parse_value (Suc n) s =
     (case skip_ws s of
        [] \<Rightarrow> None
      | c # t \<Rightarrow>
          if c = CHR 0x22 then map_option (apfst JStr) (parse_string t)
          else if c = CHR ''['' then
            (case skip_ws t of
               [] \<Rightarrow> None
             | d # u \<Rightarrow> if d = CHR '']'' then Some (JArr [], u) else map_option (apfst JArr) (parse_elements n t))
          else if c = CHR ''{'' then
            (case skip_ws t of
               [] \<Rightarrow> None
             | d # u \<Rightarrow> if d = CHR ''}'' then Some (JObj [], u) else map_option (apfst JObj) (parse_members n t))
          else parse_literal (c # t))"
| "parse_elements 0 s = None"
| "parse_elements (Suc n) s =
     (case parse_value n s of
        None \<Rightarrow> None
      | Some (v, r) \<Rightarrow>
          (case skip_ws r of
             [] \<Rightarrow> None
           | d # u \<Rightarrow>
               if d = CHR '','' then map_option (apfst ((#) v)) (parse_elements n u)
               else if d = CHR '']'' then Some ([v], u)
               else None))"
| "parse_members 0 s = None"
| "parse_members (Suc n) s =
     (case skip_ws s of
        [] \<Rightarrow> None
      | q # t \<Rightarrow>
          if q \<noteq> CHR 0x22 then None
          else (case parse_string t of
                  None \<Rightarrow> None
                | Some (k, r) \<Rightarrow>
                    (case skip_ws r of
                       [] \<Rightarrow> None
                     | d # u \<Rightarrow>
                         if d \<noteq> CHR '':'' then None
                         else (case parse_value n u of
                                 None \<Rightarrow> None
                               | Some (v, r2) \<Rightarrow>
                                   (case skip_ws r2 of
                                      [] \<Rightarrow> None
                                    | e # x \<Rightarrow>
                                        if e = CHR '','' then map_option (apfst ((#) (k, v))) (parse_members n x)
                                        else if e = CHR ''}'' then Some ([(k, v)], x)
                                        else None)))))"

definition json_SyntaxError :: go_error where "json_SyntaxError = ErrMsg ''json: syntax error''"

definition json_parse :: "string \<Rightarrow> json result" where
  "json_parse s =
     (case parse_value (2 * length s) s of
        None \<Rightarrow> Inl json_SyntaxError
      | Some (v, r) \<Rightarrow> if skip_ws r = [] then Inr v else Inl json_SyntaxError)"

section \<open>Fuel\<close>

lemma length_skip_ws: "length (skip_ws s) \<le> length s"
  by (simp add: skip_ws_def length_dropWhile_le)

lemma skip_ws_Cons_length: "skip_ws s = c # t \<Longrightarrow> length t < length s"
  using length_skip_ws [of s] by simp

lemma parse_string_shorter: "parse_string s = Some (v, r) \<Longrightarrow> length r < length s"
proof (induction s arbitrary: v r rule: parse_string.induct)
  case (2 c s)
  then show ?case
    by (fastforce split: if_splits list.splits option.splits prod.splits)
qed simp

lemma parse_literal_shorter: "parse_literal s = Some (v, r) \<Longrightarrow> length r < length s"
proof -
  have "valid_number (takeWhile num_char s) \<Longrightarrow> length (dropWhile num_char s) < length s"
  proof -
    assume "valid_number (takeWhile num_char s)"
    then have "takeWhile num_char s \<noteq> []" by (auto simp: valid_number_def)
    then have "length (takeWhile num_char s) > 0" by blast
    moreover have "length s = length (takeWhile num_char s) + length (dropWhile num_char s)"
      by (metis length_append takeWhile_dropWhile_id)
    ultimately show ?thesis by linarith
  qed
  then show "parse_literal s = Some (v, r) \<Longrightarrow> length r < length s"
    by (auto simp: parse_literal_def parse_number_def strings_HasPrefix_iff split: if_splits)
qed

lemma parse_shorter_step:
  "(\<forall>s v r. parse_value n s = Some (v, r) \<longrightarrow> length r < length s)
   \<and> (\<forall>s vs r. parse_elements n s = Some (vs, r) \<longrightarrow> length r < length s)
   \<and> (\<forall>s ms r. parse_members n s = Some (ms, r) \<longrightarrow> length r < length s)"
proof (induction n)
  case (Suc n)
  then have V: "\<And>s v r. parse_value n s = Some (v, r) \<Longrightarrow> length r < length s"
    and E: "\<And>s vs r. parse_elements n s = Some (vs, r) \<Longrightarrow> length r < length s"
    and M: "\<And>s ms r. parse_members n s = Some (ms, r) \<Longrightarrow> length r < length s"
    by blast+
  note [dest!] = V E M parse_string_shorter parse_literal_shorter skip_ws_Cons_length
  have "length r < length s" if "parse_value (Suc n) s = Some (v, r)" for s v r
  proof (cases "skip_ws s")
    case (Cons c t)
    have "length (c # t) \<le> length s" using length_skip_ws [of s] Cons by simp
    then show ?thesis using that by (fastforce simp: Cons split: if_splits list.splits)
  qed (use that in simp)
  moreover have "length r < length s" if "parse_elements (Suc n) s = Some (vs, r)" for s vs r
    using that by (fastforce split: if_splits list.splits option.splits)
  moreover have "length r < length s" if "parse_members (Suc n) s = Some (ms, r)" for s ms r
    using that by (fastforce split: if_splits list.splits option.splits)
  ultimately show ?case by blast
qed simp

lemma parse_shorter:
  "parse_value n s = Some (v, r) \<Longrightarrow> length r < length s"
  "parse_elements n s = Some (vs, r) \<Longrightarrow> length r < length s"
  "parse_members n s = Some (ms, r) \<Longrightarrow> length r < length s"
  using parse_shorter_step [of n] by blast+

lemma parse_fuel_step:
  "(\<forall>s. 2 * length s \<le> n \<longrightarrow> parse_value (Suc n) s = parse_value n s)
   \<and> (\<forall>s. 2 * length s + 1 \<le> n \<longrightarrow> parse_elements (Suc n) s = parse_elements n s)
   \<and> (\<forall>s. 2 * length s + 1 \<le> n \<longrightarrow> parse_members (Suc n) s = parse_members n s)"
proof (induction n)
  case 0
  then show ?case by (simp add: skip_ws_def)
next
  case (Suc n)
  then have V: "\<And>s. 2 * length s \<le> n \<Longrightarrow> parse_value (Suc n) s = parse_value n s"
    and E: "\<And>s. 2 * length s + 1 \<le> n \<Longrightarrow> parse_elements (Suc n) s = parse_elements n s"
    and M: "\<And>s. 2 * length s + 1 \<le> n \<Longrightarrow> parse_members (Suc n) s = parse_members n s"
    by blast+
  have "parse_value (Suc (Suc n)) s = parse_value (Suc n) s" if "2 * length s \<le> Suc n" for s
  proof (cases "skip_ws s")
    case (Cons c t)
    have "2 * length t + 1 \<le> n" using skip_ws_Cons_length [OF Cons] that by linarith
    then show ?thesis unfolding parse_value.simps(2) [of "Suc n" s] parse_value.simps(2) [of n s] Cons by (simp only: E M list.case)
  qed simp
  moreover have "parse_elements (Suc (Suc n)) s = parse_elements (Suc n) s" if "2 * length s + 1 \<le> Suc n" for s
  proof -
    have v: "parse_value (Suc n) s = parse_value n s" using V that by simp
    show ?thesis
    proof (cases "parse_value n s")
      case (Some p)
      obtain v1 r1 where p: "p = (v1, r1)" by (cases p)
      show ?thesis
      proof (cases "skip_ws r1")
        case (Cons d u)
        have "2 * length u + 1 \<le> n"
          using skip_ws_Cons_length [OF Cons] parse_shorter(1) [of n s v1 r1] Some p that by simp
        then show ?thesis unfolding parse_elements.simps(2) [of "Suc n" s] parse_elements.simps(2) [of n s] v Some p by (simp only: E Cons list.case option.case prod.case)
      qed (simp add: parse_elements.simps(2) [of "Suc n" s] v Some p del: parse_value.simps)
    qed (simp add: parse_elements.simps(2) [of "Suc n" s] v del: parse_value.simps)
  qed
  moreover have "parse_members (Suc (Suc n)) s = parse_members (Suc n) s" if "2 * length s + 1 \<le> Suc n" for s
  proof (cases "skip_ws s")
    case (Cons q t)
    show ?thesis
    proof (cases "parse_string t")
      case ps: (Some p)
      obtain k r where p: "p = (k, r)" by (cases p)
      note lr = parse_string_shorter [OF ps [unfolded p]] skip_ws_Cons_length [OF Cons]
      show ?thesis
      proof (cases "skip_ws r")
        case c2: (Cons d u)
        have v: "parse_value (Suc n) u = parse_value n u"
          using V lr skip_ws_Cons_length [OF c2] that by simp
        show ?thesis
        proof (cases "parse_value n u")
          case pv: (Some pr)
          obtain v1 r2 where pr: "pr = (v1, r2)" by (cases pr)
          note l2 = parse_shorter(1) [OF pv [unfolded pr]]
          show ?thesis
          proof (cases "skip_ws r2")
            case c3: (Cons e x)
            have "2 * length x + 1 \<le> n"
              using skip_ws_Cons_length [OF c3] l2 lr skip_ws_Cons_length [OF c2] that by simp
            then show ?thesis unfolding parse_members.simps(2) [of "Suc n" s] parse_members.simps(2) [of n s] by (simp only: M Cons ps p c2 v pv pr c3 list.case option.case prod.case)
          qed (simp add: Cons ps p c2 v pv pr del: parse_value.simps)
        qed (simp add: Cons ps p c2 v del: parse_value.simps)
      qed (simp add: Cons ps p)
    qed (simp add: Cons)
  qed simp
  ultimately show ?case by blast
qed

lemma parse_value_fuel: "2 * length s \<le> n \<Longrightarrow> parse_value n s = parse_value (2 * length s) s"
proof (induction rule: dec_induct)
  case (step n)
  then show ?case using parse_fuel_step [of n] by simp
qed simp
section \<open>Round trip\<close>

lemma hex4_escape:
  assumes "n < 256"
  shows "hex4 (CHR ''0'' # CHR ''0'' # hex_digit (n div 16) # hex_digit (n mod 16) # r) = Some (n, r)"
proof -
  have "hex_val (hex_digit (n div 16)) = Some (n div 16)" "hex_val (hex_digit (n mod 16)) = Some (n mod 16)"
    using assms by (simp_all add: hex_val_hex_digit)
  moreover have "hex_val (CHR ''0'') = Some 0" by (simp add: hex_val_def)
  ultimately show ?thesis by simp
qed

lemma parse_string_escape: "parse_string (escape_char c @ s) = map_option (apfst ((#) c)) (parse_string s)"
proof (cases "html_safe c \<or> c \<in> {CHR 0x5C, CHR 0x22, CHR 0x0A, CHR 0x0D, CHR 0x09}")
  case True
  then show ?thesis
    by (auto simp: escape_char_def html_safe_def unescape_char_def)
next
  case False
  then have esc: "escape_char c = [CHR 0x5C, CHR ''u'', CHR ''0'', CHR ''0'', hex_digit (of_char c div 16), hex_digit (of_char c mod 16)]"
    by (simp add: escape_char_def)
  have "(of_char c :: nat) < 32 \<or> c = CHR ''<'' \<or> c = CHR ''>'' \<or> c = CHR ''&''"
    using False unfolding html_safe_def insert_iff empty_iff de_Morgan_disj de_Morgan_conj not_le by blast
  then have c: "(of_char c :: nat) < 128"
    by (elim disjE) simp_all
  have hex: "hex4 (CHR ''0'' # CHR ''0'' # hex_digit (of_char c div 16) # hex_digit (of_char c mod 16) # s) = Some (of_char c, s)"
    using c by (intro hex4_escape) simp
  have "unescape_u (CHR ''0'' # CHR ''0'' # hex_digit (of_char c div 16) # hex_digit (of_char c mod 16) # s) = Some ([c], s)"
    unfolding unescape_u_def hex using c by (simp add: is_surrogate_def utf8_encode_def)
  moreover have "(@) [c] = (#) c"
    by (simp add: fun_eq_iff)
  ultimately show ?thesis
    by (simp add: esc)
qed

lemma parse_print_string: "parse_string (concat (map escape_char s) @ CHR 0x22 # r) = Some (s, r)"
  by (induction s) (simp_all add: parse_string_escape)

text \<open>Documents whose numbers are literals of the syntax and whose texts are ASCII.\<close>

definition number_literal :: "string \<Rightarrow> bool" where
  "number_literal t = (valid_number t \<and> list_all num_char t)"

fun json_ok :: "json \<Rightarrow> bool" where
  "json_ok (JNum t) = number_literal t"
| "json_ok (JStr s) = list_all is_ascii s"
| "json_ok (JArr xs) = list_all json_ok xs"
| "json_ok (JObj ms) = list_all (\<lambda>(k, v). list_all is_ascii k \<and> json_ok v) ms"
| "json_ok _ = True"

lemma number_literal_hd: "number_literal t \<Longrightarrow> \<exists>c u. t = c # u \<and> (is_digit c \<or> c = CHR ''-'')"
proof (cases t)
  case (Cons c u)
  assume "number_literal t"
  then have "valid_number t" by (simp add: number_literal_def)
  then have "is_digit c \<or> c = CHR ''-'' \<or> c = CHR ''0''"
    using Cons by (auto simp: valid_number_def Let_def split: if_splits)
  then show ?thesis using Cons by (auto simp: is_digit_def)
qed (simp add: number_literal_def valid_number_def)

lemma print_json_hd:
  assumes "json_ok v"
  shows "\<exists>c u. print_json l v = c # u \<and> \<not> json_ws c \<and> c \<noteq> CHR '']'' \<and> c \<noteq> CHR ''}''"
proof (cases v)
  case (JNum t)
  then show ?thesis
    using assms number_literal_hd [of t] by (auto simp: json_ws_def is_digit_def)
qed (auto simp: json_ws_def print_string_def)

lemma skip_ws_new_line [simp]: "skip_ws (new_line n @ s) = skip_ws s"
proof -
  have "dropWhile json_ws (replicate k (CHR 0x20) @ s) = dropWhile json_ws s" for k
    by (induction k) (simp_all add: json_ws_def)
  then show ?thesis
    by (simp add: skip_ws_def new_line_def json_ws_def)
qed

lemma skip_ws_Cons [simp]: "skip_ws (c # s) = (if json_ws c then skip_ws s else c # s)"
  by (simp add: skip_ws_def)

lemma parse_literal_number:
  assumes "number_literal t" and "r = [] \<or> \<not> num_char (hd r)"
  shows "parse_literal (t @ r) = Some (JNum t, r)"
proof -
  obtain c u where t: "t = c # u" "is_digit c \<or> c = CHR ''-''" using number_literal_hd [OF assms(1)] by blast
  then have "c \<notin> {CHR ''n'', CHR ''t'', CHR ''f''}" by (auto simp: is_digit_def)
  then have no: "\<not> strings_HasPrefix (t @ r) ''null'' \<and> \<not> strings_HasPrefix (t @ r) ''true'' \<and> \<not> strings_HasPrefix (t @ r) ''false''"
    using t(1) by (auto simp: strings_HasPrefix_iff)
  have all: "list_all num_char t" using assms(1) by (simp add: number_literal_def)
  have "takeWhile num_char (t @ r) = t"
    using all assms(2) by (cases r) (auto simp: list_all_iff takeWhile_append2)
  moreover have "dropWhile num_char (t @ r) = r"
    using all assms(2) by (cases r) (auto simp: list_all_iff dropWhile_append2)
  ultimately show ?thesis
    using no assms(1) by (simp add: parse_literal_def parse_number_def number_literal_def)
qed

definition ends_number :: "string \<Rightarrow> bool" where
  "ends_number r = (r = [] \<or> \<not> num_char (hd r))"

lemma ends_number_simps [simp]:
  "ends_number []" "ends_number (c # r) \<longleftrightarrow> \<not> num_char c" "ends_number (new_line n @ r)"
  by (simp_all add: ends_number_def new_line_def num_char_def is_digit_def)

lemma separators [simp]:
  "\<not> num_char (CHR '','')" "\<not> num_char (CHR '']'')" "\<not> num_char (CHR ''}'')"
  "\<not> json_ws (CHR '','')" "\<not> json_ws (CHR '']'')" "\<not> json_ws (CHR ''}'')" "\<not> json_ws (CHR '':'')" "\<not> json_ws (CHR 0x22)"
  "\<not> json_ws (CHR ''['')" "\<not> json_ws (CHR ''{'')" "json_ws (CHR 0x20)"
  by (simp_all add: num_char_def is_digit_def json_ws_def)

text \<open>Leading blanks do not matter to the parser.\<close>

lemma parse_value_ws: "skip_ws s = skip_ws s' \<Longrightarrow> parse_value n s = parse_value n s'"
  by (cases n) simp_all

definition parses :: "string \<Rightarrow> json \<Rightarrow> string \<Rightarrow> bool" where
  "parses s v r \<longleftrightarrow> (\<exists>n0. \<forall>n \<ge> n0. parse_value n s = Some (v, r))"

lemma parsesI: "(\<And>n. n0 \<le> n \<Longrightarrow> parse_value (Suc n) s = Some (v, r)) \<Longrightarrow> parses s v r"
  unfolding parses_def by (rule exI [of _ "Suc n0"]) (metis Suc_le_D Suc_le_mono)

lemma parses_ws: "parses s v r \<Longrightarrow> skip_ws s' = skip_ws s \<Longrightarrow> parses s' v r"
  using parse_value_ws [of s' s] by (simp add: parses_def)

lemma parse_print_json:
  "json_ok v \<Longrightarrow> ends_number r \<Longrightarrow> parses (print_json l v @ r) v r"
  "list_all json_ok xs \<Longrightarrow> xs \<noteq> [] \<Longrightarrow>
     \<exists>n0. \<forall>n \<ge> n0. parse_elements n (print_elements l xs @ new_line k @ CHR '']'' # r) = Some (xs, r)"
  "list_all (\<lambda>(k, v). list_all is_ascii k \<and> json_ok v) ms \<Longrightarrow> ms \<noteq> [] \<Longrightarrow>
     \<exists>n0. \<forall>n \<ge> n0. parse_members n (print_members l ms @ new_line k @ CHR ''}'' # r) = Some (ms, r)"
proof (induction l v and l xs and l ms arbitrary: r and r k and r k rule: print_json_print_elements_print_members.induct)
  case (1 n)
  show ?case by (rule parsesI [of 0]) (simp add: json_ws_def parse_literal_def)
next
  case (2 n b)
  show ?case by (rule parsesI [of 0]) (simp add: json_ws_def parse_literal_def strings_HasPrefix_def)
next
  case (3 n t)
  obtain c u where t: "t = c # u" "is_digit c \<or> c = CHR ''-''" using 3 number_literal_hd [of t] by auto
  then have "\<not> json_ws c" "c \<notin> {CHR 0x22, CHR ''['', CHR ''{''}" by (auto simp: json_ws_def is_digit_def)
  moreover have "parse_literal (c # u @ r) = Some (JNum t, r)"
    using parse_literal_number [of t r] 3 t(1) by (simp add: ends_number_def)
  ultimately show ?case by (intro parsesI [of 0]) (simp add: t(1))
next
  case (4 n s)
  show ?case by (rule parsesI [of 0]) (simp add: print_string_def parse_print_string)
next
  case (5 l xs)
  show ?case
  proof (cases "xs = []")
    case True
    then show ?thesis by (intro parsesI [of 0]) simp
  next
    case False
    then obtain n0 where n0: "\<And>n. n0 \<le> n \<Longrightarrow> parse_elements n (print_elements (Suc l) xs @ new_line l @ CHR '']'' # r) = Some (xs, r)"
      using "5.IH" [OF False, of l r] "5.prems" by auto
    obtain y ys where xs: "xs = y # ys" using False by (cases xs) auto
    obtain c u where "print_json (Suc l) y = c # u" "\<not> json_ws c" "c \<noteq> CHR '']''"
      using print_json_hd [of y "Suc l"] "5.prems" xs by auto
    then have "\<exists>z. skip_ws (print_elements (Suc l) xs @ new_line l @ CHR '']'' # r) = c # z" using xs by simp
    then show ?thesis
      using n0 False \<open>c \<noteq> CHR '']''\<close> by (intro parsesI [of n0]) (auto simp del: parse_elements.simps print_elements.simps)
  qed
next
  case (6 l ms)
  show ?case
  proof (cases "ms = []")
    case True
    then show ?thesis by (intro parsesI [of 0]) simp
  next
    case False
    then obtain n0 where n0: "\<And>n. n0 \<le> n \<Longrightarrow> parse_members n (print_members (Suc l) ms @ new_line l @ CHR ''}'' # r) = Some (ms, r)"
      using "6.IH" [OF False, of l r] "6.prems" by auto
    obtain k y ys where ms: "ms = (k, y) # ys" using False by (cases ms) auto
    have "\<exists>z. skip_ws (print_members (Suc l) ms @ new_line l @ CHR ''}'' # r) = CHR 0x22 # z" using ms by (simp add: print_string_def)
    then show ?thesis
      using n0 False by (intro parsesI [of n0]) (auto simp del: parse_members.simps print_members.simps)
  qed
next
  case (8 l x xs)
  let ?tail = "(if xs = [] then [] else CHR '','' # print_elements l xs) @ new_line k @ CHR '']'' # r"
  have "parses (print_json l x @ ?tail) x ?tail"
    using "8.IH"(1) [of ?tail] "8.prems" by simp
  then have "parses (print_elements l (x # xs) @ new_line k @ CHR '']'' # r) x ?tail"
    by (rule parses_ws) simp
  then obtain n1 where n1: "\<And>n. n1 \<le> n \<Longrightarrow> parse_value n (print_elements l (x # xs) @ new_line k @ CHR '']'' # r) = Some (x, ?tail)"
    unfolding parses_def by blast
  show ?case
  proof (cases "xs = []")
    case True
    then show ?thesis
      using n1 by (intro exI [of _ "Suc n1"] allI impI) (auto simp: Suc_le_eq dest!: less_imp_Suc_add simp del: parse_value.simps)
  next
    case False
    obtain n2 where n2: "\<And>n. n2 \<le> n \<Longrightarrow> parse_elements n (print_elements l xs @ new_line k @ CHR '']'' # r) = Some (xs, r)"
      using "8.IH"(2) [OF False, of k r] "8.prems" False by auto
    have "parse_elements (Suc n) (print_elements l (x # xs) @ new_line k @ CHR '']'' # r) = Some (x # xs, r)" if "max n1 n2 \<le> n" for n
      using n1 [of n] n2 [of n] that False unfolding parse_elements.simps(2)
      by (simp del: parse_value.simps parse_elements.simps print_elements.simps)
    then show ?thesis
      by (intro exI [of _ "Suc (max n1 n2)"]) (metis Suc_le_D Suc_le_mono)
  qed
next
  case (10 l key x ms)
  let ?tail = "(if ms = [] then [] else CHR '','' # print_members l ms) @ new_line k @ CHR ''}'' # r"
  have "parses (print_json l x @ ?tail) x ?tail"
    using "10.IH"(1) [of ?tail] "10.prems" by simp
  then have "parses (CHR 0x20 # print_json l x @ ?tail) x ?tail"
    by (rule parses_ws) simp
  then obtain n1 where n1: "\<And>n. n1 \<le> n \<Longrightarrow> parse_value n (CHR 0x20 # print_json l x @ ?tail) = Some (x, ?tail)"
    unfolding parses_def by blast
  have key: "parse_string (concat (map escape_char key) @ CHR 0x22 # CHR '':'' # CHR 0x20 # print_json l x @ ?tail)
      = Some (key, CHR '':'' # CHR 0x20 # print_json l x @ ?tail)"
    by (rule parse_print_string)
  have shape: "print_members l ((key, x) # ms) @ new_line k @ CHR ''}'' # r
      = new_line l @ CHR 0x22 # concat (map escape_char key) @ CHR 0x22 # CHR '':'' # CHR 0x20 # print_json l x @ ?tail"
    by (simp add: print_string_def)
  show ?case
  proof (cases "ms = []")
    case True
    have "parse_members (Suc n) (print_members l ((key, x) # ms) @ new_line k @ CHR ''}'' # r) = Some ((key, x) # ms, r)" if "n1 \<le> n" for n
      using n1 [OF that] True unfolding parse_members.simps(2) shape
      by (simp add: key [simplified True, simplified] del: parse_value.simps)
    then show ?thesis
      by (intro exI [of _ "Suc n1"]) (metis Suc_le_D Suc_le_mono)
  next
    case False
    obtain n2 where n2: "\<And>n. n2 \<le> n \<Longrightarrow> parse_members n (print_members l ms @ new_line k @ CHR ''}'' # r) = Some (ms, r)"
      using "10.IH"(2) [OF False, of k r] "10.prems" False by auto
    have "parse_members (Suc n) (print_members l ((key, x) # ms) @ new_line k @ CHR ''}'' # r) = Some ((key, x) # ms, r)" if "max n1 n2 \<le> n" for n
      using n1 [of n] n2 [of n] that key False unfolding parse_members.simps(2) shape
      by (simp del: parse_value.simps parse_members.simps print_members.simps)
    then show ?thesis
      by (intro exI [of _ "Suc (max n1 n2)"]) (metis Suc_le_D Suc_le_mono)
  qed
qed simp_all
lemma json_parse_MarshalIndent:
  assumes "json_ok v"
  shows "json_parse (json_MarshalIndent v) = Inr v"
proof -
  let ?s = "print_json 0 v"
  obtain n0 where n0: "\<And>n. n0 \<le> n \<Longrightarrow> parse_value n ?s = Some (v, [])"
    using parse_print_json(1) [OF assms, of "[]" 0] unfolding parses_def by auto
  have "parse_value (2 * length ?s) ?s = parse_value (max n0 (2 * length ?s)) ?s"
    by (rule parse_value_fuel [symmetric]) simp
  then show ?thesis
    using n0 by (simp add: json_parse_def json_MarshalIndent_def skip_ws_def)
qed

section \<open>Structs\<close>

definition json_TypeError :: go_error where "json_TypeError = ErrMsg ''json: cannot unmarshal value into Go struct field''"

text \<open>Decoding into a field that holds \<open>old\<close>: \<^verbatim>\<open>null\<close> leaves a string or a number as it is and makes a slice nil.\<close>

fun decode_string :: "json \<Rightarrow> string \<Rightarrow> string result" where
  "decode_string (JStr s) old = Inr s"
| "decode_string JNull old = Inr old"
| "decode_string _ old = Inl json_TypeError"

fun decode_int :: "json \<Rightarrow> int \<Rightarrow> int result" where
  "decode_int (JNum t) old = (case strconv_ParseInt64 t of Inl e \<Rightarrow> Inl json_TypeError | Inr i \<Rightarrow> Inr i)"
| "decode_int JNull old = Inr old"
| "decode_int _ old = Inl json_TypeError"

fun decode_slice :: "(json \<Rightarrow> 'a result) \<Rightarrow> json \<Rightarrow> 'a list option result" where
  "decode_slice f (JArr xs) = bind_result (map_result f xs) (\<lambda>ys. Inr (Some ys))"
| "decode_slice f JNull = Inr None"
| "decode_slice f _ = Inl json_TypeError"

definition encode_slice :: "('a \<Rightarrow> json) \<Rightarrow> 'a list option \<Rightarrow> json" where
  "encode_slice f xs = (case xs of None \<Rightarrow> JNull | Some ys \<Rightarrow> JArr (map f ys))"

definition encode_int :: "int \<Rightarrow> json" where "encode_int i = JNum (itoa_int i)"

text \<open>The field of a key: the one with that name, otherwise the first one whose name differs in case only.\<close>

definition find_field :: "(string \<times> 'f) list \<Rightarrow> string \<Rightarrow> 'f option" where
  "find_field fs k =
     (case map_of fs k of
        Some f \<Rightarrow> Some f
      | None \<Rightarrow> map_option snd (List.find (\<lambda>(n, f). strings_ToLower n = strings_ToLower k) fs))"

text \<open>Unknown keys are skipped. After a type error the decoder goes on and returns the first error; the callers drop the struct then.\<close>

fun decode_members :: "(string \<times> (json \<Rightarrow> 'a \<Rightarrow> 'a result)) list \<Rightarrow> (string \<times> json) list \<Rightarrow> 'a \<Rightarrow> 'a result" where
  "decode_members fs [] x = Inr x"
| "decode_members fs ((k, v) # ms) x =
     (case find_field fs k of
        None \<Rightarrow> decode_members fs ms x
      | Some f \<Rightarrow> bind_result (f v x) (decode_members fs ms))"

fun decode_struct :: "(string \<times> (json \<Rightarrow> 'a \<Rightarrow> 'a result)) list \<Rightarrow> 'a \<Rightarrow> json \<Rightarrow> 'a result" where
  "decode_struct fs zero (JObj ms) = decode_members fs ms zero"
| "decode_struct fs zero JNull = Inr zero"
| "decode_struct fs zero _ = Inl json_TypeError"

definition json_Unmarshal :: "(json \<Rightarrow> 'a result) \<Rightarrow> string \<Rightarrow> 'a result" where
  "json_Unmarshal decode s = bind_result (json_parse s) decode"

lemma find_field_exact [simp]: "map_of fs k = Some f \<Longrightarrow> find_field fs k = Some f"
  by (simp add: find_field_def)

lemma valid_number_itoa: "valid_number (itoa n)" "valid_number (CHR ''-'' # itoa n)"
proof -
  obtain c t where ct: "itoa n = c # t" by (cases "itoa n") auto
  have d: "is_digit c" "list_all is_digit t" using itoa_digits [of _ n] ct by (auto simp: list_all_iff)
  then have "takeWhile is_digit t = t" "dropWhile is_digit t = []" by (auto simp: list_all_iff takeWhile_eq_all_conv dropWhile_eq_Nil_conv)
  moreover have "c = CHR ''0'' \<Longrightarrow> t = []"
  proof -
    assume "c = CHR ''0''"
    then have "n = 0" using itoa_no_leading_zero [of n] ct by simp
    then show "t = []" using ct by (simp add: itoa.simps)
  qed
  moreover have "c \<noteq> CHR ''-''" using d by (auto simp: is_digit_def)
  ultimately show "valid_number (itoa n)" "valid_number (CHR ''-'' # itoa n)"
    using ct d by (auto simp: valid_number_def Let_def valid_fraction_def valid_exponent_def)
qed

lemma encode_int_ok [simp]: "json_ok (encode_int i)"
  using itoa_digits valid_number_itoa
  by (auto simp: encode_int_def number_literal_def itoa_int_def num_char_def list_all_iff)

lemma decode_encode_int [simp]: "- (2 ^ 63) \<le> i \<Longrightarrow> i < 2 ^ 63 \<Longrightarrow> decode_int (encode_int i) old = Inr i"
  using strconv_ParseInt64_itoa_int [of i] by (simp add: encode_int_def)

lemma decode_map: "(\<And>x. x \<in> set xs \<Longrightarrow> f (g x) = Inr x) \<Longrightarrow> map_result f (map g xs) = Inr xs"
  by (induction xs) auto

text \<open>
  What a struct owes: its documents are well formed and decode to the struct they come from. \<open>ok\<close> says which values the type of the
  program has.
\<close>

locale json_struct =
  fixes encode :: "'a \<Rightarrow> json" and decode :: "json \<Rightarrow> 'a result" and ok :: "'a \<Rightarrow> bool"
  assumes encode_ok: "ok x \<Longrightarrow> json_ok (encode x)"
    and decode_encode: "ok x \<Longrightarrow> decode (encode x) = Inr x"
begin

lemma Unmarshal_Marshal: "ok x \<Longrightarrow> json_Unmarshal decode (json_MarshalIndent (encode x)) = Inr x"
  by (simp add: json_Unmarshal_def json_parse_MarshalIndent encode_ok decode_encode)

lemma Marshal_inject:
  assumes "ok x" and "ok y" and "json_MarshalIndent (encode x) = json_MarshalIndent (encode y)"
  shows "x = y"
proof -
  have "Inr x = (Inr y :: 'a result)"
    unfolding Unmarshal_Marshal [OF assms(1), symmetric] Unmarshal_Marshal [OF assms(2), symmetric] assms(3) ..
  then show ?thesis by simp
qed

lemma decode_slice_encode:
  assumes "xs = None \<or> list_all ok (the xs)"
  shows "decode_slice decode (encode_slice encode xs) = Inr xs" and "json_ok (encode_slice encode xs)"
proof -
  have "map_result decode (map encode ys) = Inr ys" "list_all json_ok (map encode ys)" if "xs = Some ys" for ys
    using assms that by (auto simp: list_all_iff encode_ok intro: decode_map decode_encode)
  then show "decode_slice decode (encode_slice encode xs) = Inr xs" "json_ok (encode_slice encode xs)"
    by (simp_all add: encode_slice_def split: option.splits)
qed

end

end
