(* ===== verification/Go_Flag.thy ===== *)
theory Go_Flag
  imports Go_Strings
begin

text \<open>
  The part of Go's \<^verbatim>\<open>flag\<close> package the programs use: \<^verbatim>\<open>FlagSet.Parse\<close> for string and boolean flags. The lemmas say that a flag
  printed in either form is parsed again and that the last one given counts.
\<close>

section \<open>Definitions\<close>

datatype flag_kind = StringFlag | BoolFlag

definition strconv_ParseBool :: "string \<Rightarrow> bool option" where
  "strconv_ParseBool s =
     (if s \<in> {''1'', ''t'', ''T'', ''true'', ''TRUE'', ''True''} then Some True
      else if s \<in> {''0'', ''f'', ''F'', ''false'', ''FALSE'', ''False''} then Some False
      else None)"

text \<open>
  Parsing under \<^verbatim>\<open>flag.ExitOnError\<close>: it stops at the first argument that is not a flag or after \<^verbatim>\<open>--\<close>; the text after \<open>=\<close>, or
  else the next argument, is the value of a string flag, and a boolean flag without \<open>=\<close> is true. \<open>Inl\<close> is the exit code of the
  process: 0 after a request for help, 2 after a mistake.
\<close>

datatype flag_outcome = FlagsEnd | FlagExit int | FlagSet "string \<times> string" "string list"

definition flag_parseOne :: "(string \<times> flag_kind) list \<Rightarrow> string \<Rightarrow> string list \<Rightarrow> flag_outcome" where
  "flag_parseOne known s args =
     (if length s < 2 \<or> hd s \<noteq> CHR ''-'' then FlagsEnd
      else if s = ''--'' then FlagsEnd
      else
        (let name = (if s ! 1 = CHR ''-'' then drop 2 s else drop 1 s);
             key = takeWhile (\<lambda>c. c \<noteq> CHR ''='') name;
             value = drop (Suc (length key)) name in
         if name = [] \<or> hd name = CHR ''-'' \<or> hd name = CHR ''='' then FlagExit 2
         else
           (case map_of known key of
              None \<Rightarrow> FlagExit (if key = ''help'' \<or> key = ''h'' then 0 else 2)
            | Some BoolFlag \<Rightarrow>
                (if CHR ''='' \<in> set name
                 then (if strconv_ParseBool value = None then FlagExit 2 else FlagSet (key, value) args)
                 else FlagSet (key, ''true'') args)
            | Some StringFlag \<Rightarrow>
                (if CHR ''='' \<in> set name then FlagSet (key, value) args
                 else (case args of [] \<Rightarrow> FlagExit 2 | v # rest \<Rightarrow> FlagSet (key, v) rest)))))"

lemma flag_parseOne_shorter: "flag_parseOne known s args = FlagSet f rest \<Longrightarrow> length rest \<le> length args"
  by (auto simp: flag_parseOne_def Let_def split: if_splits option.splits flag_kind.splits list.splits)

function flag_Parse :: "(string \<times> flag_kind) list \<Rightarrow> (string \<times> string) list \<Rightarrow> string list \<Rightarrow> int + (string \<times> string) list" where
  "flag_Parse known given [] = Inr given"
| "flag_Parse known given (s # args) =
     (case flag_parseOne known s args of
        FlagsEnd \<Rightarrow> Inr given
      | FlagExit code \<Rightarrow> Inl code
      | FlagSet f rest \<Rightarrow> flag_Parse known (f # given) rest)"
  by pat_completeness auto
termination
  by (relation "measure (\<lambda>(known, given, args). length args)") (auto dest: flag_parseOne_shorter)

definition flag_default :: "string \<Rightarrow> (string \<times> string) list \<Rightarrow> string \<Rightarrow> string" where
  "flag_default dflt given name = (case map_of given name of None \<Rightarrow> dflt | Some v \<Rightarrow> v)"

abbreviation flag_value :: "(string \<times> string) list \<Rightarrow> string \<Rightarrow> string" where
  "flag_value \<equiv> flag_default []"

definition flag_bool :: "(string \<times> string) list \<Rightarrow> string \<Rightarrow> bool" where
  "flag_bool given name = (case map_of given name of None \<Rightarrow> False | Some v \<Rightarrow> strconv_ParseBool v = Some True)"

section \<open>Printing and parsing\<close>

definition flag_text :: "bool \<Rightarrow> string \<times> string \<Rightarrow> string list" where
  "flag_text joined f = (if joined then [''--'' @ fst f @ ''='' @ snd f] else [''--'' @ fst f, snd f])"

definition flag_name :: "string \<Rightarrow> bool" where
  "flag_name n \<longleftrightarrow> n \<noteq> [] \<and> hd n \<noteq> CHR ''-'' \<and> CHR ''='' \<notin> set n"

lemma flag_name_cases:
  assumes "flag_name n"
  obtains c cs where "n = c # cs" "c \<noteq> CHR ''-''" "c \<noteq> CHR ''=''" "CHR ''='' \<notin> set cs"
  using assms by (cases n) (auto simp: flag_name_def)

lemma takeWhile_key: "CHR ''='' \<notin> set cs \<Longrightarrow> takeWhile (\<lambda>x. x \<noteq> CHR ''='') (cs @ CHR ''='' # v) = cs"
    "CHR ''='' \<notin> set cs \<Longrightarrow> takeWhile (\<lambda>x. x \<noteq> CHR ''='') cs = cs"
  by (auto simp: takeWhile_tail takeWhile_eq_all_conv)

lemma flag_Parse_text:
  assumes "flag_name (fst f)" and "map_of known (fst f) = Some StringFlag"
  shows "flag_Parse known given (flag_text joined f @ args) = flag_Parse known (f # given) args"
proof -
  obtain c cs where c: "fst f = c # cs" "c \<noteq> CHR ''-''" "c \<noteq> CHR ''=''" "CHR ''='' \<notin> set cs"
    using flag_name_cases [OF assms(1)] by metis
  obtain v where f: "f = (c # cs, v)" using c(1) by (cases f) simp
  show ?thesis
    using assms(2) c unfolding f by (cases joined) (simp_all add: flag_text_def flag_parseOne_def Let_def takeWhile_key)
qed

lemma flag_Parse_bool:
  assumes "flag_name n" and "map_of known n = Some BoolFlag"
  shows "flag_Parse known given ((''--'' @ n) # args) = flag_Parse known ((n, ''true'') # given) args"
proof -
  obtain c cs where "n = c # cs" "c \<noteq> CHR ''-''" "c \<noteq> CHR ''=''" "CHR ''='' \<notin> set cs"
    using flag_name_cases [OF assms(1)] by metis
  with assms(2) show ?thesis by (simp add: flag_parseOne_def Let_def takeWhile_key)
qed

text \<open>Flags that were given before do not change how the others are parsed.\<close>

lemma flag_Parse_accumulates:
  "flag_Parse known (given @ old) args = map_sum id (\<lambda>g. g @ old) (flag_Parse known given args)"
proof (induction known given args rule: flag_Parse.induct)
  case (2 known given s args)
  then show ?case by (cases "flag_parseOne known s args") simp_all
qed simp

end
