(* ===== verification/Helper_Main.thy ===== *)
theory Helper_Main
  imports Helper_Daemon Go_Json Go_Flag
begin

text \<open>
  The helper daemon as a program: \<^verbatim>\<open>main\<close> with its flags, the JSON of its configuration and of the two files it writes, and the
  stand-alone check \<^verbatim>\<open>test_encryption.go\<close>. JSON is the theory \<open>Go_Json\<close>; its locale \<open>json_struct\<close> is interpreted on the
  documents, so that what a reader finds in a file is the document that was written. A slice of a protocol message is nil when it
  is empty and printed as \<^verbatim>\<open>null\<close>.

  The theorems: the files hold JSON that reads back as the peers and routes of the network map, the flag \<^verbatim>\<open>--daemon\<close>
  changes nothing, and the check of the encryption cannot succeed because its server key is not a key.
\<close>

section \<open>The configuration file\<close>

record helper_wg_config =
  hw_PrivateKey :: string
  hw_Address :: string
  hw_ListenPort :: int

record helper_file =
  hf_WireGuardConfig :: helper_wg_config
  hf_ManagementURL :: string
  hf_SignalURL :: string
  hf_WgIfaceName :: string
  hf_PeerID :: string
  hf_SetupKey :: string

definition zero_wg_config :: helper_wg_config where
  "zero_wg_config = \<lparr>hw_PrivateKey = [], hw_Address = [], hw_ListenPort = 0\<rparr>"

definition zero_helper_file :: helper_file where
  "zero_helper_file = \<lparr>hf_WireGuardConfig = zero_wg_config, hf_ManagementURL = [], hf_SignalURL = [], hf_WgIfaceName = [],
     hf_PeerID = [], hf_SetupKey = []\<rparr>"

definition string_field :: "('a \<Rightarrow> string) \<Rightarrow> (string \<Rightarrow> 'a \<Rightarrow> 'a) \<Rightarrow> json \<Rightarrow> 'a \<Rightarrow> 'a result" where
  "string_field get put v x = bind_result (decode_string v (get x)) (\<lambda>s. Inr (put s x))"

definition int_field :: "('a \<Rightarrow> int) \<Rightarrow> (int \<Rightarrow> 'a \<Rightarrow> 'a) \<Rightarrow> json \<Rightarrow> 'a \<Rightarrow> 'a result" where
  "int_field get put v x = bind_result (decode_int v (get x)) (\<lambda>i. Inr (put i x))"

definition wg_config_fields :: "(string \<times> (json \<Rightarrow> helper_wg_config \<Rightarrow> helper_wg_config result)) list" where
  "wg_config_fields =
     [(''PrivateKey'', string_field hw_PrivateKey (\<lambda>s x. x\<lparr>hw_PrivateKey := s\<rparr>)),
      (''Address'', string_field hw_Address (\<lambda>s x. x\<lparr>hw_Address := s\<rparr>)),
      (''ListenPort'', int_field hw_ListenPort (\<lambda>i x. x\<lparr>hw_ListenPort := i\<rparr>))]"

definition helper_file_fields :: "(string \<times> (json \<Rightarrow> helper_file \<Rightarrow> helper_file result)) list" where
  "helper_file_fields =
     [(''WireGuardConfig'', \<lambda>v x. bind_result (decode_struct wg_config_fields (hf_WireGuardConfig x) v)
         (\<lambda>c. Inr (x\<lparr>hf_WireGuardConfig := c\<rparr>))),
      (''ManagementURL'', string_field hf_ManagementURL (\<lambda>s x. x\<lparr>hf_ManagementURL := s\<rparr>)),
      (''SignalURL'', string_field hf_SignalURL (\<lambda>s x. x\<lparr>hf_SignalURL := s\<rparr>)),
      (''WgIfaceName'', string_field hf_WgIfaceName (\<lambda>s x. x\<lparr>hf_WgIfaceName := s\<rparr>)),
      (''PeerID'', string_field hf_PeerID (\<lambda>s x. x\<lparr>hf_PeerID := s\<rparr>)),
      (''SetupKey'', string_field hf_SetupKey (\<lambda>s x. x\<lparr>hf_SetupKey := s\<rparr>))]"

definition decode_helper_file :: "json \<Rightarrow> helper_file result" where
  "decode_helper_file = decode_struct helper_file_fields zero_helper_file"

text \<open>The fields of the configuration that the program uses.\<close>

definition helper_config_of :: "helper_file \<Rightarrow> helper_config" where
  "helper_config_of f = \<lparr>hc_PrivateKey = hw_PrivateKey (hf_WireGuardConfig f), hc_ManagementURL = hf_ManagementURL f,
     hc_SetupKey = hf_SetupKey f\<rparr>"

section \<open>The files that are written\<close>

definition encode_strings :: "string list \<Rightarrow> json" where
  "encode_strings xs = encode_slice JStr (if xs = [] then None else Some xs)"

definition encode_peer_info :: "peer_info \<Rightarrow> json" where
  "encode_peer_info p = JObj [(''id'', JStr (pi_ID p)), (''publicKey'', JStr (pi_PublicKey p)), (''endpoint'', JStr (pi_Endpoint p)),
     (''allowedIPs'', encode_strings (pi_AllowedIPs p)), (''keepalive'', encode_int (pi_Keepalive p))]"

definition encode_peers_file :: "peers_file \<Rightarrow> json" where
  "encode_peers_file f = JObj [(''peers'', JArr (map encode_peer_info (pf_Peers f))), (''updatedAt'', JStr (pf_UpdatedAt f))]"

definition encode_route_info :: "route_info \<Rightarrow> json" where
  "encode_route_info r = JObj [(''network'', JStr (ri_Network r)), (''metric'', encode_int (ri_Metric r))]"

definition encode_routes_file :: "routes_file \<Rightarrow> json" where
  "encode_routes_file f = JObj [(''routes'', JArr (map encode_route_info (rf_Routes f))), (''updatedAt'', JStr (rf_UpdatedAt f))]"

fun encode_document :: "document \<Rightarrow> json" where
  "encode_document (PeersDoc f) = encode_peers_file f"
| "encode_document (RoutesDoc f) = encode_routes_file f"

text \<open>The environment of the helper with JSON in the place of its marshaller and its parser.\<close>

definition json_env :: "('w, 'l, 'p) hp_env \<Rightarrow> ('w, 'l, 'p) hp_env" where
  "json_env E = E\<lparr>Marshal_document := (\<lambda>d. Inr (json_MarshalIndent (encode_document d))),
     Unmarshal_config := (\<lambda>s. bind_result (json_Unmarshal decode_helper_file s) (\<lambda>f. Inr (helper_config_of f)))\<rparr>"

section \<open>Reading the files back\<close>

text \<open>Decoders of the same structs, the reference for what a file says; a missing or \<^verbatim>\<open>null\<close> slice is empty.\<close>

definition slice_field :: "(json \<Rightarrow> 'b result) \<Rightarrow> ('b list \<Rightarrow> 'a \<Rightarrow> 'a) \<Rightarrow> json \<Rightarrow> 'a \<Rightarrow> 'a result" where
  "slice_field decode put v x = bind_result (decode_slice decode v) (\<lambda>ys. Inr (put (case ys of None \<Rightarrow> [] | Some zs \<Rightarrow> zs) x))"

definition decode_peer_info :: "json \<Rightarrow> peer_info result" where
  "decode_peer_info = decode_struct
     [(''id'', string_field pi_ID (\<lambda>s x. x\<lparr>pi_ID := s\<rparr>)), (''publicKey'', string_field pi_PublicKey (\<lambda>s x. x\<lparr>pi_PublicKey := s\<rparr>)),
      (''endpoint'', string_field pi_Endpoint (\<lambda>s x. x\<lparr>pi_Endpoint := s\<rparr>)),
      (''allowedIPs'', slice_field (\<lambda>v. decode_string v []) (\<lambda>s x. x\<lparr>pi_AllowedIPs := s\<rparr>)),
      (''keepalive'', int_field pi_Keepalive (\<lambda>i x. x\<lparr>pi_Keepalive := i\<rparr>))]
     \<lparr>pi_ID = [], pi_PublicKey = [], pi_Endpoint = [], pi_AllowedIPs = [], pi_Keepalive = 0\<rparr>"

definition decode_peers_file :: "json \<Rightarrow> peers_file result" where
  "decode_peers_file = decode_struct
     [(''peers'', slice_field decode_peer_info (\<lambda>ps x. x\<lparr>pf_Peers := ps\<rparr>)),
      (''updatedAt'', string_field pf_UpdatedAt (\<lambda>s x. x\<lparr>pf_UpdatedAt := s\<rparr>))] \<lparr>pf_Peers = [], pf_UpdatedAt = []\<rparr>"

definition decode_route_info :: "json \<Rightarrow> route_info result" where
  "decode_route_info = decode_struct
     [(''network'', string_field ri_Network (\<lambda>s x. x\<lparr>ri_Network := s\<rparr>)), (''metric'', int_field ri_Metric (\<lambda>i x. x\<lparr>ri_Metric := i\<rparr>))]
     \<lparr>ri_Network = [], ri_Metric = 0\<rparr>"

definition decode_routes_file :: "json \<Rightarrow> routes_file result" where
  "decode_routes_file = decode_struct
     [(''routes'', slice_field decode_route_info (\<lambda>rs x. x\<lparr>rf_Routes := rs\<rparr>)),
      (''updatedAt'', string_field rf_UpdatedAt (\<lambda>s x. x\<lparr>rf_UpdatedAt := s\<rparr>))] \<lparr>rf_Routes = [], rf_UpdatedAt = []\<rparr>"

definition int64 :: "int \<Rightarrow> bool" where
  "int64 i = (- (2 ^ 63) \<le> i \<and> i < 2 ^ 63)"

definition ok_peer_info :: "peer_info \<Rightarrow> bool" where
  "ok_peer_info p = (list_all is_ascii (pi_ID p) \<and> list_all is_ascii (pi_PublicKey p) \<and> list_all is_ascii (pi_Endpoint p) \<and>
     list_all (list_all is_ascii) (pi_AllowedIPs p) \<and> int64 (pi_Keepalive p))"

definition ok_peers_file :: "peers_file \<Rightarrow> bool" where
  "ok_peers_file f = (list_all ok_peer_info (pf_Peers f) \<and> list_all is_ascii (pf_UpdatedAt f))"

definition ok_route_info :: "route_info \<Rightarrow> bool" where
  "ok_route_info r = (list_all is_ascii (ri_Network r) \<and> int64 (ri_Metric r))"

definition ok_routes_file :: "routes_file \<Rightarrow> bool" where
  "ok_routes_file f = (list_all ok_route_info (rf_Routes f) \<and> list_all is_ascii (rf_UpdatedAt f))"

interpretation ascii_json: json_struct JStr "\<lambda>v. decode_string v []" "list_all is_ascii"
  by unfold_locales simp_all

lemma fields_simps [simp]:
  "string_field get put (JStr s) x = Inr (put s x)"
  "int64 i \<Longrightarrow> int_field get' put' (encode_int i) x = Inr (put' i x)"
  by (simp_all add: string_field_def int_field_def int64_def)

lemma encode_strings_decode:
  assumes "list_all (list_all is_ascii) xs"
  shows "slice_field (\<lambda>v. decode_string v []) put (encode_strings xs) x = Inr (put xs x)" and "json_ok (encode_strings xs)"
  using ascii_json.decode_slice_encode [of "if xs = [] then None else Some xs"] assms
  by (auto simp: encode_strings_def slice_field_def)

lemma slice_field_JArr:
  assumes "\<And>x. x \<in> set xs \<Longrightarrow> decode (encode x) = Inr x"
  shows "slice_field decode put (JArr (map encode xs)) y = Inr (put xs y)"
  using decode_map [of xs decode encode] assms by (simp add: slice_field_def)

interpretation peer_info_json: json_struct encode_peer_info decode_peer_info ok_peer_info
proof
  fix p assume ok: "ok_peer_info p"
  then show "json_ok (encode_peer_info p)"
    using encode_strings_decode(2) by (simp add: encode_peer_info_def ok_peer_info_def)
  show "decode_peer_info (encode_peer_info p) = Inr p"
    using ok by (simp add: encode_peer_info_def decode_peer_info_def ok_peer_info_def encode_strings_decode(1))
qed

interpretation route_info_json: json_struct encode_route_info decode_route_info ok_route_info
  by unfold_locales (simp_all add: encode_route_info_def decode_route_info_def ok_route_info_def)

interpretation peers_file_json: json_struct encode_peers_file decode_peers_file ok_peers_file
proof
  fix f assume ok: "ok_peers_file f"
  then show "json_ok (encode_peers_file f)"
    using peer_info_json.encode_ok by (simp add: encode_peers_file_def ok_peers_file_def list_all_iff)
  have "slice_field decode_peer_info put (JArr (map encode_peer_info (pf_Peers f))) y = Inr (put (pf_Peers f) y)"
    for put :: "peer_info list \<Rightarrow> peers_file \<Rightarrow> peers_file" and y
    using ok peer_info_json.decode_encode by (intro slice_field_JArr) (simp add: ok_peers_file_def list_all_iff)
  then show "decode_peers_file (encode_peers_file f) = Inr f"
    using ok by (simp add: encode_peers_file_def decode_peers_file_def ok_peers_file_def list_all_iff)
qed

interpretation routes_file_json: json_struct encode_routes_file decode_routes_file ok_routes_file
proof
  fix f assume ok: "ok_routes_file f"
  then show "json_ok (encode_routes_file f)"
    using route_info_json.encode_ok by (simp add: encode_routes_file_def ok_routes_file_def list_all_iff)
  have "slice_field decode_route_info put (JArr (map encode_route_info (rf_Routes f))) y = Inr (put (rf_Routes f) y)"
    for put :: "route_info list \<Rightarrow> routes_file \<Rightarrow> routes_file" and y
    using ok route_info_json.decode_encode by (intro slice_field_JArr) (simp add: ok_routes_file_def list_all_iff)
  then show "decode_routes_file (encode_routes_file f) = Inr f"
    using ok by (simp add: encode_routes_file_def decode_routes_file_def ok_routes_file_def list_all_iff)
qed

section \<open>The program\<close>

definition DefaultConfigDir :: string where "DefaultConfigDir = ''/etc/netbird''"

definition helper_flags :: "(string \<times> flag_kind) list" where
  "helper_flags = [(''config-dir'', StringFlag), (''daemon'', BoolFlag)]"

text \<open>
  \<^verbatim>\<open>main\<close>: \<open>Inl\<close> is the exit code of a process that ends before it starts working, otherwise the helper and what its goroutine
  \<^verbatim>\<open>run\<close> does to the world, until the signal and with \<open>n\<close> ticks of the stub mode.
\<close>

definition helper_main :: "('w, 'l, 'p) hp_env \<Rightarrow> string list \<Rightarrow> nat \<Rightarrow> 'w \<Rightarrow> int + helper \<times> 'w option" where
  "helper_main E args n w =
     (case flag_Parse helper_flags [] (drop 1 args) of
        Inl code \<Rightarrow> Inl code
      | Inr given \<Rightarrow>
        (let configDir = flag_default DefaultConfigDir given ''config-dir'' in
         case loadConfig E configDir w of
           Inl e \<Rightarrow> Inl 1
         | Inr config \<Rightarrow>
             (let h = new_helper configDir config in Inr (helper_stop h, helper_run E h n w))))"

text \<open>A key that must decode: \<open>None\<close> is the panic.\<close>

definition mustDecodeWGKey :: "string \<Rightarrow> byte list option" where
  "mustDecodeWGKey keyStr = (case DecodeWGKey keyStr of Inl e \<Rightarrow> None | Inr key \<Rightarrow> Some key)"

lemma mustDecodeWGKey_Encode: "length k = 32 \<Longrightarrow> mustDecodeWGKey (EncodeWGKey k) = Some k"
  by (simp add: mustDecodeWGKey_def)

text \<open>The flag \<^verbatim>\<open>--daemon\<close> is accepted and changes nothing: the process neither detaches nor behaves differently.\<close>

theorem daemon_flag_ignored:
  "helper_main E (prog # ''--daemon'' # args) n w = helper_main E (prog # args) n w"
proof -
  have p: "flag_Parse helper_flags [] (''--daemon'' # args) = flag_Parse helper_flags [(''daemon'', ''true'')] args"
    using flag_Parse_bool [of "''daemon''" helper_flags "[]" args] by (simp add: flag_name_def helper_flags_def)
  have "flag_default DefaultConfigDir (g @ [(''daemon'', ''true'')]) ''config-dir'' = flag_default DefaultConfigDir g ''config-dir''" for g
    by (simp add: flag_default_def map_of_append map_add_def split: option.splits)
  then show ?thesis
    using flag_Parse_accumulates [of helper_flags "[]" "[(''daemon'', ''true'')]" args]
    by (cases "flag_Parse helper_flags [] args") (simp_all del: flag_Parse.simps add: helper_main_def p)
qed

section \<open>The check of the encryption\<close>

definition check_privKeyStr :: string where
  "check_privKeyStr = ''+PmuysE2mAJRDVPsBDtpYzhD1tTjeG1CIv0eA9geLGE=''"

definition check_serverPubKeyStr :: string where
  "check_serverPubKeyStr = ''yfovLJbRmwYw33Ek6E49z8C3mEvFmAAAA''"

definition go_min :: "int \<Rightarrow> int \<Rightarrow> int" where
  "go_min a b = (if a < b then a else b)"

text \<open>\<^verbatim>\<open>main\<close> of \<^verbatim>\<open>test_encryption.go\<close>: the exit code and the first bytes it prints. \<open>marshalled\<close> is the login request on the wire.\<close>

definition check_main :: "('w, 'l, 'p) hp_env \<Rightarrow> byte list result \<Rightarrow> 'w \<Rightarrow> int \<times> byte list \<times> 'w" where
  "check_main E marshalled w =
     (case marshalled of
        Inl e \<Rightarrow> (1, [], w)
      | Inr loginReqBytes \<Rightarrow>
        (case EncryptForServer E loginReqBytes check_privKeyStr check_serverPubKeyStr w of
           (Inl e, w1) \<Rightarrow> (1, [], w1)
         | (Inr encrypted, w1) \<Rightarrow> (0, take (nat (go_min 64 (int (length encrypted)))) encrypted, w1)))"

text \<open>The check never gets to its result: the server key in it was cut off and is no base 64 text, so every run ends with the
  exit code 1 before anything is encrypted.\<close>

theorem check_main_fails: "check_main E marshalled w = (1, [], w)"
proof -
  have "isl (DecodeWGKey check_serverPubKeyStr)" by code_simp
  then obtain e where "DecodeWGKey check_serverPubKeyStr = Inl e" by (auto simp: isl_def)
  then show ?thesis
    by (cases marshalled) (simp_all add: check_main_def EncryptForServer_def split: sum.splits)
qed

section \<open>What the files say\<close>

lemma json_env_sel [simp]:
  "Marshal_document (json_env E) d = Inr (json_MarshalIndent (encode_document d))" "time_Now (json_env E) = time_Now E"
  "os_WriteFile (json_env E) = os_WriteFile E" "os_Rename (json_env E) = os_Rename E"
  by (simp_all add: json_env_def)

lemma json_env_laws:
  "file_laws E content \<Longrightarrow> file_laws (json_env E) content" "disk_ok E \<Longrightarrow> disk_ok (json_env E)"
  by (simp_all add: file_laws_def disk_ok_def)

text \<open>Texts of the service that JSON prints as they are.\<close>

definition plain_map :: "network_map \<Rightarrow> bool" where
  "plain_map nm = (list_all (\<lambda>rp. 16 \<le> length (rp_WgPubKey rp) \<and> list_all is_ascii (rp_WgPubKey rp) \<and>
       list_all (list_all is_ascii) (rp_AllowedIps rp)) (nm_RemotePeers nm) \<and>
     list_all (\<lambda>r. list_all is_ascii (pr_Network r)) (nm_Routes nm))"

lemma plain_map_ok:
  assumes "plain_map nm" and "list_all is_ascii now"
  shows "ok_peers_file \<lparr>pf_Peers = map peer_info_of (nm_RemotePeers nm), pf_UpdatedAt = now\<rparr>"
    "ok_routes_file \<lparr>rf_Routes = map (\<lambda>r. \<lparr>ri_Network = pr_Network r, ri_Metric = 100\<rparr>) (nm_Routes nm), rf_UpdatedAt = now\<rparr>"
  using assms by (auto simp: plain_map_def ok_peers_file_def ok_routes_file_def ok_peer_info_def ok_route_info_def peer_info_of_def
      int64_def list_all_iff)

text \<open>C30. What the helper writes is what the other process reads: after an update the peers file is JSON that decodes to one entry per
  peer of the network map, in order, with its key, its allowed addresses and the fixed keep-alive interval, and the routes file to
  the networks of its routes. A list that is empty in the map leaves its file as it was.\<close>

theorem helper_files_readable:
  assumes "file_laws E content" and "disk_ok E" and "files_apart h" and "sr_NetworkMap resp = Some nm"
    and "plain_map nm" and "\<forall>v. list_all is_ascii (time_Now E v)"
  shows "\<exists>w'. onSyncUpdate (json_env E) h resp w = Some w' \<and>
    (if nm_RemotePeers nm = [] then content (hh_peersFile h) w' = content (hh_peersFile h) w
     else \<exists>text f. content (hh_peersFile h) w' = Some text \<and> json_Unmarshal decode_peers_file text = Inr f \<and>
       pf_Peers f = map peer_info_of (nm_RemotePeers nm)) \<and>
    (if nm_Routes nm = [] then content (hh_routesFile h) w' = content (hh_routesFile h) w
     else \<exists>text f. content (hh_routesFile h) w' = Some text \<and> json_Unmarshal decode_routes_file text = Inr f \<and>
       rf_Routes f = map (\<lambda>r. \<lparr>ri_Network = pr_Network r, ri_Metric = 100\<rparr>) (nm_Routes nm))"
proof -
  have keys: "\<forall>rp \<in> set (nm_RemotePeers nm). 16 \<le> length (rp_WgPubKey rp)"
    using assms(5) by (simp add: plain_map_def list_all_iff)
  obtain w' where w': "onSyncUpdate (json_env E) h resp w = Some w'"
    and p: "if nm_RemotePeers nm = [] then content (hh_peersFile h) w' = content (hh_peersFile h) w
     else \<exists>json v. Marshal_document (json_env E) (PeersDoc \<lparr>pf_Peers = map peer_info_of (nm_RemotePeers nm),
        pf_UpdatedAt = time_Now (json_env E) v\<rparr>) = Inr json \<and> content (hh_peersFile h) w' = Some json"
    and r: "if nm_Routes nm = [] then content (hh_routesFile h) w' = content (hh_routesFile h) w
     else \<exists>json v. Marshal_document (json_env E) (RoutesDoc \<lparr>rf_Routes = map (\<lambda>r. \<lparr>ri_Network = pr_Network r, ri_Metric = 100\<rparr>)
        (nm_Routes nm), rf_UpdatedAt = time_Now (json_env E) v\<rparr>) = Inr json \<and> content (hh_routesFile h) w' = Some json"
    using onSyncUpdate_files [OF json_env_laws(1) [OF assms(1)] json_env_laws(2) [OF assms(2)] assms(3,4) keys] by blast
  have "\<exists>text f. content (hh_peersFile h) w' = Some text \<and> json_Unmarshal decode_peers_file text = Inr f \<and>
       pf_Peers f = map peer_info_of (nm_RemotePeers nm)" if ne: "nm_RemotePeers nm \<noteq> []"
  proof -
    obtain v where "content (hh_peersFile h) w' = Some (json_MarshalIndent (encode_peers_file
        \<lparr>pf_Peers = map peer_info_of (nm_RemotePeers nm), pf_UpdatedAt = time_Now E v\<rparr>))"
      using p ne by auto
    then show ?thesis
      using peers_file_json.Unmarshal_Marshal [OF plain_map_ok(1) [OF assms(5), of "time_Now E v"]] assms(6) by auto
  qed
  moreover have "\<exists>text f. content (hh_routesFile h) w' = Some text \<and> json_Unmarshal decode_routes_file text = Inr f \<and>
       rf_Routes f = map (\<lambda>r. \<lparr>ri_Network = pr_Network r, ri_Metric = 100\<rparr>) (nm_Routes nm)" if ne: "nm_Routes nm \<noteq> []"
  proof -
    obtain v where "content (hh_routesFile h) w' = Some (json_MarshalIndent (encode_routes_file
        \<lparr>rf_Routes = map (\<lambda>r. \<lparr>ri_Network = pr_Network r, ri_Metric = 100\<rparr>) (nm_Routes nm), rf_UpdatedAt = time_Now E v\<rparr>))"
      using r ne by auto
    then show ?thesis
      using routes_file_json.Unmarshal_Marshal [OF plain_map_ok(2) [OF assms(5), of "time_Now E v"]] assms(6) by auto
  qed
  ultimately show ?thesis using w' p r by (intro exI [of _ w']) auto
qed

theorem helper_files_readable_witness:
  "\<exists>w' text f. onSyncUpdate (json_env demo_hp_env) demo_helper demo_update [] = Some w' \<and>
     map_of w' (hh_peersFile demo_helper) = Some text \<and> json_Unmarshal decode_peers_file text = Inr f \<and>
     map pi_PublicKey (pf_Peers f) = [''0123456789abcdef'']"
proof -
  let ?nm = "(sample_map 4)\<lparr>nm_RemotePeers := [\<lparr>rp_WgPubKey = ''0123456789abcdef'', rp_AllowedIps = [], rp_Fqdn = [], rp_AgentVersion = []\<rparr>]\<rparr>"
  have m: "sr_NetworkMap demo_update = Some ?nm" by (simp add: demo_update_def)
  have "plain_map ?nm" by code_simp
  moreover have "\<forall>v. list_all is_ascii (time_Now demo_hp_env v)" by (simp add: demo_hp_env_def)
  ultimately show ?thesis
    using helper_files_readable [OF demo_file_laws demo_disk_ok demo_files_apart m, of "[]"]
    by (auto simp: peer_info_of_def)
qed

end
