(* ===== verification/Mini_Client.thy ===== *)
theory Mini_Client
  imports Mgmt_Client Helper_Daemon Go_Json Go_Flag "HOL-Library.Sublist"
begin

text \<open>
  The mini client, \<^verbatim>\<open>go/miniclient\<close>: a command line client that registers at the management service, takes over the peers and
  routes of one synchronisation, configures the WireGuard interface with the tools \<^verbatim>\<open>ip\<close> and \<^verbatim>\<open>wg\<close> and stores its configuration in
  a JSON file.

  The configuration is one object that the engine and the management client share: \<open>ms_cfg\<close>. \<open>ms_log\<close> is the list of the commands
  that were run, each with its result. Files, processes, gRPC, protocol buffers, the NaCl box and the keys of \<^verbatim>\<open>wgtypes\<close> are the fields
  of \<open>mn_env\<close>; JSON is the theory \<open>Go_Json\<close>, whose locale \<open>json_struct\<close> is interpreted on the two structs. A slice that may be nil
  is an option. What the program prints is left out.

  The theorems: a saved configuration is loaded again; applying a configuration runs a fixed plan of commands up to the
  first failure of one that has to succeed, and removes the file with the private key in any case; the messages of the mini client and
  of the helper daemon are readable by each other; flags are parsed back. Where the program falls short: without arguments it panics; a start after a failed start reports success and
  does nothing; a file that does not parse is replaced by the default configuration, with the private key; \<^verbatim>\<open>down\<close> leaves the interface
  as it is; and a port that only begins with 443 switches TLS on.
\<close>

section \<open>Configuration\<close>

record mini_peer =
  mp_ID :: string
  mp_PublicKey :: string
  mp_AllowedIPs :: string
  mp_Endpoint :: string

record mini_config =
  mc_ManagementURL :: string
  mc_SignalURL :: string
  mc_SetupKey :: string
  mc_WgIfaceName :: string
  mc_WgAddress :: string
  mc_WgListenPort :: int
  mc_WgPrivateKey :: string
  mc_Peers :: "mini_peer list option"
  mc_Routes :: "string list option"

definition zero_peer :: mini_peer where
  "zero_peer = \<lparr>mp_ID = [], mp_PublicKey = [], mp_AllowedIPs = [], mp_Endpoint = []\<rparr>"

definition zero_config :: mini_config where
  "zero_config =
     \<lparr>mc_ManagementURL = [], mc_SignalURL = [], mc_SetupKey = [], mc_WgIfaceName = [], mc_WgAddress = [], mc_WgListenPort = 0,
      mc_WgPrivateKey = [], mc_Peers = None, mc_Routes = None\<rparr>"

definition defaultConfig :: mini_config where
  "defaultConfig =
     \<lparr>mc_ManagementURL = ''https://api.netbird.io:443'', mc_SignalURL = ''https://signal.netbird.io:443'', mc_SetupKey = [],
      mc_WgIfaceName = ''wtnb0'', mc_WgAddress = ''100.64.0.50/32'', mc_WgListenPort = 51820, mc_WgPrivateKey = [],
      mc_Peers = Some [], mc_Routes = Some []\<rparr>"

text \<open>The tags of the struct fields, for both directions.\<close>

definition encode_peer :: "mini_peer \<Rightarrow> json" where
  "encode_peer p =
     JObj [(''id'', JStr (mp_ID p)), (''public_key'', JStr (mp_PublicKey p)), (''allowed_ips'', JStr (mp_AllowedIPs p)),
       (''endpoint'', JStr (mp_Endpoint p))]"

definition peer_fields :: "(string \<times> (json \<Rightarrow> mini_peer \<Rightarrow> mini_peer result)) list" where
  "peer_fields =
     [(''id'', \<lambda>v p. bind_result (decode_string v (mp_ID p)) (\<lambda>x. Inr (p\<lparr>mp_ID := x\<rparr>))),
      (''public_key'', \<lambda>v p. bind_result (decode_string v (mp_PublicKey p)) (\<lambda>x. Inr (p\<lparr>mp_PublicKey := x\<rparr>))),
      (''allowed_ips'', \<lambda>v p. bind_result (decode_string v (mp_AllowedIPs p)) (\<lambda>x. Inr (p\<lparr>mp_AllowedIPs := x\<rparr>))),
      (''endpoint'', \<lambda>v p. bind_result (decode_string v (mp_Endpoint p)) (\<lambda>x. Inr (p\<lparr>mp_Endpoint := x\<rparr>)))]"

definition decode_peer :: "json \<Rightarrow> mini_peer result" where
  "decode_peer = decode_struct peer_fields zero_peer"

definition encode_config :: "mini_config \<Rightarrow> json" where
  "encode_config c =
     JObj [(''management_url'', JStr (mc_ManagementURL c)), (''signal_url'', JStr (mc_SignalURL c)), (''setup_key'', JStr (mc_SetupKey c)),
       (''wg_iface_name'', JStr (mc_WgIfaceName c)), (''wg_address'', JStr (mc_WgAddress c)),
       (''wg_listen_port'', encode_int (mc_WgListenPort c)), (''wg_private_key'', JStr (mc_WgPrivateKey c)),
       (''peers'', encode_slice encode_peer (mc_Peers c)), (''routes'', encode_slice JStr (mc_Routes c))]"

definition config_fields :: "(string \<times> (json \<Rightarrow> mini_config \<Rightarrow> mini_config result)) list" where
  "config_fields =
     [(''management_url'', \<lambda>v c. bind_result (decode_string v (mc_ManagementURL c)) (\<lambda>x. Inr (c\<lparr>mc_ManagementURL := x\<rparr>))),
      (''signal_url'', \<lambda>v c. bind_result (decode_string v (mc_SignalURL c)) (\<lambda>x. Inr (c\<lparr>mc_SignalURL := x\<rparr>))),
      (''setup_key'', \<lambda>v c. bind_result (decode_string v (mc_SetupKey c)) (\<lambda>x. Inr (c\<lparr>mc_SetupKey := x\<rparr>))),
      (''wg_iface_name'', \<lambda>v c. bind_result (decode_string v (mc_WgIfaceName c)) (\<lambda>x. Inr (c\<lparr>mc_WgIfaceName := x\<rparr>))),
      (''wg_address'', \<lambda>v c. bind_result (decode_string v (mc_WgAddress c)) (\<lambda>x. Inr (c\<lparr>mc_WgAddress := x\<rparr>))),
      (''wg_listen_port'', \<lambda>v c. bind_result (decode_int v (mc_WgListenPort c)) (\<lambda>x. Inr (c\<lparr>mc_WgListenPort := x\<rparr>))),
      (''wg_private_key'', \<lambda>v c. bind_result (decode_string v (mc_WgPrivateKey c)) (\<lambda>x. Inr (c\<lparr>mc_WgPrivateKey := x\<rparr>))),
      (''peers'', \<lambda>v c. bind_result (decode_slice decode_peer v) (\<lambda>x. Inr (c\<lparr>mc_Peers := x\<rparr>))),
      (''routes'', \<lambda>v c. bind_result (decode_slice (\<lambda>e. decode_string e []) v) (\<lambda>x. Inr (c\<lparr>mc_Routes := x\<rparr>)))]"

definition decode_config :: "json \<Rightarrow> mini_config result" where
  "decode_config = decode_struct config_fields zero_config"

section \<open>Environment\<close>

record mini_login_request =
  ml_SetupKey :: string
  ml_WgPubKey :: string
  ml_Hostname :: string
  ml_GoOS :: string
  ml_NetbirdVersion :: string
  ml_OS :: string

record mini_sync_request =
  my_Hostname :: string
  my_GoOS :: string
  my_NetbirdVersion :: string
  my_OS :: string

record mini_enc =
  me_WgPubKey :: string
  me_Body :: "byte list"
  me_Version :: "32 word"

record 'w mn_env =
  mn_UserConfigDir :: "string result"
  mn_ReadFile :: "string \<Rightarrow> 'w \<Rightarrow> string result"
  mn_MkdirAll :: "string \<Rightarrow> 'w \<Rightarrow> go_error option \<times> 'w"
  mn_WriteFile :: "string \<Rightarrow> string \<Rightarrow> 'w \<Rightarrow> go_error option \<times> 'w"
  mn_exec :: "string list \<Rightarrow> 'w \<Rightarrow> go_error option \<times> 'w"
  mn_wg_genkey :: "'w \<Rightarrow> string result \<times> 'w"
  mn_Geteuid :: int
  mn_CreateTemp :: "'w \<Rightarrow> string result \<times> 'w"
  mn_WriteTemp :: "string \<Rightarrow> string \<Rightarrow> 'w \<Rightarrow> go_error option \<times> 'w"
  mn_Remove :: "string \<Rightarrow> 'w \<Rightarrow> 'w"
  mn_rand :: "'w \<Rightarrow> byte list result \<times> 'w"
  mn_Seal :: "byte list \<Rightarrow> byte list \<Rightarrow> byte list \<Rightarrow> byte list \<Rightarrow> byte list"
  mn_Open :: "byte list \<Rightarrow> byte list \<Rightarrow> byte list \<Rightarrow> byte list \<Rightarrow> byte list option"
  mn_Dial :: "string \<Rightarrow> bool \<Rightarrow> 'w \<Rightarrow> go_error option \<times> 'w"
  mn_ConnClose :: "'w \<Rightarrow> 'w"
  mn_IsHealthy :: "'w \<Rightarrow> go_error option \<times> 'w"
  mn_GetServerKey :: "'w \<Rightarrow> (string \<times> 32 word) result \<times> 'w"
  mn_Login :: "mini_enc \<Rightarrow> 'w \<Rightarrow> byte list result \<times> 'w"
  mn_Sync :: "mini_enc \<Rightarrow> 'w \<Rightarrow> go_error option \<times> 'w"
  mn_Recv :: "'w \<Rightarrow> byte list result \<times> 'w"
  mn_SignalSend :: "'w \<Rightarrow> go_error option \<times> 'w"
  mn_Marshal_login :: "mini_login_request \<Rightarrow> byte list result"
  mn_Marshal_sync :: "mini_sync_request \<Rightarrow> byte list result"
  mn_Unmarshal_login :: "byte list \<Rightarrow> login_response result"
  mn_Unmarshal_sync :: "byte list \<Rightarrow> sync_response result"
  mn_ParseKey :: "string \<Rightarrow> wgkey result"
  mn_GeneratePrivateKey :: "'w \<Rightarrow> wgkey result \<times> 'w"
  mn_PublicKey :: "wgkey \<Rightarrow> wgkey"
  mn_KeyString :: "wgkey \<Rightarrow> string"
  mn_Hostname :: "string result"
  mn_GOOS :: string
  mn_UnixTime :: "'w \<Rightarrow> int"

record 'w mini_state =
  ms_cfg :: mini_config
  ms_url :: string
  ms_signalURL :: string
  ms_grpc :: bool
  ms_serverKey :: wgkey
  ms_version :: "32 word"
  ms_priv :: wgkey
  ms_pub :: wgkey
  ms_started :: bool
  ms_lastSync :: bool
  ms_peerConfig :: "mini_peer list option"
  ms_log :: "(string list \<times> go_error option) list"
  ms_world :: 'w

section \<open>Files\<close>

definition defaultConfigPath :: "'w mn_env \<Rightarrow> string result" where
  "defaultConfigPath E =
     (case mn_UserConfigDir E of
        Inl err \<Rightarrow> Inl err
      | Inr dir \<Rightarrow> Inr (filepath_Join [dir, ''netbird'', ''mini-config.json'']))"

text \<open>\<^verbatim>\<open>filepath.Dir\<close>: everything before the last slash, cleaned.\<close>

definition filepath_Dir :: "string \<Rightarrow> string" where
  "filepath_Dir path = filepath_Clean (take (length path - length (after_last (CHR ''/'') path)) path)"

definition ensureDir :: "'w mn_env \<Rightarrow> string \<Rightarrow> 'w \<Rightarrow> go_error option \<times> 'w" where
  "ensureDir E path w = mn_MkdirAll E (filepath_Dir path) w"

definition mini_loadConfig :: "'w mn_env \<Rightarrow> string \<Rightarrow> 'w \<Rightarrow> mini_config result" where
  "mini_loadConfig E path w = bind_result (mn_ReadFile E path w) (json_Unmarshal decode_config)"

definition saveConfig :: "'w mn_env \<Rightarrow> string \<Rightarrow> mini_config option \<Rightarrow> 'w \<Rightarrow> go_error option \<times> 'w" where
  "saveConfig E path cfg w =
     (case cfg of
        None \<Rightarrow> (Some (ErrMsg ''nil config''), w)
      | Some c \<Rightarrow>
        (case ensureDir E path w of
           (Some err, w1) \<Rightarrow> (Some err, w1)
         | (None, w1) \<Rightarrow> mn_WriteFile E path (json_MarshalIndent (encode_config c)) w1))"

definition loadOrDefault :: "'w mn_env \<Rightarrow> string \<Rightarrow> 'w \<Rightarrow> (mini_config \<times> string) result" where
  "loadOrDefault E path w =
     bind_result (if path \<noteq> [] then Inr path else defaultConfigPath E) (\<lambda>cfgPath.
       Inr (case mini_loadConfig E cfgPath w of Inl err \<Rightarrow> defaultConfig | Inr cfg \<Rightarrow> cfg, cfgPath))"

section \<open>Encryption\<close>

definition nonceSize :: nat where "nonceSize = 24"

definition genNonce :: "'w mn_env \<Rightarrow> 'w \<Rightarrow> byte list result \<times> 'w" where
  "genNonce E w = mn_rand E w"

definition mini_Encrypt :: "'w mn_env \<Rightarrow> byte list \<Rightarrow> wgkey \<Rightarrow> wgkey \<Rightarrow> 'w \<Rightarrow> byte list result \<times> 'w" where
  "mini_Encrypt E msg peerPublicKey privateKey w =
     (case genNonce E w of
        (Inl err, w1) \<Rightarrow> (Inl err, w1)
      | (Inr nonce, w1) \<Rightarrow> (Inr (nonce @ mn_Seal E msg nonce peerPublicKey privateKey), w1))"

definition mini_Decrypt :: "'w mn_env \<Rightarrow> byte list \<Rightarrow> wgkey \<Rightarrow> wgkey \<Rightarrow> 'w \<Rightarrow> byte list result \<times> 'w" where
  "mini_Decrypt E encryptedMsg peerPublicKey privateKey w =
     (case genNonce E w of
        (Inl err, w1) \<Rightarrow> (Inl err, w1)
      | (Inr _, w1) \<Rightarrow>
          (if length encryptedMsg < nonceSize then Inl (ErrMsg ''invalid encrypted message length'')
           else case mn_Open E (drop nonceSize encryptedMsg) (take nonceSize encryptedMsg) peerPublicKey privateKey of
             None \<Rightarrow> Inl (ErrMsg (''failed to decrypt message from peer '' @ mn_KeyString E peerPublicKey))
           | Some opened \<Rightarrow> Inr opened, w1))"

definition mini_EncryptMessage ::
    "'w mn_env \<Rightarrow> ('m \<Rightarrow> byte list result) \<Rightarrow> wgkey \<Rightarrow> wgkey \<Rightarrow> 'm \<Rightarrow> 'w \<Rightarrow> byte list result \<times> 'w" where
  "mini_EncryptMessage E marshal remotePubKey ourPrivateKey message w =
     (case marshal message of
        Inl err \<Rightarrow> (Inl err, w)
      | Inr byteResp \<Rightarrow> mini_Encrypt E byteResp remotePubKey ourPrivateKey w)"

definition mini_DecryptMessage ::
    "'w mn_env \<Rightarrow> (byte list \<Rightarrow> 'm result) \<Rightarrow> wgkey \<Rightarrow> wgkey \<Rightarrow> byte list \<Rightarrow> 'w \<Rightarrow> 'm result \<times> 'w" where
  "mini_DecryptMessage E unmarshal remotePubKey ourPrivateKey encryptedMessage w =
     (case mini_Decrypt E encryptedMessage remotePubKey ourPrivateKey w of
        (r, w1) \<Rightarrow> (bind_result r unmarshal, w1))"

section \<open>Connections\<close>

definition strings_Contains :: "string \<Rightarrow> string \<Rightarrow> bool" where
  "strings_Contains s sub = list_ex (\<lambda>i. strings_HasPrefix (drop i s) sub) [0..<Suc (length s)]"

text \<open>The address and whether TLS is used, the same for both services.\<close>

definition dial_target :: "string \<Rightarrow> string \<times> bool" where
  "dial_target url =
     (let target = (if strings_HasPrefix url ''https://'' \<or> strings_HasPrefix url ''http://''
                    then strings_TrimPrefix (strings_TrimPrefix url ''https://'') ''http://'' else url)
      in (target, strings_HasPrefix url ''https://'' \<or> strings_Contains target '':443''))"

definition dialManagement :: "'w mn_env \<Rightarrow> string \<Rightarrow> 'w \<Rightarrow> go_error option \<times> 'w" where
  "dialManagement E url w = (case dial_target url of (target, tls) \<Rightarrow> mn_Dial E target tls w)"

definition managementHealth :: "'w mn_env \<Rightarrow> 'w \<Rightarrow> go_error option \<times> 'w" where
  "managementHealth E w = mn_IsHealthy E w"

definition dialSignal :: "'w mn_env \<Rightarrow> string \<Rightarrow> 'w \<Rightarrow> go_error option \<times> 'w" where
  "dialSignal E url w = (case dial_target url of (target, tls) \<Rightarrow> mn_Dial E target tls w)"

definition signal_Ping :: "'w mn_env \<Rightarrow> 'w \<Rightarrow> go_error option \<times> 'w" where
  "signal_Ping E w = mn_SignalSend E w"

definition signal_TryGRPC :: "'w mn_env \<Rightarrow> string \<Rightarrow> 'w \<Rightarrow> 'w" where
  "signal_TryGRPC E url w =
     (case dialSignal E url w of
        (Some err, w1) \<Rightarrow> w1
      | (None, w1) \<Rightarrow> mn_ConnClose E (snd (signal_Ping E w1)))"

definition signal_Subscribe :: "string \<Rightarrow> go_error option" where
  "signal_Subscribe peerID = (if peerID = [] then Some (ErrMsg ''peer id is required'') else None)"

section \<open>The management client\<close>

definition fallbackStub :: "'w mn_env \<Rightarrow> 'w \<Rightarrow> mini_peer list option \<times> string list option" where
  "fallbackStub E w =
     (Some [\<lparr>mp_ID = ''peer-'' @ itoa_int (mn_UnixTime E w), mp_PublicKey = ''PUBKEY_PLACEHOLDER'', mp_AllowedIPs = ''100.64.0.0/16'',
             mp_Endpoint = ''203.0.113.10:51820''\<rparr>],
      Some [''10.0.0.0/24''])"

definition ensureKey :: "'w mn_env \<Rightarrow> mini_config \<Rightarrow> 'w \<Rightarrow> (wgkey \<times> wgkey) result \<times> mini_config \<times> 'w" where
  "ensureKey E cfg w =
     (case (if mc_WgPrivateKey cfg = []
            then (case mn_GeneratePrivateKey E w of
                    (Inl err, w1) \<Rightarrow> (Some err, cfg, w1)
                  | (Inr k, w1) \<Rightarrow> (None, cfg\<lparr>mc_WgPrivateKey := mn_KeyString E k\<rparr>, w1))
            else (None, cfg, w)) of
        (Some err, cfg1, w1) \<Rightarrow> (Inl err, cfg1, w1)
      | (None, cfg1, w1) \<Rightarrow>
          (bind_result (mn_ParseKey E (mc_WgPrivateKey cfg1)) (\<lambda>priv. Inr (priv, mn_PublicKey E priv)), cfg1, w1))"

definition mini_hostname :: "'w mn_env \<Rightarrow> string" where
  "mini_hostname E = (case mn_Hostname E of Inl err \<Rightarrow> ''unknown'' | Inr h \<Rightarrow> h)"

text \<open>A slice built by appending to nil.\<close>

definition appended :: "'a list \<Rightarrow> 'a list option" where
  "appended xs = (if xs = [] then None else Some xs)"

definition sync_peer :: "remote_peer \<Rightarrow> mini_peer" where
  "sync_peer rp =
     \<lparr>mp_ID = rp_WgPubKey rp, mp_PublicKey = rp_WgPubKey rp, mp_AllowedIPs = strings_Join '','' (rp_AllowedIps rp), mp_Endpoint = []\<rparr>"

definition take_over_map :: "network_map \<Rightarrow> 'w mini_state \<Rightarrow> (mini_peer list option \<times> string list option) \<times> 'w mini_state" where
  "take_over_map nm s =
     ((appended (map sync_peer (nm_RemotePeers nm)),
       appended (map pr_Network (filter (\<lambda>r. pr_Network r \<noteq> []) (nm_Routes nm)))),
      (case nm_PeerConfig nm of
         None \<Rightarrow> s
       | Some pc \<Rightarrow> if pc_Address pc \<noteq> [] then s\<lparr>ms_cfg := (ms_cfg s)\<lparr>mc_WgAddress := pc_Address pc\<rparr>\<rparr> else s))"

definition syncOnce ::
    "'w mn_env \<Rightarrow> 'w mini_state \<Rightarrow> (mini_peer list option \<times> string list option) result \<times> 'w mini_state" where
  "syncOnce E s =
     (if \<not> ms_grpc s \<or> ms_serverKey s = zeroKey \<or> ms_priv s = zeroKey then (Inl (ErrMsg ''sync missing state''), s)
      else
        (let syncReq = \<lparr>my_Hostname = mini_hostname E, my_GoOS = mn_GOOS E, my_NetbirdVersion = ''mini'', my_OS = mn_GOOS E\<rparr> in
         case mini_EncryptMessage E (mn_Marshal_sync E) (ms_serverKey s) (ms_priv s) syncReq (ms_world s) of
           (Inl err, w1) \<Rightarrow> (Inl (ErrWrap ''encrypt sync request'' err), s\<lparr>ms_world := w1\<rparr>)
         | (Inr enc, w1) \<Rightarrow>
           (case mn_Sync E \<lparr>me_WgPubKey = mn_KeyString E (ms_pub s), me_Body = enc, me_Version = ms_version s\<rparr> w1 of
              (Some err, w2) \<Rightarrow> (Inl (ErrWrap ''sync call'' err), s\<lparr>ms_world := w2\<rparr>)
            | (None, w2) \<Rightarrow>
              (case mn_Recv E w2 of
                 (Inl err, w3) \<Rightarrow> (Inl (ErrWrap ''sync recv'' err), s\<lparr>ms_world := w3\<rparr>)
               | (Inr body, w3) \<Rightarrow>
                 (case mini_DecryptMessage E (mn_Unmarshal_sync E) (ms_serverKey s) (ms_priv s) body w3 of
                    (Inl err, w4) \<Rightarrow> (Inl (ErrWrap ''sync decrypt'' err), s\<lparr>ms_world := w4\<rparr>)
                  | (Inr resp, w4) \<Rightarrow>
                    (case sr_NetworkMap resp of
                       None \<Rightarrow> (Inr (None, None), s\<lparr>ms_world := w4\<rparr>)
                     | Some nm \<Rightarrow> apfst Inr (take_over_map nm (s\<lparr>ms_world := w4\<rparr>))))))))"

definition mini_connect :: "'w mn_env \<Rightarrow> 'w mini_state \<Rightarrow> 'w mini_state" where
  "mini_connect E s =
     (if \<not> ms_grpc s then
        (case dialManagement E (ms_url s) (ms_world s) of
           (None, w1) \<Rightarrow> s\<lparr>ms_grpc := True, ms_world := snd (managementHealth E w1)\<rparr>
         | (Some err, w1) \<Rightarrow> s\<lparr>ms_world := w1\<rparr>)
      else s)"

definition apply_login :: "login_response \<Rightarrow> mini_config \<Rightarrow> mini_config" where
  "apply_login loginResp cfg =
     (let cfg1 = (case lr_PeerConfig loginResp of
                    None \<Rightarrow> cfg
                  | Some pc \<Rightarrow> if pc_Address pc \<noteq> [] then cfg\<lparr>mc_WgAddress := pc_Address pc\<rparr> else cfg);
          cfg2 = (case lr_NetbirdConfig loginResp of
                    None \<Rightarrow> cfg1
                  | Some nc \<Rightarrow>
                      (case gc_Signal nc of
                         None \<Rightarrow> cfg1
                       | Some h \<Rightarrow> if hc_Uri h \<noteq> [] then cfg1\<lparr>mc_SignalURL := hc_Uri h\<rparr> else cfg1))
      in if mc_WgListenPort cfg2 = 0 then cfg2\<lparr>mc_WgListenPort := 51820\<rparr> else cfg2)"

definition mini_login ::
    "'w mn_env \<Rightarrow> string \<Rightarrow> wgkey \<Rightarrow> 32 word \<Rightarrow> 'w mini_state \<Rightarrow> (mini_peer list option \<times> string list option) result \<times> 'w mini_state" where
  "mini_login E setupKey serverKey version s =
     (case ensureKey E (ms_cfg s) (ms_world s) of
        (Inl err, cfg, w1) \<Rightarrow> (Inl (ErrWrap ''ensure key'' err), s\<lparr>ms_cfg := cfg, ms_world := w1\<rparr>)
      | (Inr (priv, pub), cfg, w1) \<Rightarrow>
        (let s1 = s\<lparr>ms_cfg := cfg\<rparr>;
             loginReq = \<lparr>ml_SetupKey = setupKey, ml_WgPubKey = mn_KeyString E pub, ml_Hostname = ''netbird-minimal-go'',
               ml_GoOS = mn_GOOS E, ml_NetbirdVersion = ''mini'', ml_OS = mn_GOOS E\<rparr> in
         case mini_EncryptMessage E (mn_Marshal_login E) serverKey priv loginReq w1 of
           (Inl err, w2) \<Rightarrow> (Inl (ErrWrap ''encrypt login'' err), s1\<lparr>ms_world := w2\<rparr>)
         | (Inr encBody, w2) \<Rightarrow>
           (case mn_Login E \<lparr>me_WgPubKey = mn_KeyString E pub, me_Body = encBody, me_Version = version\<rparr> w2 of
              (Inl err, w3) \<Rightarrow> (Inl (ErrWrap ''login'' err), s1\<lparr>ms_world := w3\<rparr>)
            | (Inr body, w3) \<Rightarrow>
              (case mini_DecryptMessage E (mn_Unmarshal_login E) serverKey priv body w3 of
                 (Inl err, w4) \<Rightarrow> (Inl (ErrWrap ''decrypt login'' err), s1\<lparr>ms_world := w4\<rparr>)
               | (Inr loginResp, w4) \<Rightarrow>
                   (let s2 = s1\<lparr>ms_serverKey := serverKey, ms_version := version, ms_priv := priv, ms_pub := pub,
                               ms_cfg := apply_login loginResp cfg, ms_world := w4\<rparr>
                    in case syncOnce E s2 of
                         (Inl err, s3) \<Rightarrow> (Inr (None, None), s3)
                       | (Inr r, s3) \<Rightarrow> (Inr r, s3))))))"

definition mini_Register ::
    "'w mn_env \<Rightarrow> string \<Rightarrow> 'w mini_state \<Rightarrow> (mini_peer list option \<times> string list option) result \<times> 'w mini_state" where
  "mini_Register E setupKey s0 =
     (let s = mini_connect E s0 in
      if \<not> ms_grpc s then (Inr (fallbackStub E (ms_world s)), s)
      else
        (case mn_GetServerKey E (ms_world s) of
           (Inl err, w1) \<Rightarrow> (Inr (fallbackStub E w1), s\<lparr>ms_world := w1\<rparr>)
         | (Inr (key, version), w1) \<Rightarrow>
           (case mn_ParseKey E key of
              Inl err \<Rightarrow> (Inl (ErrWrap ''parse server key'' err), s\<lparr>ms_world := w1\<rparr>)
            | Inr serverKey \<Rightarrow>
                mini_login E setupKey serverKey version (s\<lparr>ms_serverKey := serverKey, ms_version := version, ms_world := w1\<rparr>))))"

definition mini_Close :: "'w mn_env \<Rightarrow> 'w mini_state \<Rightarrow> 'w mini_state" where
  "mini_Close E s = (if ms_grpc s then s\<lparr>ms_world := mn_ConnClose E (ms_world s)\<rparr> else s)"

section \<open>Commands of the system\<close>

definition isRoot :: "'w mn_env \<Rightarrow> bool" where "isRoot E = (mn_Geteuid E = 0)"

definition runCmd :: "'w mn_env \<Rightarrow> string list \<Rightarrow> 'w mini_state \<Rightarrow> go_error option \<times> 'w mini_state" where
  "runCmd E cmd s = (case mn_exec E cmd (ms_world s) of (r, w) \<Rightarrow> (r, s\<lparr>ms_log := ms_log s @ [(cmd, r)], ms_world := w\<rparr>))"

definition generatePrivateKey :: "'w mn_env \<Rightarrow> 'w \<Rightarrow> string result \<times> 'w" where
  "generatePrivateKey E w = (case mn_wg_genkey E w of (r, w1) \<Rightarrow> (map_sum id strings_TrimSpace r, w1))"

definition link_add_cmd :: "string \<Rightarrow> string list" where
  "link_add_cmd iface = [''ip'', ''link'', ''add'', ''dev'', iface, ''type'', ''wireguard'']"

definition address_add_cmd :: "string \<Rightarrow> string \<Rightarrow> string list" where
  "address_add_cmd iface addr = [''ip'', ''address'', ''add'', addr, ''dev'', iface]"

definition wg_set_cmd :: "string \<Rightarrow> string \<Rightarrow> int \<Rightarrow> string list" where
  "wg_set_cmd iface keyFile port = [''wg'', ''set'', iface, ''private-key'', keyFile, ''listen-port'', itoa_int port]"

definition wg_peer_cmd :: "string \<Rightarrow> mini_peer \<Rightarrow> string list" where
  "wg_peer_cmd iface p =
     [''wg'', ''set'', iface, ''peer'', mp_PublicKey p]
     @ (if mp_AllowedIPs p \<noteq> [] then [''allowed-ips'', mp_AllowedIPs p] else [])
     @ (if mp_Endpoint p \<noteq> [] then [''endpoint'', mp_Endpoint p, ''persistent-keepalive'', ''25''] else [])"

definition link_up_cmd :: "string \<Rightarrow> string list" where
  "link_up_cmd iface = [''ip'', ''link'', ''set'', ''dev'', iface, ''up'']"

definition route_add_cmd :: "string \<Rightarrow> string \<Rightarrow> string list" where
  "route_add_cmd iface r = [''ip'', ''route'', ''add'', r, ''dev'', iface]"

definition link_del_cmd :: "string \<Rightarrow> string list" where
  "link_del_cmd iface = [''ip'', ''link'', ''del'', ''dev'', iface]"

fun set_peers :: "'w mn_env \<Rightarrow> string \<Rightarrow> mini_peer list \<Rightarrow> 'w mini_state \<Rightarrow> go_error option \<times> 'w mini_state" where
  "set_peers E iface [] s = (None, s)"
| "set_peers E iface (p # ps) s =
     (case runCmd E (wg_peer_cmd iface p) s of
        (Some err, s1) \<Rightarrow> (Some (ErrWrap (''wg set peer '' @ mp_ID p) err), s1)
      | (None, s1) \<Rightarrow> set_peers E iface ps s1)"

fun add_routes :: "'w mn_env \<Rightarrow> string \<Rightarrow> string list \<Rightarrow> 'w mini_state \<Rightarrow> 'w mini_state" where
  "add_routes E iface [] s = s"
| "add_routes E iface (r # rs) s = add_routes E iface rs (snd (runCmd E (route_add_cmd iface r) s))"

definition apply_device ::
    "'w mn_env \<Rightarrow> string \<Rightarrow> mini_peer list \<Rightarrow> string list \<Rightarrow> 'w mini_state \<Rightarrow> go_error option \<times> 'w mini_state" where
  "apply_device E keyFile peers routes s =
     (let cfg = ms_cfg s; iface = mc_WgIfaceName cfg in
      case runCmd E (wg_set_cmd iface keyFile (mc_WgListenPort cfg)) s of
        (Some err, s1) \<Rightarrow> (Some (ErrWrap ''wg set'' err), s1)
      | (None, s1) \<Rightarrow>
        (case set_peers E iface peers s1 of
           (Some err, s2) \<Rightarrow> (Some err, s2)
         | (None, s2) \<Rightarrow>
           (case runCmd E (link_up_cmd iface) s2 of
              (Some err, s3) \<Rightarrow> (Some (ErrWrap ''ip link set up'' err), s3)
            | (None, s3) \<Rightarrow> (None, add_routes E iface routes s3))))"

text \<open>The deferred removal of the key file runs on every path after the file was created.\<close>

definition with_key_file ::
    "'w mn_env \<Rightarrow> (string \<Rightarrow> 'w mini_state \<Rightarrow> go_error option \<times> 'w mini_state) \<Rightarrow> 'w mini_state \<Rightarrow> go_error option \<times> 'w mini_state" where
  "with_key_file E body s =
     (case mn_CreateTemp E (ms_world s) of
        (Inl err, w1) \<Rightarrow> (Some err, s\<lparr>ms_world := w1\<rparr>)
      | (Inr tmp, w1) \<Rightarrow>
          apsnd (\<lambda>t. t\<lparr>ms_world := mn_Remove E tmp (ms_world t)\<rparr>)
            (case mn_WriteTemp E tmp (mc_WgPrivateKey (ms_cfg s)) w1 of
               (Some err, w2) \<Rightarrow> (Some err, s\<lparr>ms_world := w2\<rparr>)
             | (None, w2) \<Rightarrow> body tmp (s\<lparr>ms_world := w2\<rparr>)))"

definition apply_defaults :: "mini_config \<Rightarrow> mini_config" where
  "apply_defaults cfg =
     (let cfg1 = (if mc_WgIfaceName cfg = [] then cfg\<lparr>mc_WgIfaceName := ''wtnb0''\<rparr> else cfg)
      in if mc_WgListenPort cfg1 = 0 then cfg1\<lparr>mc_WgListenPort := 51820\<rparr> else cfg1)"

definition apply_as_root ::
    "'w mn_env \<Rightarrow> mini_peer list \<Rightarrow> string list \<Rightarrow> 'w mini_state \<Rightarrow> go_error option \<times> 'w mini_state" where
  "apply_as_root E peers routes s =
     (let iface = mc_WgIfaceName (ms_cfg s);
          s2 = snd (runCmd E (link_add_cmd iface) s);
          s3 = (if mc_WgAddress (ms_cfg s2) \<noteq> [] then snd (runCmd E (address_add_cmd iface (mc_WgAddress (ms_cfg s2))) s2) else s2)
      in with_key_file E (\<lambda>tmp. apply_device E tmp peers routes) s3)"

definition wg_Apply ::
    "'w mn_env \<Rightarrow> mini_peer list \<Rightarrow> string list \<Rightarrow> 'w mini_state \<Rightarrow> go_error option \<times> 'w mini_state" where
  "wg_Apply E peers routes s0 =
     (let s = s0\<lparr>ms_cfg := apply_defaults (ms_cfg s0)\<rparr> in
      case (if mc_WgPrivateKey (ms_cfg s) = []
            then (case generatePrivateKey E (ms_world s) of
                    (Inl err, w1) \<Rightarrow> (Some (ErrWrap ''generate wg private key'' err), s\<lparr>ms_world := w1\<rparr>)
                  | (Inr key, w1) \<Rightarrow> (None, s\<lparr>ms_cfg := (ms_cfg s)\<lparr>mc_WgPrivateKey := key\<rparr>, ms_world := w1\<rparr>))
            else (None, s)) of
        (Some err, s1) \<Rightarrow> (Some err, s1)
      | (None, s1) \<Rightarrow>
        (if \<not> isRoot E then (None, s1)
         else apply_as_root E peers routes s1))"

definition wg_Teardown :: "'w mn_env \<Rightarrow> 'w mini_state \<Rightarrow> go_error option \<times> 'w mini_state" where
  "wg_Teardown E s =
     (if \<not> isRoot E then (None, s)
      else if mc_WgIfaceName (ms_cfg s) = [] then (None, s)
      else runCmd E (link_del_cmd (mc_WgIfaceName (ms_cfg s))) s)"

section \<open>Engine and commands\<close>

definition slice_list :: "'a list option \<Rightarrow> 'a list" where
  "slice_list xs = (case xs of None \<Rightarrow> [] | Some ys \<Rightarrow> ys)"

definition mini_NewEngine :: "mini_config \<Rightarrow> 'w \<Rightarrow> 'w mini_state" where
  "mini_NewEngine cfg w =
     \<lparr>ms_cfg = cfg, ms_url = mc_ManagementURL cfg, ms_signalURL = mc_SignalURL cfg, ms_grpc = False, ms_serverKey = zeroKey, ms_version = 0,
      ms_priv = zeroKey, ms_pub = zeroKey, ms_started = False, ms_lastSync = False, ms_peerConfig = None, ms_log = [], ms_world = w\<rparr>"

definition mini_Start :: "'w mn_env \<Rightarrow> 'w mini_state \<Rightarrow> go_error option \<times> 'w mini_state" where
  "mini_Start E s =
     (if ms_started s then (None, s)
      else
        (case mini_Register E (mc_SetupKey (ms_cfg s)) s of
           (Inl err, s1) \<Rightarrow> (Some (ErrWrap ''management register failed'' err), s1)
         | (Inr (peers, routes), s1) \<Rightarrow>
             (let s2 = s1\<lparr>ms_peerConfig := peers, ms_cfg := (ms_cfg s1)\<lparr>mc_Peers := peers, mc_Routes := routes\<rparr>, ms_lastSync := True,
                         ms_started := True\<rparr>
              in case wg_Apply E (slice_list peers) (slice_list routes) s2 of
                   (Some err, s3) \<Rightarrow> (Some (ErrWrap ''apply wireguard config'' err), s3)
                 | (None, s3) \<Rightarrow> (None, s3))))"

definition mini_Stop :: "'w mn_env \<Rightarrow> 'w mini_state \<Rightarrow> 'w mini_state" where
  "mini_Stop E s = (if \<not> ms_started s then s else (snd (wg_Teardown E s))\<lparr>ms_started := False\<rparr>)"

definition override :: "string \<Rightarrow> string \<Rightarrow> string" where
  "override given old = (if given \<noteq> [] then given else old)"

text \<open>The final \<^verbatim>\<open>signal.Subscribe\<close> prints a line and its error is ignored; it is left out.\<close>

definition runUp :: "'w mn_env \<Rightarrow> string \<Rightarrow> string \<Rightarrow> string \<Rightarrow> string \<Rightarrow> 'w \<Rightarrow> go_error option \<times> 'w mini_state option \<times> 'w" where
  "runUp E path setupKey mgmtURL signalURL w =
     (case loadOrDefault E path w of
        Inl err \<Rightarrow> (Some err, None, w)
      | Inr (cfg0, cfgPath) \<Rightarrow>
        (let cfg = cfg0\<lparr>mc_SetupKey := override setupKey (mc_SetupKey cfg0), mc_ManagementURL := override mgmtURL (mc_ManagementURL cfg0),
                       mc_SignalURL := override signalURL (mc_SignalURL cfg0)\<rparr>
         in case mini_Start E (mini_NewEngine cfg w) of
              (Some err, s) \<Rightarrow> (Some err, Some s, ms_world s)
            | (None, s) \<Rightarrow>
              (case saveConfig E cfgPath (Some (ms_cfg s)) (ms_world s) of
                 (Some err, w1) \<Rightarrow> (Some (ErrWrap ''save config'' err), Some s, w1)
               | (None, w1) \<Rightarrow> (None, Some s, w1))))"

definition runDown :: "'w mn_env \<Rightarrow> string \<Rightarrow> 'w \<Rightarrow> go_error option \<times> 'w" where
  "runDown E path w =
     (case loadOrDefault E path w of
        Inl err \<Rightarrow> (Some err, w)
      | Inr (cfg, cfgPath) \<Rightarrow>
        (case saveConfig E cfgPath (Some (cfg\<lparr>mc_Peers := None, mc_Routes := None\<rparr>)) w of
           (Some err, w1) \<Rightarrow> (Some (ErrWrap ''save config'' err), w1)
         | (None, w1) \<Rightarrow> (None, w1)))"

definition mini_Status :: "'w mini_state \<Rightarrow> string list" where
  "mini_Status s =
     [''status: '' @ (if ms_started s then ''running'' else ''stopped''), ''iface : '' @ mc_WgIfaceName (ms_cfg s),
      ''addr  : '' @ mc_WgAddress (ms_cfg s), ''peers : '' @ itoa (length (slice_list (ms_peerConfig s))),
      ''routes: '' @ itoa (length (slice_list (mc_Routes (ms_cfg s))))]
     @ (if ms_lastSync s then [''last sync''] else [])"

definition runStatus :: "'w mn_env \<Rightarrow> string \<Rightarrow> 'w \<Rightarrow> string list result" where
  "runStatus E path w =
     (case loadOrDefault E path w of
        Inl err \<Rightarrow> Inl err
      | Inr (cfg, _) \<Rightarrow> Inr (mini_Status (mini_NewEngine cfg w)))"

section \<open>The configuration file\<close>

definition ok_peer :: "mini_peer \<Rightarrow> bool" where
  "ok_peer p = (list_all is_ascii (mp_ID p) \<and> list_all is_ascii (mp_PublicKey p) \<and> list_all is_ascii (mp_AllowedIPs p)
     \<and> list_all is_ascii (mp_Endpoint p))"

definition ok_config :: "mini_config \<Rightarrow> bool" where
  "ok_config c = (list_all is_ascii (mc_ManagementURL c) \<and> list_all is_ascii (mc_SignalURL c) \<and> list_all is_ascii (mc_SetupKey c)
     \<and> list_all is_ascii (mc_WgIfaceName c) \<and> list_all is_ascii (mc_WgAddress c) \<and> list_all is_ascii (mc_WgPrivateKey c)
     \<and> - (2 ^ 63) \<le> mc_WgListenPort c \<and> mc_WgListenPort c < 2 ^ 63
     \<and> list_all ok_peer (slice_list (mc_Peers c)) \<and> list_all (list_all is_ascii) (slice_list (mc_Routes c)))"

interpretation peer_json: json_struct encode_peer decode_peer ok_peer
proof
  fix p assume ok: "ok_peer p"
  then show "json_ok (encode_peer p)"
    by (simp add: encode_peer_def ok_peer_def)
  show "decode_peer (encode_peer p) = Inr p"
    by (simp add: decode_peer_def encode_peer_def peer_fields_def zero_peer_def)
qed

interpretation string_json: json_struct JStr "\<lambda>v. decode_string v []" "list_all is_ascii"
  by unfold_locales simp_all

lemma slice_ok: "list_all P (slice_list xs) \<Longrightarrow> xs = None \<or> list_all P (the xs)"
  by (cases xs) (simp_all add: slice_list_def)

interpretation config_json: json_struct encode_config decode_config ok_config
proof
  fix c assume ok: "ok_config c"
  have p: "mc_Peers c = None \<or> list_all ok_peer (the (mc_Peers c))" and r: "mc_Routes c = None \<or> list_all (list_all is_ascii) (the (mc_Routes c))"
    using ok slice_ok [of ok_peer "mc_Peers c"] slice_ok [of "list_all is_ascii" "mc_Routes c"] by (simp_all add: ok_config_def)
  show "json_ok (encode_config c)"
    using ok peer_json.decode_slice_encode(2) [OF p] string_json.decode_slice_encode(2) [OF r]
    by (simp add: encode_config_def ok_config_def)
  have "decode_int (encode_int (mc_WgListenPort c)) old = Inr (mc_WgListenPort c)" for old
    using ok by (simp add: ok_config_def)
  then show "decode_config (encode_config c) = Inr c"
    using peer_json.decode_slice_encode(1) [OF p] string_json.decode_slice_encode(1) [OF r]
    by (simp add: decode_config_def encode_config_def config_fields_def zero_config_def)
qed

text \<open>A file that was written without error is read back.\<close>

definition disk_laws :: "'w mn_env \<Rightarrow> bool" where
  "disk_laws E \<longleftrightarrow> (\<forall>p d w w'. mn_WriteFile E p d w = (None, w') \<longrightarrow> mn_ReadFile E p w' = Inr d)"

lemma saved_config_loads:
  assumes "disk_laws E" and "ok_config c" and "saveConfig E path (Some c) w = (None, w')"
  shows "mini_loadConfig E path w' = Inr c"
proof -
  obtain w1 where "mn_WriteFile E path (json_MarshalIndent (encode_config c)) w1 = (None, w')"
    using assms(3) by (auto simp: saveConfig_def split: prod.splits option.splits)
  then have "mn_ReadFile E path w' = Inr (json_MarshalIndent (encode_config c))"
    using assms(1) unfolding disk_laws_def by blast
  then show ?thesis
    by (simp add: mini_loadConfig_def config_json.Unmarshal_Marshal [OF assms(2)])
qed

text \<open>C21. 
  A configuration that was saved without error is loaded again unchanged, nil and empty lists kept apart.
\<close>

theorem saveConfig_loadConfig:
  assumes "disk_laws E" and "ok_config c" and "saveConfig E path (Some c) w = (None, w')"
  shows "mini_loadConfig E path w' = Inr c"
  using assms by (rule saved_config_loads)

text \<open>
  A file that cannot be read or does not parse is replaced: the command \<^verbatim>\<open>down\<close> stores the default configuration in its place, so the
  private key and the setup key of the file are lost.
\<close>

lemma ok_defaultConfig: "ok_config (defaultConfig\<lparr>mc_Peers := None, mc_Routes := None\<rparr>)"
  by (simp add: ok_config_def defaultConfig_def slice_list_def)

theorem unreadable_config_replaced:
  assumes "disk_laws E" and "path \<noteq> []" and "mini_loadConfig E path w = Inl err" and "runDown E path w = (None, w')"
  shows "mini_loadConfig E path w' = Inr (defaultConfig\<lparr>mc_Peers := None, mc_Routes := None\<rparr>)"
proof -
  have "saveConfig E path (Some (defaultConfig\<lparr>mc_Peers := None, mc_Routes := None\<rparr>)) w = (None, w')"
    using assms(2-4) by (auto simp: runDown_def loadOrDefault_def split: prod.splits option.splits)
  then show ?thesis
    by (rule saved_config_loads [OF assms(1) ok_defaultConfig])
qed

lemma runDown_keeps_rest:
  assumes "disk_laws E" and "path \<noteq> []" and "mini_loadConfig E path w = Inr c" and "ok_config c" and "runDown E path w = (None, w')"
  shows "mini_loadConfig E path w' = Inr (c\<lparr>mc_Peers := None, mc_Routes := None\<rparr>)"
proof -
  have "saveConfig E path (Some (c\<lparr>mc_Peers := None, mc_Routes := None\<rparr>)) w = (None, w')"
    using assms(2-5) by (auto simp: runDown_def loadOrDefault_def split: prod.splits option.splits)
  moreover have "ok_config (c\<lparr>mc_Peers := None, mc_Routes := None\<rparr>)"
    using assms(4) by (simp add: ok_config_def slice_list_def)
  ultimately show ?thesis
    using saved_config_loads [OF assms(1)] by blast
qed

text \<open>The status command looks at a new engine, so it never reports a running one, and never a peer.\<close>

lemma runStatus_always_stopped:
  "runStatus E path w = Inr ls \<Longrightarrow> ls ! 0 = ''status: stopped'' \<and> ls ! 3 = ''peers : 0''"
  by (auto simp: runStatus_def mini_Status_def mini_NewEngine_def slice_list_def itoa_0 split: sum.splits)

lemma TLS_by_port_prefix: "dial_target ''http://host:4433'' = (''host:4433'', True)"
  by code_simp

section \<open>The plan of commands\<close>

definition must_succeed :: "string list \<Rightarrow> bool" where
  "must_succeed c = (hd c = ''wg'' \<or> take 3 c = [''ip'', ''link'', ''set''])"

definition succeeded :: "string list \<times> go_error option \<Rightarrow> bool" where
  "succeeded ce = (must_succeed (fst ce) \<longrightarrow> snd ce = None)"

text \<open>
  A run of a plan: the commands run are a prefix of the plan, every one that has to succeed did, the last one perhaps excepted, and
  without an error the whole plan was run.
\<close>

definition plan_run :: "string list list \<Rightarrow> go_error option \<Rightarrow> (string list \<times> go_error option) list \<Rightarrow> bool" where
  "plan_run plan r cs \<longleftrightarrow> prefix (map fst cs) plan \<and> list_all succeeded (butlast cs)
     \<and> (r = None \<longrightarrow> map fst cs = plan \<and> list_all succeeded cs)"

lemma plan_run_Nil [simp]: "plan_run [] None []" "plan_run plan (Some e) []"
  by (simp_all add: plan_run_def)

lemma plan_run_append:
  assumes "plan_run p1 None c1" and "plan_run p2 r c2"
  shows "plan_run (p1 @ p2) r (c1 @ c2)"
  using assms by (auto simp: plan_run_def butlast_append list_all_iff dest: in_set_butlastD)

lemma plan_run_stopped: "plan_run p1 (Some e) cs \<Longrightarrow> plan_run (p1 @ p2) (Some e') cs"
  by (auto simp: plan_run_def)

lemma plan_run_single [simp]: "plan_run [c] (Some e) [(c, x)]" "plan_run [c] None [(c, x)] \<longleftrightarrow> succeeded (c, x)"
  by (simp_all add: plan_run_def)

definition log_run :: "string list list \<Rightarrow> go_error option \<Rightarrow> 'w mini_state \<Rightarrow> 'w mini_state \<Rightarrow> bool" where
  "log_run plan r s s' \<longleftrightarrow> (\<exists>cs. ms_log s' = ms_log s @ cs \<and> plan_run plan r cs)
     \<and> ms_cfg s' = ms_cfg s \<and> ms_started s' = ms_started s"

lemma log_run_append: "log_run p1 None s s1 \<Longrightarrow> log_run p2 r s1 s2 \<Longrightarrow> log_run (p1 @ p2) r s s2"
  unfolding log_run_def using plan_run_append by fastforce

lemma log_run_stopped: "log_run p1 (Some e) s s1 \<Longrightarrow> log_run (p1 @ p2) (Some e') s s1"
  unfolding log_run_def using plan_run_stopped by fastforce

lemma log_run_refl: "log_run [] None s s" "log_run p (Some e) s s"
  by (simp_all add: log_run_def)

lemma log_run_world [simp]:
  "log_run p r s (t\<lparr>ms_world := w\<rparr>) = log_run p r s t" "log_run p r (s\<lparr>ms_world := w\<rparr>) t = log_run p r s t"
  by (simp_all add: log_run_def)

lemma runCmd_must: "runCmd E c s = (r, s') \<Longrightarrow> log_run [c] r s s'"
  by (cases r) (auto simp: runCmd_def log_run_def succeeded_def split: prod.splits)

lemma runCmd_may: "\<not> must_succeed c \<Longrightarrow> log_run [c] None s (snd (runCmd E c s))"
  by (auto simp: runCmd_def log_run_def succeeded_def split: prod.splits)

lemma set_peers_run: "set_peers E iface ps s = (r, s') \<Longrightarrow> log_run (map (wg_peer_cmd iface) ps) r s s'"
proof (induction ps arbitrary: s)
  case (Cons p ps)
  obtain r1 s1 where c: "runCmd E (wg_peer_cmd iface p) s = (r1, s1)" by fastforce
  show ?case
  proof (cases r1)
    case None
    then have "log_run (map (wg_peer_cmd iface) ps) r s1 s'" using Cons c by simp
    then show ?thesis using log_run_append [OF runCmd_must [OF c [unfolded None]]] by fastforce
  next
    case (Some e)
    then show ?thesis
      using Cons.prems c log_run_stopped [OF runCmd_must [OF c [unfolded Some]]] by fastforce
  qed
qed (simp add: log_run_refl)

lemma add_routes_run: "log_run (map (route_add_cmd iface) rs) None s (add_routes E iface rs s)"
proof (induction rs arbitrary: s)
  case (Cons r rs)
  have "\<not> must_succeed (route_add_cmd iface r)" by (simp add: must_succeed_def route_add_cmd_def)
  from log_run_append [OF runCmd_may [OF this] Cons] show ?case by simp
qed (simp add: log_run_refl)

definition device_plan :: "mini_config \<Rightarrow> string \<Rightarrow> mini_peer list \<Rightarrow> string list \<Rightarrow> string list list" where
  "device_plan cfg keyFile peers routes =
     [wg_set_cmd (mc_WgIfaceName cfg) keyFile (mc_WgListenPort cfg)] @ map (wg_peer_cmd (mc_WgIfaceName cfg)) peers
     @ [link_up_cmd (mc_WgIfaceName cfg)] @ map (route_add_cmd (mc_WgIfaceName cfg)) routes"

definition interface_plan :: "mini_config \<Rightarrow> string list list" where
  "interface_plan cfg =
     [link_add_cmd (mc_WgIfaceName cfg)]
     @ (if mc_WgAddress cfg \<noteq> [] then [address_add_cmd (mc_WgIfaceName cfg) (mc_WgAddress cfg)] else [])"

lemma apply_device_run:
  assumes "apply_device E keyFile peers routes s = (r, s')"
  shows "log_run (device_plan (ms_cfg s) keyFile peers routes) r s s'"
proof -
  let ?i = "mc_WgIfaceName (ms_cfg s)"
  obtain r1 s1 where c1: "runCmd E (wg_set_cmd ?i keyFile (mc_WgListenPort (ms_cfg s))) s = (r1, s1)" by fastforce
  obtain r2 s2 where c2: "set_peers E ?i peers s1 = (r2, s2)" by fastforce
  obtain r3 s3 where c3: "runCmd E (link_up_cmd ?i) s2 = (r3, s3)" by fastforce
  note runs = runCmd_must [OF c1] set_peers_run [OF c2] runCmd_must [OF c3] add_routes_run [of ?i routes s3 E]
  show ?thesis
  proof (cases r1)
    case (Some e)
    then have "log_run (device_plan (ms_cfg s) keyFile peers routes) (Some e') s s1" for e'
      unfolding device_plan_def using log_run_stopped runs(1) by blast
    then show ?thesis
      using assms c1 Some by (auto simp: apply_device_def Let_def)
  next
    case n1: None
    show ?thesis
    proof (cases r2)
      case (Some e)
      then have "log_run (map (wg_peer_cmd ?i) peers @ [link_up_cmd ?i] @ map (route_add_cmd ?i) routes) (Some e) s1 s2"
        using runs(2) by (auto intro: log_run_stopped)
      then show ?thesis
        using assms c1 c2 n1 Some log_run_append [OF runs(1) [unfolded n1]]
        by (auto simp: apply_device_def Let_def device_plan_def)
    next
      case n2: None
      have rest: "log_run (map (wg_peer_cmd ?i) peers @ [link_up_cmd ?i] @ map (route_add_cmd ?i) routes) r s1 s'"
      proof (cases r3)
        case (Some e)
        then have "log_run (map (wg_peer_cmd ?i) peers @ [link_up_cmd ?i] @ map (route_add_cmd ?i) routes) (Some e') s1 s3" for e'
          using log_run_append [OF runs(2) [unfolded n2] log_run_stopped] runs(3) by blast
        then show ?thesis
          using assms c1 c2 c3 n1 n2 Some by (auto simp: apply_device_def Let_def)
      next
        case None
        then show ?thesis
          using assms c1 c2 c3 n1 n2 log_run_append [OF runs(2) [unfolded n2] log_run_append [OF runs(3) [unfolded None] runs(4)]]
          by (auto simp: apply_device_def Let_def)
      qed
      show ?thesis
        using log_run_append [OF runs(1) [unfolded n1] rest] by (simp add: device_plan_def)
    qed
  qed
qed

text \<open>What \<^verbatim>\<open>Apply\<close> does before it runs commands: defaults, and a key if there is none.\<close>

definition prepared :: "'w mn_env \<Rightarrow> 'w mini_state \<Rightarrow> mini_config \<Rightarrow> bool" where
  "prepared E s cfg \<longleftrightarrow> cfg = apply_defaults (ms_cfg s) \<and> mc_WgPrivateKey cfg \<noteq> []
     \<or> mc_WgPrivateKey (apply_defaults (ms_cfg s)) = [] \<and> (\<exists>key w. generatePrivateKey E (ms_world s) = (Inr key, w)
          \<and> cfg = (apply_defaults (ms_cfg s))\<lparr>mc_WgPrivateKey := key\<rparr>)"

lemma with_key_file_run:
  assumes "\<And>tmp t r' t'. ms_cfg t = ms_cfg s \<Longrightarrow> ms_log t = ms_log s \<Longrightarrow> ms_started t = ms_started s \<Longrightarrow>
      body tmp t = (r', t') \<Longrightarrow> log_run (plan tmp) r' t t'"
    and "with_key_file E body s = (r, s')"
  shows "(\<exists>e. r = Some e \<and> log_run [] None s s' \<and> (\<exists>w. mn_CreateTemp E (ms_world s) = (Inl e, w)))
    \<or> (\<exists>tmp w. log_run (plan tmp) r s s' \<and> ms_world s' = mn_Remove E tmp w)"
proof (cases "mn_CreateTemp E (ms_world s)")
  case (Pair a w1)
  show ?thesis
  proof (cases a)
    case (Inl e)
    then show ?thesis using assms(2) Pair by (auto simp: with_key_file_def log_run_refl)
  next
    case (Inr tmp)
    obtain x w2 where x: "mn_WriteTemp E tmp (mc_WgPrivateKey (ms_cfg s)) w1 = (x, w2)" by fastforce
    show ?thesis
    proof (cases x)
      case (Some e)
      then have "log_run (plan tmp) r s s' \<and> ms_world s' = mn_Remove E tmp w2"
        using assms(2) Pair Inr x by (auto simp: with_key_file_def log_run_refl)
      then show ?thesis by blast
    next
      case None
      obtain r1 t where t: "body tmp (s\<lparr>ms_world := w2\<rparr>) = (r1, t)" by fastforce
      have "log_run (plan tmp) r1 (s\<lparr>ms_world := w2\<rparr>) t"
        by (rule assms(1) [OF _ _ _ t]) simp_all
      then have "log_run (plan tmp) r s s' \<and> ms_world s' = mn_Remove E tmp (ms_world t)"
        using assms(2) Pair Inr x None t by (auto simp: with_key_file_def)
      then show ?thesis by blast
    qed
  qed
qed

lemma not_must [simp]: "\<not> must_succeed (link_add_cmd i)" "\<not> must_succeed (address_add_cmd i a)"
  by (simp_all add: must_succeed_def link_add_cmd_def address_add_cmd_def)

lemma interface_run:
  assumes "s2 = snd (runCmd E (link_add_cmd (mc_WgIfaceName (ms_cfg s))) s)"
    and "s3 = (if mc_WgAddress (ms_cfg s2) \<noteq> [] then snd (runCmd E (address_add_cmd (mc_WgIfaceName (ms_cfg s)) (mc_WgAddress (ms_cfg s2))) s2) else s2)"
  shows "log_run (interface_plan (ms_cfg s)) None s s3"
proof -
  have 1: "log_run [link_add_cmd (mc_WgIfaceName (ms_cfg s))] None s s2"
    unfolding assms(1) by (rule runCmd_may) simp
  then have "ms_cfg s2 = ms_cfg s" by (simp add: log_run_def)
  moreover have "log_run [address_add_cmd i a] None s2 (snd (runCmd E (address_add_cmd i a) s2))" for i a
    by (rule runCmd_may) simp
  ultimately show ?thesis
    using 1 log_run_append [OF 1] by (auto simp: assms(2) interface_plan_def)
qed

lemma Apply_run:
  assumes "isRoot E" and "wg_Apply E peers routes s = (r, s')"
  shows "(\<exists>e. r = Some e \<and> ms_log s' = ms_log s \<and> ms_started s' = ms_started s)
    \<or> (\<exists>cfg cs. prepared E s cfg \<and> ms_cfg s' = cfg \<and> ms_started s' = ms_started s \<and> ms_log s' = ms_log s @ cs
        \<and> ((\<exists>e. r = Some e \<and> plan_run (interface_plan cfg) None cs)
           \<or> (\<exists>tmp w. plan_run (interface_plan cfg @ device_plan cfg tmp peers routes) r cs \<and> ms_world s' = mn_Remove E tmp w)))"
proof -
  have main: ?thesis if cfg: "prepared E s cfg"
      and t1: "ms_cfg t1 = cfg" "ms_log t1 = ms_log s" "ms_started t1 = ms_started s"
      and run: "apply_as_root E peers routes t1 = (r, s')" for t1 cfg
  proof -
    define s2 where "s2 = snd (runCmd E (link_add_cmd (mc_WgIfaceName (ms_cfg t1))) t1)"
    define s3 where "s3 = (if mc_WgAddress (ms_cfg s2) \<noteq> []
        then snd (runCmd E (address_add_cmd (mc_WgIfaceName (ms_cfg t1)) (mc_WgAddress (ms_cfg s2))) s2) else s2)"
    have i: "log_run (interface_plan cfg) None t1 s3"
      using interface_run [OF s2_def s3_def] t1(1) by simp
    then have s3: "ms_cfg s3 = cfg" by (simp add: log_run_def t1)
    have "with_key_file E (\<lambda>tmp. apply_device E tmp peers routes) s3 = (r, s')"
      using run unfolding apply_as_root_def Let_def s2_def [symmetric] s3_def [symmetric] .
    from with_key_file_run [where plan = "\<lambda>tmp. device_plan cfg tmp peers routes", OF _ this]
    consider (temp) e where "r = Some e" "log_run [] None s3 s'"
      | (ran) tmp w where "log_run (device_plan cfg tmp peers routes) r s3 s'" "ms_world s' = mn_Remove E tmp w"
      using apply_device_run s3 by (metis (no_types, lifting))
    then show ?thesis
    proof cases
      case temp
      then have "log_run (interface_plan cfg @ []) None t1 s'" using log_run_append [OF i] by blast
      then obtain cs where "ms_log s' = ms_log s @ cs" "plan_run (interface_plan cfg) None cs" "ms_cfg s' = cfg" "ms_started s' = ms_started s"
        by (auto simp: log_run_def t1)
      then show ?thesis using cfg temp(1) by blast
    next
      case ran
      then have "log_run (interface_plan cfg @ device_plan cfg tmp peers routes) r t1 s'" using log_run_append [OF i] by blast
      then obtain cs where "ms_log s' = ms_log s @ cs" "plan_run (interface_plan cfg @ device_plan cfg tmp peers routes) r cs" "ms_cfg s' = cfg"
          "ms_started s' = ms_started s"
        by (auto simp: log_run_def t1)
      then show ?thesis using cfg ran(2) by blast
    qed
  qed
  show ?thesis
  proof (cases "mc_WgPrivateKey (apply_defaults (ms_cfg s)) = []")
    case False
    have p: "prepared E s (apply_defaults (ms_cfg s))" using False by (simp add: prepared_def)
    show ?thesis
      by (rule main [OF p, of "s\<lparr>ms_cfg := apply_defaults (ms_cfg s)\<rparr>"]) (use assms False in \<open>simp_all add: wg_Apply_def Let_def\<close>)
  next
    case True
    obtain a w where g: "generatePrivateKey E (ms_world s) = (a, w)" by fastforce
    show ?thesis
    proof (cases a)
      case (Inl e)
      then show ?thesis using assms True g by (auto simp: wg_Apply_def Let_def)
    next
      case (Inr key)
      have p: "prepared E s ((apply_defaults (ms_cfg s))\<lparr>mc_WgPrivateKey := key\<rparr>)" using True g Inr by (auto simp: prepared_def)
      show ?thesis
        by (rule main [OF p, of "s\<lparr>ms_cfg := (apply_defaults (ms_cfg s))\<lparr>mc_WgPrivateKey := key\<rparr>, ms_world := w\<rparr>"])
          (use assms True g Inr in \<open>simp_all add: wg_Apply_def Let_def\<close>)
    qed
  qed
qed

text \<open>C37. 
  Applying a configuration as root: the commands that were run are the beginning of a fixed plan (add the link, add its address,
  set key and port, set every peer, bring the link up, add the routes), every command that has to succeed did, the last one perhaps
  excepted, and without an error the whole plan was run; once a command after the first two was run, the file with the
  private key is removed at the end.
\<close>

theorem Apply_runs_plan:
  assumes "isRoot E" and "wg_Apply E peers routes s = (r, s')"
  shows "\<exists>cs tmp. ms_log s' = ms_log s @ cs \<and> list_all succeeded (butlast cs)
    \<and> prefix (map fst cs) (interface_plan (ms_cfg s') @ device_plan (ms_cfg s') tmp peers routes)
    \<and> (r = None \<longrightarrow> map fst cs = interface_plan (ms_cfg s') @ device_plan (ms_cfg s') tmp peers routes \<and> list_all succeeded cs)
    \<and> (r = None \<or> length cs > 2 \<longrightarrow> (\<exists>w. ms_world s' = mn_Remove E tmp w))"
proof -
  consider (nothing) e where "r = Some e" "ms_log s' = ms_log s"
    | (temp) e cs where "r = Some e" "ms_log s' = ms_log s @ cs" "plan_run (interface_plan (ms_cfg s')) None cs"
    | (ran) cs tmp w where "ms_log s' = ms_log s @ cs" "plan_run (interface_plan (ms_cfg s') @ device_plan (ms_cfg s') tmp peers routes) r cs"
        "ms_world s' = mn_Remove E tmp w"
    using Apply_run [OF assms] by blast
  then show ?thesis
  proof cases
    case nothing
    then show ?thesis by (intro exI [of _ "[]"]) simp
  next
    case temp
    then have "map fst cs = interface_plan (ms_cfg s')" by (simp add: plan_run_def)
    moreover from this have "length cs \<le> 2" by (auto simp: interface_plan_def dest: arg_cong [where f = length] split: if_splits)
    ultimately show ?thesis using temp by (intro exI [of _ cs]) (simp add: plan_run_def)
  next
    case ran
    then show ?thesis unfolding plan_run_def by blast
  qed
qed

lemma Apply_started: "wg_Apply E peers routes s = (r, s') \<Longrightarrow> ms_started s' = ms_started s"
proof (cases "isRoot E")
  case True
  then show "wg_Apply E peers routes s = (r, s') \<Longrightarrow> ?thesis" using Apply_run by blast
next
  case False
  then show "wg_Apply E peers routes s = (r, s') \<Longrightarrow> ?thesis"
    by (auto simp: wg_Apply_def Let_def split: if_splits prod.splits option.splits sum.splits)
qed

text \<open>
  A start that fails because the configuration cannot be applied leaves the engine marked as started: the next start reports
  success and does nothing.
\<close>

theorem failed_start_not_repeated:
  assumes "\<not> ms_started s" and "mini_Register E (mc_SetupKey (ms_cfg s)) s = (Inr pr, s1)" and "mini_Start E s = (Some e, s')"
  shows "ms_started s' \<and> mini_Start E s' = (None, s')"
proof -
  obtain peers routes where pr: "pr = (peers, routes)" by (cases pr)
  have "ms_started s'"
    using assms unfolding mini_Start_def pr
    by (auto simp: Let_def split: prod.splits option.splits dest!: Apply_started)
  then show ?thesis by (simp add: mini_Start_def)
qed

text \<open>
  When the command \<^verbatim>\<open>up\<close> succeeds, the engine has been started and the file holds the configuration it was started with, so that a
  later command starts from it.
\<close>

theorem runUp_stores_config:
  assumes "disk_laws E" and "path \<noteq> []" and "runUp E path key mgmtURL signalURL w = (None, Some s, w')" and "ok_config (ms_cfg s)"
  shows "ms_started s \<and> mini_loadConfig E path w' = Inr (ms_cfg s)"
proof -
  obtain cfg where start: "mini_Start E (mini_NewEngine cfg w) = (None, s)" and save: "saveConfig E path (Some (ms_cfg s)) (ms_world s) = (None, w')"
    using assms(2,3) by (auto simp: runUp_def loadOrDefault_def Let_def split: prod.splits option.splits)
  have "ms_started s"
    using start unfolding mini_Start_def
    by (auto simp: mini_NewEngine_def Let_def split: prod.splits option.splits sum.splits dest!: Apply_started)
  then show ?thesis
    using saved_config_loads [OF assms(1,4) save] by simp
qed

section \<open>Messages\<close>

text \<open>The mini client and the helper daemon use the same package for the box and the random numbers.\<close>

definition same_box :: "'w mn_env \<Rightarrow> ('w, 'l, 'p) hp_env \<Rightarrow> bool" where
  "same_box E H \<longleftrightarrow> mn_rand E = rand_Read H \<and> mn_Seal E = box_Seal H \<and> mn_Open E = box_Open H"

text \<open>C31. 
  The two implementations of the encryption agree: with keys of 32 bytes they produce the same messages, and each one decrypts what
  the other one can decrypt.
\<close>

theorem mini_helper_messages:
  assumes "same_box E H" and "length priv = 32" and "length pub = 32"
  shows "(\<forall>c w'. mini_Encrypt E m pub priv w = (Inr c, w') \<longleftrightarrow> hp_EncryptMessage H m priv pub w = (Inr c, w'))
    \<and> (\<forall>m n w'. mn_rand E w = (Inr n, w') \<longrightarrow>
        (mini_Decrypt E c pub priv w = (Inr m, w') \<longleftrightarrow> hp_DecryptMessage H c priv pub = Inr m))"
  using assms
  by (auto simp: same_box_def mini_Encrypt_def mini_Decrypt_def genNonce_def hp_EncryptMessage_def hp_DecryptMessage_def toArray32_def
      nonceSize_def NonceSize_def split: prod.splits sum.splits option.splits)

text \<open>When the management service cannot be reached, registering succeeds all the same and returns a peer that does not exist.\<close>

lemma unreachable_service_registers:
  assumes "\<not> ms_grpc s" and "dialManagement E (ms_url s) (ms_world s) = (Some e, w)"
  shows "mini_Register E key s = (Inr (fallbackStub E w), s\<lparr>ms_world := w\<rparr>)"
  using assms by (simp add: mini_Register_def mini_connect_def)

section \<open>The command line\<close>

definition main_flags :: "(string \<times> flag_kind) list" where
  "main_flags = map (\<lambda>n. (n, StringFlag)) [''setup-key'', ''config'', ''management-url'', ''signal-url'']"

definition exit_code :: "go_error option \<Rightarrow> int" where
  "exit_code r = (case r of None \<Rightarrow> 0 | Some err \<Rightarrow> 1)"

text \<open>
  \<^verbatim>\<open>main\<close>, with the arguments of the process, its name included. The result is the exit code; \<open>None\<close> is the panic of a slice expression
  out of range.
\<close>

definition mini_main :: "'w mn_env \<Rightarrow> string list \<Rightarrow> 'w \<Rightarrow> (int \<times> 'w) option" where
  "mini_main E args w =
     (let cmd = (if length args > 1 then args ! 1 else ''status'') in
      if cmd \<notin> {''up'', ''down'', ''status''} then Some (1, w)
      else if length args < 2 then None
      else
        (case flag_Parse main_flags [] (drop 2 args) of
           Inl code \<Rightarrow> Some (code, w)
         | Inr given \<Rightarrow>
           (let path = flag_value given ''config'' in
            if cmd = ''up'' then
              (case runUp E path (flag_value given ''setup-key'') (flag_value given ''management-url'') (flag_value given ''signal-url'') w of
                 (r, _, w1) \<Rightarrow> Some (exit_code r, w1))
            else if cmd = ''down'' then (case runDown E path w of (r, w1) \<Rightarrow> Some (exit_code r, w1))
            else Some (case runStatus E path w of Inl err \<Rightarrow> 1 | Inr _ \<Rightarrow> 0, w))))"

text \<open>
  Without arguments the program means to print the status; it panics, because it cuts off two arguments where there is one. With
  a command it never panics.
\<close>

theorem main_panics_iff: "mini_main E args w = None \<longleftrightarrow> length args < 2"
  by (auto simp: mini_main_def Let_def split: sum.splits prod.splits)

text \<open>Printing a flag in either form and parsing it gives its value back; the last one given counts.\<close>

theorem flags_round_trip:
  assumes "\<forall>f\<in>set fs. flag_name (fst f) \<and> map_of known (fst f) = Some StringFlag" and "length modes = length fs"
  shows "flag_Parse known [] (concat (map2 flag_text modes fs)) = Inr (rev fs)"
proof -
  have "flag_Parse known given (concat (map2 flag_text modes fs)) = Inr (rev fs @ given)" for given
    using assms(2,1)
  proof (induction modes fs arbitrary: given rule: list_induct2)
    case (Cons m ms f fs)
    then show ?case using flag_Parse_text [of f known given m] by simp
  qed simp
  from this [of "[]"] show ?thesis by simp
qed

theorem flags_round_trip_witness:
  "flag_Parse main_flags [] [''--config=/c'', ''--setup-key'', ''k'', ''--config'', ''/d''] = Inr [(''config'', ''/d''), (''setup-key'', ''k''), (''config'', ''/c'')]"
  using flags_round_trip [of "[(''config'', ''/c''), (''setup-key'', ''k''), (''config'', ''/d'')]" main_flags "[True, False, False]"]
  by (simp add: flag_text_def flag_name_def main_flags_def)

section \<open>Examples\<close>

text \<open>A host whose world is the list of its files; \<open>broken\<close> says which commands fail. The management service is not reachable.\<close>

definition demo_mn_env :: "(string list \<Rightarrow> bool) \<Rightarrow> (string \<times> string) list mn_env" where
  "demo_mn_env broken =
     \<lparr>mn_UserConfigDir = Inr ''/root/.config'',
      mn_ReadFile = (\<lambda>p w. case map_of w p of None \<Rightarrow> Inl (ErrSys ENOENT) | Some t \<Rightarrow> Inr t),
      mn_MkdirAll = (\<lambda>p w. (None, w)), mn_WriteFile = (\<lambda>p t w. (None, AList.update p t w)),
      mn_exec = (\<lambda>c w. (if broken c then Some (ErrMsg ''exit status 1'') else None, w)),
      mn_wg_genkey = (\<lambda>w. (Inr ''key'', w)), mn_Geteuid = 0, mn_CreateTemp = (\<lambda>w. (Inr ''/tmp/nb-wg-key-1'', w)),
      mn_WriteTemp = (\<lambda>p t w. (None, AList.update p t w)), mn_Remove = AList.delete,
      mn_rand = (\<lambda>w. (Inr (replicate 24 7), w)), mn_Seal = (\<lambda>m n p k. rev m), mn_Open = (\<lambda>c n p k. Some (rev c)),
      mn_Dial = (\<lambda>t b w. (Some (ErrMsg ''dial''), w)), mn_ConnClose = (\<lambda>w. w), mn_IsHealthy = (\<lambda>w. (None, w)),
      mn_GetServerKey = (\<lambda>w. (Inl (ErrMsg ''key''), w)), mn_Login = (\<lambda>m w. (Inl (ErrMsg ''login''), w)),
      mn_Sync = (\<lambda>m w. (None, w)), mn_Recv = (\<lambda>w. (Inl io_EOF, w)), mn_SignalSend = (\<lambda>w. (None, w)),
      mn_Marshal_login = (\<lambda>q. Inr []), mn_Marshal_sync = (\<lambda>q. Inr []), mn_Unmarshal_login = (\<lambda>b. Inl (ErrMsg ''login'')),
      mn_Unmarshal_sync = (\<lambda>b. Inl (ErrMsg ''sync'')), mn_ParseKey = (\<lambda>t. Inr []), mn_GeneratePrivateKey = (\<lambda>w. (Inr [], w)),
      mn_PublicKey = (\<lambda>k. k), mn_KeyString = (\<lambda>k. []), mn_Hostname = Inr ''host'', mn_GOOS = ''linux'', mn_UnixTime = (\<lambda>w. 1)\<rparr>"

lemma demo_disk: "disk_laws (demo_mn_env broken)"
  by (auto simp: disk_laws_def demo_mn_env_def update_conv')

theorem saveConfig_loadConfig_witness:
  "\<exists>w'. saveConfig (demo_mn_env (\<lambda>c. False)) ''/c.json'' (Some (defaultConfig\<lparr>mc_Peers := Some [zero_peer], mc_Routes := None\<rparr>)) [] = (None, w')
    \<and> mini_loadConfig (demo_mn_env (\<lambda>c. False)) ''/c.json'' w' = Inr (defaultConfig\<lparr>mc_Peers := Some [zero_peer], mc_Routes := None\<rparr>)"
proof -
  let ?c = "defaultConfig\<lparr>mc_Peers := Some [zero_peer], mc_Routes := None\<rparr>"
  have ok: "ok_config ?c"
    by (simp add: ok_config_def defaultConfig_def slice_list_def ok_peer_def zero_peer_def)
  obtain w' where "saveConfig (demo_mn_env (\<lambda>c. False)) ''/c.json'' (Some ?c) [] = (None, w')"
    by (simp add: saveConfig_def ensureDir_def demo_mn_env_def)
  then show ?thesis
    using saveConfig_loadConfig [OF demo_disk ok] by blast
qed

theorem unreadable_config_replaced_witness:
  "\<exists>w'. runDown (demo_mn_env (\<lambda>c. False)) ''/c.json'' [(''/c.json'', ''{'')] = (None, w')
    \<and> mini_loadConfig (demo_mn_env (\<lambda>c. False)) ''/c.json'' w' = Inr (defaultConfig\<lparr>mc_Peers := None, mc_Routes := None\<rparr>)"
proof -
  have bad: "mini_loadConfig (demo_mn_env (\<lambda>c. False)) ''/c.json'' [(''/c.json'', ''{'')] = Inl json_SyntaxError"
    by code_simp
  obtain w' where "runDown (demo_mn_env (\<lambda>c. False)) ''/c.json'' [(''/c.json'', ''{'')] = (None, w')"
    using bad by (simp add: runDown_def loadOrDefault_def saveConfig_def ensureDir_def) (simp add: demo_mn_env_def)
  then show ?thesis
    using unreadable_config_replaced [OF demo_disk _ bad] by blast
qed

theorem Apply_runs_plan_witness:
  "\<exists>s' cs. wg_Apply (demo_mn_env (\<lambda>c. take 3 c = [''ip'', ''link'', ''set''])) [zero_peer] [''10.0.0.0/24''] (mini_NewEngine defaultConfig [])
      = (Some (ErrWrap ''ip link set up'' (ErrMsg ''exit status 1'')), s')
     \<and> ms_log s' = cs \<and> length cs = 5 \<and> list_all succeeded (butlast cs) \<and> (\<exists>tmp w. ms_world s' = AList.delete tmp w)"
proof -
  let ?E = "demo_mn_env (\<lambda>c. take 3 c = [''ip'', ''link'', ''set''])"
  let ?run = "wg_Apply ?E [zero_peer] [''10.0.0.0/24''] (mini_NewEngine defaultConfig [])"
  have "fst ?run = Some (ErrWrap ''ip link set up'' (ErrMsg ''exit status 1'')) \<and> length (ms_log (snd ?run)) = 5"
    by (simp add: mini_NewEngine_def wg_Apply_def apply_as_root_def with_key_file_def apply_device_def runCmd_def generatePrivateKey_def isRoot_def apply_defaults_def defaultConfig_def demo_mn_env_def wg_set_cmd_def link_add_cmd_def address_add_cmd_def wg_peer_cmd_def link_up_cmd_def Let_def)
  then obtain s' where run: "?run = (Some (ErrWrap ''ip link set up'' (ErrMsg ''exit status 1'')), s')" "length (ms_log s') = 5"
    by (cases ?run) simp
  have "isRoot ?E" by (simp add: isRoot_def demo_mn_env_def)
  from Apply_runs_plan [OF this run(1)] obtain cs tmp where "ms_log s' = cs" "list_all succeeded (butlast cs)"
      "length cs > 2 \<longrightarrow> (\<exists>w. ms_world s' = mn_Remove ?E tmp w)"
    by (auto simp: mini_NewEngine_def)
  moreover have "mn_Remove ?E tmp = AList.delete tmp" by (simp add: demo_mn_env_def)
  ultimately show ?thesis using run by auto
qed

theorem failed_start_not_repeated_witness:
  "\<exists>e s'. mini_Start (demo_mn_env (\<lambda>c. hd c = ''wg'')) (mini_NewEngine defaultConfig []) = (Some e, s')
     \<and> mini_Start (demo_mn_env (\<lambda>c. hd c = ''wg'')) s' = (None, s')"
proof -
  let ?E = "demo_mn_env (\<lambda>c. hd c = ''wg'')" and ?s = "mini_NewEngine defaultConfig []"
  have reg: "mini_Register ?E (mc_SetupKey (ms_cfg ?s)) ?s = (Inr (fallbackStub ?E []), ?s)"
    by (simp add: mini_Register_def mini_connect_def dialManagement_def mini_NewEngine_def demo_mn_env_def split: prod.splits)
  have "fst (mini_Start ?E ?s) \<noteq> None" unfolding mini_Start_def reg by (simp add: mini_NewEngine_def fallbackStub_def wg_Apply_def apply_as_root_def with_key_file_def apply_device_def runCmd_def generatePrivateKey_def isRoot_def apply_defaults_def defaultConfig_def demo_mn_env_def wg_set_cmd_def link_add_cmd_def address_add_cmd_def Let_def slice_list_def)
  then obtain e s' where start: "mini_Start ?E ?s = (Some e, s')" by (cases "mini_Start ?E ?s") auto
  have "ms_started s' \<and> mini_Start ?E s' = (None, s')"
    by (rule failed_start_not_repeated [OF _ reg start]) (simp add: mini_NewEngine_def)
  then show ?thesis using start by blast
qed

theorem runUp_stores_config_witness:
  "\<exists>s w'. runUp ((demo_mn_env (\<lambda>c. False))\<lparr>mn_Geteuid := 1000\<rparr>) ''/c.json'' ''setup'' [] [] [] = (None, Some s, w')
     \<and> mini_loadConfig ((demo_mn_env (\<lambda>c. False))\<lparr>mn_Geteuid := 1000\<rparr>) ''/c.json'' w' = Inr (ms_cfg s)"
proof -
  let ?E = "(demo_mn_env (\<lambda>c. False))\<lparr>mn_Geteuid := 1000\<rparr>" and ?c = "defaultConfig\<lparr>mc_SetupKey := ''setup''\<rparr>"
  have "map_prod (\<lambda>r. r = None) (ok_config \<circ> ms_cfg) (mini_Start ?E (mini_NewEngine ?c [])) = (True, True)" by code_simp
  then obtain s where s: "mini_Start ?E (mini_NewEngine ?c []) = (None, s)" "ok_config (ms_cfg s)"
    by (cases "mini_Start ?E (mini_NewEngine ?c [])") auto
  have load: "loadOrDefault ?E ''/c.json'' [] = Inr (defaultConfig, ''/c.json'')"
    by (simp add: loadOrDefault_def mini_loadConfig_def) (simp add: demo_mn_env_def)
  have c: "defaultConfig\<lparr>mc_SetupKey := override ''setup'' (mc_SetupKey defaultConfig), mc_ManagementURL := override [] (mc_ManagementURL defaultConfig),
      mc_SignalURL := override [] (mc_SignalURL defaultConfig)\<rparr> = ?c"
    by (simp add: override_def defaultConfig_def)
  obtain w' where run: "runUp ?E ''/c.json'' ''setup'' [] [] [] = (None, Some s, w')"
    unfolding runUp_def load sum.case prod.case Let_def c s(1) option.case
    by (simp add: saveConfig_def ensureDir_def) (simp add: demo_mn_env_def)
  have "disk_laws ?E" using demo_disk [of "\<lambda>c. False"] by (simp add: disk_laws_def)
  then show ?thesis
    using runUp_stores_config [OF _ _ run s(2)] run by auto
qed

theorem mini_helper_messages_witness:
  "mini_Encrypt (demo_mn_env (\<lambda>c. False)) [1, 2, 3] (replicate 32 1) (replicate 32 2) [] = (Inr (replicate 24 7 @ [3, 2, 1]), [])"
proof -
  have "same_box (demo_mn_env (\<lambda>c. False)) demo_hp_env" by (simp add: same_box_def demo_mn_env_def demo_hp_env_def)
  from mini_helper_messages [OF this, of "replicate 32 2" "replicate 32 1" "[1, 2, 3]" "[]"]
  have "mini_Encrypt (demo_mn_env (\<lambda>c. False)) [1, 2, 3] (replicate 32 1) (replicate 32 2) [] = (Inr c, w')
      \<longleftrightarrow> hp_EncryptMessage demo_hp_env [1, 2, 3] (replicate 32 2) (replicate 32 1) [] = (Inr c, w')" for c w'
    by simp
  then show ?thesis
    by (simp add: hp_EncryptMessage_def toArray32_def demo_hp_env_def)
qed

end
