(* ===== verification/Go_Url.thy ===== *)
theory Go_Url
  imports Go_Codec "HOL-Library.List_Lexorder" "HOL-Library.Char_ord"
begin

text \<open>
  What the REST client uses of \<^verbatim>\<open>net/url\<close>: query escaping, \<^verbatim>\<open>url.Values\<close> with \<^verbatim>\<open>Add\<close>, \<^verbatim>\<open>Set\<close> and \<^verbatim>\<open>Encode\<close>, and the parsing of a
  query. \<^verbatim>\<open>url.Values\<close> is a map from names to lists of values; here it is the association list sorted by name, which is the
  order \<^verbatim>\<open>Encode\<close> prints it in.

  The lemmas: an escaped text is unescaped to itself, an encoded query is parsed to the values it came from, and adding
  values under different names commutes, so that the order of a Go map does not matter.
\<close>

section \<open>Escaping\<close>

definition upper_hex :: "nat \<Rightarrow> char" where
  "upper_hex n = (if n < 10 then char_of (48 + n) else char_of (55 + n))"

definition unreserved :: "char \<Rightarrow> bool" where
  "unreserved c =
     (let n = of_char c :: nat in
      48 \<le> n \<and> n \<le> 57 \<or> 65 \<le> n \<and> n \<le> 90 \<or> 97 \<le> n \<and> n \<le> 122 \<or> c \<in> {CHR ''-'', CHR ''_'', CHR ''.'', CHR ''~''})"

definition escape_byte :: "char \<Rightarrow> string" where
  "escape_byte c =
     (if unreserved c then [c]
      else if c = CHR '' '' then ''+''
      else [CHR ''%'', upper_hex (of_char c div 16), upper_hex (of_char c mod 16)])"

definition url_QueryEscape :: "string \<Rightarrow> string" where
  "url_QueryEscape s = concat (map escape_byte s)"

definition url_EscapeError :: go_error where "url_EscapeError = ErrMsg ''invalid URL escape''"

fun url_QueryUnescape :: "string \<Rightarrow> string result" where
  "url_QueryUnescape [] = Inr []"
| "url_QueryUnescape (c # cs) =
     (if c = CHR ''%'' then
        (case cs of
           h # l # rest \<Rightarrow>
             (case (hex_val h, hex_val l) of
                (Some a, Some b) \<Rightarrow> bind_result (url_QueryUnescape rest) (\<lambda>r. Inr (char_of (16 * a + b) # r))
              | _ \<Rightarrow> Inl url_EscapeError)
         | _ \<Rightarrow> Inl url_EscapeError)
      else bind_result (url_QueryUnescape cs) (\<lambda>r. Inr ((if c = CHR ''+'' then CHR '' '' else c) # r)))"

section \<open>Values\<close>

type_synonym url_values = "(string \<times> string list) list"

fun values_update :: "string \<Rightarrow> (string list \<Rightarrow> string list) \<Rightarrow> url_values \<Rightarrow> url_values" where
  "values_update k f [] = [(k, f [])]"
| "values_update k f ((k', xs) # v) =
     (if k < k' then (k, f []) # (k', xs) # v
      else if k = k' then (k, f xs) # v
      else (k', xs) # values_update k f v)"

definition Values_Add :: "string \<Rightarrow> string \<Rightarrow> url_values \<Rightarrow> url_values" where
  "Values_Add k x = values_update k (\<lambda>xs. xs @ [x])"

definition Values_Set :: "string \<Rightarrow> string \<Rightarrow> url_values \<Rightarrow> url_values" where
  "Values_Set k x = values_update k (\<lambda>_. [x])"

definition pair_text :: "string \<times> string \<Rightarrow> string" where
  "pair_text p = url_QueryEscape (fst p) @ ''='' @ url_QueryEscape (snd p)"

definition values_pairs :: "url_values \<Rightarrow> (string \<times> string) list" where
  "values_pairs v = concat (map (\<lambda>(k, xs). map (Pair k) xs) v)"

definition Values_Encode :: "url_values \<Rightarrow> string" where
  "Values_Encode v = strings_Join ''&'' (map pair_text (values_pairs v))"

text \<open>One piece of a query between two ampersands; a piece with a semicolon or a bad escape is dropped.\<close>

definition query_pair :: "string \<Rightarrow> (string \<times> string) option" where
  "query_pair piece =
     (if CHR '';'' \<in> set piece \<or> piece = [] then None
      else
        (let key = takeWhile (\<lambda>c. c \<noteq> CHR ''='') piece; value = tl (dropWhile (\<lambda>c. c \<noteq> CHR ''='') piece) in
         case (url_QueryUnescape key, url_QueryUnescape value) of
           (Inr k, Inr x) \<Rightarrow> Some (k, x)
         | _ \<Rightarrow> None))"

definition add_piece :: "string \<Rightarrow> url_values \<Rightarrow> url_values" where
  "add_piece piece v = (case query_pair piece of None \<Rightarrow> v | Some (k, x) \<Rightarrow> Values_Add k x v)"

definition url_Query :: "string \<Rightarrow> url_values" where
  "url_Query rawQuery = fold add_piece (strings_Split (CHR ''&'') rawQuery) []"

section \<open>Round trips\<close>

lemma hex_val_upper_hex: "n < 16 \<Longrightarrow> hex_val (upper_hex n) = Some n"
  by (auto simp: hex_val_def upper_hex_def)

lemma of_char_div16: "(of_char c :: nat) div 16 < 16"
  by (simp add: less_mult_imp_div_less)

lemma Unescape_escape_byte:
  "url_QueryUnescape (escape_byte c @ s) = bind_result (url_QueryUnescape s) (\<lambda>r. Inr (c # r))"
proof (cases "unreserved c \<or> c = CHR '' ''")
  case True
  then have "escape_byte c = [if c = CHR '' '' then CHR ''+'' else c] \<and> c \<noteq> CHR ''%'' \<and> c \<noteq> CHR ''+''"
    by (auto simp: escape_byte_def unreserved_def)
  then show ?thesis by auto
next
  case False
  then show ?thesis
    by (simp add: escape_byte_def hex_val_upper_hex of_char_div16)
qed

lemma QueryUnescape_QueryEscape: "url_QueryUnescape (url_QueryEscape s) = Inr s"
  by (induction s) (simp_all add: url_QueryEscape_def Unescape_escape_byte)

lemma upper_hex_chars: "n < 16 \<Longrightarrow> upper_hex n \<notin> {CHR ''&'', CHR ''='', CHR '';'', CHR ''#''}"
  by (auto dest: hex_val_upper_hex simp: hex_val_def)

lemma escape_byte_chars: "x \<in> set (escape_byte c) \<Longrightarrow> x \<notin> {CHR ''&'', CHR ''='', CHR '';'', CHR ''#''}"
  using upper_hex_chars [OF of_char_div16 [of c]] upper_hex_chars [of "of_char c mod 16"]
  by (auto simp: escape_byte_def unreserved_def split: if_splits)

lemma QueryEscape_chars: "x \<in> set (url_QueryEscape s) \<Longrightarrow> x \<notin> {CHR ''&'', CHR ''='', CHR '';'', CHR ''#''}"
  by (auto simp: url_QueryEscape_def dest: escape_byte_chars)

lemma query_pair_text [simp]: "query_pair (pair_text p) = Some p"
proof -
  have n: "CHR ''='' \<notin> set (url_QueryEscape s)" "CHR '';'' \<notin> set (url_QueryEscape s)" for s
    using QueryEscape_chars by blast+
  show ?thesis
    by (simp add: query_pair_def pair_text_def Let_def takeWhile_dropWhile_notin n QueryUnescape_QueryEscape)
qed

lemma pair_text_plain: "CHR ''&'' \<notin> set (pair_text p)" "CHR ''#'' \<notin> set (pair_text p)"
  using QueryEscape_chars by (auto simp: pair_text_def)

definition values_ok :: "url_values \<Rightarrow> bool" where
  "values_ok v \<longleftrightarrow> sorted_wrt (<) (map fst v) \<and> list_all (\<lambda>p. snd p \<noteq> []) v"

lemma values_update_above:
  "\<forall>p\<in>set v. fst p < k \<Longrightarrow> values_update k f v = v @ [(k, f [])]"
  by (induction v) auto

lemma values_update_last:
  "\<forall>p\<in>set v. fst p < k \<Longrightarrow> values_update k f (v @ [(k, xs)]) = v @ [(k, f xs)]"
  by (induction v) auto

lemma fold_Add_last:
  "\<forall>p\<in>set v. fst p < k \<Longrightarrow> fold (\<lambda>p. Values_Add (fst p) (snd p)) (map (Pair k) ys) (v @ [(k, xs)]) = v @ [(k, xs @ ys)]"
  by (induction ys arbitrary: xs) (simp_all add: Values_Add_def values_update_last)

lemma fold_Add_pairs:
  assumes "values_ok v" and "\<forall>p\<in>set acc. \<forall>q\<in>set v. fst p < fst q"
  shows "fold (\<lambda>p. Values_Add (fst p) (snd p)) (values_pairs v) acc = acc @ v"
  using assms
proof (induction v arbitrary: acc)
  case Nil
  then show ?case by (simp add: values_pairs_def)
next
  case (Cons q v)
  obtain k x xs where q: "q = (k, x # xs)"
    using Cons.prems(1) by (cases q; cases "snd q") (auto simp: values_ok_def)
  have above: "\<forall>p\<in>set acc. fst p < k" using Cons.prems(2) q by simp
  have "fold (\<lambda>p. Values_Add (fst p) (snd p)) (map (Pair k) (x # xs)) acc = acc @ [(k, x # xs)]"
    using fold_Add_last [OF above] by (simp add: Values_Add_def values_update_above [OF above])
  moreover have "fold (\<lambda>p. Values_Add (fst p) (snd p)) (values_pairs v) (acc @ [(k, x # xs)]) = (acc @ [(k, x # xs)]) @ v"
    using Cons.prems q by (intro Cons.IH) (auto simp: values_ok_def)
  ultimately show ?case by (simp add: q values_pairs_def)
qed

lemma fold_add_piece: "fold add_piece (map pair_text ps) v = fold (\<lambda>p. Values_Add (fst p) (snd p)) ps v"
  by (induction ps arbitrary: v) (simp_all add: add_piece_def split_beta)

lemma Query_Encode: "values_ok v \<Longrightarrow> url_Query (Values_Encode v) = v"
proof (cases "values_pairs v")
  case Nil
  assume "values_ok v"
  with Nil have "v = []" by (cases v) (auto simp: values_ok_def values_pairs_def)
  then show ?thesis by (simp add: url_Query_def Values_Encode_def values_pairs_def add_piece_def query_pair_def)
next
  case (Cons p ps)
  assume ok: "values_ok v"
  have "strings_Split (CHR ''&'') (Values_Encode v) = map pair_text (values_pairs v)"
    unfolding Values_Encode_def by (rule strings_Split_Join) (use Cons in \<open>auto simp: pair_text_plain\<close>)
  then show ?thesis
    using fold_Add_pairs [OF ok, of "[]"] by (simp add: url_Query_def fold_add_piece)
qed

lemma values_update_keys: "fst ` set (values_update k f v) = insert k (fst ` set v)"
  by (induction k f v rule: values_update.induct) (simp_all add: insert_commute)

lemma values_update_ok: "values_ok v \<Longrightarrow> (\<And>xs. f xs \<noteq> []) \<Longrightarrow> values_ok (values_update k f v)"
proof (induction v)
  case (Cons p v)
  obtain k' xs where p: "p = (k', xs)" by (cases p)
  have rest: "values_ok (values_update k f v)" using Cons by (auto simp: values_ok_def)
  have "\<forall>x\<in>fst ` set (values_update k f v). k' < x" if "k' < k"
    using Cons.prems(1) that by (auto simp: values_update_keys p values_ok_def)
  then show ?case
    using Cons.prems rest by (auto simp: p values_ok_def)
qed (simp add: values_ok_def)

lemma Values_ok [simp]: "values_ok []" "values_ok v \<Longrightarrow> values_ok (Values_Add k x v)" "values_ok v \<Longrightarrow> values_ok (Values_Set k x v)"
  by (simp_all add: Values_Add_def Values_Set_def values_update_ok) (simp add: values_ok_def)

lemma fold_ok: "(\<And>x v. values_ok v \<Longrightarrow> values_ok (f x v)) \<Longrightarrow> values_ok v \<Longrightarrow> values_ok (fold f xs v)"
  by (induction xs arbitrary: v) auto

lemma Query_ok [simp]: "values_ok (url_Query q)"
  unfolding url_Query_def by (rule fold_ok) (auto simp: add_piece_def split: option.splits)

lemma values_update_commute:
  "k1 \<noteq> k2 \<Longrightarrow> values_update k1 f (values_update k2 g v) = values_update k2 g (values_update k1 f v)"
  by (induction v) auto

lemma values_update_lookup:
  "values_ok v \<Longrightarrow> map_of (values_update k f v) = (map_of v)(k \<mapsto> f (case map_of v k of None \<Rightarrow> [] | Some xs \<Rightarrow> xs))"
proof (induction v)
  case (Cons p v)
  obtain k' xs where p: "p = (k', xs)" by (cases p)
  have ok: "values_ok v" using Cons.prems by (simp add: values_ok_def)
  show ?case
  proof (cases "k < k'")
    case True
    have "\<forall>x\<in>fst ` set v. k' < x" using Cons.prems by (auto simp: values_ok_def p)
    then have "map_of v k = None" using True by (auto simp: map_of_eq_None_iff)
    then show ?thesis using True by (auto simp: p)
  next
    case False
    then show ?thesis using Cons.IH [OF ok] by (auto simp: p fun_eq_iff)
  qed
qed simp

lemma Encode_plain: "CHR ''#'' \<notin> set (Values_Encode v)"
proof -
  have "CHR ''#'' \<notin> set (strings_Join ''&'' (map pair_text ps))" for ps
    using pair_text_plain by (induction ps rule: induct_list012) auto
  then show ?thesis by (simp add: Values_Encode_def)
qed

end
