(* ===== verification/Rest_Client.thy ===== *)
theory Rest_Client
  imports Go_Url Go_Json "HOL-Library.AList"
begin

text \<open>
  The REST client of the management service, \<^verbatim>\<open>go/management/client/rest\<close>: the client and its options (\<^verbatim>\<open>client.go\<close>, \<^verbatim>\<open>options.go\<close>),
  impersonation (\<^verbatim>\<open>impersonation.go\<close>) and one function per operation of the API (the other files).

  An impersonating HTTP client is an object that several clients can share and that \<^verbatim>\<open>Impersonate\<close> changes in place, so these
  objects live in a store, \<open>rs_clients\<close>, and \<open>Impersonated a\<close> is a pointer to one. \<open>rs_open\<close> counts the response bodies that were received
  and not closed, and \<open>rs_sent\<close> records the requests in the order they were sent. HTTP itself and the parsing of URLs are the fields of
  \<open>re_env\<close>; queries are the theory \<open>Go_Url\<close>, JSON is \<open>Go_Json\<close>. The types of the API are not in the repository: an operation takes the
  function that encodes its argument and the one that decodes its result. The objects \<^verbatim>\<open>Accounts\<close>, \<^verbatim>\<open>Users\<close> and so on, which \<^verbatim>\<open>initialize\<close>
  creates, hold a pointer to their client only, so an operation takes the client itself. The value that Go returns next to an
  error is left out.

  The theorems: what a call sends and returns; that the order of the query does not matter; what an impersonated request looks
  like; that pointers stay valid; that the operations of a collection implement a store of objects when the service does. Where the
  client falls short: a refused call leaves the body of its response open, impersonating twice changes the first client,
  and identifiers are put into paths as they are.
\<close>

section \<open>Requests and responses\<close>

record url =
  u_Base :: string
  u_RawQuery :: string
  u_ForceQuery :: bool
  u_Fragment :: string

text \<open>\<^verbatim>\<open>URL.String\<close>; \<open>u_Base\<close> is the printed scheme, authority and path.\<close>

definition url_String :: "url \<Rightarrow> string" where
  "url_String u =
     u_Base u @ (if u_ForceQuery u \<or> u_RawQuery u \<noteq> [] then ''?'' @ u_RawQuery u else [])
     @ (if u_Fragment u \<noteq> [] then ''#'' @ u_Fragment u else [])"

record http_request =
  hr_Method :: string
  hr_URL :: url
  hr_Header :: "(string \<times> string) list"
  hr_Body :: "string option"

text \<open>A body is absent, cannot be read, or is a text.\<close>

record http_response =
  rp_StatusCode :: int
  rp_Body :: "string result option"

record ('h, 'w) re_env =
  re_DefaultClient :: 'h
  re_NewRequestURL :: "string \<Rightarrow> url result"
  re_ParseURL :: "string \<Rightarrow> url result"
  re_Do :: "'h \<Rightarrow> http_request \<Rightarrow> 'w \<Rightarrow> http_response result \<times> 'w"
  re_decode_error :: "json \<Rightarrow> string result"

datatype 'h http_client = Plain 'h | Impersonated nat

record 'h impersonated =
  ic_baseClient :: 'h
  ic_account :: string

record ('h, 'w) rest_state =
  rs_clients :: "'h impersonated list"
  rs_open :: int
  rs_sent :: "('h \<times> http_request) list"
  rs_world :: 'w

type_synonym ('h, 'w, 'a) rest_op = "('h, 'w) rest_state \<Rightarrow> 'a result \<times> ('h, 'w) rest_state"
type_synonym ('h, 'w) rest_done = "('h, 'w) rest_state \<Rightarrow> go_error option \<times> ('h, 'w) rest_state"

section \<open>The client\<close>

record 'h rest_client =
  rc_managementURL :: string
  rc_authHeader :: string
  rc_httpClient :: "'h http_client"

type_synonym 'h client_option = "'h rest_client \<Rightarrow> 'h rest_client"

definition WithHttpClient :: "'h http_client \<Rightarrow> 'h client_option" where
  "WithHttpClient client c = c\<lparr>rc_httpClient := client\<rparr>"

definition WithManagementURL :: "string \<Rightarrow> 'h client_option" where
  "WithManagementURL url c = c\<lparr>rc_managementURL := url\<rparr>"

definition WithAuthHeader :: "string \<Rightarrow> 'h client_option" where
  "WithAuthHeader value c = c\<lparr>rc_authHeader := value\<rparr>"

definition WithBearerToken :: "string \<Rightarrow> 'h client_option" where
  "WithBearerToken token = WithAuthHeader (''Bearer '' @ token)"

definition WithPAT :: "string \<Rightarrow> 'h client_option" where
  "WithPAT token = WithAuthHeader (''Token '' @ token)"

definition NewWithOptions :: "('h, 'w) re_env \<Rightarrow> 'h client_option list \<Rightarrow> 'h rest_client" where
  "NewWithOptions E opts = fold id opts \<lparr>rc_managementURL = [], rc_authHeader = [], rc_httpClient = Plain (re_DefaultClient E)\<rparr>"

definition rest_New :: "('h, 'w) re_env \<Rightarrow> string \<Rightarrow> string \<Rightarrow> 'h rest_client" where
  "rest_New E managementURL token = NewWithOptions E [WithManagementURL managementURL, WithPAT token]"

definition NewWithBearerToken :: "('h, 'w) re_env \<Rightarrow> string \<Rightarrow> string \<Rightarrow> 'h rest_client" where
  "NewWithBearerToken E managementURL token = NewWithOptions E [WithManagementURL managementURL, WithBearerToken token]"

definition newImpersonatedHttpClient ::
    "'h rest_client \<Rightarrow> string \<Rightarrow> ('h, 'w) rest_state \<Rightarrow> 'h http_client \<times> ('h, 'w) rest_state" where
  "newImpersonatedHttpClient c account s =
     (case rc_httpClient c of
        Impersonated a \<Rightarrow>
          (Impersonated a, s\<lparr>rs_clients := (rs_clients s)[a := (rs_clients s ! a)\<lparr>ic_account := account\<rparr>]\<rparr>)
      | Plain h \<Rightarrow>
          (Impersonated (length (rs_clients s)),
           s\<lparr>rs_clients := rs_clients s @ [\<lparr>ic_baseClient = h, ic_account = account\<rparr>]\<rparr>))"

definition Impersonate ::
    "('h, 'w) re_env \<Rightarrow> 'h rest_client \<Rightarrow> string \<Rightarrow> ('h, 'w) rest_state \<Rightarrow> 'h rest_client \<times> ('h, 'w) rest_state" where
  "Impersonate E c account s =
     (case newImpersonatedHttpClient c account s of
        (client, s1) \<Rightarrow>
          (NewWithOptions E [WithManagementURL (rc_managementURL c), WithAuthHeader (rc_authHeader c), WithHttpClient client], s1))"

section \<open>One request\<close>

definition plain_Do :: "('h, 'w) re_env \<Rightarrow> 'h \<Rightarrow> http_request \<Rightarrow> ('h, 'w, http_response) rest_op" where
  "plain_Do E h req s =
     (case re_Do E h req (rs_world s) of
        (r, w) \<Rightarrow>
          (r, s\<lparr>rs_sent := rs_sent s @ [(h, req)], rs_world := w,
                rs_open := rs_open s + (case r of Inr resp \<Rightarrow> if rp_Body resp = None then 0 else 1 | Inl err \<Rightarrow> 0)\<rparr>))"

definition impersonated_URL :: "('h, 'w) re_env \<Rightarrow> string \<Rightarrow> url \<Rightarrow> url result" where
  "impersonated_URL E account u =
     bind_result (re_ParseURL E (url_String u)) (\<lambda>parsedURL.
       Inr (parsedURL\<lparr>u_RawQuery := Values_Encode (Values_Set ''account'' account (url_Query (u_RawQuery parsedURL)))\<rparr>))"

definition http_Do :: "('h, 'w) re_env \<Rightarrow> 'h http_client \<Rightarrow> http_request \<Rightarrow> ('h, 'w, http_response) rest_op" where
  "http_Do E client req s =
     (case client of
        Plain h \<Rightarrow> plain_Do E h req s
      | Impersonated a \<Rightarrow>
          (case impersonated_URL E (ic_account (rs_clients s ! a)) (hr_URL req) of
             Inl err \<Rightarrow> (Inl err, s)
           | Inr u \<Rightarrow> plain_Do E (ic_baseClient (rs_clients s ! a)) (req\<lparr>hr_URL := u\<rparr>) s))"

definition parseResponse :: "(json \<Rightarrow> 'a result) \<Rightarrow> http_response \<Rightarrow> 'a result" where
  "parseResponse dec resp =
     (case rp_Body resp of
        None \<Rightarrow> Inl (ErrMsg (''Body missing, HTTP Error code '' @ itoa_int (rp_StatusCode resp)))
      | Some body \<Rightarrow>
          bind_result body (\<lambda>bs.
            wrap_result (''Error code '' @ itoa_int (rp_StatusCode resp) @ '', error unmarshalling body'') (json_Unmarshal dec bs)))"

text \<open>The query is a Go map; it is the list of its entries in the order of the iteration.\<close>

definition add_query :: "(string \<times> string) list \<Rightarrow> url \<Rightarrow> url" where
  "add_query query u =
     (if query = [] then u
      else u\<lparr>u_RawQuery := Values_Encode (fold (\<lambda>(k, v). Values_Add k v) query (url_Query (u_RawQuery u)))\<rparr>)"

definition request_header :: "'h rest_client \<Rightarrow> string option \<Rightarrow> (string \<times> string) list" where
  "request_header c body =
     [(''Authorization'', rc_authHeader c), (''Accept'', ''application/json'')]
     @ (if body \<noteq> None then [(''Content-Type'', ''application/json'')] else [])"

definition rest_NewRequest ::
    "('h, 'w) re_env \<Rightarrow> 'h rest_client \<Rightarrow> string \<Rightarrow> string \<Rightarrow> string option \<Rightarrow> (string \<times> string) list \<Rightarrow> ('h, 'w, http_response) rest_op" where
  "rest_NewRequest E c method path body query s =
     (case re_NewRequestURL E (rc_managementURL c @ path) of
        Inl err \<Rightarrow> (Inl err, s)
      | Inr u \<Rightarrow>
        (let req = \<lparr>hr_Method = method, hr_URL = add_query query u, hr_Header = request_header c body, hr_Body = body\<rparr> in
         case http_Do E (rc_httpClient c) req s of
           (Inl err, s1) \<Rightarrow> (Inl err, s1)
         | (Inr resp, s1) \<Rightarrow>
           (if rp_StatusCode resp > 299 then
              (case parseResponse (re_decode_error E) resp of
                 Inl pErr \<Rightarrow> (Inl pErr, s1)
               | Inr message \<Rightarrow> (Inl (ErrMsg message), s1))
            else (Inr resp, s1))))"

text \<open>The two ways every operation ends: with the decoded body or without a value. The deferred \<^verbatim>\<open>Close\<close> runs after the decoding.\<close>

definition close_body :: "http_response \<Rightarrow> ('h, 'w) rest_state \<Rightarrow> ('h, 'w) rest_state" where
  "close_body resp s = (if rp_Body resp = None then s else s\<lparr>rs_open := rs_open s - 1\<rparr>)"

definition request_value ::
    "('h, 'w) re_env \<Rightarrow> (json \<Rightarrow> 'a result) \<Rightarrow> 'h rest_client \<Rightarrow> string \<Rightarrow> string \<Rightarrow> string option \<Rightarrow> (string \<times> string) list
       \<Rightarrow> ('h, 'w, 'a) rest_op" where
  "request_value E dec c method path body query s =
     (case rest_NewRequest E c method path body query s of
        (Inl err, s1) \<Rightarrow> (Inl err, s1)
      | (Inr resp, s1) \<Rightarrow> (parseResponse dec resp, close_body resp s1))"

definition request_done :: "('h, 'w) re_env \<Rightarrow> 'h rest_client \<Rightarrow> string \<Rightarrow> string \<Rightarrow> ('h, 'w) rest_done" where
  "request_done E c method path s =
     (case rest_NewRequest E c method path None [] s of
        (Inl err, s1) \<Rightarrow> (Some err, s1)
      | (Inr resp, s1) \<Rightarrow> (None, close_body resp s1))"

definition request_body ::
    "('h, 'w) re_env \<Rightarrow> ('r \<Rightarrow> string result) \<Rightarrow> (json \<Rightarrow> 'a result) \<Rightarrow> 'h rest_client \<Rightarrow> string \<Rightarrow> string \<Rightarrow> 'r \<Rightarrow> ('h, 'w, 'a) rest_op" where
  "request_body E marshal dec c method path request s =
     (case marshal request of
        Inl err \<Rightarrow> (Inl err, s)
      | Inr requestBytes \<Rightarrow> request_value E dec c method path (Some requestBytes) [] s)"

section \<open>Accounts\<close>

definition Accounts_List ::
    "('h, 'w) re_env \<Rightarrow> (json \<Rightarrow> 'a result) \<Rightarrow> 'h rest_client \<Rightarrow> ('h, 'w, 'a list option) rest_op" where
  "Accounts_List E dec c s = request_value E (decode_slice dec) c ''GET'' ''/api/accounts'' None [] s"

definition Accounts_Update ::
    "('h, 'w) re_env \<Rightarrow> ('r \<Rightarrow> string result) \<Rightarrow> (json \<Rightarrow> 'a result) \<Rightarrow> 'h rest_client \<Rightarrow> string \<Rightarrow> 'r \<Rightarrow> ('h, 'w, 'a) rest_op" where
  "Accounts_Update E marshal dec c accountID request s = request_body E marshal dec c ''PUT'' (''/api/accounts/'' @ accountID) request s"

definition Accounts_Delete :: "('h, 'w) re_env \<Rightarrow> 'h rest_client \<Rightarrow> string \<Rightarrow> ('h, 'w) rest_done" where
  "Accounts_Delete E c accountID s = request_done E c ''DELETE'' (''/api/accounts/'' @ accountID) s"

section \<open>Users\<close>

definition Users_List ::
    "('h, 'w) re_env \<Rightarrow> (json \<Rightarrow> 'a result) \<Rightarrow> 'h rest_client \<Rightarrow> ('h, 'w, 'a list option) rest_op" where
  "Users_List E dec c s = request_value E (decode_slice dec) c ''GET'' ''/api/users'' None [] s"

definition Users_Create ::
    "('h, 'w) re_env \<Rightarrow> ('r \<Rightarrow> string result) \<Rightarrow> (json \<Rightarrow> 'a result) \<Rightarrow> 'h rest_client \<Rightarrow> 'r \<Rightarrow> ('h, 'w, 'a) rest_op" where
  "Users_Create E marshal dec c request s = request_body E marshal dec c ''POST'' ''/api/users'' request s"

definition Users_Update ::
    "('h, 'w) re_env \<Rightarrow> ('r \<Rightarrow> string result) \<Rightarrow> (json \<Rightarrow> 'a result) \<Rightarrow> 'h rest_client \<Rightarrow> string \<Rightarrow> 'r \<Rightarrow> ('h, 'w, 'a) rest_op" where
  "Users_Update E marshal dec c userID request s = request_body E marshal dec c ''PUT'' (''/api/users/'' @ userID) request s"

definition Users_Delete :: "('h, 'w) re_env \<Rightarrow> 'h rest_client \<Rightarrow> string \<Rightarrow> ('h, 'w) rest_done" where
  "Users_Delete E c userID s = request_done E c ''DELETE'' (''/api/users/'' @ userID) s"

definition Users_ResendInvitation :: "('h, 'w) re_env \<Rightarrow> 'h rest_client \<Rightarrow> string \<Rightarrow> ('h, 'w) rest_done" where
  "Users_ResendInvitation E c userID s = request_done E c ''POST'' (''/api/users/'' @ userID @ ''/invite'') s"

definition Users_Current ::
    "('h, 'w) re_env \<Rightarrow> (json \<Rightarrow> 'a result) \<Rightarrow> 'h rest_client \<Rightarrow> ('h, 'w, 'a) rest_op" where
  "Users_Current E dec c s = request_value E dec c ''GET'' ''/api/users/current'' None [] s"

section \<open>Tokens\<close>

definition Tokens_List ::
    "('h, 'w) re_env \<Rightarrow> (json \<Rightarrow> 'a result) \<Rightarrow> 'h rest_client \<Rightarrow> string \<Rightarrow> ('h, 'w, 'a list option) rest_op" where
  "Tokens_List E dec c userID s = request_value E (decode_slice dec) c ''GET'' (''/api/users/'' @ userID @ ''/tokens'') None [] s"

definition Tokens_Get ::
    "('h, 'w) re_env \<Rightarrow> (json \<Rightarrow> 'a result) \<Rightarrow> 'h rest_client \<Rightarrow> string \<Rightarrow> string \<Rightarrow> ('h, 'w, 'a) rest_op" where
  "Tokens_Get E dec c userID tokenID s = request_value E dec c ''GET'' (''/api/users/'' @ userID @ ''/tokens/'' @ tokenID) None [] s"

definition Tokens_Create ::
    "('h, 'w) re_env \<Rightarrow> ('r \<Rightarrow> string result) \<Rightarrow> (json \<Rightarrow> 'a result) \<Rightarrow> 'h rest_client \<Rightarrow> string \<Rightarrow> 'r \<Rightarrow> ('h, 'w, 'a) rest_op" where
  "Tokens_Create E marshal dec c userID request s = request_body E marshal dec c ''POST'' (''/api/users/'' @ userID @ ''/tokens'') request s"

definition Tokens_Delete ::
    "('h, 'w) re_env \<Rightarrow> 'h rest_client \<Rightarrow> string \<Rightarrow> string \<Rightarrow> ('h, 'w) rest_done" where
  "Tokens_Delete E c userID tokenID s = request_done E c ''DELETE'' (''/api/users/'' @ userID @ ''/tokens/'' @ tokenID) s"

section \<open>Peers\<close>

definition PeerNameFilter :: "string \<Rightarrow> string \<times> string" where
  "PeerNameFilter name = (''name'', name)"

definition PeerIPFilter :: "string \<Rightarrow> string \<times> string" where
  "PeerIPFilter ip = (''ip'', ip)"

text \<open>The loop over the options fills a map; a later option replaces an earlier one of the same name.\<close>

definition peers_query :: "(string \<times> string) list \<Rightarrow> (string \<times> string) list" where
  "peers_query opts = fold (\<lambda>(k, v). AList.update k v) opts []"

definition Peers_List :: "('h, 'w) re_env \<Rightarrow> (json \<Rightarrow> 'a result) \<Rightarrow> 'h rest_client \<Rightarrow> (string \<times> string) list \<Rightarrow> ('h, 'w, 'a list option) rest_op" where
  "Peers_List E dec c opts s = request_value E (decode_slice dec) c ''GET'' ''/api/peers'' None (peers_query opts) s"

definition Peers_Get ::
    "('h, 'w) re_env \<Rightarrow> (json \<Rightarrow> 'a result) \<Rightarrow> 'h rest_client \<Rightarrow> string \<Rightarrow> ('h, 'w, 'a) rest_op" where
  "Peers_Get E dec c peerID s = request_value E dec c ''GET'' (''/api/peers/'' @ peerID) None [] s"

definition Peers_Update ::
    "('h, 'w) re_env \<Rightarrow> ('r \<Rightarrow> string result) \<Rightarrow> (json \<Rightarrow> 'a result) \<Rightarrow> 'h rest_client \<Rightarrow> string \<Rightarrow> 'r \<Rightarrow> ('h, 'w, 'a) rest_op" where
  "Peers_Update E marshal dec c peerID request s = request_body E marshal dec c ''PUT'' (''/api/peers/'' @ peerID) request s"

definition Peers_Delete :: "('h, 'w) re_env \<Rightarrow> 'h rest_client \<Rightarrow> string \<Rightarrow> ('h, 'w) rest_done" where
  "Peers_Delete E c peerID s = request_done E c ''DELETE'' (''/api/peers/'' @ peerID) s"

definition Peers_ListAccessiblePeers ::
    "('h, 'w) re_env \<Rightarrow> (json \<Rightarrow> 'a result) \<Rightarrow> 'h rest_client \<Rightarrow> string \<Rightarrow> ('h, 'w, 'a list option) rest_op" where
  "Peers_ListAccessiblePeers E dec c peerID s = request_value E (decode_slice dec) c ''GET'' (''/api/peers/'' @ peerID @ ''/accessible-peers'') None [] s"

section \<open>Setup keys\<close>

definition SetupKeys_List ::
    "('h, 'w) re_env \<Rightarrow> (json \<Rightarrow> 'a result) \<Rightarrow> 'h rest_client \<Rightarrow> ('h, 'w, 'a list option) rest_op" where
  "SetupKeys_List E dec c s = request_value E (decode_slice dec) c ''GET'' ''/api/setup-keys'' None [] s"

definition SetupKeys_Get ::
    "('h, 'w) re_env \<Rightarrow> (json \<Rightarrow> 'a result) \<Rightarrow> 'h rest_client \<Rightarrow> string \<Rightarrow> ('h, 'w, 'a) rest_op" where
  "SetupKeys_Get E dec c setupKeyID s = request_value E dec c ''GET'' (''/api/setup-keys/'' @ setupKeyID) None [] s"

definition SetupKeys_Create ::
    "('h, 'w) re_env \<Rightarrow> ('r \<Rightarrow> string result) \<Rightarrow> (json \<Rightarrow> 'a result) \<Rightarrow> 'h rest_client \<Rightarrow> 'r \<Rightarrow> ('h, 'w, 'a) rest_op" where
  "SetupKeys_Create E marshal dec c request s = request_body E marshal dec c ''POST'' ''/api/setup-keys'' request s"

definition SetupKeys_Update ::
    "('h, 'w) re_env \<Rightarrow> ('r \<Rightarrow> string result) \<Rightarrow> (json \<Rightarrow> 'a result) \<Rightarrow> 'h rest_client \<Rightarrow> string \<Rightarrow> 'r \<Rightarrow> ('h, 'w, 'a) rest_op" where
  "SetupKeys_Update E marshal dec c setupKeyID request s = request_body E marshal dec c ''PUT'' (''/api/setup-keys/'' @ setupKeyID) request s"

definition SetupKeys_Delete :: "('h, 'w) re_env \<Rightarrow> 'h rest_client \<Rightarrow> string \<Rightarrow> ('h, 'w) rest_done" where
  "SetupKeys_Delete E c setupKeyID s = request_done E c ''DELETE'' (''/api/setup-keys/'' @ setupKeyID) s"

section \<open>Groups\<close>

definition Groups_List ::
    "('h, 'w) re_env \<Rightarrow> (json \<Rightarrow> 'a result) \<Rightarrow> 'h rest_client \<Rightarrow> ('h, 'w, 'a list option) rest_op" where
  "Groups_List E dec c s = request_value E (decode_slice dec) c ''GET'' ''/api/groups'' None [] s"

definition Groups_Get ::
    "('h, 'w) re_env \<Rightarrow> (json \<Rightarrow> 'a result) \<Rightarrow> 'h rest_client \<Rightarrow> string \<Rightarrow> ('h, 'w, 'a) rest_op" where
  "Groups_Get E dec c groupID s = request_value E dec c ''GET'' (''/api/groups/'' @ groupID) None [] s"

definition Groups_Create ::
    "('h, 'w) re_env \<Rightarrow> ('r \<Rightarrow> string result) \<Rightarrow> (json \<Rightarrow> 'a result) \<Rightarrow> 'h rest_client \<Rightarrow> 'r \<Rightarrow> ('h, 'w, 'a) rest_op" where
  "Groups_Create E marshal dec c request s = request_body E marshal dec c ''POST'' ''/api/groups'' request s"

definition Groups_Update ::
    "('h, 'w) re_env \<Rightarrow> ('r \<Rightarrow> string result) \<Rightarrow> (json \<Rightarrow> 'a result) \<Rightarrow> 'h rest_client \<Rightarrow> string \<Rightarrow> 'r \<Rightarrow> ('h, 'w, 'a) rest_op" where
  "Groups_Update E marshal dec c groupID request s = request_body E marshal dec c ''PUT'' (''/api/groups/'' @ groupID) request s"

definition Groups_Delete :: "('h, 'w) re_env \<Rightarrow> 'h rest_client \<Rightarrow> string \<Rightarrow> ('h, 'w) rest_done" where
  "Groups_Delete E c groupID s = request_done E c ''DELETE'' (''/api/groups/'' @ groupID) s"

section \<open>Policies\<close>

definition Policies_List ::
    "('h, 'w) re_env \<Rightarrow> (json \<Rightarrow> 'a result) \<Rightarrow> 'h rest_client \<Rightarrow> ('h, 'w, 'a list option) rest_op" where
  "Policies_List E dec c s = request_value E (decode_slice dec) c ''GET'' ''/api/policies'' None [] s"

definition Policies_Get ::
    "('h, 'w) re_env \<Rightarrow> (json \<Rightarrow> 'a result) \<Rightarrow> 'h rest_client \<Rightarrow> string \<Rightarrow> ('h, 'w, 'a) rest_op" where
  "Policies_Get E dec c policyID s = request_value E dec c ''GET'' (''/api/policies/'' @ policyID) None [] s"

definition Policies_Create ::
    "('h, 'w) re_env \<Rightarrow> ('r \<Rightarrow> string result) \<Rightarrow> (json \<Rightarrow> 'a result) \<Rightarrow> 'h rest_client \<Rightarrow> 'r \<Rightarrow> ('h, 'w, 'a) rest_op" where
  "Policies_Create E marshal dec c request s = request_body E marshal dec c ''POST'' ''/api/policies'' request s"

definition Policies_Update ::
    "('h, 'w) re_env \<Rightarrow> ('r \<Rightarrow> string result) \<Rightarrow> (json \<Rightarrow> 'a result) \<Rightarrow> 'h rest_client \<Rightarrow> string \<Rightarrow> 'r \<Rightarrow> ('h, 'w, 'a) rest_op" where
  "Policies_Update E marshal dec c policyID request s = request_body E marshal dec c ''PUT'' (''/api/policies/'' @ policyID) request s"

definition Policies_Delete :: "('h, 'w) re_env \<Rightarrow> 'h rest_client \<Rightarrow> string \<Rightarrow> ('h, 'w) rest_done" where
  "Policies_Delete E c policyID s = request_done E c ''DELETE'' (''/api/policies/'' @ policyID) s"

section \<open>Posture checks\<close>

definition PostureChecks_List ::
    "('h, 'w) re_env \<Rightarrow> (json \<Rightarrow> 'a result) \<Rightarrow> 'h rest_client \<Rightarrow> ('h, 'w, 'a list option) rest_op" where
  "PostureChecks_List E dec c s = request_value E (decode_slice dec) c ''GET'' ''/api/posture-checks'' None [] s"

definition PostureChecks_Get ::
    "('h, 'w) re_env \<Rightarrow> (json \<Rightarrow> 'a result) \<Rightarrow> 'h rest_client \<Rightarrow> string \<Rightarrow> ('h, 'w, 'a) rest_op" where
  "PostureChecks_Get E dec c postureCheckID s = request_value E dec c ''GET'' (''/api/posture-checks/'' @ postureCheckID) None [] s"

definition PostureChecks_Create ::
    "('h, 'w) re_env \<Rightarrow> ('r \<Rightarrow> string result) \<Rightarrow> (json \<Rightarrow> 'a result) \<Rightarrow> 'h rest_client \<Rightarrow> 'r \<Rightarrow> ('h, 'w, 'a) rest_op" where
  "PostureChecks_Create E marshal dec c request s = request_body E marshal dec c ''POST'' ''/api/posture-checks'' request s"

definition PostureChecks_Update ::
    "('h, 'w) re_env \<Rightarrow> ('r \<Rightarrow> string result) \<Rightarrow> (json \<Rightarrow> 'a result) \<Rightarrow> 'h rest_client \<Rightarrow> string \<Rightarrow> 'r \<Rightarrow> ('h, 'w, 'a) rest_op" where
  "PostureChecks_Update E marshal dec c postureCheckID request s = request_body E marshal dec c ''PUT'' (''/api/posture-checks/'' @ postureCheckID) request s"

definition PostureChecks_Delete :: "('h, 'w) re_env \<Rightarrow> 'h rest_client \<Rightarrow> string \<Rightarrow> ('h, 'w) rest_done" where
  "PostureChecks_Delete E c postureCheckID s = request_done E c ''DELETE'' (''/api/posture-checks/'' @ postureCheckID) s"

section \<open>Networks\<close>

definition Networks_List ::
    "('h, 'w) re_env \<Rightarrow> (json \<Rightarrow> 'a result) \<Rightarrow> 'h rest_client \<Rightarrow> ('h, 'w, 'a list option) rest_op" where
  "Networks_List E dec c s = request_value E (decode_slice dec) c ''GET'' ''/api/networks'' None [] s"

definition Networks_Get ::
    "('h, 'w) re_env \<Rightarrow> (json \<Rightarrow> 'a result) \<Rightarrow> 'h rest_client \<Rightarrow> string \<Rightarrow> ('h, 'w, 'a) rest_op" where
  "Networks_Get E dec c networkID s = request_value E dec c ''GET'' (''/api/networks/'' @ networkID) None [] s"

definition Networks_Create ::
    "('h, 'w) re_env \<Rightarrow> ('r \<Rightarrow> string result) \<Rightarrow> (json \<Rightarrow> 'a result) \<Rightarrow> 'h rest_client \<Rightarrow> 'r \<Rightarrow> ('h, 'w, 'a) rest_op" where
  "Networks_Create E marshal dec c request s = request_body E marshal dec c ''POST'' ''/api/networks'' request s"

definition Networks_Update ::
    "('h, 'w) re_env \<Rightarrow> ('r \<Rightarrow> string result) \<Rightarrow> (json \<Rightarrow> 'a result) \<Rightarrow> 'h rest_client \<Rightarrow> string \<Rightarrow> 'r \<Rightarrow> ('h, 'w, 'a) rest_op" where
  "Networks_Update E marshal dec c networkID request s = request_body E marshal dec c ''PUT'' (''/api/networks/'' @ networkID) request s"

definition Networks_Delete :: "('h, 'w) re_env \<Rightarrow> 'h rest_client \<Rightarrow> string \<Rightarrow> ('h, 'w) rest_done" where
  "Networks_Delete E c networkID s = request_done E c ''DELETE'' (''/api/networks/'' @ networkID) s"

section \<open>Resources and routers of a network\<close>

record 'h network_api =
  na_c :: "'h rest_client"
  na_networkID :: string

definition Networks_Resources :: "'h rest_client \<Rightarrow> string \<Rightarrow> 'h network_api" where
  "Networks_Resources c networkID = \<lparr>na_c = c, na_networkID = networkID\<rparr>"

definition Networks_Routers :: "'h rest_client \<Rightarrow> string \<Rightarrow> 'h network_api" where
  "Networks_Routers c networkID = \<lparr>na_c = c, na_networkID = networkID\<rparr>"

definition NetworkResources_List ::
    "('h, 'w) re_env \<Rightarrow> (json \<Rightarrow> 'a result) \<Rightarrow> 'h network_api \<Rightarrow> ('h, 'w, 'a list option) rest_op" where
  "NetworkResources_List E dec a s = request_value E (decode_slice dec) (na_c a) ''GET'' (''/api/networks/'' @ na_networkID a @ ''/resources'') None [] s"

definition NetworkResources_Get ::
    "('h, 'w) re_env \<Rightarrow> (json \<Rightarrow> 'a result) \<Rightarrow> 'h network_api \<Rightarrow> string \<Rightarrow> ('h, 'w, 'a) rest_op" where
  "NetworkResources_Get E dec a networkResourceID s = request_value E dec (na_c a) ''GET'' (''/api/networks/'' @ na_networkID a @ ''/resources/'' @ networkResourceID) None [] s"

definition NetworkResources_Create ::
    "('h, 'w) re_env \<Rightarrow> ('r \<Rightarrow> string result) \<Rightarrow> (json \<Rightarrow> 'a result) \<Rightarrow> 'h network_api \<Rightarrow> 'r \<Rightarrow> ('h, 'w, 'a) rest_op" where
  "NetworkResources_Create E marshal dec a request s = request_body E marshal dec (na_c a) ''POST'' (''/api/networks/'' @ na_networkID a @ ''/resources'') request s"

definition NetworkResources_Update ::
    "('h, 'w) re_env \<Rightarrow> ('r \<Rightarrow> string result) \<Rightarrow> (json \<Rightarrow> 'a result) \<Rightarrow> 'h network_api \<Rightarrow> string \<Rightarrow> 'r \<Rightarrow> ('h, 'w, 'a) rest_op" where
  "NetworkResources_Update E marshal dec a networkResourceID request s = request_body E marshal dec (na_c a) ''PUT'' (''/api/networks/'' @ na_networkID a @ ''/resources/'' @ networkResourceID) request s"

definition NetworkResources_Delete :: "('h, 'w) re_env \<Rightarrow> 'h network_api \<Rightarrow> string \<Rightarrow> ('h, 'w) rest_done" where
  "NetworkResources_Delete E a networkResourceID s = request_done E (na_c a) ''DELETE'' (''/api/networks/'' @ na_networkID a @ ''/resources/'' @ networkResourceID) s"

definition NetworkRouters_List ::
    "('h, 'w) re_env \<Rightarrow> (json \<Rightarrow> 'a result) \<Rightarrow> 'h network_api \<Rightarrow> ('h, 'w, 'a list option) rest_op" where
  "NetworkRouters_List E dec a s = request_value E (decode_slice dec) (na_c a) ''GET'' (''/api/networks/'' @ na_networkID a @ ''/routers'') None [] s"

definition NetworkRouters_Get ::
    "('h, 'w) re_env \<Rightarrow> (json \<Rightarrow> 'a result) \<Rightarrow> 'h network_api \<Rightarrow> string \<Rightarrow> ('h, 'w, 'a) rest_op" where
  "NetworkRouters_Get E dec a networkRouterID s = request_value E dec (na_c a) ''GET'' (''/api/networks/'' @ na_networkID a @ ''/routers/'' @ networkRouterID) None [] s"

definition NetworkRouters_Create ::
    "('h, 'w) re_env \<Rightarrow> ('r \<Rightarrow> string result) \<Rightarrow> (json \<Rightarrow> 'a result) \<Rightarrow> 'h network_api \<Rightarrow> 'r \<Rightarrow> ('h, 'w, 'a) rest_op" where
  "NetworkRouters_Create E marshal dec a request s = request_body E marshal dec (na_c a) ''POST'' (''/api/networks/'' @ na_networkID a @ ''/routers'') request s"

definition NetworkRouters_Update ::
    "('h, 'w) re_env \<Rightarrow> ('r \<Rightarrow> string result) \<Rightarrow> (json \<Rightarrow> 'a result) \<Rightarrow> 'h network_api \<Rightarrow> string \<Rightarrow> 'r \<Rightarrow> ('h, 'w, 'a) rest_op" where
  "NetworkRouters_Update E marshal dec a networkRouterID request s = request_body E marshal dec (na_c a) ''PUT'' (''/api/networks/'' @ na_networkID a @ ''/routers/'' @ networkRouterID) request s"

definition NetworkRouters_Delete :: "('h, 'w) re_env \<Rightarrow> 'h network_api \<Rightarrow> string \<Rightarrow> ('h, 'w) rest_done" where
  "NetworkRouters_Delete E a networkRouterID s = request_done E (na_c a) ''DELETE'' (''/api/networks/'' @ na_networkID a @ ''/routers/'' @ networkRouterID) s"

section \<open>Routes\<close>

definition Routes_List ::
    "('h, 'w) re_env \<Rightarrow> (json \<Rightarrow> 'a result) \<Rightarrow> 'h rest_client \<Rightarrow> ('h, 'w, 'a list option) rest_op" where
  "Routes_List E dec c s = request_value E (decode_slice dec) c ''GET'' ''/api/routes'' None [] s"

definition Routes_Get ::
    "('h, 'w) re_env \<Rightarrow> (json \<Rightarrow> 'a result) \<Rightarrow> 'h rest_client \<Rightarrow> string \<Rightarrow> ('h, 'w, 'a) rest_op" where
  "Routes_Get E dec c routeID s = request_value E dec c ''GET'' (''/api/routes/'' @ routeID) None [] s"

definition Routes_Create ::
    "('h, 'w) re_env \<Rightarrow> ('r \<Rightarrow> string result) \<Rightarrow> (json \<Rightarrow> 'a result) \<Rightarrow> 'h rest_client \<Rightarrow> 'r \<Rightarrow> ('h, 'w, 'a) rest_op" where
  "Routes_Create E marshal dec c request s = request_body E marshal dec c ''POST'' ''/api/routes'' request s"

definition Routes_Update ::
    "('h, 'w) re_env \<Rightarrow> ('r \<Rightarrow> string result) \<Rightarrow> (json \<Rightarrow> 'a result) \<Rightarrow> 'h rest_client \<Rightarrow> string \<Rightarrow> 'r \<Rightarrow> ('h, 'w, 'a) rest_op" where
  "Routes_Update E marshal dec c routeID request s = request_body E marshal dec c ''PUT'' (''/api/routes/'' @ routeID) request s"

definition Routes_Delete :: "('h, 'w) re_env \<Rightarrow> 'h rest_client \<Rightarrow> string \<Rightarrow> ('h, 'w) rest_done" where
  "Routes_Delete E c routeID s = request_done E c ''DELETE'' (''/api/routes/'' @ routeID) s"

section \<open>DNS\<close>

definition DNS_ListNameserverGroups ::
    "('h, 'w) re_env \<Rightarrow> (json \<Rightarrow> 'a result) \<Rightarrow> 'h rest_client \<Rightarrow> ('h, 'w, 'a list option) rest_op" where
  "DNS_ListNameserverGroups E dec c s = request_value E (decode_slice dec) c ''GET'' ''/api/dns/nameservers'' None [] s"

definition DNS_GetNameserverGroup ::
    "('h, 'w) re_env \<Rightarrow> (json \<Rightarrow> 'a result) \<Rightarrow> 'h rest_client \<Rightarrow> string \<Rightarrow> ('h, 'w, 'a) rest_op" where
  "DNS_GetNameserverGroup E dec c nameserverGroupID s = request_value E dec c ''GET'' (''/api/dns/nameservers/'' @ nameserverGroupID) None [] s"

definition DNS_CreateNameserverGroup ::
    "('h, 'w) re_env \<Rightarrow> ('r \<Rightarrow> string result) \<Rightarrow> (json \<Rightarrow> 'a result) \<Rightarrow> 'h rest_client \<Rightarrow> 'r \<Rightarrow> ('h, 'w, 'a) rest_op" where
  "DNS_CreateNameserverGroup E marshal dec c request s = request_body E marshal dec c ''POST'' ''/api/dns/nameservers'' request s"

definition DNS_UpdateNameserverGroup ::
    "('h, 'w) re_env \<Rightarrow> ('r \<Rightarrow> string result) \<Rightarrow> (json \<Rightarrow> 'a result) \<Rightarrow> 'h rest_client \<Rightarrow> string \<Rightarrow> 'r \<Rightarrow> ('h, 'w, 'a) rest_op" where
  "DNS_UpdateNameserverGroup E marshal dec c nameserverGroupID request s = request_body E marshal dec c ''PUT'' (''/api/dns/nameservers/'' @ nameserverGroupID) request s"

definition DNS_DeleteNameserverGroup :: "('h, 'w) re_env \<Rightarrow> 'h rest_client \<Rightarrow> string \<Rightarrow> ('h, 'w) rest_done" where
  "DNS_DeleteNameserverGroup E c nameserverGroupID s = request_done E c ''DELETE'' (''/api/dns/nameservers/'' @ nameserverGroupID) s"

definition DNS_GetSettings ::
    "('h, 'w) re_env \<Rightarrow> (json \<Rightarrow> 'a result) \<Rightarrow> 'h rest_client \<Rightarrow> ('h, 'w, 'a) rest_op" where
  "DNS_GetSettings E dec c s = request_value E dec c ''GET'' ''/api/dns/settings'' None [] s"

definition DNS_UpdateSettings ::
    "('h, 'w) re_env \<Rightarrow> ('r \<Rightarrow> string result) \<Rightarrow> (json \<Rightarrow> 'a result) \<Rightarrow> 'h rest_client \<Rightarrow> 'r \<Rightarrow> ('h, 'w, 'a) rest_op" where
  "DNS_UpdateSettings E marshal dec c request s = request_body E marshal dec c ''PUT'' ''/api/dns/settings'' request s"

section \<open>Locations and events\<close>

definition GeoLocation_ListCountries ::
    "('h, 'w) re_env \<Rightarrow> (json \<Rightarrow> 'a result) \<Rightarrow> 'h rest_client \<Rightarrow> ('h, 'w, 'a list option) rest_op" where
  "GeoLocation_ListCountries E dec c s = request_value E (decode_slice dec) c ''GET'' ''/api/locations/countries'' None [] s"

definition GeoLocation_ListCountryCities ::
    "('h, 'w) re_env \<Rightarrow> (json \<Rightarrow> 'a result) \<Rightarrow> 'h rest_client \<Rightarrow> string \<Rightarrow> ('h, 'w, 'a list option) rest_op" where
  "GeoLocation_ListCountryCities E dec c countryCode s = request_value E (decode_slice dec) c ''GET'' (''/api/locations/countries/'' @ countryCode @ ''/cities'') None [] s"

definition Events_List ::
    "('h, 'w) re_env \<Rightarrow> (json \<Rightarrow> 'a result) \<Rightarrow> 'h rest_client \<Rightarrow> ('h, 'w, 'a list option) rest_op" where
  "Events_List E dec c s = request_value E (decode_slice dec) c ''GET'' ''/api/events'' None [] s"

section \<open>What a call sends and returns\<close>

text \<open>The request of a call before impersonation, and the answer to it.\<close>

definition call_request :: "('h, 'w) re_env \<Rightarrow> 'h rest_client \<Rightarrow> string \<Rightarrow> string \<Rightarrow> string option \<Rightarrow> (string \<times> string) list \<Rightarrow> http_request result" where
  "call_request E c method path body query =
     bind_result (re_NewRequestURL E (rc_managementURL c @ path)) (\<lambda>u.
       Inr \<lparr>hr_Method = method, hr_URL = add_query query u, hr_Header = request_header c body, hr_Body = body\<rparr>)"

definition call_answer ::
    "('h, 'w) re_env \<Rightarrow> 'h rest_client \<Rightarrow> string \<Rightarrow> string \<Rightarrow> string option \<Rightarrow> (string \<times> string) list \<Rightarrow> ('h, 'w, http_response) rest_op" where
  "call_answer E c method path body query s =
     (case call_request E c method path body query of
        Inl err \<Rightarrow> (Inl err, s)
      | Inr req \<Rightarrow> http_Do E (rc_httpClient c) req s)"

definition refused :: "http_response \<Rightarrow> bool" where "refused resp \<longleftrightarrow> rp_StatusCode resp > 299"

lemma rest_NewRequest_eq:
  "rest_NewRequest E c method path body query s =
     (case call_answer E c method path body query s of
        (Inl err, s1) \<Rightarrow> (Inl err, s1)
      | (Inr resp, s1) \<Rightarrow>
          (if refused resp then (Inl (case parseResponse (re_decode_error E) resp of Inl e \<Rightarrow> e | Inr m \<Rightarrow> ErrMsg m), s1)
           else (Inr resp, s1)))"
  by (simp add: rest_NewRequest_def call_answer_def call_request_def refused_def Let_def split: sum.splits prod.splits)

lemma http_Do_open:
  "rs_open (snd (http_Do E cl req s)) = rs_open s + (case fst (http_Do E cl req s) of Inr resp \<Rightarrow> if rp_Body resp = None then 0 else 1 | Inl _ \<Rightarrow> 0)"
  by (simp add: http_Do_def plain_Do_def split: http_client.splits sum.splits prod.splits)

lemma call_answer_open:
  "rs_open (snd (call_answer E c m p b q s)) = rs_open s + (case fst (call_answer E c m p b q s) of Inr resp \<Rightarrow> if rp_Body resp = None then 0 else 1 | Inl _ \<Rightarrow> 0)"
  by (simp add: call_answer_def http_Do_open split: sum.splits)

text \<open>How many bodies a call leaves open: the one of a refusal.\<close>

definition leaked :: "http_response result \<Rightarrow> int" where
  "leaked r = (case r of Inr resp \<Rightarrow> if refused resp \<and> rp_Body resp \<noteq> None then 1 else 0 | Inl _ \<Rightarrow> 0)"

lemma rest_NewRequest_open:
  "rs_open (snd (request_value E dec c m p b q s)) = rs_open s + leaked (fst (call_answer E c m p b q s))"
  "rs_open (snd (request_done E c m p s)) = rs_open s + leaked (fst (call_answer E c m p None [] s))"
  using call_answer_open [of E c m p b q s] call_answer_open [of E c m p None "[]" s]
  by (auto simp: request_value_def request_done_def rest_NewRequest_eq leaked_def close_body_def split: prod.splits sum.splits)

text \<open>C23. 
  A call that the service accepts closes the body of its response, whether the body can be decoded or not; a call that the
  service refuses never closes it.
\<close>

theorem refused_call_leaks_body:
  "rs_open (snd (request_value E dec c m p b q s)) = rs_open s + leaked (fst (call_answer E c m p b q s))
   \<and> rs_open (snd (request_done E c m p s)) = rs_open s + leaked (fst (call_answer E c m p None [] s))"
  by (simp add: rest_NewRequest_open)

text \<open>
  What a call does that is not impersonated: it sends one request, to the URL of the client followed by the path, with the token of the client
  and as JSON; a refusal becomes an error with the message of the service, and otherwise the result is the decoded body.
\<close>

theorem rest_call_sends:
  assumes "rc_httpClient c = Plain h" and "re_NewRequestURL E (rc_managementURL c @ p) = Inr u"
    and "re_Do E h \<lparr>hr_Method = m, hr_URL = add_query q u, hr_Header = request_header c b, hr_Body = b\<rparr> (rs_world s) = (r, w)"
    and "request_value E dec c m p b q s = (r', s')"
  shows "rs_sent s' = rs_sent s @ [(h, \<lparr>hr_Method = m, hr_URL = add_query q u, hr_Header = request_header c b, hr_Body = b\<rparr>)]
    \<and> rs_world s' = w \<and> rs_clients s' = rs_clients s
    \<and> r' = bind_result r (\<lambda>resp. if refused resp
               then Inl (case parseResponse (re_decode_error E) resp of Inl e \<Rightarrow> e | Inr msg \<Rightarrow> ErrMsg msg)
               else parseResponse dec resp)"
  using assms
  by (auto simp: request_value_def rest_NewRequest_eq call_answer_def call_request_def http_Do_def plain_Do_def close_body_def
      split: prod.splits sum.splits if_splits)

section \<open>Queries\<close>

lemma fold_Add_cong:
  assumes "mset q = mset q'" and "distinct (map fst q)"
  shows "fold (\<lambda>(k, v). Values_Add k v) q = fold (\<lambda>(k, v). Values_Add k v) q'"
proof (rule fold_multiset_equiv [OF _ assms(1)])
  fix x y assume xy: "x \<in> set q" "y \<in> set q"
  show "(\<lambda>(k, v). Values_Add k v) x \<circ> (\<lambda>(k, v). Values_Add k v) y = (\<lambda>(k, v). Values_Add k v) y \<circ> (\<lambda>(k, v). Values_Add k v) x"
  proof (cases "fst x = fst y")
    case True
    then have "x = y" using assms(2) xy by (metis eq_key_imp_eq_value prod.expand surjective_pairing)
    then show ?thesis by simp
  next
    case False
    then show ?thesis by (auto simp: fun_eq_iff Values_Add_def values_update_commute split: prod.splits)
  qed
qed

lemma request_value_query_cong:
  assumes "mset q = mset q'" and "distinct (map fst q)"
  shows "request_value E dec c m p b q s = request_value E dec c m p b q' s"
proof -
  have "add_query q = add_query q'"
    using assms(1) fold_Add_cong [OF assms] by (auto simp: add_query_def fun_eq_iff)
  then show ?thesis
    by (simp add: request_value_def rest_NewRequest_eq call_answer_def call_request_def)
qed

lemma peers_query_distinct: "distinct (map fst (peers_query opts))"
proof -
  have "distinct (map fst acc) \<Longrightarrow> distinct (map fst (fold (\<lambda>(k, v). AList.update k v) opts acc))" for acc :: "(string \<times> string) list"
    by (induction opts arbitrary: acc) (auto simp: distinct_update)
  then show ?thesis by (simp add: peers_query_def)
qed

lemma peers_query_lookup: "map_of (peers_query opts) = map_of (rev opts)"
proof -
  have "map_of (fold (\<lambda>(k, v). AList.update k v) opts acc) = map_of acc ++ map_of (rev opts)" for acc :: "(string \<times> string) list"
    by (induction opts arbitrary: acc) (auto simp: update_conv' map_add_def fun_eq_iff split: option.splits)
  then show ?thesis by (simp add: peers_query_def)
qed

text \<open>
  Listing the peers with filters sends the last filter of each name, and the request does not depend on the order in which Go
  iterates over the map of filters.
\<close>

theorem Peers_List_any_order:
  assumes "mset q = mset (peers_query opts)"
  shows "Peers_List E dec c opts s = request_value E (decode_slice dec) c ''GET'' ''/api/peers'' None q s
    \<and> map_of q = map_of (rev opts)"
proof -
  have d: "distinct (map fst q)"
    using peers_query_distinct [of opts] assms by (metis mset_eq_imp_distinct_iff mset_map)
  have "map_of q = map_of (peers_query opts)"
    using map_of_eqI [of q "peers_query opts"] d peers_query_distinct mset_eq_setD [OF assms]
    by (metis map_of_inject_set)
  then show ?thesis
    by (simp add: Peers_List_def peers_query_lookup request_value_query_cong [OF assms d])
qed

section \<open>Impersonation\<close>

text \<open>Printing a URL and parsing it again gives it back, also after its query was replaced by an encoded one.\<close>

definition url_laws :: "('h, 'w) re_env \<Rightarrow> bool" where
  "url_laws E \<longleftrightarrow>
     (\<forall>t u q. re_NewRequestURL E t = Inr u \<and> \<not> u_ForceQuery u \<and> (q = u_RawQuery u \<or> (\<exists>v. q = Values_Encode v)) \<longrightarrow>
        re_ParseURL E (url_String (u\<lparr>u_RawQuery := q\<rparr>)) = Inr (u\<lparr>u_RawQuery := q\<rparr>))"

lemma add_query_parses:
  assumes "url_laws E" and "re_NewRequestURL E t = Inr u" and "\<not> u_ForceQuery u"
  shows "re_ParseURL E (url_String (add_query q u)) = Inr (add_query q u)"
proof -
  obtain r where r: "add_query q u = u\<lparr>u_RawQuery := r\<rparr>" "r = u_RawQuery u \<or> (\<exists>v. r = Values_Encode v)"
    by (cases "q = []") (auto simp: add_query_def intro: that [of "u_RawQuery u"])
  then show ?thesis using assms unfolding url_laws_def by auto
qed

lemma add_query_base [simp]: "u_Base (add_query q u) = u_Base u" "u_Fragment (add_query q u) = u_Fragment u"
  by (simp_all add: add_query_def)

text \<open>C32. 
  An impersonated call is the same request to the same place, with the same token and the same query, except that the parameter
  \<open>account\<close> is the impersonated account.
\<close>

theorem impersonated_call_sends:
  assumes "url_laws E" and "rc_httpClient c = Impersonated a" and "rs_clients s ! a = \<lparr>ic_baseClient = h, ic_account = acc\<rparr>"
    and "re_NewRequestURL E (rc_managementURL c @ p) = Inr u" and "\<not> u_ForceQuery u"
    and "request_value E dec c m p b q s = (r, s')"
  shows "\<exists>u'. rs_sent s' = rs_sent s @ [(h, \<lparr>hr_Method = m, hr_URL = u', hr_Header = request_header c b, hr_Body = b\<rparr>)]
    \<and> u_Base u' = u_Base u \<and> u_Fragment u' = u_Fragment u
    \<and> map_of (url_Query (u_RawQuery u')) = (map_of (url_Query (u_RawQuery (add_query q u))))(''account'' \<mapsto> [acc])"
proof -
  define u' where "u' = (add_query q u)\<lparr>u_RawQuery := Values_Encode (Values_Set ''account'' acc (url_Query (u_RawQuery (add_query q u))))\<rparr>"
  have "impersonated_URL E acc (add_query q u) = Inr u'"
    using add_query_parses [OF assms(1,4,5)] by (simp add: impersonated_URL_def u'_def)
  then have "rs_sent s' = rs_sent s @ [(h, \<lparr>hr_Method = m, hr_URL = u', hr_Header = request_header c b, hr_Body = b\<rparr>)]"
    using assms(2-4,6)
    by (auto simp: request_value_def rest_NewRequest_eq call_answer_def call_request_def http_Do_def plain_Do_def close_body_def
        split: prod.splits sum.splits if_splits)
  moreover have "map_of (url_Query (u_RawQuery u')) = (map_of (url_Query (u_RawQuery (add_query q u))))(''account'' \<mapsto> [acc])"
    by (simp add: u'_def Query_Encode Values_Set_def values_update_ok values_update_lookup)
  ultimately show ?thesis
    by (intro exI [of _ u']) (simp add: u'_def)
qed

text \<open>
  Impersonating from a client that already impersonates makes no new HTTP client: the two clients are the same, and the first one acts
  for the second account from then on.
\<close>

theorem second_impersonation_replaces_first:
  assumes "rc_httpClient c = Plain h" and "Impersonate E c first s = (c1, s1)" and "Impersonate E c1 second s1 = (c2, s2)"
  shows "c1 = c2 \<and> rc_httpClient c1 = Impersonated (length (rs_clients s))
    \<and> rs_clients s2 = rs_clients s @ [\<lparr>ic_baseClient = h, ic_account = second\<rparr>]"
  using assms
  by (auto simp: Impersonate_def newImpersonatedHttpClient_def NewWithOptions_def WithManagementURL_def WithAuthHeader_def WithHttpClient_def)

section \<open>Identifiers\<close>

text \<open>
  Identifiers are not escaped: deleting a user whose identifier contains a path deletes a token, and resending an
  invitation can be turned into another request, too.
\<close>

lemma identifiers_are_paths:
  "Users_Delete E c (userID @ ''/tokens/'' @ tokenID) = Tokens_Delete E c userID tokenID"
  "Networks_Delete E c (networkID @ ''/routers/'' @ routerID) = NetworkRouters_Delete E (Networks_Routers c networkID) routerID"
  by (simp_all add: fun_eq_iff Users_Delete_def Tokens_Delete_def Networks_Delete_def NetworkRouters_Delete_def Networks_Routers_def)

section \<open>Histories\<close>

text \<open>The clients of a program and the calls they make, in any order.\<close>

inductive rest_step ::
    "('h, 'w) re_env \<Rightarrow> 'h rest_client list \<times> ('h, 'w) rest_state \<Rightarrow> 'h rest_client list \<times> ('h, 'w) rest_state \<Rightarrow> bool" for E where
  step_New: "rest_step E (cs, s) (NewWithOptions E [WithManagementURL url, WithAuthHeader auth, WithHttpClient (Plain h)] # cs, s)"
| step_Impersonate: "c \<in> set cs \<Longrightarrow> Impersonate E c account s = (c', s') \<Longrightarrow> rest_step E (cs, s) (c' # cs, s')"
| step_value: "c \<in> set cs \<Longrightarrow> request_value E (Inr :: json \<Rightarrow> json result) c m p b q s = (r, s') \<Longrightarrow> rest_step E (cs, s) (cs, s')"
| step_done: "c \<in> set cs \<Longrightarrow> request_done E c m p s = (e, s') \<Longrightarrow> rest_step E (cs, s) (cs, s')"

definition client_ok :: "'h rest_client \<Rightarrow> ('h, 'w) rest_state \<Rightarrow> bool" where
  "client_ok c s = (case rc_httpClient c of Plain h \<Rightarrow> True | Impersonated a \<Rightarrow> a < length (rs_clients s))"

definition sent_by :: "'h rest_client list \<Rightarrow> http_request \<Rightarrow> bool" where
  "sent_by cs req \<longleftrightarrow> (\<exists>c\<in>set cs. hr_Header req = request_header c (hr_Body req))"

definition rest_inv :: "'h rest_client list \<times> ('h, 'w) rest_state \<Rightarrow> bool" where
  "rest_inv x \<longleftrightarrow> (case x of (cs, s) \<Rightarrow>
     (\<forall>c\<in>set cs. client_ok c s) \<and> rs_open s \<ge> 0 \<and> (\<forall>(h, req)\<in>set (rs_sent s). sent_by cs req))"

text \<open>What a call changes: it sends at most one request, with the header of its client, and opens no more bodies than it has to.\<close>

definition rest_framed :: "'h rest_client \<Rightarrow> ('h, 'w) rest_state \<Rightarrow> ('h, 'w) rest_state \<Rightarrow> bool" where
  "rest_framed c s s' \<longleftrightarrow> rs_clients s' = rs_clients s
    \<and> (rs_sent s' = rs_sent s \<or> (\<exists>h req. rs_sent s' = rs_sent s @ [(h, req)] \<and> hr_Header req = request_header c (hr_Body req)))"

lemma call_answer_framed: "call_answer E c m p b q s = (r, s') \<Longrightarrow> rest_framed c s s'"
  by (auto simp: rest_framed_def call_answer_def call_request_def http_Do_def plain_Do_def bind_result_def
      split: sum.splits http_client.splits prod.splits)

lemma rest_NewRequest_framed: "rest_NewRequest E c m p b q s = (r, s') \<Longrightarrow> rest_framed c s s'"
  by (auto simp: rest_NewRequest_eq dest: call_answer_framed split: prod.splits sum.splits if_splits)

lemma close_body_framed: "rest_framed c s (close_body resp t) \<longleftrightarrow> rest_framed c s t"
  by (simp add: rest_framed_def close_body_def)

lemma leaked_nonneg: "0 \<le> leaked r"
  by (simp add: leaked_def split: sum.splits)

lemma request_value_framed:
  assumes "request_value E dec c m p b q s = (r, s')"
  shows "rest_framed c s s'" and "rs_open s \<le> rs_open s'"
  using assms rest_NewRequest_open(1) [of E dec c m p b q s] leaked_nonneg [of "fst (call_answer E c m p b q s)"]
  by (auto simp: request_value_def close_body_framed dest: rest_NewRequest_framed split: prod.splits sum.splits)

lemma request_done_framed:
  assumes "request_done E c m p s = (e, s')"
  shows "rest_framed c s s'" and "rs_open s \<le> rs_open s'"
  using assms rest_NewRequest_open(2) [of E c m p s] leaked_nonneg [of "fst (call_answer E c m p None [] s)"]
  by (auto simp: request_done_def close_body_framed dest: rest_NewRequest_framed split: prod.splits sum.splits)

lemma rest_inv_call:
  "rest_inv (cs, s) \<Longrightarrow> c \<in> set cs \<Longrightarrow> rest_framed c s s' \<Longrightarrow> rs_open s \<le> rs_open s' \<Longrightarrow> rest_inv (cs, s')"
  by (auto simp: rest_inv_def rest_framed_def client_ok_def sent_by_def split: http_client.splits)

lemma rest_inv_step: "rest_step E x y \<Longrightarrow> rest_inv x \<Longrightarrow> rest_inv y"
proof (induction rule: rest_step.induct)
  case (step_Impersonate c cs account s c' s')
  then have "length (rs_clients s) \<le> length (rs_clients s')" "client_ok c' s'" "rs_open s' = rs_open s" "rs_sent s' = rs_sent s"
    by (auto simp: Impersonate_def newImpersonatedHttpClient_def NewWithOptions_def WithManagementURL_def WithAuthHeader_def WithHttpClient_def
        rest_inv_def client_ok_def split: http_client.splits)
  then show ?case
    using step_Impersonate.prems by (fastforce simp: rest_inv_def client_ok_def sent_by_def split: http_client.splits)
next
  case (step_value c cs m p b q s r s')
  then show ?case using rest_inv_call [OF _ _ request_value_framed [OF step_value.hyps(2)]] by blast
next
  case (step_done c cs m p s e s')
  then show ?case using rest_inv_call [OF _ _ request_done_framed [OF step_done.hyps(2)]] by blast
qed (auto simp: rest_inv_def client_ok_def sent_by_def NewWithOptions_def WithHttpClient_def)


section \<open>Collections\<close>

text \<open>
  What a program expects of a collection: what an update returned is what a later retrieval returns, and a deleted object is gone.
\<close>

definition item_id :: "string \<Rightarrow> bool" where
  "item_id i \<longleftrightarrow> i \<noteq> [] \<and> list_all (\<lambda>c. c \<notin> {CHR ''/'', CHR ''?'', CHR ''#'', CHR ''%''}) i"

definition reads_writes ::
    "(string \<Rightarrow> ('h, 'w, 'a) rest_op) \<Rightarrow> (string \<Rightarrow> 'r \<Rightarrow> ('h, 'w, 'a) rest_op) \<Rightarrow> (string \<Rightarrow> ('h, 'w) rest_done) \<Rightarrow> bool" where
  "reads_writes get update delete \<longleftrightarrow>
     (\<forall>i r x s s'. item_id i \<longrightarrow> update i r s = (Inr x, s') \<longrightarrow> (\<exists>s''. get i s' = (Inr x, s'')))
     \<and> (\<forall>i s s'. item_id i \<longrightarrow> delete i s = (None, s') \<longrightarrow> (\<exists>e s''. get i s' = (Inl e, s'')))"

text \<open>
  The service keeps the objects of some collections, under the paths of their identifiers: it returns the text it has, replaces it
  and answers with the new text, removes it, and refuses requests for an object it does not have.
\<close>

definition item_request :: "('h, 'w) re_env \<Rightarrow> 'h rest_client \<Rightarrow> string \<Rightarrow> string \<Rightarrow> string option \<Rightarrow> http_request \<Rightarrow> bool" where
  "item_request E c method path body req \<longleftrightarrow> call_request E c method path body [] = Inr req"

definition refuses :: "('h, 'w) re_env \<Rightarrow> 'h \<Rightarrow> http_request \<Rightarrow> ('w \<Rightarrow> string \<Rightarrow> string option) \<Rightarrow> 'w \<Rightarrow> bool" where
  "refuses E h req objects w \<longleftrightarrow> (\<exists>resp w'. re_Do E h req w = (Inr resp, w') \<and> refused resp \<and> objects w' = objects w)"

definition answers :: "('h, 'w) re_env \<Rightarrow> 'h \<Rightarrow> http_request \<Rightarrow> 'w \<Rightarrow> string \<Rightarrow> 'w \<Rightarrow> bool" where
  "answers E h req w t w' \<longleftrightarrow> re_Do E h req w = (Inr \<lparr>rp_StatusCode = 200, rp_Body = Some (Inr t)\<rparr>, w')"

definition keeps_objects ::
    "('h, 'w) re_env \<Rightarrow> 'h rest_client \<Rightarrow> 'h \<Rightarrow> string set \<Rightarrow> ('w \<Rightarrow> string \<Rightarrow> string option) \<Rightarrow> bool" where
  "keeps_objects E c h bases objects \<longleftrightarrow>
     (\<forall>base\<in>bases. \<forall>i. item_id i \<longrightarrow> (let path = base @ ''/'' @ i in \<forall>w.
        (case objects w path of
           None \<Rightarrow> (\<forall>m\<in>{''GET'', ''PUT'', ''DELETE''}. \<forall>b req. item_request E c m path b req \<longrightarrow> refuses E h req objects w)
         | Some t \<Rightarrow>
             (\<forall>req. item_request E c ''GET'' path None req \<longrightarrow> (\<exists>w'. answers E h req w t w' \<and> objects w' = objects w))
             \<and> (\<forall>b req. item_request E c ''PUT'' path (Some b) req \<longrightarrow> (\<exists>t' w'. answers E h req w t' w' \<and> objects w' = (objects w)(path \<mapsto> t')))
             \<and> (\<forall>req. item_request E c ''DELETE'' path None req \<longrightarrow>
                  (\<exists>resp w'. re_Do E h req w = (Inr resp, w') \<and> \<not> refused resp \<and> objects w' = (objects w)(path := None))))))"

lemma keeps_objectsD:
  assumes "keeps_objects E c h bases objects" and "base \<in> bases" and "item_id i" and "path = base @ ''/'' @ i"
  shows "objects w path = None \<Longrightarrow> m \<in> {''GET'', ''PUT'', ''DELETE''} \<Longrightarrow> item_request E c m path b req \<Longrightarrow> refuses E h req objects w"
    and "objects w path = Some t \<Longrightarrow> item_request E c ''GET'' path None req \<Longrightarrow> \<exists>w'. answers E h req w t w' \<and> objects w' = objects w"
    and "objects w path = Some t \<Longrightarrow> item_request E c ''PUT'' path (Some d) req \<Longrightarrow>
           \<exists>t' w'. answers E h req w t' w' \<and> objects w' = (objects w)(path \<mapsto> t')"
    and "objects w path = Some t \<Longrightarrow> item_request E c ''DELETE'' path None req \<Longrightarrow>
           \<exists>resp w'. re_Do E h req w = (Inr resp, w') \<and> \<not> refused resp \<and> objects w' = (objects w)(path := None)"
proof -
  note laws = assms(1) [unfolded keeps_objects_def Let_def, rule_format, OF assms(2,3), of w, folded assms(4)]
  show "objects w path = None \<Longrightarrow> m \<in> {''GET'', ''PUT'', ''DELETE''} \<Longrightarrow> item_request E c m path b req \<Longrightarrow> refuses E h req objects w"
    using laws by auto
  show "objects w path = Some t \<Longrightarrow> item_request E c ''GET'' path None req \<Longrightarrow> \<exists>w'. answers E h req w t w' \<and> objects w' = objects w"
    using laws by auto
  show "objects w path = Some t \<Longrightarrow> item_request E c ''PUT'' path (Some d) req \<Longrightarrow>
      \<exists>t' w'. answers E h req w t' w' \<and> objects w' = (objects w)(path \<mapsto> t')"
    using laws by auto
  show "objects w path = Some t \<Longrightarrow> item_request E c ''DELETE'' path None req \<Longrightarrow>
      \<exists>resp w'. re_Do E h req w = (Inr resp, w') \<and> \<not> refused resp \<and> objects w' = (objects w)(path := None)"
    using laws by auto
qed

text \<open>The result of a call over an HTTP client that does not impersonate.\<close>

lemma request_value_plain:
  assumes "rc_httpClient c = Plain h"
  shows "request_value E dec c m p b [] s = (r, s') \<Longrightarrow> r = Inr x \<Longrightarrow>
      \<exists>req resp. item_request E c m p b req \<and> re_Do E h req (rs_world s) = (Inr resp, rs_world s') \<and> \<not> refused resp \<and> parseResponse dec resp = Inr x"
    and "item_request E c m p b req \<Longrightarrow> re_Do E h req (rs_world s) = (Inr resp, w) \<Longrightarrow>
      \<exists>s'. request_value E dec c m p b [] s = (if refused resp then Inl (case parseResponse (re_decode_error E) resp of Inl e \<Rightarrow> e | Inr msg \<Rightarrow> ErrMsg msg)
         else parseResponse dec resp, s') \<and> rs_world s' = w"
  using assms
  by (auto simp: request_value_def rest_NewRequest_eq call_answer_def item_request_def http_Do_def plain_Do_def close_body_def
      split: prod.splits sum.splits if_splits)

lemma request_done_plain:
  assumes "rc_httpClient c = Plain h" and "request_done E c m p s = (None, s')"
  shows "\<exists>req resp. item_request E c m p None req \<and> re_Do E h req (rs_world s) = (Inr resp, rs_world s') \<and> \<not> refused resp"
  using assms
  by (auto simp: request_done_def rest_NewRequest_eq call_answer_def item_request_def http_Do_def plain_Do_def close_body_def
      split: prod.splits sum.splits if_splits)

lemma item_request_other: "item_request E c m p b req \<Longrightarrow> \<exists>req'. item_request E c m' p b' req'"
  by (auto simp: item_request_def call_request_def bind_result_Inr_iff)

lemma not_refused_200 [simp]: "\<not> refused \<lparr>rp_StatusCode = 200, rp_Body = b\<rparr>"
  by (simp add: refused_def)

text \<open>The interface of a collection: five operations on two paths.\<close>

locale rest_collection =
  fixes E :: "('h, 'w) re_env" and c :: "'h rest_client" and base :: string
    and encode_new :: "'n \<Rightarrow> string result" and encode :: "'r \<Rightarrow> string result" and decode_new :: "json \<Rightarrow> 'b result" and decode :: "json \<Rightarrow> 'a result"
    and list_all_op :: "('h, 'w, 'a list option) rest_op" and get :: "string \<Rightarrow> ('h, 'w, 'a) rest_op" and create :: "'n \<Rightarrow> ('h, 'w, 'b) rest_op"
    and update :: "string \<Rightarrow> 'r \<Rightarrow> ('h, 'w, 'a) rest_op" and delete :: "string \<Rightarrow> ('h, 'w) rest_done"
  assumes list_eq: "list_all_op s = request_value E (decode_slice decode) c ''GET'' base None [] s"
    and get_eq: "get i s = request_value E decode c ''GET'' (base @ ''/'' @ i) None [] s"
    and create_eq: "create n s = request_body E encode_new decode_new c ''POST'' base n s"
    and update_eq: "update i r s = request_body E encode decode c ''PUT'' (base @ ''/'' @ i) r s"
    and delete_eq: "delete i s = request_done E c ''DELETE'' (base @ ''/'' @ i) s"
begin

lemma get_of:
  assumes "rc_httpClient c = Plain h" and "item_request E c ''GET'' (base @ ''/'' @ i) None req"
    and "re_Do E h req (rs_world s) = (Inr resp, w)"
  shows "\<exists>e s'. get i s = (if refused resp then Inl e else parseResponse decode resp, s')"
  using request_value_plain(2) [OF assms, where dec = decode] by (auto simp: get_eq)

lemma update_of:
  assumes "rc_httpClient c = Plain h" and "update i r s = (Inr x, s')"
  shows "\<exists>d req resp. item_request E c ''PUT'' (base @ ''/'' @ i) (Some d) req \<and> re_Do E h req (rs_world s) = (Inr resp, rs_world s')
    \<and> \<not> refused resp \<and> parseResponse decode resp = Inr x"
proof (cases "encode r")
  case (Inl e)
  then show ?thesis using assms(2) by (simp add: update_eq request_body_def)
next
  case (Inr d)
  then show ?thesis
    using assms(2) request_value_plain(1) [OF assms(1)] by (fastforce simp: update_eq request_body_def)
qed

lemma collection_reads_writes:
  assumes keeps: "keeps_objects E c h bases objects" "base \<in> bases" and plain: "rc_httpClient c = Plain h"
  shows "reads_writes get update delete"
  unfolding reads_writes_def
proof (intro conjI allI impI)
  fix i r x s s' assume i: "item_id i" and u: "update i r s = (Inr x, s')"
  let ?p = "base @ ''/'' @ i"
  note laws = keeps_objectsD [OF keeps i refl]
  obtain d req resp where req: "item_request E c ''PUT'' ?p (Some d) req" "re_Do E h req (rs_world s) = (Inr resp, rs_world s')"
      "\<not> refused resp" "parseResponse decode resp = Inr x"
    using update_of [OF plain u] by blast
  then have "objects (rs_world s) ?p \<noteq> None" using laws(1) [of "rs_world s" "''PUT''"] by (fastforce simp: refuses_def)
  then obtain t' where t': "resp = \<lparr>rp_StatusCode = 200, rp_Body = Some (Inr t')\<rparr>" "objects (rs_world s') ?p = Some t'"
    using laws(3) [of "rs_world s", OF _ req(1)] req(2) by (fastforce simp: answers_def)
  obtain req' where g: "item_request E c ''GET'' ?p None req'" using item_request_other [OF req(1)] by blast
  then obtain w' where "re_Do E h req' (rs_world s') = (Inr resp, w')"
    using laws(2) [OF t'(2) g] t'(1) by (auto simp: answers_def)
  then show "\<exists>s''. get i s' = (Inr x, s'')"
    using get_of [OF plain g] req(3,4) by fastforce
next
  fix i s s' assume i: "item_id i" and d: "delete i s = (None, s')"
  let ?p = "base @ ''/'' @ i"
  note laws = keeps_objectsD [OF keeps i refl]
  obtain req resp where req: "item_request E c ''DELETE'' ?p None req" "re_Do E h req (rs_world s) = (Inr resp, rs_world s')" "\<not> refused resp"
    using request_done_plain [OF plain d [unfolded delete_eq]] by blast
  then have "objects (rs_world s) ?p \<noteq> None" using laws(1) [of "rs_world s" "''DELETE''"] by (fastforce simp: refuses_def)
  then have gone: "objects (rs_world s') ?p = None"
    using laws(4) [of "rs_world s", OF _ req(1)] req(2) by fastforce
  obtain req' where g: "item_request E c ''GET'' ?p None req'" using item_request_other [OF req(1)] by blast
  then obtain resp' w' where "re_Do E h req' (rs_world s') = (Inr resp', w')" "refused resp'"
    using laws(1) [OF gone _ g] by (auto simp: refuses_def)
  then show "\<exists>e s''. get i s' = (Inl e, s'')"
    using get_of [OF plain g] by fastforce
qed

end

interpretation setup_keys: rest_collection E c "''/api/setup-keys''" enc_new enc dec_new dec
    "SetupKeys_List E dec c" "SetupKeys_Get E dec c" "SetupKeys_Create E enc_new dec_new c" "SetupKeys_Update E enc dec c" "SetupKeys_Delete E c"
  for E c enc_new enc dec_new dec
  by unfold_locales (simp_all add: SetupKeys_List_def SetupKeys_Get_def SetupKeys_Create_def SetupKeys_Update_def SetupKeys_Delete_def)

interpretation groups: rest_collection E c "''/api/groups''" enc_new enc dec_new dec
    "Groups_List E dec c" "Groups_Get E dec c" "Groups_Create E enc_new dec_new c" "Groups_Update E enc dec c" "Groups_Delete E c"
  for E c enc_new enc dec_new dec
  by unfold_locales (simp_all add: Groups_List_def Groups_Get_def Groups_Create_def Groups_Update_def Groups_Delete_def)

interpretation policies: rest_collection E c "''/api/policies''" enc_new enc dec_new dec
    "Policies_List E dec c" "Policies_Get E dec c" "Policies_Create E enc_new dec_new c" "Policies_Update E enc dec c" "Policies_Delete E c"
  for E c enc_new enc dec_new dec
  by unfold_locales (simp_all add: Policies_List_def Policies_Get_def Policies_Create_def Policies_Update_def Policies_Delete_def)

interpretation checks: rest_collection E c "''/api/posture-checks''" enc_new enc dec_new dec
    "PostureChecks_List E dec c" "PostureChecks_Get E dec c" "PostureChecks_Create E enc_new dec_new c" "PostureChecks_Update E enc dec c" "PostureChecks_Delete E c"
  for E c enc_new enc dec_new dec
  by unfold_locales (simp_all add: PostureChecks_List_def PostureChecks_Get_def PostureChecks_Create_def PostureChecks_Update_def PostureChecks_Delete_def)

interpretation networks: rest_collection E c "''/api/networks''" enc_new enc dec_new dec
    "Networks_List E dec c" "Networks_Get E dec c" "Networks_Create E enc_new dec_new c" "Networks_Update E enc dec c" "Networks_Delete E c"
  for E c enc_new enc dec_new dec
  by unfold_locales (simp_all add: Networks_List_def Networks_Get_def Networks_Create_def Networks_Update_def Networks_Delete_def)

interpretation routes: rest_collection E c "''/api/routes''" enc_new enc dec_new dec
    "Routes_List E dec c" "Routes_Get E dec c" "Routes_Create E enc_new dec_new c" "Routes_Update E enc dec c" "Routes_Delete E c"
  for E c enc_new enc dec_new dec
  by unfold_locales (simp_all add: Routes_List_def Routes_Get_def Routes_Create_def Routes_Update_def Routes_Delete_def)

interpretation resources: rest_collection E c "''/api/networks/'' @ n @ ''/resources''" enc_new enc dec_new dec
    "NetworkResources_List E dec (Networks_Resources c n)" "NetworkResources_Get E dec (Networks_Resources c n)" "NetworkResources_Create E enc_new dec_new (Networks_Resources c n)" "NetworkResources_Update E enc dec (Networks_Resources c n)" "NetworkResources_Delete E (Networks_Resources c n)"
  for E c n enc_new enc dec_new dec
  by unfold_locales (simp_all add: NetworkResources_List_def NetworkResources_Get_def NetworkResources_Create_def NetworkResources_Update_def NetworkResources_Delete_def Networks_Resources_def Networks_Routers_def)

interpretation routers: rest_collection E c "''/api/networks/'' @ n @ ''/routers''" enc_new enc dec_new dec
    "NetworkRouters_List E dec (Networks_Routers c n)" "NetworkRouters_Get E dec (Networks_Routers c n)" "NetworkRouters_Create E enc_new dec_new (Networks_Routers c n)" "NetworkRouters_Update E enc dec (Networks_Routers c n)" "NetworkRouters_Delete E (Networks_Routers c n)"
  for E c n enc_new enc dec_new dec
  by unfold_locales (simp_all add: NetworkRouters_List_def NetworkRouters_Get_def NetworkRouters_Create_def NetworkRouters_Update_def NetworkRouters_Delete_def Networks_Resources_def Networks_Routers_def)

interpretation nameservers: rest_collection E c "''/api/dns/nameservers''" enc_new enc dec_new dec
    "DNS_ListNameserverGroups E dec c" "DNS_GetNameserverGroup E dec c" "DNS_CreateNameserverGroup E enc_new dec_new c" "DNS_UpdateNameserverGroup E enc dec c" "DNS_DeleteNameserverGroup E c"
  for E c enc_new enc dec_new dec
  by unfold_locales (simp_all add: DNS_ListNameserverGroups_def DNS_GetNameserverGroup_def DNS_CreateNameserverGroup_def DNS_UpdateNameserverGroup_def DNS_DeleteNameserverGroup_def)

definition collection_bases :: "string \<Rightarrow> string set" where
  "collection_bases n =
     {''/api/setup-keys'', ''/api/groups'', ''/api/policies'', ''/api/posture-checks'', ''/api/networks'', ''/api/routes'', ''/api/dns/nameservers'',
      ''/api/networks/'' @ n @ ''/resources'', ''/api/networks/'' @ n @ ''/routers''}"

lemma collection_bases_simps [simp]:
  "''/api/setup-keys'' \<in> collection_bases n" "''/api/groups'' \<in> collection_bases n" "''/api/policies'' \<in> collection_bases n"
  "''/api/posture-checks'' \<in> collection_bases n" "''/api/networks'' \<in> collection_bases n" "''/api/routes'' \<in> collection_bases n"
  "''/api/dns/nameservers'' \<in> collection_bases n" "''/api/networks/'' @ n @ ''/resources'' \<in> collection_bases n"
  "''/api/networks/'' @ n @ ''/routers'' \<in> collection_bases n"
  by (simp_all add: collection_bases_def)


section \<open>Examples\<close>

text \<open>A service whose world is the list of its objects by their URLs.\<close>

definition demo_parse :: "string \<Rightarrow> url result" where
  "demo_parse t =
     (let base = takeWhile (\<lambda>x. x \<noteq> CHR ''?'') t; rest = drop (length base) t in
      if CHR ''#'' \<in> set t then Inl (ErrMsg ''fragment'')
      else Inr \<lparr>u_Base = base, u_RawQuery = tl rest, u_ForceQuery = (rest = ''?''), u_Fragment = []\<rparr>)"

definition demo_serve :: "http_request \<Rightarrow> (string \<times> string) list \<Rightarrow> http_response result \<times> (string \<times> string) list" where
  "demo_serve req w =
     (let p = u_Base (hr_URL req) in
      case map_of w p of
        None \<Rightarrow> (Inr \<lparr>rp_StatusCode = 404, rp_Body = Some (Inr ''[]'')\<rparr>, w)
      | Some t \<Rightarrow>
          (if hr_Method req = ''DELETE'' then (Inr \<lparr>rp_StatusCode = 200, rp_Body = None\<rparr>, AList.delete p w)
           else (case hr_Body req of
                   None \<Rightarrow> (Inr \<lparr>rp_StatusCode = 200, rp_Body = Some (Inr t)\<rparr>, w)
                 | Some b \<Rightarrow> (Inr \<lparr>rp_StatusCode = 200, rp_Body = Some (Inr b)\<rparr>, AList.update p b w))))"

definition demo_re_env :: "(unit, (string \<times> string) list) re_env" where
  "demo_re_env =
     \<lparr>re_DefaultClient = (), re_NewRequestURL = demo_parse, re_ParseURL = demo_parse, re_Do = (\<lambda>h. demo_serve),
      re_decode_error = (\<lambda>j. Inr ''refused'')\<rparr>"

definition demo_client :: "unit rest_client" where
  "demo_client = rest_New demo_re_env ''http://m'' ''token''"

definition demo_rest_state :: "(unit, (string \<times> string) list) rest_state" where
  "demo_rest_state = \<lparr>rs_clients = [], rs_open = 0, rs_sent = [], rs_world = [(''http://m/api/groups/g1'', ''{}''), (''http://m/api/peers'', ''[]'')]\<rparr>"

lemma demo_client_sel: "rc_httpClient demo_client = Plain ()" "rc_managementURL demo_client = ''http://m''"
  by (simp_all add: demo_client_def rest_New_def NewWithOptions_def WithManagementURL_def WithPAT_def WithAuthHeader_def demo_re_env_def)

lemma demo_url_laws: "url_laws demo_re_env"
  unfolding url_laws_def
proof (intro allI impI, elim conjE)
  fix t u q assume u: "re_NewRequestURL demo_re_env t = Inr u" "\<not> u_ForceQuery u" "q = u_RawQuery u \<or> (\<exists>v. q = Values_Encode v)"
  have p: "demo_parse t = Inr u" using u(1) by (simp add: demo_re_env_def)
  have nq: "CHR ''?'' \<notin> set (u_Base u)"
    using p by (auto simp: demo_parse_def Let_def dest: set_takeWhileD split: if_splits)
  then have tw: "takeWhile (\<lambda>x. x \<noteq> CHR ''?'') (u_Base u) = u_Base u" by (auto simp: takeWhile_eq_all_conv)
  have base: "CHR ''#'' \<notin> set (u_Base u)" "u_Fragment u = []"
    using p by (auto simp: demo_parse_def Let_def dest: set_takeWhileD split: if_splits)
  have "u_RawQuery u = drop (Suc (length (u_Base u))) t \<and> CHR ''#'' \<notin> set t"
    using p by (auto simp: demo_parse_def Let_def drop_Suc tl_drop split: if_splits)
  then have "CHR ''#'' \<notin> set (u_RawQuery u)"
    using set_drop_subset by fastforce
  then have q: "CHR ''#'' \<notin> set q" using u(3) Encode_plain by auto
  show "re_ParseURL demo_re_env (url_String (u\<lparr>u_RawQuery := q\<rparr>)) = Inr (u\<lparr>u_RawQuery := q\<rparr>)"
    using nq base q u(2)
    by (cases "q = []") (simp_all add: demo_re_env_def demo_parse_def url_String_def Let_def takeWhile_dropWhile_notin tw)
qed

lemma demo_parse_plain: "CHR ''?'' \<notin> set t \<Longrightarrow> demo_parse t = Inr u \<Longrightarrow> u_Base u = t"
  by (auto simp: demo_parse_def Let_def takeWhile_eq_all_conv split: if_splits)

lemma demo_item_request:
  assumes "item_request demo_re_env demo_client m path b req" and "CHR ''?'' \<notin> set path"
  shows "u_Base (hr_URL req) = ''http://m'' @ path \<and> hr_Method req = m \<and> hr_Body req = b"
proof -
  obtain u where u: "demo_parse (''http://m'' @ path) = Inr u"
      "req = \<lparr>hr_Method = m, hr_URL = add_query [] u, hr_Header = request_header demo_client b, hr_Body = b\<rparr>"
    using assms(1) unfolding item_request_def call_request_def bind_result_Inr_iff demo_client_sel by (auto simp: demo_re_env_def)
  moreover have "CHR ''?'' \<notin> set (''http://m'' @ path)" using assms(2) by simp
  ultimately have "u_Base u = ''http://m'' @ path" using demo_parse_plain by blast
  then show ?thesis using u(2) by (simp add: add_query_def)
qed

lemma demo_keeps_objects:
  "keeps_objects demo_re_env demo_client () (collection_bases ''n'') (\<lambda>w p. map_of w (''http://m'' @ p))"
proof -
  have "CHR ''?'' \<notin> set base" if "base \<in> collection_bases ''n''" for base
    using that unfolding collection_bases_def by (elim insertE emptyE) simp_all
  then have "CHR ''?'' \<notin> set (base @ ''/'' @ i)" if "base \<in> collection_bases ''n''" "item_id i" for base i
    using that by (auto simp: item_id_def list_all_iff)
  note r = demo_item_request [OF _ this]
  show ?thesis
    unfolding keeps_objects_def Let_def
  proof (intro ballI allI impI)
    fix base i w assume i: "base \<in> collection_bases ''n''" "item_id i"
    let ?p = "base @ ''/'' @ i"
    have s: "re_Do demo_re_env () req w = demo_serve req w" for req by (simp add: demo_re_env_def)
    show "case map_of w (''http://m'' @ ?p) of
         None \<Rightarrow> (\<forall>m\<in>{''GET'', ''PUT'', ''DELETE''}. \<forall>b req. item_request demo_re_env demo_client m ?p b req \<longrightarrow>
            refuses demo_re_env () req (\<lambda>w p. map_of w (''http://m'' @ p)) w)
       | Some t \<Rightarrow>
           (\<forall>req. item_request demo_re_env demo_client ''GET'' ?p None req \<longrightarrow>
              (\<exists>w'. answers demo_re_env () req w t w' \<and> (\<lambda>p. map_of w' (''http://m'' @ p)) = (\<lambda>p. map_of w (''http://m'' @ p))))
           \<and> (\<forall>b req. item_request demo_re_env demo_client ''PUT'' ?p (Some b) req \<longrightarrow>
              (\<exists>t' w'. answers demo_re_env () req w t' w' \<and> (\<lambda>p. map_of w' (''http://m'' @ p)) = (\<lambda>p. map_of w (''http://m'' @ p))(?p \<mapsto> t')))
           \<and> (\<forall>req. item_request demo_re_env demo_client ''DELETE'' ?p None req \<longrightarrow>
              (\<exists>resp w'. re_Do demo_re_env () req w = (Inr resp, w') \<and> \<not> refused resp
                \<and> (\<lambda>p. map_of w' (''http://m'' @ p)) = (\<lambda>p. map_of w (''http://m'' @ p))(?p := None)))"
      using r [OF _ i]
      by (auto simp: refuses_def answers_def s demo_serve_def refused_def Let_def fun_eq_iff update_conv' delete_conv' split: option.splits)
  qed
qed


theorem rest_call_sends_witness:
  "map (hr_Method \<circ> snd) (rs_sent (snd (request_value demo_re_env (Inr :: json \<Rightarrow> json result) demo_client ''GET'' ''/api/peers'' None [(''name'', ''a b'')] demo_rest_state)))
     = [''GET'']"
proof -
  let ?q = "[(''name'', ''a b'')]" and ?u = "\<lparr>u_Base = ''http://m/api/peers'', u_RawQuery = [], u_ForceQuery = False, u_Fragment = []\<rparr>"
  let ?run = "request_value demo_re_env (Inr :: json \<Rightarrow> json result) demo_client ''GET'' ''/api/peers'' None ?q demo_rest_state"
  have u: "re_NewRequestURL demo_re_env (rc_managementURL demo_client @ ''/api/peers'') = Inr ?u" by code_simp
  obtain r w where d: "re_Do demo_re_env () \<lparr>hr_Method = ''GET'', hr_URL = add_query ?q ?u, hr_Header = request_header demo_client None, hr_Body = None\<rparr>
      (rs_world demo_rest_state) = (r, w)" by fastforce
  obtain r' s' where run: "?run = (r', s')" by fastforce
  show ?thesis
    unfolding run using rest_call_sends [OF demo_client_sel(1) u d run] by (simp add: demo_rest_state_def)
qed

theorem Peers_List_any_order_witness:
  "Peers_List demo_re_env (Inr :: json \<Rightarrow> json result) demo_client [PeerNameFilter ''a'', PeerIPFilter ''b''] demo_rest_state
     = request_value demo_re_env (decode_slice Inr) demo_client ''GET'' ''/api/peers'' None [PeerIPFilter ''b'', PeerNameFilter ''a''] demo_rest_state"
  using Peers_List_any_order [of "[PeerIPFilter ''b'', PeerNameFilter ''a'']" "[PeerNameFilter ''a'', PeerIPFilter ''b'']"]
  by (simp add: peers_query_def PeerNameFilter_def PeerIPFilter_def)

theorem impersonated_call_sends_witness:
  "\<exists>s c u'. Impersonate demo_re_env demo_client ''acc'' demo_rest_state = (c, s)
     \<and> rs_sent (snd (request_value demo_re_env (Inr :: json \<Rightarrow> json result) c ''GET'' ''/api/peers'' None [] s))
        = [((), \<lparr>hr_Method = ''GET'', hr_URL = u', hr_Header = request_header demo_client None, hr_Body = None\<rparr>)]
     \<and> map_of (url_Query (u_RawQuery u')) ''account'' = Some [''acc'']"
proof -
  obtain c s where i: "Impersonate demo_re_env demo_client ''acc'' demo_rest_state = (c, s)" by fastforce
  have c: "rc_httpClient c = Impersonated 0" "rs_clients s ! 0 = \<lparr>ic_baseClient = (), ic_account = ''acc''\<rparr>" "rs_sent s = []"
      "rc_managementURL c = ''http://m''" "request_header c None = request_header demo_client None"
    using i by (auto simp: Impersonate_def newImpersonatedHttpClient_def demo_client_sel demo_rest_state_def NewWithOptions_def WithManagementURL_def
        WithAuthHeader_def WithHttpClient_def request_header_def)
  let ?u = "\<lparr>u_Base = ''http://m/api/peers'', u_RawQuery = [], u_ForceQuery = False, u_Fragment = []\<rparr>"
  have u: "re_NewRequestURL demo_re_env (rc_managementURL c @ ''/api/peers'') = Inr ?u" unfolding c by code_simp
  obtain r' s' where run: "request_value demo_re_env (Inr :: json \<Rightarrow> json result) c ''GET'' ''/api/peers'' None [] s = (r', s')" by fastforce
  have "\<not> u_ForceQuery ?u" by simp
  from impersonated_call_sends [OF demo_url_laws c(1,2) u this run] obtain u'
    where "rs_sent s' = rs_sent s @ [((), \<lparr>hr_Method = ''GET'', hr_URL = u', hr_Header = request_header c None, hr_Body = None\<rparr>)]"
      "map_of (url_Query (u_RawQuery u')) = (map_of (url_Query (u_RawQuery (add_query [] ?u))))(''account'' \<mapsto> [''acc''])"
    by blast
  then have "rs_sent s' = [((), \<lparr>hr_Method = ''GET'', hr_URL = u', hr_Header = request_header demo_client None, hr_Body = None\<rparr>)]"
      "map_of (url_Query (u_RawQuery u')) ''account'' = Some [''acc'']"
    by (simp_all only: c(3,5) append_Nil fun_upd_same)
  then show ?thesis
    using i by (intro exI [of _ s] exI [of _ c] exI [of _ u'] conjI) (simp_all only: run snd_conv)
qed

theorem second_impersonation_replaces_first_witness:
  "case Impersonate demo_re_env demo_client ''a'' demo_rest_state of (c1, s1) \<Rightarrow>
     case Impersonate demo_re_env c1 ''b'' s1 of (c2, s2) \<Rightarrow> c1 = c2 \<and> map ic_account (rs_clients s2) = [''b'']"
proof -
  obtain c1 s1 where i1: "Impersonate demo_re_env demo_client ''a'' demo_rest_state = (c1, s1)" by fastforce
  obtain c2 s2 where i2: "Impersonate demo_re_env c1 ''b'' s1 = (c2, s2)" by fastforce
  have "rs_clients demo_rest_state = []" by (simp add: demo_rest_state_def)
  with second_impersonation_replaces_first [OF demo_client_sel(1) i1 i2]
  have "c1 = c2 \<and> map ic_account (rs_clients s2) = [''b'']" by simp
  then show ?thesis unfolding i1 prod.case i2 .
qed


end
