(* ===== verification/Uapi_Socket.thy ===== *)
theory Uapi_Socket
  imports Wg_Iface
begin

text \<open>
  The UAPI socket of the userspace configurer, through which tools such as \<^verbatim>\<open>wg\<close> talk to the device: \<^verbatim>\<open>configurer/uapi.go\<close>,
  \<^verbatim>\<open>uapi_windows.go\<close> and \<^verbatim>\<open>uapi_js.go\<close>, of which the build takes one, and \<^verbatim>\<open>startUAPI\<close> and \<^verbatim>\<open>Close\<close> of \<^verbatim>\<open>usp.go\<close>. The accessors of the
  interface object that only read the tunnel device stand at the end.

  The sockets are the fields of \<open>ua_env\<close>. The goroutine that accepts connections is the loop \<open>accept_loop\<close>; it returns the connections it
  handed to the device, and is \<open>None\<close> when \<^verbatim>\<open>Accept\<close> never fails. \<^verbatim>\<open>NewUSPConfigurer\<close> calls \<^verbatim>\<open>startUAPI\<close> at its end; the
  functions of the configurer it returns are those of \<open>Wg_Iface\<close>.
\<close>

section \<open>Opening and closing\<close>

datatype listener = Noop | Listener nat

datatype platform = Unix | Windows | Js

record ('c, 'w) ua_env =
  ua_GOOS :: string
  ua_UAPIOpen :: "string \<Rightarrow> 'w \<Rightarrow> nat result \<times> 'w"
  ua_UAPIListen :: "string \<Rightarrow> nat \<Rightarrow> 'w \<Rightarrow> nat result \<times> 'w"
  ua_PipeListen :: "string \<Rightarrow> 'w \<Rightarrow> nat result \<times> 'w"
  ua_Accept :: "nat \<Rightarrow> 'w \<Rightarrow> 'c result \<times> 'w"
  ua_ListenerClose :: "nat \<Rightarrow> 'w \<Rightarrow> go_error option \<times> 'w"
  ua_Stat :: "string \<Rightarrow> 'w \<Rightarrow> go_error option"
  ua_Remove :: "string \<Rightarrow> 'w \<Rightarrow> 'w"

definition net_ErrClosed :: go_error where "net_ErrClosed = ErrSentinel ''net.ErrClosed''"

definition openUAPI_unix :: "('c, 'w) ua_env \<Rightarrow> string \<Rightarrow> 'w \<Rightarrow> listener result \<times> 'w" where
  "openUAPI_unix E deviceName w =
     (case ua_UAPIOpen E deviceName w of
        (Inl err, w1) \<Rightarrow> (Inl err, w1)
      | (Inr uapiSock, w1) \<Rightarrow>
        (case ua_UAPIListen E deviceName uapiSock w1 of
           (Inl err, w2) \<Rightarrow> (Inl err, w2)
         | (Inr l, w2) \<Rightarrow> (Inr (Listener l), w2)))"

definition openUAPI_windows :: "('c, 'w) ua_env \<Rightarrow> string \<Rightarrow> 'w \<Rightarrow> listener result \<times> 'w" where
  "openUAPI_windows E deviceName w = (case ua_PipeListen E deviceName w of (r, w1) \<Rightarrow> (map_sum id Listener r, w1))"

definition openUAPI_js :: "string \<Rightarrow> 'w \<Rightarrow> listener result \<times> 'w" where
  "openUAPI_js deviceName w = (Inr Noop, w)"

definition openUAPI :: "platform \<Rightarrow> ('c, 'w) ua_env \<Rightarrow> string \<Rightarrow> 'w \<Rightarrow> listener result \<times> 'w" where
  "openUAPI b E deviceName w =
     (case b of Unix \<Rightarrow> openUAPI_unix E deviceName w | Windows \<Rightarrow> openUAPI_windows E deviceName w | Js \<Rightarrow> openUAPI_js deviceName w)"

definition listener_Accept :: "('c, 'w) ua_env \<Rightarrow> listener \<Rightarrow> 'w \<Rightarrow> 'c result \<times> 'w" where
  "listener_Accept E l w = (case l of Noop \<Rightarrow> (Inl net_ErrClosed, w) | Listener n \<Rightarrow> ua_Accept E n w)"

definition listener_Close :: "('c, 'w) ua_env \<Rightarrow> listener \<Rightarrow> 'w \<Rightarrow> go_error option \<times> 'w" where
  "listener_Close E l w = (case l of Noop \<Rightarrow> (None, w) | Listener n \<Rightarrow> ua_ListenerClose E n w)"

text \<open>\<^verbatim>\<open>startUAPI\<close>: the listener it stores, nil after an error, is the one the accepting goroutine is started with.\<close>

definition startUAPI :: "platform \<Rightarrow> ('c, 'w) ua_env \<Rightarrow> string \<Rightarrow> 'w \<Rightarrow> listener option \<times> 'w" where
  "startUAPI b E deviceName w =
     (case openUAPI b E deviceName w of
        (Inl err, w1) \<Rightarrow> (None, w1)
      | (Inr l, w1) \<Rightarrow> (Some l, w1))"

partial_function (option) accept_loop :: "('c, 'w) ua_env \<Rightarrow> listener \<Rightarrow> 'c list \<Rightarrow> 'w \<Rightarrow> ('c list \<times> 'w) option" where
  "accept_loop E uapi handled w =
     (case listener_Accept E uapi w of
        (Inl err, w1) \<Rightarrow> Some (handled, w1)
      | (Inr conn, w1) \<Rightarrow> accept_loop E uapi (handled @ [conn]) w1)"

definition sock_path :: "string \<Rightarrow> string" where
  "sock_path deviceName = ''/var/run/wireguard/'' @ deviceName @ ''.sock''"

definition usp_Close :: "('c, 'w) ua_env \<Rightarrow> string \<Rightarrow> listener option \<Rightarrow> 'w \<Rightarrow> 'w" where
  "usp_Close E deviceName uapiListener w =
     (let w1 = (case uapiListener of None \<Rightarrow> w | Some l \<Rightarrow> snd (listener_Close E l w)) in
      if ua_GOOS E = ''linux'' \<and> ua_Stat E (sock_path deviceName) w1 = None then ua_Remove E (sock_path deviceName) w1
      else w1)"

section \<open>The accepting goroutine\<close>

text \<open>\<open>accepts E l w cs w'\<close>: from \<open>w\<close> the listener returns the connections \<open>cs\<close> one after the other.\<close>

fun accepts :: "('c, 'w) ua_env \<Rightarrow> listener \<Rightarrow> 'w \<Rightarrow> 'c list \<Rightarrow> 'w \<Rightarrow> bool" where
  "accepts E l w [] w' = (w' = w)"
| "accepts E l w (c # cs) w' = (\<exists>w1. listener_Accept E l w = (Inr c, w1) \<and> accepts E l w1 cs w')"

lemma accept_loop_complete:
  "accepts E l w cs w1 \<Longrightarrow> listener_Accept E l w1 = (Inl err, w') \<Longrightarrow> accept_loop E l hs w = Some (hs @ cs, w')"
proof (induction cs arbitrary: w hs)
  case Nil
  then show ?case by (subst accept_loop.simps) simp
next
  case (Cons c cs)
  then show ?case by (subst accept_loop.simps) auto
qed

lemma accept_loop_sound:
  "accept_loop E l hs w = Some y \<Longrightarrow> \<exists>cs err w1. fst y = hs @ cs \<and> accepts E l w cs w1 \<and> listener_Accept E l w1 = (Inl err, snd y)"
proof (erule accept_loop.raw_induct [where P = "\<lambda>E l hs w y. \<exists>cs err w1. fst y = hs @ cs \<and> accepts E l w cs w1 \<and> listener_Accept E l w1 = (Inl err, snd y)", rotated])
  fix loop :: "('a, 'b) ua_env \<Rightarrow> listener \<Rightarrow> 'a list \<Rightarrow> 'b \<Rightarrow> ('a list \<times> 'b) option" and E l hs w y
  assume IH: "\<And>E l hs w y. loop E l hs w = Some y \<Longrightarrow> \<exists>cs err w1. fst y = hs @ cs \<and> accepts E l w cs w1 \<and> listener_Accept E l w1 = (Inl err, snd y)"
    and step: "(case listener_Accept E l w of (Inl err, w1) \<Rightarrow> Some (hs, w1) | (Inr conn, w1) \<Rightarrow> loop E l (hs @ [conn]) w1) = Some y"
  show "\<exists>cs err w1. fst y = hs @ cs \<and> accepts E l w cs w1 \<and> listener_Accept E l w1 = (Inl err, snd y)"
  proof (cases "listener_Accept E l w")
    case (Pair r w1)
    show ?thesis
    proof (cases r)
      case (Inl err)
      then show ?thesis using step Pair by (intro exI [of _ "[]"]) auto
    next
      case (Inr conn)
      then obtain cs err w2 where "fst y = (hs @ [conn]) @ cs" "accepts E l w1 cs w2" "listener_Accept E l w2 = (Inl err, snd y)"
        using IH [of E l "hs @ [conn]" w1 y] step Pair by auto
      then show ?thesis using Pair Inr by (intro exI [of _ "conn # cs"]) auto
    qed
  qed
qed

text \<open>
  The goroutine ends exactly when \<^verbatim>\<open>Accept\<close> fails, and it has handed every connection it accepted before to the device, in order;
  with the listener of the browser build it ends at once.
\<close>

theorem accept_loop_iff:
  "(accept_loop E l hs w = Some (hs', w') \<longleftrightarrow>
      (\<exists>cs err w1. hs' = hs @ cs \<and> accepts E l w cs w1 \<and> listener_Accept E l w1 = (Inl err, w')))
   \<and> accept_loop E Noop hs w = Some (hs, w)"
proof
  show "accept_loop E l hs w = Some (hs', w') \<longleftrightarrow>
      (\<exists>cs err w1. hs' = hs @ cs \<and> accepts E l w cs w1 \<and> listener_Accept E l w1 = (Inl err, w'))"
    using accept_loop_complete accept_loop_sound [of E l hs w "(hs', w')"] by auto
  show "accept_loop E Noop hs w = Some (hs, w)"
    by (subst accept_loop.simps) (simp add: listener_Accept_def)
qed

section \<open>Starting and closing\<close>

text \<open>
  What is known of the sockets: \<open>live\<close> is the set of the open listeners of a state, \<open>file\<close> says whether a path exists. Listening adds a
  listener, closing one removes it, and removing a file removes it.
\<close>

definition socket_laws :: "('c, 'w) ua_env \<Rightarrow> ('w \<Rightarrow> nat set) \<Rightarrow> ('w \<Rightarrow> string \<Rightarrow> bool) \<Rightarrow> bool" where
  "socket_laws E live file \<longleftrightarrow>
     (\<forall>d w. live (snd (ua_UAPIOpen E d w)) = live w)
     \<and> (\<forall>d f w. case ua_UAPIListen E d f w of (Inl e, w') \<Rightarrow> live w' = live w | (Inr l, w') \<Rightarrow> live w' = insert l (live w) \<and> l \<notin> live w)
     \<and> (\<forall>d w. case ua_PipeListen E d w of (Inl e, w') \<Rightarrow> live w' = live w | (Inr l, w') \<Rightarrow> live w' = insert l (live w) \<and> l \<notin> live w)
     \<and> (\<forall>l w. live (snd (ua_ListenerClose E l w)) = live w - {l})
     \<and> (\<forall>p w. ua_Stat E p w = None \<longleftrightarrow> file w p)
     \<and> (\<forall>p w. live (ua_Remove E p w) = live w \<and> file (ua_Remove E p w) = (file w)(p := False))"

lemma openUAPI_live:
  assumes "socket_laws E live file" and "openUAPI b E d w = (r, w')"
  shows "live w' = live w \<union> (case r of Inr (Listener l) \<Rightarrow> {l} | _ \<Rightarrow> {}) \<and> (\<forall>l. r = Inr (Listener l) \<longrightarrow> l \<notin> live w)"
proof -
  note laws = assms(1) [unfolded socket_laws_def]
  have listen: "case ua_UAPIListen E d f v of (Inl e, w') \<Rightarrow> live w' = live v | (Inr l, w') \<Rightarrow> live w' = insert l (live v) \<and> l \<notin> live v"
    and pipe: "case ua_PipeListen E d v of (Inl e, w') \<Rightarrow> live w' = live v | (Inr l, w') \<Rightarrow> live w' = insert l (live v) \<and> l \<notin> live v"
    and opened: "live (snd (ua_UAPIOpen E d v)) = live v" for f v
    by (rule laws [THEN conjunct2, THEN conjunct1, rule_format] laws [THEN conjunct2, THEN conjunct2, THEN conjunct1, rule_format]
        laws [THEN conjunct1, rule_format])+
  show ?thesis
  proof (cases b)
    case Unix
    obtain a w1 where o: "ua_UAPIOpen E d w = (a, w1)" by fastforce
    then have l1: "live w1 = live w" using opened [where v = w] by simp
    show ?thesis
    proof (cases a)
      case (Inl e)
      then have "r = Inl e" "w' = w1" using assms(2) Unix o by (simp_all add: openUAPI_def openUAPI_unix_def)
      then show ?thesis using l1 by simp
    next
      case (Inr f)
      obtain x w2 where x: "ua_UAPIListen E d f w1 = (x, w2)" by fastforce
      then have "r = map_sum id Listener x" "w' = w2"
        using assms(2) Unix o Inr by (cases x; simp add: openUAPI_def openUAPI_unix_def)+
      then show ?thesis using listen [where f = f and v = w1] x l1 by (cases x) simp_all
    qed
  next
    case Windows
    obtain a w1 where a: "ua_PipeListen E d w = (a, w1)" by fastforce
    then have "r = map_sum id Listener a" "w' = w1" using assms(2) Windows by (simp_all add: openUAPI_def openUAPI_windows_def)
    then show ?thesis using pipe [where v = w] a by (cases a) simp_all
  next
    case Js
    then have "r = Inr Noop" "w' = w" using assms(2) by (simp_all add: openUAPI_def openUAPI_js_def)
    then show ?thesis by simp
  qed
qed

text \<open>
  Starting and closing the socket leaves the listeners that were open before, also when the socket could not be opened, and on
  Linux no socket file; only the goroutine and other programs can change the sockets in between.
\<close>

theorem uapi_start_close:
  assumes "socket_laws E live file" and "startUAPI b E d w = (l, w1)"
  shows "live (usp_Close E d l w1) = live w \<and> (ua_GOOS E = ''linux'' \<longrightarrow> \<not> file (usp_Close E d l w1) (sock_path d))"
proof -
  note laws = assms(1) [unfolded socket_laws_def]
  obtain r where o: "openUAPI b E d w = (r, w1)" and l: "l = (case r of Inl e \<Rightarrow> None | Inr x \<Rightarrow> Some x)"
    using assms(2) by (auto simp: startUAPI_def split: prod.splits sum.splits)
  define w2 where "w2 = (case l of None \<Rightarrow> w1 | Some x \<Rightarrow> snd (listener_Close E x w1))"
  have closed: "live (snd (ua_ListenerClose E n w1)) = live w1 - {n}" for n by (simp add: laws)
  have "live w2 = live w"
  proof (cases r)
    case (Inl e)
    then show ?thesis using openUAPI_live [OF assms(1) o] l by (simp add: w2_def)
  next
    case (Inr x)
    then show ?thesis using openUAPI_live [OF assms(1) o] l closed by (cases x) (simp_all add: w2_def listener_Close_def)
  qed
  moreover have "live (ua_Remove E p w2) = live w2" "file (ua_Remove E p w2) = (file w2)(p := False)" "ua_Stat E p w2 = None \<longleftrightarrow> file w2 p" for p
    by (simp_all add: laws)
  ultimately show ?thesis by (auto simp: usp_Close_def w2_def [symmetric] Let_def)
qed

section \<open>Accessors of the interface\<close>

definition iface_Name :: "('w, 'f) tun_env \<Rightarrow> string" where "iface_Name T = tun_DeviceName T"

definition iface_Address :: "('w, 'f) tun_env \<Rightarrow> 'w \<Rightarrow> wg_address" where "iface_Address T w = tun_WgAddress T w"

definition iface_MTU :: "('w, 'f) tun_env \<Rightarrow> 'w \<Rightarrow> 16 word" where "iface_MTU T w = tun_MTU T w"

definition IsUserspaceBind :: "('w, 'f) wgiface \<Rightarrow> bool" where "IsUserspaceBind i = if_userspaceBind i"

record net_interface =
  ni_Index :: int
  ni_Name :: string

text \<open>An interface the system does not know is replaced by one that has the name only.\<close>

definition ToInterface :: "('w, 'f) tun_env \<Rightarrow> (string \<Rightarrow> 'w \<Rightarrow> net_interface result) \<Rightarrow> 'w \<Rightarrow> net_interface" where
  "ToInterface T byName w =
     (case byName (tun_DeviceName T) w of Inl err \<Rightarrow> \<lparr>ni_Index = 0, ni_Name = tun_DeviceName T\<rparr> | Inr intf \<Rightarrow> intf)"

section \<open>Examples\<close>

text \<open>A world that is the list of open listeners and the list of socket files.\<close>

definition demo_ua_env :: "(nat, nat list \<times> string list) ua_env" where
  "demo_ua_env =
     \<lparr>ua_GOOS = ''linux'', ua_UAPIOpen = (\<lambda>d (ls, fs). (Inr 3, (ls, sock_path d # fs))),
      ua_UAPIListen = (\<lambda>d f (ls, fs). (Inr (Suc (sum_list ls)), (Suc (sum_list ls) # ls, fs))),
      ua_PipeListen = (\<lambda>d w. (Inl net_ErrClosed, w)),
      ua_Accept = (\<lambda>l (ls, fs). if l \<in> set ls then (Inr l, (removeAll l ls, fs)) else (Inl net_ErrClosed, (ls, fs))),
      ua_ListenerClose = (\<lambda>l (ls, fs). (None, (removeAll l ls, fs))),
      ua_Stat = (\<lambda>p (ls, fs). if p \<in> set fs then None else Some (ErrSys ENOENT)),
      ua_Remove = (\<lambda>p (ls, fs). (ls, removeAll p fs))\<rparr>"

lemma demo_socket_laws: "socket_laws demo_ua_env (\<lambda>(ls, fs). set ls) (\<lambda>(ls, fs) p. p \<in> set fs)"
proof -
  have "Suc (sum_list ls) \<notin> set ls" for ls :: "nat list" using member_le_sum_list by fastforce
  then show ?thesis by (auto simp: socket_laws_def demo_ua_env_def fun_eq_iff)
qed

theorem uapi_start_close_witness:
  "case startUAPI Unix demo_ua_env ''wt0'' ([5], []) of (l, w1) \<Rightarrow> l = Some (Listener 6) \<and> set (fst (usp_Close demo_ua_env ''wt0'' l w1)) = {5}"
proof -
  obtain l w1 where s: "startUAPI Unix demo_ua_env ''wt0'' ([5], []) = (l, w1)" by (rule prod.exhaust)
  then have "l = Some (Listener 6)" by (auto simp: startUAPI_def openUAPI_def openUAPI_unix_def demo_ua_env_def)
  then show ?thesis using uapi_start_close [OF demo_socket_laws s] s by (simp add: case_prod_beta)
qed

end
