(* ===== verification/Wg_Device.thy ===== *)
theory Wg_Device
  imports Wg_Iface
begin

text \<open>
  What the configurers do to a WireGuard device. The device itself is outside the repository; this theory
  states its documented behaviour twice, once for each way the program talks to it, on the device states
  \<open>uapi_dev\<close> of the userspace configurer's theory:

  \<^item> \<open>uapi_set\<close> executes the text of a \<^verbatim>\<open>set\<close> operation of the cross-platform userspace protocol line by line;
  \<^item> \<open>dev_apply_config\<close> applies a \<^verbatim>\<open>wgtypes.Config\<close>, as \<^verbatim>\<open>wgctrl\<close> documents its fields.

  The abstract specification \<open>dev_op\<close> says in one line per operation what a configurer promises. The theorems:
  the text the userspace configurer writes has the effect of the configuration it was written from, both
  configurers implement \<open>dev_op\<close> on any sequence of operations, and every operation keeps the device well formed.
\<close>

section \<open>Device states\<close>

definition dev_keys :: "uapi_dev \<Rightarrow> wgkey list" where
  "dev_keys d = map up_key (ud_peers d)"

definition fresh_peer :: "wgkey \<Rightarrow> uapi_peer" where
  "fresh_peer k = \<lparr>up_key = k, up_psk = replicate 32 0, up_endpoint = None, up_hs_sec = 0, up_hs_nsec = 0,
     up_tx = 0, up_rx = 0, up_keepalive = 0, up_allowed = []\<rparr>"

definition upd_peer :: "wgkey \<Rightarrow> (uapi_peer \<Rightarrow> uapi_peer) \<Rightarrow> uapi_dev \<Rightarrow> uapi_dev" where
  "upd_peer k f d = d\<lparr>ud_peers := map (\<lambda>p. if up_key p = k then f p else p) (ud_peers d)\<rparr>"

definition ensure_peer :: "wgkey \<Rightarrow> uapi_dev \<Rightarrow> uapi_dev" where
  "ensure_peer k d = (if k \<in> set (dev_keys d) then d else d\<lparr>ud_peers := ud_peers d @ [fresh_peer k]\<rparr>)"

definition drop_peer :: "wgkey \<Rightarrow> uapi_dev \<Rightarrow> uapi_dev" where
  "drop_peer k d = d\<lparr>ud_peers := filter (\<lambda>p. up_key p \<noteq> k) (ud_peers d)\<rparr>"

text \<open>An allowed network belongs to one peer: giving it to a peer takes it from every other one.\<close>

definition give_ip :: "wgkey \<Rightarrow> u32 \<times> nat \<Rightarrow> uapi_dev \<Rightarrow> uapi_dev" where
  "give_ip k a d = d\<lparr>ud_peers := map (\<lambda>p. p\<lparr>up_allowed :=
     filter (\<lambda>b. b \<noteq> a) (up_allowed p) @ (if up_key p = k then [a] else [])\<rparr>) (ud_peers d)\<rparr>"

definition mask_cidr :: "u32 \<times> nat \<Rightarrow> u32 \<times> nat" where
  "mask_cidr a = (fst a AND NOT (mask (32 - snd a)), snd a)"

section \<open>Applying a configuration\<close>

definition v4_word :: "goip \<Rightarrow> u32" where
  "v4_word ip = (case IP_To4 ip of None \<Rightarrow> 0 | Some q \<Rightarrow> word_of_nat (bytes_nat q))"

definition cidr_of :: "ipnet \<Rightarrow> u32 \<times> nat" where
  "cidr_of n = (v4_word (net_IP n), net_ones n)"

definition endpoint_of :: "udp_addr \<Rightarrow> u32 \<times> nat" where
  "endpoint_of e = (v4_word (udp_IP e), nat (udp_Port e))"

definition with_option :: "('a \<Rightarrow> 'b \<Rightarrow> 'b) \<Rightarrow> 'a option \<Rightarrow> 'b \<Rightarrow> 'b" where
  "with_option f x s = (case x of None \<Rightarrow> s | Some v \<Rightarrow> f v s)"

definition peer_update :: "wg_peer_config \<Rightarrow> uapi_dev \<Rightarrow> uapi_dev" where
  "peer_update c d =
     (let k = pc_PublicKey c;
          d1 = with_option (\<lambda>psk. upd_peer k (\<lambda>p. p\<lparr>up_psk := psk\<rparr>)) (pc_PresharedKey c) d;
          d2 = (if pc_ReplaceAllowedIPs c then upd_peer k (\<lambda>p. p\<lparr>up_allowed := []\<rparr>) d1 else d1);
          d3 = fold (\<lambda>n. give_ip k (mask_cidr (cidr_of n))) (pc_AllowedIPs c) d2;
          d4 = with_option (\<lambda>e. upd_peer k (\<lambda>p. p\<lparr>up_endpoint := Some (endpoint_of e)\<rparr>)) (pc_Endpoint c) d3
      in with_option (\<lambda>ka. upd_peer k (\<lambda>p. p\<lparr>up_keepalive := nat (duration_seconds ka)\<rparr>))
           (pc_PersistentKeepaliveInterval c) d4)"

definition dev_apply_peer :: "wg_peer_config \<Rightarrow> uapi_dev \<Rightarrow> uapi_dev" where
  "dev_apply_peer c d =
     (if pc_Remove c then drop_peer (pc_PublicKey c) d
      else if pc_UpdateOnly c \<and> pc_PublicKey c \<notin> set (dev_keys d) then d
      else peer_update c (ensure_peer (pc_PublicKey c) d))"

definition dev_apply_config :: "wg_config \<Rightarrow> uapi_dev \<Rightarrow> uapi_dev" where
  "dev_apply_config c d =
     (let d1 = with_option (\<lambda>k d. d\<lparr>ud_private := k\<rparr>) (wc_PrivateKey c) d;
          d2 = with_option (\<lambda>n d. d\<lparr>ud_port := nat n\<rparr>) (wc_ListenPort c) d1;
          d3 = (if wc_ReplacePeers c then d2\<lparr>ud_peers := []\<rparr> else d2);
          d4 = with_option (\<lambda>n d. d\<lparr>ud_fwmark := nat n\<rparr>) (wc_FirewallMark c) d3
      in fold dev_apply_peer (wc_Peers c) d4)"

section \<open>Executing the text of a set operation\<close>

text \<open>The peer the lines speak of: none yet, one that is to be ignored, or a key and whether its line created it.\<close>

datatype uapi_cur = NoPeer | IgnoredPeer | CurPeer wgkey bool

definition uapi_nat :: "nat \<Rightarrow> string \<Rightarrow> nat option" where
  "uapi_nat limit v = (case strconv_Atoi v of Inl _ \<Rightarrow> None
     | Inr i \<Rightarrow> (if 0 \<le> i \<and> i < int limit then Some (nat i) else None))"

definition uapi_key :: "string \<Rightarrow> wgkey option" where
  "uapi_key v = (case hex_DecodeString v of Inl _ \<Rightarrow> None
     | Inr bs \<Rightarrow> (if length bs = 32 then Some bs else None))"

definition uapi_cidr :: "string \<Rightarrow> (u32 \<times> nat) option" where
  "uapi_cidr v = (case net_ParseCIDR v of Inl _ \<Rightarrow> None
     | Inr (_, n) \<Rightarrow> (if net_bits n = 32 then Some (cidr_of n) else None))"

definition uapi_endpoint :: "string \<Rightarrow> (u32 \<times> nat) option" where
  "uapi_endpoint v = (case net_SplitHostPort v of Inl _ \<Rightarrow> None
     | Inr (h, p) \<Rightarrow> (case (ParseAddr h, uapi_nat 65536 p) of
         (Inr (Addr4 w), Some n) \<Rightarrow> Some (w, n) | _ \<Rightarrow> None))"

type_synonym uapi_state = "uapi_dev \<times> uapi_cur"

definition cur_update :: "(wgkey \<Rightarrow> uapi_dev \<Rightarrow> uapi_dev) \<Rightarrow> uapi_state \<Rightarrow> uapi_state" where
  "cur_update f s = (case s of (d, CurPeer k b) \<Rightarrow> (f k d, CurPeer k b) | _ \<Rightarrow> s)"

definition uapi_device_key :: "string \<Rightarrow> string \<Rightarrow> uapi_dev \<Rightarrow> uapi_dev option" where
  "uapi_device_key key v d =
     (if key = ''private_key'' then map_option (\<lambda>k. d\<lparr>ud_private := k\<rparr>) (uapi_key v)
      else if key = ''listen_port'' then map_option (\<lambda>n. d\<lparr>ud_port := n\<rparr>) (uapi_nat 65536 v)
      else if key = ''fwmark'' then map_option (\<lambda>n. d\<lparr>ud_fwmark := n\<rparr>) (uapi_nat (2 ^ 32) v)
      else if key = ''replace_peers'' \<and> v = ''true'' then Some (d\<lparr>ud_peers := []\<rparr>)
      else None)"

definition uapi_peer_key :: "string \<Rightarrow> string \<Rightarrow> uapi_state \<Rightarrow> uapi_state option" where
  "uapi_peer_key key v s =
     (if key = ''update_only'' \<and> v = ''true'' then
        Some (case s of (d, CurPeer k True) \<Rightarrow> (drop_peer k d, IgnoredPeer) | _ \<Rightarrow> s)
      else if key = ''remove'' \<and> v = ''true'' then
        Some (case s of (d, CurPeer k b) \<Rightarrow> (drop_peer k d, IgnoredPeer) | _ \<Rightarrow> s)
      else if key = ''preshared_key'' then
        map_option (\<lambda>psk. cur_update (\<lambda>k. upd_peer k (\<lambda>p. p\<lparr>up_psk := psk\<rparr>)) s) (uapi_key v)
      else if key = ''endpoint'' then
        map_option (\<lambda>e. cur_update (\<lambda>k. upd_peer k (\<lambda>p. p\<lparr>up_endpoint := Some e\<rparr>)) s) (uapi_endpoint v)
      else if key = ''persistent_keepalive_interval'' then
        map_option (\<lambda>n. cur_update (\<lambda>k. upd_peer k (\<lambda>p. p\<lparr>up_keepalive := n\<rparr>)) s) (uapi_nat 65536 v)
      else if key = ''replace_allowed_ips'' \<and> v = ''true'' then
        Some (cur_update (\<lambda>k. upd_peer k (\<lambda>p. p\<lparr>up_allowed := []\<rparr>)) s)
      else if key = ''allowed_ip'' then
        map_option (\<lambda>a. cur_update (\<lambda>k. give_ip k a) s) (uapi_cidr v)
      else None)"

definition uapi_entry :: "string \<Rightarrow> string \<Rightarrow> uapi_state \<Rightarrow> uapi_state option" where
  "uapi_entry key v s =
     (if key = ''public_key'' then
        map_option (\<lambda>k. (ensure_peer k (fst s), CurPeer k (k \<notin> set (dev_keys (fst s))))) (uapi_key v)
      else if snd s = NoPeer then map_option (\<lambda>d. (d, NoPeer)) (uapi_device_key key v (fst s))
      else uapi_peer_key key v s)"

definition uapi_line :: "string \<Rightarrow> uapi_state \<Rightarrow> uapi_state option" where
  "uapi_line line s =
     (case strings_SplitN2 (CHR ''='') line of [key, v] \<Rightarrow> uapi_entry key v s | _ \<Rightarrow> None)"

text \<open>An empty line ends the operation.\<close>

fun uapi_exec :: "string list \<Rightarrow> uapi_state \<Rightarrow> uapi_state option" where
  "uapi_exec [] s = Some s"
| "uapi_exec (l # ls) s = (if l = [] then Some s
     else case uapi_line l s of None \<Rightarrow> None | Some s' \<Rightarrow> uapi_exec ls s')"

definition uapi_set :: "string \<Rightarrow> uapi_dev \<Rightarrow> uapi_dev option" where
  "uapi_set t d = map_option fst (uapi_exec (strings_Split (CHR 0x0A) t) (d, NoPeer))"

section \<open>The text of a configuration has its effect\<close>

definition v4_net :: "ipnet \<Rightarrow> bool" where
  "v4_net n = (IP_To4 (net_IP n) \<noteq> None \<and> net_bits n = 32 \<and> net_ones n \<le> 32)"

definition v4_endpoint :: "udp_addr \<Rightarrow> bool" where
  "v4_endpoint e = (IP_To4 (udp_IP e) \<noteq> None \<and> udp_Zone e = [] \<and> 0 \<le> udp_Port e \<and> udp_Port e < 65536)"

definition wf_peer_config :: "wg_peer_config \<Rightarrow> bool" where
  "wf_peer_config c = (length (pc_PublicKey c) = 32 \<and> \<not> pc_Remove c \<and>
     pred_option (\<lambda>k. length k = 32) (pc_PresharedKey c) \<and> list_all v4_net (pc_AllowedIPs c) \<and>
     pred_option v4_endpoint (pc_Endpoint c) \<and>
     pred_option (\<lambda>ka. 0 \<le> ka \<and> duration_seconds ka < 65536) (pc_PersistentKeepaliveInterval c))"

definition wf_config :: "wg_config \<Rightarrow> bool" where
  "wf_config c = (pred_option (\<lambda>k. length k = 32) (wc_PrivateKey c) \<and>
     pred_option (\<lambda>n. 0 \<le> n \<and> n < 65536) (wc_ListenPort c) \<and>
     pred_option (\<lambda>n. 0 \<le> n \<and> n < 2 ^ 32) (wc_FirewallMark c) \<and> list_all wf_peer_config (wc_Peers c))"

definition opt_line :: "('a \<Rightarrow> string) \<Rightarrow> 'a option \<Rightarrow> string list" where
  "opt_line f x = (case x of None \<Rightarrow> [] | Some v \<Rightarrow> [f v])"

definition cfg_peer_lines :: "wg_peer_config \<Rightarrow> string list" where
  "cfg_peer_lines c = kv ''public_key'' (hex_EncodeToString (pc_PublicKey c)) #
     opt_line (\<lambda>k. kv ''preshared_key'' (hex_EncodeToString k)) (pc_PresharedKey c)
     @ (if pc_ReplaceAllowedIPs c then [kv ''replace_allowed_ips'' ''true''] else [])
     @ map (\<lambda>n. kv ''allowed_ip'' (cidr_text (cidr_of n))) (pc_AllowedIPs c)
     @ opt_line (\<lambda>e. kv ''endpoint'' (v4_String (fst (endpoint_of e)) @ '':'' @ itoa (snd (endpoint_of e)))) (pc_Endpoint c)
     @ opt_line (\<lambda>d. kv ''persistent_keepalive_interval'' (itoa (nat (duration_seconds d)))) (pc_PersistentKeepaliveInterval c)"

definition cfg_lines :: "wg_config \<Rightarrow> string list" where
  "cfg_lines c = opt_line (\<lambda>k. kv ''private_key'' (hex_EncodeToString k)) (wc_PrivateKey c)
     @ opt_line (\<lambda>n. kv ''listen_port'' (itoa (nat n))) (wc_ListenPort c)
     @ (if wc_ReplacePeers c then [kv ''replace_peers'' ''true''] else [])
     @ opt_line (\<lambda>n. kv ''fwmark'' (itoa (nat n))) (wc_FirewallMark c)
     @ concat (map cfg_peer_lines (wc_Peers c))"

lemma v4_net_String: "v4_net n \<Longrightarrow> IPNet_String n = cidr_text (cidr_of n)"
  by (auto simp: v4_net_def IPNet_String_def cidr_of_def v4_word_def cidr_text_def IP_String_def IP_To4_def
      split: if_splits)

lemma v4_endpoint_String:
  assumes "v4_endpoint e"
  shows "udp_String e = v4_String (fst (endpoint_of e)) @ '':'' @ itoa (snd (endpoint_of e))"
proof -
  obtain q where q: "IP_To4 (udp_IP e) = Some q" using assms by (auto simp: v4_endpoint_def)
  then have "udp_IP e \<noteq> []" by (auto simp: IP_To4_def)
  with q have "IP_String (udp_IP e) = v4_String (v4_word (udp_IP e))" by (simp add: IP_String_def v4_word_def)
  then show ?thesis using assms \<open>udp_IP e \<noteq> []\<close>
    by (simp add: udp_String_def v4_endpoint_def endpoint_of_def net_JoinHostPort_def itoa_int_def)
qed

lemma duration_seconds_text: "0 \<le> d \<Longrightarrow> itoa_int (duration_seconds d) = itoa (nat (duration_seconds d))"
  by (simp add: duration_seconds_def itoa_int_def)

lemma toWgUserspacePeer_lines:
  assumes "wf_peer_config c"
  shows "toWgUserspacePeer c = text_lines (cfg_peer_lines c)"
proof -
  have ips: "concat (map (\<lambda>aip. ''allowed_ip='' @ IPNet_String aip @ [CHR 0x0A]) ns) =
      text_lines (map (\<lambda>n. kv ''allowed_ip'' (cidr_text (cidr_of n))) ns)" if "list_all v4_net ns" for ns
    using that by (induction ns) (simp_all add: v4_net_String kv_def)
  show ?thesis
    using assms ips [of "pc_AllowedIPs c"]
    by (auto simp: toWgUserspacePeer_def cfg_peer_lines_def wf_peer_config_def opt_line_def kv_def
        v4_endpoint_String duration_seconds_text split: option.splits)
qed

lemma toWgUserspaceString_lines:
  assumes "wf_config c"
  shows "toWgUserspaceString c = text_lines (cfg_lines c)"
proof -
  have ps: "concat (map toWgUserspacePeer ps) = text_lines (concat (map cfg_peer_lines ps))"
    if "list_all wf_peer_config ps" for ps
    using that by (induction ps) (simp_all add: toWgUserspacePeer_lines)
  show ?thesis
    using assms ps [of "wc_Peers c"]
    by (auto simp: toWgUserspaceString_def cfg_lines_def wf_config_def opt_line_def kv_def itoa_int_def
        split: option.splits)
qed

lemma uapi_exec_append:
  "[] \<notin> set ls \<Longrightarrow> uapi_exec (ls @ ms) s = Option.bind (uapi_exec ls s) (uapi_exec ms)"
  by (induction ls arbitrary: s) (auto split: option.splits)

lemma uapi_line_kv [simp]: "CHR ''='' \<notin> set k \<Longrightarrow> uapi_line (kv k v) s = uapi_entry k v s"
  by (simp add: uapi_line_def kv_def)

lemma uapi_key_hex [simp]: "length k = 32 \<Longrightarrow> uapi_key (hex_EncodeToString k) = Some k"
  by (simp add: uapi_key_def)

lemma uapi_nat_itoa [simp]: "n < limit \<Longrightarrow> limit \<le> 2 ^ 63 \<Longrightarrow> uapi_nat limit (itoa n) = Some n"
  by (simp add: uapi_nat_def)

lemma uapi_endpoint_v4 [simp]: "n < 65536 \<Longrightarrow> uapi_endpoint (v4_String w @ CHR '':'' # itoa n) = Some (w, n)"
  by (simp add: uapi_endpoint_def net_SplitHostPort_v4)

lemma cidr_of_net [simp]: "cidr_of (cidr_net a) = mask_cidr a"
  by (simp add: cidr_of_def cidr_net_def mask_cidr_def ipnet_of_v4_def v4_word_def IP_To4_def u32_bytes_roundtrip)

lemma uapi_cidr_text [simp]: "snd a \<le> 32 \<Longrightarrow> uapi_cidr (cidr_text a) = Some (mask_cidr a)"
  by (simp add: uapi_cidr_def cidr_net_def ipnet_of_v4_def)
     (simp add: cidr_of_def mask_cidr_def v4_word_def IP_To4_def u32_bytes_roundtrip)

lemma exec_allowed_ips:
  assumes "list_all v4_net ns"
  shows "uapi_exec (map (\<lambda>n. kv ''allowed_ip'' (cidr_text (cidr_of n))) ns) (d, CurPeer k b) =
    Some (fold (\<lambda>n. give_ip k (mask_cidr (cidr_of n))) ns d, CurPeer k b)"
  using assms
proof (induction ns arbitrary: d)
  case (Cons n ns)
  then have "uapi_cidr (cidr_text (cidr_of n)) = Some (mask_cidr (cidr_of n))"
    by (intro uapi_cidr_text) (simp add: cidr_of_def v4_net_def)
  with Cons show ?case by (simp add: uapi_entry_def uapi_peer_key_def cur_update_def)
qed simp

lemma cfg_lines_not_Nil: "[] \<notin> set (cfg_peer_lines p)" "[] \<notin> set (cfg_lines c)"
  by (auto simp: cfg_peer_lines_def cfg_lines_def opt_line_def split: option.splits)

lemma opt_line_not_Nil: "(\<And>v. f v \<noteq> []) \<Longrightarrow> [] \<notin> set (opt_line f x)"
  by (cases x) (simp_all add: opt_line_def eq_commute [of "[]"])

lemma kv_image_not_Nil: "[] \<notin> (\<lambda>n. kv k (f n)) ` A"
  by auto

lemma exec_peer_option:
  assumes "pred_option ok x"
    and "\<And>v d. ok v \<Longrightarrow> uapi_line (f v) (d, CurPeer k b) = Some (g v d, CurPeer k b) \<and> f v \<noteq> []"
  shows "uapi_exec (opt_line f x) (d, CurPeer k b) = Some (with_option g x d, CurPeer k b)"
  using assms by (cases x) (simp_all add: opt_line_def with_option_def)

lemma exec_device_option:
  assumes "pred_option ok x"
    and "\<And>v d. ok v \<Longrightarrow> uapi_line (f v) (d, NoPeer) = Some (g v d, NoPeer) \<and> f v \<noteq> []"
  shows "uapi_exec (opt_line f x) (d, NoPeer) = Some (with_option g x d, NoPeer)"
  using assms by (cases x) (simp_all add: opt_line_def with_option_def)

lemma exec_psk:
  "pred_option (\<lambda>k. length k = 32) x \<Longrightarrow>
   uapi_exec (opt_line (\<lambda>k. kv ''preshared_key'' (hex_EncodeToString k)) x) (d, CurPeer k b) =
     Some (with_option (\<lambda>psk. upd_peer k (\<lambda>p. p\<lparr>up_psk := psk\<rparr>)) x d, CurPeer k b)"
  by (erule exec_peer_option) (simp add: uapi_entry_def uapi_peer_key_def cur_update_def)

lemma exec_endpoint:
  "pred_option v4_endpoint x \<Longrightarrow>
   uapi_exec (opt_line (\<lambda>e. kv ''endpoint'' (v4_String (fst (endpoint_of e)) @ '':'' @ itoa (snd (endpoint_of e)))) x)
     (d, CurPeer k b) =
   Some (with_option (\<lambda>e. upd_peer k (\<lambda>p. p\<lparr>up_endpoint := Some (endpoint_of e)\<rparr>)) x d, CurPeer k b)"
  by (erule exec_peer_option)
     (auto simp: uapi_entry_def uapi_peer_key_def cur_update_def v4_endpoint_def endpoint_of_def)

lemma exec_keepalive:
  "pred_option (\<lambda>ka. 0 \<le> ka \<and> duration_seconds ka < 65536) x \<Longrightarrow>
   uapi_exec (opt_line (\<lambda>d. kv ''persistent_keepalive_interval'' (itoa (nat (duration_seconds d)))) x)
     (d, CurPeer k b) =
   Some (with_option (\<lambda>ka. upd_peer k (\<lambda>p. p\<lparr>up_keepalive := nat (duration_seconds ka)\<rparr>)) x d, CurPeer k b)"
  by (erule exec_peer_option)
     (auto simp: uapi_entry_def uapi_peer_key_def cur_update_def)

lemma exec_peer_lines:
  assumes "wf_peer_config c"
  shows "\<exists>cur. uapi_exec (cfg_peer_lines c) s =
    Some (peer_update c (ensure_peer (pc_PublicKey c) (fst s)), cur)"
  using assms exec_endpoint [of "pc_Endpoint c"]
  by (cases "pc_ReplaceAllowedIPs c")
     (simp_all add: cfg_peer_lines_def wf_peer_config_def uapi_exec_append opt_line_not_Nil kv_image_not_Nil
      uapi_entry_def uapi_peer_key_def cur_update_def
      exec_psk exec_keepalive exec_allowed_ips peer_update_def Let_def)

lemma exec_peers:
  assumes "list_all wf_peer_config ps"
  shows "\<exists>cur. uapi_exec (concat (map cfg_peer_lines ps)) s =
    Some (fold (\<lambda>c. dev_apply_peer (c\<lparr>pc_UpdateOnly := False\<rparr>)) ps (fst s), cur)"
  using assms
proof (induction ps arbitrary: s)
  case Nil
  show ?case by (cases s) simp
next
  case (Cons c ps)
  then have "dev_apply_peer (c\<lparr>pc_UpdateOnly := False\<rparr>) d = peer_update c (ensure_peer (pc_PublicKey c) d)" for d
    by (simp add: dev_apply_peer_def wf_peer_config_def peer_update_def)
  moreover obtain cur where "uapi_exec (cfg_peer_lines c) s =
      Some (peer_update c (ensure_peer (pc_PublicKey c) (fst s)), cur)"
    using Cons.prems exec_peer_lines [of c s] by auto
  ultimately show ?case
    using Cons.prems Cons.IH [of "(peer_update c (ensure_peer (pc_PublicKey c) (fst s)), cur)"]
    by (simp add: uapi_exec_append cfg_lines_not_Nil)
qed

definition without_UpdateOnly :: "wg_config \<Rightarrow> wg_config" where
  "without_UpdateOnly c = c\<lparr>wc_Peers := map (\<lambda>p. p\<lparr>pc_UpdateOnly := False\<rparr>) (wc_Peers c)\<rparr>"

lemma exec_cfg_lines:
  assumes "wf_config c"
  shows "\<exists>cur. uapi_exec (cfg_lines c) (d, NoPeer) = Some (dev_apply_config (without_UpdateOnly c) d, cur)"
proof -
  let ?d = "with_option (\<lambda>n d. d\<lparr>ud_port := nat n\<rparr>) (wc_ListenPort c)
     (with_option (\<lambda>k d. d\<lparr>ud_private := k\<rparr>) (wc_PrivateKey c) d)"
  let ?e = "with_option (\<lambda>n d. d\<lparr>ud_fwmark := nat n\<rparr>) (wc_FirewallMark c)
     (if wc_ReplacePeers c then ?d\<lparr>ud_peers := []\<rparr> else ?d)"
  have priv: "uapi_exec (opt_line (\<lambda>k. kv ''private_key'' (hex_EncodeToString k)) (wc_PrivateKey c)) (d, NoPeer) =
      Some (with_option (\<lambda>k d. d\<lparr>ud_private := k\<rparr>) (wc_PrivateKey c) d, NoPeer)" for d
    by (rule exec_device_option [where ok = "\<lambda>k. length k = 32"])
       (use assms in \<open>auto simp: wf_config_def uapi_entry_def uapi_device_key_def\<close>)
  have port: "uapi_exec (opt_line (\<lambda>n. kv ''listen_port'' (itoa (nat n))) (wc_ListenPort c)) (d, NoPeer) =
      Some (with_option (\<lambda>n d. d\<lparr>ud_port := nat n\<rparr>) (wc_ListenPort c) d, NoPeer)" for d
    by (rule exec_device_option [where ok = "\<lambda>n. 0 \<le> n \<and> n < 65536"])
       (use assms in \<open>auto simp: wf_config_def uapi_entry_def uapi_device_key_def\<close>)
  have mark: "uapi_exec (opt_line (\<lambda>n. kv ''fwmark'' (itoa (nat n))) (wc_FirewallMark c)) (d, NoPeer) =
      Some (with_option (\<lambda>n d. d\<lparr>ud_fwmark := nat n\<rparr>) (wc_FirewallMark c) d, NoPeer)" for d
    by (rule exec_device_option [where ok = "\<lambda>n. 0 \<le> n \<and> n < 2 ^ 32"])
       (use assms in \<open>auto simp: wf_config_def uapi_entry_def uapi_device_key_def\<close>)
  have "uapi_exec (cfg_lines c) (d, NoPeer) = uapi_exec (concat (map cfg_peer_lines (wc_Peers c))) (?e, NoPeer)"
    by (cases "wc_ReplacePeers c")
       (simp_all add: cfg_lines_def uapi_exec_append opt_line_not_Nil priv port mark uapi_entry_def uapi_device_key_def)
  then show ?thesis
    using exec_peers [of "wc_Peers c" "(?e, NoPeer)"] assms
    by (simp add: wf_config_def dev_apply_config_def without_UpdateOnly_def Let_def fold_map o_def)
qed


lemma plain_cfg_lines: "list_all plain (cfg_lines c)"
  by (auto simp: cfg_lines_def cfg_peer_lines_def opt_line_def kv_def cidr_text_def is_space_def list_all_iff
      split: option.splits)

lemma uapi_set_text_lines:
  assumes "\<And>l. l \<in> set ls \<Longrightarrow> CHR 0x0A \<notin> set l" and "[] \<notin> set ls"
  shows "uapi_set (text_lines ls) d = map_option fst (uapi_exec ls (d, NoPeer))"
  using strings_Split_text_lines [OF assms(1), of ls "[]"] assms(2)
  by (cases "uapi_exec ls (d, NoPeer)") (simp_all add: uapi_set_def uapi_exec_append)

lemma uapi_set_config:
  assumes "wf_config c"
  shows "uapi_set (toWgUserspaceString c) d = Some (dev_apply_config (without_UpdateOnly c) d)"
proof -
  have "CHR 0x0A \<notin> set l" if "l \<in> set (cfg_lines c)" for l
    using that plain_cfg_lines [of c] by (auto simp: list_all_iff plain_no_newline)
  then show ?thesis
    using exec_cfg_lines [OF assms, of d] assms
    by (auto simp: toWgUserspaceString_lines uapi_set_text_lines cfg_lines_not_Nil)
qed

lemma uapi_set_remove:
  assumes "length k = 32"
  shows "uapi_set (toWgUserspaceString (remove_peer_config k)) d = Some (drop_peer k d)"
proof -
  have "strings_Split (CHR 0x0A) (toWgUserspaceString (remove_peer_config k)) =
      [kv ''public_key'' (hex_EncodeToString k), kv ''remove'' ''true'']"
    using strings_Split_text_lines [of "[kv ''public_key'' (hex_EncodeToString k)]" "kv ''remove'' ''true''"]
    by (simp add: toWgUserspaceString_def remove_peer_config_def peers_config_def empty_peer_config_def
      toWgUserspacePeer_def kv_def)
  then show ?thesis
    using assms
    by (simp add: uapi_set_def uapi_entry_def uapi_peer_key_def drop_peer_def ensure_peer_def fresh_peer_def)
qed

section \<open>What a configurer promises\<close>

definition v4_prefix :: "prefix \<Rightarrow> bool" where
  "v4_prefix p = (case pfx_Addr p of Addr4 w \<Rightarrow> 0 \<le> pfx_Bits p \<and> pfx_Bits p \<le> 32 | _ \<Rightarrow> False)"

definition pfx_cidr :: "prefix \<Rightarrow> u32 \<times> nat" where
  "pfx_cidr p = (case pfx_Addr p of Addr4 w \<Rightarrow> w | _ \<Rightarrow> 0, nat (pfx_Bits p))"

fun dev_op :: "peer_op \<Rightarrow> wgkey \<Rightarrow> uapi_dev \<Rightarrow> uapi_dev" where
  "dev_op (OpUpdatePeer ips ka ep psk) k d =
     upd_peer k (\<lambda>p. p\<lparr>up_psk := (case psk of None \<Rightarrow> up_psk p | Some s \<Rightarrow> s),
                      up_endpoint := (case ep of None \<Rightarrow> up_endpoint p | Some e \<Rightarrow> Some (endpoint_of e)),
                      up_keepalive := nat (ka div 1000000000)\<rparr>)
       (fold (\<lambda>p. give_ip k (mask_cidr (pfx_cidr p))) ips (ensure_peer k d))"
| "dev_op OpRemoveEndpointAddress k d =
     d\<lparr>ud_peers := ud_peers (drop_peer k d) @ [(fresh_peer k)\<lparr>up_allowed := allowed_of d k\<rparr>]\<rparr>"
| "dev_op OpRemovePeer k d = drop_peer k d"
| "dev_op (OpAddAllowedIP p) k d = give_ip k (mask_cidr (pfx_cidr p)) d"
| "dev_op (OpRemoveAllowedIP p) k d =
     upd_peer k (\<lambda>q. q\<lparr>up_allowed := filter (\<lambda>a. a \<noteq> pfx_cidr p) (up_allowed q)\<rparr>) d"

text \<open>The operations the device can hold, and what each needs of the device.\<close>

fun op_ok :: "peer_op \<Rightarrow> wgkey \<Rightarrow> uapi_dev \<Rightarrow> bool" where
  "op_ok (OpUpdatePeer ips ka ep psk) k d = (list_all v4_prefix ips \<and> 0 \<le> ka \<and> ka div 1000000000 < 65536 \<and>
     pred_option v4_endpoint ep \<and> pred_option (\<lambda>s. length s = 32) psk)"
| "op_ok OpRemoveEndpointAddress k d = (k \<in> set (dev_keys d))"
| "op_ok OpRemovePeer k d = True"
| "op_ok (OpAddAllowedIP p) k d = (v4_prefix p \<and> k \<in> set (dev_keys d))"
| "op_ok (OpRemoveAllowedIP p) k d = (v4_prefix p \<and> pfx_cidr p \<in> set (allowed_of d k))"

fun ops_ok :: "(peer_op \<times> wgkey) list \<Rightarrow> uapi_dev \<Rightarrow> bool" where
  "ops_ok [] d = True"
| "ops_ok ((op, k) # ops) d = (length k = 32 \<and> op_ok op k d \<and> ops_ok ops (dev_op op k d))"

definition dev_run :: "(peer_op \<times> wgkey) list \<Rightarrow> uapi_dev \<Rightarrow> uapi_dev" where
  "dev_run ops d = fold (\<lambda>(op, k). dev_op op k) ops d"

definition wf_dev :: "uapi_dev \<Rightarrow> bool" where
  "wf_dev d = (wf_uapi d \<and> distinct (dev_keys d) \<and>
     list_all (\<lambda>p. list_all masked_cidr (up_allowed p)) (ud_peers d) \<and>
     distinct (concat (map up_allowed (ud_peers d))))"

section \<open>The promised operations keep the device well formed\<close>

lemma upd_peer_simps [simp]:
  "ud_private (upd_peer k f d) = ud_private d" "ud_port (upd_peer k f d) = ud_port d"
  "ud_fwmark (upd_peer k f d) = ud_fwmark d"
  "ud_peers (upd_peer k f d) = map (\<lambda>p. if up_key p = k then f p else p) (ud_peers d)"
  by (simp_all add: upd_peer_def)

lemma give_ip_simps [simp]:
  "ud_private (give_ip k a d) = ud_private d" "ud_port (give_ip k a d) = ud_port d"
  "ud_fwmark (give_ip k a d) = ud_fwmark d" "dev_keys (give_ip k a d) = dev_keys d"
  by (simp_all add: give_ip_def dev_keys_def)

lemma masked_mask_cidr: "snd a \<le> 32 \<Longrightarrow> masked_cidr (mask_cidr a)"
  by (simp add: masked_cidr_def mask_cidr_def)

lemma mask_cidr_masked: "masked_cidr a \<Longrightarrow> mask_cidr a = a"
  by (simp add: masked_cidr_def mask_cidr_def prod_eq_iff)

lemma v4_prefix_cidr:
  assumes "v4_prefix p"
  shows "cidr_of (prefixToIPNet p) = pfx_cidr p" "v4_net (prefixToIPNet p)" "snd (pfx_cidr p) \<le> 32"
    "p = Prefix (Addr4 (fst (pfx_cidr p))) (int (snd (pfx_cidr p)))"
  using assms by (cases p; cases "pfx_Addr p";
    auto simp: v4_prefix_def pfx_cidr_def prefixToIPNet_def cidr_of_def v4_word_def IP_To4_def v4_net_def
      u32_bytes_roundtrip Let_def)+

text \<open>Well-formedness split into the part about single peers and the part about the list.\<close>

definition wf_peer :: "uapi_peer \<Rightarrow> bool" where
  "wf_peer p = (wf_uapi_peer p \<and> list_all masked_cidr (up_allowed p))"

lemma wf_dev_alt: "wf_dev d \<longleftrightarrow> length (ud_private d) = 32 \<and> ud_port d < 65536 \<and> ud_fwmark d < 2 ^ 32 \<and>
   list_all wf_peer (ud_peers d) \<and> distinct (dev_keys d) \<and> distinct (concat (map up_allowed (ud_peers d)))"
  by (auto simp: wf_dev_def wf_uapi_def wf_peer_def list_all_iff)

lemma distinct_concat_filter: "distinct (concat (map f xs)) \<Longrightarrow> distinct (concat (map (\<lambda>x. filter P (f x)) xs))"
  by (induction xs) auto

lemma distinct_concat_give:
  assumes "distinct (concat (map up_allowed ps))" and "distinct (map up_key ps)"
  shows "distinct (concat (map (\<lambda>p. filter (\<lambda>b. b \<noteq> a) (up_allowed p) @ (if up_key p = k then [a] else [])) ps))"
  using assms
proof (induction ps)
  case (Cons p ps)
  show ?case
  proof (cases "up_key p = k")
    case True
    then have "\<forall>q \<in> set ps. up_key q \<noteq> k" using Cons.prems(2) by (auto simp: image_iff)
    then have "concat (map (\<lambda>p. filter (\<lambda>b. b \<noteq> a) (up_allowed p) @ (if up_key p = k then [a] else [])) ps) =
        concat (map (\<lambda>p. filter (\<lambda>b. b \<noteq> a) (up_allowed p)) ps)"
      by (intro arg_cong [where f = concat] map_cong) auto
    then show ?thesis using True Cons.prems distinct_concat_filter [of up_allowed ps] by auto
  next
    case False
    then show ?thesis using Cons by auto
  qed
qed simp


lemma wf_peer_allowed: "wf_peer p \<Longrightarrow> list_all masked_cidr as \<Longrightarrow> wf_peer (p\<lparr>up_allowed := as\<rparr>)"
  by (auto simp: wf_peer_def wf_uapi_peer_def list_all_iff masked_cidr_def)

lemma wf_dev_give_ip:
  assumes "wf_dev d" and "masked_cidr a"
  shows "wf_dev (give_ip k a d)"
proof -
  have "distinct (concat (map up_allowed (ud_peers (give_ip k a d))))"
    using assms distinct_concat_give [of "ud_peers d" a k]
    by (simp add: give_ip_def o_def wf_dev_alt dev_keys_def)
  moreover have "list_all wf_peer (ud_peers (give_ip k a d))"
    using assms by (auto simp: give_ip_def wf_dev_alt list_all_iff intro!: wf_peer_allowed)
       (auto simp: wf_peer_def list_all_iff)
  ultimately show ?thesis using assms by (simp add: wf_dev_alt)
qed

lemma wf_dev_fold_give:
  assumes "wf_dev d" and "list_all masked_cidr as"
  shows "wf_dev (fold (give_ip k) as d)"
  using assms by (induction as arbitrary: d) (simp_all add: wf_dev_give_ip)

lemma wf_dev_upd_peer:
  assumes "wf_dev d" and "\<And>p. wf_peer p \<Longrightarrow> wf_peer (f p)" and "\<And>p. up_key (f p) = up_key p"
    and "\<And>p. up_allowed (f p) = filter P (up_allowed p)"
  shows "wf_dev (upd_peer k f d)"
proof -
  have keys: "dev_keys (upd_peer k f d) = dev_keys d"
    using assms(3) by (auto simp: dev_keys_def)
  have eq: "map up_allowed (ud_peers (upd_peer k f d)) =
      map (\<lambda>p. filter (\<lambda>a. up_key p = k \<longrightarrow> P a) (up_allowed p)) (ud_peers d)"
    using assms(4) by auto
  have "distinct (concat (map (\<lambda>p. filter (Q p) (up_allowed p)) ps))"
    if "distinct (concat (map up_allowed ps))" for Q and ps :: "uapi_peer list"
    using that by (induction ps) auto
  then have "distinct (concat (map up_allowed (ud_peers (upd_peer k f d))))"
    unfolding eq using assms(1) by (simp add: wf_dev_alt)
  then show ?thesis using assms(1,2) keys by (auto simp: wf_dev_alt list_all_iff)
qed

lemma wf_dev_drop_peer:
  assumes "wf_dev d"
  shows "wf_dev (drop_peer k d)"
proof -
  have "distinct (concat (map up_allowed (filter P ps)))"
    if "distinct (concat (map up_allowed ps))" for P and ps :: "uapi_peer list"
    using that by (induction ps) auto
  then show ?thesis
    using assms by (auto simp: wf_dev_alt drop_peer_def dev_keys_def list_all_iff distinct_map_filter)
qed

lemma wf_peer_fresh: "length k = 32 \<Longrightarrow> wf_peer (fresh_peer k)"
  by (simp add: wf_peer_def wf_uapi_peer_def fresh_peer_def)

lemma wf_dev_ensure_peer: "wf_dev d \<Longrightarrow> length k = 32 \<Longrightarrow> wf_dev (ensure_peer k d)"
  using wf_peer_fresh [of k]
  by (auto simp: wf_dev_alt ensure_peer_def dev_keys_def) (auto simp: fresh_peer_def)

lemma find_peer_key:
  "k \<in> set (dev_keys d) \<Longrightarrow> \<exists>p \<in> set (ud_peers d). up_key p = k"
  by (auto simp: dev_keys_def)

lemma allowed_of_facts:
  assumes "wf_dev d"
  shows "list_all masked_cidr (allowed_of d k)" "distinct (allowed_of d k)"
    "set (allowed_of d k) \<inter> set (concat (map up_allowed (ud_peers (drop_peer k d)))) = {}"
proof -
  show "list_all masked_cidr (allowed_of d k)"
    using assms by (auto simp: wf_dev_def allowed_of_def list_all_iff)
  have "distinct (concat (map up_allowed (filter (\<lambda>p. up_key p = k) ps))) \<and>
      set (concat (map up_allowed (filter (\<lambda>p. up_key p = k) ps))) \<inter>
        set (concat (map up_allowed (filter (\<lambda>p. up_key p \<noteq> k) ps))) = {}"
    if "distinct (concat (map up_allowed ps))" for ps
    using that by (induction ps) auto
  from this [of "ud_peers d"] assms
  show "distinct (allowed_of d k)" "set (allowed_of d k) \<inter> set (concat (map up_allowed (ud_peers (drop_peer k d)))) = {}"
    by (simp_all add: allowed_of_def drop_peer_def wf_dev_def)
qed

lemma wf_dev_readd:
  assumes "wf_dev d" and "length k = 32"
  shows "wf_dev (dev_op OpRemoveEndpointAddress k d)"
proof -
  have "wf_dev (drop_peer k d)" using assms(1) by (rule wf_dev_drop_peer)
  moreover have "wf_peer ((fresh_peer k)\<lparr>up_allowed := allowed_of d k\<rparr>)"
    using wf_peer_fresh [OF assms(2)] allowed_of_facts(1) [OF assms(1)] by (rule wf_peer_allowed)
  moreover have "k \<notin> set (dev_keys (drop_peer k d))" by (auto simp: dev_keys_def drop_peer_def)
  moreover have "up_key (fresh_peer k) = k" by (simp add: fresh_peer_def)
  ultimately show ?thesis
    using allowed_of_facts(2,3) [OF assms(1), of k]
    by (auto simp: wf_dev_alt dev_keys_def drop_peer_def)
qed

lemma wf_dev_op:
  assumes "wf_dev d" and "length k = 32" and "op_ok op k d"
  shows "wf_dev (dev_op op k d)"
proof (cases op)
  case (OpUpdatePeer ips ka ep psk)
  have "wf_dev (fold (give_ip k) (map (\<lambda>p. mask_cidr (pfx_cidr p)) ips) (ensure_peer k d))"
    using assms OpUpdatePeer
    by (intro wf_dev_fold_give wf_dev_ensure_peer) (auto simp: list_all_iff v4_prefix_cidr masked_mask_cidr)
  then show ?thesis
    using assms(3) unfolding OpUpdatePeer dev_op.simps fold_map o_def
    by (rule_tac wf_dev_upd_peer [where P = "\<lambda>_. True"])
       (auto simp: wf_peer_def wf_uapi_peer_def v4_endpoint_def endpoint_of_def split: option.splits)
next
  case OpRemoveEndpointAddress
  then show ?thesis using wf_dev_readd [OF assms(1,2)] by simp
next
  case OpRemovePeer
  then show ?thesis using assms(1) by (simp add: wf_dev_drop_peer)
next
  case (OpAddAllowedIP p)
  then show ?thesis using assms by (simp add: wf_dev_give_ip masked_mask_cidr v4_prefix_cidr)
next
  case (OpRemoveAllowedIP p)
  show ?thesis unfolding OpRemoveAllowedIP dev_op.simps
    by (rule wf_dev_upd_peer [OF assms(1), where P = "\<lambda>a. a \<noteq> pfx_cidr p"])
       (auto simp: wf_peer_def wf_uapi_peer_def list_all_iff)
qed

section \<open>The configurations of the operations\<close>

lemma fold_give_ip:
  assumes "distinct as"
  shows "fold (give_ip k) as d = d\<lparr>ud_peers := map (\<lambda>p. p\<lparr>up_allowed :=
     filter (\<lambda>b. b \<notin> set as) (up_allowed p) @ (if up_key p = k then as else [])\<rparr>) (ud_peers d)\<rparr>"
  using assms
proof (induction as arbitrary: d)
  case (Cons a as)
  then have [simp]: "filter (\<lambda>b. b \<notin> set as) [a] = [a]" by simp
  show ?case using Cons by (auto simp: give_ip_def filter_append intro!: filter_cong)
qed simp

lemma give_ip_upd_peer:
  assumes "\<And>p. up_key (f p) = up_key p" and "\<And>p as. f (p\<lparr>up_allowed := as\<rparr>) = (f p)\<lparr>up_allowed := as\<rparr>"
    and "\<And>p. up_allowed (f p) = up_allowed p"
  shows "give_ip k a (upd_peer k f d) = upd_peer k f (give_ip k a d)"
  by (simp add: give_ip_def upd_peer_def assms)

lemma fold_give_upd_peer:
  assumes "\<And>p. up_key (f p) = up_key p" and "\<And>p as. f (p\<lparr>up_allowed := as\<rparr>) = (f p)\<lparr>up_allowed := as\<rparr>"
    and "\<And>p. up_allowed (f p) = up_allowed p"
  shows "fold (\<lambda>n. give_ip k (g n)) ns (upd_peer k f d) = upd_peer k f (fold (\<lambda>n. give_ip k (g n)) ns d)"
  using give_ip_upd_peer [OF assms] by (induction ns arbitrary: d) simp_all

lemma upd_peer_twice: "(\<And>p. up_key (f p) = up_key p) \<Longrightarrow>
   upd_peer k g (upd_peer k f d) = upd_peer k (\<lambda>p. g (f p)) d"
  by (simp add: upd_peer_def)

definition update_config :: "wgkey \<Rightarrow> prefix list \<Rightarrow> int \<Rightarrow> udp_addr option \<Rightarrow> wgkey option \<Rightarrow> wg_config" where
  "update_config k ips ka ep psk = peers_config [empty_peer_config\<lparr>pc_PublicKey := k,
     pc_AllowedIPs := prefixesToIPNets ips, pc_PersistentKeepaliveInterval := Some ka,
     pc_PresharedKey := psk, pc_Endpoint := ep\<rparr>]"

definition add_ip_config :: "wgkey \<Rightarrow> prefix \<Rightarrow> wg_config" where
  "add_ip_config k p = peers_config [empty_peer_config\<lparr>pc_PublicKey := k, pc_UpdateOnly := True,
     pc_AllowedIPs := [prefixToIPNet p]\<rparr>]"

lemmas op_configs = update_config_def add_ip_config_def replace_allowed_config_def readd_peer_config_def
  remove_peer_config_def peers_config_def empty_peer_config_def

lemma apply_one_peer: "dev_apply_config (peers_config [c]) d = dev_apply_peer c d"
  by (simp add: dev_apply_config_def peers_config_def with_option_def)

lemma apply_update_config:
  assumes "op_ok (OpUpdatePeer ips ka ep psk) k d"
  shows "dev_apply_config (update_config k ips ka ep psk) d = dev_op (OpUpdatePeer ips ka ep psk) k d"
proof -
  have nets: "fold (\<lambda>n. give_ip k (mask_cidr (cidr_of n))) (prefixesToIPNets ips) e =
      fold (\<lambda>p. give_ip k (mask_cidr (pfx_cidr p))) ips e" for e
    using assms by (auto simp: prefixesToIPNets_def fold_map o_def list_all_iff v4_prefix_cidr intro!: fold_cong)
  have sec: "duration_seconds ka = ka div 1000000000" using assms by (simp add: duration_seconds_def)
  show ?thesis
    by (cases psk; cases ep)
       (simp_all add: update_config_def apply_one_peer dev_apply_peer_def peer_update_def empty_peer_config_def
         with_option_def nets sec fold_give_upd_peer upd_peer_twice)
qed

lemma apply_remove_config: "dev_apply_config (remove_peer_config k) d = drop_peer k d"
  by (simp add: remove_peer_config_def apply_one_peer dev_apply_peer_def empty_peer_config_def)

lemma apply_add_ip_config:
  assumes "op_ok (OpAddAllowedIP p) k d"
  shows "dev_apply_config (add_ip_config k p) d = dev_op (OpAddAllowedIP p) k d"
  using assms by (simp add: add_ip_config_def apply_one_peer dev_apply_peer_def peer_update_def
    empty_peer_config_def ensure_peer_def with_option_def v4_prefix_cidr)

lemma fold_give_nets:
  assumes "list_all masked_cidr as"
  shows "fold (\<lambda>n. give_ip k (mask_cidr (cidr_of n))) (map cidr_net as) d = fold (give_ip k) as d"
  using assms by (auto simp: fold_map o_def list_all_iff mask_cidr_masked intro!: fold_cong)

lemma replace_allowed:
  assumes "list_all masked_cidr as" and "distinct as"
    and "\<forall>p \<in> set (ud_peers d). up_key p \<noteq> k \<longrightarrow> set (up_allowed p) \<inter> set as = {}"
  shows "fold (\<lambda>n. give_ip k (mask_cidr (cidr_of n))) (map cidr_net as) (upd_peer k (\<lambda>p. p\<lparr>up_allowed := []\<rparr>) d) =
    upd_peer k (\<lambda>p. p\<lparr>up_allowed := as\<rparr>) d"
proof -
  have "filter (\<lambda>b. b \<notin> set as) (up_allowed p) = up_allowed p"
    if "p \<in> set (ud_peers d)" "up_key p \<noteq> k" for p
    using assms(3) that by (intro filter_True) auto
  then show ?thesis
    using assms(1,2) by (auto simp: fold_give_nets fold_give_ip upd_peer_def)
qed

lemma apply_replace_config:
  assumes "wf_dev d" and "op_ok (OpRemoveAllowedIP p) k d"
  shows "dev_apply_config (replace_allowed_config k
      (map cidr_net (filter (\<lambda>x. x \<noteq> pfx_cidr p) (allowed_of d k)))) d = dev_op (OpRemoveAllowedIP p) k d"
proof -
  let ?as = "filter (\<lambda>x. x \<noteq> pfx_cidr p) (allowed_of d k)"
  have "k \<in> set (dev_keys d)" using assms(2) by (auto simp: allowed_of_def dev_keys_def)
  moreover have "\<forall>q \<in> set (ud_peers d). up_key q \<noteq> k \<longrightarrow> set (up_allowed q) \<inter> set ?as = {}"
    using allowed_of_facts(3) [OF assms(1), of k] by (auto simp: drop_peer_def)
  moreover have "upd_peer k (\<lambda>q. q\<lparr>up_allowed := ?as\<rparr>) d = dev_op (OpRemoveAllowedIP p) k d"
    using assms(1) allowed_of_peer [of d]
    by (auto simp: upd_peer_def wf_dev_def dev_keys_def intro!: arg_cong [where f = "\<lambda>ps. d\<lparr>ud_peers := ps\<rparr>"])
  ultimately show ?thesis
    using replace_allowed [of ?as d k] allowed_of_facts(1,2) [OF assms(1), of k]
    by (simp add: replace_allowed_config_def apply_one_peer dev_apply_peer_def peer_update_def
        empty_peer_config_def ensure_peer_def with_option_def list_all_iff)
qed

lemma apply_readd_config:
  assumes "wf_dev d"
  shows "dev_apply_config (readd_peer_config k (map cidr_net (allowed_of d k))) (drop_peer k d) =
    dev_op OpRemoveEndpointAddress k d"
proof -
  let ?d = "ensure_peer k (drop_peer k d)"
  have d: "?d = (drop_peer k d)\<lparr>ud_peers := ud_peers (drop_peer k d) @ [fresh_peer k]\<rparr>"
    by (auto simp: ensure_peer_def drop_peer_def dev_keys_def)
  have others: "\<forall>p \<in> set (ud_peers ?d). up_key p \<noteq> k \<longrightarrow> set (up_allowed p) \<inter> set (allowed_of d k) = {}"
    unfolding d using allowed_of_facts(3) [OF assms, of k] by (auto simp: drop_peer_def fresh_peer_def)
  have "map (\<lambda>p. if up_key p = k then p\<lparr>up_allowed := as\<rparr> else p) (ud_peers (drop_peer k d)) =
      ud_peers (drop_peer k d)" for as
    by (auto simp: drop_peer_def intro: map_idI)
  then have "upd_peer k (\<lambda>p. p\<lparr>up_allowed := allowed_of d k\<rparr>) ?d = dev_op OpRemoveEndpointAddress k d"
    by (simp add: d upd_peer_def) (simp add: fresh_peer_def drop_peer_def)
  then show ?thesis
    using replace_allowed [OF _ _ others] allowed_of_facts(1,2) [OF assms, of k]
    by (simp add: readd_peer_config_def apply_one_peer dev_apply_peer_def peer_update_def
        empty_peer_config_def with_option_def)
qed

lemma v4_net_cidr_net: "snd a \<le> 32 \<Longrightarrow> v4_net (cidr_net a)"
  by (simp add: v4_net_def cidr_net_def ipnet_of_v4_def IP_To4_def)

lemma wf_cidr_nets: "list_all masked_cidr as \<Longrightarrow> list_all v4_net (map cidr_net as)"
  by (auto simp: list_all_iff masked_cidr_def intro: v4_net_cidr_net)

lemma wf_op_configs:
  assumes "length k = 32"
  shows "op_ok (OpUpdatePeer ips ka ep psk) k d \<Longrightarrow> wf_config (update_config k ips ka ep psk)"
    "v4_prefix p \<Longrightarrow> wf_config (add_ip_config k p)"
    "list_all masked_cidr as \<Longrightarrow> wf_config (replace_allowed_config k (map cidr_net as))"
    "list_all masked_cidr as \<Longrightarrow> wf_config (readd_peer_config k (map cidr_net as))"
  using assms wf_cidr_nets [of as]
  by (auto simp: wf_config_def wf_peer_config_def op_configs prefixesToIPNets_def list_all_iff v4_prefix_cidr
      duration_seconds_def)

section \<open>The two ways to a device\<close>

text \<open>
  What is assumed of the code outside the repository, over any type \<open>'w\<close> of worlds in which \<open>dev\<close> finds the
  device: \<^verbatim>\<open>wgtypes\<close> keys are 32 bytes in base 64, the userspace device executes the texts it is given and prints
  its state, the control client applies configurations and reports the device, and the activity recorder leaves the
  device alone. Only configurations within IPv4 and with keys of 32 bytes are spoken of.
\<close>

definition key_laws :: "'a wg_types_scheme \<Rightarrow> bool" where
  "key_laws E = (Key_String E = base64_EncodeToString \<and>
     (\<forall>k. length k = 32 \<longrightarrow> ParseKey E (base64_EncodeToString k) = Inr k))"

definition uapi_serves :: "'w usp_env \<Rightarrow> ('w \<Rightarrow> uapi_dev) \<Rightarrow> bool" where
  "uapi_serves U dev = (key_laws U \<and> (\<forall>w. IpcGet U w = Inr (uapi_text (dev w))) \<and>
     (\<forall>t w d. uapi_set t (dev w) = Some d \<longrightarrow> (\<exists>w'. IpcSet U t w = (None, w') \<and> dev w' = d)) \<and>
     (\<forall>k a w. dev (UpsertAddress U k a w) = dev w) \<and> (\<forall>k w. dev (RemoveActivity U k w) = dev w))"

definition v4_config :: "wg_config \<Rightarrow> bool" where
  "v4_config c = wf_config (c\<lparr>wc_Peers := map (\<lambda>p. p\<lparr>pc_Remove := False\<rparr>) (wc_Peers c)\<rparr>)"

definition ctl_serves :: "'w ctl_env \<Rightarrow> string \<Rightarrow> ('w \<Rightarrow> uapi_dev) \<Rightarrow> bool" where
  "ctl_serves K name dev = (key_laws K \<and> (\<forall>w. ctl_New K w = None) \<and>
     (\<forall>w. ctl_Device K name w = Inr (ctl_device_of K name (dev w))) \<and>
     (\<forall>c w. v4_config c \<longrightarrow>
        (\<exists>w'. ctl_ConfigureDevice K name c w = (None, w') \<and> dev w' = dev_apply_config c (dev w))))"

lemma wf_config_v4: "wf_config c \<Longrightarrow> v4_config c"
proof -
  assume "wf_config c"
  then have "map (\<lambda>p. p\<lparr>pc_Remove := False\<rparr>) (wc_Peers c) = wc_Peers c"
    by (intro map_idI) (auto simp: wf_config_def wf_peer_config_def list_all_iff)
  then show ?thesis using \<open>wf_config c\<close> by (simp add: v4_config_def)
qed

lemma remove_config_v4: "length k = 32 \<Longrightarrow> v4_config (remove_peer_config k)"
  by (simp add: v4_config_def wf_config_def wf_peer_config_def op_configs)

text \<open>The interface: what a client of a configurer may rely on, and any sequence of operations as its consequence.\<close>

locale device_configurer =
  fixes C :: "'w configurer" and dev :: "'w \<Rightarrow> uapi_dev" and served :: bool
  assumes op_refines: "\<lbrakk>served; wf_dev (dev w); length k = 32; op_ok op k (dev w)\<rbrakk> \<Longrightarrow>
    \<exists>w'. configurer_op C op (base64_EncodeToString k) w = (None, w') \<and> dev w' = dev_op op k (dev w)"
begin

lemma run_refines:
  assumes "served" and "if_configurer i = Some C" and "wf_dev (dev w)" and "ops_ok ops (dev w)"
  shows "\<exists>w'. iface_run i (map (\<lambda>(op, k). (op, base64_EncodeToString k)) ops) w = (replicate (length ops) None, w') \<and>
    dev w' = dev_run ops (dev w) \<and> wf_dev (dev w')"
  using assms(3,4)
proof (induction ops arbitrary: w)
  case Nil
  then show ?case by (simp add: dev_run_def)
next
  case (Cons a ops)
  obtain op k where a: "a = (op, k)" by (cases a)
  then obtain w1 where w1: "configurer_op C op (base64_EncodeToString k) w = (None, w1)" "dev w1 = dev_op op k (dev w)"
    using op_refines [OF assms(1), of w k op] Cons.prems by auto
  moreover have "wf_dev (dev w1)" using w1(2) wf_dev_op [of "dev w" k op] Cons.prems a by simp
  ultimately show ?case
    using Cons.IH [of w1] Cons.prems(2) a by (auto simp: iface_op_configurer [OF assms(2)] dev_run_def)
qed

end

lemma usp_send:
  assumes "uapi_serves U dev" and "wf_config c"
  shows "\<exists>w'. IpcSet U (toWgUserspaceString c) w = (None, w') \<and> dev w' = dev_apply_config (without_UpdateOnly c) (dev w)"
  using assms uapi_set_config [OF assms(2), of "dev w"] by (simp add: uapi_serves_def)

lemma usp_send_remove:
  assumes "uapi_serves U dev" and "length k = 32"
  shows "\<exists>w'. IpcSet U (toWgUserspaceString (remove_peer_config k)) w = (None, w') \<and> dev w' = drop_peer k (dev w)"
  using assms uapi_set_remove [OF assms(2), of "dev w"] by (simp add: uapi_serves_def)

lemma dev_apply_present:
  "pc_PublicKey c \<in> set (dev_keys d) \<Longrightarrow>
   dev_apply_config (without_UpdateOnly (peers_config [c])) d = dev_apply_config (peers_config [c]) d"
  by (simp add: without_UpdateOnly_def dev_apply_config_def peers_config_def with_option_def dev_apply_peer_def
      peer_update_def)

lemma without_UpdateOnly_id:
  "without_UpdateOnly (update_config k ips ka ep psk) = update_config k ips ka ep psk"
  "without_UpdateOnly (readd_peer_config k ns) = readd_peer_config k ns"
  by (simp_all add: without_UpdateOnly_def op_configs)

lemma allowed_present: "a \<in> set (allowed_of d k) \<Longrightarrow> k \<in> set (dev_keys d)"
  by (auto simp: allowed_of_def dev_keys_def)

lemma usp_find_peer:
  assumes "key_laws U" and "k \<in> set (dev_keys d)" and "wf_dev d"
  shows "\<exists>p. find_peer (base64_EncodeToString k) (st_Peers (parseStatus U n (uapi_text d))) = Some p \<and>
    wp_AllowedIPs p = map cidr_net (allowed_of d k)"
proof -
  obtain p where p: "p \<in> set (ud_peers d)" "up_key p = k" using find_peer_key [OF assms(2)] by blast
  have "find_peer (base64_EncodeToString k) (map (peer_status_of U) ps) =
      map_option (peer_status_of U) (List.find (\<lambda>q. up_key q = k) ps)" for ps
    using assms(1) by (induction ps) (auto simp: peer_status_of_def key_laws_def)
  moreover have "List.find (\<lambda>q. up_key q = k) (ud_peers d) = Some p"
    using find_distinct_key [of up_key "ud_peers d" p] p assms(3) by (auto simp: wf_dev_def dev_keys_def)
  moreover have "allowed_of d k = up_allowed p"
    using allowed_of_peer [of d p] p assms(3) by (auto simp: wf_dev_def dev_keys_def)
  ultimately show ?thesis
    using assms(3) by (simp add: wf_dev_def parseStatus_reads status_of_def) (simp add: peer_status_of_def)
qed

lemma v4_endpoint_ParseAddr:
  "v4_endpoint e \<Longrightarrow> \<exists>a. ParseAddr (IP_String (udp_IP e)) = Inr a"
  by (auto simp: v4_endpoint_def IP_String_def IP_To4_def)

lemma usp_UpdatePeer_refines:
  assumes "uapi_serves U dev" and "length k = 32" and "op_ok (OpUpdatePeer ips ka ep psk) k (dev w)"
  shows "\<exists>w'. usp_UpdatePeer U (base64_EncodeToString k) ips ka ep psk w = (None, w') \<and>
    dev w' = dev_op (OpUpdatePeer ips ka ep psk) k (dev w)"
proof -
  have key: "ParseKey U (base64_EncodeToString k) = Inr k"
    using assms(1,2) by (simp add: uapi_serves_def key_laws_def)
  obtain w1 where w1: "IpcSet U (toWgUserspaceString (update_config k ips ka ep psk)) w = (None, w1)"
      "dev w1 = dev_op (OpUpdatePeer ips ka ep psk) k (dev w)"
    using usp_send [OF assms(1) wf_op_configs(1) [OF assms(2,3)], of w] apply_update_config [OF assms(3)]
    by (auto simp: without_UpdateOnly_id)
  have ep: "\<exists>w'. (case ep of None \<Rightarrow> (None, w1) | Some e \<Rightarrow> (case ParseAddr (IP_String (udp_IP e)) of
       Inl er \<Rightarrow> (Some (ErrWrap ''failed to parse endpoint address'' er), w1)
     | Inr a \<Rightarrow> (None, UpsertAddress U (base64_EncodeToString k) (a, word_of_int (udp_Port e)) w1))) = (None, w') \<and>
     dev w' = dev w1"
    using assms(1,3) v4_endpoint_ParseAddr by (cases ep) (fastforce simp: uapi_serves_def)+
  show ?thesis
    using ep w1 by (simp add: usp_UpdatePeer_def key update_config_def Let_def)
qed

lemma usp_AddAllowedIP_refines:
  assumes "uapi_serves U dev" and "length k = 32" and "op_ok (OpAddAllowedIP p) k (dev w)"
  shows "\<exists>w'. usp_AddAllowedIP U (base64_EncodeToString k) p w = (None, w') \<and>
    dev w' = dev_op (OpAddAllowedIP p) k (dev w)"
proof -
  have key: "ParseKey U (base64_EncodeToString k) = Inr k"
    using assms(1,2) by (simp add: uapi_serves_def key_laws_def)
  have "dev_apply_config (without_UpdateOnly (add_ip_config k p)) (dev w) = dev_op (OpAddAllowedIP p) k (dev w)"
    using dev_apply_present apply_add_ip_config [OF assms(3)] assms(3) by (simp add: add_ip_config_def empty_peer_config_def)
  then show ?thesis
    using usp_send [OF assms(1) wf_op_configs(2) [OF assms(2)], of p w] assms(3)
    by (simp add: usp_AddAllowedIP_def key add_ip_config_def)
qed

lemma usp_RemoveAllowedIP_refines:
  assumes "uapi_serves U dev" and "length k = 32" and "wf_dev (dev w)" and "op_ok (OpRemoveAllowedIP p) k (dev w)"
  shows "\<exists>w'. usp_RemoveAllowedIP U (base64_EncodeToString k) p w = (None, w') \<and>
    dev w' = dev_op (OpRemoveAllowedIP p) k (dev w)"
proof -
  let ?c = "replace_allowed_config k (map cidr_net (filter (\<lambda>x. x \<noteq> pfx_cidr p) (allowed_of (dev w) k)))"
  have key: "ParseKey U (base64_EncodeToString k) = Inr k" and get: "IpcGet U w = Inr (uapi_text (dev w))"
    using assms(1,2) by (simp_all add: uapi_serves_def key_laws_def)
  have "usp_RemoveAllowedIP U (base64_EncodeToString k) p w = IpcSet U (toWgUserspaceString ?c) w"
    using usp_RemoveAllowedIP_device [OF _ _ get key, of "fst (pfx_cidr p)" "snd (pfx_cidr p)"] assms(3,4)
      v4_prefix_cidr(4) [of p] by (simp add: wf_dev_def dev_keys_def)
  moreover have "wf_config ?c"
    using allowed_of_facts(1) [OF assms(3), of k] by (intro wf_op_configs(3) assms(2)) (auto simp: list_all_iff)
  moreover have "dev_apply_config (without_UpdateOnly ?c) (dev w) = dev_op (OpRemoveAllowedIP p) k (dev w)"
    using dev_apply_present apply_replace_config [OF assms(3,4)] allowed_present [of "pfx_cidr p" "dev w" k] assms(4)
    by (simp add: replace_allowed_config_def empty_peer_config_def)
  ultimately show ?thesis using usp_send [OF assms(1), of ?c w] by simp
qed

lemma usp_RemovePeer_refines:
  assumes "uapi_serves U dev" and "length k = 32"
  shows "\<exists>w'. usp_RemovePeer U (base64_EncodeToString k) w = (None, w') \<and> dev w' = drop_peer k (dev w)"
proof -
  have key: "ParseKey U (base64_EncodeToString k) = Inr k" and act: "\<And>s v. dev (RemoveActivity U s v) = dev v"
    using assms by (simp_all add: uapi_serves_def key_laws_def)
  show ?thesis
    using usp_send_remove [OF assms, of w] by (auto simp: usp_RemovePeer_def key act)
qed

lemma usp_RemoveEndpointAddress_refines:
  assumes "uapi_serves U dev" and "length k = 32" and "wf_dev (dev w)" and "k \<in> set (dev_keys (dev w))"
  shows "\<exists>w'. usp_RemoveEndpointAddress U n (base64_EncodeToString k) w = (None, w') \<and>
    dev w' = dev_op OpRemoveEndpointAddress k (dev w)"
proof -
  have laws: "key_laws U" and key: "ParseKey U (base64_EncodeToString k) = Inr k"
    and get: "IpcGet U w = Inr (uapi_text (dev w))"
    using assms(1,2) by (simp_all add: uapi_serves_def key_laws_def)
  obtain p where p: "find_peer (base64_EncodeToString k) (st_Peers (parseStatus U n (uapi_text (dev w)))) = Some p"
      "wp_AllowedIPs p = map cidr_net (allowed_of (dev w) k)"
    using usp_find_peer [OF laws assms(4,3)] by blast
  obtain w1 where w1: "IpcSet U (toWgUserspaceString (remove_peer_config k)) w = (None, w1)" "dev w1 = drop_peer k (dev w)"
    using usp_send_remove [OF assms(1,2)] by blast
  obtain w2 where "IpcSet U (toWgUserspaceString (readd_peer_config k (wp_AllowedIPs p))) w1 = (None, w2)"
      "dev w2 = dev_op OpRemoveEndpointAddress k (dev w)"
    using usp_send [OF assms(1) wf_op_configs(4) [OF assms(2) allowed_of_facts(1) [OF assms(3)]], of k w1]
      apply_readd_config [OF assms(3), of k] p(2) w1(2) by (auto simp: without_UpdateOnly_id)
  then show ?thesis by (simp add: usp_RemoveEndpointAddress_def key get p(1) w1(1))
qed

interpretation usp_dev: device_configurer "NewUSPConfigurer U n" dev "uapi_serves U dev" for U n dev
proof
  fix w k op assume "uapi_serves U dev" "wf_dev (dev w)" "length k = 32" "op_ok op k (dev w)"
  then show "\<exists>w'. configurer_op (NewUSPConfigurer U n) op (base64_EncodeToString k) w = (None, w') \<and>
      dev w' = dev_op op k (dev w)"
    using usp_UpdatePeer_refines usp_AddAllowedIP_refines usp_RemoveAllowedIP_refines usp_RemovePeer_refines
      usp_RemoveEndpointAddress_refines
    by (cases op) (simp_all del: op_ok.simps add: NewUSPConfigurer_def, simp_all)
qed

lemma kernel_send:
  assumes "ctl_serves K name dev" and "v4_config c"
  shows "\<exists>w'. configure_ctx m K name c w = (None, w') \<and> dev w' = dev_apply_config c (dev w)"
proof -
  have "ctl_ready K name w" using assms(1) by (simp add: ctl_serves_def ctl_ready_def)
  then show ?thesis using assms by (simp add: ctl_serves_def configure_ctx_None)
qed

lemma kernel_peer_present:
  assumes "ctl_serves K name dev" and "k \<in> set (dev_keys (dev w))" and "wf_dev (dev w)"
  shows "\<exists>p. kernel_getPeer K name (base64_EncodeToString k) w = Inr p \<and>
    cp_AllowedIPs p = map cidr_net (allowed_of (dev w) k)"
proof -
  obtain p where p: "p \<in> set (ud_peers (dev w))" "up_key p = k" using find_peer_key [OF assms(2)] by blast
  have "List.find (\<lambda>q. up_key q = k) (ud_peers (dev w)) = Some p"
    using find_distinct_key [of up_key "ud_peers (dev w)" p] p assms(3) by (auto simp: wf_dev_def dev_keys_def)
  moreover have "allowed_of (dev w) k = up_allowed p"
    using allowed_of_peer [of "dev w" p] p assms(3) by (auto simp: wf_dev_def dev_keys_def)
  ultimately show ?thesis
    using kernel_getPeer_of [of K w name "dev w" k] assms(1)
    by (simp add: ctl_serves_def key_laws_def ctl_peer_of_def)
qed

lemma kernel_op_refines:
  assumes "ctl_serves K name dev" and "wf_dev (dev w)" and "length k = 32" and "op_ok op k (dev w)"
  shows "\<exists>w'. configurer_op (NewKernelConfigurer K name) op (base64_EncodeToString k) w = (None, w') \<and>
    dev w' = dev_op op k (dev w)"
proof -
  have key: "ParseKey K (base64_EncodeToString k) = Inr k"
    using assms(1,3) by (simp add: ctl_serves_def key_laws_def)
  note send = kernel_send [OF assms(1) wf_config_v4]
  note defs = NewKernelConfigurer_def key
  show ?thesis
  proof (cases op)
    case (OpUpdatePeer ips ka ep psk)
    then show ?thesis
      using send [OF wf_op_configs(1) [OF assms(3)], of ips ka ep psk "dev w" _ w] assms(4)
        apply_update_config [of ips ka ep psk k "dev w"]
      by (simp del: dev_op.simps op_ok.simps add: defs kernel_UpdatePeer_def update_config_def)
  next
    case OpRemoveEndpointAddress
    then obtain p where p: "kernel_getPeer K name (base64_EncodeToString k) w = Inr p"
        "cp_AllowedIPs p = map cidr_net (allowed_of (dev w) k)"
      using kernel_peer_present [OF assms(1) _ assms(2)] assms(4) by auto
    obtain w1 where w1: "configure_ctx ''error removing peer'' K name (remove_peer_config k) w = (None, w1)"
        "dev w1 = drop_peer k (dev w)"
      using kernel_send [OF assms(1) remove_config_v4 [OF assms(3)]] by (metis apply_remove_config)
    show ?thesis
      using send [OF wf_op_configs(4) [OF assms(3) allowed_of_facts(1) [OF assms(2)]], of "''error re-adding peer''" k w1]
        apply_readd_config [OF assms(2), of k] w1 p OpRemoveEndpointAddress
      by (simp del: dev_op.simps add: defs kernel_RemoveEndpointAddress_def)
  next
    case OpRemovePeer
    then show ?thesis
      using kernel_send [OF assms(1) remove_config_v4 [OF assms(3)], of "''received error while removing peer''" w]
      by (simp add: defs kernel_RemovePeer_def apply_remove_config)
  next
    case (OpAddAllowedIP p)
    then show ?thesis
      using send [OF wf_op_configs(2) [OF assms(3)], of p _ w] apply_add_ip_config [of p k "dev w"] assms(4)
      by (simp add: defs kernel_AddAllowedIP_def add_ip_config_def)
  next
    case (OpRemoveAllowedIP p)
    let ?as = "filter (\<lambda>x. x \<noteq> pfx_cidr p) (allowed_of (dev w) k)"
    have v4: "v4_prefix p" and ok: "op_ok (OpRemoveAllowedIP p) k (dev w)"
      using assms(4) OpRemoveAllowedIP by simp_all
    obtain q where q: "kernel_getPeer K name (base64_EncodeToString k) w = Inr q"
        "cp_AllowedIPs q = map cidr_net (allowed_of (dev w) k)"
      using kernel_peer_present [OF assms(1) allowed_present [of "pfx_cidr p"] assms(2)] ok by auto
    have "IPNet_String (prefixToIPNet p) = cidr_text (pfx_cidr p)"
      using v4_net_String v4_prefix_cidr [OF v4] by simp
    then have "drop_first_ip (IPNet_String (prefixToIPNet p)) (cp_AllowedIPs q) = map cidr_net ?as"
      using drop_first_cidr [OF allowed_of_facts(1,2) [OF assms(2)]] q(2) by simp
    moreover have "list_all masked_cidr ?as"
      using allowed_of_facts(1) [OF assms(2), of k] by (auto simp: list_all_iff)
    ultimately show ?thesis
      using send [OF wf_op_configs(3) [OF assms(3)], of ?as "''remove allowed IP''" w] q(1) OpRemoveAllowedIP
        apply_replace_config [OF assms(2) ok]
      by (simp add: defs kernel_RemoveAllowedIP_def)
  qed
qed

interpretation kernel_dev: device_configurer "NewKernelConfigurer K name" dev "ctl_serves K name dev" for K name dev
  by unfold_locales (rule kernel_op_refines)

section \<open>Properties\<close>


text \<open>C3. Both configurers implement the same specification: any sequence of peer operations the device can hold succeeds on an
  interface over either configurer, step by step, and leaves both devices in the state \<open>dev_run\<close> describes, which is
  again well formed.\<close>

theorem configurers_refine_device:
  assumes "uapi_serves U udev" and "ctl_serves K name kdev" and "udev w = d" and "kdev v = d"
    and "wf_dev d" and "ops_ok ops d"
  shows "\<exists>w' v'.
    iface_run (i\<lparr>if_configurer := Some (NewUSPConfigurer U name)\<rparr>)
      (map (\<lambda>(op, k). (op, base64_EncodeToString k)) ops) w = (replicate (length ops) None, w') \<and>
    iface_run (j\<lparr>if_configurer := Some (NewKernelConfigurer K name)\<rparr>)
      (map (\<lambda>(op, k). (op, base64_EncodeToString k)) ops) v = (replicate (length ops) None, v') \<and>
    udev w' = dev_run ops d \<and> kdev v' = dev_run ops d \<and> wf_dev (dev_run ops d)"
  using usp_dev.run_refines [OF assms(1), of "i\<lparr>if_configurer := Some (NewUSPConfigurer U name)\<rparr>" name w ops]
    kernel_dev.run_refines [OF assms(2), of "j\<lparr>if_configurer := Some (NewKernelConfigurer K name)\<rparr>" v ops] assms(3-6)
  by auto

lemma interface_config_v4:
  "length k = 32 \<Longrightarrow> 0 \<le> port \<Longrightarrow> port < 65536 \<Longrightarrow> 0 \<le> mark \<Longrightarrow> mark < 2 ^ 32 \<Longrightarrow>
   wf_config (interface_config k mark port)"
  by (simp add: wf_config_def interface_config_def)

lemma apply_interface_config:
  "dev_apply_config (interface_config k mark port) d =
   \<lparr>ud_private = k, ud_port = nat port, ud_fwmark = nat mark, ud_peers = []\<rparr>"
  "without_UpdateOnly (interface_config k mark port) = interface_config k mark port"
  by (simp_all add: dev_apply_config_def interface_config_def with_option_def without_UpdateOnly_def)

text \<open>Configuring the interface, on either configurer: the device starts over with the private key, the port and the
  control plane's mark, and no peer.\<close>

theorem ConfigureInterface_device:
  assumes "uapi_serves U udev" and "ctl_serves K name kdev" and "length k = 32" and "0 \<le> port" and "port < 65536"
    and "getFwmark U = mark" and "getFwmark K = mark" and "0 \<le> mark" and "mark < 2 ^ 32"
  shows "\<exists>w' v'. usp_ConfigureInterface U (base64_EncodeToString k) port w = (None, w') \<and>
    kernel_ConfigureInterface K name (base64_EncodeToString k) port v = (None, v') \<and>
    udev w' = \<lparr>ud_private = k, ud_port = nat port, ud_fwmark = nat mark, ud_peers = []\<rparr> \<and> kdev v' = udev w'"
proof -
  have wf: "wf_config (interface_config k mark port)" using assms by (intro interface_config_v4)
  have key: "ParseKey U (base64_EncodeToString k) = Inr k" "ParseKey K (base64_EncodeToString k) = Inr k"
    using assms(1-3) by (simp_all add: uapi_serves_def ctl_serves_def key_laws_def)
  obtain w' where "IpcSet U (toWgUserspaceString (interface_config k mark port)) w = (None, w')"
      "udev w' = \<lparr>ud_private = k, ud_port = nat port, ud_fwmark = nat mark, ud_peers = []\<rparr>"
    using usp_send [OF assms(1) wf, of w] by (auto simp: apply_interface_config)
  moreover obtain v' where "configure_ctx ''received error while configuring interface'' K name
        (interface_config k mark port) v = (None, v')"
      "kdev v' = \<lparr>ud_private = k, ud_port = nat port, ud_fwmark = nat mark, ud_peers = []\<rparr>"
    using kernel_send [OF assms(2) wf_config_v4 [OF wf], of "''received error while configuring interface''" v]
    by (auto simp: apply_interface_config)
  ultimately show ?thesis
    using assms(6,7) by (simp add: usp_ConfigureInterface_def kernel_ConfigureInterface_def key)
qed

section \<open>Where the operations depart from their intent\<close>

text \<open>Removing the endpoint of a peer takes it out and adds it again with its allowed networks only: its pre-shared key,
  its keep-alive interval and its counters are gone, on both configurers.\<close>

theorem RemoveEndpointAddress_forgets:
  assumes "uapi_serves U udev" and "ctl_serves K name kdev" and "udev w = d" and "kdev v = d"
    and "wf_dev d" and "length k = 32" and "k \<in> set (dev_keys d)"
  shows "\<exists>w' v'. usp_RemoveEndpointAddress U name (base64_EncodeToString k) w = (None, w') \<and>
    kernel_RemoveEndpointAddress K name (base64_EncodeToString k) v = (None, v') \<and> kdev v' = udev w' \<and>
    filter (\<lambda>p. up_key p = k) (ud_peers (udev w')) = [(fresh_peer k)\<lparr>up_allowed := allowed_of d k\<rparr>]"
proof -
  have "filter (\<lambda>p. up_key p = k) (ud_peers (dev_op OpRemoveEndpointAddress k d)) =
      [(fresh_peer k)\<lparr>up_allowed := allowed_of d k\<rparr>]"
    by (simp add: drop_peer_def fresh_peer_def)
  then show ?thesis
    using usp_dev.op_refines [OF assms(1), of w k OpRemoveEndpointAddress name]
      kernel_dev.op_refines [OF assms(2), of v k OpRemoveEndpointAddress] assms(3-7)
    by (auto simp del: dev_op.simps simp: NewUSPConfigurer_def NewKernelConfigurer_def)
qed

text \<open>Adding an allowed network to a peer the device does not have: the kernel configurer leaves the device as it is,
  the userspace configurer creates the peer, because the text never says \<^verbatim>\<open>update_only\<close>.\<close>

theorem AddAllowedIP_absent_peer:
  assumes "uapi_serves U udev" and "ctl_serves K name kdev" and "udev w = d" and "kdev v = d"
    and "length k = 32" and "k \<notin> set (dev_keys d)" and "v4_prefix p"
  shows "\<exists>w' v'. usp_AddAllowedIP U (base64_EncodeToString k) p w = (None, w') \<and>
    kernel_AddAllowedIP K name (base64_EncodeToString k) p v = (None, v') \<and> kdev v' = d \<and>
    udev w' = give_ip k (mask_cidr (pfx_cidr p)) (ensure_peer k d)"
proof -
  have key: "ParseKey U (base64_EncodeToString k) = Inr k" "ParseKey K (base64_EncodeToString k) = Inr k"
    using assms(1,2,5) by (simp_all add: uapi_serves_def ctl_serves_def key_laws_def)
  have wf: "wf_config (add_ip_config k p)" using assms(5,7) by (rule wf_op_configs)
  have "dev_apply_config (add_ip_config k p) d = d"
    using assms(6) by (simp add: add_ip_config_def apply_one_peer dev_apply_peer_def empty_peer_config_def)
  moreover have "dev_apply_config (without_UpdateOnly (add_ip_config k p)) d =
      give_ip k (mask_cidr (pfx_cidr p)) (ensure_peer k d)"
    using assms(7) by (simp add: without_UpdateOnly_def op_configs dev_apply_config_def dev_apply_peer_def
      peer_update_def with_option_def v4_prefix_cidr)
  ultimately show ?thesis
    using usp_send [OF assms(1) wf, of w] kernel_send [OF assms(2) wf_config_v4 [OF wf],
      of "''received error while adding allowed Ip to peer''" v] assms(3,4)
    by (auto simp: usp_AddAllowedIP_def kernel_AddAllowedIP_def key add_ip_config_def)
qed

text \<open>The line that removes a peer has no line end of its own, so the text of a configuration that says anything after a
  removal is refused: the device has no key \<^verbatim>\<open>remove\<close> with such a value.\<close>

theorem remove_glues_next_line:
  assumes "length k = 32"
  shows "uapi_set (toWgUserspaceString (peers_config (empty_peer_config\<lparr>pc_PublicKey := k, pc_Remove := True\<rparr> # c # cs))) d
    = None"
proof -
  let ?ls = "[kv ''public_key'' (hex_EncodeToString k),
     kv ''remove'' (''true'' @ kv ''public_key'' (hex_EncodeToString (pc_PublicKey c)))]"
  obtain rest where "toWgUserspaceString (peers_config (empty_peer_config\<lparr>pc_PublicKey := k, pc_Remove := True\<rparr> # c # cs)) =
      text_lines ?ls @ rest"
    by (simp add: toWgUserspaceString_def peers_config_def empty_peer_config_def toWgUserspacePeer_def kv_def)
  moreover have "strings_Split (CHR 0x0A) (text_lines ?ls @ rest) = ?ls @ strings_Split (CHR 0x0A) rest"
    by (rule strings_Split_text_lines) (auto simp: kv_def)
  ultimately show ?thesis using assms by (simp add: uapi_set_def uapi_entry_def uapi_peer_key_def)
qed

section \<open>Witnesses\<close>

text \<open>Environments whose world is the device itself, and a sequence with every operation on the sample device.\<close>

definition live_usp :: "uapi_dev usp_env" where
  "live_usp = \<lparr>ParseKey = sample_ParseKey, Key_String = base64_EncodeToString, Key_PublicKey = id,
     AdvancedRouting = True, GOOS_linux = True, ControlPlaneMark = 0x1BD00,
     IpcSet = (\<lambda>t d. case uapi_set t d of None \<Rightarrow> (Some (ErrMsg ''invalid UAPI line''), d) | Some d' \<Rightarrow> (None, d')),
     IpcGet = (\<lambda>d. Inr (uapi_text d)), UpsertAddress = (\<lambda>k a d. d), RemoveActivity = (\<lambda>k d. d),
     GetLastActivities = (\<lambda>d. Map.empty)\<rparr>"

definition live_ctl :: "uapi_dev ctl_env" where
  "live_ctl = \<lparr>ParseKey = sample_ParseKey, Key_String = base64_EncodeToString, Key_PublicKey = id,
     AdvancedRouting = True, GOOS_linux = True, ControlPlaneMark = 0x1BD00, ctl_New = (\<lambda>d. None),
     ctl_Device = (\<lambda>n d. Inr (ctl_device_of live_usp n d)),
     ctl_ConfigureDevice = (\<lambda>n c d. (None, dev_apply_config c d))\<rparr>"

lemma live_serves: "uapi_serves live_usp id" "ctl_serves live_ctl name id"
  by (simp_all add: uapi_serves_def ctl_serves_def key_laws_def live_usp_def live_ctl_def ctl_device_of_def)

definition sample_ops :: "(peer_op \<times> wgkey) list" where
  "sample_ops =
     [(OpUpdatePeer [Prefix (Addr4 0x64400004) 32] 25000000000
         (Some \<lparr>udp_IP = [10, 0, 0, 4], udp_Port = 51820, udp_Zone = []\<rparr>) (Some (sample_key 7)), sample_key 4),
      (OpAddAllowedIP (Prefix (Addr4 0x0A010203) 16), sample_key 4),
      (OpRemoveAllowedIP (Prefix (Addr4 0x64400002) 32), sample_key 2),
      (OpRemoveEndpointAddress, sample_key 4),
      (OpRemovePeer, sample_key 3)]"

lemma pred_option_eval [code]: "pred_option P None = True" "pred_option P (Some x) = P x"
  by simp_all

lemma live_device_facts: "wf_dev sample_device" "ops_ok sample_ops sample_device"
  by code_simp+


theorem configurers_refine_device_witness:
  "\<exists>w' v'. iface_run (\<lparr>if_configurer = Some (NewUSPConfigurer live_usp ''wt0''), if_filter = None :: unit option,
       if_userspaceBind = True\<rparr>) (map (\<lambda>(op, k). (op, base64_EncodeToString k)) sample_ops) sample_device =
     ([None, None, None, None, None], w') \<and>
   iface_run (\<lparr>if_configurer = Some (NewKernelConfigurer live_ctl ''wt0''), if_filter = None :: unit option,
       if_userspaceBind = False\<rparr>) (map (\<lambda>(op, k). (op, base64_EncodeToString k)) sample_ops) sample_device =
     ([None, None, None, None, None], v') \<and> w' = v' \<and> w' = dev_run sample_ops sample_device"
proof -
  have "length sample_ops = 5" by (simp add: sample_ops_def)
  then show ?thesis
    using configurers_refine_device [OF live_serves(1) live_serves(2) [of "''wt0''"] _ _ live_device_facts, of
      sample_device sample_device "\<lparr>if_configurer = None, if_filter = None :: unit option, if_userspaceBind = True\<rparr>"
      "\<lparr>if_configurer = None, if_filter = None :: unit option, if_userspaceBind = False\<rparr>"]
    by (simp add: numeral_eq_Suc)
qed

end
