(* ===== verification/Spec2Isabelle.thy ===== *)
theory Spec2Isabelle
  imports Client_Doubles Cmd_Daemon Engine_Shutdown Helper_Main Kernel_Modules Mini_Client Rest_Client Uapi_Socket Wg_Device
begin

text \<open>
  A verification development of the NetBird client under \<^verbatim>\<open>src/\<close>: a peer of a WireGuard mesh that is told by a management
  service which peers, routes and name servers it has, negotiates connections with its peers through a signal service, and
  configures the WireGuard device and the routing of the host accordingly.

  \<^bold>\<open>The parts and how they interact.\<close>
  The connect client (\<^verbatim>\<open>go/internal/connect.go\<close>) logs in at the management service, opens the clients of both services, creates
  the engine and starts over after errors. The management client (\<^verbatim>\<open>go/management/client/grpc.go\<close>) hands the messages of the
  management stream to \<^verbatim>\<open>Engine.handleSync\<close>; the signal client (\<^verbatim>\<open>go/signal/client\<close>) hands the messages of other peers to the
  handler of \<^verbatim>\<open>Engine.receiveSignalEvents\<close>. The engine (\<^verbatim>\<open>go/internal/engine.go\<close>) compares each network map with what it has
  and updates its peer connections, the route manager (\<^verbatim>\<open>go/internal/routemanager/manager.go\<close>), the firewall, DNS and the
  WireGuard interface (\<^verbatim>\<open>go/iface\<close>). The interface object works through one of two configurers, the text protocol of a
  userspace device or the kernel module; the route manager works through the system routing (\<^verbatim>\<open>systemops\<close>). The kernel modules
  are looked up and loaded by \<^verbatim>\<open>go/iface/device\<close>. The commands (\<^verbatim>\<open>go/cmd\<close>) validate their options, build requests from them and call
  the daemon, or run the connect client in the foreground. Three programs stand beside the client: a helper daemon
  (\<^verbatim>\<open>helper\<close>) that receives the network map on its own and writes it into two files, a mini client (\<^verbatim>\<open>go/miniclient\<close>) that applies one
  network map with the tools of the system, and a REST client of the management service (\<^verbatim>\<open>go/management/client/rest\<close>).

  \<^bold>\<open>The theories.\<close>
  \<^item> \<open>Prelude\<close>: errors and results, loops that stop at the first error, list lemmas.
  \<^item> \<open>Go_Strings\<close>, \<open>Go_Codec\<close>, \<open>Go_Netip\<close>, \<open>Go_Path\<close>, \<open>Go_Json\<close>, \<open>Go_Url\<close>, \<open>Go_Flag\<close>: what the program uses of Go's \<^verbatim>\<open>strings\<close>, \<^verbatim>\<open>strconv\<close>,
    \<^verbatim>\<open>encoding/hex\<close>, \<^verbatim>\<open>encoding/base64\<close>, \<^verbatim>\<open>net/netip\<close>, \<^verbatim>\<open>net\<close>, \<^verbatim>\<open>path/filepath\<close>, \<^verbatim>\<open>encoding/json\<close>, \<^verbatim>\<open>net/url\<close> and \<^verbatim>\<open>flag\<close>, with the round trips of
    printers and parsers. The locale \<open>json_struct\<close> is the contract of a struct that is stored as JSON.
  \<^item> \<open>Wg_Uapi\<close>, \<open>Wg_Kernel\<close>: the two configurers (\<^verbatim>\<open>configurer/usp.go\<close>, \<^verbatim>\<open>kernel_unix.go\<close>). \<open>Wg_Iface\<close>: the interface object over the
    locale \<open>wg_configurer\<close>, which both configurers interpret. \<open>Wg_Device\<close>: what the configurers do to a device; the
    locale \<open>device_configurer\<close> is the contract of a configurer with the abstract operations \<open>dev_op\<close>, interpreted on both. \<open>Uapi_Socket\<close>: the socket for external tools (\<^verbatim>\<open>uapi.go\<close>).
  \<^item> \<open>System_Ops\<close>: policy rules, VPN routes and routing tables (\<^verbatim>\<open>systemops.go\<close>, \<^verbatim>\<open>systemops_linux.go\<close>). \<open>Route_Manager\<close>: the route
    manager over it.
  \<^item> \<open>Engine_Convert\<close>, \<open>Engine_Peers\<close>, \<open>Engine_Sync\<close>, \<open>Engine_Signal\<close>, \<open>Engine_Lifecycle\<close>: the engine, from its pure conversions to
    start and stop; \<open>engine_step\<close> is the step relation of all its operations. \<open>Engine_Shutdown\<close>: the wait at the end of \<^verbatim>\<open>Stop\<close>, step relation
    \<open>wait_step\<close>, and the accessors.
  \<^item> \<open>Grpc_Client\<close>: what both gRPC clients share, with the contract of the retry loop. \<open>Signal_Client\<close>: the signal client and its
    goroutines, step relation \<open>sig_step\<close>. \<open>Mgmt_Client\<close>: the management client; the locale \<open>forward_handler\<close> is its contract with
    the handler, interpreted on the engine's. \<open>Client_Doubles\<close>: the test doubles of both clients (\<^verbatim>\<open>mock.go\<close>) and their retry policy.
  \<^item> \<open>Connect_Client\<close>: the outer loop, composed of the engine and both clients.
  \<^item> \<open>Kernel_Modules\<close>: modules and links of the kernel (\<^verbatim>\<open>kernel_module_linux.go\<close>, \<^verbatim>\<open>wg_link_linux.go\<close>).
  \<^item> \<open>Cmd_Options\<close>: validation of options and filters, and the three requests built from the flags; \<open>Cmd_Daemon\<close>: the commands up, down and
    status with the sequence of their calls to the daemon (\<^verbatim>\<open>cmd/up.go\<close>, \<^verbatim>\<open>down.go\<close>, \<^verbatim>\<open>status.go\<close>).
  \<^item> \<open>Helper_Daemon\<close>: the helper (\<^verbatim>\<open>helper/crypto.go\<close>, \<^verbatim>\<open>management.go\<close>, \<^verbatim>\<open>main.go\<close>); \<open>Helper_Main\<close>: its \<^verbatim>\<open>main\<close>, its
    JSON files and \<^verbatim>\<open>test_encryption.go\<close>. \<open>Mini_Client\<close>: the mini client, all its files.
  \<^item> \<open>Rest_Client\<close>: the REST client; the locale \<open>rest_collection\<close> is the interface of a collection, interpreted on nine of them.
  \<^item> This theory: a signal message on its way from one engine to the other.

  \<^bold>\<open>How code is modelled.\<close>
  A struct is a record, an enumeration a datatype, a method a function that takes the state and returns it changed.
  A function that returns \<^verbatim>\<open>error\<close> returns \<open>go_error option\<close>, one that returns a value and an error \<open>'a result\<close>. A run-time panic (nil
  dereference, index out of range, \<^verbatim>\<open>MustParse\<close>) is the value \<open>None\<close> of an enclosing option type in every function that can
  reach one. Fixed-width integers are words. A Go map whose order matters is an association list with distinct keys, so that a
  theorem for every list holds for every iteration order. A mutex held for a whole method makes the method one step.
  Packages outside the repository are the fields of an environment record (\<open>usp_env\<close>, \<open>ctl_env\<close>, \<open>tun_env\<close>, \<open>nl_env\<close>, \<open>rm_env\<close>, \<open>peer_env\<close>,
  \<open>eng_env\<close>, \<open>sig_env\<close>, \<open>life_env\<close>, \<open>sc_env\<close>, \<open>mg_env\<close>, \<open>cn_env\<close>, \<open>km_env\<close>, \<open>link_env\<close>, \<open>hp_env\<close>, \<open>up_env\<close>, \<open>fg_env\<close>, \<open>mn_env\<close>, \<open>re_env\<close>, \<open>ua_env\<close>, \<open>tun_objects\<close>, \<open>state_files\<close>) over an arbitrary type \<open>'w\<close> of their states; what a
  theorem needs of them is a named predicate (\<open>store_laws\<close>, \<open>status_laws\<close>, \<open>retry_contract\<close>, \<open>cipher_laws\<close>, \<open>box_laws\<close>, \<open>file_laws\<close>,
  \<open>addr_laws\<close>, \<open>kernel_loads\<close>, \<open>state_laws\<close>, \<open>quiet_pause\<close>, \<open>disk_laws\<close>, \<open>same_box\<close>, \<open>url_laws\<close>, \<open>keeps_objects\<close>, \<open>socket_laws\<close>,
  \<open>uapi_serves\<close>, \<open>ctl_serves\<close>), and each of those holds for a concrete environment in the witnesses. Logging is left out.

  \<^bold>\<open>Loops, bounds and fuel.\<close>
  Loops over lists are structural recursions; stripping file extensions ends because the name gets shorter; the polling
  loop that waits for an interface to vanish has the number of polls of the code, and sending a signal message its four
  attempts. The receiving loops of the two management clients and the accepting loop of the socket are \<open>partial_function\<close>s and \<open>None\<close>
  when the stream never ends; \<open>receiveEvents_returns\<close> and \<open>accept_loop_iff\<close> show when they return. The JSON parser takes fuel, twice the length
  of the text; \<open>parse_value_fuel\<close> shows that more changes nothing. Parsing flags ends because arguments are used up. A retry loop is an argument with the contract \<open>retry_contract\<close>; the stub
  mode of the helper takes the number of its ticks.

  \<^bold>\<open>What the theorems show.\<close>
  The engine: applying a map leaves exactly the peers and routes of the map, revoked peers are dropped even when an update fails
  half way, the serial never decreases, outdated maps change nothing, a failed start leaves no device, no well-formed message makes a
  started engine panic, stopping closes everything
  and ends within its time limit. Routing: updates keep networks and watchers in agreement, a user's selection is
  kept, a failed set-up cleans up, routes can be removed again. The configurers: both readers return what the device printed,
  the text written for a configuration has its effect on a device, and both configurers implement the same operations of a device over
  any sequence of calls. The clients: an offer arrives at the other engine with what was put in, the signal client refines a queue, releases its waiters and bounds its attempts; the
  management stream is handled completely and in order and never moves the engine backwards; the outer loop ends with the right
  status and without a leftover device. The commands: the daemon is told to connect only after a login, requests carry the options given and nothing else,
  accepted options have the documented forms. The helper: messages round-trip, files are replaced atomically and
  hold JSON that reads back as the peers and routes of the map. The mini client: its
  configuration survives the file, applying it runs a fixed plan, its messages are those of the helper. The REST client: its
  collections implement a store, impersonation changes the account only, tokens are not mixed up. Where the code falls short
  of its intent a theorem or lemma says exactly how.

  \<^bold>\<open>Not modelled.\<close>
  Generated protocol code is left out; the messages are records of the fields the code reads. The registration of flags with the command library, the texts of hints and
  warnings, and what programs print are left out, except for the status lines of the mini client. The types of the REST API are not in
  the repository; their encodings are arguments. The C client is in another language. Options for Android and iOS, and what a
  goroutine does between two steps, are left out where the theories say so. Time limits are passed on as numbers, time itself does
  not pass in the model.
\<close>

section \<open>A message from one engine to the other\<close>

text \<open>What the receiving engine should be told of an offer or an answer: the arguments \<^verbatim>\<open>MarshalCredential\<close> was called with.\<close>

definition offered :: "('w, 'c) sig_env \<Rightarrow> int \<Rightarrow> credential \<Rightarrow> byte list \<Rightarrow> string \<Rightarrow> string \<Rightarrow> byte list option \<Rightarrow> string \<Rightarrow> offer_answer" where
  "offered S port cred rk ra rs sid v = \<lparr>oa_IceCredentials = cred, oa_WgListenPort = port, oa_Version = v,
     oa_RosenpassPubKey = rk, oa_RosenpassAddr = ra, oa_RelaySrvAddress = rs,
     oa_SessionID = (case sid of None \<Rightarrow> None | Some bs \<Rightarrow> (case ICESessionIDFromBytes S bs of Inl _ \<Rightarrow> None | Inr i \<Rightarrow> Some i))\<rparr>"

lemma convert_Marshal:
  assumes "CHR '':'' \<notin> set (cr_UFrag cred)" and "CHR '':'' \<notin> set (cr_Pwd cred)" and "0 \<le> port" and "port < 2 ^ 32"
  shows "\<exists>b. sm_Body (MarshalCredential k port r cred t rk ra rs sid v) = Some b \<and> sb_Type b = t \<and>
    convertToOfferAnswer S (MarshalCredential k port r cred t rk ra rs sid v) b = Inr (offered S port cred rk ra rs sid v)"
proof -
  have "UnMarshalCredential (MarshalCredential k port r cred t rk ra rs sid v) = Inr cred"
    using assms(1,2) UnMarshal_Marshal by blast
  moreover have "uint (word_of_int port :: 32 word) = port" using assms(3,4) by (simp add: uint_word_of_int)
  ultimately show ?thesis
    by (auto simp: convertToOfferAnswer_def offered_def) (auto simp: MarshalCredential_def)
qed

lemma handleSignal_Marshal:
  assumes "CHR '':'' \<notin> set (cr_UFrag cred)" and "CHR '':'' \<notin> set (cr_Pwd cred)" and "0 \<le> port" and "port < 2 ^ 32"
    and "PeerConn P k v = Some conn" and "t = OFFER \<or> t = ANSWER"
  shows "handleSignal P S rm (MarshalCredential k port r cred t rk ra rs sid ver) v =
    Some (None, (if t = OFFER then OnRemoteOffer else OnRemoteAnswer) S conn (offered S port cred rk ra rs sid ver) (ActivatePeer S conn v))"
proof -
  obtain b where "sm_Body (MarshalCredential k port r cred t rk ra rs sid ver) = Some b" "sb_Type b = t"
    "convertToOfferAnswer S (MarshalCredential k port r cred t rk ra rs sid ver) b = Inr (offered S port cred rk ra rs sid ver)"
    using convert_Marshal [OF assms(1-4)] by blast
  moreover have "sm_Key (MarshalCredential k port r cred t rk ra rs sid ver) = k" by (simp add: MarshalCredential_def)
  ultimately show ?thesis using assms(5,6) by (auto simp: handleSignal_def Let_def)
qed

lemma Send_accepted:
  assumes "sc_Ready E c" and "encryptMessage E (sc_key c) msg (sc_world c) = (Inr em, w1)"
    and "rpc_Send E 10 em w1 = (None, w2)"
  shows "sc_Send E c msg = (None, c\<lparr>sc_world := w2\<rparr>)"
  using assms by (simp add: sc_Send_def ConnectTimeout_def numeral_eq_Suc has_code_def)

text \<open>C4. Signalling end to end: when the service accepts an offer or answer that one engine sends, and hands it to the worker of the
  engine it is addressed to, that worker's next turn gives the connection of the sender exactly the credentials, port, version,
  Rosenpass data, relay address and session the sender put in.\<close>

theorem signalling_end_to_end:
  assumes "cipher_laws E" and "sc_Ready E c" and "sc_key c = a"
    and "msg = MarshalCredential (sc_KeyString E (sc_PublicKey E a)) port (sc_KeyString E (sc_PublicKey E b)) cred t rk ra rs sid ver"
    and "t = OFFER \<or> t = ANSWER" and "CHR '':'' \<notin> set (cr_UFrag cred)" and "CHR '':'' \<notin> set (cr_Pwd cred)"
    and "0 \<le> port" and "port < 2 ^ 32"
    and "encryptMessage E a msg (sc_world c) = (Inr em, w1)" and "rpc_Send E 10 em w1 = (None, w2)"
    and "wk_encryptedMsgPool k = [em]" and "\<And>m u r. handleSignal P S rm m u = Some r \<Longrightarrow> wk_handler k m u = r"
    and "PeerConn P (sc_KeyString E (sc_PublicKey E a)) v = Some conn"
  shows "sc_Send E c msg = (None, c\<lparr>sc_world := w2\<rparr>) \<and>
    Work_turn (decryptMessage E b) k v = Some (em, k\<lparr>wk_encryptedMsgPool := []\<rparr>,
      (if t = OFFER then OnRemoteOffer else OnRemoteAnswer) S conn (offered S port cred rk ra rs sid ver) (ActivatePeer S conn v))"
proof
  show "sc_Send E c msg = (None, c\<lparr>sc_world := w2\<rparr>)"
    using Send_accepted [OF assms(2)] assms(3,10,11) by simp
  have "decryptMessage E b em = Inr msg"
    using signal_message_roundtrip [OF assms(1), of msg a b] assms(4,10) by (simp add: MarshalCredential_def)
  moreover have "wk_handler k msg v = (None, (if t = OFFER then OnRemoteOffer else OnRemoteAnswer) S conn
      (offered S port cred rk ra rs sid ver) (ActivatePeer S conn v))"
    unfolding assms(4) using assms by (intro assms(13) handleSignal_Marshal)
  ultimately show "Work_turn (decryptMessage E b) k v = Some (em, k\<lparr>wk_encryptedMsgPool := []\<rparr>,
      (if t = OFFER then OnRemoteOffer else OnRemoteAnswer) S conn (offered S port cred rk ra rs sid ver) (ActivatePeer S conn v))"
    using assms(12) by (simp add: Work_turn_def)
qed

definition relay_cred :: credential where
  "relay_cred = \<lparr>cr_UFrag = ''frag'', cr_Pwd = ''pwd''\<rparr>"

definition relay_key :: "nat \<Rightarrow> string" where
  "relay_key n = base64_EncodeToString (replicate 32 (word_of_nat n))"

definition relay_offer :: sig_message where
  "relay_offer = MarshalCredential (relay_key 1) 51820 (relay_key 2) relay_cred OFFER [] [] ''rels://r'' None ''0.1''"

text \<open>A service that keeps the messages it accepts, and a box for the one body of the sample offer.\<close>

definition relay_env :: "(enc_message list, unit) sc_env" where
  "relay_env = demo_sc_env\<lparr>rpc_Send := (\<lambda>t m w. (None, w @ [m])),
     EncryptMessage := (\<lambda>remote k b w. (if b = sm_Body relay_offer then Inr [1, 2, 3] else Inl (ErrMsg ''body''), w)),
     DecryptMessage := (\<lambda>remote k bs. Inr (the (sm_Body relay_offer)))\<rparr>"

definition relay_enc :: enc_message where
  "relay_enc = \<lparr>em_Key = relay_key 1, em_RemoteKey = relay_key 2, em_Body = [1, 2, 3]\<rparr>"

definition relay_worker :: "((string \<times> conn_config) list) worker" where
  "relay_worker = \<lparr>wk_handler = (\<lambda>m u. case handleSignal sample_peers sample_sig (None :: (sample_world, sample_kernel) dm option) m u of
       None \<Rightarrow> (None, u) | Some r \<Rightarrow> r), wk_encryptedMsgPool = [relay_enc]\<rparr>"

definition relay_conn :: conn_config where
  "relay_conn = snd (hd sample_store)"

lemma relay_cipher_laws: "cipher_laws relay_env"
  by (auto simp: cipher_laws_def relay_env_def demo_sc_env_def relay_offer_def MarshalCredential_def split: if_splits)

lemma relay_env_sel:
  "sc_KeyString relay_env = base64_EncodeToString" "sc_PublicKey relay_env = (\<lambda>k. k)"
  "rpc_Send relay_env t m w = (None, w @ [m])" "sc_Ready relay_env (Signal_Client.demo_client w)"
  by (simp_all add: relay_env_def demo_sc_env_def sc_Ready_def Signal_Client.demo_client_def)

lemma relay_encrypts: "encryptMessage relay_env (replicate 32 1) relay_offer w = (Inr relay_enc, w)"
  by (simp add: encryptMessage_def relay_env_def demo_sc_env_def relay_enc_def relay_offer_def relay_key_def MarshalCredential_def)

theorem signalling_end_to_end_witness:
  "sc_Send relay_env ((Signal_Client.demo_client [])\<lparr>sc_key := replicate 32 1\<rparr>) relay_offer =
     (None, (Signal_Client.demo_client [])\<lparr>sc_key := replicate 32 1, sc_world := [relay_enc]\<rparr>) \<and>
   Work_turn (decryptMessage relay_env (replicate 32 2)) relay_worker [(relay_key 1, relay_conn)] =
     Some (relay_enc, relay_worker\<lparr>wk_encryptedMsgPool := []\<rparr>,
       OnRemoteOffer sample_sig relay_conn (offered sample_sig 51820 relay_cred [] [] ''rels://r'' None ''0.1'')
         (ActivatePeer sample_sig relay_conn [(relay_key 1, relay_conn)]))"
proof -
  let ?c = "(Signal_Client.demo_client [])\<lparr>sc_key := replicate 32 1\<rparr>"
  have "sc_Ready relay_env ?c" "sc_key ?c = replicate 32 1" "sc_world ?c = []"
    using relay_env_sel(4) [of "[]"] by (simp_all add: sc_Ready_def Signal_Client.demo_client_def)
  moreover have "PeerConn sample_peers (relay_key 1) [(relay_key 1, relay_conn)] = Some relay_conn" by (simp add: sample_peers_def)
  ultimately show ?thesis
    using signalling_end_to_end [OF relay_cipher_laws, where c = ?c and a = "replicate 32 1" and b = "replicate 32 2"
        and msg = relay_offer and port = 51820 and cred = relay_cred and t = OFFER and rk = "[]" and ra = "[]" and rs = "''rels://r''"
        and sid = None and ver = "''0.1''" and em = relay_enc and k = relay_worker and P = sample_peers and S = sample_sig
        and rm = "None :: (sample_world, sample_kernel) dm option" and v = "[(relay_key 1, relay_conn)]" and conn = relay_conn]
      relay_encrypts [of "[]"]
    by (simp add: relay_env_sel relay_offer_def relay_key_def relay_cred_def relay_worker_def)
qed

end
